(* ===== verification/RE_Prelude.thy ===== *)
theory RE_Prelude
  imports Main "HOL-Library.Sublist"
begin

text \<open>
  Shared vocabulary of the Release Engine development.

  Go strings are byte strings; the model uses \<^typ>\<open>string\<close> and its case and space functions
  are those of the ASCII range (\<^const>\<open>String.ascii_of\<close> characters), which is the range every
  literal of the source lies in. Times are integers in nanoseconds, as \<open>time.Duration\<close> and
  \<open>time.Time.UnixNano\<close> are. Dynamically typed Go values (\<open>any\<close>, \<open>map[string]any\<close>) are
  values of \<open>go_any\<close>, whose constructors are the dynamic types the source's type assertions
  can tell apart. Finite maps whose content is inspected by the source are association lists.
\<close>

section \<open>Collections of facts used by the component proofs\<close>

named_theorems db_frame
  \<open>which tables an operation leaves unchanged\<close>
named_theorems row_update
  \<open>what a row update does to one row\<close>

section \<open>Time\<close>

type_synonym time = int
type_synonym duration = int

abbreviation second :: duration where
  "second \<equiv> 1000000000"

abbreviation minute :: duration where
  "minute \<equiv> 60 * second"

abbreviation hour :: duration where
  "hour \<equiv> 3600 * second"

text \<open>Integer division of Go truncates towards zero.\<close>

definition go_quot :: "int \<Rightarrow> int \<Rightarrow> int" where
  "go_quot a b = sgn a * sgn b * (\<bar>a\<bar> div \<bar>b\<bar>)"

section \<open>Strings: the parts of Go's package strings the source calls\<close>

definition is_space :: "char \<Rightarrow> bool" where
  "is_space c \<longleftrightarrow> c \<in> {CHR '' '', CHR 0x09, CHR 0x0A, CHR 0x0B, CHR 0x0C, CHR 0x0D}"

definition trim_space :: "string \<Rightarrow> string" where
  "trim_space s = rev (dropWhile is_space (rev (dropWhile is_space s)))"

definition lower_char :: "char \<Rightarrow> char" where
  "lower_char c = (let n = of_char c :: nat in
     if 65 \<le> n \<and> n \<le> 90 then char_of (n + 32) else c)"

definition to_lower :: "string \<Rightarrow> string" where
  "to_lower s = map lower_char s"

definition upper_char :: "char \<Rightarrow> char" where
  "upper_char c = (let n = of_char c :: nat in
     if 97 \<le> n \<and> n \<le> 122 then char_of (n - 32) else c)"

definition to_upper :: "string \<Rightarrow> string" where
  "to_upper s = map upper_char s"

definition equal_fold :: "string \<Rightarrow> string \<Rightarrow> bool" where
  "equal_fold a b \<longleftrightarrow> to_lower a = to_lower b"

definition has_prefix :: "string \<Rightarrow> string \<Rightarrow> bool" where
  "has_prefix s p \<longleftrightarrow> take (length p) s = p"

definition trim_prefix :: "string \<Rightarrow> string \<Rightarrow> string" where
  "trim_prefix s p = (if has_prefix s p then drop (length p) s else s)"

fun contains_sub :: "string \<Rightarrow> string \<Rightarrow> bool" where
  "contains_sub [] p = (p = [])"
| "contains_sub (c # s) p = (has_prefix (c # s) p \<or> contains_sub s p)"

text \<open>\<open>strings.Split\<close> at a one-character separator; the result is never empty.\<close>

fun split_on :: "char \<Rightarrow> string \<Rightarrow> string list" where
  "split_on d [] = [[]]"
| "split_on d (c # s) =
     (if c = d then [] # split_on d s
      else (case split_on d s of [] \<Rightarrow> [[c]] | w # ws \<Rightarrow> (c # w) # ws))"

fun join_with :: "string \<Rightarrow> string list \<Rightarrow> string" where
  "join_with sep [] = []"
| "join_with sep [w] = w"
| "join_with sep (w # ws) = w @ sep @ join_with sep ws"

lemma has_prefix_iff: "has_prefix s p \<longleftrightarrow> (\<exists>t. s = p @ t)"
  unfolding has_prefix_def by (metis append_eq_conv_conj append_take_drop_id)

lemma has_prefix_append [simp]: "has_prefix (p @ t) p"
  by (simp add: has_prefix_def)

lemma trim_prefix_append [simp]: "trim_prefix (p @ t) p = t"
  by (simp add: trim_prefix_def)

lemma contains_sub_iff: "contains_sub s p \<longleftrightarrow> (\<exists>a b. s = a @ p @ b)"
proof (induction s)
  case Nil
  then show ?case by simp
next
  case (Cons c s)
  show ?case
  proof
    assume "contains_sub (c # s) p"
    then consider "has_prefix (c # s) p" | "contains_sub s p" by auto
    then show "\<exists>a b. c # s = a @ p @ b"
    proof cases
      case 1
      then show ?thesis by (metis append_Nil has_prefix_iff)
    next
      case 2
      then show ?thesis by (metis Cons.IH append_Cons)
    qed
  next
    assume "\<exists>a b. c # s = a @ p @ b"
    then obtain a b where ab: "c # s = a @ p @ b" by blast
    show "contains_sub (c # s) p"
    proof (cases a)
      case Nil
      then have "has_prefix (c # s) p" using ab by (auto simp: has_prefix_iff)
      then show ?thesis by simp
    next
      case (Cons x a')
      then show ?thesis using ab Cons.IH by auto
    qed
  qed
qed

lemma split_on_nonempty [simp]: "split_on d s \<noteq> []"
  by (induction s) (auto split: list.splits)

lemma join_split [simp]: "join_with [d] (split_on d s) = s"
proof (induction s)
  case Nil
  then show ?case by simp
next
  case (Cons c s)
  obtain w ws where ws: "split_on d s = w # ws"
    by (metis neq_Nil_conv split_on_nonempty)
  show ?case using Cons ws by (cases ws) auto
qed

lemma split_on_no_sep: "w \<in> set (split_on d s) \<Longrightarrow> d \<notin> set w"
  by (induction s arbitrary: w) (auto split: list.splits if_splits)

lemma first_sep_unique:
  "x @ c # a = y @ c # b \<Longrightarrow> c \<notin> set x \<Longrightarrow> c \<notin> set y \<Longrightarrow> x = y \<and> a = b"
proof (induction x arbitrary: y)
  case Nil
  then show ?case by (cases y) auto
next
  case (Cons d x)
  then show ?case by (cases y) auto
qed

lemma last_sep_unique:
  assumes "a @ [c] @ x = b @ [c] @ y" "c \<notin> set x" "c \<notin> set y"
  shows "a = b \<and> x = y"
proof -
  have "rev x @ c # rev a = rev y @ c # rev b"
    using arg_cong [OF assms(1), of rev] by simp
  then show ?thesis using assms(2,3) first_sep_unique [of "rev x" c "rev a" "rev y" "rev b"]
    by simp
qed

lemma trim_space_Nil [simp]: "trim_space [] = []"
  by (simp add: trim_space_def)

lemma trim_space_empty_iff: "trim_space s = [] \<longleftrightarrow> (\<forall>c \<in> set s. is_space c)"
  by (auto simp: trim_space_def dropWhile_eq_Nil_conv dest: set_dropWhileD)
    (metis dropWhile_append3 dropWhile_eq_Nil_conv set_rev takeWhile_dropWhile_id
      set_takeWhileD append_Nil2 in_set_conv_decomp rev_rev_ident Un_iff set_append)

lemma trim_space_idem [simp]: "trim_space (trim_space s) = trim_space s"
proof -
  have d: "dropWhile is_space (dropWhile is_space t) = dropWhile is_space t" for t
    by (induction t) auto
  let ?u = "dropWhile is_space s"
  have "dropWhile is_space (rev (dropWhile is_space (rev ?u))) = rev (dropWhile is_space (rev ?u))"
  proof (cases "rev (dropWhile is_space (rev ?u))")
    case (Cons x xs)
    have "rev (dropWhile is_space (rev ?u)) @ rev (takeWhile is_space (rev ?u)) = ?u"
      by (metis rev_append rev_rev_ident takeWhile_dropWhile_id)
    with Cons have u: "?u = x # xs @ rev (takeWhile is_space (rev ?u))" by simp
    then have "\<not> is_space x" by (metis hd_dropWhile list.discI list.sel(1))
    then show ?thesis using Cons by simp
  next
    case Nil
    then show ?thesis by (simp only: Nil) simp
  qed
  then show ?thesis by (simp add: trim_space_def d)
qed

section \<open>Numbers and durations as text\<close>

fun nat_str :: "nat \<Rightarrow> string" where
  "nat_str n = (if n < 10 then [char_of (48 + n)] else nat_str (n div 10) @ [char_of (48 + n mod 10)])"

definition int_str :: "int \<Rightarrow> string" where
  "int_str i = (if i < 0 then CHR ''-'' # nat_str (nat (- i)) else nat_str (nat i))"

text \<open>The verb \<open>%q\<close> of package fmt, for printable ASCII.\<close>

definition go_quote :: "string \<Rightarrow> string" where
  "go_quote s = [CHR 0x22] @ concat (map (\<lambda>c. if c = CHR 0x22 \<or> c = CHR 0x5C then [CHR 0x5C, c]
     else [c]) s) @ [CHR 0x22]"

definition is_digit :: "char \<Rightarrow> bool" where
  "is_digit c \<longleftrightarrow> (let n = of_char c :: nat in 48 \<le> n \<and> n \<le> 57)"

definition digits_val :: "string \<Rightarrow> nat" where
  "digits_val s = foldl (\<lambda>a c. a * 10 + (of_char c - 48)) 0 s"

text \<open>
  \<open>time.ParseDuration\<close>: an optional sign and a sequence of decimal numbers, each with a unit.
  Integer parts, units and the 64-bit range are exact; a fractional part is truncated to
  nanoseconds with exact arithmetic, where Go multiplies in double precision.
\<close>

definition unit_ns :: "string \<Rightarrow> nat option" where
  "unit_ns u = map_of [(''ns'', 1), (''us'', 1000), (''ms'', 1000000), (''s'', 1000000000),
     (''m'', 60000000000), (''h'', 3600000000000)] u"

definition parse_duration_part :: "string \<Rightarrow> (nat \<times> string) option" where
  "parse_duration_part s =
     (let whole = takeWhile is_digit s;
          s1 = dropWhile is_digit s;
          dot = (s1 \<noteq> [] \<and> hd s1 = CHR ''.'');
          frac = (if dot then takeWhile is_digit (tl s1) else []);
          s2 = (if dot then dropWhile is_digit (tl s1) else s1);
          u = takeWhile (\<lambda>c. c \<noteq> CHR ''.'' \<and> \<not> is_digit c) s2;
          s3 = dropWhile (\<lambda>c. c \<noteq> CHR ''.'' \<and> \<not> is_digit c) s2
      in if whole = [] \<and> frac = [] then None
         else map_option (\<lambda>n. (digits_val whole * n + digits_val frac * n div 10 ^ length frac, s3))
           (unit_ns u))"

fun parse_duration_parts :: "nat \<Rightarrow> string \<Rightarrow> nat \<Rightarrow> nat option" where
  "parse_duration_parts 0 s acc = None"
| "parse_duration_parts (Suc k) s acc =
     (if s = [] then Some acc
      else case parse_duration_part s of
        None \<Rightarrow> None
      | Some (v, rest) \<Rightarrow>
          if 9223372036854775808 < acc + v then None else parse_duration_parts k rest (acc + v))"

definition parse_duration :: "string \<Rightarrow> duration option" where
  "parse_duration s =
     (let neg = (s \<noteq> [] \<and> hd s = CHR ''-'');
          s1 = (if s \<noteq> [] \<and> (hd s = CHR ''-'' \<or> hd s = CHR ''+'') then tl s else s)
      in if s1 = ''0'' then Some 0
         else if s1 = [] then None
         else case parse_duration_parts (Suc (length s1)) s1 0 of
           None \<Rightarrow> None
         | Some d \<Rightarrow> if neg then Some (- int d)
             else if 9223372036854775807 < d then None else Some (int d))"

section \<open>Dynamically typed Go values\<close>

text \<open>
  One constructor per dynamic type that a type assertion of the source distinguishes:
  \<open>map[string]any\<close>, \<open>map[string]string\<close>, \<open>[]any\<close>, \<open>[]string\<close> and \<open>[]map[string]any\<close>
  are different types in Go, and an assertion to one fails on a value of another. Floating-point
  literals are kept as the pair numerator, denominator.
\<close>

datatype go_any =
    GNil
  | GStr string
  | GInt int
  | GFloat int int
  | GBool bool
  | GTime time
  | GMap "(string \<times> go_any) list"
  | GStrMap "(string \<times> string) list"
  | GList "go_any list"
  | GStrList "string list"
  | GMapList "(string \<times> go_any) list list"

type_synonym go_map = "(string \<times> go_any) list"

text \<open>\<open>m[k]\<close> on a \<open>map[string]any\<close>: the zero value \<open>nil\<close> when the key is absent.\<close>

definition go_get :: "go_map \<Rightarrow> string \<Rightarrow> go_any" where
  "go_get m k = (case map_of m k of None \<Rightarrow> GNil | Some v \<Rightarrow> v)"

text \<open>\<open>m[k] = v\<close>.\<close>

fun alist_put :: "'k \<Rightarrow> 'v \<Rightarrow> ('k \<times> 'v) list \<Rightarrow> ('k \<times> 'v) list" where
  "alist_put k v [] = [(k, v)]"
| "alist_put k v ((k', v') # m) =
     (if k = k' then (k, v) # m else (k', v') # alist_put k v m)"

lemma map_of_alist_put [simp]: "map_of (alist_put k v m) = (map_of m)(k \<mapsto> v)"
  by (induction m) (auto simp: fun_eq_iff)

lemma keys_alist_put [simp]: "fst ` set (alist_put k v m) = insert k (fst ` set m)"
  by (induction k v m rule: alist_put.induct) auto

lemma distinct_alist_put [simp]:
  "distinct (map fst m) \<Longrightarrow> distinct (map fst (alist_put k v m))"
  by (induction k v m rule: alist_put.induct) auto

lemma alist_put_fresh: "k \<notin> fst ` set m \<Longrightarrow> alist_put k v m = m @ [(k, v)]"
  by (induction k v m rule: alist_put.induct) auto

lemma go_get_put [simp]: "go_get (alist_put k v m) k' = (if k' = k then v else go_get m k')"
  by (simp add: go_get_def)

text \<open>Type assertions \<open>v, ok := x.(T)\<close>.\<close>

fun as_string :: "go_any \<Rightarrow> string option" where
  "as_string (GStr s) = Some s" | "as_string _ = None"

fun as_bool :: "go_any \<Rightarrow> bool option" where
  "as_bool (GBool b) = Some b" | "as_bool _ = None"

fun as_map :: "go_any \<Rightarrow> go_map option" where
  "as_map (GMap m) = Some m" | "as_map _ = None"

fun as_list :: "go_any \<Rightarrow> go_any list option" where
  "as_list (GList xs) = Some xs" | "as_list _ = None"

fun as_str_map :: "go_any \<Rightarrow> (string \<times> string) list option" where
  "as_str_map (GStrMap m) = Some m" | "as_str_map _ = None"

text \<open>\<open>s, _ := x.(string)\<close>: the zero value when the assertion fails.\<close>

definition string_or_empty :: "go_any \<Rightarrow> string" where
  "string_or_empty v = (case as_string v of None \<Rightarrow> [] | Some s \<Rightarrow> s)"

definition bool_or_false :: "go_any \<Rightarrow> bool" where
  "bool_or_false v = (case as_bool v of None \<Rightarrow> False | Some b \<Rightarrow> b)"

section \<open>Rows of a table\<close>

text \<open>
  A table is the list of its rows in physical order. An \<open>UPDATE ... WHERE P\<close> changes every
  row that satisfies \<open>P\<close> and reports their number.
\<close>

definition update_rows :: "('r \<Rightarrow> bool) \<Rightarrow> ('r \<Rightarrow> 'r) \<Rightarrow> 'r list \<Rightarrow> 'r list" where
  "update_rows P f rows = map (\<lambda>r. if P r then f r else r) rows"

definition rows_affected :: "('r \<Rightarrow> bool) \<Rightarrow> 'r list \<Rightarrow> nat" where
  "rows_affected P rows = length (filter P rows)"

lemma rows_affected_0 [simp]: "rows_affected P rows = 0 \<longleftrightarrow> (\<forall>r \<in> set rows. \<not> P r)"
  by (auto simp: rows_affected_def filter_empty_conv)

lemma rows_affected_pos: "r \<in> set rows \<Longrightarrow> P r \<Longrightarrow> 0 < rows_affected P rows"
  by (metis gr0I rows_affected_0)

lemma update_rows_noop: "(\<And>r. r \<in> set rows \<Longrightarrow> \<not> P r) \<Longrightarrow> update_rows P f rows = rows"
  by (auto simp: update_rows_def intro: map_idI)

lemma update_rows_keys [simp]:
  "(\<And>r. k (f r) = k r) \<Longrightarrow> map k (update_rows P f rows) = map k rows"
  by (auto simp: update_rows_def)

lemma in_update_rows:
  "r' \<in> set (update_rows P f rows) \<longleftrightarrow>
     (\<exists>r \<in> set rows. r' = (if P r then f r else r))"
  by (auto simp: update_rows_def)

lemma length_update_rows [simp]: "length (update_rows P f rows) = length rows"
  by (simp add: update_rows_def)

lemma find_update_rows:
  assumes "\<And>r. key (f r) = key r"
  shows "List.find (\<lambda>r. key r = k) (update_rows P f rows)
       = map_option (\<lambda>r. if P r then f r else r) (List.find (\<lambda>r. key r = k) rows)"
  by (induction rows) (auto simp: update_rows_def assms)

lemma find_Some_in: "List.find P xs = Some x \<Longrightarrow> x \<in> set xs \<and> P x"
  by (auto simp: find_Some_iff)

lemma find_none: "List.find P xs = None \<longleftrightarrow> (\<forall>x \<in> set xs. \<not> P x)"
  by (auto simp: find_None_iff)

lemma singleton_list:
  assumes "distinct xs" "x \<in> set xs" "\<And>y. y \<in> set xs \<Longrightarrow> y = x"
  shows "xs = [x]"
proof (cases xs)
  case Nil
  then show ?thesis using assms(2) by simp
next
  case (Cons y ys)
  then have y: "y = x" using assms(3) by simp
  have "ys = []"
  proof (rule ccontr)
    assume "ys \<noteq> []"
    then have "hd ys \<in> set ys" by simp
    moreover from this have "hd ys = x" using Cons by (intro assms(3)) simp
    ultimately show False using assms(1) Cons y by simp
  qed
  then show ?thesis using Cons y by simp
qed

lemma find_distinct_key:
  assumes "distinct (map key rows)" "r \<in> set rows"
  shows "List.find (\<lambda>x. key x = key r) rows = Some r"
  using assms by (induction rows) auto

end
