(* ===== verification/Job_Store.thy ===== *)
theory Job_Store
  imports RE_Prelude
begin

text \<open>
  The PostgreSQL schema of \<open>src/internal/db/schema.go\<close>: the enumerations and tables the engine
  reads and writes, their check and unique constraints, and the SQL function
  \<open>backoff_interval\<close>. A table is the list of its rows in physical order; a \<open>NULL\<close> column is
  \<open>None\<close>. A statement that breaks a constraint returns the constraint's name and leaves the
  database as it was.
\<close>

section \<open>Enumerations\<close>

datatype job_state = Queued | Running | Succeeded | Failed | Jobs_exhausted | Canceled

datatype step_status = Step_ok | Step_error | Step_skipped | Waiting_approval

datatype approval_decision = Approved | Rejected | Expired

datatype outbox_kind = Webhook | Event | Internal

text \<open>The states in which a job is finished and no transition of the engine starts.\<close>

definition terminal :: "job_state \<Rightarrow> bool" where
  "terminal st \<longleftrightarrow> st \<in> {Succeeded, Failed, Jobs_exhausted, Canceled}"

section \<open>Rows\<close>

record backoff_policy =
  base_seconds :: "int option"
  max_seconds :: "int option"

record job_row =
  j_id :: string
  j_tenant_id :: string
  j_path_key :: string
  j_idempotency_key :: string
  j_params_json :: go_any
  j_schedule :: "string option"
  j_state :: job_state
  j_attempt :: int
  j_max_attempts :: int
  j_backoff_policy :: backoff_policy
  j_owner_id :: "string option"
  j_run_id :: string
  j_lease_expires_at :: "time option"
  j_next_run_at :: "time option"
  j_accepted_at :: time
  j_cancel_requested_at :: "time option"
  j_cancel_reason :: "string option"
  j_last_error_code :: "string option"
  j_last_error_message :: "string option"
  j_created_by :: "string option"
  j_created_at :: time
  j_started_at :: "time option"
  j_finished_at :: "time option"
  j_updated_at :: time

record jobs_read_row =
  r_id :: string
  r_tenant_id :: string
  r_path_key :: string
  r_state :: job_state
  r_attempt :: int
  r_max_attempts :: int
  r_schedule :: "string option"
  r_owner_id :: "string option"
  r_run_id :: string
  r_lease_expires_at :: "time option"
  r_next_run_at :: "time option"
  r_accepted_at :: "time option"
  r_last_error_code :: "string option"
  r_last_error_message :: "string option"
  r_started_at :: "time option"
  r_finished_at :: "time option"
  r_created_at :: time
  r_updated_at :: time

record outbox_row =
  o_tenant_id :: string
  o_job_id :: "string option"
  o_kind :: outbox_kind
  o_payload_json :: go_map
  o_delivery_state :: string
  o_attempt :: int
  o_max_attempts :: int
  o_next_run_at :: "time option"

record step_row =
  s_id :: int
  s_job_id :: string
  s_run_id :: string
  s_attempt :: int
  s_step_key :: string
  s_status :: step_status
  s_output_json :: "go_map option"
  s_error_code :: "string option"
  s_error_message :: "string option"
  s_started_at :: time
  s_finished_at :: "time option"
  s_approval_request :: "go_map option"
  s_approval_ttl :: "duration option"
  s_approval_expires_at :: "time option"

record decision_row =
  d_id :: string
  d_job_id :: string
  d_step_id :: int
  d_run_id :: string
  d_decision :: approval_decision
  d_approver :: string
  d_justification :: "string option"
  d_idempotency_key :: string
  d_created_at :: time

record idem_row =
  i_tenant_id :: string
  i_path_key :: string
  i_idempotency_key :: string
  i_payload_fingerprint :: string
  i_status_code :: int
  i_response_body :: go_map
  i_job_id :: string
  i_accepted_at :: time
  i_expires_at :: time

record db =
  jobs :: "job_row list"
  jobs_read :: "jobs_read_row list"
  outbox :: "outbox_row list"
  steps :: "step_row list"
  steps_seq :: int
  approval_decisions :: "decision_row list"
  idempotency_keys :: "idem_row list"

definition empty_db :: db where
  "empty_db = \<lparr>jobs = [], jobs_read = [], outbox = [], steps = [], steps_seq = 1,
     approval_decisions = [], idempotency_keys = []\<rparr>"

section \<open>Check constraints\<close>

text \<open>\<open>idem_key_format_ck\<close>: 1 to 128 characters of the class \<open>[a-zA-Z0-9\-_.]\<close>.\<close>

definition idem_key_char :: "char \<Rightarrow> bool" where
  "idem_key_char c \<longleftrightarrow> (let n = of_char c :: nat in
     (97 \<le> n \<and> n \<le> 122) \<or> (65 \<le> n \<and> n \<le> 90) \<or> (48 \<le> n \<and> n \<le> 57)
     \<or> c = CHR ''-'' \<or> c = CHR ''_'' \<or> c = CHR ''.'')"

definition idem_key_format_ck :: "string \<Rightarrow> bool" where
  "idem_key_format_ck k \<longleftrightarrow>
     1 \<le> length k \<and> length k \<le> 128 \<and> k \<noteq> [] \<and> list_all idem_key_char k"

definition jobs_attempts_ck :: "job_row \<Rightarrow> bool" where
  "jobs_attempts_ck j \<longleftrightarrow> 0 \<le> j_attempt j \<and> 1 \<le> j_max_attempts j"

section \<open>Unique keys and inserts\<close>

definition find_job :: "string \<Rightarrow> db \<Rightarrow> job_row option" where
  "find_job i d = List.find (\<lambda>j. j_id j = i) (jobs d)"

datatype constraint_error =
    Jobs_pkey | Jobs_tenant_idem_uidx | Jobs_attempts_ck | Idem_key_format_ck
  | Jobs_read_pkey | Idempotency_keys_unique
  | Uq_approval_per_approver | Uq_idempotency | Fk_violation

definition insert_job :: "job_row \<Rightarrow> db \<Rightarrow> constraint_error + db" where
  "insert_job j d =
     (if \<not> jobs_attempts_ck j then Inl Jobs_attempts_ck
      else if \<not> idem_key_format_ck (j_idempotency_key j) then Inl Idem_key_format_ck
      else if (\<exists>x \<in> set (jobs d). j_id x = j_id j) then Inl Jobs_pkey
      else if (\<exists>x \<in> set (jobs d). j_tenant_id x = j_tenant_id j
                 \<and> j_idempotency_key x = j_idempotency_key j) then Inl Jobs_tenant_idem_uidx
      else Inr (d\<lparr>jobs := jobs d @ [j]\<rparr>))"

definition insert_jobs_read :: "jobs_read_row \<Rightarrow> db \<Rightarrow> constraint_error + db" where
  "insert_jobs_read r d =
     (if (\<exists>x \<in> set (jobs_read d). r_id x = r_id r) then Inl Jobs_read_pkey
      else Inr (d\<lparr>jobs_read := jobs_read d @ [r]\<rparr>))"

text \<open>
  The unique key \<open>(tenant_id, path_key, idempotency_key)\<close> of \<open>idempotency_keys\<close>, and the
  insert with \<open>ON CONFLICT ... DO NOTHING\<close>: the number of rows inserted is 0 or 1.
\<close>

definition find_idem :: "string \<Rightarrow> string \<Rightarrow> string \<Rightarrow> db \<Rightarrow> idem_row option" where
  "find_idem t p k d = List.find (\<lambda>r. i_tenant_id r = t \<and> i_path_key r = p
     \<and> i_idempotency_key r = k) (idempotency_keys d)"

definition insert_idem_do_nothing :: "idem_row \<Rightarrow> db \<Rightarrow> constraint_error + (nat \<times> db)" where
  "insert_idem_do_nothing r d =
     (if \<not> idem_key_format_ck (i_idempotency_key r) then Inl Idem_key_format_ck
      else case find_idem (i_tenant_id r) (i_path_key r) (i_idempotency_key r) d of
        Some _ \<Rightarrow> Inr (0, d)
      | None \<Rightarrow> Inr (1, d\<lparr>idempotency_keys := idempotency_keys d @ [r]\<rparr>))"

section \<open>The projection \<open>jobs_read\<close>\<close>

definition project_job :: "job_row \<Rightarrow> jobs_read_row" where
  "project_job j = \<lparr>r_id = j_id j, r_tenant_id = j_tenant_id j, r_path_key = j_path_key j,
     r_state = j_state j, r_attempt = j_attempt j, r_max_attempts = j_max_attempts j,
     r_schedule = j_schedule j, r_owner_id = j_owner_id j, r_run_id = j_run_id j,
     r_lease_expires_at = j_lease_expires_at j, r_next_run_at = j_next_run_at j,
     r_accepted_at = Some (j_accepted_at j), r_last_error_code = j_last_error_code j,
     r_last_error_message = j_last_error_message j, r_started_at = j_started_at j,
     r_finished_at = j_finished_at j, r_created_at = j_created_at j,
     r_updated_at = j_updated_at j\<rparr>"

text \<open>
  The statement that follows every finalisation: \<open>INSERT INTO jobs_read SELECT ... FROM jobs
  WHERE id = $1 ON CONFLICT (id) DO UPDATE SET ...\<close>. The conflict branch assigns every column
  but \<open>id\<close>, \<open>tenant_id\<close> and \<open>path_key\<close>.
\<close>

definition merge_read :: "jobs_read_row \<Rightarrow> jobs_read_row \<Rightarrow> jobs_read_row" where
  "merge_read old new = new\<lparr>r_id := r_id old, r_tenant_id := r_tenant_id old,
     r_path_key := r_path_key old\<rparr>"

definition upsert_jobs_read :: "string \<Rightarrow> db \<Rightarrow> db" where
  "upsert_jobs_read i d =
     (case find_job i d of
        None \<Rightarrow> d
      | Some j \<Rightarrow>
          if (\<exists>r \<in> set (jobs_read d). r_id r = i)
          then d\<lparr>jobs_read := update_rows (\<lambda>r. r_id r = i)
                   (\<lambda>r. merge_read r (project_job j)) (jobs_read d)\<rparr>
          else d\<lparr>jobs_read := jobs_read d @ [project_job j]\<rparr>)"

section \<open>Retry delay\<close>

text \<open>
  \<open>make_interval(secs => LEAST(base * 2 ^ GREATEST(attempt-1, 0), max))\<close> with base 2 and
  maximum 300 by default. The power and the product are computed in double precision: both are
  exact here, and a magnitude of \<open>2 ^ 1024\<close> or more is the error \<open>value out of range: overflow\<close>
  (\<open>None\<close>), as is an interval beyond 64-bit microseconds. The result is in nanoseconds.
\<close>

definition backoff_interval :: "int \<Rightarrow> backoff_policy \<Rightarrow> duration option" where
  "backoff_interval attempt policy =
     (let base = (case base_seconds policy of None \<Rightarrow> 2 | Some b \<Rightarrow> b);
          cap = (case max_seconds policy of None \<Rightarrow> 300 | Some m \<Rightarrow> m);
          e = nat (max (attempt - 1) 0)
      in if 1024 \<le> e \<or> 2 ^ 1024 \<le> \<bar>base * 2 ^ e\<bar> then None
         else let secs = min (base * 2 ^ e) cap in
           if 9223372036854 \<le> \<bar>secs\<bar> then None else Some (secs * second))"

definition default_policy :: backoff_policy where
  "default_policy = \<lparr>base_seconds = None, max_seconds = None\<rparr>"

section \<open>Connections and statements\<close>

text \<open>
  What a pool hands out, as a parameter of every operation that talks to the database. For
  statement \<open>k\<close> of the operation (0 is \<open>pool.Acquire\<close>): \<open>ce_gap k\<close> is what other sessions
  committed before it, \<open>ce_now k\<close> the value of \<open>now()\<close>, and \<open>ce_fault k = Some (b, e)\<close> makes
  the call return the error \<open>e\<close>; \<open>b\<close> tells whether the statement was committed all the same
  (a connection lost before its answer). \<open>ce_text_to_enum\<close> tells whether the server coerces an
  expression of type text to an enumeration column in an assignment: PostgreSQL does not, unless
  such a cast has been created.
\<close>

record conn_env =
  ce_fault :: "nat \<Rightarrow> (bool \<times> string) option"
  ce_gap :: "nat \<Rightarrow> db \<Rightarrow> db"
  ce_now :: "nat \<Rightarrow> time"
  ce_text_to_enum :: bool

definition quiet_env :: "time \<Rightarrow> bool \<Rightarrow> conn_env" where
  "quiet_env t b = \<lparr>ce_fault = \<lambda>_. None, ce_gap = \<lambda>_ d. d, ce_now = \<lambda>_. t, ce_text_to_enum = b\<rparr>"

definition acquire :: "conn_env \<Rightarrow> string option" where
  "acquire env = map_option snd (ce_fault env 0)"

text \<open>Statement \<open>k\<close>: \<open>f\<close> computes its answer and its effect, or the server's error.\<close>

definition exec_stmt ::
  "conn_env \<Rightarrow> nat \<Rightarrow> (time \<Rightarrow> db \<Rightarrow> string + ('a \<times> db)) \<Rightarrow> db \<Rightarrow> (string + 'a) \<times> db" where
  "exec_stmt env k f d =
     (let d1 = ce_gap env k d in
      case ce_fault env k of
        Some (applied, e) \<Rightarrow>
          (Inl e, if applied then (case f (ce_now env k) d1 of Inl _ \<Rightarrow> d1 | Inr (_, d2) \<Rightarrow> d2) else d1)
      | None \<Rightarrow>
          (case f (ce_now env k) d1 of
             Inl e \<Rightarrow> (Inl e, d1)
           | Inr (a, d2) \<Rightarrow> (Inr a, d2)))"

lemma exec_stmt_quiet [simp]:
  "exec_stmt (quiet_env t b) k f d =
     (case f t d of Inl e \<Rightarrow> (Inl e, d) | Inr (a, d2) \<Rightarrow> (Inr a, d2))"
  by (simp add: exec_stmt_def quiet_env_def)

lemma acquire_quiet [simp]: "acquire (quiet_env t b) = None"
  by (simp add: acquire_def quiet_env_def)

lemma text_to_enum_quiet [simp]: "ce_text_to_enum (quiet_env t b) = b"
  by (simp add: quiet_env_def)

text \<open>A relation between the database before and after that other sessions keep and the
  statement keeps is kept by the call, whatever fault occurs.\<close>

lemma exec_stmt_rel:
  assumes "\<And>d. R d (ce_gap env k d)" "\<And>a b c. R a b \<Longrightarrow> R b c \<Longrightarrow> R a c"
    "\<And>t d a d'. f t d = Inr (a, d') \<Longrightarrow> R d d'"
    "exec_stmt env k f d = (res, d')"
  shows "R d d'"
  using assms(4) assms(1) [of d]
    assms(2) [OF assms(1) [of d], of d'] assms(3) [of _ "ce_gap env k d" _ d']
  by (auto simp: exec_stmt_def Let_def split: option.splits sum.splits if_splits)

section \<open>Steps\<close>

text \<open>
  \<open>INSERT INTO steps ... ON CONFLICT (job_id, attempt, step_key) DO UPDATE SET ...\<close>. The serial
  number is drawn before the conflict is found, so it advances on both branches.
\<close>

definition upsert_step :: "step_row \<Rightarrow> (step_row \<Rightarrow> step_row) \<Rightarrow> db \<Rightarrow> db" where
  "upsert_step row f d =
     (let same = (\<lambda>s. s_job_id s = s_job_id row \<and> s_attempt s = s_attempt row
                   \<and> s_step_key s = s_step_key row);
          d1 = d\<lparr>steps_seq := steps_seq d + 1\<rparr>
      in if (\<exists>s \<in> set (steps d). same s) then d1\<lparr>steps := update_rows same f (steps d)\<rparr>
         else d1\<lparr>steps := steps d @ [row\<lparr>s_id := steps_seq d\<rparr>]\<rparr>)"

section \<open>Lemmas\<close>

lemma upsert_step_frame [db_frame, simp]:
  "jobs (upsert_step row f d) = jobs d" "jobs_read (upsert_step row f d) = jobs_read d"
  "outbox (upsert_step row f d) = outbox d"
  "approval_decisions (upsert_step row f d) = approval_decisions d"
  "idempotency_keys (upsert_step row f d) = idempotency_keys d"
  by (simp_all add: upsert_step_def Let_def)

lemma terminal_simps [simp]:
  "\<not> terminal Queued" "\<not> terminal Running" "terminal Succeeded" "terminal Failed"
  "terminal Jobs_exhausted" "terminal Canceled"
  by (simp_all add: terminal_def)

lemma find_job_in: "find_job i d = Some j \<Longrightarrow> j \<in> set (jobs d) \<and> j_id j = i"
  unfolding find_job_def by (drule find_Some_in) simp

lemma find_job_None: "find_job i d = None \<longleftrightarrow> (\<forall>j \<in> set (jobs d). j_id j \<noteq> i)"
  by (auto simp: find_job_def find_None_iff)

lemma find_job_key:
  "distinct (map j_id (jobs d)) \<Longrightarrow> j \<in> set (jobs d) \<Longrightarrow> find_job (j_id j) d = Some j"
  unfolding find_job_def by (rule find_distinct_key)

lemma upsert_jobs_read_frame [db_frame, simp]:
  "jobs (upsert_jobs_read i d) = jobs d" "steps (upsert_jobs_read i d) = steps d"
  "outbox (upsert_jobs_read i d) = outbox d"
  "steps_seq (upsert_jobs_read i d) = steps_seq d"
  "approval_decisions (upsert_jobs_read i d) = approval_decisions d"
  "idempotency_keys (upsert_jobs_read i d) = idempotency_keys d"
  by (simp_all add: upsert_jobs_read_def split: option.splits)

lemma find_job_upsert [simp]: "find_job i (upsert_jobs_read k d) = find_job i d"
  by (simp add: find_job_def)

text \<open>The unique key of \<open>steps\<close>, and what the upsert does to the row with that key.\<close>

definition step_key_of :: "step_row \<Rightarrow> string \<times> int \<times> string" where
  "step_key_of s = (s_job_id s, s_attempt s, s_step_key s)"

definition steps_ok :: "db \<Rightarrow> bool" where
  "steps_ok d \<longleftrightarrow> distinct (map step_key_of (steps d)) \<and> distinct (map s_id (steps d))
     \<and> list_all (\<lambda>s. s_id s < steps_seq d) (steps d)"

lemma step_key_of_id [simp]: "step_key_of (s\<lparr>s_id := n\<rparr>) = step_key_of s"
  by (simp add: step_key_of_def)

lemma upsert_step_same:
  "(s_job_id s = s_job_id row \<and> s_attempt s = s_attempt row \<and> s_step_key s = s_step_key row)
     \<longleftrightarrow> step_key_of s = step_key_of row"
  by (auto simp: step_key_of_def)

lemma upsert_step_ok:
  assumes "steps_ok d" "\<And>s. step_key_of (f s) = step_key_of s" "\<And>s. s_id (f s) = s_id s"
  shows "steps_ok (upsert_step row f d)"
proof (cases "\<exists>s \<in> set (steps d). step_key_of s = step_key_of row")
  case True
  let ?rows = "update_rows (\<lambda>s. step_key_of s = step_key_of row) f (steps d)"
  have "map step_key_of ?rows = map step_key_of (steps d)" "map s_id ?rows = map s_id (steps d)"
    by (simp_all only: update_rows_keys assms)
  moreover have "s_id s < steps_seq d + 1" if s: "s \<in> set ?rows" for s
  proof -
    obtain r where "r \<in> set (steps d)" "s_id s = s_id r"
      using s assms(3) by (auto simp: in_update_rows split: if_splits)
    then show ?thesis using assms(1) by (auto simp: steps_ok_def list_all_iff)
  qed
  moreover have "upsert_step row f d = d\<lparr>steps_seq := steps_seq d + 1, steps := ?rows\<rparr>"
    using True by (simp add: upsert_step_def upsert_step_same)
  ultimately show ?thesis using assms(1) by (simp add: steps_ok_def list_all_iff)
next
  case False
  then have "upsert_step row f d
      = d\<lparr>steps_seq := steps_seq d + 1, steps := steps d @ [row\<lparr>s_id := steps_seq d\<rparr>]\<rparr>"
    by (simp add: upsert_step_def upsert_step_same)
  moreover have "s_id s < steps_seq d" if "s \<in> set (steps d)" for s
    using assms(1) that by (simp add: steps_ok_def list_all_iff)
  ultimately show ?thesis using assms(1) False
    by (force simp: steps_ok_def list_all_iff)
qed

lemma upsert_step_row:
  assumes "steps_ok d" "s' \<in> set (steps (upsert_step row f d))"
    "step_key_of s' = step_key_of row" "\<And>s. step_key_of (f s) = step_key_of s"
  shows "(\<exists>s \<in> set (steps d). step_key_of s = step_key_of row \<and> s' = f s)
     \<or> ((\<forall>s \<in> set (steps d). step_key_of s \<noteq> step_key_of row) \<and> s' = row\<lparr>s_id := steps_seq d\<rparr>)"
  using assms
  by (auto simp: upsert_step_def Let_def upsert_step_same in_update_rows split: if_splits)

text \<open>
  The identifying columns of a projected row: the conflict branch keeps the old tenant and path,
  which are the job's own as long as the projection was created from the same job.
\<close>

definition read_keys_agree :: "db \<Rightarrow> bool" where
  "read_keys_agree d \<longleftrightarrow> distinct (map r_id (jobs_read d))
     \<and> list_all (\<lambda>r. case find_job (r_id r) d of None \<Rightarrow> True
         | Some j \<Rightarrow> r_tenant_id r = j_tenant_id j \<and> r_path_key r = j_path_key j) (jobs_read d)"

definition find_read :: "string \<Rightarrow> db \<Rightarrow> jobs_read_row option" where
  "find_read i d = List.find (\<lambda>r. r_id r = i) (jobs_read d)"

lemma upsert_jobs_read_row:
  assumes "read_keys_agree d" "find_job i d = Some j"
  shows "find_read i (upsert_jobs_read i d) = Some (project_job j)"
proof (cases "\<exists>r \<in> set (jobs_read d). r_id r = i")
  case True
  then obtain r where r: "r \<in> set (jobs_read d)" "r_id r = i" by blast
  then have "find_read i d = Some r"
    using find_distinct_key [of r_id "jobs_read d" r] assms(1)
    by (simp add: find_read_def read_keys_agree_def)
  then have "find_read i (upsert_jobs_read i d) = Some (merge_read r (project_job j))"
    using r assms(2) find_update_rows [of r_id "\<lambda>r. merge_read r (project_job j)" i
        "\<lambda>r. r_id r = i" "jobs_read d"]
    by (auto simp: find_read_def upsert_jobs_read_def merge_read_def)
  moreover have "r_tenant_id r = j_tenant_id j \<and> r_path_key r = j_path_key j"
    using assms r by (auto simp: read_keys_agree_def list_all_iff split: option.splits)
  moreover have "j_id j = i" using assms(2) by (simp add: find_job_in)
  ultimately show ?thesis using r by (simp add: merge_read_def project_job_def)
next
  case False
  have "List.find (\<lambda>r. r_id r = i) (xs @ [y]) = Some y"
    if "\<forall>x \<in> set xs. r_id x \<noteq> i" "r_id y = i" for xs y
    using that by (induction xs) auto
  moreover have "r_id (project_job j) = i"
    using assms(2) by (simp add: project_job_def find_job_in)
  ultimately show ?thesis
    using False assms(2) by (simp add: find_read_def upsert_jobs_read_def)
qed

end
