(* ===== verification/Connectors.thy ===== *)
theory Connectors
  imports RE_Prelude
begin

text \<open>
  Connectors and the registries that hold them: \<open>src/internal/connector\<close> (types, base connector,
  typed registry, families). The interface that registries share is \<open>keyed_registry\<close>;
  each registry interprets it, the plain one and that of modules in \<open>Module_Config\<close>.
\<close>

section \<open>Types and results\<close>

datatype connector_type =
    Type_git | Type_cloud | Type_cd | Type_infra | Type_devops | Type_policy | Type_webhook
  | Type_other | Type_unknown string

fun type_name :: "connector_type \<Rightarrow> string" where
  "type_name Type_git = ''git''"
| "type_name Type_cloud = ''cloud''"
| "type_name Type_cd = ''cd''"
| "type_name Type_infra = ''infra''"
| "type_name Type_devops = ''devops''"
| "type_name Type_policy = ''policy''"
| "type_name Type_webhook = ''webhook''"
| "type_name Type_other = ''other''"
| "type_name (Type_unknown s) = s"

text \<open>\<open>ValidConnectorTypes[ctype]\<close>: a \<open>ConnectorType\<close> is a string, valid when it is one of the
  eight names.\<close>

definition valid_type :: "connector_type \<Rightarrow> bool" where
  "valid_type t \<longleftrightarrow> type_name t \<in> set (map type_name [Type_git, Type_cloud, Type_cd, Type_infra,
     Type_devops, Type_policy, Type_other, Type_webhook])"

record connector_result =
  cr_status :: string
  cr_output :: "go_map option"
  cr_error :: "(string \<times> string) option"

record connector =
  c_key :: string
  c_type :: "connector_type option"
  c_validate :: "string \<Rightarrow> go_map option \<Rightarrow> string option"
  c_required_secrets :: "(string \<Rightarrow> string list) option"
  c_execute :: "string \<Rightarrow> go_map option \<Rightarrow> (string \<times> string) list option
     \<Rightarrow> connector_result option \<times> string option"
  c_close :: "string option"

section \<open>BaseConnector\<close>

record base_connector =
  b_type :: connector_type
  b_tech :: string

definition new_base_connector :: "connector_type \<Rightarrow> string \<Rightarrow> string + base_connector" where
  "new_base_connector ctype tech =
     (if \<not> valid_type ctype then Inl (''unknown connector type: '' @ type_name ctype)
      else if tech = [] then Inl ''technology must not be empty''
      else if contains_sub tech ''-'' then Inl (''technology must not contain hyphens: '' @ tech)
      else Inr \<lparr>b_type = ctype, b_tech = tech\<rparr>)"

definition base_key :: "base_connector \<Rightarrow> string" where
  "base_key b = type_name (b_type b) @ ''-'' @ b_tech b"

section \<open>The connector registry\<close>

record conn_registry =
  connectors :: "(string \<times> connector) list"
  closed :: bool

definition new_connector_registry :: conn_registry where
  "new_connector_registry = \<lparr>connectors = [], closed = False\<rparr>"

definition conn_register :: "connector \<Rightarrow> conn_registry \<Rightarrow> string + conn_registry" where
  "conn_register c r =
     (if closed r then Inl ''registry closed''
      else case map_of (connectors r) (c_key c) of
        Some _ \<Rightarrow> Inl (''connector already registered: '' @ c_key c)
      | None \<Rightarrow> Inr (r\<lparr>connectors := alist_put (c_key c) c (connectors r)\<rparr>))"

definition conn_replace :: "connector \<Rightarrow> conn_registry \<Rightarrow> string + conn_registry" where
  "conn_replace c r =
     (if closed r then Inl ''registry closed''
      else case map_of (connectors r) (c_key c) of
        None \<Rightarrow> Inl (''connector not found: '' @ c_key c)
      | Some _ \<Rightarrow> Inr (r\<lparr>connectors := alist_put (c_key c) c (connectors r)\<rparr>))"

definition conn_lookup :: "conn_registry \<Rightarrow> string \<Rightarrow> connector option" where
  "conn_lookup r k = map_of (connectors r) k"

definition list_by_type :: "connector_type \<Rightarrow> conn_registry \<Rightarrow> connector list" where
  "list_by_type t r = filter (\<lambda>c. case c_type c of None \<Rightarrow> False
     | Some t' \<Rightarrow> type_name t' = type_name t) (map snd (connectors r))"

definition conn_close :: "conn_registry \<Rightarrow> string option \<times> conn_registry" where
  "conn_close r =
     (if closed r then (None, r)
      else let errs = List.map_filter (\<lambda>(_, c). c_close c) (connectors r) in
        (if errs \<noteq> [] then Some (''errors closing connectors: '' @ join_with ''; '' errs) else None,
         r\<lparr>closed := True\<rparr>))"

text \<open>
  \<open>ResolveGit\<close>, \<open>ResolvePolicy\<close>, \<open>ResolveWebhook\<close>. The assertions to \<open>GitConnector\<close>,
  \<open>PolicyConnector\<close> and \<open>WebhookConnector\<close> always succeed, since these interfaces add no
  method to \<open>Connector\<close>; the code after them is never reached.
\<close>

definition resolve_git :: "conn_registry \<Rightarrow> string \<Rightarrow> string + connector" where
  "resolve_git r name =
     (let key = (if has_prefix name ''git-'' then name else ''git-'' @ name) in
      case map_of (connectors r) key of
        None \<Rightarrow> Inl (''git connector not found: '' @ key)
      | Some c \<Rightarrow> Inr c)"

definition resolve_policy :: "conn_registry \<Rightarrow> string \<Rightarrow> string + connector" where
  "resolve_policy r name =
     (let key = (if has_prefix name ''policy-'' then ''other-'' @ trim_prefix name ''policy-''
                 else ''other-'' @ name) in
      case map_of (connectors r) key of
        None \<Rightarrow> Inl (''policy connector not found: '' @ key)
      | Some c \<Rightarrow> Inr c)"

definition resolve_webhook :: "conn_registry \<Rightarrow> string \<Rightarrow> string + connector" where
  "resolve_webhook r name =
     (let key = (if has_prefix name ''webhook-'' then ''other-'' @ trim_prefix name ''webhook-''
                 else ''other-'' @ name) in
      case map_of (connectors r) key of
        None \<Rightarrow> Inl (''webhook connector not found: '' @ key)
      | Some c \<Rightarrow> Inr c)"

section \<open>Families\<close>

record operation_contract =
  required_input :: "string list"
  required_output :: "string list"

record connector_family =
  f_name :: string
  f_members :: "string list"
  f_operations :: "(string \<times> operation_contract) list option"

definition has_member :: "connector_family \<Rightarrow> string \<Rightarrow> bool" where
  "has_member f key \<longleftrightarrow> key \<in> set (f_members f)"

record family_registry =
  fr_registry :: conn_registry
  families :: "(string \<times> connector_family) list"

definition new_family_registry :: "conn_registry \<Rightarrow> family_registry" where
  "new_family_registry r = \<lparr>fr_registry = r, families = []\<rparr>"

definition register_family :: "connector_family \<Rightarrow> family_registry \<Rightarrow> string + family_registry" where
  "register_family f r =
     (if f_name f = [] then Inl ''family name cannot be empty''
      else case map_of (families r) (f_name f) of
        Some _ \<Rightarrow> Inl (''family already registered: '' @ f_name f)
      | None \<Rightarrow>
          let f' = (case f_operations f of None \<Rightarrow> f\<lparr>f_operations := Some []\<rparr> | Some _ \<Rightarrow> f)
          in Inr (r\<lparr>families := alist_put (f_name f) f' (families r)\<rparr>))"

definition family_resolve :: "family_registry \<Rightarrow> string \<Rightarrow> string \<Rightarrow> string + connector" where
  "family_resolve r family implKey =
     (case map_of (families r) family of
        None \<Rightarrow> Inl (''unknown family: '' @ family)
      | Some f \<Rightarrow>
          if has_member f implKey then
            (case conn_lookup (fr_registry r) implKey of
               None \<Rightarrow> Inl (''connector not found: '' @ implKey)
             | Some c \<Rightarrow> Inr c)
          else let prefixedKey = family @ ''-'' @ implKey in
            if has_member f prefixedKey then
              (case conn_lookup (fr_registry r) prefixedKey of
                 None \<Rightarrow> Inl (''connector not found: '' @ implKey @ '' (prefixed as ''
                   @ prefixedKey @ '')'')
               | Some c \<Rightarrow> Inr c)
            else Inl (implKey @ '' is not a member of family '' @ family @ '' (tried '' @ implKey
              @ '' and '' @ prefixedKey @ '')''))"

definition default_families :: "connector_family list" where
  "default_families =
    [\<lparr>f_name = ''git'', f_members = [''git-github'', ''git-gitea'', ''git-file''],
      f_operations = Some
       [(''commit_files'', \<lparr>required_input = [''repo'', ''branch'', ''path_prefix'', ''files'',
           ''message'', ''idempotency_key''], required_output = [''commit_sha'', ''changed'']\<rparr>),
        (''read_file'', \<lparr>required_input = [''repo'', ''branch'', ''path''],
           required_output = [''content'', ''sha'', ''status'']\<rparr>)]\<rparr>,
     \<lparr>f_name = ''policy'', f_members = [''policy-embedded'', ''policy-pmock'', ''policy-opa''],
      f_operations = Some
       [(''evaluate'', \<lparr>required_input = [''policy_bundle'', ''resource''],
           required_output = [''allowed'', ''violations'']\<rparr>)]\<rparr>,
     \<lparr>f_name = ''webhook'', f_members = [''webhook-webhook'', ''webhook-wmock'', ''webhook-http''],
      f_operations = Some
       [(''post_callback'', \<lparr>required_input = [''url'', ''headers'', ''body'', ''idempotency_key''],
           required_output = [''status_code'', ''response_body'']\<rparr>)]\<rparr>,
     \<lparr>f_name = ''infra'', f_members = [''infra-crossplane'', ''infra-crossplaneMock''],
      f_operations = Some
       [(''apply'', \<lparr>required_input = [''manifest''],
           required_output = [''applied'', ''status'']\<rparr>)]\<rparr>]"

fun register_families :: "connector_family list \<Rightarrow> family_registry \<Rightarrow> string + family_registry" where
  "register_families [] r = Inr r"
| "register_families (f # fs) r =
     (case register_family f r of
        Inl e \<Rightarrow> Inl (''failed to register family '' @ f_name f @ '': '' @ e)
      | Inr r' \<Rightarrow> register_families fs r')"

definition setup_family_registry :: "conn_registry \<Rightarrow> string + family_registry" where
  "setup_family_registry r = register_families default_families (new_family_registry r)"

section \<open>The interface of a keyed registry\<close>

locale keyed_registry =
  fixes reg :: "'e \<Rightarrow> 'r \<Rightarrow> 'err + 'r"
    and look :: "'r \<Rightarrow> 'k \<Rightarrow> 'e option"
    and key :: "'e \<Rightarrow> 'k"
    and stored :: "'e \<Rightarrow> 'e"
  assumes look_reg: "reg e r = Inr r' \<Longrightarrow> look r' k = (if k = key e then Some (stored e) else look r k)"
    and reg_dup: "look r (key e) \<noteq> None \<Longrightarrow> \<exists>x. reg e r = Inl x"
begin

text \<open>Registering a list of entries in order, stopping at the first error.\<close>

fun reg_all :: "'e list \<Rightarrow> 'r \<Rightarrow> 'err + 'r" where
  "reg_all [] r = Inr r"
| "reg_all (e # es) r = (case reg e r of Inl x \<Rightarrow> Inl x | Inr r' \<Rightarrow> reg_all es r')"

lemma reg_fresh: "reg e r = Inr r' \<Longrightarrow> look r (key e) = None"
  by (metis Inl_Inr_False reg_dup)

lemma never_overwritten:
  "reg_all es r = Inr r' \<Longrightarrow> look r k = Some e \<Longrightarrow> look r' k = Some e"
proof (induction es arbitrary: r)
  case Nil
  then show ?case by simp
next
  case (Cons a es)
  then obtain r1 where r1: "reg a r = Inr r1" "reg_all es r1 = Inr r'"
    by (auto split: sum.splits)
  have "look r1 k = Some e"
    using Cons.prems(2) look_reg [OF r1(1), of k] reg_fresh [OF r1(1)] by auto
  then show ?case using Cons.IH r1(2) by blast
qed

lemma reg_all_complete:
  "reg_all es r = Inr r' \<Longrightarrow> e \<in> set es \<Longrightarrow> look r' (key e) = Some (stored e)"
proof (induction es arbitrary: r)
  case Nil
  then show ?case by simp
next
  case (Cons a es)
  then obtain r1 where r1: "reg a r = Inr r1" "reg_all es r1 = Inr r'"
    by (auto split: sum.splits)
  show ?case
  proof (cases "e = a")
    case True
    then have "look r1 (key e) = Some (stored e)" using look_reg [OF r1(1)] by simp
    then show ?thesis using never_overwritten r1(2) by blast
  next
    case False
    then show ?thesis using Cons r1 by auto
  qed
qed

lemma reg_all_distinct: "reg_all es r = Inr r' \<Longrightarrow> distinct (map key es)"
proof (induction es arbitrary: r)
  case Nil
  then show ?case by simp
next
  case (Cons a es)
  then obtain r1 where r1: "reg a r = Inr r1" "reg_all es r1 = Inr r'"
    by (auto split: sum.splits)
  have a: "look r1 (key a) = Some (stored a)" using look_reg [OF r1(1)] by simp
  have "key a \<noteq> key e" if e: "e \<in> set es" for e
  proof
    assume eq: "key a = key e"
    obtain es1 es2 where es: "es = es1 @ e # es2" using e by (meson split_list)
    obtain r2 where r2: "reg_all es1 r1 = Inr r2" "reg_all (e # es2) r2 = Inr r'"
      using r1(2) unfolding es
    proof (induction es1 arbitrary: r1)
      case (Cons b bs)
      then show ?case by (auto split: sum.splits)
    qed simp
    then obtain r3 where "reg e r2 = Inr r3" by (auto split: sum.splits)
    then show False using never_overwritten [OF r2(1) a] reg_fresh eq by force
  qed
  then show ?case using Cons r1 by auto
qed

end

interpretation conn: keyed_registry conn_register conn_lookup c_key "\<lambda>c. c"
  by unfold_locales
    (auto simp: conn_register_def conn_lookup_def split: if_splits option.splits)

interpretation fam: keyed_registry register_family "\<lambda>r. map_of (families r)" f_name
  "\<lambda>f. case f_operations f of None \<Rightarrow> f\<lparr>f_operations := Some []\<rparr> | Some _ \<Rightarrow> f"
  by unfold_locales
    (auto simp: register_family_def Let_def split: if_splits option.splits)

lemma register_families_reg_all:
  "register_families fs r = Inr r' \<Longrightarrow> fam.reg_all fs r = Inr r'"
  by (induction fs arbitrary: r) (auto split: sum.splits)

lemma register_family_registry:
  "register_family f r = Inr r' \<Longrightarrow> fr_registry r' = fr_registry r"
  by (auto simp: register_family_def Let_def split: if_splits option.splits)

lemma register_families_fresh:
  "distinct (map f_name fs) \<Longrightarrow> set (map f_name fs) \<inter> fst ` set (families r) = {}
     \<Longrightarrow> \<forall>f \<in> set fs. f_name f \<noteq> [] \<and> f_operations f \<noteq> None
     \<Longrightarrow> register_families fs r
       = Inr (r\<lparr>families := families r @ map (\<lambda>f. (f_name f, f)) fs\<rparr>)"
proof (induction fs arbitrary: r)
  case Nil
  then show ?case by simp
next
  case (Cons f fs)
  let ?r = "r\<lparr>families := families r @ [(f_name f, f)]\<rparr>"
  have "map_of (families r) (f_name f) = None"
    using Cons.prems(2) by (auto simp: map_of_eq_None_iff)
  then have "register_family f r = Inr ?r"
    using Cons.prems by (auto simp: register_family_def alist_put_fresh)
  moreover have "register_families fs ?r
      = Inr (?r\<lparr>families := families ?r @ map (\<lambda>f. (f_name f, f)) fs\<rparr>)"
    using Cons.prems by (intro Cons.IH) auto
  ultimately show ?case by simp
qed

lemma setup_family_registry_eq:
  "setup_family_registry r = Inr \<lparr>fr_registry = r, families =
     map (\<lambda>f. (f_name f, f)) default_families\<rparr>"
proof -
  have n: "map f_name default_families = [''git'', ''policy'', ''webhook'', ''infra'']"
    by (simp add: default_families_def)
  have o: "\<forall>f \<in> set default_families. f_name f \<noteq> [] \<and> f_operations f \<noteq> None"
    by (simp add: default_families_def)
  show ?thesis
    unfolding setup_family_registry_def using o
    by (subst register_families_fresh) (simp_all add: n new_family_registry_def)
qed

section \<open>Properties\<close>

text \<open>The registry key of a connector determines its type and its technology: two
  connectors that \<open>NewBaseConnector\<close> accepts have the same key only if both agree. The check
  against hyphens in the technology is what makes this hold, since a type name may be anything.\<close>

theorem base_key_inj:
  assumes "new_base_connector t x = Inr b" "new_base_connector t' y = Inr b'"
    "base_key b = base_key b'"
  shows "type_name t = type_name t' \<and> x = y"
proof -
  have "CHR ''-'' \<notin> set x" "CHR ''-'' \<notin> set y"
    using assms(1,2) by (auto simp: new_base_connector_def contains_sub_iff in_set_conv_decomp
        split: if_splits)
  moreover have "type_name t @ ''-'' @ x = type_name t' @ ''-'' @ y"
    using assms by (auto simp: new_base_connector_def base_key_def split: if_splits)
  ultimately show ?thesis using last_sep_unique [of "type_name t" "CHR ''-''" x] by simp
qed

theorem base_key_inj_witness:
  "base_key \<lparr>b_type = Type_git, b_tech = ''gitea''\<rparr> = ''git-gitea''
   \<and> type_name Type_git = type_name Type_git \<and> ''gitea'' = ''gitea''"
proof -
  have "new_base_connector Type_git ''gitea'' = Inr \<lparr>b_type = Type_git, b_tech = ''gitea''\<rparr>"
    by (simp add: new_base_connector_def valid_type_def has_prefix_def)
  from base_key_inj [OF this this] show ?thesis by (simp add: base_key_def)
qed

text \<open>After \<open>SetupFamilyRegistry\<close> a family resolves an implementation key only to the
  connector registered under a key that is a member of that family: the key itself, or the key
  with the family's name in front.\<close>

theorem family_resolve_member:
  assumes "setup_family_registry r = Inr fr" "family_resolve fr family k = Inr c"
  shows "\<exists>f \<in> set default_families. f_name f = family \<and>
     (\<exists>key \<in> {k, family @ ''-'' @ k}. has_member f key \<and> conn_lookup r key = Some c)"
proof -
  have fr: "fr = \<lparr>fr_registry = r, families = map (\<lambda>f. (f_name f, f)) default_families\<rparr>"
    using assms(1) by (simp add: setup_family_registry_eq)
  obtain f where f: "map_of (families fr) family = Some f"
    using assms(2) by (auto simp: family_resolve_def split: option.splits)
  then have "f \<in> set default_families" "f_name f = family"
    by (auto simp: fr dest: map_of_SomeD)
  then show ?thesis
    using assms(2) f
    by (auto simp: family_resolve_def Let_def fr split: if_splits option.splits)
qed

theorem family_resolve_member_witness:
  "\<exists>c f. c_key c = ''git-file'' \<and> f \<in> set default_families \<and> f_name f = ''git'' \<and>
     (\<exists>key \<in> {''file'', ''git'' @ ''-'' @ ''file''}. has_member f key \<and>
        conn_lookup \<lparr>connectors = [(''git-file'', c)], closed = False\<rparr> key = Some c)"
proof -
  define c where "c = \<lparr>c_key = ''git-file'', c_type = Some Type_git, c_validate = (\<lambda>_ _. None),
           c_required_secrets = None, c_execute = (\<lambda>_ _ _. (None, None)), c_close = None\<rparr>"
  define r where "r = \<lparr>connectors = [(''git-file'', c)], closed = False\<rparr>"
  have "\<exists>f \<in> set default_families. f_name f = ''git'' \<and>
     (\<exists>key \<in> {''file'', ''git'' @ ''-'' @ ''file''}. has_member f key \<and> conn_lookup r key = Some c)"
    by (rule family_resolve_member [OF setup_family_registry_eq])
      (simp add: family_resolve_def default_families_def has_member_def conn_lookup_def r_def)
  moreover have "c_key c = ''git-file''" by (simp add: c_def)
  ultimately show ?thesis unfolding r_def by blast
qed

end
