(* ===== verification/Step_Api.thy ===== *)
theory Step_Api
  imports Job_Store Connectors
begin

text \<open>
  The interface a module sees while it runs: \<open>src/internal/runner/step_api.go\<close> and the types of
  \<open>src/internal/stepapi/stepapi.go\<close>. The adapter is a record; the operations that write the
  \<open>steps\<close> table take the connection and return the new database. \<open>CallConnector\<close> is cut along
  its three phases (resolution, call without secrets, call inside the vault's scope). The polling
  loop of \<open>WaitForApproval\<close> runs over an explicit list of events, one per turn of its
  \<open>select\<close>; \<open>None\<close> means it is still waiting when the list ends.
\<close>

section \<open>Types\<close>

record approval_request =
  ar_summary :: string
  ar_detail :: string
  ar_blast_radius :: string
  ar_policy_ref :: string
  ar_metadata :: "(string \<times> string) list option"

record approval_outcome =
  ao_decision :: string
  ao_approver :: string
  ao_justification :: string
  ao_decided_at :: time

record connector_request =
  cq_connector :: string
  cq_impl_key :: string
  cq_operation :: string
  cq_input :: "go_map option"

record audit_event =
  ae_tenant :: string
  ae_principal :: string
  ae_action :: string
  ae_target :: string
  ae_decision :: string
  ae_reason :: string
  ae_job_id :: string
  ae_run_id :: string

text \<open>
  The secret manager is third-party code: \<open>GetVault\<close> gives an error or a vault, a vault gives
  the requested secrets or an error, and \<open>v_wrap\<close> is what it makes of an error of the function
  run inside its scope.
\<close>

record vault =
  v_secrets :: "string list \<Rightarrow> string + (string \<times> string) list"
  v_wrap :: "string \<Rightarrow> string"

type_synonym vault_manager = "string \<Rightarrow> string + vault"

text \<open>
  \<open>a_module\<close>: \<open>None\<close> is the nil module, \<open>Some None\<close> a module that is no
  \<open>SecretContextProvider\<close>, \<open>Some (Some t)\<close> one whose \<open>SecretContext()\<close> has tenant \<open>t\<close>.
\<close>

record step_adapter =
  a_family_registry :: "family_registry option"
  a_vault :: "vault_manager option"
  a_audit :: bool
  a_job_id :: string
  a_run_id :: string
  a_attempt :: int
  a_current_step :: string
  a_context :: go_map
  a_poll_interval :: duration
  a_tenant_id :: string
  a_module :: "string option option"
  a_resolved :: "(string \<times> connector) list option"

definition runner_poll_interval :: "string \<Rightarrow> duration" where
  "runner_poll_interval env =
     (let raw = trim_space env in
      if raw \<noteq> [] then (case parse_duration raw of
          Some d \<Rightarrow> if 0 < d then d else 500000000
        | None \<Rightarrow> 500000000)
      else 500000000)"

definition new_step_api_adapter_vault_audit ::
  "string \<Rightarrow> family_registry option \<Rightarrow> vault_manager option \<Rightarrow> bool \<Rightarrow> string \<Rightarrow> string \<Rightarrow> int
     \<Rightarrow> step_adapter" where
  "new_step_api_adapter_vault_audit env fr vm audit i r n =
     \<lparr>a_family_registry = fr, a_vault = vm, a_audit = audit, a_job_id = i, a_run_id = r,
      a_attempt = n, a_current_step = [], a_context = [], a_poll_interval = runner_poll_interval env,
      a_tenant_id = [], a_module = None, a_resolved = None\<rparr>"

definition new_step_api_adapter_vault ::
  "string \<Rightarrow> family_registry option \<Rightarrow> vault_manager option \<Rightarrow> string \<Rightarrow> string \<Rightarrow> int \<Rightarrow> step_adapter" where
  "new_step_api_adapter_vault env fr vm i r n = new_step_api_adapter_vault_audit env fr vm False i r n"

definition new_step_api_adapter ::
  "string \<Rightarrow> family_registry option \<Rightarrow> string \<Rightarrow> string \<Rightarrow> int \<Rightarrow> step_adapter" where
  "new_step_api_adapter env fr i r n = new_step_api_adapter_vault_audit env fr None False i r n"

definition new_step_api_adapter_module ::
  "string \<Rightarrow> family_registry option \<Rightarrow> string \<Rightarrow> string \<Rightarrow> int \<Rightarrow> string option option \<Rightarrow> step_adapter" where
  "new_step_api_adapter_module env fr i r n m = (new_step_api_adapter env fr i r n)\<lparr>a_module := m\<rparr>"

definition new_step_api_adapter_connectors ::
  "string \<Rightarrow> string \<Rightarrow> string \<Rightarrow> int \<Rightarrow> string option option \<Rightarrow> (string \<times> connector) list option
     \<Rightarrow> step_adapter" where
  "new_step_api_adapter_connectors env i r n m cs =
     (new_step_api_adapter env None i r n)\<lparr>a_module := m, a_resolved := cs\<rparr>"

section \<open>Steps\<close>

definition begin_step :: "string \<Rightarrow> step_adapter \<Rightarrow> step_adapter" where
  "begin_step k a = a\<lparr>a_current_step := k\<rparr>"

definition blank_step :: "step_adapter \<Rightarrow> string \<Rightarrow> step_status \<Rightarrow> time \<Rightarrow> step_row" where
  "blank_step a k st t = \<lparr>s_id = 0, s_job_id = a_job_id a, s_run_id = a_run_id a,
     s_attempt = a_attempt a, s_step_key = k, s_status = st, s_output_json = None,
     s_error_code = None, s_error_message = None, s_started_at = t, s_finished_at = None,
     s_approval_request = None, s_approval_ttl = None, s_approval_expires_at = None\<rparr>"

definition end_step_ok_stmt :: "step_adapter \<Rightarrow> string \<Rightarrow> go_map option \<Rightarrow> time \<Rightarrow> db \<Rightarrow> db" where
  "end_step_ok_stmt a k out t = upsert_step
     ((blank_step a k Step_ok t)\<lparr>s_output_json := out, s_finished_at := Some t\<rparr>)
     (\<lambda>s. s\<lparr>s_status := Step_ok, s_output_json := out, s_finished_at := Some t\<rparr>)"

definition end_step_ok ::
  "conn_env \<Rightarrow> step_adapter \<Rightarrow> string \<Rightarrow> go_map option \<Rightarrow> db \<Rightarrow> string option \<times> db" where
  "end_step_ok env a k out d =
     (case acquire env of
        Some e \<Rightarrow> (Some (''failed to acquire db connection: '' @ e), d)
      | None \<Rightarrow>
          (case exec_stmt env 1 (\<lambda>t d. Inr ((), end_step_ok_stmt a k out t d)) d of
             (Inl e, d') \<Rightarrow> (Some (''failed to persist step success: '' @ e), d')
           | (Inr _, d') \<Rightarrow> (None, d')))"

definition end_step_err_stmt ::
  "step_adapter \<Rightarrow> string \<Rightarrow> string \<Rightarrow> string \<Rightarrow> time \<Rightarrow> db \<Rightarrow> db" where
  "end_step_err_stmt a k code msg t = upsert_step
     ((blank_step a k Step_error t)\<lparr>s_error_code := Some code, s_error_message := Some msg,
        s_finished_at := Some t\<rparr>)
     (\<lambda>s. s\<lparr>s_status := Step_error, s_error_code := Some code, s_error_message := Some msg,
        s_finished_at := Some t\<rparr>)"

definition end_step_err ::
  "conn_env \<Rightarrow> step_adapter \<Rightarrow> string \<Rightarrow> string \<Rightarrow> string \<Rightarrow> db \<Rightarrow> string option \<times> db" where
  "end_step_err env a k code msg d =
     (case acquire env of
        Some e \<Rightarrow> (Some (''failed to acquire db connection: '' @ e), d)
      | None \<Rightarrow>
          (case exec_stmt env 1 (\<lambda>t d. Inr ((), end_step_err_stmt a k code msg t d)) d of
             (Inl e, d') \<Rightarrow> (Some (''failed to persist step error: '' @ e), d')
           | (Inr _, d') \<Rightarrow> (None, d')))"

section \<open>Connector calls\<close>

datatype call_outcome = Call_result connector_result | Call_panic

definition call_error :: "string \<Rightarrow> string \<Rightarrow> call_outcome" where
  "call_error code msg = Call_result \<lparr>cr_status = ''error'', cr_output = None,
     cr_error = Some (code, msg)\<rparr>"

definition resolve_connector ::
  "step_adapter \<Rightarrow> connector_request \<Rightarrow> call_outcome + connector" where
  "resolve_connector a req =
     (case a_resolved a of
        Some cs \<Rightarrow>
          (case map_of cs (cq_connector req) of
             Some c \<Rightarrow> Inr c
           | None \<Rightarrow> Inl (call_error ''CONNECTOR_NOT_FOUND''
               (''no connector resolved for family '' @ go_quote (cq_connector req))))
      | None \<Rightarrow>
          (case a_family_registry a of
             Some fr \<Rightarrow>
               (case family_resolve fr (cq_connector req) (cq_impl_key req) of
                  Inr c \<Rightarrow> Inr c
                | Inl e \<Rightarrow> Inl (call_error ''CONNECTOR_NOT_FOUND'' (''connector family ''
                    @ cq_connector req @ '' with impl '' @ cq_impl_key req @ '' not resolved: '' @ e)))
           | None \<Rightarrow> Inl (call_error ''CONNECTOR_NOT_FOUND''
               (''no connector available for family '' @ go_quote (cq_connector req)))))"

text \<open>\<open>result.Status\<close> on a nil result dereferences a nil pointer.\<close>

definition convert_result :: "connector_result option \<Rightarrow> call_outcome" where
  "convert_result r = (case r of None \<Rightarrow> Call_panic | Some x \<Rightarrow> Call_result x)"

definition call_plain :: "connector \<Rightarrow> connector_request \<Rightarrow> call_outcome" where
  "call_plain c req =
     (case c_execute c (cq_operation req) (cq_input req) None of
        (_, Some e) \<Rightarrow> call_error ''EXECUTION_FAILED'' (''execution failed: '' @ e)
      | (r, None) \<Rightarrow> convert_result r)"

definition secret_tenant :: "step_adapter \<Rightarrow> call_outcome + string" where
  "secret_tenant a =
     (case a_module a of
        Some (Some t) \<Rightarrow> Inr t
      | Some None \<Rightarrow> Inl (call_error ''TENANT_CONTEXT_MISSING''
          ''connector requires secrets but module doesn't provide tenant context'')
      | None \<Rightarrow>
          if a_tenant_id a \<noteq> [] then Inr (a_tenant_id a)
          else Inl (call_error ''MODULE_MISSING''
            ''module reference not available for secret resolution''))"

definition secret_audit :: "step_adapter \<Rightarrow> string \<Rightarrow> string list \<Rightarrow> string \<Rightarrow> string \<Rightarrow> audit_event list" where
  "secret_audit a tenant keys decision reason =
     (if a_audit a then [\<lparr>ae_tenant = tenant, ae_principal = ''system'', ae_action = ''secret.access'',
        ae_target = join_with '','' keys, ae_decision = decision, ae_reason = reason,
        ae_job_id = a_job_id a, ae_run_id = a_run_id a\<rparr>] else [])"

text \<open>The logical keys are the physical ones, so the map handed to the connector is the
  vault's own.\<close>

definition use_secrets ::
  "vault \<Rightarrow> connector \<Rightarrow> connector_request \<Rightarrow> string list
     \<Rightarrow> connector_result option \<times> string option" where
  "use_secrets v c req keys =
     (case v_secrets v keys of
        Inl e \<Rightarrow> (None, Some e)
      | Inr secrets \<Rightarrow>
          (case c_execute c (cq_operation req) (cq_input req) (Some secrets) of
             (r, Some e) \<Rightarrow> (r, Some (v_wrap v e))
           | (r, None) \<Rightarrow> (r, None)))"

definition call_with_secrets ::
  "step_adapter \<Rightarrow> connector \<Rightarrow> connector_request \<Rightarrow> string list \<Rightarrow> call_outcome \<times> audit_event list" where
  "call_with_secrets a c req keys =
     (case secret_tenant a of
        Inl r \<Rightarrow> (r, [])
      | Inr tenant \<Rightarrow>
          (case a_vault a of
             None \<Rightarrow> (call_error ''VOLTA_NOT_CONFIGURED'' ''Volta secret manager not configured'', [])
           | Some vm \<Rightarrow>
               (case vm tenant of
                  Inl e \<Rightarrow> (call_error ''VAULT_UNAVAILABLE''
                    (''failed to get vault for tenant '' @ tenant @ '': '' @ e), [])
                | Inr v \<Rightarrow>
                    let granted = secret_audit a tenant keys ''granted'' (''Connector ''
                          @ cq_connector req @ '' operation '' @ cq_operation req
                          @ '' requires secrets'')
                    in (case use_secrets v c req keys of
                          (_, Some e) \<Rightarrow>
                            (call_error ''SECRET_EXECUTION_FAILED''
                               (''failed to execute with secrets: '' @ e),
                             granted @ secret_audit a tenant keys ''denied''
                               (''Secret execution failed: '' @ e))
                        | (r, None) \<Rightarrow> (convert_result r, granted)))))"

definition call_connector ::
  "step_adapter \<Rightarrow> connector_request \<Rightarrow> call_outcome \<times> audit_event list" where
  "call_connector a req =
     (case resolve_connector a req of
        Inl r \<Rightarrow> (r, [])
      | Inr c \<Rightarrow>
          (case c_validate c (cq_operation req) (cq_input req) of
             Some e \<Rightarrow> (call_error ''VALIDATION_FAILED'' (''validation failed: '' @ e), [])
           | None \<Rightarrow>
               let keys = (case c_required_secrets c of None \<Rightarrow> [] | Some f \<Rightarrow> f (cq_operation req))
               in if keys = [] then (call_plain c req, [])
                  else call_with_secrets a c req keys))"

section \<open>Context, cancellation, secrets\<close>

definition set_context :: "string \<Rightarrow> go_any \<Rightarrow> step_adapter \<Rightarrow> step_adapter" where
  "set_context k v a = a\<lparr>a_context := alist_put k v (a_context a)\<rparr>"

definition get_context :: "step_adapter \<Rightarrow> string \<Rightarrow> go_any option" where
  "get_context a k = map_of (a_context a) k"

definition is_cancelled :: "step_adapter \<Rightarrow> bool" where
  "is_cancelled a = False"

definition resolve_secret :: "step_adapter \<Rightarrow> string \<Rightarrow> string \<Rightarrow> string + string" where
  "resolve_secret a tenant k = Inl ''secret resolution not configured''"

section \<open>Waiting for approval\<close>

definition approval_request_json :: "approval_request \<Rightarrow> go_map" where
  "approval_request_json r = [(''summary'', GStr (ar_summary r)), (''detail'', GStr (ar_detail r)),
     (''blast_radius'', GStr (ar_blast_radius r)), (''policy_ref'', GStr (ar_policy_ref r)),
     (''metadata'', case ar_metadata r of None \<Rightarrow> GNil
        | Some m \<Rightarrow> GMap (map (\<lambda>(k, v). (k, GStr v)) m))]"

text \<open>\<open>%f seconds\<close> keeps six decimals: the interval is rounded to microseconds.\<close>

definition approval_ttl :: "approval_request \<Rightarrow> duration" where
  "approval_ttl r =
     (case ar_metadata r of
        None \<Rightarrow> 48 * hour
      | Some m \<Rightarrow>
          (case map_of m ''approval_ttl'' of
             None \<Rightarrow> 48 * hour
           | Some raw \<Rightarrow>
               if raw = [] then 48 * hour
               else (case parse_duration raw of
                  Some d \<Rightarrow> if 0 < d then (d + 500) div 1000 * 1000 else 48 * hour
                | None \<Rightarrow> 48 * hour)))"

definition park_stmt :: "step_adapter \<Rightarrow> approval_request \<Rightarrow> time \<Rightarrow> db \<Rightarrow> db" where
  "park_stmt a req t =
     (let js = approval_request_json req; ttl = approval_ttl req in
      upsert_step
        ((blank_step a (a_current_step a) Waiting_approval t)\<lparr>s_approval_request := Some js,
           s_approval_ttl := Some ttl, s_approval_expires_at := Some (t + ttl)\<rparr>)
        (\<lambda>s. s\<lparr>s_status := Waiting_approval, s_approval_request := Some js,
           s_approval_ttl := Some ttl, s_approval_expires_at := Some (t + ttl)\<rparr>))"

fun decision_text :: "approval_decision \<Rightarrow> string" where
  "decision_text Approved = ''approved''"
| "decision_text Rejected = ''rejected''"
| "decision_text Expired = ''expired''"

definition current_step_id :: "step_adapter \<Rightarrow> db \<Rightarrow> int option" where
  "current_step_id a d =
     (let rows = filter (\<lambda>s. s_job_id s = a_job_id a \<and> s_run_id s = a_run_id a
          \<and> s_attempt s = a_attempt a \<and> s_step_key s = a_current_step a) (steps d)
      in case sort_key (\<lambda>s. - s_id s) rows of [] \<Rightarrow> None | s # _ \<Rightarrow> Some (s_id s))"

definition poll_decision :: "step_adapter \<Rightarrow> db \<Rightarrow> approval_outcome option" where
  "poll_decision a d =
     (case current_step_id a d of
        None \<Rightarrow> None
      | Some sid \<Rightarrow>
          (case sort_key (\<lambda>x. - d_created_at x) (filter (\<lambda>x. d_job_id x = a_job_id a
             \<and> d_run_id x = a_run_id a \<and> d_step_id x = sid) (approval_decisions d)) of
             [] \<Rightarrow> None
           | x # _ \<Rightarrow> Some \<lparr>ao_decision = decision_text (d_decision x), ao_approver = d_approver x,
               ao_justification = (case d_justification x of None \<Rightarrow> [] | Some j \<Rightarrow> j),
               ao_decided_at = d_created_at x\<rparr>))"

text \<open>One turn of the polling loop: the context is done, or the ticker fires and the pool, the
  query and the database at that moment answer.\<close>

datatype poll_event =
    Ctx_done string
  | Tick "string option" "string option" db

fun wait_poll :: "step_adapter \<Rightarrow> poll_event list \<Rightarrow> (string + approval_outcome) option" where
  "wait_poll a [] = None"
| "wait_poll a (Ctx_done e # es) = Some (Inl e)"
| "wait_poll a (Tick (Some _) _ _ # es) = wait_poll a es"
| "wait_poll a (Tick None (Some e) _ # es) = Some (Inl (''failed reading approval decision: '' @ e))"
| "wait_poll a (Tick None None d # es) =
     (case poll_decision a d of None \<Rightarrow> wait_poll a es | Some out \<Rightarrow> Some (Inr out))"

definition wait_for_approval ::
  "conn_env \<Rightarrow> step_adapter \<Rightarrow> approval_request \<Rightarrow> poll_event list \<Rightarrow> db
     \<Rightarrow> (string + approval_outcome) option \<times> db" where
  "wait_for_approval env a req es d =
     (if a_current_step a = [] then
        (Some (Inl ''BeginStep must be called before WaitForApproval''), d)
      else case acquire env of
        Some e \<Rightarrow> (Some (Inl (''failed to acquire db connection: '' @ e)), d)
      | None \<Rightarrow>
          (case exec_stmt env 1 (\<lambda>t d. Inr ((), park_stmt a req t d)) d of
             (Inl e, d') \<Rightarrow> (Some (Inl (''failed to park step for approval: '' @ e)), d')
           | (Inr _, d') \<Rightarrow> (wait_poll a es, d')))"

section \<open>Step rows\<close>

lemmas step_stmts = end_step_ok_stmt_def end_step_err_stmt_def park_stmt_def Let_def

lemma step_stmts_ok:
  assumes "steps_ok d"
  shows "steps_ok (end_step_ok_stmt a k out t d)" "steps_ok (end_step_err_stmt a k c m t d)"
    "steps_ok (park_stmt a req t d)"
  unfolding step_stmts using assms
  by (auto intro!: upsert_step_ok simp: step_key_of_def)

lemma step_stmts_jobs [db_frame, simp]:
  "jobs (end_step_ok_stmt a k out t d) = jobs d" "jobs (end_step_err_stmt a k c m t d) = jobs d"
  "jobs (park_stmt a req t d) = jobs d"
  "approval_decisions (park_stmt a req t d) = approval_decisions d"
  by (simp_all add: step_stmts)

text \<open>The key the adapter writes under.\<close>

definition adapter_key :: "step_adapter \<Rightarrow> string \<times> int \<times> string" where
  "adapter_key a = (a_job_id a, a_attempt a, a_current_step a)"

lemma park_stmt_row:
  assumes "steps_ok d" "s' \<in> set (steps (park_stmt a req t d))" "step_key_of s' = adapter_key a"
  shows "s_status s' = Waiting_approval \<and> s_approval_expires_at s' = Some (t + approval_ttl req) \<and>
    ((\<exists>s \<in> set (steps d). step_key_of s = adapter_key a \<and> s_run_id s' = s_run_id s)
     \<or> ((\<forall>s \<in> set (steps d). step_key_of s \<noteq> adapter_key a) \<and> s_run_id s' = a_run_id a))"
  using upsert_step_row [OF assms(1) assms(2) [unfolded park_stmt_def Let_def]] assms(3)
  by (auto simp: adapter_key_def step_key_of_def blank_step_def)

lemma current_step_id_None:
  assumes "\<forall>s \<in> set (steps d). step_key_of s = adapter_key a \<longrightarrow> s_run_id s \<noteq> a_run_id a"
  shows "current_step_id a d = None"
proof -
  have "filter (\<lambda>s. s_job_id s = a_job_id a \<and> s_run_id s = a_run_id a
      \<and> s_attempt s = a_attempt a \<and> s_step_key s = a_current_step a) (steps d) = []"
    using assms by (auto simp: filter_empty_conv step_key_of_def adapter_key_def)
  then show ?thesis by (simp add: current_step_id_def)
qed

lemma current_step_id_Some:
  assumes "steps_ok d" "s \<in> set (steps d)" "step_key_of s = adapter_key a" "s_run_id s = a_run_id a"
  shows "current_step_id a d = Some (s_id s)"
proof -
  let ?P = "\<lambda>s. s_job_id s = a_job_id a \<and> s_run_id s = a_run_id a
      \<and> s_attempt s = a_attempt a \<and> s_step_key s = a_current_step a"
  have s: "s \<in> set (filter ?P (steps d))"
    using assms by (auto simp: step_key_of_def adapter_key_def)
  moreover have "x = s" if "x \<in> set (filter ?P (steps d))" for x
    by (rule inj_onD [of step_key_of "set (steps d)"])
      (use that s assms(1) in \<open>auto simp: steps_ok_def distinct_map step_key_of_def\<close>)
  moreover have "distinct (filter ?P (steps d))"
    using assms(1) by (auto simp: steps_ok_def distinct_map)
  ultimately have "filter ?P (steps d) = [s]"
    by (intro singleton_list)
  then show ?thesis by (simp add: current_step_id_def)
qed

lemma wait_poll_waits:
  assumes "\<And>e. e \<in> set es \<Longrightarrow> (\<exists>x y d. e = Tick (Some x) y d)
     \<or> (\<exists>d. e = Tick None None d \<and> poll_decision a d = None)"
  shows "wait_poll a (es @ rest) = wait_poll a rest"
  using assms
proof (induction es)
  case (Cons e es)
  have "wait_poll a ((e # es) @ rest) = wait_poll a (es @ rest)"
    using Cons.prems [of e] by auto
  then show ?case using Cons by auto
qed simp

section \<open>The call inside the vault's scope\<close>

text \<open>The results \<open>CallConnector\<close> makes itself, as opposed to a connector's own.\<close>

definition adapter_codes :: "string list" where
  "adapter_codes = [''CONNECTOR_NOT_FOUND'', ''VALIDATION_FAILED'', ''EXECUTION_FAILED'',
     ''TENANT_CONTEXT_MISSING'', ''MODULE_MISSING'', ''VOLTA_NOT_CONFIGURED'',
     ''VAULT_UNAVAILABLE'', ''SECRET_EXECUTION_FAILED'']"

definition adapter_error :: "connector_result \<Rightarrow> bool" where
  "adapter_error r \<longleftrightarrow> cr_status r = ''error'' \<and>
     (case cr_error r of None \<Rightarrow> False | Some (code, _) \<Rightarrow> code \<in> set adapter_codes)"

lemma adapter_error_codes [simp]:
  "list_all (\<lambda>code. \<exists>r. call_error code msg = Call_result r \<and> adapter_error r) adapter_codes"
  by (simp add: list_all_iff call_error_def adapter_error_def)

lemma adapter_error_intros:
  "\<exists>r. call_error ''CONNECTOR_NOT_FOUND'' msg = Call_result r \<and> adapter_error r"
  "\<exists>r. call_error ''VALIDATION_FAILED'' msg = Call_result r \<and> adapter_error r"
  "\<exists>r. call_error ''EXECUTION_FAILED'' msg = Call_result r \<and> adapter_error r"
  "\<exists>r. call_error ''TENANT_CONTEXT_MISSING'' msg = Call_result r \<and> adapter_error r"
  "\<exists>r. call_error ''MODULE_MISSING'' msg = Call_result r \<and> adapter_error r"
  "\<exists>r. call_error ''VOLTA_NOT_CONFIGURED'' msg = Call_result r \<and> adapter_error r"
  "\<exists>r. call_error ''VAULT_UNAVAILABLE'' msg = Call_result r \<and> adapter_error r"
  "\<exists>r. call_error ''SECRET_EXECUTION_FAILED'' msg = Call_result r \<and> adapter_error r"
  using adapter_error_codes [of msg] unfolding adapter_codes_def list.pred_inject(2) by blast+

lemma resolve_connector_error:
  "resolve_connector a req = Inl out \<Longrightarrow> \<exists>r. out = Call_result r \<and> adapter_error r"
  by (auto simp: resolve_connector_def adapter_error_intros split: option.splits sum.splits)

lemma secret_tenant_error:
  "secret_tenant a = Inl out \<Longrightarrow> \<exists>r. out = Call_result r \<and> adapter_error r"
  by (auto simp: secret_tenant_def adapter_error_intros split: option.splits if_splits)

lemma use_secrets_ok:
  "use_secrets v c req keys = (r, None) \<longleftrightarrow>
     (\<exists>s. v_secrets v keys = Inr s \<and> c_execute c (cq_operation req) (cq_input req) (Some s) = (r, None))"
  by (auto simp: use_secrets_def split: sum.splits prod.splits option.splits)

text \<open>Where the secrets of a call come from.\<close>

definition vault_gives :: "step_adapter \<Rightarrow> string list \<Rightarrow> (string \<times> string) list \<Rightarrow> bool" where
  "vault_gives a keys s \<longleftrightarrow>
     (case (secret_tenant a, a_vault a) of
        (Inr t, Some vm) \<Rightarrow> (case vm t of Inl _ \<Rightarrow> False | Inr v \<Rightarrow> v_secrets v keys = Inr s)
      | _ \<Rightarrow> False)"

lemma call_with_secrets_outcome:
  obtains (own) r where "fst (call_with_secrets a c req keys) = Call_result r" "adapter_error r"
  | (exec) s r where "vault_gives a keys s"
      "c_execute c (cq_operation req) (cq_input req) (Some s) = (r, None)"
      "fst (call_with_secrets a c req keys) = convert_result r"
proof (cases "secret_tenant a")
  case (Inl r)
  then show ?thesis using own secret_tenant_error [OF Inl] by (auto simp: call_with_secrets_def)
next
  case (Inr t)
  show ?thesis
  proof (cases "a_vault a")
    case None
    then have "\<exists>r. fst (call_with_secrets a c req keys) = Call_result r \<and> adapter_error r"
      using Inr by (simp add: call_with_secrets_def adapter_error_intros)
    then show ?thesis using own by blast
  next
    case (Some vm)
    show ?thesis
    proof (cases "vm t")
      case (Inl e)
      then have "\<exists>r. fst (call_with_secrets a c req keys) = Call_result r \<and> adapter_error r"
        using Inr Some by (simp add: call_with_secrets_def adapter_error_intros)
      then show ?thesis using own by blast
    next
      case v: (Inr v)
      obtain r e where u: "use_secrets v c req keys = (r, e)" by fastforce
      show ?thesis
      proof (cases e)
        case None
        then obtain s where "v_secrets v keys = Inr s"
            "c_execute c (cq_operation req) (cq_input req) (Some s) = (r, None)"
          using u use_secrets_ok by blast
        then show ?thesis using exec [of s r] u None Inr Some v
          by (simp add: call_with_secrets_def vault_gives_def)
      next
        case (Some e')
        then have "\<exists>r. fst (call_with_secrets a c req keys) = Call_result r \<and> adapter_error r"
          using u Inr \<open>a_vault a = Some vm\<close> v
          by (simp add: call_with_secrets_def Let_def adapter_error_intros)
        then show ?thesis using own by blast
      qed
    qed
  qed
qed

definition required_keys :: "connector \<Rightarrow> string \<Rightarrow> string list" where
  "required_keys c op = (case c_required_secrets c of None \<Rightarrow> [] | Some f \<Rightarrow> f op)"

lemma call_connector_cases:
  obtains (own) r where "fst (call_connector a req) = Call_result r" "adapter_error r"
  | (exec) c sec r where "resolve_connector a req = Inr c"
      "c_validate c (cq_operation req) (cq_input req) = None"
      "c_execute c (cq_operation req) (cq_input req) sec = (r, None)"
      "case sec of None \<Rightarrow> required_keys c (cq_operation req) = []
         | Some s \<Rightarrow> required_keys c (cq_operation req) \<noteq> []
             \<and> vault_gives a (required_keys c (cq_operation req)) s"
      "fst (call_connector a req) = convert_result r"
proof (cases "resolve_connector a req")
  case (Inl r)
  then show ?thesis using own resolve_connector_error [OF Inl] by (auto simp: call_connector_def)
next
  case (Inr c)
  let ?op = "cq_operation req"
  consider (invalid) e where "c_validate c ?op (cq_input req) = Some e"
    | (plain) "c_validate c ?op (cq_input req) = None" "required_keys c ?op = []"
    | (secret) "c_validate c ?op (cq_input req) = None" "required_keys c ?op \<noteq> []"
    by (cases "c_validate c ?op (cq_input req)") auto
  then show ?thesis
  proof cases
    case invalid
    then have "\<exists>r. fst (call_connector a req) = Call_result r \<and> adapter_error r"
      using Inr by (simp add: call_connector_def adapter_error_intros)
    then show ?thesis using own by blast
  next
    case plain
    then have eq: "fst (call_connector a req) = call_plain c req"
      using Inr by (simp add: call_connector_def required_keys_def)
    obtain r e where x: "c_execute c ?op (cq_input req) None = (r, e)" by fastforce
    show ?thesis
    proof (cases e)
      case None
      then show ?thesis using exec [of c None r] x eq Inr plain by (simp add: call_plain_def)
    next
      case (Some e')
      then have "\<exists>r. fst (call_connector a req) = Call_result r \<and> adapter_error r"
        using x by (simp add: eq call_plain_def adapter_error_intros)
      then show ?thesis using own by blast
    qed
  next
    case secret
    then have "call_connector a req = call_with_secrets a c req (required_keys c ?op)"
      using Inr by (simp add: call_connector_def required_keys_def)
    then show ?thesis
      using own exec [of c "Some _"] Inr secret
      by (cases rule: call_with_secrets_outcome [of a c req "required_keys c ?op"]) auto
  qed
qed

section \<open>Properties\<close>


text \<open>C14: a decision recorded for the parked step and its run ends the wait: after any number of
  polls that failed to get a connection or saw no decision yet, the first poll that sees one
  returns the latest of those recorded.\<close>

theorem wait_for_approval_returns:
  assumes "a_current_step a \<noteq> []" "steps_ok d"
    "\<forall>s \<in> set (steps d). step_key_of s \<noteq> adapter_key a"
    "\<forall>e \<in> set pre. \<exists>x y dx. e = Tick (Some x) y dx \<or> e = Tick None None dx \<and> poll_decision a dx = None"
    "steps ds = steps (park_stmt a req t d)" "steps_seq ds = steps_seq (park_stmt a req t d)"
    "x \<in> set (approval_decisions ds)" "d_job_id x = a_job_id a" "d_run_id x = a_run_id a"
    "d_step_id x = steps_seq d"
    "\<forall>y \<in> set (approval_decisions ds). y \<noteq> x \<longrightarrow> d_created_at y < d_created_at x"
  shows "fst (wait_for_approval (quiet_env t b) a req (pre @ Tick None None ds # post) d)
    = Some (Inr \<lparr>ao_decision = decision_text (d_decision x), ao_approver = d_approver x,
        ao_justification = (case d_justification x of None \<Rightarrow> [] | Some j \<Rightarrow> j),
        ao_decided_at = d_created_at x\<rparr>)"
proof -
  let ?P = "\<lambda>x. d_job_id x = a_job_id a \<and> d_run_id x = a_run_id a \<and> d_step_id x = steps_seq d"
  let ?row = "(blank_step a (a_current_step a) Waiting_approval t)\<lparr>
    s_approval_request := Some (approval_request_json req), s_approval_ttl := Some (approval_ttl req),
    s_approval_expires_at := Some (t + approval_ttl req), s_id := steps_seq d\<rparr>"
  have "?row \<in> set (steps ds)"
    using assms(3,5) by (auto simp: park_stmt_def upsert_step_def upsert_step_same adapter_key_def
        step_key_of_def blank_step_def Let_def)
  moreover have "steps_ok ds"
    using step_stmts_ok(3) [OF assms(2), of a req t] assms(5,6) by (simp add: steps_ok_def)
  ultimately have id: "current_step_id a ds = Some (steps_seq d)"
    using current_step_id_Some [of ds ?row a]
    by (simp add: step_key_of_def adapter_key_def blank_step_def)
  have x: "x \<in> set (filter ?P (approval_decisions ds))" using assms(7-10) by simp
  let ?l = "sort_key (\<lambda>x. - d_created_at x) (filter ?P (approval_decisions ds))"
  have "x \<in> set ?l" unfolding set_sort by (rule x)
  then have "?l \<noteq> []" by (rule list.set_cases) simp_all
  then obtain y ys where y: "?l = y # ys" by (cases ?l) simp_all
  have S: "set (y # ys) = set (filter ?P (approval_decisions ds))"
    unfolding y [symmetric] by (rule set_sort)
  have srt: "sorted (map (\<lambda>x. - d_created_at x) (y # ys))"
    unfolding y [symmetric] by (rule sorted_sort_key)
  have "y = x"
  proof (rule ccontr)
    assume ne: "y \<noteq> x"
    have "y \<in> set (approval_decisions ds)" using S by auto
    then have "d_created_at y < d_created_at x" using assms(11) ne by simp
    moreover have "x \<in> set ys" using x S ne by auto
    ultimately show False using srt by auto
  qed
  then have p: "poll_decision a ds = Some \<lparr>ao_decision = decision_text (d_decision x),
      ao_approver = d_approver x,
      ao_justification = (case d_justification x of None \<Rightarrow> [] | Some j \<Rightarrow> j),
      ao_decided_at = d_created_at x\<rparr>"
    using y by (simp add: poll_decision_def id)
  have "wait_poll a (pre @ Tick None None ds # post) = wait_poll a (Tick None None ds # post)"
    using assms(4) by (intro wait_poll_waits) blast
  then show ?thesis using assms(1) p by (simp add: wait_for_approval_def)
qed

definition ex_adapter :: "string \<Rightarrow> step_adapter" where
  "ex_adapter r = begin_step ''approval'' (new_step_api_adapter [] None ''j1'' r 1)"

definition ex_request :: approval_request where
  "ex_request = \<lparr>ar_summary = ''deploy'', ar_detail = [], ar_blast_radius = ''high'',
     ar_policy_ref = [], ar_metadata = Some [(''approval_ttl'', ''1h'')]\<rparr>"

definition ex_decision :: decision_row where
  "ex_decision = \<lparr>d_id = ''x'', d_job_id = ''j1'', d_step_id = 1, d_run_id = ''r1'',
     d_decision = Approved, d_approver = ''ann'', d_justification = None,
     d_idempotency_key = ''k'', d_created_at = 7\<rparr>"

lemmas ex_adapter_simps = ex_adapter_def begin_step_def new_step_api_adapter_def
  new_step_api_adapter_vault_audit_def adapter_key_def

theorem wait_for_approval_returns_witness:
  "fst (wait_for_approval (quiet_env 5 True) (ex_adapter ''r1'') ex_request
     ([] @ Tick None None ((park_stmt (ex_adapter ''r1'') ex_request 5 empty_db)
        \<lparr>approval_decisions := [ex_decision]\<rparr>) # []) empty_db)
   = Some (Inr \<lparr>ao_decision = decision_text (d_decision ex_decision),
        ao_approver = d_approver ex_decision,
        ao_justification = (case d_justification ex_decision of None \<Rightarrow> [] | Some j \<Rightarrow> j),
        ao_decided_at = d_created_at ex_decision\<rparr>)"
  by (rule wait_for_approval_returns)
    (simp_all add: ex_adapter_simps empty_db_def steps_ok_def ex_decision_def)

text \<open>A step that an earlier run of the same attempt already wrote keeps that run's id when
  it is parked again, while the poll asks for the new run's. So after a lost lease has been taken
  over (which does not change the attempt) no decision, whatever is recorded, ends the wait.\<close>

theorem wait_after_takeover_never_returns:
  assumes "a_current_step a \<noteq> []" "steps_ok d" "s \<in> set (steps d)" "step_key_of s = adapter_key a"
    "s_run_id s \<noteq> a_run_id a"
    "\<forall>e \<in> set es. \<exists>ds. e = Tick None None ds \<and> steps ds = steps (park_stmt a req t d)"
  shows "fst (wait_for_approval (quiet_env t b) a req es d) = None"
proof -
  have "s_run_id r \<noteq> a_run_id a"
    if r: "r \<in> set (steps (park_stmt a req t d))" "step_key_of r = adapter_key a" for r
  proof -
    obtain s' where s': "s' \<in> set (steps d)" "step_key_of s' = adapter_key a" "s_run_id r = s_run_id s'"
      using park_stmt_row [OF assms(2) r] assms(3,4) by auto
    have "s' = s" using inj_onD [of step_key_of "set (steps d)" s' s] s' assms(2-4)
      by (simp add: steps_ok_def distinct_map)
    then show ?thesis using s'(3) assms(5) by simp
  qed
  then have "poll_decision a ds = None" if "steps ds = steps (park_stmt a req t d)" for ds
    using that current_step_id_None [of ds a] by (simp add: poll_decision_def)
  then have "wait_poll a (es @ []) = wait_poll a []"
    using assms(6) by (intro wait_poll_waits) blast
  then show ?thesis using assms(1) by (simp add: wait_for_approval_def)
qed

theorem wait_after_takeover_never_returns_witness:
  "let d = end_step_ok_stmt (ex_adapter ''r1'') ''approval'' None 3 empty_db;
       a = ex_adapter ''r2'';
       ds = (park_stmt a ex_request 5 d)\<lparr>approval_decisions := [ex_decision\<lparr>d_run_id := ''r2''\<rparr>]\<rparr>
   in fst (wait_for_approval (quiet_env 5 True) a ex_request [Tick None None ds] d) = None"
  unfolding Let_def
  by (rule wait_after_takeover_never_returns [where s = "(blank_step (ex_adapter ''r1'')
        ''approval'' Step_ok 3)\<lparr>s_finished_at := Some 3, s_id := 1\<rparr>"])
    (simp_all add: ex_adapter_simps empty_db_def steps_ok_def end_step_ok_stmt_def upsert_step_def
      blank_step_def step_key_of_def)

end
