(* ===== verification/Runner.thy ===== *)
theory Runner
  imports Step_Api
begin

text \<open>
  The runner, \<open>src/internal/runner/service.go\<close>: \<open>RunJob\<close> fetches a claimed job, runs its module
  and finalises the job by one of three fenced updates. Each \<open>UPDATE\<close> is an atomic statement on
  the database; the functions around it are sequences of statements on a connection, so what
  other sessions commit in between and every failing call is part of the model. The interface the
  four updates share is the locale \<open>fenced_finaliser\<close>. The cron parser is third-party code and
  a parameter: \<open>cron s\<close> is a parse error or the function \<open>Next\<close>, whose \<open>None\<close> is the zero time.
\<close>

section \<open>Fenced updates of a job\<close>

definition fenced :: "string \<Rightarrow> string \<Rightarrow> job_row \<Rightarrow> bool" where
  "fenced i r j \<longleftrightarrow> j_id j = i \<and> j_run_id j = r \<and> j_state j = Running"

definition fenced_update :: "string \<Rightarrow> string \<Rightarrow> (job_row \<Rightarrow> job_row) \<Rightarrow> db \<Rightarrow> nat \<times> db" where
  "fenced_update i r f d = (rows_affected (fenced i r) (jobs d),
     d\<lparr>jobs := update_rows (fenced i r) f (jobs d)\<rparr>)"

definition requeue_set :: "time \<Rightarrow> time \<Rightarrow> job_row \<Rightarrow> job_row" where
  "requeue_set next t j = j\<lparr>j_state := Queued, j_owner_id := None, j_lease_expires_at := None,
     j_next_run_at := Some next, j_last_error_code := None, j_last_error_message := None,
     j_finished_at := None, j_updated_at := t\<rparr>"

definition succeeded_set :: "time \<Rightarrow> job_row \<Rightarrow> job_row" where
  "succeeded_set t j = j\<lparr>j_state := Succeeded, j_owner_id := None, j_lease_expires_at := None,
     j_next_run_at := None, j_last_error_code := None, j_last_error_message := None,
     j_finished_at := Some t, j_updated_at := t\<rparr>"

definition failure_set :: "string \<Rightarrow> string \<Rightarrow> time \<Rightarrow> job_row \<Rightarrow> job_row" where
  "failure_set code msg t j =
     (let exhausted = (j_max_attempts j \<le> j_attempt j) in
      j\<lparr>j_state := (if exhausted then Jobs_exhausted else Queued),
        j_owner_id := None, j_lease_expires_at := None,
        j_next_run_at := (if exhausted then None
          else map_option (\<lambda>b. t + b) (backoff_interval (j_attempt j) (j_backoff_policy j))),
        j_last_error_code := Some code, j_last_error_message := Some msg, j_updated_at := t,
        j_finished_at := (if exhausted then Some t else None)\<rparr>)"

definition exhausted_set :: "string \<Rightarrow> string \<Rightarrow> time \<Rightarrow> job_row \<Rightarrow> job_row" where
  "exhausted_set code msg t j = j\<lparr>j_state := Jobs_exhausted, j_owner_id := None,
     j_lease_expires_at := None, j_next_run_at := None, j_last_error_code := Some code,
     j_last_error_message := Some msg, j_updated_at := t, j_finished_at := Some t\<rparr>"

definition requeue_stmt :: "time \<Rightarrow> string \<Rightarrow> string \<Rightarrow> time \<Rightarrow> db \<Rightarrow> string + (nat \<times> db)" where
  "requeue_stmt next i r t d = Inr (fenced_update i r (requeue_set next t) d)"

definition succeeded_stmt :: "string \<Rightarrow> string \<Rightarrow> time \<Rightarrow> db \<Rightarrow> string + (nat \<times> db)" where
  "succeeded_stmt i r t d = Inr (fenced_update i r (succeeded_set t) d)"

text \<open>
  The column \<open>state\<close> is assigned \<open>CASE WHEN ... THEN 'jobs_exhausted' ELSE 'queued' END\<close>, an
  expression of type text; a server that does not coerce text to \<open>job_state\<close> in an assignment
  rejects the statement. The branches of \<open>CASE\<close> are evaluated on demand, so \<open>backoff_interval\<close>
  can fail only for a job with attempts left.
\<close>

definition failure_stmt ::
  "bool \<Rightarrow> string \<Rightarrow> string \<Rightarrow> string \<Rightarrow> string \<Rightarrow> time \<Rightarrow> db \<Rightarrow> string + (nat \<times> db)" where
  "failure_stmt text_to_enum code msg i r t d =
     (if \<not> text_to_enum then
        Inl ''column state is of type job_state but expression is of type text''
      else if list_ex (\<lambda>j. fenced i r j \<and> j_attempt j < j_max_attempts j
             \<and> backoff_interval (j_attempt j) (j_backoff_policy j) = None) (jobs d)
      then Inl ''value out of range''
      else Inr (fenced_update i r (failure_set code msg t) d))"

definition exhausted_stmt ::
  "string \<Rightarrow> string \<Rightarrow> string \<Rightarrow> string \<Rightarrow> time \<Rightarrow> db \<Rightarrow> string + (nat \<times> db)" where
  "exhausted_stmt code msg i r t d = Inr (fenced_update i r (exhausted_set code msg t) d)"

section \<open>Finalisation\<close>

type_synonym cron = "string \<Rightarrow> string + (time \<Rightarrow> time option)"

definition compute_next_run_at :: "cron \<Rightarrow> string option \<Rightarrow> time \<Rightarrow> string + time option" where
  "compute_next_run_at cron schedule base =
     (case schedule of
        None \<Rightarrow> Inr None
      | Some s \<Rightarrow>
          if trim_space s = [] then Inr None
          else case cron s of
            Inl e \<Rightarrow> Inl (''failed to parse job schedule during success finalization: '' @ e)
          | Inr next \<Rightarrow>
              (case next base of
                 None \<Rightarrow> Inl (''failed to compute next run for schedule '' @ go_quote s)
               | Some t \<Rightarrow> Inr (Some t)))"

definition insert_outbox_succeeded :: "string \<Rightarrow> time \<Rightarrow> db \<Rightarrow> db" where
  "insert_outbox_succeeded i t d =
     (case find_job i d of
        None \<Rightarrow> d
      | Some j \<Rightarrow> d\<lparr>outbox := outbox d @ [\<lparr>o_tenant_id = j_tenant_id j, o_job_id = Some (j_id j),
          o_kind = Event, o_payload_json = [(''type'', GStr ''job.succeeded''), (''job_id'', GStr (j_id j))],
          o_delivery_state = ''pending'', o_attempt = 0, o_max_attempts = 12,
          o_next_run_at = Some t\<rparr>]\<rparr>)"

text \<open>The projection after statement \<open>k\<close>; its error is discarded.\<close>

definition project_stmt :: "conn_env \<Rightarrow> nat \<Rightarrow> string \<Rightarrow> db \<Rightarrow> db" where
  "project_stmt env k i d = snd (exec_stmt env k (\<lambda>t d. Inr ((), upsert_jobs_read i d)) d)"

definition outbox_stmt :: "conn_env \<Rightarrow> nat \<Rightarrow> string \<Rightarrow> db \<Rightarrow> db" where
  "outbox_stmt env k i d = snd (exec_stmt env k (\<lambda>t d. Inr ((), insert_outbox_succeeded i t d)) d)"

definition fetch_schedule ::
  "string \<Rightarrow> string \<Rightarrow> time \<Rightarrow> db \<Rightarrow> string + ((string option \<times> time) option \<times> db)" where
  "fetch_schedule i r t d =
     Inr (map_option (\<lambda>j. (j_schedule j, t)) (List.find (fenced i r) (jobs d)), d)"

definition success_stmt :: "time option \<Rightarrow> string \<Rightarrow> string \<Rightarrow> time \<Rightarrow> db \<Rightarrow> string + (nat \<times> db)" where
  "success_stmt next i r =
     (case next of Some n \<Rightarrow> requeue_stmt n i r | None \<Rightarrow> succeeded_stmt i r)"

definition finalise_success ::
  "conn_env \<Rightarrow> cron \<Rightarrow> string \<Rightarrow> string \<Rightarrow> db \<Rightarrow> string option \<times> db" where
  "finalise_success env cron i r d =
     (case acquire env of
        Some e \<Rightarrow> (Some (''failed to acquire db connection: '' @ e), d)
      | None \<Rightarrow>
     (case exec_stmt env 1 (fetch_schedule i r) d of
        (Inl e, d1) \<Rightarrow> (Some (''failed to fetch schedule for success finalization: '' @ e), d1)
      | (Inr None, d1) \<Rightarrow> (Some ''fenced conflict while finalising success'', d1)
      | (Inr (Some (schedule, dbNow)), d1) \<Rightarrow>
     (case compute_next_run_at cron schedule dbNow of
        Inl e \<Rightarrow> (Some e, d1)
      | Inr next \<Rightarrow>
     (case exec_stmt env 2 (success_stmt next i r) d1 of
        (Inl e, d2) \<Rightarrow> (Some (''failed to finalise success: '' @ e), d2)
      | (Inr n, d2) \<Rightarrow>
          if n = 0 then (Some ''fenced conflict while finalising success'', d2)
          else (None, outbox_stmt env 4 i (project_stmt env 3 i d2))))))"

definition finalise_failure ::
  "conn_env \<Rightarrow> string \<Rightarrow> string \<Rightarrow> string \<Rightarrow> string \<Rightarrow> db \<Rightarrow> string option \<times> db" where
  "finalise_failure env i r code msg d =
     (case acquire env of
        Some e \<Rightarrow> (Some (''failed to acquire db connection: '' @ e), d)
      | None \<Rightarrow>
     (case exec_stmt env 1 (failure_stmt (ce_text_to_enum env) code msg i r) d of
        (Inl e, d1) \<Rightarrow> (Some (''failed to finalise failure: '' @ e), d1)
      | (Inr n, d1) \<Rightarrow>
          if n = 0 then (Some ''fenced conflict while finalising failure'', d1)
          else (None, project_stmt env 2 i d1)))"

definition finalise_terminal ::
  "conn_env \<Rightarrow> string \<Rightarrow> string \<Rightarrow> string \<Rightarrow> string \<Rightarrow> db \<Rightarrow> string option \<times> db" where
  "finalise_terminal env i r code msg d =
     (case acquire env of
        Some e \<Rightarrow> (Some (''failed to acquire db connection: '' @ e), d)
      | None \<Rightarrow>
     (case exec_stmt env 1 (exhausted_stmt code msg i r) d of
        (Inl e, d1) \<Rightarrow> (Some (''failed to finalise terminal error: '' @ e), d1)
      | (Inr n, d1) \<Rightarrow>
          if n = 0 then (Some ''fenced conflict while finalising terminal error'', d1)
          else (None, project_stmt env 2 i d1)))"

section \<open>RunJob\<close>

text \<open>What \<open>Module.Execute\<close> ends with: \<open>Exec_terminal\<close> is an error chain that holds a
  \<open>TerminalError\<close>.\<close>

datatype exec_outcome =
    Exec_ok
  | Exec_terminal string string string
  | Exec_err string
  | Exec_panic string

record module_impl =
  m_key :: string
  m_version :: string
  m_connectors :: "(string \<times> connector) list option"
  m_secret_context :: "string option"
  m_execute :: "step_adapter \<Rightarrow> go_map \<Rightarrow> db \<Rightarrow> exec_outcome \<times> db"

record runner_service =
  rs_family_registry :: "family_registry option"
  rs_vault_manager :: "vault_manager option"
  rs_step_api :: "step_adapter option"
  rs_lookup :: "string \<Rightarrow> string \<Rightarrow> module_impl option"
  rs_poll_env :: string
  rs_cron :: cron
  rs_render :: "go_any \<Rightarrow> string"

datatype run_result = Run_ok | Run_err string | Run_panic string

text \<open>
  \<open>COALESCE(params_json->>'version', 'latest')\<close>: a missing key, a JSON null and a document that is
  no object give SQL NULL; \<open>rs_render\<close> is the server's text of any value that is no string.
\<close>

definition version_of :: "(go_any \<Rightarrow> string) \<Rightarrow> go_any \<Rightarrow> string" where
  "version_of render params =
     (case params of
        GMap m \<Rightarrow> (case go_get m ''version'' of GNil \<Rightarrow> ''latest'' | GStr s \<Rightarrow> s | v \<Rightarrow> render v)
      | _ \<Rightarrow> ''latest'')"

text \<open>\<open>json.Unmarshal\<close> into a map: the document \<open>null\<close> sets the map to nil (\<open>Inr None\<close>).\<close>

definition decode_params :: "go_any \<Rightarrow> string + go_map option" where
  "decode_params v =
     (case v of GNil \<Rightarrow> Inr None | GMap m \<Rightarrow> Inr (Some m)
      | _ \<Rightarrow> Inl ''json: cannot unmarshal into Go value of type map[string]interface {}'')"

definition job_adapter :: "runner_service \<Rightarrow> module_impl \<Rightarrow> job_row \<Rightarrow> string \<Rightarrow> string \<Rightarrow> step_adapter" where
  "job_adapter s m j i r =
     (let a = (case rs_step_api s of
                 Some a \<Rightarrow> a
               | None \<Rightarrow> new_step_api_adapter_vault_audit (rs_poll_env s) (rs_family_registry s)
                   (rs_vault_manager s) False i r (j_attempt j));
          a1 = a\<lparr>a_tenant_id := j_tenant_id j, a_module := Some (m_secret_context m)\<rparr>
      in case m_connectors m of
           Some cs \<Rightarrow> if cs \<noteq> [] then a1\<lparr>a_resolved := Some cs\<rparr> else a1
         | None \<Rightarrow> a1)"

definition runtime_params :: "string \<Rightarrow> string \<Rightarrow> int \<Rightarrow> go_map \<Rightarrow> go_map" where
  "runtime_params i r n m =
     alist_put ''attempt'' (GInt n) (alist_put ''run_id'' (GStr r) (alist_put ''job_id'' (GStr i) m))"

definition run_module ::
  "conn_env \<Rightarrow> runner_service \<Rightarrow> module_impl \<Rightarrow> job_row \<Rightarrow> string \<Rightarrow> string \<Rightarrow> string \<Rightarrow> go_map \<Rightarrow> db
     \<Rightarrow> run_result \<times> db" where
  "run_module fin s m j version i r params d =
     (let failed = (\<lambda>e. ''module execution failed for '' @ j_path_key j @ '':'' @ version @ '': '' @ e)
      in case m_execute m (job_adapter s m j i r) params d of
        (Exec_panic e, d1) \<Rightarrow> (Run_panic e, d1)
      | (Exec_terminal code msg e, d1) \<Rightarrow>
          (Run_err (failed e), snd (finalise_terminal fin i r code msg d1))
      | (Exec_err e, d1) \<Rightarrow>
          (Run_err (failed e), snd (finalise_failure fin i r ''RUNNER_EXEC_FAILED'' e d1))
      | (Exec_ok, d1) \<Rightarrow>
          (case finalise_success fin (rs_cron s) i r d1 of
             (Some e, d2) \<Rightarrow> (Run_err e, d2)
           | (None, d2) \<Rightarrow> (Run_ok, d2)))"

definition run_job ::
  "conn_env \<Rightarrow> conn_env \<Rightarrow> runner_service \<Rightarrow> string \<Rightarrow> string \<Rightarrow> db \<Rightarrow> run_result \<times> db" where
  "run_job env fin s i r d =
     (case acquire env of
        Some e \<Rightarrow> (Run_err (''failed to acquire db connection: '' @ e), d)
      | None \<Rightarrow>
     (case exec_stmt env 1 (\<lambda>t d. Inr (List.find (fenced i r) (jobs d), d)) d of
        (Inl e, d1) \<Rightarrow> (Run_err (''failed to fetch job: '' @ e), d1)
      | (Inr None, d1) \<Rightarrow> (Run_err ''failed to fetch job: no rows in result set'', d1)
      | (Inr (Some j), d1) \<Rightarrow>
     (case decode_params (j_params_json j) of
        Inl e \<Rightarrow> (Run_err (''failed to decode job params: '' @ e), d1)
      | Inr None \<Rightarrow> (Run_panic ''assignment to entry in nil map'', d1)
      | Inr (Some m) \<Rightarrow>
          let params = runtime_params i r (j_attempt j) m;
              v = version_of (rs_render s) (j_params_json j);
              version = (if v = [] then ''latest'' else v)
          in case rs_lookup s (j_path_key j) version of
               None \<Rightarrow>
                 let msg = ''module '' @ j_path_key j @ '':'' @ version @ '' not found''
                 in (Run_err msg, snd (finalise_failure fin i r ''MODULE_NOT_FOUND'' msg d1))
             | Some mo \<Rightarrow> run_module fin s mo j version i r params d1)))"

section \<open>The row invariant\<close>

text \<open>
  What every row of \<open>jobs\<close> satisfies: a lease and an owner exactly while running, a due time
  while queued, a finishing time exactly in the terminal states; the states \<open>failed\<close> and
  \<open>canceled\<close> of the schema are used by no statement.
\<close>

definition job_ok :: "job_row \<Rightarrow> bool" where
  "job_ok j \<longleftrightarrow> jobs_attempts_ck j
     \<and> (j_owner_id j \<noteq> None \<longleftrightarrow> j_state j = Running)
     \<and> (j_lease_expires_at j \<noteq> None \<longleftrightarrow> j_state j = Running)
     \<and> (j_state j = Running \<longrightarrow> j_started_at j \<noteq> None \<and> 1 \<le> j_attempt j)
     \<and> (j_state j = Queued \<longrightarrow> j_next_run_at j \<noteq> None)
     \<and> (terminal (j_state j) \<longrightarrow> j_next_run_at j = None \<and> 1 \<le> j_attempt j)
     \<and> (j_finished_at j \<noteq> None \<longleftrightarrow> terminal (j_state j))
     \<and> j_state j \<notin> {Failed, Canceled}"

text \<open>The attempts of a job without a schedule stay within its limit.\<close>

definition unscheduled :: "job_row \<Rightarrow> bool" where
  "unscheduled j \<longleftrightarrow> (case j_schedule j of None \<Rightarrow> True | Some s \<Rightarrow> trim_space s = [])"

definition attempts_ok :: "job_row \<Rightarrow> bool" where
  "attempts_ok j \<longleftrightarrow> (unscheduled j \<longrightarrow> j_attempt j \<le> j_max_attempts j
     \<and> (j_state j = Queued \<longrightarrow> j_attempt j < j_max_attempts j))"

text \<open>The columns no update of the engine changes.\<close>

definition job_identity :: "job_row \<Rightarrow> string \<times> string \<times> string \<times> string \<times> string option" where
  "job_identity j = (j_id j, j_tenant_id j, j_path_key j, j_idempotency_key j, j_schedule j)"

section \<open>The interface of the finalising updates\<close>

locale fenced_finaliser =
  fixes stmt :: "string \<Rightarrow> string \<Rightarrow> time \<Rightarrow> db \<Rightarrow> string + (nat \<times> db)"
    and upd :: "time \<Rightarrow> job_row \<Rightarrow> job_row"
    and adm :: "job_row \<Rightarrow> bool"
  assumes stmt_upd: "stmt i r t d = Inr x \<Longrightarrow> x = fenced_update i r (upd t) d"
    and stmt_adm: "stmt i r t d = Inr x \<Longrightarrow> j \<in> set (jobs d) \<Longrightarrow> fenced i r j \<Longrightarrow> adm j"
    and upd_identity: "job_identity (upd t j) = job_identity j"
    and upd_run: "j_run_id (upd t j) = j_run_id j"
    and upd_attempt: "j_attempt (upd t j) = j_attempt j \<and> j_max_attempts (upd t j) = j_max_attempts j"
    and upd_done: "j_state (upd t j) \<noteq> Running"
    and upd_ok: "job_ok j \<Longrightarrow> j_state j = Running \<Longrightarrow> adm j \<Longrightarrow> job_ok (upd t j)"
begin

lemma upd_id [simp]: "j_id (upd t j) = j_id j"
  using upd_identity [of t j] by (simp add: job_identity_def)

text \<open>Only the job with that id and that run, while it runs, is touched.\<close>

lemma others_untouched:
  assumes "stmt i r t d = Inr (n, d')" "find_job k d = Some j" "\<not> fenced i r j"
  shows "find_job k d' = Some j"
  using assms(2,3) stmt_upd [OF assms(1)]
    find_update_rows [of j_id "upd t" k "fenced i r" "jobs d"]
  by (simp add: fenced_update_def find_job_def)

lemma stale_run_rejected:
  assumes "stmt i r t d = Inr (n, d')" "\<And>j. j \<in> set (jobs d) \<Longrightarrow> \<not> fenced i r j"
  shows "n = 0 \<and> d' = d"
  using assms(2) stmt_upd [OF assms(1)]
    update_rows_noop [of "jobs d" "fenced i r" "upd t"]
  by (simp add: fenced_update_def)

lemma none_fenced_after:
  assumes "stmt i r t d = Inr (n, d')" "j \<in> set (jobs d')"
  shows "\<not> fenced i r j"
proof -
  obtain x where "j = (if fenced i r x then upd t x else x)"
    using assms(2) stmt_upd [OF assms(1)] by (auto simp: fenced_update_def in_update_rows)
  then show ?thesis using upd_done [of t x] by (cases "fenced i r x") (auto simp: fenced_def)
qed

lemma accepted_once:
  assumes "stmt i r t d = Inr (n, d')" "stmt i r t' d' = Inr (n', d'')"
  shows "n' = 0 \<and> d'' = d'"
  using stale_run_rejected [OF assms(2)] none_fenced_after [OF assms(1)] by blast

lemma rows_ok:
  assumes "stmt i r t d = Inr (n, d')" "list_all job_ok (jobs d)"
  shows "list_all job_ok (jobs d')"
  using stmt_upd [OF assms(1)] stmt_adm [OF assms(1)] assms(2) upd_ok
  by (auto simp: fenced_update_def list_all_iff in_update_rows fenced_def)

lemma keys_kept:
  assumes "stmt i r t d = Inr (n, d')"
  shows "map job_identity (jobs d') = map job_identity (jobs d)"
    "map j_run_id (jobs d') = map j_run_id (jobs d)"
    "d' = d\<lparr>jobs := jobs d'\<rparr>"
  using stmt_upd [OF assms] upd_identity upd_run by (simp_all add: fenced_update_def)

lemma accepted_row:
  assumes "stmt i r t d = Inr (n, d')" "find_job i d = Some j" "fenced i r j"
  shows "find_job i d' = Some (upd t j) \<and> 0 < n"
proof -
  have "j \<in> set (jobs d)" using find_job_in [OF assms(2)] by simp
  then have "0 < rows_affected (fenced i r) (jobs d)" using assms(3) by (simp add: rows_affected_pos)
  moreover have "find_job i d' = Some (upd t j)"
    using stmt_upd [OF assms(1)] assms(2,3)
      find_update_rows [of j_id "upd t" i "fenced i r" "jobs d"]
    by (simp add: fenced_update_def find_job_def)
  ultimately show ?thesis using stmt_upd [OF assms(1)] by (simp add: fenced_update_def)
qed

end

text \<open>The failing update is admitted only where its delay can be computed.\<close>

definition backoff_defined :: "job_row \<Rightarrow> bool" where
  "backoff_defined j \<longleftrightarrow> j_attempt j < j_max_attempts j
     \<longrightarrow> backoff_interval (j_attempt j) (j_backoff_policy j) \<noteq> None"

interpretation requeue: fenced_finaliser "requeue_stmt n" "requeue_set n" "\<lambda>_. True" for n
  by unfold_locales
    (auto simp: requeue_stmt_def requeue_set_def job_identity_def job_ok_def jobs_attempts_ck_def)

interpretation succeeded: fenced_finaliser succeeded_stmt succeeded_set "\<lambda>_. True"
  by unfold_locales
    (auto simp: succeeded_stmt_def succeeded_set_def job_identity_def job_ok_def jobs_attempts_ck_def)

interpretation exhausted: fenced_finaliser "exhausted_stmt c m" "exhausted_set c m" "\<lambda>_. True" for c m
  by unfold_locales
    (auto simp: exhausted_stmt_def exhausted_set_def job_identity_def job_ok_def jobs_attempts_ck_def)

interpretation failure: fenced_finaliser "failure_stmt b c m" "failure_set c m" backoff_defined for b c m
  by unfold_locales
    (auto simp: failure_stmt_def failure_set_def job_identity_def job_ok_def jobs_attempts_ck_def
      backoff_defined_def list_ex_iff Let_def split: if_splits)

section \<open>Sequences of statements\<close>

text \<open>
  A property of the row of job \<open>k\<close> that survives what other sessions do survives each of the
  calls. \<open>keeps R f\<close> is the shape of the frame conditions on those sessions.
\<close>

definition keeps_job :: "string \<Rightarrow> job_row \<Rightarrow> (db \<Rightarrow> db) \<Rightarrow> bool" where
  "keeps_job k j f \<longleftrightarrow> (\<forall>d. find_job k d = Some j \<longrightarrow> find_job k (f d) = Some j)"

lemma keeps_job_exec:
  assumes "keeps_job k j (ce_gap env n)" "find_job k d = Some j"
    "\<And>t d x d'. f t d = Inr (x, d') \<Longrightarrow> find_job k d = Some j \<Longrightarrow> find_job k d' = Some j"
    "exec_stmt env n f d = (res, d')"
  shows "find_job k d' = Some j"
  using assms(4) assms(1,2) assms(3) [of _ "ce_gap env n d"]
  by (auto simp: exec_stmt_def Let_def keeps_job_def split: option.splits sum.splits if_splits)

lemma insert_outbox_frame [db_frame, simp]:
  "jobs (insert_outbox_succeeded i t d) = jobs d"
  "jobs_read (insert_outbox_succeeded i t d) = jobs_read d"
  "steps (insert_outbox_succeeded i t d) = steps d"
  "find_job k (insert_outbox_succeeded i t d) = find_job k d"
  by (simp_all add: insert_outbox_succeeded_def find_job_def split: option.splits)

lemma keeps_job_project:
  assumes "keeps_job k j (ce_gap env n)" "find_job k d = Some j"
  shows "find_job k (project_stmt env n i d) = Some j"
  using keeps_job_exec [OF assms, of "\<lambda>t d. Inr ((), upsert_jobs_read i d)"]
  by (cases "exec_stmt env n (\<lambda>t d. Inr ((), upsert_jobs_read i d)) d") (auto simp: project_stmt_def)

lemma keeps_job_outbox:
  assumes "keeps_job k j (ce_gap env n)" "find_job k d = Some j"
  shows "find_job k (outbox_stmt env n i d) = Some j"
  using keeps_job_exec [OF assms, of "\<lambda>t d. Inr ((), insert_outbox_succeeded i t d)"]
  by (cases "exec_stmt env n (\<lambda>t d. Inr ((), insert_outbox_succeeded i t d)) d")
    (auto simp: outbox_stmt_def)

text \<open>A row that is not the running row of \<open>(i, r)\<close> survives all three finalisations.\<close>

lemma finalise_terminal_keeps:
  assumes "\<And>n. keeps_job k j (ce_gap env n)" "find_job k d = Some j" "\<not> fenced i r j"
  shows "find_job k (snd (finalise_terminal env i r code msg d)) = Some j"
proof -
  obtain x d1 where x: "exec_stmt env 1 (exhausted_stmt code msg i r) d = (x, d1)" by fastforce
  have "find_job k d1 = Some j"
    using keeps_job_exec [OF assms(1,2) _ x] exhausted.others_untouched assms(3) by blast
  then show ?thesis using assms(1,2) x keeps_job_project
    by (auto simp: finalise_terminal_def split: option.splits sum.splits)
qed

lemma finalise_failure_keeps:
  assumes "\<And>n. keeps_job k j (ce_gap env n)" "find_job k d = Some j" "\<not> fenced i r j"
  shows "find_job k (snd (finalise_failure env i r code msg d)) = Some j"
proof -
  obtain x d1 where x: "exec_stmt env 1 (failure_stmt (ce_text_to_enum env) code msg i r) d = (x, d1)"
    by fastforce
  have "find_job k d1 = Some j"
    using keeps_job_exec [OF assms(1,2) _ x] failure.others_untouched assms(3) by blast
  then show ?thesis using assms(1,2) x keeps_job_project
    by (auto simp: finalise_failure_def split: option.splits sum.splits)
qed

lemma success_stmt_others:
  assumes "success_stmt nr i r t d = Inr (n', d')"
    "find_job k d = Some j" "\<not> fenced i r j"
  shows "find_job k d' = Some j"
  using assms requeue.others_untouched succeeded.others_untouched
  by (cases nr) (auto simp: success_stmt_def)

lemma finalise_success_keeps:
  assumes "\<And>n. keeps_job k j (ce_gap env n)" "find_job k d = Some j" "\<not> fenced i r j"
  shows "find_job k (snd (finalise_success env cron i r d)) = Some j"
proof -
  obtain x d1 where x: "exec_stmt env 1 (fetch_schedule i r) d = (x, d1)" by fastforce
  have d1: "find_job k d1 = Some j"
    by (rule keeps_job_exec [OF assms(1,2) _ x]) (simp add: fetch_schedule_def)
  have "find_job k d2 = Some j"
    if "exec_stmt env 2 (success_stmt nr i r) d1 = (y, d2)" for nr y d2
    using keeps_job_exec [OF assms(1) d1 _ that] success_stmt_others assms(3) by blast
  then show ?thesis using assms(1,2) x d1 keeps_job_project keeps_job_outbox
    by (auto simp: finalise_success_def split: option.splits sum.splits prod.splits)
qed

lemma find_fenced:
  assumes "find_job i d = Some j" "fenced i r j"
  shows "List.find (fenced i r) (jobs d) = Some j"
proof -
  have "List.find P xs = Some x" if "List.find Q xs = Some x" "P x" "\<And>y. P y \<Longrightarrow> Q y"
    for P Q :: "job_row \<Rightarrow> bool" and xs x
    using that by (induction xs) (auto split: if_splits)
  from this [of "\<lambda>j. j_id j = i" "jobs d" j "fenced i r"] show ?thesis
    using assms by (auto simp: find_job_def fenced_def)
qed

lemma finalise_success_quiet:
  assumes "find_job i d = Some j" "fenced i r j" "compute_next_run_at cron (j_schedule j) t = Inr nr"
  shows "finalise_success (quiet_env t b) cron i r d =
    (None, insert_outbox_succeeded i t (upsert_jobs_read i
       (snd (fenced_update i r (case nr of None \<Rightarrow> succeeded_set t | Some n \<Rightarrow> requeue_set n t) d))))"
proof -
  have "j \<in> set (jobs d)" using find_job_in [OF assms(1)] by simp
  then have "\<exists>x \<in> set (jobs d). fenced i r x" using assms(2) by blast
  then show ?thesis using assms find_fenced [OF assms(1,2)]
    by (cases nr) (simp_all add: finalise_success_def fetch_schedule_def success_stmt_def
        succeeded_stmt_def requeue_stmt_def fenced_update_def project_stmt_def outbox_stmt_def)
qed

lemma finalise_failure_quiet:
  assumes "find_job i d = Some j" "fenced i r j" "backoff_defined j" "distinct (map j_id (jobs d))"
  shows "finalise_failure (quiet_env t True) i r code msg d =
    (None, upsert_jobs_read i (snd (fenced_update i r (failure_set code msg t) d)))"
proof -
  have j: "j \<in> set (jobs d)" using find_job_in [OF assms(1)] by simp
  then have "\<exists>x \<in> set (jobs d). fenced i r x" using assms(2) by blast
  moreover have "x = j" if "x \<in> set (jobs d)" "fenced i r x" for x
    using find_job_key [OF assms(4) that(1)] that(2) assms(1) by (simp add: fenced_def)
  then have "\<not> list_ex (\<lambda>j. fenced i r j \<and> j_attempt j < j_max_attempts j
             \<and> backoff_interval (j_attempt j) (j_backoff_policy j) = None) (jobs d)"
    using assms(3) by (auto simp: list_ex_iff backoff_defined_def)
  ultimately show ?thesis
    by (simp add: finalise_failure_def failure_stmt_def fenced_update_def project_stmt_def)
qed

lemma finalise_terminal_quiet:
  assumes "find_job i d = Some j" "fenced i r j"
  shows "finalise_terminal (quiet_env t b) i r code msg d =
    (None, upsert_jobs_read i (snd (fenced_update i r (exhausted_set code msg t) d)))"
proof -
  have "j \<in> set (jobs d)" using find_job_in [OF assms(1)] by simp
  then have "\<exists>x \<in> set (jobs d). fenced i r x" using assms(2) by blast
  then show ?thesis
    by (simp add: finalise_terminal_def exhausted_stmt_def fenced_update_def project_stmt_def)
qed

lemma find_job_fenced_update:
  assumes "find_job i d = Some j" "fenced i r j" "\<And>x. j_id (f x) = j_id x"
  shows "find_job i (snd (fenced_update i r f d)) = Some (f j)"
  using find_update_rows [of j_id f i "fenced i r" "jobs d"] assms
  by (simp add: fenced_update_def find_job_def)

lemma read_keys_fenced:
  assumes "read_keys_agree d" "\<And>x. job_identity (f x) = job_identity x"
  shows "read_keys_agree (snd (fenced_update i r f d))"
proof -
  have id: "j_id (f x) = j_id x" "j_tenant_id (f x) = j_tenant_id x" "j_path_key (f x) = j_path_key x"
    for x using assms(2) [of x] by (simp_all add: job_identity_def)
  have "find_job k (snd (fenced_update i r f d))
      = map_option (\<lambda>x. if fenced i r x then f x else x) (find_job k d)" for k
    using find_update_rows [of j_id f k "fenced i r" "jobs d"] id(1)
    by (simp add: fenced_update_def find_job_def)
  then show ?thesis using assms(1)
    by (auto simp: read_keys_agree_def list_all_iff fenced_update_def id split: option.splits)
qed

section \<open>Properties\<close>

text \<open>A claimed job, a module that succeeds and a runner, for the concrete instances.\<close>

definition ex_job :: job_row where
  "ex_job = \<lparr>j_id = ''j1'', j_tenant_id = ''acme'', j_path_key = ''infra.provision'',
     j_idempotency_key = ''key-1'', j_params_json = GMap [], j_schedule = None, j_state = Running,
     j_attempt = 1, j_max_attempts = 3, j_backoff_policy = default_policy,
     j_owner_id = Some ''scheduler-1'', j_run_id = ''r1'', j_lease_expires_at = Some 70,
     j_next_run_at = Some 5, j_accepted_at = 5, j_cancel_requested_at = None, j_cancel_reason = None,
     j_last_error_code = None, j_last_error_message = None, j_created_by = None, j_created_at = 5,
     j_started_at = Some 10, j_finished_at = None, j_updated_at = 10\<rparr>"

definition ex_db :: db where
  "ex_db = empty_db\<lparr>jobs := [ex_job], jobs_read := [project_job ex_job]\<rparr>"

definition ex_module :: "exec_outcome \<Rightarrow> module_impl" where
  "ex_module out = \<lparr>m_key = ''infra.provision'', m_version = ''latest'', m_connectors = None,
     m_secret_context = None, m_execute = \<lambda>a params d. (out, d)\<rparr>"

definition ex_runner :: "exec_outcome \<Rightarrow> runner_service" where
  "ex_runner out = \<lparr>rs_family_registry = None, rs_vault_manager = None, rs_step_api = None,
     rs_lookup = \<lambda>k v. if k = ''infra.provision'' then Some (ex_module out) else None,
     rs_poll_env = [], rs_cron = \<lambda>_. Inl ''bad cron'', rs_render = \<lambda>_. []\<rparr>"

lemma ex_find [simp]: "find_job ''j1'' ex_db = Some ex_job"
  by (simp add: find_job_def ex_db_def ex_job_def)

lemma ex_fenced [simp]: "fenced ''j1'' r ex_job \<longleftrightarrow> r = ''r1''"
  by (auto simp: fenced_def ex_job_def)

text \<open>Whatever \<open>RunJob\<close> does on behalf of run \<open>r\<close>, with whatever faults, the row of a job that
  is not the running job of that run stays as it is as long as the other sessions and the modules
  leave it.\<close>

lemma run_job_keeps:
  assumes "\<And>n. keeps_job k j (ce_gap env n)" "\<And>n. keeps_job k j (ce_gap fin n)"
    "\<And>p v m a params. rs_lookup s p v = Some m \<Longrightarrow> keeps_job k j (\<lambda>d. snd (m_execute m a params d))"
    "find_job k d = Some j" "\<not> fenced i r j"
  shows "find_job k (snd (run_job env fin s i r d)) = Some j"
proof -
  obtain x d1 where x: "exec_stmt env 1 (\<lambda>t d. Inr (List.find (fenced i r) (jobs d), d)) d = (x, d1)"
    by fastforce
  have d1: "find_job k d1 = Some j" by (rule keeps_job_exec [OF assms(1,4) _ x]) simp
  have m: "find_job k (snd (run_module fin s m j' v i r params d1)) = Some j"
    if "rs_lookup s p v' = Some m" for m j' v v' p params
  proof -
    obtain out d2 where o: "m_execute m (job_adapter s m j' i r) params d1 = (out, d2)" by fastforce
    then have d2: "find_job k d2 = Some j"
      using assms(3) [OF that, of "job_adapter s m j' i r" params] d1
      by (auto simp: keeps_job_def)
    show ?thesis
      using o finalise_terminal_keeps [OF assms(2) d2 assms(5)]
        finalise_failure_keeps [OF assms(2) d2 assms(5)]
        finalise_success_keeps [OF assms(2) d2 assms(5), of "rs_cron s"] d2
      by (cases out)
        (auto simp: run_module_def Let_def split: prod.splits option.splits)
  qed
  show ?thesis
    using x d1 m assms(4) finalise_failure_keeps [OF assms(2) d1 assms(5)]
    by (auto simp: run_job_def Let_def split: option.splits sum.splits)
qed




lemma ex_read_keys: "read_keys_agree ex_db"
  by (simp add: read_keys_agree_def ex_db_def project_job_def find_job_def)


text \<open>A claimed job whose parameters are the JSON document \<open>null\<close>, which is what a request
  without parameters stores, makes \<open>RunJob\<close> panic on the assignment to a nil map, before any
  module is looked up; the job stays running with its lease.\<close>

theorem run_job_null_params:
  assumes "find_job i d = Some j" "fenced i r j" "j_params_json j = GNil"
  shows "run_job (quiet_env t b) fin s i r d = (Run_panic ''assignment to entry in nil map'', d)"
  using find_fenced [OF assms(1,2)] assms(3) by (simp add: run_job_def decode_params_def)

theorem run_job_null_params_witness:
  "run_job (quiet_env 20 True) (quiet_env 21 True) (ex_runner Exec_ok) ''j1'' ''r1''
     (ex_db\<lparr>jobs := [ex_job\<lparr>j_params_json := GNil\<rparr>]\<rparr>)
   = (Run_panic ''assignment to entry in nil map'', ex_db\<lparr>jobs := [ex_job\<lparr>j_params_json := GNil\<rparr>]\<rparr>)"
  by (rule run_job_null_params [where j = "ex_job\<lparr>j_params_json := GNil\<rparr>"]) (simp_all add: find_job_def fenced_def ex_job_def)

text \<open>On a server that does not coerce text to an enumeration column, \<open>finaliseFailure\<close> never
  succeeds: it returns an error and the failed job stays running under its lease.\<close>

theorem finalise_failure_needs_cast:
  "fst (finalise_failure (quiet_env t False) i r code msg d) \<noteq> None
   \<and> snd (finalise_failure (quiet_env t False) i r code msg d) = d"
  by (simp add: finalise_failure_def failure_stmt_def)

end
