(* ===== verification/Scheduler.thy ===== *)
theory Scheduler
  imports Runner "HOL-Library.Product_Lexorder" "HOL-Library.Option_ord"
begin

text \<open>
  The scheduler and the lease manager: \<open>src/internal/scheduler/service.go\<close> and
  \<open>lease_manager.go\<close>. The claim is one statement: it picks at most ten due jobs in priority
  order, skipping rows other sessions have locked, and gives each a fresh run id and a lease.
  \<open>gen_random_uuid()\<close> is the parameter \<open>ruid\<close>, a run id for each job id; the set of locked rows
  and the order in which \<open>RETURNING\<close> delivers the rows are parameters too.
\<close>

section \<open>Claiming\<close>

definition waiting_approval :: "db \<Rightarrow> string \<Rightarrow> bool" where
  "waiting_approval d i \<longleftrightarrow>
     list_ex (\<lambda>s. s_job_id s = i \<and> s_status s = Waiting_approval) (steps d)"

definition due :: "time \<Rightarrow> job_row \<Rightarrow> bool" where
  "due t j \<longleftrightarrow>
     (j_state j = Queued \<and> (case j_next_run_at j of None \<Rightarrow> False | Some n \<Rightarrow> n \<le> t))
     \<or> (j_state j = Running \<and> (case j_lease_expires_at j of None \<Rightarrow> False | Some l \<Rightarrow> l \<le> t))"

definition claimable :: "time \<Rightarrow> db \<Rightarrow> job_row \<Rightarrow> bool" where
  "claimable t d j \<longleftrightarrow> due t j \<and> \<not> waiting_approval d (j_id j)"

text \<open>Expired runs first, then by due time and lease, \<open>NULL\<close>s first.\<close>

definition claim_key :: "job_row \<Rightarrow> nat \<times> time option \<times> time option" where
  "claim_key j = (if j_state j = Running then 0 else 1, j_next_run_at j, j_lease_expires_at j)"

definition picked :: "(string \<Rightarrow> bool) \<Rightarrow> time \<Rightarrow> db \<Rightarrow> job_row list" where
  "picked locked t d = take 10 (sort_key claim_key
     (filter (\<lambda>j. claimable t d j \<and> \<not> locked (j_id j)) (jobs d)))"

definition claim_set :: "(string \<Rightarrow> string) \<Rightarrow> time \<Rightarrow> job_row \<Rightarrow> job_row" where
  "claim_set ruid t j = j\<lparr>j_state := Running, j_owner_id := Some ''scheduler-1'',
     j_run_id := ruid (j_id j), j_lease_expires_at := Some (t + 60 * second),
     j_attempt := (if j_state j = Queued then j_attempt j + 1 else j_attempt j),
     j_started_at := (case j_started_at j of None \<Rightarrow> Some t | Some s \<Rightarrow> Some s),
     j_updated_at := t\<rparr>"

definition claim_stmt ::
  "(string \<Rightarrow> string) \<Rightarrow> (string \<Rightarrow> bool) \<Rightarrow> time \<Rightarrow> db \<Rightarrow> string + ((string \<times> string) list \<times> db)" where
  "claim_stmt ruid locked t d =
     (let ids = map j_id (picked locked t d) in
      Inr (map (\<lambda>i. (i, ruid i)) ids,
        d\<lparr>jobs := update_rows (\<lambda>j. j_id j \<in> set ids) (claim_set ruid t) (jobs d)\<rparr>))"

section \<open>Dispatch\<close>

record claim_env =
  cl_conn :: conn_env
  cl_ruid :: "string \<Rightarrow> string"
  cl_locked :: "string \<Rightarrow> bool"
  cl_order :: "(string \<times> string) list \<Rightarrow> (string \<times> string) list"
  cl_scan_fails :: "nat \<Rightarrow> bool"
  cl_run :: "nat \<Rightarrow> conn_env \<times> conn_env"

text \<open>
  The rows are run one after the other, whatever \<open>RunJob\<close> returns; a panic of a run ends the
  process, and nothing recovers it.
\<close>

fun dispatch ::
  "claim_env \<Rightarrow> runner_service option \<Rightarrow> nat \<Rightarrow> (string \<times> string) list \<Rightarrow> db \<Rightarrow> string option \<times> db" where
  "dispatch env s k [] d = (None, d)"
| "dispatch env s k ((i, r) # rows) d =
     (if cl_scan_fails env k then dispatch env s (Suc k) rows d
      else case s of
        None \<Rightarrow> dispatch env s (Suc k) rows d
      | Some s' \<Rightarrow>
          (case run_job (fst (cl_run env k)) (snd (cl_run env k)) s' i r d of
             (Run_panic e, d') \<Rightarrow> (Some e, d')
           | (_, d') \<Rightarrow> dispatch env s (Suc k) rows d'))"

definition claim_and_dispatch :: "claim_env \<Rightarrow> runner_service option \<Rightarrow> db \<Rightarrow> string option \<times> db" where
  "claim_and_dispatch env s d =
     (case acquire (cl_conn env) of
        Some e \<Rightarrow> (None, d)
      | None \<Rightarrow>
          (case exec_stmt (cl_conn env) 1 (claim_stmt (cl_ruid env) (cl_locked env)) d of
             (Inl e, d') \<Rightarrow> (None, d')
           | (Inr rows, d') \<Rightarrow> dispatch env s 0 (cl_order env rows) d'))"

text \<open>\<open>Start\<close>: one event per turn of its \<open>select\<close>. The result tells whether the loop has
  returned, is still running when the events end, or the process has crashed.\<close>

datatype sched_event = Sched_ctx_done | Sched_stop | Sched_tick claim_env

datatype sched_status = Sched_returned | Sched_running | Sched_crashed string

fun scheduler_start :: "runner_service option \<Rightarrow> sched_event list \<Rightarrow> db \<Rightarrow> sched_status \<times> db" where
  "scheduler_start s [] d = (Sched_running, d)"
| "scheduler_start s (Sched_ctx_done # es) d = (Sched_returned, d)"
| "scheduler_start s (Sched_stop # es) d = (Sched_returned, d)"
| "scheduler_start s (Sched_tick env # es) d =
     (case claim_and_dispatch env s d of
        (Some e, d') \<Rightarrow> (Sched_crashed e, d')
      | (None, d') \<Rightarrow> scheduler_start s es d')"

section \<open>The lease manager\<close>

definition acquire_lease_stmt ::
  "string \<Rightarrow> string \<Rightarrow> duration \<Rightarrow> string \<Rightarrow> time \<Rightarrow> db \<Rightarrow> string + (nat \<times> db)" where
  "acquire_lease_stmt runID ownerID ttl i t d =
     (let P = (\<lambda>j. j_id j = i \<and> (case j_lease_expires_at j of None \<Rightarrow> True | Some l \<Rightarrow> l < t));
          f = (\<lambda>j. j\<lparr>j_run_id := runID, j_owner_id := Some ownerID,
                 j_lease_expires_at := Some (t + go_quot ttl second * second), j_state := Running,
                 j_updated_at := t\<rparr>)
      in Inr (rows_affected P (jobs d), d\<lparr>jobs := update_rows P f (jobs d)\<rparr>))"

definition acquire_job_lease ::
  "conn_env \<Rightarrow> string \<Rightarrow> string \<Rightarrow> string \<Rightarrow> duration \<Rightarrow> db \<Rightarrow> (string + string) \<times> db" where
  "acquire_job_lease env uuid i ownerID ttl d =
     (case acquire env of
        Some e \<Rightarrow> (Inl e, d)
      | None \<Rightarrow>
          (case exec_stmt env 1 (acquire_lease_stmt uuid ownerID ttl i) d of
             (Inl e, d') \<Rightarrow> (Inl e, d')
           | (Inr n, d') \<Rightarrow>
               if n = 0 then (Inl ''LEASE_ACQUIRE_CONFLICT'', d') else (Inr uuid, d')))"

text \<open>The state is a string parameter; \<open>None\<close> stands for one that is no label of
  \<open>job_state\<close>, which the server rejects.\<close>

definition finalise_fence_stmt ::
  "string \<Rightarrow> string \<Rightarrow> job_state option \<Rightarrow> time \<Rightarrow> db \<Rightarrow> string + (nat \<times> db)" where
  "finalise_fence_stmt i r st t d =
     (case st of
        None \<Rightarrow> Inl ''invalid input value for enum job_state''
      | Some st' \<Rightarrow>
          let P = (\<lambda>j. j_id j = i \<and> j_run_id j = r);
              f = (\<lambda>j. j\<lparr>j_state := st', j_lease_expires_at := None, j_owner_id := None,
                     j_updated_at := t\<rparr>)
          in Inr (rows_affected P (jobs d), d\<lparr>jobs := update_rows P f (jobs d)\<rparr>))"

definition finalise_with_fence ::
  "conn_env \<Rightarrow> string \<Rightarrow> string \<Rightarrow> job_state option \<Rightarrow> db \<Rightarrow> (string + nat) \<times> db" where
  "finalise_with_fence env i r st d =
     (case acquire env of
        Some e \<Rightarrow> (Inl e, d)
      | None \<Rightarrow>
          (case exec_stmt env 1 (finalise_fence_stmt i r st) d of
             (Inl e, d') \<Rightarrow> (Inl e, d')
           | (Inr n, d') \<Rightarrow>
               if n = 0 then (Inl ''ERR_FENCED_CONFLICT'', d') else (Inr n, d')))"

section \<open>Lemmas on the claim\<close>

lemma claim_set_id [simp]: "j_id (claim_set ruid t j) = j_id j"
  by (simp add: claim_set_def)

lemma claim_set_identity [simp]: "job_identity (claim_set ruid t j) = job_identity j"
  by (simp add: claim_set_def job_identity_def)

lemma in_picked:
  "j \<in> set (picked locked t d) \<Longrightarrow> j \<in> set (jobs d) \<and> claimable t d j \<and> \<not> locked (j_id j)"
  unfolding picked_def by (drule in_set_takeD) simp

lemma length_picked: "length (picked locked t d) \<le> 10"
  by (simp add: picked_def)

lemma claim_set_ok:
  "job_ok j \<Longrightarrow> due t j \<Longrightarrow> job_ok (claim_set ruid t j)"
  by (cases "j_started_at j")
    (auto simp: job_ok_def claim_set_def due_def jobs_attempts_ck_def split: option.splits)

lemma claim_set_attempts: "attempts_ok j \<Longrightarrow> due t j \<Longrightarrow> attempts_ok (claim_set ruid t j)"
  by (auto simp: attempts_ok_def claim_set_def due_def unscheduled_def)

lemma claim_row:
  assumes "claim_stmt ruid locked t d = Inr (rows, d')" "find_job i d = Some j"
  shows "find_job i d' = Some (if i \<in> fst ` set rows then claim_set ruid t j else j)"
proof -
  have "j_id j = i" using find_job_in [OF assms(2)] by simp
  moreover have "fst ` set rows = j_id ` set (picked locked t d)"
    using assms(1) by (auto simp: claim_stmt_def Let_def image_image)
  ultimately show ?thesis
    using assms find_update_rows [of j_id "claim_set ruid t" i
        "\<lambda>j. j_id j \<in> j_id ` set (picked locked t d)" "jobs d"]
    by (auto simp: claim_stmt_def Let_def find_job_def)
qed

lemma claimed_due:
  assumes "claim_stmt ruid locked t d = Inr (rows, d')" "distinct (map j_id (jobs d))"
    "find_job i d = Some j" "i \<in> fst ` set rows"
  shows "claimable t d j \<and> \<not> locked i"
proof -
  obtain x where x: "x \<in> set (picked locked t d)" "j_id x = i"
    using assms(1,4) by (auto simp: claim_stmt_def Let_def)
  then have "find_job i d = Some x"
    using in_picked [OF x(1)] find_job_key [OF assms(2), of x] by simp
  then show ?thesis using assms(3) in_picked [OF x(1)] x(2) by simp
qed

lemma claim_rows_fun:
  "claim_stmt ruid locked t d = Inr (rows, d') \<Longrightarrow> (i, r) \<in> set rows \<Longrightarrow> r = ruid i"
  by (auto simp: claim_stmt_def Let_def)

lemma sorted_take_drop:
  assumes "sorted (map k xs)" "x \<in> set (take n xs)" "y \<in> set (drop n xs)"
  shows "k x \<le> k y"
proof -
  have "sorted (map k (take n xs @ drop n xs))" using assms(1) by simp
  then show ?thesis using assms(2,3) by (simp only: map_append sorted_append) auto
qed

section \<open>Properties\<close>


definition ex_claim_db :: db where
  "ex_claim_db = ex_db\<lparr>jobs := [ex_job,
     ex_job\<lparr>j_id := ''j2'', j_state := Queued, j_owner_id := None, j_lease_expires_at := None,
       j_attempt := 0, j_started_at := None, j_idempotency_key := ''key-2''\<rparr>]\<rparr>"

lemma ex_claim:
  "claim_stmt (\<lambda>i. i @ ''-new'') (\<lambda>_. False) 100 ex_claim_db =
     Inr ([(''j1'', ''j1-new''), (''j2'', ''j2-new'')],
       ex_claim_db\<lparr>jobs := map (claim_set (\<lambda>i. i @ ''-new'') 100) (jobs ex_claim_db)\<rparr>)"
  by (simp add: claim_stmt_def picked_def ex_claim_db_def ex_db_def empty_db_def ex_job_def
      claimable_def due_def waiting_approval_def claim_key_def update_rows_def)


text \<open>C5: exclusive claims. A running job is not claimed, and its row not touched, by any claim
  before its lease has expired.\<close>

theorem claim_respects_lease:
  assumes "distinct (map j_id (jobs d))" "find_job i d = Some j" "j_state j = Running"
    "j_lease_expires_at j = Some l" "t < l" "claim_stmt ruid locked t d = Inr (rows, d')"
  shows "i \<notin> fst ` set rows \<and> find_job i d' = Some j"
proof -
  have "\<not> claimable t d j" using assms(3-5) by (simp add: claimable_def due_def)
  then have "i \<notin> fst ` set rows" using claimed_due [OF assms(6,1,2)] by blast
  then show ?thesis using claim_row [OF assms(6,2)] by simp
qed

theorem claim_respects_lease_witness:
  "case claim_stmt (\<lambda>i. i @ ''-new'') (\<lambda>_. False) 69 ex_claim_db of
     Inl _ \<Rightarrow> False
   | Inr (rows, d') \<Rightarrow> ''j1'' \<notin> fst ` set rows \<and> find_job ''j1'' d' = Some ex_job"
proof -
  obtain rows d' where c: "claim_stmt (\<lambda>i. i @ ''-new'') (\<lambda>_. False) 69 ex_claim_db = Inr (rows, d')"
    by (auto simp: claim_stmt_def Let_def)
  have "''j1'' \<notin> fst ` set rows \<and> find_job ''j1'' d' = Some ex_job"
    by (rule claim_respects_lease [OF _ _ _ _ _ c, where l = 70])
      (simp_all add: ex_claim_db_def ex_job_def find_job_def)
  then show ?thesis by (simp add: c)
qed

text \<open>C6: which jobs are claimed: at most ten, each due, none with a step that waits for approval,
  none locked by another session, each with its own run id; and a due job is left behind only when
  ten others were claimed whose priority is at least as high, so expired runs go before queued
  jobs and earlier due times before later ones.\<close>

theorem claim_selection:
  assumes "distinct (map j_id (jobs d))" "claim_stmt ruid locked t d = Inr (rows, d')"
  shows "length rows \<le> 10
    \<and> (\<forall>(i, r) \<in> set rows. r = ruid i \<and> (\<exists>j. find_job i d = Some j \<and> due t j
          \<and> \<not> waiting_approval d i \<and> \<not> locked i))
    \<and> (\<forall>j \<in> set (jobs d). claimable t d j \<and> \<not> locked (j_id j) \<and> j_id j \<notin> fst ` set rows \<longrightarrow>
          length rows = 10 \<and> (\<forall>(i, r) \<in> set rows. \<forall>k. find_job i d = Some k \<longrightarrow>
             claim_key k \<le> claim_key j))"
proof (intro conjI ballI impI)
  have rows: "rows = map (\<lambda>j. (j_id j, ruid (j_id j))) (picked locked t d)"
    using assms(2) by (auto simp: claim_stmt_def Let_def)
  then show "length rows \<le> 10" by (simp add: length_picked)
  show "case x of (i, r) \<Rightarrow> r = ruid i \<and> (\<exists>j. find_job i d = Some j \<and> due t j
          \<and> \<not> waiting_approval d i \<and> \<not> locked i)" if "x \<in> set rows" for x
    using that rows in_picked [of _ locked t d] find_job_key [OF assms(1)]
    by (force simp: claimable_def)
  fix j
  let ?all = "sort_key claim_key (filter (\<lambda>j. claimable t d j \<and> \<not> locked (j_id j)) (jobs d))"
  assume j: "j \<in> set (jobs d)" "claimable t d j \<and> \<not> locked (j_id j) \<and> j_id j \<notin> fst ` set rows"
  then have "j \<in> set ?all" "j \<notin> set (take 10 ?all)"
    by (auto simp: rows image_image picked_def)
  then have drop: "j \<in> set (drop 10 ?all)" by (metis Un_iff append_take_drop_id set_append)
  then show "length rows = 10"
    by (cases "length ?all \<le> 10") (simp_all add: rows picked_def)
  show "case x of (i, r) \<Rightarrow> \<forall>k. find_job i d = Some k \<longrightarrow> claim_key k \<le> claim_key j"
    if x: "x \<in> set rows" for x
  proof -
    obtain k where k: "k \<in> set (take 10 ?all)" "x = (j_id k, ruid (j_id k))"
      using x by (auto simp: rows picked_def)
    then have "find_job (j_id k) d = Some k"
      using in_picked [of k locked t d] find_job_key [OF assms(1), of k] by (simp add: picked_def)
    moreover have "claim_key k \<le> claim_key j"
      by (rule sorted_take_drop [OF _ k(1) drop]) simp
    ultimately show ?thesis using k(2) by simp
  qed
qed

theorem claim_selection_witness:
  "length [(''j1'', ''j1-new''), (''j2'', ''j2-new'')] \<le> 10 \<and> due 100 ex_job"
proof -
  have "distinct (map j_id (jobs ex_claim_db))" by (simp add: ex_claim_db_def ex_job_def)
  from claim_selection [OF this ex_claim] have "\<exists>j. find_job ''j1'' ex_claim_db = Some j \<and> due 100 j"
    by auto
  then show ?thesis by (simp add: find_job_def ex_claim_db_def ex_job_def)
qed

text \<open>C7: the claimed row. It is running under the scheduler's name with the fresh run id and a
  lease of sixty seconds; the attempt counts one more exactly when the job was queued. So a run
  whose process dies is taken over without counting an attempt, however often that happens.\<close>

theorem claim_effect:
  assumes "distinct (map j_id (jobs d))" "claim_stmt ruid locked t d = Inr (rows, d')"
    "find_job i d = Some j" "(i, r) \<in> set rows"
  shows "\<exists>j'. find_job i d' = Some j' \<and> fenced i r j' \<and> j_owner_id j' = Some ''scheduler-1''
    \<and> j_lease_expires_at j' = Some (t + 60 * second)
    \<and> ((j_state j = Queued \<and> j_attempt j' = j_attempt j + 1)
       \<or> (j_state j = Running \<and> j_attempt j' = j_attempt j))
    \<and> (job_ok j \<longrightarrow> job_ok j') \<and> (attempts_ok j \<longrightarrow> attempts_ok j')"
proof -
  have i: "i \<in> fst ` set rows" using assms(4) by force
  have due: "due t j" using claimed_due [OF assms(2,1,3) i] by (simp add: claimable_def)
  show ?thesis
    using claim_row [OF assms(2,3)] i due claim_rows_fun [OF assms(2,4)] claim_set_ok [OF _ due]
      claim_set_attempts [OF _ due] find_job_in [OF assms(3)]
    by (auto simp: fenced_def claim_set_def due_def)
qed

theorem claim_effect_witness:
  "\<exists>j'. find_job ''j1'' (ex_claim_db\<lparr>jobs := map (claim_set (\<lambda>i. i @ ''-new'') 100) (jobs ex_claim_db)\<rparr>)
     = Some j' \<and> j_attempt j' = 1 \<and> j_lease_expires_at j' = Some (100 + 60 * second)"
proof -
  have "distinct (map j_id (jobs ex_claim_db))" "find_job ''j1'' ex_claim_db = Some ex_job"
    by (simp_all add: ex_claim_db_def ex_job_def find_job_def)
  from claim_effect [OF this(1) ex_claim this(2), of "''j1-new''"] show ?thesis
    by (auto simp: ex_job_def)
qed

text \<open>The lease manager. \<open>AcquireJobLease\<close> succeeds exactly on a job that exists and has no
  unexpired lease, and when it does, a finalisation under the job's earlier run id is rejected and
  changes nothing. It does not look at the state of the job, so it also starts a finished one.\<close>

theorem lease_manager_fences:
  assumes "distinct (map j_id (jobs d))"
  shows "(fst (acquire_job_lease (quiet_env t b) u i own ttl d) = Inr u \<longleftrightarrow>
      (\<exists>j. find_job i d = Some j \<and> (case j_lease_expires_at j of None \<Rightarrow> True | Some l \<Rightarrow> l < t)))
    \<and> (\<forall>j r. find_job i d = Some j \<and> j_run_id j = r \<and> r \<noteq> u
        \<and> fst (acquire_job_lease (quiet_env t b) u i own ttl d) = Inr u \<longrightarrow>
        finalise_with_fence (quiet_env t' b) i r (Some st) (snd (acquire_job_lease (quiet_env t b) u i own ttl d))
        = (Inl ''ERR_FENCED_CONFLICT'', snd (acquire_job_lease (quiet_env t b) u i own ttl d)))"
proof -
  let ?P = "\<lambda>j. j_id j = i \<and> (case j_lease_expires_at j of None \<Rightarrow> True | Some l \<Rightarrow> l < t)"
  have one: "(\<exists>x \<in> set (jobs d). ?P x) \<longleftrightarrow> (\<exists>j. find_job i d = Some j \<and> ?P j)"
    using find_job_key [OF assms] find_job_in by blast
  have acq: "acquire_job_lease (quiet_env t b) u i own ttl d =
     (let f = (\<lambda>j. j\<lparr>j_run_id := u, j_owner_id := Some own,
                 j_lease_expires_at := Some (t + go_quot ttl second * second), j_state := Running,
                 j_updated_at := t\<rparr>);
          d' = d\<lparr>jobs := update_rows ?P f (jobs d)\<rparr>
      in (if (\<exists>x \<in> set (jobs d). ?P x) then Inr u else Inl ''LEASE_ACQUIRE_CONFLICT'', d'))"
    by (auto simp: acquire_job_lease_def acquire_lease_stmt_def Let_def)
  have P: "(\<exists>j. find_job i d = Some j \<and> ?P j) \<longleftrightarrow>
      (\<exists>j. find_job i d = Some j \<and> (case j_lease_expires_at j of None \<Rightarrow> True | Some l \<Rightarrow> l < t))"
    using find_job_in [of i d] by blast
  have "\<forall>x \<in> set (jobs (snd (acquire_job_lease (quiet_env t b) u i own ttl d))).
      \<not> (j_id x = i \<and> j_run_id x = r)"
    if "find_job i d = Some j" "j_run_id j = r" "r \<noteq> u" "?P j" for j r
  proof (intro ballI notI)
    fix x assume x: "x \<in> set (jobs (snd (acquire_job_lease (quiet_env t b) u i own ttl d)))"
      "j_id x = i \<and> j_run_id x = r"
    then obtain y where y: "y \<in> set (jobs d)" "x = (if ?P y then y\<lparr>j_run_id := u,
        j_owner_id := Some own, j_lease_expires_at := Some (t + go_quot ttl second * second),
        j_state := Running, j_updated_at := t\<rparr> else y)"
      by (auto simp: acq Let_def in_update_rows)
    moreover have "j_id y = i" using y(2) x(2) by (simp split: if_splits)
    ultimately have "y = j" using find_job_key [OF assms y(1)] that(1) by simp
    then show False using y(2) x(2) that by simp
  qed
  then have "finalise_with_fence (quiet_env t' b) i r (Some st) (snd (acquire_job_lease (quiet_env t b) u i own ttl d))
      = (Inl ''ERR_FENCED_CONFLICT'', snd (acquire_job_lease (quiet_env t b) u i own ttl d))"
    if "find_job i d = Some j" "j_run_id j = r" "r \<noteq> u" "?P j" for j r
    using that update_rows_noop [of "jobs (snd (acquire_job_lease (quiet_env t b) u i own ttl d))"
        "\<lambda>x. j_id x = i \<and> j_run_id x = r"]
    by (simp add: finalise_with_fence_def finalise_fence_stmt_def Let_def)
  moreover have "fst (acquire_job_lease (quiet_env t b) u i own ttl d) = Inr u \<longleftrightarrow>
      (\<exists>x \<in> set (jobs d). ?P x)" by (simp add: acq Let_def)
  ultimately show ?thesis using one P by force
qed

theorem lease_manager_fences_witness:
  "let d = ex_db; a = acquire_job_lease (quiet_env 71 True) ''r2'' ''j1'' ''me'' (30 * second) d
   in fst a = Inr ''r2'' \<and> finalise_with_fence (quiet_env 72 True) ''j1'' ''r1'' (Some Succeeded) (snd a)
        = (Inl ''ERR_FENCED_CONFLICT'', snd a)"
proof -
  have d: "distinct (map j_id (jobs ex_db))" by (simp add: ex_db_def)
  have l: "j_lease_expires_at ex_job = Some 70" "j_run_id ex_job = ''r1''" by (simp_all add: ex_job_def)
  show ?thesis
    using lease_manager_fences [OF d, of 71 True "''r2''" "''j1''" "''me''" "30 * second" 72 Succeeded] l
    unfolding Let_def by (simp add: ex_find) 
qed

end
