(* ===== verification/Job_Intake.thy ===== *)
theory Job_Intake
  imports Runner
begin

text \<open>
  Job submission and job queries: the handlers \<open>CreateJob\<close>, \<open>GetJob\<close> and \<open>CancelJob\<close> of
  \<open>src/internal/transport/http/job_handler.go\<close>. The idempotency record comes in two forms, a
  map in memory and a table, behind one interface, the locale \<open>idempotency_store\<close>. Parsing of
  URLs and IP addresses, the digest of the canonical payload (\<open>json.Marshal\<close>, SHA-256, hex) and
  generated identifiers are parameters.
\<close>

section \<open>Requests and records\<close>

record create_request =
  q_tenant_id :: string
  q_path_key :: string
  q_params :: "go_map option"
  q_idempotency_key :: string
  q_callback_url :: string
  q_max_attempts :: int
  q_first_run_at :: "time option"
  q_schedule :: string

record envelope =
  e_job_id :: string
  e_tenant_id :: string
  e_path_key :: string
  e_state :: string
  e_attempt :: int
  e_max_attempts :: int
  e_next_run_at :: "time option"
  e_accepted_at :: time

record create_record =
  k_fingerprint :: string
  k_status_code :: int
  k_envelope :: envelope

text \<open>\<open>json.Marshal\<close> and \<open>json.Unmarshal\<close> of the envelope.\<close>

definition envelope_json :: "envelope \<Rightarrow> go_map" where
  "envelope_json e = [(''job_id'', GStr (e_job_id e)), (''tenant_id'', GStr (e_tenant_id e)),
     (''path_key'', GStr (e_path_key e)), (''state'', GStr (e_state e)),
     (''attempt'', GInt (e_attempt e)), (''max_attempts'', GInt (e_max_attempts e)),
     (''next_run_at'', case e_next_run_at e of None \<Rightarrow> GNil | Some t \<Rightarrow> GTime t),
     (''accepted_at'', GTime (e_accepted_at e))]"

definition int_of_any :: "go_any \<Rightarrow> int" where
  "int_of_any v = (case v of GInt i \<Rightarrow> i | _ \<Rightarrow> 0)"

definition time_of_any :: "go_any \<Rightarrow> time option" where
  "time_of_any v = (case v of GTime t \<Rightarrow> Some t | _ \<Rightarrow> None)"

definition envelope_of_json :: "go_map \<Rightarrow> envelope" where
  "envelope_of_json m = \<lparr>e_job_id = string_or_empty (go_get m ''job_id''),
     e_tenant_id = string_or_empty (go_get m ''tenant_id''),
     e_path_key = string_or_empty (go_get m ''path_key''), e_state = string_or_empty (go_get m ''state''),
     e_attempt = int_of_any (go_get m ''attempt''),
     e_max_attempts = int_of_any (go_get m ''max_attempts''),
     e_next_run_at = time_of_any (go_get m ''next_run_at''),
     e_accepted_at = (case time_of_any (go_get m ''accepted_at'') of None \<Rightarrow> 0 | Some t \<Rightarrow> t)\<rparr>"

lemma envelope_roundtrip [simp]: "envelope_of_json (envelope_json e) = e"
  by (cases "e_next_run_at e")
    (simp_all add: envelope_of_json_def envelope_json_def go_get_def string_or_empty_def
      int_of_any_def time_of_any_def)

section \<open>Validation\<close>

text \<open>A regular expression of Go's package regexp that matches the same class as the check of the
  schema; \<open>$\<close> without flags matches only at the end of the text.\<close>

definition valid_idempotency_key :: "string \<Rightarrow> bool" where
  "valid_idempotency_key k \<longleftrightarrow>
     (if length k = 0 \<or> 128 < length k then False else k \<noteq> [] \<and> list_all idem_key_char k)"

datatype ip_addr = Ip4 nat nat nat nat | Ip6 "nat list"

fun is_loopback :: "ip_addr \<Rightarrow> bool" where
  "is_loopback (Ip4 a b c d) = (a = 127)"
| "is_loopback (Ip6 bs) = (bs = replicate 15 0 @ [1])"

fun is_link_local_unicast :: "ip_addr \<Rightarrow> bool" where
  "is_link_local_unicast (Ip4 a b c d) = (a = 169 \<and> b = 254)"
| "is_link_local_unicast (Ip6 bs) = (length bs = 16 \<and> bs ! 0 = 254 \<and> bs ! 1 div 64 = 2)"

fun is_link_local_multicast :: "ip_addr \<Rightarrow> bool" where
  "is_link_local_multicast (Ip4 a b c d) = (a = 224 \<and> b = 0 \<and> c = 0)"
| "is_link_local_multicast (Ip6 bs) = (length bs = 16 \<and> bs ! 0 = 255 \<and> bs ! 1 mod 16 = 2)"

fun private_ip4 :: "ip_addr \<Rightarrow> bool" where
  "private_ip4 (Ip4 a b c d) = (a = 10 \<or> (a = 172 \<and> 16 \<le> b \<and> b \<le> 31) \<or> (a = 192 \<and> b = 168)
     \<or> (a = 169 \<and> b = 254))"
| "private_ip4 (Ip6 bs) = False"

record parsed_url =
  u_scheme :: string
  u_host :: string
  u_hostname :: string

definition validate_callback_url ::
  "(string \<Rightarrow> parsed_url option) \<Rightarrow> (string \<Rightarrow> ip_addr option) \<Rightarrow> string \<Rightarrow> bool \<Rightarrow> string option" where
  "validate_callback_url parse parse_ip raw allow_private =
     (case parse raw of
        None \<Rightarrow> Some ''invalid callback url''
      | Some u \<Rightarrow>
          if u_host u = [] then Some ''invalid callback url''
          else if u_scheme u \<noteq> ''http'' \<and> u_scheme u \<noteq> ''https'' then Some ''invalid callback url scheme''
          else if allow_private then None
          else if u_hostname u = ''localhost'' then Some ''localhost is not allowed''
          else case parse_ip (u_hostname u) of
            None \<Rightarrow> None
          | Some ip \<Rightarrow>
              if is_loopback ip \<or> is_link_local_unicast ip \<or> is_link_local_multicast ip
              then Some ''private callback ip is not allowed''
              else if private_ip4 ip then Some ''private callback ip is not allowed''
              else None)"

record intake_env =
  ie_conn :: conn_env
  ie_now :: "nat \<Rightarrow> time"
  ie_uuid :: string
  ie_run_uuid :: string
  ie_digest :: "go_map \<Rightarrow> string option"
  ie_rfc3339 :: "time \<Rightarrow> string"
  ie_cron :: cron
  ie_url :: "string \<Rightarrow> parsed_url option"
  ie_ip :: "string \<Rightarrow> ip_addr option"

definition fingerprint_payload :: "(time \<Rightarrow> string) \<Rightarrow> create_request \<Rightarrow> go_map" where
  "fingerprint_payload rfc q =
     [(''path_key'', GStr (q_path_key q)),
      (''params'', case q_params q of None \<Rightarrow> GNil | Some m \<Rightarrow> GMap m)]
     @ (if q_callback_url q \<noteq> [] then [(''callback_url'', GStr (q_callback_url q))] else [])
     @ (if q_schedule q \<noteq> [] then [(''schedule'', GStr (q_schedule q))] else [])
     @ (case q_first_run_at q of None \<Rightarrow> [] | Some t \<Rightarrow> [(''first_run_at'', GStr (rfc t))])"

definition create_job_fingerprint :: "intake_env \<Rightarrow> create_request \<Rightarrow> string option" where
  "create_job_fingerprint env q = ie_digest env (fingerprint_payload (ie_rfc3339 env) q)"

definition next_run_at :: "intake_env \<Rightarrow> create_request \<Rightarrow> time" where
  "next_run_at env q = (case q_first_run_at q of Some t \<Rightarrow> t | None \<Rightarrow> ie_now env 0)"

definition validate_schedule :: "cron \<Rightarrow> string \<Rightarrow> string option" where
  "validate_schedule cron s = (case cron s of Inl e \<Rightarrow> Some e | Inr _ \<Rightarrow> None)"

definition nullable_schedule :: "string \<Rightarrow> string option" where
  "nullable_schedule s = (if trim_space s = [] then None else Some (trim_space s))"

section \<open>The idempotency record in memory\<close>

record job_handler =
  h_pool :: bool
  h_allow_private :: bool
  h_idem :: "(string \<times> create_record) list"

definition new_job_handler :: "bool \<Rightarrow> bool \<Rightarrow> job_handler" where
  "new_job_handler pool allow = \<lparr>h_pool = pool, h_allow_private = allow, h_idem = []\<rparr>"

datatype idem_outcome = Fresh create_record | Replayed create_record | Conflict create_record

definition handle_in_memory ::
  "string \<Rightarrow> string \<Rightarrow> envelope \<Rightarrow> (string \<times> create_record) list
     \<Rightarrow> idem_outcome \<times> (string \<times> create_record) list" where
  "handle_in_memory key fp env m =
     (case map_of m key of
        Some rec \<Rightarrow> if k_fingerprint rec = fp then (Replayed rec, m) else (Conflict rec, m)
      | None \<Rightarrow>
          let rec = \<lparr>k_fingerprint = fp, k_status_code = 202, k_envelope = env\<rparr>
          in (Fresh rec, alist_put key rec m))"

section \<open>The idempotency record in the database\<close>

definition idem_row_of :: "create_request \<Rightarrow> string \<Rightarrow> envelope \<Rightarrow> idem_row" where
  "idem_row_of q fp e = \<lparr>i_tenant_id = q_tenant_id q, i_path_key = q_path_key q,
     i_idempotency_key = q_idempotency_key q, i_payload_fingerprint = fp, i_status_code = 202,
     i_response_body = envelope_json e, i_job_id = e_job_id e, i_accepted_at = e_accepted_at e,
     i_expires_at = e_accepted_at e + 48 * hour\<rparr>"

definition insert_idem_stmt :: "idem_row \<Rightarrow> time \<Rightarrow> db \<Rightarrow> string + (nat \<times> db)" where
  "insert_idem_stmt row t d =
     (case insert_idem_do_nothing row d of Inl _ \<Rightarrow> Inl ''check constraint'' | Inr x \<Rightarrow> Inr x)"

definition fetch_idem_stmt ::
  "create_request \<Rightarrow> time \<Rightarrow> db \<Rightarrow> string + (idem_row option \<times> db)" where
  "fetch_idem_stmt q t d = Inr (find_idem (q_tenant_id q) (q_path_key q) (q_idempotency_key q) d, d)"

definition record_of_row :: "idem_row \<Rightarrow> create_record" where
  "record_of_row r = \<lparr>k_fingerprint = i_payload_fingerprint r, k_status_code = i_status_code r,
     k_envelope = envelope_of_json (i_response_body r)\<rparr>"

definition fetch_existing ::
  "conn_env \<Rightarrow> nat \<Rightarrow> create_request \<Rightarrow> string \<Rightarrow> db \<Rightarrow> (string + idem_outcome) \<times> db" where
  "fetch_existing env k q fp d =
     (case exec_stmt env k (fetch_idem_stmt q) d of
        (Inl e, d') \<Rightarrow> (Inl e, d')
      | (Inr None, d') \<Rightarrow> (Inl ''no rows in result set'', d')
      | (Inr (Some r), d') \<Rightarrow>
          (Inr (if i_payload_fingerprint r = fp then Replayed (record_of_row r)
                else Conflict (record_of_row r)), d'))"

definition new_job_row :: "create_request \<Rightarrow> envelope \<Rightarrow> string \<Rightarrow> job_row" where
  "new_job_row q e runID = \<lparr>j_id = e_job_id e, j_tenant_id = q_tenant_id q, j_path_key = q_path_key q,
     j_idempotency_key = q_idempotency_key q,
     j_params_json = (case q_params q of None \<Rightarrow> GNil | Some m \<Rightarrow> GMap m),
     j_schedule = nullable_schedule (q_schedule q), j_state = Queued, j_attempt = 0,
     j_max_attempts = q_max_attempts q, j_backoff_policy = default_policy, j_owner_id = None,
     j_run_id = runID, j_lease_expires_at = None, j_next_run_at = e_next_run_at e,
     j_accepted_at = e_accepted_at e, j_cancel_requested_at = None, j_cancel_reason = None,
     j_last_error_code = None, j_last_error_message = None, j_created_by = None,
     j_created_at = e_accepted_at e, j_started_at = None, j_finished_at = None,
     j_updated_at = e_accepted_at e\<rparr>"

definition insert_job_stmt ::
  "create_request \<Rightarrow> envelope \<Rightarrow> string \<Rightarrow> time \<Rightarrow> db \<Rightarrow> string + (string \<times> db)" where
  "insert_job_stmt q e runID t d =
     (case insert_job (new_job_row q e runID) d of
        Inl _ \<Rightarrow> Inl ''constraint violation'' | Inr d' \<Rightarrow> Inr (runID, d'))"

definition new_read_row :: "create_request \<Rightarrow> envelope \<Rightarrow> string \<Rightarrow> jobs_read_row" where
  "new_read_row q e runID = \<lparr>r_id = e_job_id e, r_tenant_id = q_tenant_id q, r_path_key = q_path_key q,
     r_state = Queued, r_attempt = 0, r_max_attempts = q_max_attempts q,
     r_schedule = nullable_schedule (q_schedule q), r_owner_id = None, r_run_id = runID,
     r_lease_expires_at = None, r_next_run_at = e_next_run_at e,
     r_accepted_at = Some (e_accepted_at e), r_last_error_code = None, r_last_error_message = None,
     r_started_at = None, r_finished_at = None, r_created_at = e_accepted_at e,
     r_updated_at = e_accepted_at e\<rparr>"

definition insert_read_stmt ::
  "create_request \<Rightarrow> envelope \<Rightarrow> string \<Rightarrow> time \<Rightarrow> db \<Rightarrow> string + (unit \<times> db)" where
  "insert_read_stmt q e runID t d =
     (case insert_jobs_read (new_read_row q e runID) d of
        Inl _ \<Rightarrow> Inl ''constraint violation'' | Inr d' \<Rightarrow> Inr ((), d'))"

definition new_envelope :: "intake_env \<Rightarrow> create_request \<Rightarrow> time \<Rightarrow> envelope" where
  "new_envelope env q nextRunAt = \<lparr>e_job_id = ie_uuid env, e_tenant_id = q_tenant_id q,
     e_path_key = q_path_key q, e_state = ''queued'', e_attempt = 0,
     e_max_attempts = q_max_attempts q, e_next_run_at = Some nextRunAt,
     e_accepted_at = ie_now env 1\<rparr>"

text \<open>The statements run one by one, each in its own transaction.\<close>

definition create_job_with_db ::
  "intake_env \<Rightarrow> create_request \<Rightarrow> string \<Rightarrow> time \<Rightarrow> db \<Rightarrow> (string + idem_outcome) \<times> db" where
  "create_job_with_db env q fp nextRunAt d =
     (case acquire (ie_conn env) of
        Some e \<Rightarrow> (Inl e, d)
      | None \<Rightarrow>
     (let e = new_envelope env q nextRunAt in
      case exec_stmt (ie_conn env) 1 (insert_idem_stmt (idem_row_of q fp e)) d of
        (Inl x, d1) \<Rightarrow> (Inl x, d1)
      | (Inr n, d1) \<Rightarrow>
          if n = 0 then fetch_existing (ie_conn env) 2 q fp d1
          else case exec_stmt (ie_conn env) 2 (insert_job_stmt q e (ie_run_uuid env)) d1 of
            (Inl x, d2) \<Rightarrow> (Inl x, d2)
          | (Inr runID, d2) \<Rightarrow>
              (case exec_stmt (ie_conn env) 3 (insert_read_stmt q e runID) d2 of
                 (Inl x, d3) \<Rightarrow> (Inl x, d3)
               | (Inr _, d3) \<Rightarrow>
                   (Inr (Fresh \<lparr>k_fingerprint = fp, k_status_code = 202, k_envelope = e\<rparr>), d3))))"

section \<open>CreateJob\<close>

text \<open>The body: a read error, or its length and what \<open>json.Unmarshal\<close> makes of it.\<close>

datatype request_body = Body_error | Body nat "create_request option"

datatype create_response =
    Resp_error int string
  | Resp_conflict envelope
  | Resp_job int envelope bool

definition normalise :: "create_request \<Rightarrow> create_request" where
  "normalise q = q\<lparr>q_tenant_id := trim_space (q_tenant_id q), q_path_key := trim_space (q_path_key q)\<rparr>"

definition normalise_schedule :: "create_request \<Rightarrow> create_request" where
  "normalise_schedule q = q\<lparr>q_schedule := trim_space (q_schedule q),
     q_max_attempts := (if q_max_attempts q < 1 then 3 else q_max_attempts q)\<rparr>"

definition check_request :: "intake_env \<Rightarrow> job_handler \<Rightarrow> create_request \<Rightarrow> (int \<times> string) option" where
  "check_request env h q =
     (if q_tenant_id q = [] \<or> q_path_key q = [] then Some (400, ''INVALID_REQUEST'')
      else if \<not> valid_idempotency_key (q_idempotency_key q) then Some (400, ''ERR_INVALID_IDEMPOTENCY_KEY'')
      else if q_callback_url q \<noteq> []
        \<and> validate_callback_url (ie_url env) (ie_ip env) (q_callback_url q) (h_allow_private h) \<noteq> None
      then Some (400, ''ERR_INVALID_CALLBACK_URL'')
      else None)"

definition respond :: "idem_outcome \<Rightarrow> create_response" where
  "respond out =
     (case out of
        Conflict rec \<Rightarrow> Resp_conflict (k_envelope rec)
      | Replayed rec \<Rightarrow> Resp_job (k_status_code rec) (k_envelope rec) True
      | Fresh rec \<Rightarrow> Resp_job (k_status_code rec) (k_envelope rec) False)"

definition idem_map_key :: "create_request \<Rightarrow> string" where
  "idem_map_key q = q_tenant_id q @ ''|'' @ q_path_key q @ ''|'' @ q_idempotency_key q"

definition submit_request ::
  "intake_env \<Rightarrow> job_handler \<Rightarrow> create_request \<Rightarrow> db \<Rightarrow> create_response \<times> job_handler \<times> db" where
  "submit_request env h q d =
     (let nextRunAt = next_run_at env q in
      if q_schedule q \<noteq> [] \<and> validate_schedule (ie_cron env) (q_schedule q) \<noteq> None
      then (Resp_error 400 ''ERR_INVALID_SCHEDULE'', h, d)
      else case create_job_fingerprint env q of
        None \<Rightarrow> (Resp_error 400 ''INVALID_REQUEST'', h, d)
      | Some fp \<Rightarrow>
          if h_pool h then
            (case create_job_with_db env q fp nextRunAt d of
               (Inl e, d') \<Rightarrow> (Resp_error 500 ''INTERNAL_ERROR'', h, d')
             | (Inr out, d') \<Rightarrow> (respond out, h, d'))
          else
            (case handle_in_memory (idem_map_key q) fp (new_envelope env q nextRunAt) (h_idem h) of
               (out, m) \<Rightarrow> (respond out, h\<lparr>h_idem := m\<rparr>, d)))"

definition create_job ::
  "intake_env \<Rightarrow> job_handler \<Rightarrow> request_body \<Rightarrow> db \<Rightarrow> create_response \<times> job_handler \<times> db" where
  "create_job env h body d =
     (case body of
        Body_error \<Rightarrow> (Resp_error 400 ''INVALID_REQUEST'', h, d)
      | Body n req \<Rightarrow>
          if 262144 < n then (Resp_error 413 ''ERR_PAYLOAD_TOO_LARGE'', h, d)
          else case req of
            None \<Rightarrow> (Resp_error 400 ''INVALID_REQUEST'', h, d)
          | Some q \<Rightarrow>
              let q1 = normalise q in
              case check_request env h q1 of
                Some (st, code) \<Rightarrow> (Resp_error st code, h, d)
              | None \<Rightarrow> submit_request env h (normalise_schedule q1) d)"

section \<open>GetJob and CancelJob\<close>

record job_view =
  jv_id :: string
  jv_tenant_id :: string
  jv_path_key :: string
  jv_state :: job_state
  jv_attempt :: int
  jv_run_id :: string
  jv_last_error_code :: string
  jv_last_error_message :: string
  jv_created_at :: time

datatype get_response = Get_error int string | Get_pending string | Get_job job_view

definition path_param :: "string \<Rightarrow> string \<Rightarrow> string" where
  "path_param i job_id = (if i = [] then job_id else i)"

text \<open>\<open>$1::uuid\<close> fails on a string that is no UUID (\<open>valid_uuid\<close>).\<close>

definition get_job ::
  "(string \<Rightarrow> bool) \<Rightarrow> conn_env \<Rightarrow> job_handler \<Rightarrow> string \<Rightarrow> string \<Rightarrow> db \<Rightarrow> get_response \<times> db" where
  "get_job valid_uuid env h id_param job_id_param d =
     (let i = path_param id_param job_id_param in
      if \<not> h_pool h then (Get_pending i, d)
      else case acquire env of
        Some e \<Rightarrow> (Get_error 500 ''INTERNAL_ERROR'', d)
      | None \<Rightarrow>
          (case exec_stmt env 1 (\<lambda>t d. if valid_uuid i then Inr (find_job i d, d)
               else Inl ''invalid input syntax for type uuid'') d of
             (Inl e, d') \<Rightarrow> (Get_error 500 ''INTERNAL_ERROR'', d')
           | (Inr None, d') \<Rightarrow> (Get_error 404 ''NOT_FOUND'', d')
           | (Inr (Some j), d') \<Rightarrow> (Get_job \<lparr>jv_id = j_id j, jv_tenant_id = j_tenant_id j,
               jv_path_key = j_path_key j, jv_state = j_state j, jv_attempt = j_attempt j,
               jv_run_id = j_run_id j,
               jv_last_error_code = (case j_last_error_code j of None \<Rightarrow> [] | Some c \<Rightarrow> c),
               jv_last_error_message = (case j_last_error_message j of None \<Rightarrow> [] | Some m \<Rightarrow> m),
               jv_created_at = j_created_at j\<rparr>, d')))"

text \<open>\<open>CancelJob\<close> answers "cancelled" and reads or writes nothing.\<close>

definition cancel_job :: "string \<Rightarrow> string \<Rightarrow> db \<Rightarrow> (int \<times> string \<times> string) \<times> db" where
  "cancel_job id_param job_id_param d = ((200, path_param id_param job_id_param, ''cancelled''), d)"

section \<open>The interface of an idempotency store\<close>

text \<open>
  \<open>submit k f e\<close> records the fingerprint \<open>f\<close> and the answer \<open>e\<close> under a new key and leaves a
  used key alone. \<open>look\<close> is what is stored under a key.
\<close>

locale idempotency_store =
  fixes submit :: "'k \<Rightarrow> string \<Rightarrow> envelope \<Rightarrow> 's \<Rightarrow> idem_outcome \<times> 's"
    and look :: "'s \<Rightarrow> 'k \<Rightarrow> create_record option"
    and key_ok :: "'k \<Rightarrow> bool"
  assumes fresh: "key_ok k \<Longrightarrow> look s k = None \<Longrightarrow> submit k f e s = (out, s') \<Longrightarrow>
      out = Fresh \<lparr>k_fingerprint = f, k_status_code = 202, k_envelope = e\<rparr>
      \<and> look s' = (look s)(k \<mapsto> \<lparr>k_fingerprint = f, k_status_code = 202, k_envelope = e\<rparr>)"
    and used: "key_ok k \<Longrightarrow> look s k = Some rec \<Longrightarrow> submit k f e s = (out, s') \<Longrightarrow>
      out = (if k_fingerprint rec = f then Replayed rec else Conflict rec) \<and> s' = s"
begin

fun submit_all :: "('k \<times> string \<times> envelope) list \<Rightarrow> 's \<Rightarrow> idem_outcome list \<times> 's" where
  "submit_all [] s = ([], s)"
| "submit_all ((k, f, e) # qs) s =
     (let (out, s1) = submit k f e s; (outs, s2) = submit_all qs s1 in (out # outs, s2))"

lemma submit_look:
  assumes "key_ok k" "submit k f e s = (out, s')"
  shows "look s' = (case look s k of None \<Rightarrow>
     (look s)(k \<mapsto> \<lparr>k_fingerprint = f, k_status_code = 202, k_envelope = e\<rparr>) | Some _ \<Rightarrow> look s)"
  using fresh [OF assms(1) _ assms(2)] used [OF assms(1) _ assms(2)]
  by (cases "look s k") auto

text \<open>What a key holds is never changed again.\<close>

lemma stable:
  assumes "submit_all qs s = (outs, s')" "\<forall>(k, f, e) \<in> set qs. key_ok k" "look s k = Some rec"
  shows "look s' k = Some rec"
  using assms
proof (induction qs arbitrary: s outs)
  case (Cons q qs)
  obtain k' f e where q: "q = (k', f, e)" by (cases q)
  obtain out s1 where s1: "submit k' f e s = (out, s1)" by fastforce
  obtain outs' where o: "submit_all qs s1 = (outs', s')"
    using Cons.prems(1) q s1 by (auto simp: Let_def split: prod.splits)
  have "look s1 k = Some rec"
    using submit_look [OF _ s1] Cons.prems(2,3) q by (auto split: option.splits)
  then show ?case using Cons.IH [OF o] Cons.prems(2) by simp
qed simp

text \<open>The first request with a key decides: every later request with it, whatever came in
  between, is answered with the first answer, as a replay if its fingerprint is the same and as a
  conflict otherwise, and changes nothing.\<close>

lemma first_wins:
  assumes "key_ok k" "\<forall>(k, f, e) \<in> set qs. key_ok k" "look s k = None"
    "submit k f e s = (out, s1)" "submit_all qs s1 = (outs, s2)" "submit k f' e' s2 = (out', s3)"
  shows "out' = (if f' = f then Replayed \<lparr>k_fingerprint = f, k_status_code = 202, k_envelope = e\<rparr>
      else Conflict \<lparr>k_fingerprint = f, k_status_code = 202, k_envelope = e\<rparr>) \<and> s3 = s2"
proof -
  have "look s2 k = Some \<lparr>k_fingerprint = f, k_status_code = 202, k_envelope = e\<rparr>"
    using stable [OF assms(5,2)] fresh [OF assms(1,3,4)] by simp
  then show ?thesis using used [OF assms(1) _ assms(6)] by auto
qed

end

interpretation mem: idempotency_store handle_in_memory "\<lambda>m. map_of m" "\<lambda>_. True"
  by unfold_locales (auto simp: handle_in_memory_def Let_def split: option.splits if_splits)

text \<open>The table as a store: a key is the triple of its unique index, and the two statements of
  \<open>createJobWithDB\<close> that touch it are taken together.\<close>

definition table_submit ::
  "string \<times> string \<times> string \<Rightarrow> string \<Rightarrow> envelope \<Rightarrow> db \<Rightarrow> idem_outcome \<times> db" where
  "table_submit k f e d =
     (case k of (t, p, i) \<Rightarrow>
      case find_idem t p i d of
        Some r \<Rightarrow> (if i_payload_fingerprint r = f then Replayed (record_of_row r)
                   else Conflict (record_of_row r), d)
      | None \<Rightarrow> (Fresh \<lparr>k_fingerprint = f, k_status_code = 202, k_envelope = e\<rparr>,
          d\<lparr>idempotency_keys := idempotency_keys d @ [\<lparr>i_tenant_id = t, i_path_key = p,
             i_idempotency_key = i, i_payload_fingerprint = f, i_status_code = 202,
             i_response_body = envelope_json e, i_job_id = e_job_id e,
             i_accepted_at = e_accepted_at e, i_expires_at = e_accepted_at e + 48 * hour\<rparr>]\<rparr>))"

definition table_look :: "db \<Rightarrow> string \<times> string \<times> string \<Rightarrow> create_record option" where
  "table_look d k = (case k of (t, p, i) \<Rightarrow> map_option record_of_row (find_idem t p i d))"

lemma find_idem_append:
  "find_idem t p i (d\<lparr>idempotency_keys := idempotency_keys d @ [r]\<rparr>) =
     (case find_idem t p i d of Some x \<Rightarrow> Some x
      | None \<Rightarrow> if i_tenant_id r = t \<and> i_path_key r = p \<and> i_idempotency_key r = i
          then Some r else None)"
proof -
  have "List.find P (xs @ [r]) = (case List.find P xs of Some x \<Rightarrow> Some x
      | None \<Rightarrow> if P r then Some r else None)" for P and xs :: "idem_row list"
    by (induction xs) auto
  then show ?thesis by (simp add: find_idem_def)
qed

interpretation table: idempotency_store table_submit table_look "\<lambda>_. True"
proof (unfold_locales, goal_cases)
  case (1 k s f e out s')
  obtain t p i where k: "k = (t, p, i)" by (cases k)
  have "find_idem t p i s = None" using 1(2) k by (simp add: table_look_def)
  then show ?case using 1(3) k
    by (auto simp: table_submit_def table_look_def find_idem_append fun_eq_iff record_of_row_def
        split: option.splits)
next
  case (2 k s rec f e out s')
  then show ?case
    by (cases k) (auto simp: table_submit_def table_look_def record_of_row_def split: option.splits if_splits)
qed

section \<open>createJobWithDB without interference\<close>

lemma valid_key_check: "valid_idempotency_key k \<longleftrightarrow> idem_key_format_ck k"
  by (cases k) (auto simp: valid_idempotency_key_def idem_key_format_ck_def)

abbreviation found_idem :: "create_request \<Rightarrow> db \<Rightarrow> idem_row option" where
  "found_idem q d \<equiv> find_idem (q_tenant_id q) (q_path_key q) (q_idempotency_key q) d"

lemma idem_row_of_simps [simp]:
  "i_tenant_id (idem_row_of q fp e) = q_tenant_id q" "i_path_key (idem_row_of q fp e) = q_path_key q"
  "i_idempotency_key (idem_row_of q fp e) = q_idempotency_key q"
  "i_payload_fingerprint (idem_row_of q fp e) = fp" "i_status_code (idem_row_of q fp e) = 202"
  "record_of_row (idem_row_of q fp e) = \<lparr>k_fingerprint = fp, k_status_code = 202, k_envelope = e\<rparr>"
  by (simp_all add: idem_row_of_def record_of_row_def)

lemma create_job_with_db_used:
  assumes "ie_conn env = quiet_env t b" "valid_idempotency_key (q_idempotency_key q)"
    "found_idem q d = Some r"
  shows "create_job_with_db env q fp n d =
    (Inr (if i_payload_fingerprint r = fp then Replayed (record_of_row r) else Conflict (record_of_row r)), d)"
  using assms by (simp add: create_job_with_db_def insert_idem_stmt_def insert_idem_do_nothing_def
      valid_key_check fetch_existing_def fetch_idem_stmt_def)

text \<open>The database after the first, and after all three inserts.\<close>

definition with_idem :: "intake_env \<Rightarrow> create_request \<Rightarrow> string \<Rightarrow> time \<Rightarrow> db \<Rightarrow> db" where
  "with_idem env q fp n d =
     d\<lparr>idempotency_keys := idempotency_keys d @ [idem_row_of q fp (new_envelope env q n)]\<rparr>"

definition with_job :: "intake_env \<Rightarrow> create_request \<Rightarrow> string \<Rightarrow> time \<Rightarrow> db \<Rightarrow> db" where
  "with_job env q fp n d = (with_idem env q fp n d)\<lparr>
     jobs := jobs d @ [new_job_row q (new_envelope env q n) (ie_run_uuid env)],
     jobs_read := jobs_read d @ [new_read_row q (new_envelope env q n) (ie_run_uuid env)]\<rparr>"

lemma create_job_with_db_fresh:
  assumes "ie_conn env = quiet_env t b" "valid_idempotency_key (q_idempotency_key q)"
    "found_idem q d = None"
  shows "create_job_with_db env q fp n d =
    (case insert_job (new_job_row q (new_envelope env q n) (ie_run_uuid env)) d of
       Inl _ \<Rightarrow> (Inl ''constraint violation'', with_idem env q fp n d)
     | Inr d2 \<Rightarrow>
         if (\<exists>x \<in> set (jobs_read d). r_id x = ie_uuid env)
         then (Inl ''constraint violation'', (with_idem env q fp n d)\<lparr>jobs := jobs d2\<rparr>)
         else (Inr (Fresh \<lparr>k_fingerprint = fp, k_status_code = 202, k_envelope = new_envelope env q n\<rparr>),
               with_job env q fp n d))"
  using assms
  by (auto simp: create_job_with_db_def insert_idem_stmt_def insert_idem_do_nothing_def
      valid_key_check insert_job_stmt_def insert_read_stmt_def insert_job_def insert_jobs_read_def
      with_idem_def with_job_def new_read_row_def new_envelope_def Let_def)

lemma create_job_Fresh:
  assumes "ie_conn env = quiet_env t b" "valid_idempotency_key (q_idempotency_key q)"
    "create_job_with_db env q fp n d = (Inr (Fresh rec), d1)"
  shows "found_idem q d = None" "d1 = with_job env q fp n d"
    "rec = \<lparr>k_fingerprint = fp, k_status_code = 202, k_envelope = new_envelope env q n\<rparr>"
    "find_job (ie_uuid env) d = None" "find_read (ie_uuid env) d = None"
proof -
  show none: "found_idem q d = None"
    using create_job_with_db_used [OF assms(1,2)] assms(3)
    by (cases "found_idem q d") (auto split: if_splits)
  show "d1 = with_job env q fp n d"
    "rec = \<lparr>k_fingerprint = fp, k_status_code = 202, k_envelope = new_envelope env q n\<rparr>"
    "find_job (ie_uuid env) d = None" "find_read (ie_uuid env) d = None"
    using create_job_with_db_fresh [OF assms(1,2) none, of fp n] assms(3)
    by (auto simp: insert_job_def new_job_row_def new_envelope_def find_job_None find_read_def
        find_None_iff split: sum.splits if_splits)
qed

lemma find_append_None:
  "List.find P xs = None \<Longrightarrow> List.find P (xs @ [y]) = (if P y then Some y else None)"
  by (induction xs) (auto split: if_splits)

text \<open>When \<open>CreateJob\<close> on the database answers with a new job, the request passed every check.\<close>

lemma create_job_accepted:
  assumes "create_job env h body d = (Resp_job st e False, h1, d1)" "h_pool h"
  obtains n q0 q fp rec where "body = Body n (Some q0)" "n \<le> 262144"
    "check_request env h (normalise q0) = None" "q = normalise_schedule (normalise q0)"
    "\<not> (q_schedule q \<noteq> [] \<and> validate_schedule (ie_cron env) (q_schedule q) \<noteq> None)"
    "create_job_fingerprint env q = Some fp" "h1 = h"
    "create_job_with_db env q fp (next_run_at env q) d = (Inr (Fresh rec), d1)"
    "st = k_status_code rec" "e = k_envelope rec"
    "valid_idempotency_key (q_idempotency_key q)" "1 \<le> q_max_attempts q"
proof -
  obtain n q0 where b: "body = Body n (Some q0)" "n \<le> 262144"
      "check_request env h (normalise q0) = None"
      "submit_request env h (normalise_schedule (normalise q0)) d = (Resp_job st e False, h1, d1)"
    using assms(1) by (auto simp: create_job_def Let_def split: request_body.splits option.splits if_splits)
  let ?q = "normalise_schedule (normalise q0)"
  have v: "valid_idempotency_key (q_idempotency_key ?q)" "1 \<le> q_max_attempts ?q"
    using b(3) by (auto simp: check_request_def normalise_schedule_def split: if_splits)
  obtain fp where fp: "create_job_fingerprint env ?q = Some fp"
      "\<not> (q_schedule ?q \<noteq> [] \<and> validate_schedule (ie_cron env) (q_schedule ?q) \<noteq> None)"
    using b(4) by (auto simp: submit_request_def Let_def split: if_splits option.splits)
  obtain r d' where r: "create_job_with_db env ?q fp (next_run_at env ?q) d = (r, d')" by fastforce
  obtain rec where "r = Inr (Fresh rec)" "d' = d1" "h1 = h" "st = k_status_code rec" "e = k_envelope rec"
    using b(4) fp assms(2) r
    by (cases r) (auto simp: submit_request_def Let_def respond_def split: idem_outcome.splits)
  then show ?thesis using that b fp r v by blast
qed

section \<open>Properties\<close>

text \<open>A request and its surroundings, for the concrete instances.\<close>

definition ex_req :: "string \<Rightarrow> create_request" where
  "ex_req path = \<lparr>q_tenant_id = ''acme'', q_path_key = path, q_params = Some [], q_idempotency_key = ''k-1'',
     q_callback_url = [], q_max_attempts = 0, q_first_run_at = None, q_schedule = []\<rparr>"

definition ex_env :: "string \<Rightarrow> intake_env" where
  "ex_env u = \<lparr>ie_conn = quiet_env 1 True, ie_now = \<lambda>_. 1, ie_uuid = u, ie_run_uuid = ''r1'',
     ie_digest = \<lambda>m. Some (concat (map fst m)), ie_rfc3339 = int_str, ie_cron = \<lambda>_. Inl ''bad'',
     ie_url = \<lambda>_. None, ie_ip = \<lambda>_. None\<rparr>"

definition ex_envelope :: envelope where
  "ex_envelope = \<lparr>e_job_id = ''j1'', e_tenant_id = ''acme'', e_path_key = ''a'', e_state = ''queued'',
     e_attempt = 0, e_max_attempts = 3, e_next_run_at = Some 1, e_accepted_at = 1\<rparr>"

lemma ex_trim [simp]: "trim_space ''acme'' = ''acme''" "trim_space ''a'' = ''a''"
  by (simp_all add: trim_space_def is_space_def)

lemma ex_normal:
  "normalise_schedule (normalise (ex_req ''a'')) = (ex_req ''a'')\<lparr>q_max_attempts := 3\<rparr>"
  by (simp add: normalise_def normalise_schedule_def ex_req_def)

lemma ex_created:
  "create_job (ex_env ''j1'') (new_job_handler True False) (Body 10 (Some (ex_req ''a''))) empty_db
   = (Resp_job 202 ex_envelope False, new_job_handler True False,
      with_job (ex_env ''j1'') ((ex_req ''a'')\<lparr>q_max_attempts := 3\<rparr>) ''path_keyparams'' 1 empty_db)"
proof -
  let ?q = "(ex_req ''a'')\<lparr>q_max_attempts := 3\<rparr>"
  have v: "valid_idempotency_key ''k-1''"
    by (simp add: valid_idempotency_key_def idem_key_char_def)
  have "create_job_with_db (ex_env ''j1'') ?q ''path_keyparams'' 1 empty_db =
      (Inr (Fresh \<lparr>k_fingerprint = ''path_keyparams'', k_status_code = 202, k_envelope = ex_envelope\<rparr>),
       with_job (ex_env ''j1'') ?q ''path_keyparams'' 1 empty_db)"
  proof (subst create_job_with_db_fresh [of _ 1 True])
    show "ie_conn (ex_env ''j1'') = quiet_env 1 True" by (simp add: ex_env_def)
    show "valid_idempotency_key (q_idempotency_key ?q)" using v by (simp add: ex_req_def)
    show "found_idem ?q empty_db = None" by (simp add: find_idem_def empty_db_def)
  qed (use v in \<open>simp add: insert_job_def empty_db_def new_job_row_def ex_req_def jobs_attempts_ck_def
      valid_key_check new_envelope_def ex_env_def ex_envelope_def\<close>)
  moreover have "check_request (ex_env ''j1'') (new_job_handler True False) (normalise (ex_req ''a'')) = None"
    using v by (simp add: check_request_def normalise_def ex_req_def)
  moreover have "create_job_fingerprint (ex_env ''j1'') ?q = Some ''path_keyparams''"
    by (simp add: create_job_fingerprint_def fingerprint_payload_def ex_env_def ex_req_def)
  moreover have "next_run_at (ex_env ''j1'') ?q = 1" "q_schedule ?q = []"
    by (simp_all add: next_run_at_def ex_req_def ex_env_def)
  ultimately show ?thesis
    by (simp add: create_job_def ex_normal submit_request_def respond_def new_job_handler_def)
qed



text \<open>What an accepted submission leaves behind: a queued job under the answered id that
  satisfies the invariants of a job row, with attempt 0 of at least one, and the projection of
  exactly that row.\<close>

theorem create_job_row:
  assumes "ie_conn env = quiet_env t b" "h_pool h"
    "create_job env h body d = (Resp_job st e False, h1, d1)"
  shows "\<exists>j. find_job (e_job_id e) d1 = Some j \<and> find_read (e_job_id e) d1 = Some (project_job j)
    \<and> j_state j = Queued \<and> j_attempt j = 0 \<and> job_ok j \<and> attempts_ok j
    \<and> j_tenant_id j = e_tenant_id e \<and> j_next_run_at j = e_next_run_at e \<and> st = 202"
proof -
  obtain n q0 q fp rec where a: "q = normalise_schedule (normalise q0)"
    "create_job_with_db env q fp (next_run_at env q) d = (Inr (Fresh rec), d1)"
    "st = k_status_code rec" "e = k_envelope rec"
    "valid_idempotency_key (q_idempotency_key q)" "1 \<le> q_max_attempts q"
    using create_job_accepted [OF assms(3,2)] by metis
  note f = create_job_Fresh [OF assms(1) a(5,2)]
  let ?e = "new_envelope env q (next_run_at env q)"
  let ?j = "new_job_row q ?e (ie_run_uuid env)"
  have e: "e = ?e" "st = 202" using f(3) a(3,4) by simp_all
  have id: "e_job_id ?e = ie_uuid env" "j_id ?j = ie_uuid env"
    "r_id (new_read_row q ?e (ie_run_uuid env)) = ie_uuid env"
    by (simp_all add: new_envelope_def new_job_row_def new_read_row_def)
  have "find_job (ie_uuid env) d1 = Some ?j"
    using f(4) id by (simp add: f(2) with_job_def find_job_def find_append_None)
  moreover have "find_read (ie_uuid env) d1 = Some (new_read_row q ?e (ie_run_uuid env))"
    using f(5) id by (simp add: f(2) with_job_def find_read_def find_append_None)
  moreover have "new_read_row q ?e (ie_run_uuid env) = project_job ?j"
    by (simp add: new_read_row_def project_job_def new_job_row_def)
  moreover have "job_ok ?j" "attempts_ok ?j" "j_state ?j = Queued" "j_attempt ?j = 0"
    "j_tenant_id ?j = e_tenant_id ?e" "j_next_run_at ?j = e_next_run_at ?e"
    using a(6) by (simp_all add: new_job_row_def job_ok_def jobs_attempts_ck_def attempts_ok_def
        new_envelope_def)
  ultimately show ?thesis using e id by simp
qed

theorem create_job_row_witness:
  "\<exists>j. find_job ''j1'' (with_job (ex_env ''j1'') ((ex_req ''a'')\<lparr>q_max_attempts := 3\<rparr>)
     ''path_keyparams'' 1 empty_db) = Some j \<and> j_state j = Queued \<and> job_ok j"
proof -
  have "ie_conn (ex_env ''j1'') = quiet_env 1 True" "h_pool (new_job_handler True False)"
    by (simp_all add: ex_env_def new_job_handler_def)
  from create_job_row [OF this ex_created] show ?thesis by (auto simp: ex_envelope_def)
qed

text \<open>An idempotency key used again by the same tenant under another path: the record is
  written, the insert of the job violates the unique index on tenant and key, and the caller gets
  a server error; from then on the same request is answered 202 with a job id that no job has.\<close>

theorem orphaned_idempotency_record:
  assumes "ie_conn env = quiet_env t b" "ie_conn env' = quiet_env t' b'"
    "valid_idempotency_key (q_idempotency_key q)" "1 \<le> q_max_attempts q"
    "found_idem q d = None" "find_job (ie_uuid env) d = None"
    "x \<in> set (jobs d)" "j_tenant_id x = q_tenant_id q" "j_idempotency_key x = q_idempotency_key q"
  shows "\<exists>d1. create_job_with_db env q fp n d = (Inl ''constraint violation'', d1)
    \<and> create_job_with_db env' q fp n' d1 =
        (Inr (Replayed \<lparr>k_fingerprint = fp, k_status_code = 202, k_envelope = new_envelope env q n\<rparr>), d1)
    \<and> find_job (e_job_id (new_envelope env q n)) d1 = None"
proof -
  let ?j = "new_job_row q (new_envelope env q n) (ie_run_uuid env)"
  have "insert_job ?j d = Inl Jobs_tenant_idem_uidx"
    using assms(3,4,6-9) by (auto simp: insert_job_def new_job_row_def new_envelope_def
        jobs_attempts_ck_def valid_key_check find_job_None)
  then have 1: "create_job_with_db env q fp n d = (Inl ''constraint violation'', with_idem env q fp n d)"
    using create_job_with_db_fresh [OF assms(1,3,5)] by simp
  have "found_idem q (with_idem env q fp n d) = Some (idem_row_of q fp (new_envelope env q n))"
    using assms(5) by (simp add: with_idem_def find_idem_append)
  then have 2: "create_job_with_db env' q fp n' (with_idem env q fp n d) =
      (Inr (Replayed \<lparr>k_fingerprint = fp, k_status_code = 202, k_envelope = new_envelope env q n\<rparr>),
       with_idem env q fp n d)"
    using create_job_with_db_used [OF assms(2,3)] by simp
  have "find_job (e_job_id (new_envelope env q n)) (with_idem env q fp n d) = None"
    using assms(6) by (simp add: with_idem_def new_envelope_def find_job_def)
  then show ?thesis using 1 2 by blast
qed

theorem orphaned_idempotency_record_witness:
  "let d = ex_db\<lparr>jobs := [ex_job\<lparr>j_idempotency_key := ''k-1''\<rparr>]\<rparr>;
       q = (ex_req ''a'')\<lparr>q_max_attempts := 3\<rparr>
   in \<exists>d1. create_job_with_db (ex_env ''j9'') q ''f'' 1 d = (Inl ''constraint violation'', d1)
     \<and> find_job (e_job_id (new_envelope (ex_env ''j9'') q 1)) d1 = None"
proof -
  let ?d = "ex_db\<lparr>jobs := [ex_job\<lparr>j_idempotency_key := ''k-1''\<rparr>]\<rparr>"
  let ?q = "(ex_req ''a'')\<lparr>q_max_attempts := 3\<rparr>"
  have "\<exists>d1. create_job_with_db (ex_env ''j9'') ?q ''f'' 1 ?d = (Inl ''constraint violation'', d1)
    \<and> create_job_with_db (ex_env ''j10'') ?q ''f'' 2 d1 =
        (Inr (Replayed \<lparr>k_fingerprint = ''f'', k_status_code = 202,
           k_envelope = new_envelope (ex_env ''j9'') ?q 1\<rparr>), d1)
    \<and> find_job (e_job_id (new_envelope (ex_env ''j9'') ?q 1)) d1 = None"
    by (rule orphaned_idempotency_record [where t = 1 and b = True and t' = 1 and b' = True
          and x = "ex_job\<lparr>j_idempotency_key := ''k-1''\<rparr>"])
      (simp_all add: ex_env_def ex_req_def valid_idempotency_key_def idem_key_char_def find_idem_def
        ex_db_def empty_db_def find_job_def ex_job_def)
  then show ?thesis unfolding Let_def by blast
qed

text \<open>With private callbacks disallowed, a callback URL that is accepted has an http or https
  scheme and a host that is not \<open>localhost\<close> and, where it is an IPv4 address, not one of the
  private, loopback or link-local ranges.\<close>

theorem callback_not_private:
  assumes "validate_callback_url parse parse_ip raw False = None"
  shows "\<exists>u. parse raw = Some u \<and> u_host u \<noteq> [] \<and> u_scheme u \<in> {''http'', ''https''}
    \<and> u_hostname u \<noteq> ''localhost''
    \<and> (\<forall>a b c d. parse_ip (u_hostname u) = Some (Ip4 a b c d) \<longrightarrow>
         a \<notin> {10, 127} \<and> \<not> (a = 172 \<and> 16 \<le> b \<and> b \<le> 31) \<and> \<not> (a = 192 \<and> b = 168)
         \<and> \<not> (a = 169 \<and> b = 254) \<and> \<not> (a = 224 \<and> b = 0 \<and> c = 0))"
  using assms by (auto simp: validate_callback_url_def split: option.splits if_splits)

theorem callback_not_private_witness:
  "let parse = (\<lambda>_. Some \<lparr>u_scheme = ''https'', u_host = ''8.8.8.8'', u_hostname = ''8.8.8.8''\<rparr>);
       parse_ip = (\<lambda>_. Some (Ip4 8 8 8 8))
   in validate_callback_url parse parse_ip ''https://8.8.8.8/'' False = None
     \<and> (\<exists>u. parse ''https://8.8.8.8/'' = Some u \<and> u_hostname u \<noteq> ''localhost'')"
proof -
  let ?parse = "\<lambda>_. Some \<lparr>u_scheme = ''https'', u_host = ''8.8.8.8'', u_hostname = ''8.8.8.8''\<rparr>"
  have v: "validate_callback_url ?parse (\<lambda>_. Some (Ip4 8 8 8 8)) ''https://8.8.8.8/'' False = None"
    by (simp add: validate_callback_url_def)
  from callback_not_private [OF v] show ?thesis unfolding Let_def using v by blast
qed

end
