(* ===== verification/Lifecycle.thy ===== *)
theory Lifecycle
  imports Scheduler Job_Intake
begin

text \<open>
  The life of a job as a transition system on the database: one rule per statement that changes
  the table \<open>jobs\<close>, and one for everything that leaves it alone. The handlers, the runner and
  the scheduler are shown to be sequences of these transitions under any interleaving and any
  faults (\<open>evolves\<close>), so that what holds of the reachable states holds of the running system.
\<close>

section \<open>Transitions\<close>

inductive engine_step :: "db \<Rightarrow> db \<Rightarrow> bool" where
  create: "insert_job (new_job_row q e u) d = Inr d' \<Longrightarrow> e_next_run_at e \<noteq> None
     \<Longrightarrow> 1 \<le> q_max_attempts q \<Longrightarrow> engine_step d d'"
| claim: "claim_stmt ruid locked t d = Inr (rows, d') \<Longrightarrow> engine_step d d'"
| succeed: "succeeded_stmt i r t d = Inr (n, d') \<Longrightarrow> engine_step d d'"
| requeue: "requeue_stmt nr i r t d = Inr (n, d') \<Longrightarrow>
     (\<And>j. j \<in> set (jobs d) \<Longrightarrow> fenced i r j \<Longrightarrow> \<not> unscheduled j) \<Longrightarrow> engine_step d d'"
| fail: "failure_stmt b code msg i r t d = Inr (n, d') \<Longrightarrow> engine_step d d'"
| exhaust: "exhausted_stmt code msg i r t d = Inr (n, d') \<Longrightarrow> engine_step d d'"
| other: "jobs d' = jobs d \<Longrightarrow> engine_step d d'"

inductive_cases engine_stepE: "engine_step d d'"

abbreviation engine_steps :: "db \<Rightarrow> db \<Rightarrow> bool" where
  "engine_steps \<equiv> engine_step\<^sup>*\<^sup>*"

definition reachable :: "db \<Rightarrow> bool" where
  "reachable d \<longleftrightarrow> engine_steps empty_db d"

section \<open>The invariant\<close>

definition db_ok :: "db \<Rightarrow> bool" where
  "db_ok d \<longleftrightarrow> distinct (map j_id (jobs d))
     \<and> distinct (map (\<lambda>j. (j_tenant_id j, j_idempotency_key j)) (jobs d))
     \<and> list_all job_ok (jobs d) \<and> list_all attempts_ok (jobs d)"

lemma map_identity:
  assumes "map job_identity xs = map job_identity ys"
  shows "map j_id xs = map j_id ys"
    "map (\<lambda>j. (j_tenant_id j, j_idempotency_key j)) xs
       = map (\<lambda>j. (j_tenant_id j, j_idempotency_key j)) ys"
proof -
  have "map (fst \<circ> job_identity) xs = map (fst \<circ> job_identity) ys"
    using arg_cong [OF assms, of "map fst"] by simp
  then show "map j_id xs = map j_id ys" by (simp add: job_identity_def comp_def)
  have "map ((\<lambda>(a, b, c, e, f). (b, e)) \<circ> job_identity) xs
      = map ((\<lambda>(a, b, c, e, f). (b, e)) \<circ> job_identity) ys"
    using arg_cong [OF assms, of "map (\<lambda>(a, b, c, e, f). (b, e))"] by simp
  then show "map (\<lambda>j. (j_tenant_id j, j_idempotency_key j)) xs
      = map (\<lambda>j. (j_tenant_id j, j_idempotency_key j)) ys"
    by (simp add: job_identity_def comp_def)
qed

lemma new_job_row_ok:
  assumes "e_next_run_at e \<noteq> None" "1 \<le> q_max_attempts q"
  shows "job_ok (new_job_row q e u)" "attempts_ok (new_job_row q e u)"
  using assms by (simp_all add: new_job_row_def job_ok_def jobs_attempts_ck_def attempts_ok_def)

text \<open>The attempts bound through a finalising update.\<close>

lemma fenced_attempts:
  assumes "list_all attempts_ok (jobs d)"
    "\<And>j. j \<in> set (jobs d) \<Longrightarrow> fenced i r j \<Longrightarrow> attempts_ok j \<Longrightarrow> attempts_ok (f j)"
  shows "list_all attempts_ok (jobs (snd (fenced_update i r f d)))"
  using assms by (auto simp: list_all_iff fenced_update_def in_update_rows)

lemma finaliser_db_ok:
  assumes "db_ok d" "map job_identity (jobs d') = map job_identity (jobs d)"
    "list_all job_ok (jobs d')" "list_all attempts_ok (jobs d')"
  shows "db_ok d'"
  using assms map_identity [OF assms(2)] by (simp add: db_ok_def)

lemma sets_attempts:
  "attempts_ok j \<Longrightarrow> attempts_ok (succeeded_set t j)"
  "attempts_ok j \<Longrightarrow> attempts_ok (exhausted_set c m t j)"
  "attempts_ok j \<Longrightarrow> attempts_ok (failure_set c m t j)"
  "attempts_ok j \<Longrightarrow> \<not> unscheduled j \<Longrightarrow> attempts_ok (requeue_set n t j)"
  by (auto simp: attempts_ok_def succeeded_set_def exhausted_set_def failure_set_def requeue_set_def
      unscheduled_def Let_def)

lemma step_db_ok:
  assumes "engine_step d d'" "db_ok d"
  shows "db_ok d'"
  using assms
proof cases
  case (create q e u)
  let ?j = "new_job_row q e u"
  have "jobs d' = jobs d @ [?j]" "j_id ?j \<notin> j_id ` set (jobs d)"
    "(j_tenant_id ?j, j_idempotency_key ?j) \<notin> (\<lambda>j. (j_tenant_id j, j_idempotency_key j)) ` set (jobs d)"
    using create(1) by (auto simp: insert_job_def split: if_splits)
  then show ?thesis using assms(2) new_job_row_ok [OF create(2,3)] by (simp add: db_ok_def)
next
  case (claim ruid locked t rows)
  let ?ids = "j_id ` set (picked locked t d)"
  have d': "jobs d' = update_rows (\<lambda>j. j_id j \<in> ?ids) (claim_set ruid t) (jobs d)"
    using claim(1) by (auto simp: claim_stmt_def Let_def)
  have "due t j" if "j \<in> set (jobs d)" "j_id j \<in> ?ids" for j
    using that in_picked [of _ locked t d] assms(2)
    by (auto simp: db_ok_def distinct_map claimable_def dest: inj_onD)
  then have "list_all job_ok (jobs d')" "list_all attempts_ok (jobs d')"
    using assms(2) claim_set_ok claim_set_attempts
    by (auto simp: d' db_ok_def list_all_iff in_update_rows)
  moreover have "map job_identity (jobs d') = map job_identity (jobs d)" by (simp add: d')
  ultimately show ?thesis using finaliser_db_ok [OF assms(2)] by blast
next
  case (succeed i r t n)
  show ?thesis
  proof (rule finaliser_db_ok [OF assms(2) succeeded.keys_kept(1) [OF succeed]])
    show "list_all job_ok (jobs d')" using succeeded.rows_ok [OF succeed] assms(2) by (simp add: db_ok_def)
    show "list_all attempts_ok (jobs d')"
      using fenced_attempts [of d i r "succeeded_set t"] succeeded.stmt_upd [OF succeed] assms(2)
      by (auto simp: db_ok_def sets_attempts) (metis snd_conv)
  qed
next
  case (requeue nr i r t n)
  show ?thesis
  proof (rule finaliser_db_ok [OF assms(2) requeue.keys_kept(1) [OF requeue(1)]])
    show "list_all job_ok (jobs d')" using requeue.rows_ok [OF requeue(1)] assms(2) by (simp add: db_ok_def)
    show "list_all attempts_ok (jobs d')"
      using fenced_attempts [of d i r "requeue_set nr t"] requeue.stmt_upd [OF requeue(1)] assms(2)
        requeue(2) by (auto simp: db_ok_def sets_attempts) (metis snd_conv)
  qed
next
  case (fail b code msg i r t n)
  show ?thesis
  proof (rule finaliser_db_ok [OF assms(2) failure.keys_kept(1) [OF fail]])
    show "list_all job_ok (jobs d')" using failure.rows_ok [OF fail] assms(2) by (simp add: db_ok_def)
    show "list_all attempts_ok (jobs d')"
      using fenced_attempts [of d i r "failure_set code msg t"] failure.stmt_upd [OF fail] assms(2)
      by (auto simp: db_ok_def sets_attempts) (metis snd_conv)
  qed
next
  case (exhaust code msg i r t n)
  show ?thesis
  proof (rule finaliser_db_ok [OF assms(2) exhausted.keys_kept(1) [OF exhaust]])
    show "list_all job_ok (jobs d')" using exhausted.rows_ok [OF exhaust] assms(2) by (simp add: db_ok_def)
    show "list_all attempts_ok (jobs d')"
      using fenced_attempts [of d i r "exhausted_set code msg t"] exhausted.stmt_upd [OF exhaust] assms(2)
      by (auto simp: db_ok_def sets_attempts) (metis snd_conv)
  qed
next
  case other
  then show ?thesis using assms(2) by (simp add: db_ok_def)
qed

lemma steps_db_ok: "engine_steps d d' \<Longrightarrow> db_ok d \<Longrightarrow> db_ok d'"
  by (induction rule: rtranclp_induct) (auto intro: step_db_ok)

lemma empty_db_ok: "db_ok empty_db"
  by (simp add: db_ok_def empty_db_def)

section \<open>One job through a transition\<close>

text \<open>The states a job can go through.\<close>

fun state_next :: "job_state \<Rightarrow> job_state \<Rightarrow> bool" where
  "state_next Queued st = (st \<in> {Queued, Running})"
| "state_next Running st = (st \<in> {Running, Queued, Succeeded, Jobs_exhausted})"
| "state_next st st' = (st' = st)"

definition row_next :: "job_row \<Rightarrow> job_row \<Rightarrow> bool" where
  "row_next j j' \<longleftrightarrow> job_identity j' = job_identity j \<and> j_max_attempts j' = j_max_attempts j
     \<and> j_attempt j \<le> j_attempt j' \<and> state_next (j_state j) (j_state j')
     \<and> (terminal (j_state j) \<longrightarrow> j' = j)"

lemma state_next_refl [simp]: "state_next st st"
  by (cases st) simp_all

lemma row_next_refl [simp]: "row_next j j"
  by (simp add: row_next_def)

lemma row_next_trans_terminal:
  assumes "row_next a b" "row_next b c"
  shows "job_identity c = job_identity a \<and> j_max_attempts c = j_max_attempts a
    \<and> j_attempt a \<le> j_attempt c \<and> (terminal (j_state a) \<longrightarrow> c = a)"
  using assms by (auto simp: row_next_def)

lemma row_next_sets:
  assumes "j_state j = Running"
  shows "row_next j (succeeded_set t j)" "row_next j (requeue_set n t j)"
    "row_next j (failure_set c m t j)" "row_next j (exhausted_set c m t j)"
  using assms by (simp_all add: row_next_def succeeded_set_def requeue_set_def failure_set_def
      exhausted_set_def job_identity_def Let_def)

lemma row_next_claim: "due t j \<Longrightarrow> row_next j (claim_set ruid t j)"
  by (auto simp: row_next_def due_def) (simp_all add: claim_set_def)

lemma fenced_row_next:
  assumes "find_job k d = Some j" "\<And>x. j_id (f x) = j_id x" "\<And>x. j_state x = Running \<Longrightarrow> row_next x (f x)"
  shows "\<exists>j'. find_job k (snd (fenced_update i r f d)) = Some j' \<and> row_next j j'"
  using find_update_rows [of j_id f k "fenced i r" "jobs d"] assms
  by (auto simp: fenced_update_def find_job_def fenced_def)

lemma step_row_next:
  assumes "engine_step d d'" "db_ok d" "find_job k d = Some j"
  shows "\<exists>j'. find_job k d' = Some j' \<and> row_next j j'"
  using assms(1)
proof cases
  case (create q e u)
  have "List.find P (xs @ ys) = (case List.find P xs of Some x \<Rightarrow> Some x | None \<Rightarrow> List.find P ys)"
    for P and xs ys :: "job_row list" by (induction xs) auto
  moreover have "jobs d' = jobs d @ [new_job_row q e u]"
    using create(1) by (auto simp: insert_job_def split: if_splits)
  ultimately have "find_job k d' = Some j" using assms(3) by (simp add: find_job_def)
  then show ?thesis by auto
next
  case (claim ruid locked t rows)
  have dist: "distinct (map j_id (jobs d))" using assms(2) by (simp add: db_ok_def)
  show ?thesis
    using claim_row [OF claim assms(3)] claimed_due [OF claim dist assms(3)] row_next_claim
    by (auto simp: claimable_def)
next
  case (succeed i r t n)
  then show ?thesis using fenced_row_next [OF assms(3), of "succeeded_set t" i r]
      row_next_sets(1) succeeded.stmt_upd [OF succeed] by (auto dest: sym)
next
  case (requeue nr i r t n)
  then show ?thesis using fenced_row_next [OF assms(3), of "requeue_set nr t" i r]
      row_next_sets(2) requeue.stmt_upd [OF requeue(1)] by (auto dest: sym)
next
  case (fail b code msg i r t n)
  then show ?thesis using fenced_row_next [OF assms(3), of "failure_set code msg t" i r]
      row_next_sets(3) failure.stmt_upd [OF fail] by (auto dest: sym)
next
  case (exhaust code msg i r t n)
  then show ?thesis using fenced_row_next [OF assms(3), of "exhausted_set code msg t" i r]
      row_next_sets(4) exhausted.stmt_upd [OF exhaust] by (auto dest: sym)
next
  case other
  then show ?thesis using assms(3) by (simp add: find_job_def)
qed

lemma steps_row:
  assumes "engine_steps d d'" "db_ok d" "find_job k d = Some j"
  shows "\<exists>j'. find_job k d' = Some j' \<and> job_identity j' = job_identity j
    \<and> j_max_attempts j' = j_max_attempts j \<and> j_attempt j \<le> j_attempt j'
    \<and> (terminal (j_state j) \<longrightarrow> j' = j)"
  using assms(1)
proof (induction rule: rtranclp_induct)
  case base
  then show ?case using assms(3) by simp
next
  case (step y z)
  then obtain a where a: "find_job k y = Some a" "job_identity a = job_identity j"
    "j_max_attempts a = j_max_attempts j" "j_attempt j \<le> j_attempt a"
    "terminal (j_state j) \<longrightarrow> a = j" by blast
  obtain b where "find_job k z = Some b" "row_next a b"
    using step_row_next [OF step(2) steps_db_ok [OF step(1) assms(2)] a(1)] by blast
  then show ?case using a by (auto simp: row_next_def)
qed

section \<open>The running system is made of these transitions\<close>

definition evolves :: "db \<Rightarrow> db \<Rightarrow> bool" where
  "evolves d d' \<longleftrightarrow> (db_ok d \<longrightarrow> engine_steps d d')"

text \<open>What is assumed of the other sessions and of the modules: they too move the database only
  by these transitions.\<close>

definition env_ok :: "conn_env \<Rightarrow> bool" where
  "env_ok env \<longleftrightarrow> (\<forall>k d. evolves d (ce_gap env k d))"

definition runner_ok :: "runner_service \<Rightarrow> bool" where
  "runner_ok s \<longleftrightarrow> (\<forall>p v m a params d. rs_lookup s p v = Some m \<longrightarrow> evolves d (snd (m_execute m a params d)))"

lemma evolves_refl [simp]: "evolves d d"
  by (simp add: evolves_def)

lemma evolves_trans: "evolves a b \<Longrightarrow> evolves b c \<Longrightarrow> evolves a c"
  unfolding evolves_def by (meson rtranclp_trans steps_db_ok)

lemma evolves_step: "engine_step d d' \<Longrightarrow> evolves d d'"
  by (simp add: evolves_def r_into_rtranclp)

lemma evolves_other: "jobs d' = jobs d \<Longrightarrow> evolves d d'"
  by (simp add: evolves_step engine_step.other)

lemma exec_evolves:
  assumes "env_ok env" "\<And>t d a d'. f t d = Inr (a, d') \<Longrightarrow> evolves d d'"
    "exec_stmt env k f d = (res, d')"
  shows "evolves d d'"
  using exec_stmt_rel [of evolves env k f d res d'] assms evolves_trans
  by (auto simp: env_ok_def)

lemma project_evolves: "env_ok env \<Longrightarrow> evolves d (project_stmt env k i d)"
  unfolding project_stmt_def
  by (rule exec_evolves [of env "\<lambda>t d. Inr ((), upsert_jobs_read i d)" k])
    (auto intro: evolves_other simp: prod_eq_iff)

lemma outbox_evolves: "env_ok env \<Longrightarrow> evolves d (outbox_stmt env k i d)"
  unfolding outbox_stmt_def
  by (rule exec_evolves [of env "\<lambda>t d. Inr ((), insert_outbox_succeeded i t d)" k])
    (auto intro: evolves_other simp: prod_eq_iff)

lemma finalise_terminal_evolves:
  assumes "env_ok env"
  shows "evolves d (snd (finalise_terminal env i r code msg d))"
proof -
  obtain x d1 where x: "exec_stmt env 1 (exhausted_stmt code msg i r) d = (x, d1)" by fastforce
  have "evolves d d1"
    by (rule exec_evolves [OF assms _ x]) (auto intro: evolves_step engine_step.exhaust)
  then show ?thesis using x evolves_trans project_evolves [OF assms]
    by (auto simp: finalise_terminal_def split: option.splits sum.splits)
qed

lemma finalise_failure_evolves:
  assumes "env_ok env"
  shows "evolves d (snd (finalise_failure env i r code msg d))"
proof -
  obtain x d1 where x: "exec_stmt env 1 (failure_stmt (ce_text_to_enum env) code msg i r) d = (x, d1)"
    by fastforce
  have "evolves d d1"
    by (rule exec_evolves [OF assms _ x]) (auto intro: evolves_step engine_step.fail)
  then show ?thesis using x evolves_trans project_evolves [OF assms]
    by (auto simp: finalise_failure_def split: option.splits sum.splits)
qed

lemma exec_evolves_at:
  assumes "env_ok env" "\<And>t a d'. f t (ce_gap env k d) = Inr (a, d') \<Longrightarrow> evolves (ce_gap env k d) d'"
    "exec_stmt env k f d = (res, d')"
  shows "evolves d d'"
proof -
  have g: "evolves d (ce_gap env k d)" using assms(1) by (simp add: env_ok_def)
  show ?thesis
    using assms(3) g evolves_trans [OF g assms(2)]
    by (auto simp: exec_stmt_def Let_def split: option.splits sum.splits if_splits)
qed

lemma compute_next_scheduled:
  "compute_next_run_at cron (j_schedule j) t = Inr (Some n) \<Longrightarrow> \<not> unscheduled j"
  by (auto simp: compute_next_run_at_def unscheduled_def split: option.splits if_splits)

lemma success_stmt_evolves:
  assumes "db_ok d" "find_job i d = Some j" "nr \<noteq> None \<Longrightarrow> \<not> unscheduled j"
    "success_stmt nr i r t d = Inr (n, d')"
  shows "evolves d d'"
proof (cases nr)
  case None
  then show ?thesis using assms(4)
    by (auto simp: success_stmt_def intro: evolves_step engine_step.succeed)
next
  case (Some m)
  have "\<not> unscheduled x" if "x \<in> set (jobs d)" "fenced i r x" for x
  proof -
    have "x = j" using that find_job_key [of d x] assms(1,2) by (simp add: db_ok_def fenced_def)
    then show ?thesis using assms(3) Some by simp
  qed
  then show ?thesis using assms(4) Some
    by (auto simp: success_stmt_def intro!: evolves_step intro: engine_step.requeue)
qed

lemma finalise_success_evolves:
  assumes "env_ok env"
  shows "evolves d (snd (finalise_success env cron i r d))"
proof -
  obtain x d1 where x: "exec_stmt env 1 (fetch_schedule i r) d = (x, d1)" by fastforce
  have d1: "evolves d d1"
    by (rule exec_evolves [OF assms _ x]) (simp add: fetch_schedule_def)
  have upd: "evolves d1 d2"
    if sch: "x = Inr (Some (schedule, now))" "compute_next_run_at cron schedule now = Inr nr"
      and y: "exec_stmt env 2 (success_stmt nr i r) d1 = (y, d2)" for schedule now nr y d2
  proof (cases "db_ok d1")
    case False
    then show ?thesis by (simp add: evolves_def)
  next
    case True
    have "\<exists>j. List.find (fenced i r) (jobs d1) = Some j \<and> schedule = j_schedule j"
      using x sch(1) by (auto simp: exec_stmt_def fetch_schedule_def Let_def split: option.splits)
    then obtain j where j: "j \<in> set (jobs d1)" "fenced i r j" "schedule = j_schedule j"
      using find_Some_in by metis
    then have fj: "find_job i d1 = Some j"
      using find_job_key [of d1 j] True by (simp add: db_ok_def fenced_def)
    have g: "engine_steps d1 (ce_gap env 2 d1)"
      using assms True by (auto simp: env_ok_def evolves_def)
    obtain j' where j': "find_job i (ce_gap env 2 d1) = Some j'" "job_identity j' = job_identity j"
      using steps_row [OF g True fj] by blast
    have "nr \<noteq> None \<Longrightarrow> \<not> unscheduled j'"
      using sch(2) compute_next_scheduled [of cron j now] j(3) j'(2)
      by (auto simp: unscheduled_def job_identity_def)
    then show ?thesis
      using exec_evolves_at [OF assms _ y] success_stmt_evolves [OF steps_db_ok [OF g True] j'(1)]
      by blast
  qed
  have "evolves d d2"
    if "x = Inr (Some (schedule, now))" "compute_next_run_at cron schedule now = Inr nr"
      "exec_stmt env 2 (success_stmt nr i r) d1 = (y, d2)" for schedule now nr y d2
    using upd [OF that] d1 evolves_trans by blast
  moreover have "evolves d (outbox_stmt env 4 i (project_stmt env 3 i d2))" if "evolves d d2" for d2
    using evolves_trans [OF that] evolves_trans [OF project_evolves [OF assms] outbox_evolves [OF assms]]
    by blast
  ultimately show ?thesis
    using x d1 unfolding finalise_success_def by (auto split: option.splits sum.splits prod.splits)
qed

lemma run_module_evolves:
  assumes "env_ok fin" "\<And>a params d. evolves d (snd (m_execute m a params d))"
  shows "evolves d (snd (run_module fin s m j v i r params d))"
proof -
  obtain out d1 where o: "m_execute m (job_adapter s m j i r) params d = (out, d1)" by fastforce
  have "evolves d d1" using assms(2) [of d "job_adapter s m j i r" params] o by simp
  then show ?thesis
    using o evolves_trans finalise_terminal_evolves [OF assms(1)] finalise_failure_evolves [OF assms(1)]
      finalise_success_evolves [OF assms(1), of d1 "rs_cron s" i r]
    by (cases out) (auto simp: run_module_def Let_def split: prod.splits option.splits)
qed

lemma run_job_evolves:
  assumes "env_ok env" "env_ok fin" "runner_ok s"
  shows "evolves d (snd (run_job env fin s i r d))"
proof -
  obtain x d1 where x: "exec_stmt env 1 (\<lambda>t d. Inr (List.find (fenced i r) (jobs d), d)) d = (x, d1)"
    by fastforce
  have d1: "evolves d d1" by (rule exec_evolves [OF assms(1) _ x]) simp
  have "evolves d (snd (run_module fin s m j v i r params d1))" if "rs_lookup s p v' = Some m" for m j v v' p params
    using run_module_evolves [OF assms(2)] assms(3) that d1 evolves_trans
    unfolding runner_ok_def by blast
  then show ?thesis
    using x d1 evolves_trans [OF d1] finalise_failure_evolves [OF assms(2)]
    by (auto simp: run_job_def Let_def split: option.splits sum.splits)
qed

definition claim_env_ok :: "claim_env \<Rightarrow> bool" where
  "claim_env_ok env \<longleftrightarrow> env_ok (cl_conn env) \<and> (\<forall>k. env_ok (fst (cl_run env k)) \<and> env_ok (snd (cl_run env k)))"

lemma dispatch_evolves:
  assumes "claim_env_ok env" "\<forall>s'. s = Some s' \<longrightarrow> runner_ok s'"
  shows "evolves d (snd (dispatch env s k rows d))"
proof (induction rows arbitrary: k d)
  case (Cons row rows)
  obtain i r where row: "row = (i, r)" by (cases row)
  show ?case
  proof (cases s)
    case None
    then show ?thesis using Cons row by auto
  next
    case (Some s')
    obtain res d' where res: "run_job (fst (cl_run env k)) (snd (cl_run env k)) s' i r d = (res, d')"
      by fastforce
    have "evolves d d'"
      using run_job_evolves [of "fst (cl_run env k)" "snd (cl_run env k)" s' d i r] res assms Some
      by (simp add: claim_env_ok_def)
    moreover have "evolves d' (snd (dispatch env s (Suc k) rows d'))" by (rule Cons)
    ultimately show ?thesis using Cons row Some res evolves_trans [of d d']
      by (auto split: run_result.splits)
  qed
qed simp

lemma claim_and_dispatch_evolves:
  assumes "claim_env_ok env" "\<forall>s'. s = Some s' \<longrightarrow> runner_ok s'"
  shows "evolves d (snd (claim_and_dispatch env s d))"
proof -
  obtain x d1 where x: "exec_stmt (cl_conn env) 1 (claim_stmt (cl_ruid env) (cl_locked env)) d = (x, d1)"
    by fastforce
  have "evolves d d1"
    by (rule exec_evolves [OF _ _ x])
      (use assms(1) in \<open>auto simp: claim_env_ok_def intro: evolves_step engine_step.claim\<close>)
  then show ?thesis
    using x dispatch_evolves [OF assms, where d = d1 and k = 0] evolves_trans [of d d1]
    by (auto simp: claim_and_dispatch_def split: option.splits sum.splits)
qed

lemma scheduler_start_evolves:
  assumes "\<And>e. Sched_tick e \<in> set es \<Longrightarrow> claim_env_ok e" "\<forall>s'. s = Some s' \<longrightarrow> runner_ok s'"
  shows "evolves d (snd (scheduler_start s es d))"
  using assms(1)
proof (induction es arbitrary: d)
  case (Cons e es)
  show ?case
  proof (cases e)
    case (Sched_tick env)
    obtain x d1 where x: "claim_and_dispatch env s d = (x, d1)" by fastforce
    have "evolves d d1"
      using claim_and_dispatch_evolves [OF _ assms(2), of env d] Cons.prems [of env] Sched_tick x by simp
    moreover have "evolves d1 (snd (scheduler_start s es d1))"
      using Cons.IH Cons.prems by simp
    ultimately show ?thesis using x Sched_tick evolves_trans [of d d1] by (auto split: option.splits)
  qed simp_all
qed simp

lemma create_job_with_db_evolves:
  assumes "env_ok (ie_conn env)" "1 \<le> q_max_attempts q"
  shows "evolves d (snd (create_job_with_db env q fp n d))"
proof -
  let ?c = "ie_conn env" and ?e = "new_envelope env q n"
  obtain x d1 where x: "exec_stmt ?c 1 (insert_idem_stmt (idem_row_of q fp ?e)) d = (x, d1)" by fastforce
  have d1: "evolves d d1"
    by (rule exec_evolves [OF assms(1) _ x])
      (auto simp: insert_idem_stmt_def insert_idem_do_nothing_def intro!: evolves_other
        split: sum.splits if_splits option.splits)
  obtain f d2 where f: "exec_stmt ?c 2 (fetch_idem_stmt q) d1 = (f, d2)" by fastforce
  have d2: "evolves d1 d2"
    by (rule exec_evolves [OF assms(1) _ f]) (simp add: fetch_idem_stmt_def)
  obtain y d3 where y: "exec_stmt ?c 2 (insert_job_stmt q ?e (ie_run_uuid env)) d1 = (y, d3)" by fastforce
  have d3: "evolves d1 d3"
    by (rule exec_evolves [OF assms(1) _ y])
      (use assms(2) in \<open>auto simp: insert_job_stmt_def new_envelope_def split: sum.splits
        intro!: evolves_step engine_step.create\<close>)
  have d4: "evolves d3 d4" if "exec_stmt ?c 3 (insert_read_stmt q ?e u) d3 = (z, d4)" for u z d4
    by (rule exec_evolves [OF assms(1) _ that])
      (auto simp: insert_read_stmt_def insert_jobs_read_def intro!: evolves_other
        split: sum.splits if_splits)
  show ?thesis
    using x f y d1 evolves_trans [OF d1 d2] evolves_trans [OF d1 d3]
      evolves_trans [OF evolves_trans [OF d1 d3] d4]
    by (auto simp: create_job_with_db_def fetch_existing_def Let_def
        split: option.splits sum.splits prod.splits if_splits)
qed

section \<open>Properties\<close>

text \<open>C2: the invariant of the running engine. Whatever sequence of ticks, claims, module runs,
  failing statements and interleaved sessions the scheduler goes through, every job keeps a lease
  and an owner exactly while it runs, a due time while queued and a finishing time exactly in a
  terminal state, ids and tenant keys stay unique, and the attempts of a job without a schedule
  never exceed its limit.\<close>

theorem scheduler_keeps_invariant:
  assumes "db_ok d" "\<forall>e. Sched_tick e \<in> set es \<longrightarrow> claim_env_ok e"
    "\<forall>s'. s = Some s' \<longrightarrow> runner_ok s'"
  shows "db_ok (snd (scheduler_start s es d))"
  using scheduler_start_evolves [of es s d] assms steps_db_ok by (simp add: evolves_def)

definition ex_tick :: claim_env where
  "ex_tick = \<lparr>cl_conn = quiet_env 100 True, cl_ruid = \<lambda>i. i @ ''-new'', cl_locked = \<lambda>_. False,
     cl_order = \<lambda>xs. xs, cl_scan_fails = \<lambda>_. False, cl_run = \<lambda>_. (quiet_env 101 True, quiet_env 102 True)\<rparr>"

lemma quiet_env_ok: "env_ok (quiet_env t b)"
  by (simp add: env_ok_def quiet_env_def)

lemma ex_tick_ok: "claim_env_ok ex_tick"
  by (simp add: claim_env_ok_def ex_tick_def quiet_env_ok)

lemma ex_runner_ok: "runner_ok (ex_runner out)"
  by (auto simp: runner_ok_def ex_runner_def ex_module_def split: if_splits)

lemma ex_claim_db_ok: "db_ok ex_claim_db"
  by (simp add: db_ok_def ex_claim_db_def ex_db_def ex_job_def job_ok_def jobs_attempts_ck_def
      attempts_ok_def)

theorem scheduler_keeps_invariant_witness:
  "db_ok (snd (scheduler_start (Some (ex_runner Exec_ok)) [Sched_tick ex_tick, Sched_stop] ex_claim_db))"
  by (rule scheduler_keeps_invariant) (simp_all add: ex_claim_db_ok ex_tick_ok ex_runner_ok)

text \<open>C3: a finished job stays finished: the row of a job in a terminal state is not changed by
  anything the scheduler and its runs do afterwards.\<close>

theorem terminal_jobs_stay:
  assumes "db_ok d" "\<forall>e. Sched_tick e \<in> set es \<longrightarrow> claim_env_ok e"
    "\<forall>s'. s = Some s' \<longrightarrow> runner_ok s'" "find_job i d = Some j" "terminal (j_state j)"
  shows "find_job i (snd (scheduler_start s es d)) = Some j"
proof -
  have "engine_steps d (snd (scheduler_start s es d))"
    using scheduler_start_evolves [of es s d] assms(1-3) by (simp add: evolves_def)
  from steps_row [OF this assms(1,4)] show ?thesis using assms(5) by auto
qed

theorem terminal_jobs_stay_witness:
  "let d = ex_db\<lparr>jobs := [succeeded_set 20 ex_job]\<rparr>
   in find_job ''j1'' (snd (scheduler_start (Some (ex_runner Exec_ok)) [Sched_tick ex_tick] d))
      = Some (succeeded_set 20 ex_job)"
  unfolding Let_def
  by (rule terminal_jobs_stay)
    (simp_all add: ex_tick_ok ex_runner_ok db_ok_def ex_db_def job_ok_def
      find_job_def succeeded_set_def ex_job_def jobs_attempts_ck_def attempts_ok_def)

text \<open>Every state that can be reached from the empty database satisfies the invariant; in
  particular no job is ever failed or canceled, two states the schema and the interface name:
  a job that gives up is exhausted, and cancelling a job has no effect on it.\<close>

theorem reachable_invariant:
  assumes "reachable d" "j \<in> set (jobs d)"
  shows "job_ok j \<and> attempts_ok j \<and> j_state j \<in> {Queued, Running, Succeeded, Jobs_exhausted}"
proof -
  have "db_ok d" using assms(1) empty_db_ok steps_db_ok by (simp add: reachable_def)
  then have "job_ok j" "attempts_ok j" using assms(2) by (simp_all add: db_ok_def list_all_iff)
  then show ?thesis by (cases "j_state j") (auto simp: job_ok_def)
qed

theorem reachable_invariant_witness:
  "reachable (empty_db\<lparr>jobs := [new_job_row ((ex_req ''a'')\<lparr>q_max_attempts := 3\<rparr>) ex_envelope ''r1'']\<rparr>)
   \<and> job_ok (new_job_row ((ex_req ''a'')\<lparr>q_max_attempts := 3\<rparr>) ex_envelope ''r1'')"
proof -
  let ?q = "(ex_req ''a'')\<lparr>q_max_attempts := 3\<rparr>"
  let ?j = "new_job_row ?q ex_envelope ''r1''"
  have "insert_job ?j empty_db = Inr (empty_db\<lparr>jobs := [?j]\<rparr>)"
    by (simp add: insert_job_def empty_db_def new_job_row_def jobs_attempts_ck_def ex_req_def
        idem_key_format_ck_def idem_key_char_def)
  then have r: "reachable (empty_db\<lparr>jobs := [?j]\<rparr>)"
    unfolding reachable_def
    by (intro r_into_rtranclp engine_step.create [where q = ?q and e = ex_envelope and u = "''r1''"])
      (simp_all add: ex_envelope_def)
  from reachable_invariant [OF this, of ?j] r show ?thesis by simp
qed

text \<open>A job with a schedule does not get its attempts back when it succeeds: each cycle of a
  success and the next claim counts one attempt more, and once they have reached the limit the
  first failure exhausts the job without a retry.\<close>

definition schedule_cycle :: "(string \<Rightarrow> string) \<Rightarrow> time \<Rightarrow> time \<Rightarrow> time \<Rightarrow> job_row \<Rightarrow> job_row" where
  "schedule_cycle ruid n t t' j = claim_set ruid t' (requeue_set n t j)"

theorem schedule_uses_up_attempts:
  assumes "j_max_attempts j \<le> j_attempt j + int k"
  shows "j_state (failure_set code msg u ((schedule_cycle ruid n t t' ^^ k) j)) = Jobs_exhausted"
proof -
  have "j_attempt ((schedule_cycle ruid n t t' ^^ k) j) = j_attempt j + int k
      \<and> j_max_attempts ((schedule_cycle ruid n t t' ^^ k) j) = j_max_attempts j"
    by (induction k) (simp_all add: schedule_cycle_def claim_set_def requeue_set_def)
  then show ?thesis using assms by (simp add: failure_set_def)
qed

theorem schedule_uses_up_attempts_witness:
  "j_state (failure_set ''X'' ''first failure'' 9 ((schedule_cycle (\<lambda>i. i) 5 6 7 ^^ 2) ex_job))
   = Jobs_exhausted"
  by (rule schedule_uses_up_attempts) (simp add: ex_job_def)

end
