(* ===== verification/Job_Ledger.thy ===== *)
theory Job_Ledger
  imports Lifecycle
begin

text \<open>
  An abstract specification of the engine, and the proof that the detailed model implements it. The
  specification is a ledger: for each job id its state, its attempts and their limit, and whether it
  has a schedule. It says what may happen to an entry, and nothing of leases, run ids, statements or
  projections. The implementation is the job handler and the scheduler with its runs, under every
  fault and interleaving (\<open>evolves\<close>).
\<close>

section \<open>The specification\<close>

record entry =
  en_state :: job_state
  en_attempt :: int
  en_limit :: int
  en_scheduled :: bool

type_synonym ledger = "string \<Rightarrow> entry option"

text \<open>What one step may do to the entry of one job.\<close>

inductive entry_step :: "entry option \<Rightarrow> entry option \<Rightarrow> bool" where
  stay: "entry_step x x"
| submit: "1 \<le> m \<Longrightarrow> entry_step None (Some \<lparr>en_state = Queued, en_attempt = 0, en_limit = m, en_scheduled = s\<rparr>)"
| start: "en_state x = Queued \<Longrightarrow> en_scheduled x \<or> en_attempt x < en_limit x \<Longrightarrow>
    entry_step (Some x) (Some (x\<lparr>en_state := Running, en_attempt := en_attempt x + 1\<rparr>))"
| retry: "en_state x = Running \<Longrightarrow> en_scheduled x \<or> en_attempt x < en_limit x \<Longrightarrow>
    entry_step (Some x) (Some (x\<lparr>en_state := Queued\<rparr>))"
| succeed: "en_state x = Running \<Longrightarrow> entry_step (Some x) (Some (x\<lparr>en_state := Succeeded\<rparr>))"
| give_up: "en_state x = Running \<Longrightarrow> entry_step (Some x) (Some (x\<lparr>en_state := Jobs_exhausted\<rparr>))"

inductive_cases entry_step_SomeE: "entry_step (Some x) y"
inductive_cases entry_step_NoneE: "entry_step None y"

definition ledger_step :: "ledger \<Rightarrow> ledger \<Rightarrow> bool" where
  "ledger_step l l' \<longleftrightarrow> (\<forall>i. entry_step (l i) (l' i))"

abbreviation ledger_steps :: "ledger \<Rightarrow> ledger \<Rightarrow> bool" where
  "ledger_steps \<equiv> ledger_step\<^sup>*\<^sup>*"

text \<open>What the specification promises: an entry never disappears, its limit and schedule are fixed,
  its attempts never decrease, and once it is final it does not change.\<close>

lemma entry_step_keeps:
  assumes "entry_step (Some x) y"
  shows "\<exists>x'. y = Some x' \<and> en_limit x' = en_limit x \<and> en_scheduled x' = en_scheduled x \<and> en_attempt x \<le> en_attempt x'
    \<and> (terminal (en_state x) \<longrightarrow> x' = x)"
  using assms by (cases rule: entry_step_SomeE) auto

lemma ledger_steps_keep:
  assumes "ledger_steps l l'" "l i = Some x"
  shows "\<exists>x'. l' i = Some x' \<and> en_limit x' = en_limit x \<and> en_scheduled x' = en_scheduled x \<and> en_attempt x \<le> en_attempt x'
    \<and> (terminal (en_state x) \<longrightarrow> x' = x)"
  using assms(1)
proof (induction rule: rtranclp_induct)
  case base
  then show ?case using assms(2) by simp
next
  case (step y z)
  then obtain a where a: "y i = Some a" "en_limit a = en_limit x" "en_scheduled a = en_scheduled x"
    "en_attempt x \<le> en_attempt a" "terminal (en_state x) \<longrightarrow> a = x" by blast
  have "entry_step (Some a) (z i)" using step(2) a(1) by (simp add: ledger_step_def) metis
  from entry_step_keeps [OF this] show ?case using a by (auto intro: order_trans)
qed

section \<open>Abstraction\<close>

definition entry_of :: "job_row \<Rightarrow> entry" where
  "entry_of j = \<lparr>en_state = j_state j, en_attempt = j_attempt j, en_limit = j_max_attempts j,
     en_scheduled = (\<not> unscheduled j)\<rparr>"

definition ledger_of :: "db \<Rightarrow> ledger" where
  "ledger_of d i = map_option entry_of (find_job i d)"

lemma find_append: "List.find P (xs @ ys) = (case List.find P xs of Some x \<Rightarrow> Some x | None \<Rightarrow> List.find P ys)"
  by (induction xs) auto

text \<open>The updates of a row that runs, and its claim, seen as steps of its entry.\<close>

lemma entry_sets:
  assumes "j_state j = Running"
  shows "entry_step (Some (entry_of j)) (Some (entry_of (succeeded_set t j)))"
    "entry_step (Some (entry_of j)) (Some (entry_of (exhausted_set c m t j)))"
    "entry_step (Some (entry_of j)) (Some (entry_of (failure_set c m t j)))"
    "\<not> unscheduled j \<Longrightarrow> entry_step (Some (entry_of j)) (Some (entry_of (requeue_set n t j)))"
  using assms succeed [of "entry_of j"] give_up [of "entry_of j"] retry [of "entry_of j"]
  by (simp_all add: entry_of_def unscheduled_def succeeded_set_def exhausted_set_def failure_set_def requeue_set_def Let_def)

lemma entry_claim:
  assumes "due t j" "attempts_ok j"
  shows "entry_step (Some (entry_of j)) (Some (entry_of (claim_set ruid t j)))"
proof (cases "j_state j = Queued")
  case True
  then have "en_scheduled (entry_of j) \<or> en_attempt (entry_of j) < en_limit (entry_of j)"
    using assms(2) by (auto simp: attempts_ok_def entry_of_def)
  then show ?thesis using start [of "entry_of j"] True
    by (simp add: entry_of_def claim_set_def unscheduled_def)
next
  case False
  then show ?thesis using assms(1) stay [of "Some (entry_of j)"]
    by (auto simp: entry_of_def claim_set_def unscheduled_def due_def)
qed

lemma fenced_ledger_step:
  assumes "\<And>x. j_id (f x) = j_id x"
    "\<And>x. x \<in> set (jobs d) \<Longrightarrow> fenced i r x \<Longrightarrow> entry_step (Some (entry_of x)) (Some (entry_of (f x)))"
    "(n, d') = fenced_update i r f d"
  shows "ledger_step (ledger_of d) (ledger_of d')"
  unfolding ledger_step_def
proof
  fix k
  have eq: "find_job k d' = map_option (\<lambda>x. if fenced i r x then f x else x) (find_job k d)"
    using find_update_rows [of j_id f k "fenced i r" "jobs d"] assms(1,3)
    by (simp add: fenced_update_def find_job_def)
  show "entry_step (ledger_of d k) (ledger_of d' k)"
  proof (cases "find_job k d")
    case (Some x)
    then have "x \<in> set (jobs d)" using find_job_in by blast
    then show ?thesis using assms(2) Some eq by (simp add: ledger_of_def stay)
  qed (simp add: ledger_of_def stay eq)
qed

lemma claim_ledger_step:
  assumes "claim_stmt ruid locked t d = Inr (rows, d')" "db_ok d"
  shows "ledger_step (ledger_of d) (ledger_of d')"
  unfolding ledger_step_def
proof
  fix k
  have dist: "distinct (map j_id (jobs d))" using assms(2) by (simp add: db_ok_def)
  show "entry_step (ledger_of d k) (ledger_of d' k)"
  proof (cases "find_job k d")
    case None
    then have "find_job k d' = None"
      using assms(1) by (auto simp: claim_stmt_def Let_def find_job_def find_none in_update_rows split: if_splits)
    then show ?thesis using None by (simp add: ledger_of_def stay)
  next
    case (Some j)
    then have "attempts_ok j" using find_job_in [OF Some] assms(2) by (simp add: db_ok_def list_all_iff)
    then show ?thesis
      using claim_row [OF assms(1) Some] claimed_due [OF assms(1) dist Some] entry_claim Some
      by (auto simp: ledger_of_def claimable_def stay)
  qed
qed

lemma create_ledger_step:
  assumes "insert_job (new_job_row q e u) d = Inr d'" "1 \<le> q_max_attempts q"
  shows "ledger_step (ledger_of d) (ledger_of d')"
proof -
  let ?j = "new_job_row q e u"
  have j: "jobs d' = jobs d @ [?j]" using assms(1) by (auto simp: insert_job_def split: if_splits)
  have "entry_step None (Some (entry_of ?j))"
    using submit [OF assms(2), of "\<not> unscheduled ?j"] by (simp add: entry_of_def new_job_row_def)
  then show ?thesis
    by (auto simp: ledger_step_def ledger_of_def find_job_def j find_append stay split: option.splits)
qed

lemma engine_step_refines:
  assumes "engine_step d d'" "db_ok d"
  shows "ledger_step (ledger_of d) (ledger_of d')"
  using assms(1)
proof cases
  case (create q e u)
  then show ?thesis by (intro create_ledger_step)
next
  case (claim ruid locked t rows)
  then show ?thesis by (rule claim_ledger_step [OF _ assms(2)])
next
  case (succeed i r t n)
  show ?thesis
    by (rule fenced_ledger_step [OF _ _ succeeded.stmt_upd [OF succeed]])
      (auto simp: fenced_def entry_sets)
next
  case (requeue nr i r t n)
  show ?thesis
    by (rule fenced_ledger_step [OF _ _ requeue.stmt_upd [OF requeue(1)]])
      (use requeue(2) in \<open>auto simp: fenced_def entry_sets\<close>)
next
  case (fail b code msg i r t n)
  show ?thesis
    by (rule fenced_ledger_step [OF _ _ failure.stmt_upd [OF fail]]) (auto simp: fenced_def entry_sets)
next
  case (exhaust code msg i r t n)
  show ?thesis
    by (rule fenced_ledger_step [OF _ _ exhausted.stmt_upd [OF exhaust]]) (auto simp: fenced_def entry_sets)
next
  case other
  then have "ledger_of d' = ledger_of d" by (simp add: ledger_of_def find_job_def fun_eq_iff)
  then show ?thesis by (simp add: ledger_step_def stay)
qed

lemma evolves_refines:
  assumes "evolves d d'" "db_ok d"
  shows "ledger_steps (ledger_of d) (ledger_of d') \<and> db_ok d'"
proof -
  have "engine_steps d d'" using assms by (simp add: evolves_def)
  then show ?thesis
  proof (induction rule: rtranclp_induct)
    case (step y z)
    then show ?case using engine_step_refines [of y z] step_db_ok [of y z]
      by (auto intro: rtranclp.rtrancl_into_rtrancl)
  qed (use assms(2) in simp)
qed

section \<open>The engine as it runs\<close>

text \<open>What reaches the engine: submissions at its handler and activity of its scheduler, in any
  order; other sessions act inside each of them.\<close>

datatype engine_op = Submit intake_env request_body | Schedule "sched_event list"

fun run_engine_op :: "runner_service option \<Rightarrow> engine_op \<Rightarrow> job_handler \<times> db \<Rightarrow> job_handler \<times> db" where
  "run_engine_op s (Submit env body) (h, d) = snd (create_job env h body d)"
| "run_engine_op s (Schedule es) (h, d) = (h, snd (scheduler_start s es d))"

definition run_engine :: "runner_service option \<Rightarrow> engine_op list \<Rightarrow> job_handler \<times> db \<Rightarrow> job_handler \<times> db" where
  "run_engine s ops = fold (run_engine_op s) ops"

fun engine_op_ok :: "engine_op \<Rightarrow> bool" where
  "engine_op_ok (Submit env body) \<longleftrightarrow> env_ok (ie_conn env)"
| "engine_op_ok (Schedule es) \<longleftrightarrow> (\<forall>e. Sched_tick e \<in> set es \<longrightarrow> claim_env_ok e)"

lemma submit_request_evolves:
  assumes "env_ok (ie_conn env)" "1 \<le> q_max_attempts q"
  shows "evolves d (snd (snd (submit_request env h q d)))"
proof (cases "create_job_fingerprint env q")
  case (Some fp)
  obtain res d' where r: "create_job_with_db env q fp (next_run_at env q) d = (res, d')" by fastforce
  have "evolves d d'" using create_job_with_db_evolves [OF assms, of d fp "next_run_at env q"] r by simp
  then show ?thesis using Some r
    by (simp add: submit_request_def Let_def split: sum.split prod.split)
qed (simp add: submit_request_def Let_def)

lemma create_job_evolves:
  assumes "env_ok (ie_conn env)"
  shows "evolves d (snd (snd (create_job env h body d)))"
proof (cases body)
  case (Body n req)
  have "evolves d (snd (snd (submit_request env h (normalise_schedule q) d)))" for q
    by (rule submit_request_evolves [OF assms]) (simp add: normalise_schedule_def)
  then show ?thesis
    by (simp add: create_job_def Body Let_def split: option.split)
qed (simp add: create_job_def)

lemma run_engine_op_evolves:
  assumes "engine_op_ok x" "\<forall>s'. s = Some s' \<longrightarrow> runner_ok s'"
  shows "evolves d (snd (run_engine_op s x (h, d)))"
  using assms create_job_evolves scheduler_start_evolves [of _ s]
  by (cases x) auto

lemma run_engine_refines:
  assumes "db_ok d" "list_all engine_op_ok ops" "\<forall>s'. s = Some s' \<longrightarrow> runner_ok s'"
  shows "ledger_steps (ledger_of d) (ledger_of (snd (run_engine s ops (h, d))))"
  using assms(1,2)
proof (induction ops arbitrary: h d)
  case (Cons x ops)
  obtain h1 d1 where x: "run_engine_op s x (h, d) = (h1, d1)" by fastforce
  have "ledger_steps (ledger_of d) (ledger_of d1)" "db_ok d1"
    using evolves_refines [OF _ Cons.prems(1), of d1] run_engine_op_evolves [of x s d h] Cons.prems(2) assms(3) x
    by auto
  then show ?case
    using Cons.IH [of d1 h1] Cons.prems(2) x by (simp add: run_engine_def)
qed (simp add: run_engine_def)

text \<open>What the ledger promises therefore holds of the running engine.\<close>

lemma run_engine_keeps_entry:
  assumes "db_ok d" "list_all engine_op_ok ops" "\<forall>s'. s = Some s' \<longrightarrow> runner_ok s'" "find_job i d = Some j"
  shows "\<exists>j'. find_job i (snd (run_engine s ops (h, d))) = Some j' \<and> j_max_attempts j' = j_max_attempts j
    \<and> j_attempt j \<le> j_attempt j' \<and> (terminal (j_state j) \<longrightarrow> entry_of j' = entry_of j)"
  using ledger_steps_keep [OF run_engine_refines [OF assms(1-3)], of i "entry_of j" h] assms(4)
  by (auto simp: ledger_of_def entry_of_def)

end
