(* ===== verification/Infra_Params.thy ===== *)
theory Infra_Params
  imports RE_Prelude
begin

text \<open>
  The input of the infrastructure module: the structs of
  \<open>src/internal/module/infra/template/types.go\<close>, one record each with the fields in the order of
  the source. Go's \<open>int\<close> is \<^typ>\<open>int\<close>: the module only compares, doubles and decrements values
  that come from a document. A finite \<open>float64\<close> is a pair of numerator and denominator.
\<close>

type_synonym go_float = "int \<times> int"

abbreviation g_float :: "go_float \<Rightarrow> go_any" where
  "g_float x \<equiv> GFloat (fst x) (snd x)"

section \<open>Capabilities\<close>

record kubernetes_params =
  k8s_enabled :: bool
  k8s_provider :: string
  k8s_tier :: string
  k8s_size :: string
  k8s_multi_az :: bool
  k8s_version :: string
  k8s_node_pool_count :: int

record vm_disk =
  disk_name :: string
  disk_size_gib :: int
  disk_type :: string
  disk_iops :: int
  disk_throughput :: int
  disk_mount_path :: string
  disk_encrypted :: bool

record vm_auto_scale =
  as_enabled :: bool
  as_min_count :: int
  as_max_count :: int
  as_target_cpu :: int
  as_scale_policy :: string

record vm_params =
  vm_enabled :: bool
  vm_provider :: string
  vm_count :: int
  vm_instance_family :: string
  vm_size :: string
  vm_os_family :: string
  vm_os_image :: string
  vm_arch :: string
  vm_spot_enabled :: bool
  vm_spot_max_price :: go_float
  vm_placement_group :: string
  vm_ssh_key_name :: string
  vm_user_data :: string
  vm_boot_disk_gib :: int
  vm_boot_disk_type :: string
  vm_additional_disks :: "vm_disk list"
  vm_multi_az :: bool
  vm_auto_scaling :: vm_auto_scale

record database_params =
  db_enabled :: bool
  db_provider :: string
  db_engine :: string
  db_tier :: string
  db_storage_gib :: int
  db_storage_type :: string
  db_iops :: int
  db_backup_enabled :: bool
  db_backup_retention_days :: int
  db_point_in_time_recovery :: bool
  db_parameter_group :: string
  db_maintenance_window :: string

record object_store_params =
  os_enabled :: bool
  os_provider :: string
  os_class :: string
  os_versioning :: bool
  os_retention_days :: int
  os_bucket_count :: int

record block_volume =
  bv_name :: string
  bv_size_gib :: int
  bv_type :: string
  bv_iops :: int
  bv_throughput :: int
  bv_multi_az :: bool
  bv_encrypted :: bool
  bv_snapshot_schedule :: string

record block_store_params =
  bs_enabled :: bool
  bs_provider :: string
  bs_volumes :: "block_volume list"

record file_store_params =
  fs_enabled :: bool
  fs_provider :: string
  fs_performance_mode :: string
  fs_throughput_mode :: string
  fs_throughput_mibs :: int
  fs_size_gib :: int
  fs_protocol :: string
  fs_multi_az :: bool

record vpc_peer =
  peer_vpc_id :: string
  peer_account :: string
  peer_region :: string

record vpc_params =
  vpc_enabled :: bool
  vpc_provider :: string
  vpc_cidr :: string
  vpc_private_subnets :: int
  vpc_public_subnets :: int
  vpc_nat_gateways :: int
  vpc_flow_logs :: bool
  vpc_transit_gateway :: bool
  vpc_peering_requests :: "vpc_peer list"

record messaging_params =
  msg_enabled :: bool
  msg_provider :: string
  msg_tier :: string
  msg_queue_count :: int
  msg_topic_count :: int
  msg_fifo :: bool
  msg_encryption :: bool
  msg_dlq_enabled :: bool
  msg_dlq_max_retry :: int

record cache_params =
  cache_enabled :: bool
  cache_provider :: string
  cache_engine :: string
  cache_tier :: string
  cache_node_type :: string
  cache_version :: string
  cache_replica_count :: int
  cache_snapshot_retention_days :: int

record dns_rec =
  rec_name :: string
  rec_type :: string
  rec_ttl :: int
  rec_values :: "string list"

record dns_params =
  dns_enabled :: bool
  dns_provider :: string
  dns_zone_name :: string
  dns_private :: bool
  dns_records :: "dns_rec list"

record lb_health_check =
  hc_path :: string
  hc_port :: int
  hc_protocol :: string
  hc_interval_seconds :: int
  hc_healthy_threshold :: int
  hc_unhealthy_threshold :: int

record load_balancer_params =
  lb_enabled :: bool
  lb_provider :: string
  lb_type :: string
  lb_scheme :: string
  lb_https :: bool
  lb_waf :: bool
  lb_idle_timeout :: int
  lb_health_check :: lb_health_check

record cdn_params =
  cdn_enabled :: bool
  cdn_provider :: string
  cdn_origin_type :: string
  cdn_price_class :: string
  cdn_cache_policy_ttl :: int
  cdn_custom_domains :: "string list"
  cdn_waf :: bool

record iam_policy =
  pol_effect :: string
  pol_actions :: "string list"
  pol_resource :: string
  pol_conditions :: "(string \<times> string) list"

record identity_params =
  idn_enabled :: bool
  idn_provider :: string
  idn_type :: string
  idn_service_account_count :: int
  idn_policies :: "iam_policy list"
  idn_federation_provider :: string
  idn_federation_audience :: string

record secrets_params =
  sec_enabled :: bool
  sec_provider :: string
  sec_kms_key_type :: string
  sec_kms_rotation_days :: int
  sec_secret_count :: int
  sec_auto_rotation :: bool
  sec_rotation_interval_days :: int

record observability_params =
  obs_enabled :: bool
  obs_provider :: string
  obs_metrics_retention_days :: int
  obs_metrics_resolution :: string
  obs_custom_metric_namespaces :: "string list"
  obs_log_retention_days :: int
  obs_log_sink_type :: string
  obs_external_log_sink :: string
  obs_tracing_enabled :: bool
  obs_tracing_sample_rate :: go_float
  obs_tracing_provider :: string
  obs_dashboard_enabled :: bool

section \<open>ProvisionParams\<close>

record provision_params =
  pp_contract_version :: string
  pp_request_name :: string
  pp_tenant :: string
  pp_owner :: string
  pp_environment :: string
  pp_workload_profile :: string
  pp_catalogue_item :: string
  pp_namespace :: string
  pp_residency :: string
  pp_primary_region :: string
  pp_secondary_region :: string
  pp_availability :: string
  pp_data_classification :: string
  pp_compliance :: "string list"
  pp_workload_type :: string
  pp_workload_exposure :: string
  pp_ingress_mode :: string
  pp_egress_mode :: string
  pp_dr_required :: bool
  pp_backup_required :: bool
  pp_default_provider :: string
  pp_extra_tags :: "(string \<times> string) list"
  pp_cost_centre :: string
  pp_business_unit :: string
  pp_project :: string
  pp_ttl :: string
  pp_kubernetes :: kubernetes_params
  pp_vm :: vm_params
  pp_database :: database_params
  pp_object_store :: object_store_params
  pp_block_store :: block_store_params
  pp_file_store :: file_store_params
  pp_vpc :: vpc_params
  pp_messaging :: messaging_params
  pp_cache :: cache_params
  pp_dns :: dns_params
  pp_load_balancer :: load_balancer_params
  pp_cdn :: cdn_params
  pp_identity :: identity_params
  pp_secrets :: secrets_params
  pp_observability :: observability_params

text \<open>The interface \<open>Capability\<close> has two methods, \<open>IsEnabled\<close> and \<open>GetProvider\<close>, which every
  implementation answers with its two fields; a value of the interface is that pair.\<close>

record capability =
  is_enabled :: bool
  get_provider :: string

definition capabilities :: "provision_params \<Rightarrow> (string \<times> capability) list" where
  "capabilities p =
     [(''blockStorage'', \<lparr>is_enabled = bs_enabled (pp_block_store p), get_provider = bs_provider (pp_block_store p)\<rparr>),
      (''cache'', \<lparr>is_enabled = cache_enabled (pp_cache p), get_provider = cache_provider (pp_cache p)\<rparr>),
      (''cdn'', \<lparr>is_enabled = cdn_enabled (pp_cdn p), get_provider = cdn_provider (pp_cdn p)\<rparr>),
      (''database'', \<lparr>is_enabled = db_enabled (pp_database p), get_provider = db_provider (pp_database p)\<rparr>),
      (''dns'', \<lparr>is_enabled = dns_enabled (pp_dns p), get_provider = dns_provider (pp_dns p)\<rparr>),
      (''fileStorage'', \<lparr>is_enabled = fs_enabled (pp_file_store p), get_provider = fs_provider (pp_file_store p)\<rparr>),
      (''identity'', \<lparr>is_enabled = idn_enabled (pp_identity p), get_provider = idn_provider (pp_identity p)\<rparr>),
      (''kubernetes'', \<lparr>is_enabled = k8s_enabled (pp_kubernetes p), get_provider = k8s_provider (pp_kubernetes p)\<rparr>),
      (''loadBalancer'', \<lparr>is_enabled = lb_enabled (pp_load_balancer p), get_provider = lb_provider (pp_load_balancer p)\<rparr>),
      (''messaging'', \<lparr>is_enabled = msg_enabled (pp_messaging p), get_provider = msg_provider (pp_messaging p)\<rparr>),
      (''objectStorage'', \<lparr>is_enabled = os_enabled (pp_object_store p), get_provider = os_provider (pp_object_store p)\<rparr>),
      (''observability'', \<lparr>is_enabled = obs_enabled (pp_observability p), get_provider = obs_provider (pp_observability p)\<rparr>),
      (''secrets'', \<lparr>is_enabled = sec_enabled (pp_secrets p), get_provider = sec_provider (pp_secrets p)\<rparr>),
      (''vm'', \<lparr>is_enabled = vm_enabled (pp_vm p), get_provider = vm_provider (pp_vm p)\<rparr>),
      (''vpc'', \<lparr>is_enabled = vpc_enabled (pp_vpc p), get_provider = vpc_provider (pp_vpc p)\<rparr>)]"

definition capability_names :: "string list" where
  "capability_names =
     [''blockStorage'', ''cache'', ''cdn'', ''database'', ''dns'', ''fileStorage'', ''identity'',
      ''kubernetes'', ''loadBalancer'', ''messaging'', ''objectStorage'', ''observability'',
      ''secrets'', ''vm'', ''vpc'']"

lemma capabilities_names: "map fst (capabilities p) = capability_names"
  by (simp add: capabilities_def capability_names_def)

lemma distinct_capability_names: "distinct capability_names"
  by (simp add: capability_names_def)

lemma capabilities_dom: "map_of (capabilities p) c = None \<longleftrightarrow> c \<notin> set capability_names"
proof -
  have "fst ` set (capabilities p) = set capability_names"
    using capabilities_names [of p] by (metis list.set_map)
  then show ?thesis by (simp add: map_of_eq_None_iff)
qed

end
