(* ===== verification/Infra_Resolve.thy ===== *)
theory Infra_Resolve
  imports Infra_Params
begin

text \<open>
  The tables and defaults of \<open>src/internal/module/infra/template/resolve\<close>: \<open>region.go\<close>,
  \<open>sizing.go\<close>, \<open>versioning.go\<close> and \<open>windows.go\<close>. A lookup in a Go map literal whose missing keys
  give the empty string is \<open>table_get\<close>. \<open>make([]string, 0, count)\<close> panics for a negative
  capacity, so \<open>region_azs\<close> is partial.
\<close>

definition table_get :: "(string \<times> string) list \<Rightarrow> string \<Rightarrow> string" where
  "table_get m k = (case map_of m k of None \<Rightarrow> [] | Some v \<Rightarrow> v)"

definition region_azs :: "string \<Rightarrow> int \<Rightarrow> string list option" where
  "region_azs region count =
     (if count < 0 then None
      else Some (map (\<lambda>s. region @ s) (take (nat count) [''a'', ''b'', ''c'', ''d''])))"

section \<open>Sizing\<close>

definition vm_instance_type :: "string \<Rightarrow> string \<Rightarrow> string \<Rightarrow> string" where
  "vm_instance_type family sz arch =
     (let archPrefix = (if family = ''compute'' then ''c'' else if family = ''memory'' then ''r''
            else if family = ''storage'' then ''i'' else if family = ''gpu'' then ''p'' else ''m'');
          archSuffix = (if arch = ''arm64'' then ''g'' else []);
          r = table_get [(''small'', ''large''), (''medium'', ''xlarge''), (''large'', ''2xlarge''),
                (''xlarge'', ''4xlarge''), (''2xlarge'', ''8xlarge''), (''4xlarge'', ''16xlarge'')] sz;
          resolvedSize = (if r = [] then ''large'' else r)
      in archPrefix @ ''7'' @ archSuffix @ ''.'' @ resolvedSize)"

definition vm_ami :: "string \<Rightarrow> string \<Rightarrow> string \<Rightarrow> string \<Rightarrow> string" where
  "vm_ami osFamily img arch region =
     (if img \<noteq> [] then img
      else ''resolve://'' @ osFamily @ ''/'' @ arch @ ''/'' @ region @ ''/latest'')"

definition default_boot_disk_gib :: "string \<Rightarrow> int" where
  "default_boot_disk_gib osFamily = (if osFamily = ''windows'' then 100 else 30)"

definition disk_type_to_cloud :: "string \<Rightarrow> string" where
  "disk_type_to_cloud t = (if t = ''provisioned'' then ''io2'' else ''gp3'')"

definition db_instance_class :: "string \<Rightarrow> string \<Rightarrow> string" where
  "db_instance_class engine tier =
     (if tier = ''ha'' then ''db.r6g'' @ ''.xlarge'' else ''db.r6g'' @ ''.large'')"

definition read_replicas :: "string \<Rightarrow> int" where
  "read_replicas availability =
     (if availability = ''critical'' then 2 else if availability = ''high'' then 1 else 0)"

definition serverless_min_acu :: "string \<Rightarrow> go_float" where
  "serverless_min_acu workloadProfile =
     (if workloadProfile = ''medium'' then (2, 1) else if workloadProfile = ''large'' then (8, 1)
      else if workloadProfile = ''xlarge'' then (16, 1) else (1, 2))"

definition serverless_max_acu :: "string \<Rightarrow> go_float" where
  "serverless_max_acu workloadProfile =
     (if workloadProfile = ''medium'' then (16, 1) else if workloadProfile = ''large'' then (64, 1)
      else if workloadProfile = ''xlarge'' then (128, 1) else (4, 1))"

definition default_backup_retention :: "string \<Rightarrow> int" where
  "default_backup_retention classification =
     (if classification = ''restricted'' then 35 else if classification = ''confidential'' then 14 else 7)"

definition resolve_cache_node_type :: "string \<Rightarrow> string \<Rightarrow> string" where
  "resolve_cache_node_type engine workloadProfile =
     (let r = table_get [(''small'', ''medium''), (''medium'', ''large''), (''large'', ''xlarge''),
            (''xlarge'', ''2xlarge'')] workloadProfile;
          resolvedSize = (if r = [] then ''medium'' else r)
      in ''cache.r7g'' @ ''.'' @ resolvedSize)"

definition cache_engine_version :: "string \<Rightarrow> string \<Rightarrow> string" where
  "cache_engine_version engine requestedVersion =
     (if requestedVersion \<noteq> [] then requestedVersion
      else let v = table_get [(''redis'', ''7.2''), (''valkey'', ''7.2''), (''memcached'', ''1.6'')] engine
           in if v = [] then ''latest'' else v)"

definition cache_shard_count :: "string \<Rightarrow> string \<Rightarrow> int" where
  "cache_shard_count engine workloadProfile =
     (if workloadProfile = ''medium'' then 3 else if workloadProfile = ''large'' then 6
      else if workloadProfile = ''xlarge'' then 9 else 2)"

text \<open>The pool of the table, with its maximum doubled for the advanced tier. The assertion of
  \<open>maxNodes\<close> to an integer cannot fail: every row holds one.\<close>

definition node_pool :: "string \<Rightarrow> int \<Rightarrow> int \<Rightarrow> go_map" where
  "node_pool t lo hi = [(''instanceType'', GStr t), (''minNodes'', GInt lo), (''maxNodes'', GInt hi)]"

definition kubernetes_node_pool :: "string \<Rightarrow> string \<Rightarrow> go_map" where
  "kubernetes_node_pool sz tier =
     (let pool = (case map_of [(''small'', node_pool ''m7.large'' 2 5), (''medium'', node_pool ''m7.xlarge'' 3 10),
              (''large'', node_pool ''m7.2xlarge'' 3 20), (''xlarge'', node_pool ''m7.4xlarge'' 5 50)] sz of
              None \<Rightarrow> node_pool ''m7.large'' 2 5 | Some p \<Rightarrow> p)
      in if tier = ''advanced''
         then case go_get pool ''maxNodes'' of GInt n \<Rightarrow> alist_put ''maxNodes'' (GInt (n * 2)) pool | _ \<Rightarrow> pool
         else pool)"

definition kubernetes_version :: "string \<Rightarrow> string \<Rightarrow> string" where
  "kubernetes_version tier requested = (if requested \<noteq> [] then requested else ''1.30'')"

section \<open>Defaults\<close>

fun coalesce :: "string list \<Rightarrow> string" where
  "coalesce [] = []"
| "coalesce (v # vs) = (if v \<noteq> [] then v else coalesce vs)"

fun coalesce_int :: "int list \<Rightarrow> int" where
  "coalesce_int [] = 0"
| "coalesce_int (v # vs) = (if v \<noteq> 0 then v else coalesce_int vs)"

fun coalesce_float :: "go_float list \<Rightarrow> go_float" where
  "coalesce_float [] = (0, 1)"
| "coalesce_float (v # vs) = (if fst v \<noteq> 0 then v else coalesce_float vs)"

definition safe_name :: "string \<Rightarrow> string" where
  "safe_name name = name"

fun ssl_policy :: "string list \<Rightarrow> string" where
  "ssl_policy [] = ''ELBSecurityPolicy-TLS13-1-0-2021-06''"
| "ssl_policy (c # cs) =
     (if c = ''pci-dss'' \<or> c = ''hipaa'' then ''ELBSecurityPolicy-TLS13-1-2-2021-06'' else ssl_policy cs)"

fun waf_rule_set :: "string list \<Rightarrow> string" where
  "waf_rule_set [] = ''AWSManagedRulesCommonRuleSet''"
| "waf_rule_set (c # cs) =
     (if c = ''pci-dss'' then ''AWSManagedRulesPCIDSSRuleSet'' else waf_rule_set cs)"

definition permission_boundary :: "string \<Rightarrow> string \<Rightarrow> string" where
  "permission_boundary tenant environment =
     ''arn:aws:iam::policy/'' @ tenant @ ''-'' @ environment @ ''-boundary''"

definition alarm_notification_target :: "string \<Rightarrow> string \<Rightarrow> string" where
  "alarm_notification_target tenant environment =
     ''arn:aws:sns:*:*:'' @ tenant @ ''-'' @ environment @ ''-alarms''"

definition dashboard_template :: "string \<Rightarrow> string" where
  "dashboard_template workloadType = workloadType @ ''-standard''"

definition db_replication_type :: "string \<Rightarrow> string" where
  "db_replication_type engine =
     (if engine = ''aurora-postgres'' \<or> engine = ''aurora-mysql'' then ''aurora-global-database''
      else ''cross-region-read-replica'')"

section \<open>Windows\<close>

definition resolve_maintenance_window :: "string \<Rightarrow> string \<Rightarrow> string" where
  "resolve_maintenance_window region environment =
     (if environment = ''production'' then ''sun:03:00-sun:04:00'' else ''sat:03:00-sat:04:00'')"

definition backup_window :: "string \<Rightarrow> string" where
  "backup_window region = ''02:00-03:00''"

definition rpo :: "string \<Rightarrow> string" where
  "rpo availability =
     (if availability = ''critical'' then ''1h'' else if availability = ''high'' then ''4h'' else ''24h'')"

definition rto :: "string \<Rightarrow> string" where
  "rto availability =
     (if availability = ''critical'' then ''1h'' else if availability = ''high'' then ''4h'' else ''24h'')"

section \<open>Lemmas\<close>

text \<open>A default is the first value that is not the zero value.\<close>

lemma coalesce_default: "d \<noteq> [] \<Longrightarrow> coalesce [v, d] = (if v = [] then d else v) \<and> coalesce [v, d] \<noteq> []"
  by simp

lemma coalesce_in: "coalesce vs \<noteq> [] \<Longrightarrow> coalesce vs \<in> set vs"
  by (induction vs) auto

lemma region_azs_defined: "(\<exists>zs. region_azs r n = Some zs) \<longleftrightarrow> 0 \<le> n"
  by (simp add: region_azs_def)

lemma region_azs_length: "region_azs r n = Some zs \<Longrightarrow> length zs = min 4 (nat n)"
  by (auto simp: region_azs_def split: if_splits)

text \<open>The pool always has room to grow, for every size and tier.\<close>

lemma kubernetes_node_pool_bounds:
  "\<exists>lo hi. go_get (kubernetes_node_pool sz tier) ''minNodes'' = GInt lo
     \<and> go_get (kubernetes_node_pool sz tier) ''maxNodes'' = GInt hi \<and> 0 < lo \<and> lo < hi"
  by (auto simp: kubernetes_node_pool_def node_pool_def go_get_def Let_def)

end
