(* ===== verification/Infra_Fragments.thy ===== *)
theory Infra_Fragments
  imports Infra_Resolve
begin

text \<open>
  The seventeen fragments of \<open>src/internal/module/infra/template/fragments\<close>: for each its
  validation and the part of the specification it renders. Applicability is the capability's
  switch. No fragment's \<open>Render\<close> returns an error; the network fragment panics for a negative
  number of subnets, so a rendering has an \<open>outcome\<close>.
\<close>

datatype 'a outcome = Ret 'a | Fail string | Panics string

section \<open>net.ParseCIDR\<close>

definition valid_octet :: "string \<Rightarrow> bool" where
  "valid_octet w \<longleftrightarrow> w \<noteq> [] \<and> list_all is_digit w \<and> (length w = 1 \<or> hd w \<noteq> CHR ''0'') \<and> length w \<le> 3
     \<and> digits_val w \<le> 255"

definition valid_ip4 :: "string \<Rightarrow> bool" where
  "valid_ip4 s \<longleftrightarrow> (let ws = split_on (CHR ''.'') s in length ws = 4 \<and> list_all valid_octet ws)"

definition is_hex :: "char \<Rightarrow> bool" where
  "is_hex c \<longleftrightarrow> is_digit c \<or> c \<in> set ''abcdefABCDEF''"

text \<open>The loop of \<open>netip.ParseAddr\<close> over the groups of an IPv6 address: \<open>k\<close> groups are left, and
  the flag tells whether \<open>::\<close> has been seen. The result is the number of groups read.\<close>

fun ip6_groups :: "nat \<Rightarrow> bool \<Rightarrow> string \<Rightarrow> (nat \<times> bool) option" where
  "ip6_groups 0 ell s = (if s = [] then Some (8, ell) else None)"
| "ip6_groups (Suc k) ell s =
     (let g = 7 - k; h = takeWhile is_hex s; r = dropWhile is_hex s in
      if h = [] \<or> 4 < length h then None
      else if r \<noteq> [] \<and> hd r = CHR ''.'' then
        (if (\<not> ell \<and> g \<noteq> 6) \<or> 6 < g \<or> \<not> valid_ip4 s then None else Some (g + 2, ell))
      else case r of
        [] \<Rightarrow> Some (g + 1, ell)
      | c # r1 \<Rightarrow>
          if c \<noteq> CHR '':'' \<or> r1 = [] then None
          else if hd r1 = CHR '':'' then
            (if ell then None
             else if tl r1 = [] then Some (g + 1, True) else ip6_groups k True (tl r1))
          else ip6_groups k ell r1)"

definition valid_ip6 :: "string \<Rightarrow> bool" where
  "valid_ip6 s \<longleftrightarrow>
     (if s = ''::'' then True
      else case (if has_prefix s ''::'' then ip6_groups 8 True (drop 2 s) else ip6_groups 8 False s) of
        None \<Rightarrow> False
      | Some (g, ell) \<Rightarrow> if g < 8 then ell else \<not> ell)"

definition valid_cidr :: "string \<Rightarrow> bool" where
  "valid_cidr s \<longleftrightarrow>
     (let a = takeWhile (\<lambda>c. c \<noteq> CHR ''/'') s; m = dropWhile (\<lambda>c. c \<noteq> CHR ''/'') s;
          sep = dropWhile (\<lambda>c. c \<noteq> CHR ''.'' \<and> c \<noteq> CHR '':'') a
      in m \<noteq> [] \<and> tl m \<noteq> [] \<and> list_all is_digit (tl m)
         \<and> (if sep = [] then False
            else if hd sep = CHR ''.'' then valid_ip4 a \<and> digits_val (tl m) \<le> 32
            else valid_ip6 a \<and> digits_val (tl m) \<le> 128))"

section \<open>Helpers\<close>

text \<open>\<open>if b { spec[k] = v }\<close>.\<close>

definition put_if :: "bool \<Rightarrow> string \<Rightarrow> go_any \<Rightarrow> go_map \<Rightarrow> go_map" where
  "put_if b k v m = (if b then alist_put k v m else m)"

lemma go_get_put_if [simp]: "go_get (put_if b k v m) k' = (if b \<and> k' = k then v else go_get m k')"
  by (simp add: put_if_def)

lemma map_of_put_if [simp]: "map_of (put_if b k v m) = (if b then (map_of m)(k \<mapsto> v) else map_of m)"
  by (simp add: put_if_def)

definition has_compliance :: "string list \<Rightarrow> string \<Rightarrow> bool" where
  "has_compliance cs target \<longleftrightarrow> list_ex (\<lambda>c. c = target) cs"

definition max_int :: "int \<Rightarrow> int \<Rightarrow> int" where
  "max_int a b = (if a > b then a else b)"

definition is_aurora_engine :: "string \<Rightarrow> bool" where
  "is_aurora_engine engine \<longleftrightarrow> engine = ''aurora-postgres'' \<or> engine = ''aurora-mysql''"

text \<open>The first index at which a check of the elements of a slice fails.\<close>

fun first_bad :: "nat \<Rightarrow> (nat \<Rightarrow> 'a \<Rightarrow> string option) \<Rightarrow> 'a list \<Rightarrow> string option" where
  "first_bad i f [] = None"
| "first_bad i f (x # xs) = (case f i x of Some e \<Rightarrow> Some e | None \<Rightarrow> first_bad (Suc i) f xs)"

lemma first_bad_None: "first_bad i f xs = None \<longleftrightarrow> (\<forall>k < length xs. f (i + k) (xs ! k) = None)"
proof (induction i f xs rule: first_bad.induct)
  case (2 i f x xs)
  have "(\<forall>k < length (x # xs). f (i + k) ((x # xs) ! k) = None)
      \<longleftrightarrow> f i x = None \<and> (\<forall>k < length xs. f (Suc i + k) (xs ! k) = None)"
    by (auto simp: All_less_Suc2)
  then show ?case using 2 by (auto split: option.splits)
qed simp

section \<open>Always applicable: tags and compliance\<close>

definition put_nonempty :: "string \<Rightarrow> string \<Rightarrow> (string \<times> string) list \<Rightarrow> (string \<times> string) list" where
  "put_nonempty k v m = (if v \<noteq> [] then alist_put k v m else m)"

definition tags_render :: "provision_params \<Rightarrow> go_map" where
  "tags_render p =
     (let t0 = [(''cost-centre'', pp_cost_centre p), (''service'', pp_request_name p),
                (''environment'', pp_environment p), (''owner'', pp_owner p), (''managed-by'', ''release-engine''),
                (''tenant'', pp_tenant p), (''catalogue-item'', pp_catalogue_item p)];
          t1 = put_nonempty ''business-unit'' (pp_business_unit p) t0;
          t2 = put_nonempty ''project'' (pp_project p) t1;
          t3 = put_nonempty ''data-classification'' (pp_data_classification p) t2;
          t4 = put_nonempty ''ttl'' (pp_ttl p) t3;
          t5 = fold (\<lambda>(k, v) t. alist_put k v t) (pp_extra_tags p) t4
      in [(''tags'', GStrMap t5)])"

definition compliance_render :: "provision_params \<Rightarrow> go_map" where
  "compliance_render p =
     (let c0 = [(''dataResidency'', GStr (pp_residency p)),
                (''dataClassification'', GStr (pp_data_classification p)),
                (''encryptionAtRest'', GBool True), (''encryptionInTransit'', GBool True),
                (''auditLogging'', GBool True), (''disasterRecovery'', GBool (pp_dr_required p)),
                (''backupRequired'', GBool (pp_backup_required p)),
                (''recoveryPointObjective'', GMap [(''target'', GStr (pp_availability p))])];
          c1 = put_if (pp_residency p = ''eu'') ''gdprCompliant'' (GBool True) c0;
          c2 = put_if (pp_availability p = ''critical'') ''changeManagement'' (GStr ''full'') c1;
          c3 = put_if (pp_availability p = ''critical'') ''backupVerification'' (GBool True) c2;
          c4 = put_if (pp_compliance p \<noteq> []) ''frameworks'' (GStrList (pp_compliance p)) c3
      in [(''compliance'', GMap c4)])"

section \<open>Kubernetes\<close>

definition kubernetes_validate :: "provision_params \<Rightarrow> string option" where
  "kubernetes_validate p =
     (let k = pp_kubernetes p in
      if \<not> k8s_enabled k then None
      else if k8s_tier k = [] then Some ''kubernetes.tier required when kubernetes.enabled is true''
      else if k8s_size k = [] then Some ''kubernetes.size required when kubernetes.enabled is true''
      else if pp_availability p = ''critical'' \<and> \<not> k8s_multi_az k
      then Some ''kubernetes.multi_az must be true when availability is critical''
      else None)"

definition kubernetes_render :: "provision_params \<Rightarrow> go_map" where
  "kubernetes_render p =
     (let k = pp_kubernetes p;
          s0 = [(''enabled'', GBool True), (''tier'', GStr (k8s_tier k)),
                (''version'', GStr (kubernetes_version (k8s_tier k) (k8s_version k))),
                (''multiAZ'', GBool (k8s_multi_az k)),
                (''nodePool'', GMap (kubernetes_node_pool (k8s_size k) (k8s_tier k))),
                (''region'', GStr (pp_primary_region p))];
          s1 = put_if (k8s_node_pool_count k > 1) ''additionalNodePools'' (GInt (k8s_node_pool_count k - 1)) s0;
          s2 = put_if (k8s_tier k = ''advanced'') ''addons''
                 (GMap [(''clusterAutoscaler'', GBool True), (''metricsServer'', GBool True),
                        (''certManager'', GBool True)]) s1
      in [(''kubernetes'', GMap s2)])"

section \<open>Virtual machines\<close>

definition disk_check :: "nat \<Rightarrow> vm_disk \<Rightarrow> string option" where
  "disk_check i d = (if disk_type d = ''provisioned'' \<and> disk_iops d = 0
     then Some (''additional_disks['' @ nat_str i @ ''].iops required for provisioned type'') else None)"

definition vm_validate :: "provision_params \<Rightarrow> string option" where
  "vm_validate p =
     (let v = pp_vm p; a = vm_auto_scaling v; crit = (pp_availability p = ''critical'') in
      if \<not> vm_enabled v then None
      else if vm_count v = 0 then Some ''vm.count required when vm.enabled is true''
      else if vm_instance_family v = [] then Some ''vm.instance_family required when vm.enabled is true''
      else if vm_size v = [] then Some ''vm.size required when vm.enabled is true''
      else if vm_os_family v = [] then Some ''vm.os_family required when vm.enabled is true''
      else if vm_spot_enabled v \<and> crit then Some ''spot instances not permitted for critical availability''
      else if as_enabled a \<and> as_max_count a < as_min_count a
      then Some ''vm auto_scaling max_count must be >= min_count''
      else if as_enabled a \<and> vm_count v > 1 then Some ''vm.count must be 1 when auto_scaling is enabled''
      else if crit \<and> \<not> vm_multi_az v \<and> \<not> as_enabled a
      then Some ''critical availability requires vm.multi_az or vm.auto_scaling''
      else first_bad 0 disk_check (vm_additional_disks v))"

definition vm_disk_render :: "vm_disk \<Rightarrow> go_map" where
  "vm_disk_render d =
     (let m0 = [(''name'', GStr (disk_name d)), (''sizeGiB'', GInt (disk_size_gib d)),
                (''type'', GStr (disk_type_to_cloud (disk_type d))), (''mountPath'', GStr (disk_mount_path d)),
                (''encrypted'', GBool True)];
          m1 = put_if (disk_type d = ''provisioned'') ''iops'' (GInt (disk_iops d)) m0
      in put_if (disk_type d = ''provisioned'' \<and> disk_throughput d > 0) ''throughput'' (GInt (disk_throughput d)) m1)"

definition vm_render :: "provision_params \<Rightarrow> go_map" where
  "vm_render p =
     (let v = pp_vm p; a = vm_auto_scaling v;
          s0 = [(''enabled'', GBool True), (''count'', GInt (vm_count v)),
                (''instanceType'', GStr (vm_instance_type (vm_instance_family v) (vm_size v) (vm_arch v))),
                (''ami'', GStr (vm_ami (vm_os_family v) (vm_os_image v) (vm_arch v) (pp_primary_region p))),
                (''arch'', GStr (coalesce [vm_arch v, ''amd64''])), (''region'', GStr (pp_primary_region p)),
                (''multiAZ'', GBool (vm_multi_az v)), (''subnetTier'', GStr ''private'')];
          bootGiB = (if vm_boot_disk_gib v = 0 then default_boot_disk_gib (vm_os_family v) else vm_boot_disk_gib v);
          bootType = (if vm_boot_disk_type v = [] then ''ssd'' else vm_boot_disk_type v);
          s1 = alist_put ''bootDisk'' (GMap [(''sizeGiB'', GInt bootGiB),
                 (''type'', GStr (disk_type_to_cloud bootType)), (''encrypted'', GBool True)]) s0;
          s2 = put_if (vm_additional_disks v \<noteq> []) ''additionalDisks''
                 (GMapList (map vm_disk_render (vm_additional_disks v))) s1;
          s3 = put_if (vm_ssh_key_name v \<noteq> []) ''sshKeyName'' (GStr (vm_ssh_key_name v)) s2;
          s4 = put_if (vm_user_data v \<noteq> []) ''userData'' (GStr (vm_user_data v)) s3;
          s5 = put_if (vm_placement_group v \<noteq> []) ''placementGroup''
                 (GMap [(''strategy'', GStr (vm_placement_group v))]) s4;
          s6 = put_if (vm_spot_enabled v) ''spot'' (GMap [(''enabled'', GBool True),
                 (''maxPrice'', g_float (vm_spot_max_price v)), (''strategy'', GStr ''capacity-optimized'')]) s5;
          s7 = put_if (as_enabled a) ''autoScaling'' (GMap [(''enabled'', GBool True),
                 (''minCount'', GInt (as_min_count a)), (''maxCount'', GInt (as_max_count a)),
                 (''scalePolicy'', GStr (coalesce [as_scale_policy a, ''cpu''])),
                 (''targetCPU'', GInt (coalesce_int [as_target_cpu a, 70]))]) s6;
          s8 = put_if (as_enabled a) ''count'' (GInt (as_min_count a)) s7;
          s9 = alist_put ''hardening'' (GMap [(''imdsV2Only'', GBool True), (''ssmAgent'', GBool True),
                 (''rootVolumeEncrypted'', GBool True)]) s8
      in [(''vm'', GMap s9)])"

section \<open>Database\<close>

definition database_validate :: "provision_params \<Rightarrow> string option" where
  "database_validate p =
     (let d = pp_database p in
      if \<not> db_enabled d then None
      else if db_engine d = [] then Some ''database.engine required when database.enabled is true''
      else if db_tier d = [] then Some ''database.tier required when database.enabled is true''
      else if db_storage_gib d = 0 then Some ''database.storage_gib required when database.enabled is true''
      else if db_tier d = ''serverless'' \<and> \<not> is_aurora_engine (db_engine d)
      then Some ''serverless tier only supported for aurora engines''
      else if db_storage_type d = ''provisioned'' \<and> db_iops d = 0
      then Some ''database.iops required when storage_type is provisioned''
      else if pp_data_classification p = ''restricted'' \<and> \<not> db_backup_enabled d
      then Some ''database.backup_enabled must be true for restricted data classification''
      else None)"

definition dr_applies :: "provision_params \<Rightarrow> bool" where
  "dr_applies p \<longleftrightarrow> pp_dr_required p \<and> pp_secondary_region p \<noteq> []"

definition database_tier_render :: "provision_params \<Rightarrow> go_map \<Rightarrow> go_map" where
  "database_tier_render p s =
     (let d = pp_database p in
      if db_tier d = ''standard'' then
        alist_put ''replicas'' (GInt 0) (alist_put ''multiAZ'' (GBool False)
          (alist_put ''instanceClass'' (GStr (db_instance_class (db_engine d) ''standard'')) s))
      else if db_tier d = ''highly-available'' then
        alist_put ''replicas'' (GInt (read_replicas (pp_availability p))) (alist_put ''multiAZ'' (GBool True)
          (alist_put ''instanceClass'' (GStr (db_instance_class (db_engine d) ''ha'')) s))
      else if db_tier d = ''serverless'' then
        alist_put ''maxCapacity'' (g_float (serverless_max_acu (pp_workload_profile p)))
          (alist_put ''minCapacity'' (g_float (serverless_min_acu (pp_workload_profile p))) s)
      else s)"

definition database_render :: "provision_params \<Rightarrow> go_map" where
  "database_render p =
     (let d = pp_database p;
          s0 = [(''enabled'', GBool True), (''engine'', GStr (db_engine d)), (''tier'', GStr (db_tier d)),
                (''storageGiB'', GInt (db_storage_gib d)), (''region'', GStr (pp_primary_region p)),
                (''encrypted'', GBool True)];
          s1 = alist_put ''storageType'' (GStr (disk_type_to_cloud (coalesce [db_storage_type d, ''ssd'']))) s0;
          s2 = put_if (db_storage_type d = ''provisioned'') ''iops'' (GInt (db_iops d)) s1;
          s3 = database_tier_render p s2;
          retention = (if db_backup_retention_days d = 0 then default_backup_retention (pp_data_classification p)
            else db_backup_retention_days d);
          s4 = put_if (db_backup_enabled d) ''backup'' (GMap [(''enabled'', GBool True),
                 (''retentionDays'', GInt retention), (''window'', GStr (backup_window (pp_primary_region p))),
                 (''pointInTimeRecovery'', GBool (db_point_in_time_recovery d
                    \<or> pp_data_classification p = ''restricted''))]) s3;
          mw = (if db_maintenance_window d = []
                then resolve_maintenance_window (pp_primary_region p) (pp_environment p)
                else db_maintenance_window d);
          s5 = alist_put ''maintenanceWindow'' (GStr mw) s4;
          s6 = put_if (db_parameter_group d \<noteq> []) ''parameterGroup'' (GStr (db_parameter_group d)) s5;
          s7 = put_if (dr_applies p) ''disasterRecovery'' (GMap [(''enabled'', GBool True),
                 (''secondaryRegion'', GStr (pp_secondary_region p)),
                 (''replicationType'', GStr (db_replication_type (db_engine d)))]) s6
      in [(''database'', GMap s7)])"

section \<open>Cache\<close>

definition cache_validate :: "provision_params \<Rightarrow> string option" where
  "cache_validate p =
     (let c = pp_cache p in
      if \<not> cache_enabled c then None
      else if cache_engine c = [] then Some ''cache.engine required when cache.enabled is true''
      else if cache_tier c = [] then Some ''cache.tier required when cache.enabled is true''
      else if cache_tier c = ''clustered'' \<and> cache_replica_count c < 1
      then Some ''cache.replica_count must be >= 1 for clustered tier''
      else if cache_engine c = ''memcached'' \<and> cache_tier c = ''clustered''
      then Some ''memcached does not support clustered tier''
      else if pp_availability p = ''critical'' \<and> cache_replica_count c < 2
      then Some ''cache.replica_count must be >= 2 for critical availability''
      else None)"

definition cache_render :: "provision_params \<Rightarrow> go_map" where
  "cache_render p =
     (let c = pp_cache p;
          nodeType = (if cache_node_type c = [] then resolve_cache_node_type (cache_engine c) (pp_workload_profile p)
            else cache_node_type c);
          s0 = [(''enabled'', GBool True), (''engine'', GStr (cache_engine c)), (''tier'', GStr (cache_tier c)),
                (''nodeType'', GStr nodeType),
                (''version'', GStr (cache_engine_version (cache_engine c) (cache_version c))),
                (''replicaCount'', GInt (cache_replica_count c)), (''region'', GStr (pp_primary_region p)),
                (''encrypted'', GBool True), (''transitEncryption'', GBool True), (''authEnabled'', GBool True)];
          s1 = put_if (cache_tier c = ''clustered'') ''clusterMode'' (GMap [(''enabled'', GBool True),
                 (''shardCount'', GInt (cache_shard_count (cache_engine c) (pp_workload_profile p)))]) s0;
          s2 = put_if (cache_snapshot_retention_days c > 0) ''snapshot'' (GMap [(''enabled'', GBool True),
                 (''retentionDays'', GInt (cache_snapshot_retention_days c)),
                 (''window'', GStr (backup_window (pp_primary_region p)))]) s1;
          s3 = alist_put ''maintenanceWindow''
                 (GStr (resolve_maintenance_window (pp_primary_region p) (pp_environment p))) s2
      in [(''cache'', GMap s3)])"

section \<open>Object, block and file storage\<close>

definition object_storage_validate :: "provision_params \<Rightarrow> string option" where
  "object_storage_validate p =
     (let s = pp_object_store p in
      if \<not> os_enabled s then None
      else if os_class s = [] then Some ''object_store.class required when object_store.enabled is true''
      else if pp_data_classification p = ''restricted'' \<and> \<not> os_versioning s
      then Some ''object_store.versioning must be true for restricted data classification''
      else None)"

definition replication_render :: "provision_params \<Rightarrow> go_map \<Rightarrow> go_map" where
  "replication_render p = put_if (dr_applies p) ''replication'' (GMap [(''enabled'', GBool True),
     (''destinationRegion'', GStr (pp_secondary_region p))])"

definition object_storage_render :: "provision_params \<Rightarrow> go_map" where
  "object_storage_render p =
     (let s = pp_object_store p;
          bucketCount = (if os_bucket_count s = 0 then 1 else os_bucket_count s);
          ia = [(''transition'', GStr ''STANDARD_IA''), (''days'', GInt 30)];
          gl = [(''transition'', GStr ''GLACIER''), (''days'', GInt 90)];
          s0 = [(''enabled'', GBool True), (''class'', GStr (os_class s)), (''versioning'', GBool (os_versioning s)),
                (''region'', GStr (pp_primary_region p)), (''encrypted'', GBool True),
                (''blockPublicAccess'', GBool True), (''bucketCount'', GInt bucketCount)];
          s1 = put_if (os_class s = ''infrequent'') ''lifecycleRules'' (GMapList [ia]) s0;
          s2 = put_if (os_class s = ''archive'') ''lifecycleRules'' (GMapList [ia, gl]) s1;
          s3 = put_if (os_retention_days s > 0) ''retention''
                 (GMap [(''mode'', GStr ''GOVERNANCE''), (''days'', GInt (os_retention_days s))]) s2;
          s4 = replication_render p s3;
          s5 = put_if (has_compliance (pp_compliance p) ''gdpr'') ''objectLock'' (GMap [(''enabled'', GBool True),
                 (''retentionMode'', GStr ''GOVERNANCE''),
                 (''retentionDays'', GInt (max_int (os_retention_days s) 90))]) s4
      in [(''objectStorage'', GMap s5)])"

definition volume_check :: "nat \<Rightarrow> block_volume \<Rightarrow> string option" where
  "volume_check i v =
     (if bv_type v = ''provisioned'' \<and> bv_iops v = 0
      then Some (''block_store.volumes['' @ nat_str i @ ''].iops required for provisioned type'')
      else if bv_size_gib v = 0 then Some (''block_store.volumes['' @ nat_str i @ ''].size_gib is required'')
      else None)"

definition block_storage_validate :: "provision_params \<Rightarrow> string option" where
  "block_storage_validate p =
     (let b = pp_block_store p in
      if \<not> bs_enabled b then None
      else if bs_volumes b = [] then Some ''block_store.volumes required when block_store.enabled is true''
      else first_bad 0 volume_check (bs_volumes b))"

definition volume_render :: "provision_params \<Rightarrow> block_volume \<Rightarrow> go_map" where
  "volume_render p v =
     (let m0 = [(''name'', GStr (bv_name v)), (''sizeGiB'', GInt (bv_size_gib v)),
                (''type'', GStr (disk_type_to_cloud (bv_type v))), (''multiAZ'', GBool (bv_multi_az v)),
                (''encrypted'', GBool True), (''region'', GStr (pp_primary_region p))];
          m1 = put_if (bv_type v = ''provisioned'') ''iops'' (GInt (bv_iops v)) m0;
          m2 = put_if (bv_type v = ''provisioned'' \<and> bv_throughput v > 0) ''throughput'' (GInt (bv_throughput v)) m1
      in put_if (bv_snapshot_schedule v \<noteq> []) ''snapshotSchedule'' (GStr (bv_snapshot_schedule v)) m2)"

definition block_storage_render :: "provision_params \<Rightarrow> go_map" where
  "block_storage_render p =
     [(''blockStorage'', GMap [(''enabled'', GBool True),
        (''volumes'', GMapList (map (volume_render p) (bs_volumes (pp_block_store p))))])]"

definition file_storage_validate :: "provision_params \<Rightarrow> string option" where
  "file_storage_validate p =
     (let f = pp_file_store p in
      if \<not> fs_enabled f then None
      else if fs_throughput_mode f = ''provisioned'' \<and> fs_throughput_mibs f = 0
      then Some ''file_store.throughput_mibs required when throughput_mode is provisioned''
      else if pp_availability p = ''critical'' \<and> \<not> fs_multi_az f
      then Some ''file_store.multi_az must be true when availability is critical''
      else None)"

definition file_storage_render :: "provision_params \<Rightarrow> go_map" where
  "file_storage_render p =
     (let f = pp_file_store p;
          s0 = [(''enabled'', GBool True),
                (''performanceMode'', GStr (coalesce [fs_performance_mode f, ''general-purpose''])),
                (''throughputMode'', GStr (coalesce [fs_throughput_mode f, ''bursting''])),
                (''protocol'', GStr (coalesce [fs_protocol f, ''nfs''])), (''multiAZ'', GBool (fs_multi_az f)),
                (''encrypted'', GBool True), (''region'', GStr (pp_primary_region p))];
          s1 = put_if (fs_size_gib f > 0) ''sizeGiB'' (GInt (fs_size_gib f)) s0;
          s2 = put_if (fs_throughput_mode f = ''provisioned'') ''provisionedThroughputMiBs''
                 (GInt (fs_throughput_mibs f)) s1;
          s3 = put_if (pp_backup_required p) ''backup'' (GMap [(''enabled'', GBool True),
                 (''window'', GStr (backup_window (pp_primary_region p)))]) s2;
          s4 = replication_render p s3
      in [(''fileStorage'', GMap s4)])"

section \<open>Network, load balancer, names, content delivery\<close>

definition vpc_validate :: "provision_params \<Rightarrow> string option" where
  "vpc_validate p =
     (let v = pp_vpc p in
      if \<not> vpc_enabled v then None
      else if vpc_cidr v = [] then Some ''vpc.cidr required when vpc.enabled is true''
      else if \<not> valid_cidr (vpc_cidr v)
      then Some (''vpc.cidr must be valid: invalid CIDR address: '' @ vpc_cidr v)
      else if vpc_private_subnets v = 0 then Some ''vpc.private_subnets must be >= 1''
      else if vpc_public_subnets v > 0 \<and> vpc_nat_gateways v = 0
      then Some ''vpc.nat_gateways must be >= 1 when public subnets exist''
      else None)"

definition peer_render :: "vpc_peer \<Rightarrow> go_map" where
  "peer_render q = [(''peerVpcId'', GStr (peer_vpc_id q)), (''peerAccount'', GStr (peer_account q)),
     (''peerRegion'', GStr (peer_region q))]"

definition vpc_render :: "provision_params \<Rightarrow> go_map outcome" where
  "vpc_render p =
     (let v = pp_vpc p in
      case region_azs (pp_primary_region p) (coalesce_int [vpc_private_subnets v, 3]) of
        None \<Rightarrow> Panics ''makeslice: cap out of range''
      | Some zones \<Rightarrow>
          let s0 = [(''enabled'', GBool True), (''cidr'', GStr (vpc_cidr v)),
                (''region'', GStr (pp_primary_region p)), (''availabilityZones'', GStrList zones),
                (''privateSubnets'', GInt (vpc_private_subnets v)),
                (''publicSubnets'', GInt (vpc_public_subnets v)), (''natGateways'', GInt (vpc_nat_gateways v)),
                (''flowLogs'', GBool (vpc_flow_logs v \<or> pp_availability p = ''critical''))];
              s1 = put_if (vpc_transit_gateway v) ''transitGateway'' (GMap [(''enabled'', GBool True)]) s0;
              s2 = put_if (vpc_peering_requests v \<noteq> []) ''peering''
                     (GMapList (map peer_render (vpc_peering_requests v))) s1
          in Ret [(''vpc'', GMap s2)])"

definition load_balancer_validate :: "provision_params \<Rightarrow> string option" where
  "load_balancer_validate p =
     (let l = pp_load_balancer p in
      if \<not> lb_enabled l then None
      else if lb_type l = [] then Some ''load_balancer.type required when load_balancer.enabled is true''
      else if lb_scheme l = [] then Some ''load_balancer.scheme required when load_balancer.enabled is true''
      else if lb_scheme l = ''internet-facing'' \<and>
        (pp_ingress_mode p = ''disabled'' \<or> pp_ingress_mode p = ''internal'')
      then Some ''internet-facing load balancer requires ingress_mode public''
      else None)"

definition waf_render :: "provision_params \<Rightarrow> bool \<Rightarrow> go_map \<Rightarrow> go_map" where
  "waf_render p b = put_if b ''waf'' (GMap [(''enabled'', GBool True),
     (''ruleSet'', GStr (waf_rule_set (pp_compliance p)))])"

definition load_balancer_render :: "provision_params \<Rightarrow> go_map" where
  "load_balancer_render p =
     (let l = pp_load_balancer p; h = lb_health_check l;
          s0 = [(''enabled'', GBool True), (''type'', GStr (lb_type l)), (''scheme'', GStr (lb_scheme l)),
                (''region'', GStr (pp_primary_region p)), (''crossZone'', GBool True)];
          s1 = put_if (lb_https l) ''listeners'' (GMapList
                 [[(''port'', GInt 443), (''protocol'', GStr ''HTTPS''),
                   (''sslPolicy'', GStr (ssl_policy (pp_compliance p)))],
                  [(''port'', GInt 80), (''protocol'', GStr ''HTTP''), (''redirectTo'', GInt 443)]]) s0;
          s2 = waf_render p (lb_waf l) s1;
          s3 = put_if (lb_idle_timeout l > 0) ''idleTimeout'' (GInt (lb_idle_timeout l)) s2;
          s4 = put_if (hc_path h \<noteq> [] \<or> hc_port h > 0) ''healthCheck''
                 (GMap [(''protocol'', GStr (coalesce [hc_protocol h, ''HTTP''])),
                   (''path'', GStr (coalesce [hc_path h, ''/health''])),
                   (''port'', GInt (coalesce_int [hc_port h, 80])),
                   (''intervalSeconds'', GInt (coalesce_int [hc_interval_seconds h, 30])),
                   (''healthyThreshold'', GInt (coalesce_int [hc_healthy_threshold h, 3])),
                   (''unhealthyThreshold'', GInt (coalesce_int [hc_unhealthy_threshold h, 3]))]) s3;
          s5 = alist_put ''accessLogs'' (GMap [(''enabled'', GBool True)]) s4
      in [(''loadBalancer'', GMap s5)])"

definition record_check :: "nat \<Rightarrow> dns_rec \<Rightarrow> string option" where
  "record_check i r = (if rec_values r = []
     then Some (''dns.records['' @ nat_str i @ ''].values requires at least one value'') else None)"

definition dns_validate :: "provision_params \<Rightarrow> string option" where
  "dns_validate p =
     (let d = pp_dns p in
      if \<not> dns_enabled d then None
      else if dns_zone_name d = [] then Some ''dns.zone_name required when dns.enabled is true''
      else first_bad 0 record_check (dns_records d))"

definition record_render :: "dns_rec \<Rightarrow> go_map" where
  "record_render r = [(''name'', GStr (rec_name r)), (''type'', GStr (rec_type r)),
     (''values'', GStrList (rec_values r)), (''ttl'', GInt (if rec_ttl r > 0 then rec_ttl r else 300))]"

definition dns_render :: "provision_params \<Rightarrow> go_map" where
  "dns_render p =
     (let d = pp_dns p;
          s0 = [(''enabled'', GBool True), (''zoneName'', GStr (dns_zone_name d)), (''private'', GBool (dns_private d))];
          s1 = put_if (dns_records d \<noteq> []) ''records'' (GMapList (map record_render (dns_records d))) s0;
          s2 = put_if (dns_private d) ''vpcAssociation'' (GBool True) s1
      in [(''dns'', GMap s2)])"

definition cdn_validate :: "provision_params \<Rightarrow> string option" where
  "cdn_validate p =
     (let c = pp_cdn p in
      if \<not> cdn_enabled c then None
      else if cdn_origin_type c = [] then Some ''cdn.origin_type required when cdn.enabled is true''
      else if pp_workload_exposure p = ''private''
      then Some ''cdn cannot be enabled for private workload exposure''
      else None)"

definition cdn_render :: "provision_params \<Rightarrow> go_map" where
  "cdn_render p =
     (let c = pp_cdn p;
          s0 = [(''enabled'', GBool True), (''originType'', GStr (cdn_origin_type c)),
                (''priceClass'', GStr (coalesce [cdn_price_class c, ''100''])),
                (''httpVersion'', GStr ''http2and3''), (''ipv6'', GBool True)];
          s1 = alist_put ''cachePolicyTTL''
                 (GInt (if cdn_cache_policy_ttl c > 0 then cdn_cache_policy_ttl c else 86400)) s0;
          s2 = put_if (cdn_custom_domains c \<noteq> []) ''customDomains'' (GStrList (cdn_custom_domains c)) s1;
          s3 = put_if (cdn_custom_domains c \<noteq> []) ''tlsCertificate'' (GStr ''acm-auto'') s2;
          s4 = waf_render p (cdn_waf c) s3;
          s5 = alist_put ''logging'' (GMap [(''enabled'', GBool True)]) s4;
          s6 = alist_put ''responseHeaders'' (GMap
                 [(''strictTransportSecurity'', GStr ''max-age=63072000; includeSubDomains; preload''),
                  (''contentTypeOptions'', GStr ''nosniff''), (''frameOptions'', GStr ''DENY''),
                  (''xssProtection'', GStr ''1; mode=block'')]) s5
      in [(''cdn'', GMap s6)])"

section \<open>Messaging, identity, secrets, observability\<close>

definition messaging_validate :: "provision_params \<Rightarrow> string option" where
  "messaging_validate p =
     (let m = pp_messaging p in
      if \<not> msg_enabled m then None
      else if msg_tier m = [] then Some ''messaging.tier required when messaging.enabled is true''
      else if msg_queue_count m = 0 \<and> msg_topic_count m = 0
      then Some ''at least one of messaging.queue_count or messaging.topic_count must be > 0''
      else if msg_dlq_enabled m \<and> msg_dlq_max_retry m = 0
      then Some ''messaging.dlq_max_retry required when messaging.dlq_enabled is true''
      else None)"

definition messaging_render :: "provision_params \<Rightarrow> go_map" where
  "messaging_render p =
     (let m = pp_messaging p;
          s0 = [(''enabled'', GBool True), (''tier'', GStr (msg_tier m)),
                (''region'', GStr (pp_primary_region p)), (''encrypted'', GBool True)];
          queue = put_if (msg_dlq_enabled m) ''deadLetterQueue'' (GMap [(''enabled'', GBool True),
                    (''maxReceiveCount'', GInt (coalesce_int [msg_dlq_max_retry m, 5]))])
                    [(''count'', GInt (msg_queue_count m)), (''fifo'', GBool (msg_fifo m))];
          s1 = put_if (msg_queue_count m > 0) ''queues'' (GMap queue) s0;
          s2 = put_if (msg_topic_count m > 0) ''topics'' (GMap [(''count'', GInt (msg_topic_count m))]) s1;
          s3 = put_if (msg_tier m = ''enterprise'') ''clusterMode'' (GBool True) s2;
          s4 = put_if (msg_tier m = ''enterprise'') ''messageRetention'' (GStr ''14d'') s3
      in [(''messaging'', GMap s4)])"

definition policy_check :: "nat \<Rightarrow> iam_policy \<Rightarrow> string option" where
  "policy_check i q = (if pol_effect q = [] \<or> pol_resource q = []
     then Some (''identity.policies['' @ nat_str i @ '']: effect and resource are required'') else None)"

definition identity_validate :: "provision_params \<Rightarrow> string option" where
  "identity_validate p =
     (let d = pp_identity p in
      if \<not> idn_enabled d then None
      else if idn_type d = [] then Some ''identity.type required when identity.enabled is true''
      else if idn_type d = ''federated'' \<and> idn_federation_provider d = []
      then Some ''identity.federation_provider required when identity.type is federated''
      else first_bad 0 policy_check (idn_policies d))"

definition policy_render :: "iam_policy \<Rightarrow> go_map" where
  "policy_render q = put_if (pol_conditions q \<noteq> []) ''conditions'' (GStrMap (pol_conditions q))
     [(''effect'', GStr (pol_effect q)), (''actions'', GStrList (pol_actions q)),
      (''resource'', GStr (pol_resource q))]"

definition identity_render :: "provision_params \<Rightarrow> go_map" where
  "identity_render p =
     (let d = pp_identity p;
          s0 = [(''enabled'', GBool True), (''type'', GStr (idn_type d))];
          s1 = put_if (idn_service_account_count d > 0) ''serviceAccounts''
                 (GMap [(''count'', GInt (idn_service_account_count d)),
                        (''namePrefix'', GStr (safe_name (pp_request_name p)))]) s0;
          s2 = put_if (idn_policies d \<noteq> []) ''policies'' (GMapList (map policy_render (idn_policies d))) s1;
          s3 = put_if (idn_type d = ''federated'') ''federation''
                 (GMap [(''provider'', GStr (idn_federation_provider d)),
                        (''audience'', GStr (idn_federation_audience d))]) s2;
          s4 = alist_put ''permissionBoundary''
                 (GStr (permission_boundary (pp_tenant p) (pp_environment p))) s3
      in [(''identity'', GMap s4)])"

definition secrets_validate :: "provision_params \<Rightarrow> string option" where
  "secrets_validate p =
     (let s = pp_secrets p in
      if \<not> sec_enabled s then None
      else if sec_provider s = [] then Some ''secrets.provider required when secrets.enabled is true''
      else if sec_kms_key_type s \<noteq> [] \<and> sec_kms_key_type s \<noteq> ''aws-managed''
        \<and> sec_kms_key_type s \<noteq> ''customer-managed''
      then Some ''secrets.kms_key_type must be aws-managed or customer-managed''
      else None)"

definition secrets_render :: "provision_params \<Rightarrow> go_map" where
  "secrets_render p =
     (let s = pp_secrets p;
          s0 = [(''enabled'', GBool True), (''provider'', GStr (sec_provider s)),
                (''region'', GStr (pp_primary_region p))];
          kmsType = coalesce [sec_kms_key_type s, ''aws-managed''];
          k0 = [(''type'', GStr kmsType), (''rotationEnabled'', GBool True)];
          k1 = put_if (kmsType = ''customer-managed'') ''rotationDays''
                 (GInt (coalesce_int [sec_kms_rotation_days s, 365])) k0;
          k2 = put_if (kmsType = ''customer-managed'') ''deletionWindowDays'' (GInt 30) k1;
          s1 = alist_put ''kmsKey'' (GMap k2) s0;
          s2 = put_if (sec_secret_count s > 0) ''secretCount'' (GInt (sec_secret_count s)) s1;
          s3 = put_if (sec_secret_count s > 0) ''namePrefix'' (GStr (safe_name (pp_request_name p))) s2;
          s4 = put_if (sec_auto_rotation s) ''autoRotation'' (GMap [(''enabled'', GBool True),
                 (''intervalDays'', GInt (coalesce_int [sec_rotation_interval_days s, 90]))]) s3;
          s5 = replication_render p s4
      in [(''secrets'', GMap s5)])"

definition observability_render :: "provision_params \<Rightarrow> go_map" where
  "observability_render p =
     (let b = pp_observability p;
          metrics = [(''enabled'', GBool True),
            (''retentionDays'', GInt (coalesce_int [obs_metrics_retention_days b, 90])),
            (''resolution'', GStr (coalesce [obs_metrics_resolution b, ''60s''])),
            (''customNamespaces'', GStrList (obs_custom_metric_namespaces b))];
          logRetention = (if pp_data_classification p = ''restricted'' \<or> pp_data_classification p = ''confidential''
            then coalesce_int [obs_log_retention_days b, 365] else coalesce_int [obs_log_retention_days b, 30]);
          logs = put_if (obs_external_log_sink b \<noteq> []) ''externalSink'' (GStr (obs_external_log_sink b))
            [(''enabled'', GBool True), (''retentionDays'', GInt logRetention), (''structured'', GBool True),
             (''sinkType'', GStr (coalesce [obs_log_sink_type b, ''cloudwatch'']))];
          s0 = [(''enabled'', GBool True), (''metrics'', GMap metrics), (''logging'', GMap logs)];
          s1 = put_if (obs_tracing_enabled b) ''tracing'' (GMap [(''enabled'', GBool True),
                 (''sampleRate'', g_float (coalesce_float [obs_tracing_sample_rate b, (1, 10)])),
                 (''provider'', GStr (coalesce [obs_tracing_provider b, ''xray'']))]) s0;
          s2 = put_if (obs_dashboard_enabled b) ''dashboards'' (GMap [(''enabled'', GBool True),
                 (''template'', GStr (dashboard_template (pp_workload_type p)))]) s1;
          severity = (if pp_availability p = ''critical'' then ''critical'' else ''standard'');
          s3 = alist_put ''alarms'' (GMap [(''enabled'', GBool True), (''severity'', GStr severity),
                 (''notificationArn'', GStr (alarm_notification_target (pp_tenant p) (pp_environment p)))]) s2
      in [(''observability'', GMap s3)])"

section \<open>The fragments\<close>

text \<open>A fragment as the engine sees it. The slice is the one \<open>RenderManifests\<close> builds.\<close>

record fragment =
  fr_name :: string
  fr_applicable :: "provision_params \<Rightarrow> bool"
  fr_validate :: "provision_params \<Rightarrow> string option"
  fr_render :: "provision_params \<Rightarrow> go_map outcome"

definition frag :: "string \<Rightarrow> (provision_params \<Rightarrow> bool) \<Rightarrow> (provision_params \<Rightarrow> string option)
    \<Rightarrow> (provision_params \<Rightarrow> go_map) \<Rightarrow> fragment" where
  "frag n a v r = \<lparr>fr_name = n, fr_applicable = a, fr_validate = v, fr_render = (\<lambda>p. Ret (r p))\<rparr>"

definition infra_fragments :: "fragment list" where
  "infra_fragments =
     [frag ''tags'' (\<lambda>p. True) (\<lambda>p. None) tags_render,
      frag ''compliance'' (\<lambda>p. True) (\<lambda>p. None) compliance_render,
      frag ''kubernetes'' (\<lambda>p. k8s_enabled (pp_kubernetes p)) kubernetes_validate kubernetes_render,
      frag ''vm'' (\<lambda>p. vm_enabled (pp_vm p)) vm_validate vm_render,
      frag ''database'' (\<lambda>p. db_enabled (pp_database p)) database_validate database_render,
      frag ''cache'' (\<lambda>p. cache_enabled (pp_cache p)) cache_validate cache_render,
      frag ''object-storage'' (\<lambda>p. os_enabled (pp_object_store p)) object_storage_validate object_storage_render,
      frag ''block-storage'' (\<lambda>p. bs_enabled (pp_block_store p)) block_storage_validate block_storage_render,
      frag ''file-storage'' (\<lambda>p. fs_enabled (pp_file_store p)) file_storage_validate file_storage_render,
      \<lparr>fr_name = ''vpc'', fr_applicable = (\<lambda>p. vpc_enabled (pp_vpc p)), fr_validate = vpc_validate,
        fr_render = vpc_render\<rparr>,
      frag ''load-balancer'' (\<lambda>p. lb_enabled (pp_load_balancer p)) load_balancer_validate load_balancer_render,
      frag ''dns'' (\<lambda>p. dns_enabled (pp_dns p)) dns_validate dns_render,
      frag ''cdn'' (\<lambda>p. cdn_enabled (pp_cdn p)) cdn_validate cdn_render,
      frag ''messaging'' (\<lambda>p. msg_enabled (pp_messaging p)) messaging_validate messaging_render,
      frag ''identity'' (\<lambda>p. idn_enabled (pp_identity p)) identity_validate identity_render,
      frag ''secrets'' (\<lambda>p. sec_enabled (pp_secrets p)) secrets_validate secrets_render,
      frag ''observability'' (\<lambda>p. obs_enabled (pp_observability p)) (\<lambda>p. None) observability_render]"

end
