(* ===== verification/Infra_Health.thy ===== *)
theory Infra_Health
  imports Infra_Fragments Step_Api
begin

text \<open>
  How the infrastructure module talks to the engine, and its health check:
  \<open>src/internal/module/infra/stepapi_adapter.go\<close> and \<open>health.go\<close>. The module runs against an
  interface it does not own, so a run is a history: the list of its calls with their answers. An
  environment answers each call from the history so far, which lets every answer depend on
  everything the module has done. The YAML package and the time format are parameters.
\<close>

section \<open>Calls and answers\<close>

text \<open>\<open>Called req r\<close> is a call of \<open>CallConnector\<close> with its answer: \<open>Ret\<close> a result, \<open>Fail\<close> an error
  value, \<open>Panics\<close> a panic below it. \<open>Slept d\<close> is a wait on \<open>time.After\<close> that ran to its end.\<close>

datatype api_event =
    Began string
  | Ended_ok string go_map
  | Ended_err string string string
  | Context_set string go_any
  | Called connector_request "connector_result outcome"
  | Waited approval_request "string + approval_outcome"
  | Slept duration

type_synonym history = "api_event list"

record api_env =
  ev_call :: "history \<Rightarrow> connector_request \<Rightarrow> connector_result outcome"
  ev_wait :: "history \<Rightarrow> approval_request \<Rightarrow> string + approval_outcome"
  ev_now :: "history \<Rightarrow> time"
  ev_done :: "history \<Rightarrow> string option"
  ev_done_asleep :: "history \<Rightarrow> string option"

section \<open>Requests from maps\<close>

definition map_to_connector_request :: "go_map \<Rightarrow> string + connector_request" where
  "map_to_connector_request m =
     (let conn = string_or_empty (go_get m ''connector'');
          impl = string_or_empty (go_get m ''impl_key'');
          oper = string_or_empty (go_get m ''operation'')
      in if conn = [] \<or> oper = [] then Inl ''connector and operation are required''
         else Inr \<lparr>cq_connector = conn, cq_impl_key = impl, cq_operation = oper, cq_input = as_map (go_get m ''input'')\<rparr>)"

definition connector_result_to_map :: "connector_result option \<Rightarrow> go_map option" where
  "connector_result_to_map res =
     (case res of
        None \<Rightarrow> None
      | Some r \<Rightarrow>
          let m0 = [(''status'', GStr (cr_status r))];
              m1 = (case cr_output r of None \<Rightarrow> m0 | Some out \<Rightarrow> m0 @ [(''output'', GMap out)])
          in Some (case cr_error r of None \<Rightarrow> m1
             | Some (code, msg) \<Rightarrow> m1 @ [(''error'', GMap [(''code'', GStr code), (''message'', GStr msg)])]))"

text \<open>The metadata are read as a \<open>map[string]any\<close>; a \<open>map[string]string\<close> fails that assertion and
  gives no entry at all.\<close>

definition map_to_approval_request :: "go_map \<Rightarrow> approval_request" where
  "map_to_approval_request m =
     (let raw = (case as_map (go_get m ''metadata'') of None \<Rightarrow> [] | Some r \<Rightarrow> r)
      in \<lparr>ar_summary = string_or_empty (go_get m ''summary''), ar_detail = string_or_empty (go_get m ''detail''),
          ar_blast_radius = string_or_empty (go_get m ''blast_radius''),
          ar_policy_ref = string_or_empty (go_get m ''policy_ref''),
          ar_metadata = Some (List.map_filter (\<lambda>(k, v). map_option (\<lambda>s. (k, s)) (as_string v)) raw)\<rparr>)"

definition approval_outcome_to_map :: "approval_outcome \<Rightarrow> go_map" where
  "approval_outcome_to_map x =
     [(''decision'', GStr (ao_decision x)), (''approver'', GStr (ao_approver x)),
      (''justification'', GStr (ao_justification x)), (''decided_at'', GTime (ao_decided_at x))]"

section \<open>Health status\<close>

record resource_reference =
  rr_type :: string
  rr_arn :: string
  rr_id :: string

record health_status =
  hs_status :: string
  hs_timestamp :: time
  hs_resources :: "resource_reference list"
  hs_commit_sha :: string

text \<open>The struct \<open>parsed\<close> inside \<open>parseStatusFile\<close>.\<close>

record parsed_status =
  ps_status :: string
  ps_timestamp :: string
  ps_commit_sha :: string
  ps_resources :: "resource_reference list"

record status_env =
  st_parse :: "string \<Rightarrow> string + parsed_status"
  st_rfc3339 :: "string \<Rightarrow> time option"

definition sha_mismatch :: "string \<Rightarrow> string \<Rightarrow> string" where
  "sha_mismatch expected got = ''status file commit SHA mismatch: expected '' @ expected @ '', got '' @ got"

definition status_line :: "health_status \<Rightarrow> string \<Rightarrow> health_status" where
  "status_line s line =
     (let value = trim_space (split_on (CHR '':'') line ! 1);
          s1 = (if contains_sub line ''status:'' \<and> 2 \<le> length (split_on (CHR '':'') line)
                then s\<lparr>hs_status := value\<rparr> else s)
      in if contains_sub line ''commit_sha:'' \<and> 2 \<le> length (split_on (CHR '':'') line)
         then s1\<lparr>hs_commit_sha := value\<rparr> else s1)"

definition parse_status_file_simple :: "time \<Rightarrow> string \<Rightarrow> string \<Rightarrow> string + health_status" where
  "parse_status_file_simple now content sha =
     (let s = foldl status_line \<lparr>hs_status = ''unknown'', hs_timestamp = now, hs_resources = [], hs_commit_sha = []\<rparr>
                (split_on (CHR 0x0A) content)
      in if hs_commit_sha s \<noteq> sha then Inl (sha_mismatch sha (hs_commit_sha s)) else Inr s)"

definition parse_status_file :: "status_env \<Rightarrow> time \<Rightarrow> string \<Rightarrow> string \<Rightarrow> string + health_status" where
  "parse_status_file st now content sha =
     (case st_parse st content of
        Inl e \<Rightarrow> parse_status_file_simple now content sha
      | Inr q \<Rightarrow>
          let t = (if ps_timestamp q = [] then now
                   else case st_rfc3339 st (ps_timestamp q) of Some t \<Rightarrow> t | None \<Rightarrow> now);
              s = \<lparr>hs_status = (if ps_status q = [] then ''unknown'' else ps_status q), hs_timestamp = t,
                   hs_resources = ps_resources q, hs_commit_sha = ps_commit_sha q\<rparr>
          in if hs_commit_sha s \<noteq> sha then Inl (sha_mismatch sha (hs_commit_sha s)) else Inr s)"

section \<open>The polling loop\<close>

definition read_status_request :: "string \<Rightarrow> string \<Rightarrow> string \<Rightarrow> string + connector_request" where
  "read_status_request repo branch impl = map_to_connector_request
     [(''connector'', GStr ''git''), (''impl_key'', GStr impl), (''operation'', GStr ''read_file''),
      (''input'', GMap [(''repo'', GStr repo), (''branch'', GStr branch), (''path'', GStr ''.status.yaml'')])]"

text \<open>What one answer means: \<open>Inl\<close> the loop ends, \<open>Inr ()\<close> it waits and goes on.\<close>

definition poll_answer ::
  "status_env \<Rightarrow> time \<Rightarrow> string \<Rightarrow> connector_result \<Rightarrow> health_status outcome + unit" where
  "poll_answer st now sha r =
     (if cr_status r = ''error'' then Inr ()
      else case (case cr_output r of None \<Rightarrow> GNil | Some out \<Rightarrow> go_get out ''content'') of
        GStr content \<Rightarrow>
          (case parse_status_file st now content sha of
             Inl e \<Rightarrow> Inl (Fail (''failed to parse status file: '' @ e))
           | Inr s \<Rightarrow> if hs_status s = ''healthy'' then Inl (Ret s) else Inr ())
      | _ \<Rightarrow> Inl (Fail ''invalid status file content''))"

text \<open>The loop, with the number of turns it may take; \<open>None\<close> means that it is still polling.\<close>

fun poll_loop ::
  "nat \<Rightarrow> api_env \<Rightarrow> status_env \<Rightarrow> string \<Rightarrow> string \<Rightarrow> string \<Rightarrow> string \<Rightarrow> duration \<Rightarrow> duration \<Rightarrow> time
     \<Rightarrow> history \<Rightarrow> health_status outcome option \<times> history" where
  "poll_loop 0 env st repo branch sha impl timeout interval start h = (None, h)"
| "poll_loop (Suc n) env st repo branch sha impl timeout interval start h =
     (case ev_done env h of
        Some e \<Rightarrow> (Some (Fail (''health polling cancelled: '' @ e)), h)
      | None \<Rightarrow>
          if ev_now env h - start > timeout then (Some (Fail ''health polling timeout exceeded''), h)
          else case read_status_request repo branch impl of
            Inl e \<Rightarrow> (Some (Fail (''failed to create connector request: '' @ e)), h)
          | Inr req \<Rightarrow>
              let r = ev_call env h req; h1 = h @ [Called req r] in
              case r of
                Panics e \<Rightarrow> (Some (Panics e), h1)
              | Fail e \<Rightarrow> (Some (Fail (''failed to read status file: '' @ e)), h1)
              | Ret res \<Rightarrow>
                  (case poll_answer st (ev_now env h1) sha res of
                     Inl out \<Rightarrow> (Some out, h1)
                   | Inr _ \<Rightarrow>
                       (case ev_done_asleep env h1 of
                          Some e \<Rightarrow> (Some (Fail (''health polling cancelled: '' @ e)), h1)
                        | None \<Rightarrow> poll_loop n env st repo branch sha impl timeout interval start
                            (h1 @ [Slept interval]))))"

definition poll_health_status ::
  "nat \<Rightarrow> api_env \<Rightarrow> status_env \<Rightarrow> string \<Rightarrow> string \<Rightarrow> string \<Rightarrow> duration \<Rightarrow> duration \<Rightarrow> string
     \<Rightarrow> history \<Rightarrow> health_status outcome option \<times> history" where
  "poll_health_status n env st repo branch sha timeout interval impl h =
     poll_loop n env st repo branch sha impl timeout interval (ev_now env h) h"

text \<open>The timeout and the interval are constants here, whatever the module's configuration says.\<close>

definition check_health ::
  "nat \<Rightarrow> api_env \<Rightarrow> status_env \<Rightarrow> string \<Rightarrow> string \<Rightarrow> string \<Rightarrow> string \<Rightarrow> history
     \<Rightarrow> health_status outcome option \<times> history" where
  "check_health n env st repo branch sha impl h =
     poll_health_status n env st repo branch sha (30 * second) 500000000 impl h"

section \<open>Remediation\<close>

definition commit_sha_of :: "connector_result \<Rightarrow> string" where
  "commit_sha_of r = (case cr_output r of None \<Rightarrow> [] | Some out \<Rightarrow> string_or_empty (go_get out ''commit_sha''))"

definition remediation_recommit ::
  "api_env \<Rightarrow> string \<Rightarrow> string \<Rightarrow> string \<Rightarrow> go_map \<Rightarrow> string \<Rightarrow> string \<Rightarrow> history \<Rightarrow> string outcome \<times> history" where
  "remediation_recommit env repo branch path_prefix files message impl h =
     (case map_to_connector_request
        [(''connector'', GStr ''git''), (''impl_key'', GStr impl), (''operation'', GStr ''commit_files''),
         (''input'', GMap [(''repo'', GStr repo), (''branch'', GStr branch), (''path_prefix'', GStr path_prefix),
            (''files'', GMap files), (''message'', GStr (message @ '' [force-sync]'')),
            (''idempotency_key'', GStr (''remediation-'' @ int_str (go_quot (ev_now env h) second)))])] of
        Inl e \<Rightarrow> (Fail (''failed to create connector request: '' @ e), h)
      | Inr req \<Rightarrow>
          let r = ev_call env h req; h1 = h @ [Called req r] in
          case r of
            Panics e \<Rightarrow> (Panics e, h1)
          | Fail e \<Rightarrow> (Fail (''remediation commit failed: '' @ e), h1)
          | Ret res \<Rightarrow>
              if commit_sha_of res = [] then (Fail ''invalid commit SHA in remediation result'', h1)
              else (Ret (commit_sha_of res), h1))"

section \<open>Lemmas\<close>

text \<open>A clock that runs forward, and by the length of every sleep.\<close>

definition clock_runs :: "api_env \<Rightarrow> bool" where
  "clock_runs env \<longleftrightarrow> (\<forall>h e. ev_now env h \<le> ev_now env (h @ [e]))
     \<and> (\<forall>h d. ev_now env h + d \<le> ev_now env (h @ [Slept d]))"

lemma clock_turn:
  assumes "clock_runs env"
  shows "ev_now env h + d \<le> ev_now env (h @ [e] @ [Slept d])"
proof -
  have "ev_now env h \<le> ev_now env (h @ [e])" using assms by (simp add: clock_runs_def)
  also have "\<dots> + d \<le> ev_now env ((h @ [e]) @ [Slept d])" using assms unfolding clock_runs_def by blast
  finally show ?thesis by simp
qed

lemma poll_loop_returns:
  assumes "clock_runs env" "0 < interval"
    "timeout < ev_now env h - start + int n * interval"
  shows "\<exists>out h'. poll_loop (Suc n) env st repo branch sha impl timeout interval start h = (Some out, h')"
  using assms(3)
proof (induction n arbitrary: h)
  case 0
  then show ?case by (auto split: option.splits)
next
  case (Suc n)
  have "\<exists>out h'. poll_loop (Suc n) env st repo branch sha impl timeout interval start
          (h @ [Called req r] @ [Slept interval]) = (Some out, h')" for req r
  proof (rule Suc.IH)
    show "timeout < ev_now env (h @ [Called req r] @ [Slept interval]) - start + int n * interval"
      using Suc.prems clock_turn [OF assms(1), of h interval "Called req r"] by (simp add: algebra_simps)
  qed
  then show ?case
    by (subst poll_loop.simps)
      (auto simp: Let_def simp del: poll_loop.simps split: option.splits sum.splits outcome.splits)
qed

text \<open>A status file that counts as healthy says so, and is of the commit asked for.\<close>

lemma poll_answer_healthy:
  assumes "poll_answer st t sha r = Inl (Ret s)"
  shows "hs_status s = ''healthy''" "hs_commit_sha s = sha" "cr_status r \<noteq> ''error''"
proof -
  have "hs_commit_sha s = sha" if "parse_status_file st t c sha = Inr s" for c
    using that by (auto simp: parse_status_file_def parse_status_file_simple_def Let_def split: sum.splits if_splits)
  then show "hs_status s = ''healthy''" "hs_commit_sha s = sha" "cr_status r \<noteq> ''error''"
    using assms by (auto simp: poll_answer_def split: option.splits if_splits sum.splits go_any.splits)
qed

text \<open>A loop that reports health has read such a file last.\<close>

lemma poll_loop_healthy:
  assumes "poll_loop n env st repo branch sha impl timeout interval start h = (Some (Ret s), h')"
  shows "\<exists>req r t hs. h' = hs @ [Called req (Ret r)] \<and> cq_operation req = ''read_file''
    \<and> poll_answer st t sha r = Inl (Ret s)"
  using assms
proof (induction n arbitrary: h)
  case (Suc n)
  have req: "cq_operation q = ''read_file''" if "read_status_request repo branch impl = Inr q" for q
    using that by (auto simp: read_status_request_def map_to_connector_request_def Let_def go_get_def
        string_or_empty_def split: if_splits)
  show ?case
    using Suc.prems Suc.IH req
    by (auto simp: Let_def split: option.splits if_splits sum.splits outcome.splits)
qed simp

end
