(* ===== verification/Infra_Xr.thy ===== *)
theory Infra_Xr
  imports Infra_Fragments "HOL-Library.List_Lexorder" "HOL-Library.Char_ord"
begin

text \<open>
  Composite resources: \<open>src/internal/module/infra/template/xr.go\<close>. A builder turns the part a
  fragment rendered into the parameters of one Crossplane document; \<open>build_xrs\<close> makes one document
  per enabled capability. \<open>sort.Strings\<close> orders by bytes, which is the lexicographic order of
  \<^typ>\<open>string\<close>. Title casing in the fallback of \<open>resolveXRDKind\<close> belongs to a package outside the
  repository and is a parameter.
\<close>

section \<open>Providers and names\<close>

definition module_default_provider :: string where
  "module_default_provider = ''aws''"

definition supported_providers :: "(string \<times> string list) list" where
  "supported_providers = map (\<lambda>c. (c, [''aws'', ''azure'', ''gcp'']))
     [''blockStorage'', ''cache'', ''cdn'', ''database'', ''dns'', ''fileStorage'', ''identity'',
      ''kubernetes'', ''loadBalancer'', ''messaging'', ''objectStorage'', ''observability'',
      ''secrets'', ''vm'', ''vpc'']"

definition resolve_provider :: "capability \<Rightarrow> string \<Rightarrow> string + string" where
  "resolve_provider cap requestDefault =
     (if get_provider cap \<noteq> [] then Inr (get_provider cap)
      else if requestDefault \<noteq> [] then Inr requestDefault
      else if module_default_provider \<noteq> [] then Inr module_default_provider
      else Inl ''no provider resolved'')"

definition xrd_kinds :: "(string \<times> string) list" where
  "xrd_kinds =
     [(''blockStorage'', ''XBlockStorage''), (''cache'', ''XCache''), (''cdn'', ''XCDN''),
      (''database'', ''XDatabase''), (''dns'', ''XDNSZone''), (''fileStorage'', ''XFileStorage''),
      (''identity'', ''XIdentity''), (''kubernetes'', ''XKubernetesCluster''),
      (''loadBalancer'', ''XLoadBalancer''), (''messaging'', ''XMessaging''),
      (''objectStorage'', ''XObjectStore''), (''observability'', ''XObservability''),
      (''secrets'', ''XSecretsStore''), (''vm'', ''XVirtualMachine''), (''vpc'', ''XVPCNetwork'')]"

definition resolve_xrd_kind :: "(string \<Rightarrow> string) \<Rightarrow> string \<Rightarrow> string" where
  "resolve_xrd_kind title cap =
     (case map_of xrd_kinds cap of
        Some k \<Rightarrow> k
      | None \<Rightarrow> ''X'' @ concat (map title (split_on (CHR ''_'') cap)))"

definition resolve_composition_ref :: "string \<Rightarrow> string \<Rightarrow> string" where
  "resolve_composition_ref cap provider =
     to_lower (filter (\<lambda>c. c \<noteq> CHR ''_'') cap) @ ''-'' @ provider"

section \<open>Reading a part\<close>

definition string_slice :: "go_any \<Rightarrow> string list" where
  "string_slice v = (case as_list v of None \<Rightarrow> [] | Some xs \<Rightarrow> List.map_filter as_string xs)"

fun int_any :: "go_any \<Rightarrow> int \<Rightarrow> int" where
  "int_any (GInt n) d = n"
| "int_any (GFloat a b) d = go_quot a b"
| "int_any _ d = d"

definition bool_any :: "go_any \<Rightarrow> bool \<Rightarrow> bool" where
  "bool_any v d = (case as_bool v of None \<Rightarrow> d | Some b \<Rightarrow> b)"

definition map_any :: "go_any \<Rightarrow> go_map" where
  "map_any v = (case as_map v of None \<Rightarrow> [] | Some m \<Rightarrow> m)"

definition str_any :: "go_any \<Rightarrow> string \<Rightarrow> string" where
  "str_any v d = (case as_string v of None \<Rightarrow> d | Some s \<Rightarrow> s)"

abbreviation aws_provider :: "string \<times> go_any" where
  "aws_provider \<equiv> (''providerConfigRef'', GStr ''aws-provider'')"

abbreviation region_entry :: "provision_params \<Rightarrow> string \<times> go_any" where
  "region_entry p \<equiv> (''region'', GStr (pp_primary_region p))"

section \<open>Builders\<close>

definition build_kubernetes_params :: "provision_params \<Rightarrow> go_map \<Rightarrow> go_map" where
  "build_kubernetes_params p m =
     (let np = map_any (go_get m ''nodePool'');
          pool0 = [(''instanceType'', go_get np ''instanceType''),
            (''diskSizeGb'', GInt (int_any (go_get np ''diskSizeGb'') 50)),
            (''minNodes'', GInt (int_any (go_get np ''minNodes'') 1)),
            (''desiredNodes'', GInt (int_any (go_get np ''desiredNodes'') 2)),
            (''maxNodes'', GInt (int_any (go_get np ''maxNodes'') 3)), (''capacityType'', GStr ''ON_DEMAND'')];
          capType = str_any (go_get np ''capacityType'') [];
          pool = put_if (capType = ''ON_DEMAND'' \<or> capType = ''SPOT'') ''capacityType'' (GStr capType) pool0;
          r0 = [(''clusterName'', GStr (pp_request_name p @ ''-k8s'')), region_entry p,
            (''version'', go_get m ''version''), aws_provider, (''subnetIds'', GStrList []),
            (''securityGroupIds'', GStrList []), (''nodePool'', GMap pool), (''publicAccess'', GBool False),
            (''enableOIDC'', GBool True), (''tags'', GStrMap [])];
          arn = str_any (go_get m ''adminPrincipalArn'') []
      in put_if (arn \<noteq> []) ''adminPrincipalArn'' (GStr arn) r0)"

definition build_database_params :: "provision_params \<Rightarrow> go_map \<Rightarrow> go_map" where
  "build_database_params p m =
     [region_entry p, aws_provider, (''engine'', go_get m ''engine''),
      (''engineVersion'', go_get m ''engineVersion''), (''instanceClass'', go_get m ''instanceClass''),
      (''allocatedStorage'', go_get m ''storageGiB''), (''storageType'', go_get m ''storageType''),
      (''iops'', GInt (int_any (go_get m ''iops'') 0)), (''multiAZ'', GBool (bool_any (go_get m ''multiAZ'') False)),
      (''backupRetentionDays'', GInt (db_backup_retention_days (pp_database p))),
      (''parameterGroup'', GStr (db_parameter_group (pp_database p))),
      (''maintenanceWindow'', go_get m ''maintenanceWindow''), (''subnetGroupName'', GStr []),
      (''securityGroupIds'', GStrList [])]"

definition build_vpc_params :: "provision_params \<Rightarrow> go_map \<Rightarrow> go_map" where
  "build_vpc_params p m =
     [region_entry p, aws_provider, (''cidr'', go_get m ''cidr''),
      (''privateSubnets'', GInt (int_any (go_get m ''privateSubnets'') 3)),
      (''publicSubnets'', GInt (int_any (go_get m ''publicSubnets'') 3)),
      (''natGateways'', GInt (int_any (go_get m ''natGateways'') 1)),
      (''flowLogs'', GBool (bool_any (go_get m ''flowLogs'') True)),
      (''availabilityZones'', go_get m ''availabilityZones'')]"

definition build_object_store_params :: "provision_params \<Rightarrow> go_map \<Rightarrow> go_map" where
  "build_object_store_params p m =
     [region_entry p, aws_provider, (''versioning'', GBool (bool_any (go_get m ''versioning'') True)),
      (''retentionDays'', GInt (os_retention_days (pp_object_store p))), (''encryption'', GBool True)]"

definition build_messaging_params :: "provision_params \<Rightarrow> go_map \<Rightarrow> go_map" where
  "build_messaging_params p m =
     (let g = pp_messaging p in
      [aws_provider, region_entry p, (''queueCount'', GInt (msg_queue_count g)),
       (''topicCount'', GInt (msg_topic_count g)), (''fifo'', GBool (msg_fifo g)),
       (''encryption'', GBool (bool_any (go_get m ''encrypted'') True)),
       (''dlqEnabled'', GBool (msg_dlq_enabled g)), (''dlqMaxRetry'', GInt (msg_dlq_max_retry g))])"

definition build_cache_params :: "provision_params \<Rightarrow> go_map \<Rightarrow> go_map" where
  "build_cache_params p m =
     [region_entry p, aws_provider, (''engine'', go_get m ''engine''), (''nodeType'', go_get m ''nodeType''),
      (''engineVersion'', go_get m ''version''), (''replicaCount'', go_get m ''replicaCount''),
      (''snapshotRetentionDays'', GInt (cache_snapshot_retention_days (pp_cache p))),
      (''subnetGroupName'', GStr []), (''securityGroupIds'', GStrList [])]"

definition build_dns_params :: "provision_params \<Rightarrow> go_map \<Rightarrow> go_map" where
  "build_dns_params p m =
     [aws_provider, region_entry p, (''zoneName'', go_get m ''zoneName''),
      (''private'', GBool (bool_any (go_get m ''private'') False)), (''vpcId'', GStr []),
      (''records'', go_get m ''records'')]"

definition build_load_balancer_params :: "provision_params \<Rightarrow> go_map \<Rightarrow> go_map" where
  "build_load_balancer_params p m =
     (let hc = (case as_map (go_get m ''healthCheck'') of
            None \<Rightarrow> [(''path'', GStr ''/''), (''protocol'', GStr ''HTTP''), (''port'', GInt 80)]
          | Some h \<Rightarrow> h)
      in [aws_provider, region_entry p, (''type'', go_get m ''type''), (''scheme'', go_get m ''scheme''),
          (''idleTimeout'', go_get m ''idleTimeout''), (''vpcId'', GStr []), (''subnetIds'', GStrList []),
          (''securityGroupIds'', GStrList (string_slice (go_get m ''securityGroupIds''))),
          (''https'', GBool (bool_any (go_get m ''https'') False)), (''certificateArn'', GStr []),
          (''waf'', GBool (bool_any (go_get m ''waf'') False)), (''wafAclArn'', GStr []),
          (''healthCheck'', GMap hc)])"

definition build_secrets_params :: "provision_params \<Rightarrow> go_map \<Rightarrow> go_map" where
  "build_secrets_params p m =
     (let s = pp_secrets p in
      [region_entry p, aws_provider, (''kmsKeyType'', GStr (sec_kms_key_type s)),
       (''kmsRotationDays'', GInt (sec_kms_rotation_days s)), (''secretCount'', GInt (sec_secret_count s)),
       (''autoRotation'', GBool (sec_auto_rotation s)),
       (''rotationIntervalDays'', GInt (sec_rotation_interval_days s))])"

definition build_observability_params :: "provision_params \<Rightarrow> go_map \<Rightarrow> go_map" where
  "build_observability_params p m =
     (let b = pp_observability p in
      [region_entry p, aws_provider, (''metricsRetentionDays'', GInt (obs_metrics_retention_days b)),
       (''logRetentionDays'', GInt (obs_log_retention_days b)), (''logSinkType'', GStr (obs_log_sink_type b)),
       (''tracingEnabled'', GBool (obs_tracing_enabled b)),
       (''tracingSampleRate'', g_float (obs_tracing_sample_rate b)),
       (''dashboardEnabled'', GBool (obs_dashboard_enabled b))])"

text \<open>\<open>mapAny\<close> never returns \<open>nil\<close>, so the disk is always read.\<close>

definition build_vm_params :: "provision_params \<Rightarrow> go_map \<Rightarrow> go_map" where
  "build_vm_params p m =
     (let bootDisk = map_any (go_get m ''bootDisk'');
          diskSizeGb = int_any (go_get bootDisk ''sizeGiB'') 30;
          dt = str_any (go_get bootDisk ''type'') [];
          diskType = (if dt = [] then ''gp3'' else dt);
          explicit = str_any (go_get m ''subnetId'') [];
          subnetId = (if explicit \<noteq> [] then explicit
            else case as_string (go_get m ''subnetTier'') of None \<Rightarrow> [] | Some t \<Rightarrow> ''subnet-from-tier-'' @ t);
          keyPairName = str_any (go_get m ''sshKeyName'') [];
          userData = str_any (go_get m ''userData'') [];
          publicIp = (case as_map (go_get m ''spot'') of
              None \<Rightarrow> False
            | Some spot \<Rightarrow> bool_any (go_get spot ''enabled'') False \<and> bool_any (go_get spot ''publicIp'') False);
          instanceType = str_any (go_get m ''instanceType'') [];
          ami = str_any (go_get m ''ami'') []
      in [region_entry p, aws_provider, (''instanceType'', GStr instanceType), (''ami'', GStr ami),
          (''subnetId'', GStr subnetId), (''securityGroupIds'', GStrList []), (''diskSizeGb'', GInt diskSizeGb),
          (''diskType'', GStr diskType), (''keyPairName'', GStr keyPairName), (''publicIp'', GBool publicIp),
          (''userData'', GStr userData),
          (''iamRolePolicies'', GStrList [''arn:aws:iam::aws:policy/AmazonSSMManagedInstanceCore'']),
          (''tags'', GStrMap []), (''overrides'', GMap [])])"

definition build_block_storage_params :: "provision_params \<Rightarrow> go_map \<Rightarrow> go_map" where
  "build_block_storage_params p m =
     (let default = [(''sizeGiB'', GInt 100), (''type'', GStr ''gp3''), (''multiAZ'', GBool False)];
          volume = (case as_list (go_get m ''volumes'') of
              Some (v # vs) \<Rightarrow> (case as_map v of Some vol \<Rightarrow> vol | None \<Rightarrow> default)
            | _ \<Rightarrow> default)
      in [region_entry p, aws_provider, (''sizeGb'', GInt (int_any (go_get volume ''sizeGiB'') 100)),
          (''availabilityZone'', GStr []), (''volumeType'', go_get volume ''type''), (''encrypted'', GBool True),
          (''iops'', GInt (int_any (go_get volume ''iops'') 0)),
          (''throughput'', GInt (int_any (go_get volume ''throughput'') 0)), (''kmsKeyId'', GStr []),
          (''tags'', GStrMap []), (''overrides'', GMap [])])"

text \<open>Both branches on \<open>multiAZ\<close> leave the availability zone empty.\<close>

definition build_file_storage_params :: "provision_params \<Rightarrow> go_map \<Rightarrow> go_map" where
  "build_file_storage_params p m =
     (let provisioned = int_any (go_get m ''provisionedThroughputMiBs'') 0;
          mode = str_any (go_get m ''throughputMode'') ''bursting'';
          r0 = [region_entry p, aws_provider, (''creationToken'', GStr (pp_request_name p @ ''-efs'')),
            (''encrypted'', GBool True), (''performanceMode'', go_get m ''performanceMode''),
            (''throughputMode'', GStr mode), (''availabilityZoneName'', GStr []),
            (''nameTag'', GStr (pp_request_name p @ ''-efs'')), (''tags'', GStrMap [])];
          r1 = put_if (mode = ''provisioned'' \<and> provisioned > 0) ''provisionedThroughputInMibps''
                 (GFloat provisioned 1) r0;
          kms = str_any (go_get m ''kmsKeyId'') []
      in put_if (kms \<noteq> []) ''kmsKeyId'' (GStr kms) r1)"

definition copy_key :: "go_map \<Rightarrow> string \<Rightarrow> string \<Rightarrow> go_map \<Rightarrow> go_map" where
  "copy_key m k k' r = (case map_of m k of None \<Rightarrow> r | Some v \<Rightarrow> alist_put k' v r)"

definition cdn_origin :: "provision_params \<Rightarrow> string \<Rightarrow> go_map" where
  "cdn_origin p originType =
     (let domainName = (if originType = ''s3'' then pp_request_name p @ ''.s3.amazonaws.com''
            else if originType = ''alb'' then ''alb-'' @ pp_request_name p @ ''.internal''
            else ''example.com'')
      in [(''name'', GStr ''default-origin''), (''domainName'', GStr domainName),
          (''originProtocolPolicy'', GStr ''match-viewer''), (''httpPort'', GInt 80), (''httpsPort'', GInt 443),
          (''originSslProtocols'', GStrList [''TLSv1.2''])])"

definition build_cdn_params :: "provision_params \<Rightarrow> go_map \<Rightarrow> go_map" where
  "build_cdn_params p m =
     (let origins = (case as_string (go_get m ''originType'') of None \<Rightarrow> [] | Some t \<Rightarrow> [cdn_origin p t]);
          behaviour = [(''targetOriginName'', GStr ''default-origin''),
            (''viewerProtocolPolicy'', GStr ''redirect-to-https''),
            (''allowedMethods'', GStrList [''GET'', ''HEAD'', ''OPTIONS'']),
            (''cachedMethods'', GStrList [''GET'', ''HEAD'', ''OPTIONS'']),
            (''cachePolicyId'', GStr ''658327ea-f89d-4fab-a63d-7e88639e58f6''), (''compress'', GBool True)];
          wafEnabled = (case as_map (go_get m ''waf'') of
            None \<Rightarrow> False | Some w \<Rightarrow> bool_any (go_get w ''enabled'') False);
          r0 = [aws_provider, (''enabled'', GBool True), (''priceClass'', go_get m ''priceClass''),
            (''httpVersion'', GStr ''http2''), (''isIpv6Enabled'', GBool True), (''waitForDeployment'', GBool True),
            (''origins'', GMapList origins), (''defaultCacheBehavior'', GMap behaviour)];
          r1 = copy_key m ''customDomains'' ''aliases'' r0;
          r2 = copy_key m ''defaultRootObject'' ''defaultRootObject'' r1;
          r3 = copy_key m ''comment'' ''comment'' r2
      in put_if wafEnabled ''tags'' (GMap [(''waf'', GStr ''enabled'')]) r3)"

definition managed_policies :: "string list" where
  "managed_policies = [''ReadOnlyAccess'', ''AdministratorAccess'', ''AmazonS3FullAccess'',
     ''AmazonDynamoDBFullAccess'', ''AmazonEC2FullAccess'', ''AmazonRDSFullAccess'', ''AmazonVPCFullAccess'',
     ''AWSCloudFormationFullAccess'', ''AWSLambda_FullAccess'', ''AmazonSSMManagedInstanceCore'']"

definition map_policy_name_to_arn :: "string \<Rightarrow> string" where
  "map_policy_name_to_arn policyName =
     (if List.member managed_policies policyName then ''arn:aws:iam::aws:policy/'' @ policyName
      else if has_prefix policyName ''arn:aws:iam::'' then policyName else [])"

definition to_json_array :: "string list \<Rightarrow> string" where
  "to_json_array items = (if items = [] then ''[]'' else ''['' @ join_with '','' (map go_quote items) @ '']'')"

definition dq :: "string \<Rightarrow> string" where
  "dq s = [CHR 0x22] @ s @ [CHR 0x22]"

definition inline_policy_json :: "string \<Rightarrow> string list \<Rightarrow> string list \<Rightarrow> string" where
  "inline_policy_json effect actions resources =
     ''{'' @ dq ''Version'' @ '':'' @ dq ''2012-10-17'' @ '','' @ dq ''Statement'' @ '':[{'' @ dq ''Effect'' @ '':''
     @ dq effect @ '','' @ dq ''Action'' @ '':'' @ to_json_array actions @ '','' @ dq ''Resource'' @ '':''
     @ to_json_array resources @ ''}]}''"

text \<open>One element of the slice of policies: a string names a managed policy, a map defines an
  inline one, and the last inline definition wins.\<close>

definition identity_policy :: "go_any \<Rightarrow> string list \<times> string \<Rightarrow> string list \<times> string" where
  "identity_policy q st =
     (case q of
        GStr name \<Rightarrow>
          (let arn = map_policy_name_to_arn name
           in if arn \<noteq> [] then (fst st @ [arn], snd st) else st)
      | GMap pol \<Rightarrow>
          (case as_string (go_get pol ''effect'') of
             None \<Rightarrow> st
           | Some effect \<Rightarrow>
               let actions = string_slice (go_get pol ''actions'');
                   resources = (case go_get pol ''resource'' of
                       GList xs \<Rightarrow> List.map_filter as_string xs | GStr s \<Rightarrow> [s] | _ \<Rightarrow> [])
               in if actions \<noteq> [] \<and> resources \<noteq> []
                  then (fst st, inline_policy_json effect actions resources) else st)
      | _ \<Rightarrow> st)"

definition build_identity_params :: "provision_params \<Rightarrow> go_map \<Rightarrow> go_map" where
  "build_identity_params p m =
     (let identityType = (case as_string (go_get m ''type'') of
            Some t \<Rightarrow> if t = ''service'' \<or> t = ''irsa'' \<or> t = ''federation'' then t else ''service''
          | None \<Rightarrow> ''service'');
          (managedPolicies, inlinePolicy) = (case as_list (go_get m ''policies'') of
              None \<Rightarrow> ([], []) | Some ps \<Rightarrow> fold identity_policy ps ([], []));
          oidc = (case as_map (go_get m ''serviceAccounts'') of
              None \<Rightarrow> []
            | Some sa \<Rightarrow>
                if identityType \<noteq> ''irsa'' then []
                else let o0 = (case as_string (go_get sa ''namespace'') of None \<Rightarrow> [] | Some n \<Rightarrow> [(''namespace'', GStr n)]);
                         o1 = (case as_string (go_get sa ''serviceAccount'') of
                             None \<Rightarrow> o0 | Some n \<Rightarrow> alist_put ''serviceAccount'' (GStr n) o0)
                     in alist_put ''issuerUrl'' (GStr (''https://oidc.eks.'' @ pp_primary_region p
                          @ ''.amazonaws.com/id/EXAMPLEClusterID'')) o1);
          federationProvider = (case as_map (go_get m ''federation'') of
              None \<Rightarrow> []
            | Some fed \<Rightarrow> if identityType \<noteq> ''federation'' then [] else str_any (go_get fed ''provider'') []);
          r0 = [aws_provider, (''type'', GStr identityType), (''managedPolicies'', GStrList managedPolicies),
            (''tags'', GStrMap []), (''overrides'', GMap [])];
          r1 = (if identityType = ''service'' then alist_put ''servicePrincipal''
                  (GStr (str_any (go_get m ''servicePrincipal'') ''lambda.amazonaws.com'')) r0
                else if identityType = ''irsa'' then put_if (oidc \<noteq> []) ''oidc'' (GMap oidc) r0
                else put_if (federationProvider \<noteq> []) ''federationProvider'' (GStr federationProvider) r0)
      in put_if (inlinePolicy \<noteq> []) ''inlinePolicy'' (GStr inlinePolicy) r1)"

definition param_builders :: "(string \<times> (provision_params \<Rightarrow> go_map \<Rightarrow> go_map)) list" where
  "param_builders =
     [(''blockStorage'', build_block_storage_params), (''cache'', build_cache_params), (''cdn'', build_cdn_params),
      (''database'', build_database_params), (''dns'', build_dns_params), (''fileStorage'', build_file_storage_params),
      (''identity'', build_identity_params), (''kubernetes'', build_kubernetes_params),
      (''loadBalancer'', build_load_balancer_params), (''messaging'', build_messaging_params),
      (''objectStorage'', build_object_store_params), (''observability'', build_observability_params),
      (''secrets'', build_secrets_params), (''vm'', build_vm_params), (''vpc'', build_vpc_params)]"

section \<open>Tags\<close>

definition extract_tags :: "go_map \<Rightarrow> (string \<times> string) list" where
  "extract_tags parts =
     (case map_of parts ''tags'' of
        Some (GStrMap v) \<Rightarrow> v
      | Some (GMap v) \<Rightarrow>
          (let strings = List.map_filter (\<lambda>(k, x). map_option (\<lambda>s. (k, s)) (as_string x)) v
           in case map_of v ''tags'' of Some (GStrMap (t # ts)) \<Rightarrow> t # ts | _ \<Rightarrow> strings)
      | _ \<Rightarrow> [])"

definition merge_tags_into_parameters :: "go_map \<Rightarrow> (string \<times> string) list \<Rightarrow> go_map" where
  "merge_tags_into_parameters params tags =
     (if tags = [] then params
      else let existing = (case as_str_map (go_get params ''tags'') of None \<Rightarrow> [] | Some t \<Rightarrow> t)
           in alist_put ''tags'' (GStrMap (fold (\<lambda>(k, v) t. alist_put k v t) tags existing)) params)"

section \<open>Documents\<close>

definition xr_document ::
  "(string \<Rightarrow> string) \<Rightarrow> provision_params \<Rightarrow> string \<Rightarrow> string \<Rightarrow> go_map \<Rightarrow> go_map" where
  "xr_document title p cap provider parameters =
     (let ref = resolve_composition_ref cap provider in
      [(''apiVersion'', GStr ''infrastructure.platform.io/v1alpha1''),
       (''kind'', GStr (resolve_xrd_kind title cap)),
       (''metadata'', GMap [(''name'', GStr (pp_request_name p @ ''-'' @ cap)), (''namespace'', GStr (pp_namespace p)),
          (''labels'', GStrMap [(''app.kubernetes.io/managed-by'', ''release-engine''),
             (''platform.io/tenant'', pp_tenant p), (''platform.io/environment'', pp_environment p),
             (''platform.io/catalogue-item'', pp_catalogue_item p)]),
          (''annotations'', GStrMap [(''platform.io/contract-version'', pp_contract_version p),
             (''platform.io/composition-ref'', ref)])]),
       (''spec'', GMap [(''compositionRef'', GMap [(''name'', GStr ref)]), (''parameters'', GMap parameters)])])"

fun build_docs ::
  "(string \<Rightarrow> string) \<Rightarrow> provision_params \<Rightarrow> go_map \<Rightarrow> (string \<times> string) list \<Rightarrow> string list
     \<Rightarrow> string + go_map list" where
  "build_docs title p parts tags [] = Inr []"
| "build_docs title p parts tags (k # ks) =
     (if k = ''tags'' then build_docs title p parts tags ks
      else case map_of (capabilities p) k of
        None \<Rightarrow> Inl (''capability '' @ go_quote k @ '' not recognised'')
      | Some cap \<Rightarrow>
          if \<not> is_enabled cap then build_docs title p parts tags ks
          else case resolve_provider cap (pp_default_provider p) of
            Inl e \<Rightarrow> Inl (''capability '' @ go_quote k @ '': '' @ e)
          | Inr provider \<Rightarrow>
              (case map_of supported_providers k of
                 None \<Rightarrow> Inl (''capability '' @ go_quote k @ '' not recognised'')
               | Some supported \<Rightarrow>
                   if \<not> List.member supported provider
                   then Inl (''provider '' @ go_quote provider @ '' not supported for capability '' @ go_quote k
                     @ '', supported: ['' @ join_with '' '' supported @ '']'')
                   else case map_of param_builders k of
                     None \<Rightarrow> Inl (''no parameter builder for capability '' @ go_quote k)
                   | Some builder \<Rightarrow>
                       let raw0 = map_any (go_get parts k);
                           raw = (if tags \<noteq> [] then alist_put ''tags'' (GStrMap tags) raw0 else raw0);
                           doc = xr_document title p k provider (merge_tags_into_parameters (builder p raw) tags)
                       in case build_docs title p parts tags ks of
                            Inl e \<Rightarrow> Inl e | Inr docs \<Rightarrow> Inr (doc # docs)))"

definition build_xrs :: "(string \<Rightarrow> string) \<Rightarrow> provision_params \<Rightarrow> go_map \<Rightarrow> string + go_map list" where
  "build_xrs title p parts = build_docs title p parts (extract_tags parts) (sort (map fst parts))"

end
