(* ===== verification/Infra_Catalog.thy ===== *)
theory Infra_Catalog
  imports Infra_Params
begin

text \<open>
  Provisioning templates: \<open>src/internal/module/infra/template/catalog/catalog.go\<close> and the three
  embedded definitions beside it. What \<open>yaml.Unmarshal\<close> makes of an embedded file is a parameter
  of \<open>load_all\<close>; \<open>embedded_definitions\<close> is that result for the files of the repository. Go
  ranges over maps in an unspecified order; the model takes the order of the association list,
  on which only the choice between several error messages depends.
\<close>

record catalog_constraints =
  allowed_environments :: "string list"
  allowed_workload_profiles :: "string list"
  allowed_availabilities :: "string list"
  allowed_residencies :: "string list"
  allowed_providers :: "string list"
  requires_approval :: bool
  max_cost_monthly :: go_float

record template_catalog =
  cat_name :: string
  cat_description :: string
  cat_version :: string
  required_capabilities :: "string list"
  optional_capabilities :: "string list"
  forbidden_capabilities :: "string list"
  cat_constraints :: catalog_constraints
  cat_defaults :: "go_map option"

section \<open>Loading\<close>

datatype entry_data = Read_failed string | Parse_failed string | Parsed template_catalog

record dir_entry =
  de_name :: string
  de_is_dir :: bool
  de_data :: entry_data

fun load_entries :: "dir_entry list \<Rightarrow> (string \<times> template_catalog) list
    \<Rightarrow> string + (string \<times> template_catalog) list" where
  "load_entries [] cats = Inr cats"
| "load_entries (e # es) cats =
     (if de_is_dir e then load_entries es cats
      else case de_data e of
        Read_failed m \<Rightarrow> Inl (''read '' @ de_name e @ '': '' @ m)
      | Parse_failed m \<Rightarrow> Inl (''parse '' @ de_name e @ '': '' @ m)
      | Parsed c \<Rightarrow>
          if cat_name c = [] then Inl (''parse '' @ de_name e @ '': missing name'')
          else load_entries es (alist_put (cat_name c) c cats))"

definition load_all :: "string + dir_entry list \<Rightarrow> string + (string \<times> template_catalog) list" where
  "load_all dir = (case dir of Inl m \<Rightarrow> Inl (''read catalog dir: '' @ m) | Inr es \<Rightarrow> load_entries es [])"

section \<open>Validation\<close>

definition unknown_capability :: "(string \<times> string list) list \<Rightarrow> template_catalog \<Rightarrow> string option" where
  "unknown_capability sp cat =
     List.find (\<lambda>c. map_of sp c = None) (required_capabilities cat @ optional_capabilities cat)"

definition unsupported_provider :: "(string \<times> string list) list \<Rightarrow> template_catalog \<Rightarrow> string option" where
  "unsupported_provider sp cat =
     List.find (\<lambda>p. \<not> list_ex (\<lambda>c. case map_of sp c of None \<Rightarrow> False | Some ps \<Rightarrow> List.member ps p)
       (required_capabilities cat)) (allowed_providers (cat_constraints cat))"

fun validate_catalogs ::
  "(string \<times> string list) list \<Rightarrow> (string \<times> template_catalog) list \<Rightarrow> string option" where
  "validate_catalogs sp [] = None"
| "validate_catalogs sp ((name, cat) # cats) =
     (case unknown_capability sp cat of
        Some c \<Rightarrow> Some (''catalogue '' @ go_quote name @ '' references unknown capability '' @ go_quote c)
      | None \<Rightarrow>
          (case unsupported_provider sp cat of
             Some p \<Rightarrow> Some (''catalogue '' @ go_quote name @ '' allows provider '' @ go_quote p
               @ '' but no required capability supports it'')
           | None \<Rightarrow> validate_catalogs sp cats))"

definition not_allowed :: "string list \<Rightarrow> string \<Rightarrow> bool" where
  "not_allowed allowed v \<longleftrightarrow> allowed \<noteq> [] \<and> \<not> List.member allowed v"

definition catalog_validate_params ::
  "template_catalog \<Rightarrow> string \<Rightarrow> string \<Rightarrow> string \<Rightarrow> string \<Rightarrow> string option" where
  "catalog_validate_params c environment workloadProfile availability residency =
     (let k = cat_constraints c;
          msg = (\<lambda>what v. Some (what @ '' '' @ go_quote v @ '' not allowed by template '' @ go_quote (cat_name c)))
      in if not_allowed (allowed_environments k) environment then msg ''environment'' environment
         else if not_allowed (allowed_workload_profiles k) workloadProfile
         then msg ''workload_profile'' workloadProfile
         else if not_allowed (allowed_availabilities k) availability then msg ''availability'' availability
         else if not_allowed (allowed_residencies k) residency then msg ''residency'' residency
         else None)"

definition go_list :: "string list \<Rightarrow> string" where
  "go_list xs = ''['' @ join_with '' '' xs @ '']''"

definition catalog_validate_provider :: "template_catalog \<Rightarrow> string \<Rightarrow> string option" where
  "catalog_validate_provider c provider =
     (let ps = allowed_providers (cat_constraints c) in
      if ps = [] then None
      else if \<not> List.member ps provider
      then Some (''provider '' @ go_quote provider @ '' not allowed for template ''
             @ go_quote (cat_name c) @ '', supported: '' @ go_list ps)
      else None)"

text \<open>\<open>CapabilityInfo\<close> has the fields of the interface \<open>Capability\<close>.\<close>

definition provider_of :: "capability \<Rightarrow> string \<Rightarrow> string" where
  "provider_of cap defaultProvider =
     (let p = (if get_provider cap = [] then defaultProvider else get_provider cap)
      in if p = [] then ''aws'' else p)"

fun first_provider_error ::
  "template_catalog \<Rightarrow> (string \<times> capability) list \<Rightarrow> string \<Rightarrow> string option" where
  "first_provider_error c [] dp = None"
| "first_provider_error c ((n, cap) # caps) dp =
     (if \<not> is_enabled cap then first_provider_error c caps dp
      else case catalog_validate_provider c (provider_of cap dp) of
        Some e \<Rightarrow> Some e
      | None \<Rightarrow> first_provider_error c caps dp)"

definition cap_on :: "(string \<times> capability) list \<Rightarrow> string \<Rightarrow> bool" where
  "cap_on caps n \<longleftrightarrow> (case map_of caps n of None \<Rightarrow> False | Some cap \<Rightarrow> is_enabled cap)"

definition catalog_validate_capabilities ::
  "template_catalog \<Rightarrow> (string \<times> capability) list \<Rightarrow> string \<Rightarrow> string option" where
  "catalog_validate_capabilities c caps dp =
     (case List.find (\<lambda>r. \<not> cap_on caps r) (required_capabilities c) of
        Some r \<Rightarrow> Some (''capability '' @ go_quote r @ '' is required by template '' @ go_quote (cat_name c))
      | None \<Rightarrow>
          (case List.find (cap_on caps) (forbidden_capabilities c) of
             Some f \<Rightarrow> Some (''capability '' @ go_quote f @ '' is forbidden by template '' @ go_quote (cat_name c))
           | None \<Rightarrow> first_provider_error c caps dp))"

section \<open>The embedded definitions\<close>

definition k8s_app :: template_catalog where
  "k8s_app = \<lparr>cat_name = ''k8s-app'',
     cat_description = ''Kubernetes application and optional data/platform services'', cat_version = ''1.0'',
     required_capabilities = [''kubernetes''],
     optional_capabilities = [''database'', ''cache'', ''objectStorage'', ''blockStorage'', ''fileStorage'',
       ''vpc'', ''loadBalancer'', ''dns'', ''cdn'', ''messaging'', ''identity'', ''secrets'', ''observability''],
     forbidden_capabilities = [''vm''],
     cat_constraints = \<lparr>allowed_environments = [''development'', ''staging'', ''production''],
       allowed_workload_profiles = [''small'', ''medium'', ''large'', ''xlarge''],
       allowed_availabilities = [''standard'', ''high'', ''critical''],
       allowed_residencies = [''eu'', ''us'', ''ap'', ''global''], allowed_providers = [''aws'', ''azure''],
       requires_approval = True, max_cost_monthly = (50000, 1)\<rparr>,
     cat_defaults = Some [(''kubernetes_tier'', GStr ''standard''), (''default_provider'', GStr ''aws'')]\<rparr>"

definition vm_app :: template_catalog where
  "vm_app = \<lparr>cat_name = ''vm-app'', cat_description = ''VM workload baseline'', cat_version = ''1.0'',
     required_capabilities = [''vm''],
     optional_capabilities = [''database'', ''objectStorage'', ''blockStorage'', ''fileStorage'', ''vpc'',
       ''loadBalancer'', ''dns'', ''identity'', ''secrets'', ''observability''],
     forbidden_capabilities = [''kubernetes'', ''cdn''],
     cat_constraints = \<lparr>allowed_environments = [''development'', ''staging'', ''production''],
       allowed_workload_profiles = [''small'', ''medium'', ''large'', ''xlarge''],
       allowed_availabilities = [''standard'', ''high''],
       allowed_residencies = [''eu'', ''us''], allowed_providers = [''aws'', ''azure''],
       requires_approval = True, max_cost_monthly = (30000, 1)\<rparr>,
     cat_defaults = Some [(''default_provider'', GStr ''aws'')]\<rparr>"

definition data_proc :: template_catalog where
  "data_proc = \<lparr>cat_name = ''data-proc'',
     cat_description = ''Data processing baseline with Kubernetes, messaging and object storage'',
     cat_version = ''1.0'', required_capabilities = [''kubernetes'', ''objectStorage'', ''messaging''],
     optional_capabilities = [''database'', ''cache'', ''blockStorage'', ''fileStorage'', ''vpc'', ''identity'',
       ''secrets'', ''observability''],
     forbidden_capabilities = [''vm'', ''cdn''],
     cat_constraints = \<lparr>allowed_environments = [''development'', ''staging'', ''production''],
       allowed_workload_profiles = [''medium'', ''large'', ''xlarge''],
       allowed_availabilities = [''standard'', ''high'', ''critical''],
       allowed_residencies = [''eu'', ''us'', ''global''], allowed_providers = [''aws'', ''gcp''],
       requires_approval = False, max_cost_monthly = (80000, 1)\<rparr>,
     cat_defaults = Some [(''kubernetes_tier'', GStr ''advanced''),
       (''object_storage_versioning'', GBool True), (''default_provider'', GStr ''aws'')]\<rparr>"

definition embedded_definitions :: "dir_entry list" where
  "embedded_definitions =
     [\<lparr>de_name = ''data-proc.yaml'', de_is_dir = False, de_data = Parsed data_proc\<rparr>,
      \<lparr>de_name = ''k8s-app.yaml'', de_is_dir = False, de_data = Parsed k8s_app\<rparr>,
      \<lparr>de_name = ''vm-app.yaml'', de_is_dir = False, de_data = Parsed vm_app\<rparr>]"

section \<open>Lemmas\<close>

lemma load_entries_names:
  "load_entries es cats = Inr cs \<Longrightarrow> \<forall>(n, c) \<in> set cats. cat_name c = n \<and> n \<noteq> []
     \<Longrightarrow> \<forall>(n, c) \<in> set cs. cat_name c = n \<and> n \<noteq> []"
proof (induction es cats rule: load_entries.induct)
  case (2 e es cats)
  have put: "\<forall>(n, c) \<in> set (alist_put k v m). cat_name c = n \<and> n \<noteq> []"
    if "\<forall>(n, c) \<in> set m. cat_name c = n \<and> n \<noteq> []" "cat_name v = k" "k \<noteq> []"
    for k v and m :: "(string \<times> template_catalog) list"
    using that by (induction k v m rule: alist_put.induct) auto
  show ?case using 2 put by (auto split: if_splits entry_data.splits)
qed simp

lemma first_provider_error_None:
  "first_provider_error c caps dp = None \<longleftrightarrow>
     (\<forall>(n, cap) \<in> set caps. is_enabled cap \<longrightarrow> catalog_validate_provider c (provider_of cap dp) = None)"
  by (induction c caps dp rule: first_provider_error.induct) (auto split: option.splits)

lemma catalog_validate_capabilities_None:
  "catalog_validate_capabilities c caps dp = None \<longleftrightarrow>
     (\<forall>r \<in> set (required_capabilities c). cap_on caps r)
     \<and> (\<forall>f \<in> set (forbidden_capabilities c). \<not> cap_on caps f)
     \<and> (\<forall>(n, cap) \<in> set caps. is_enabled cap \<longrightarrow>
          allowed_providers (cat_constraints c) = []
          \<or> provider_of cap dp \<in> set (allowed_providers (cat_constraints c)))"
  unfolding catalog_validate_capabilities_def
  by (auto simp: find_none first_provider_error_None catalog_validate_provider_def Let_def
      split: option.splits if_splits dest: find_Some_in)

lemma catalog_validate_params_None:
  "catalog_validate_params c e w a r = None \<longleftrightarrow>
     \<not> not_allowed (allowed_environments (cat_constraints c)) e
     \<and> \<not> not_allowed (allowed_workload_profiles (cat_constraints c)) w
     \<and> \<not> not_allowed (allowed_availabilities (cat_constraints c)) a
     \<and> \<not> not_allowed (allowed_residencies (cat_constraints c)) r"
  by (simp add: catalog_validate_params_def Let_def)

lemma embedded_catalogs:
  "load_all (Inr embedded_definitions)
   = Inr [(''data-proc'', data_proc), (''k8s-app'', k8s_app), (''vm-app'', vm_app)]"
  by (simp add: load_all_def embedded_definitions_def data_proc_def k8s_app_def vm_app_def)

end
