(* ===== verification/Infra_Engine.thy ===== *)
theory Infra_Engine
  imports Infra_Xr Infra_Catalog "HOL-Library.Multiset"
begin

text \<open>
  The template engine: \<open>src/internal/module/infra/template/engine.go\<close>, \<open>validate.go\<close>, the
  deterministic YAML output at the end of \<open>xr.go\<close>, and the entry point
  \<open>src/internal/module/infra/render.go\<close>. The YAML package is outside the repository: reading a
  document into nodes and printing nodes are parameters. \<open>Render\<close> changes the parameters it is
  given by filling in the defaults of the catalogue item; the model passes the changed value on.
\<close>

section \<open>Global validation\<close>

definition leap_year :: "nat \<Rightarrow> bool" where
  "leap_year y \<longleftrightarrow> y mod 4 = 0 \<and> (y mod 100 \<noteq> 0 \<or> y mod 400 = 0)"

definition days_in :: "nat \<Rightarrow> nat \<Rightarrow> nat" where
  "days_in m y = (if m = 2 then (if leap_year y then 29 else 28) else if m \<in> {4, 6, 9, 11} then 30 else 31)"

text \<open>\<open>time.Parse\<close> with the layout \<open>2006-01-02\<close>: four, two and two digits, a month of the year and
  a day of that month.\<close>

definition valid_date :: "string \<Rightarrow> bool" where
  "valid_date s \<longleftrightarrow>
     length s = 10 \<and> s ! 4 = CHR ''-'' \<and> s ! 7 = CHR ''-''
     \<and> list_all is_digit (take 4 s) \<and> list_all is_digit (take 2 (drop 5 s)) \<and> list_all is_digit (drop 8 s)
     \<and> (let y = digits_val (take 4 s); m = digits_val (take 2 (drop 5 s)); d = digits_val (drop 8 s)
        in 1 \<le> m \<and> m \<le> 12 \<and> 1 \<le> d \<and> d \<le> days_in m y)"

definition required :: "string \<Rightarrow> string \<Rightarrow> string list" where
  "required v msg = (if v = [] then [msg] else [])"

definition reject :: "bool \<Rightarrow> string \<Rightarrow> string list" where
  "reject b msg = (if b then [msg] else [])"

definition validate_errors :: "provision_params \<Rightarrow> string list" where
  "validate_errors p =
     required (pp_contract_version p) ''contract_version is required''
     @ required (pp_request_name p) ''request_name is required''
     @ required (pp_tenant p) ''tenant is required''
     @ required (pp_owner p) ''owner is required''
     @ required (pp_environment p) ''environment is required''
     @ required (pp_catalogue_item p) ''catalogue_item is required''
     @ required (pp_namespace p) ''namespace is required''
     @ required (pp_primary_region p) ''primary_region is required''
     @ required (pp_availability p) ''availability is required''
     @ required (pp_data_classification p) ''data_classification is required''
     @ required (pp_ingress_mode p) ''ingress_mode is required''
     @ required (pp_egress_mode p) ''egress_mode is required''
     @ required (pp_cost_centre p) ''cost_centre is required for FinOps cost allocation''
     @ reject (pp_dr_required p \<and> pp_secondary_region p = []) ''secondary_region required when dr_required is true''
     @ reject (pp_availability p = ''critical'' \<and> \<not> pp_dr_required p)
         ''dr_required must be true when availability is critical''
     @ reject (pp_availability p = ''critical'' \<and> \<not> pp_backup_required p)
         ''backup_required must be true when availability is critical''
     @ reject (pp_data_classification p = ''restricted'' \<and> \<not> pp_backup_required p)
         ''backup_required must be true for restricted data classification''
     @ reject (pp_ttl p \<noteq> [] \<and> \<not> valid_date (pp_ttl p))
         (''ttl must be in ISO 8601 date format (YYYY-MM-DD), got: '' @ pp_ttl p)"

definition validate_params :: "provision_params \<Rightarrow> string option" where
  "validate_params p =
     (let errs = validate_errors p; sep = [CHR 0x0A] @ ''  - ''
      in if errs \<noteq> [] then Some (''validation errors:'' @ sep @ join_with sep errs) else None)"

section \<open>The engine\<close>

record engine =
  en_fragments :: "fragment list"
  en_catalogs :: "(string \<times> template_catalog) list"

definition validate_at_least_one_capability :: "provision_params \<Rightarrow> string option" where
  "validate_at_least_one_capability p =
     (if k8s_enabled (pp_kubernetes p) \<or> vm_enabled (pp_vm p) \<or> db_enabled (pp_database p)
         \<or> os_enabled (pp_object_store p) \<or> bs_enabled (pp_block_store p) \<or> fs_enabled (pp_file_store p)
         \<or> vpc_enabled (pp_vpc p) \<or> msg_enabled (pp_messaging p) \<or> cache_enabled (pp_cache p)
         \<or> dns_enabled (pp_dns p) \<or> lb_enabled (pp_load_balancer p) \<or> cdn_enabled (pp_cdn p)
         \<or> idn_enabled (pp_identity p) \<or> sec_enabled (pp_secrets p) \<or> obs_enabled (pp_observability p)
      then None else Some ''at least one infrastructure capability must be enabled'')"

definition validate_cross_cutting :: "provision_params \<Rightarrow> string option" where
  "validate_cross_cutting p =
     (if vm_enabled (pp_vm p) \<and> k8s_enabled (pp_kubernetes p)
      then Some ''cannot enable both kubernetes and virtual machines''
      else if bs_enabled (pp_block_store p) \<and> \<not> vm_enabled (pp_vm p)
      then Some ''block_store requires vm to be enabled''
      else if pp_availability p = ''critical'' \<and> \<not> obs_enabled (pp_observability p)
      then Some ''observability must be enabled for critical availability''
      else None)"

definition default_string :: "go_map \<Rightarrow> string \<Rightarrow> string \<Rightarrow> string" where
  "default_string ds k v = (if v = [] then str_any (go_get ds k) v else v)"

definition default_flag :: "go_map \<Rightarrow> string \<Rightarrow> bool \<Rightarrow> bool" where
  "default_flag ds k b = (if \<not> b then bool_any (go_get ds k) b else b)"

definition apply_catalog_defaults :: "template_catalog \<Rightarrow> provision_params \<Rightarrow> provision_params" where
  "apply_catalog_defaults cat p =
     (case cat_defaults cat of
        None \<Rightarrow> p
      | Some ds \<Rightarrow>
          p\<lparr>pp_kubernetes := (pp_kubernetes p)\<lparr>k8s_tier := default_string ds ''kubernetes_tier'' (k8s_tier (pp_kubernetes p))\<rparr>,
            pp_database := (pp_database p)\<lparr>
              db_engine := default_string ds ''database_engine'' (db_engine (pp_database p)),
              db_tier := default_string ds ''database_tier'' (db_tier (pp_database p)),
              db_backup_enabled := default_flag ds ''database_backup_enabled'' (db_backup_enabled (pp_database p))\<rparr>,
            pp_cache := (pp_cache p)\<lparr>
              cache_engine := default_string ds ''cache_engine'' (cache_engine (pp_cache p)),
              cache_tier := default_string ds ''cache_tier'' (cache_tier (pp_cache p))\<rparr>,
            pp_object_store := (pp_object_store p)\<lparr>
              os_class := default_string ds ''object_storage_class'' (os_class (pp_object_store p)),
              os_versioning := default_flag ds ''object_storage_versioning'' (os_versioning (pp_object_store p))\<rparr>\<rparr>)"

definition apply_catalog :: "engine \<Rightarrow> provision_params \<Rightarrow> string option \<times> provision_params" where
  "apply_catalog e p =
     (if en_catalogs e = [] \<or> pp_catalogue_item p = [] then (None, p)
      else case map_of (en_catalogs e) (pp_catalogue_item p) of
        None \<Rightarrow> (Some (''catalog '' @ go_quote (pp_catalogue_item p) @ '' not found''), p)
      | Some cat \<Rightarrow>
          let q = apply_catalog_defaults cat p in
          case catalog_validate_params cat (pp_environment q) (pp_workload_profile q) (pp_availability q)
                 (pp_residency q) of
            Some er \<Rightarrow> (Some (''catalog validation failed: '' @ er), q)
          | None \<Rightarrow>
              (case catalog_validate_capabilities cat (capabilities q) (pp_default_provider q) of
                 Some er \<Rightarrow> (Some (''catalog capability validation failed: '' @ er), q)
               | None \<Rightarrow> (None, q)))"

text \<open>The loop over the fragments fills two maps: every part, and the parts that have a builder.\<close>

definition add_part :: "go_map \<times> go_map \<Rightarrow> string \<times> go_any \<Rightarrow> go_map \<times> go_map" where
  "add_part st kv = (alist_put (fst kv) (snd kv) (fst st),
     if map_of param_builders (fst kv) \<noteq> None then alist_put (fst kv) (snd kv) (snd st) else snd st)"

fun render_fragments ::
  "fragment list \<Rightarrow> provision_params \<Rightarrow> go_map \<times> go_map \<Rightarrow> (go_map \<times> go_map) outcome" where
  "render_fragments [] p st = Ret st"
| "render_fragments (f # fs) p st =
     (if \<not> fr_applicable f p then render_fragments fs p st
      else case fr_validate f p of
        Some er \<Rightarrow> Fail (''fragment '' @ fr_name f @ '' validation failed: '' @ er)
      | None \<Rightarrow>
          (case fr_render f p of
             Panics er \<Rightarrow> Panics er
           | Fail er \<Rightarrow> Fail (''fragment '' @ fr_name f @ '' render failed: '' @ er)
           | Ret part \<Rightarrow> render_fragments fs p (foldl add_part st part)))"

definition inject_tags :: "go_map \<Rightarrow> go_map \<Rightarrow> go_map" where
  "inject_tags specParts capabilityParts =
     (case map_of specParts ''tags'' of
        Some (GMap tags) \<Rightarrow>
          (case go_get tags ''tags'' of
             GStrMap (t # ts) \<Rightarrow> alist_put ''tags'' (GStrMap (t # ts)) capabilityParts
           | _ \<Rightarrow> capabilityParts)
      | Some (GStrMap (t # ts)) \<Rightarrow> alist_put ''tags'' (GStrMap (t # ts)) capabilityParts
      | _ \<Rightarrow> capabilityParts)"

definition engine_docs :: "(string \<Rightarrow> string) \<Rightarrow> engine \<Rightarrow> provision_params \<Rightarrow> go_map list outcome" where
  "engine_docs title e p0 =
     (case apply_catalog e p0 of
        (Some er, p) \<Rightarrow> Fail er
      | (None, p) \<Rightarrow>
          (case validate_params p of
             Some er \<Rightarrow> Fail (''global validation failed: '' @ er)
           | None \<Rightarrow>
               (case validate_at_least_one_capability p of
                  Some er \<Rightarrow> Fail er
                | None \<Rightarrow>
                    (case validate_cross_cutting p of
                       Some er \<Rightarrow> Fail er
                     | None \<Rightarrow>
                         (case render_fragments (en_fragments e) p ([], []) of
                            Panics er \<Rightarrow> Panics er
                          | Fail er \<Rightarrow> Fail er
                          | Ret (specParts, capabilityParts) \<Rightarrow>
                              (case build_xrs title p (inject_tags specParts capabilityParts) of
                                 Inl er \<Rightarrow> Fail er
                               | Inr docs \<Rightarrow>
                                   if docs = [] then Fail ''no supported Crossplane XRD capability enabled''
                                   else Ret docs))))))"

section \<open>YAML\<close>

text \<open>The nodes of a document. The content of a mapping alternates keys and values; it is a list of
  pairs here. \<open>node_value\<close> is the field \<open>Value\<close>, empty for everything but scalars and aliases.\<close>

datatype yaml_node =
    Document "yaml_node list"
  | Mapping "(yaml_node \<times> yaml_node) list"
  | Sequence "yaml_node list"
  | Scalar string
  | Alias string

fun node_value :: "yaml_node \<Rightarrow> string" where
  "node_value (Scalar v) = v"
| "node_value (Alias v) = v"
| "node_value _ = []"

fun sort_yaml_node :: "yaml_node \<Rightarrow> yaml_node" where
  "sort_yaml_node (Document ns) = Document (map sort_yaml_node ns)"
| "sort_yaml_node (Mapping kvs) =
     Mapping (sort_key (\<lambda>kv. node_value (fst kv)) (map (\<lambda>(k, v). (k, sort_yaml_node v)) kvs))"
| "sort_yaml_node (Sequence ns) = Sequence (map sort_yaml_node ns)"
| "sort_yaml_node (Scalar v) = Scalar v"
| "sort_yaml_node (Alias v) = Alias v"

record yaml_env =
  ye_read :: "go_map \<Rightarrow> string + yaml_node"
  ye_print :: "yaml_node \<Rightarrow> string + string"
  ye_title :: "string \<Rightarrow> string"

definition marshal_deterministic :: "yaml_env \<Rightarrow> go_map \<Rightarrow> string + string" where
  "marshal_deterministic y doc =
     (case ye_read y doc of Inl er \<Rightarrow> Inl er | Inr n \<Rightarrow> ye_print y (sort_yaml_node n))"

fun marshal_documents :: "yaml_env \<Rightarrow> bool \<Rightarrow> go_map list \<Rightarrow> string + string" where
  "marshal_documents y first [] = Inr []"
| "marshal_documents y first (doc # docs) =
     (case marshal_deterministic y doc of
        Inl er \<Rightarrow> Inl er
      | Inr b \<Rightarrow>
          (case marshal_documents y False docs of
             Inl er \<Rightarrow> Inl er
           | Inr rest \<Rightarrow> Inr ((if first then [] else ''---'' @ [CHR 0x0A]) @ b @ rest)))"

definition engine_render :: "yaml_env \<Rightarrow> engine \<Rightarrow> provision_params \<Rightarrow> string outcome" where
  "engine_render y e p =
     (case engine_docs (ye_title y) e p of
        Panics er \<Rightarrow> Panics er
      | Fail er \<Rightarrow> Fail er
      | Ret docs \<Rightarrow> (case marshal_documents y True docs of Inl er \<Rightarrow> Fail er | Inr out \<Rightarrow> Ret out))"

definition render_manifests :: "yaml_env \<Rightarrow> string + dir_entry list \<Rightarrow> provision_params \<Rightarrow> string outcome" where
  "render_manifests y dir p =
     (case load_all dir of
        Inl er \<Rightarrow> Fail (''load catalog definitions: '' @ er)
      | Inr cats \<Rightarrow>
          (case validate_catalogs supported_providers cats of
             Some er \<Rightarrow> Fail (''catalog validation failed: '' @ er)
           | None \<Rightarrow>
               (case engine_render y \<lparr>en_fragments = infra_fragments, en_catalogs = cats\<rparr> p of
                  Panics er \<Rightarrow> Panics er
                | Fail er \<Rightarrow> Fail (''render manifests: '' @ er)
                | Ret out \<Rightarrow> Ret out)))"

end
