(* ===== verification/Infra_Module.thy ===== *)
theory Infra_Module
  imports Infra_Health Infra_Engine Runner
begin

text \<open>
  The infrastructure module, \<open>src/internal/module/infra/module.go\<close>: the whole of \<open>Execute\<close> cut along
  its phases (render, policy, approval, commit, health and remediation, callback), the queries and
  the constructors. A phase takes the history so far and either ends the run or hands the history to
  the next one. Log output and the diagnostic prints have no effect and are left out. The wait for
  approval is modelled for runs in which it returns.
\<close>

record infra_vars =
  iv_health_timeout :: duration
  iv_poll_interval :: duration
  iv_log_level :: string

record infra_module =
  im_vars :: "infra_vars option"
  im_git :: "connector option"
  im_crossplane :: "connector option"
  im_policy :: "connector option"
  im_webhook :: "connector option"

record module_env =
  me_yaml :: yaml_env
  me_catalog :: "string + dir_entry list"
  me_decode :: "go_map \<Rightarrow> string + provision_params"
  me_status :: status_env
  me_fmt :: "go_any \<Rightarrow> string"
  me_fmt_outcome :: "approval_outcome \<Rightarrow> string"

section \<open>Construction\<close>

definition new_legacy_module :: infra_module where
  "new_legacy_module = \<lparr>im_vars = Some \<lparr>iv_health_timeout = 30 * second, iv_poll_interval = 500000000,
     iv_log_level = []\<rparr>, im_git = None, im_crossplane = None, im_policy = None, im_webhook = None\<rparr>"

definition new_module ::
  "infra_vars \<Rightarrow> connector option \<Rightarrow> connector option \<Rightarrow> connector option \<Rightarrow> connector option
     \<Rightarrow> string + infra_module" where
  "new_module vars git crossplane policy webhook =
     (if git = None then Inl ''git connector cannot be nil''
      else if crossplane = None then Inl ''crossplane connector cannot be nil''
      else if policy = None then Inl ''policy connector cannot be nil''
      else if webhook = None then Inl ''webhook connector cannot be nil''
      else Inr \<lparr>im_vars = Some vars, im_git = git, im_crossplane = crossplane, im_policy = policy,
             im_webhook = webhook\<rparr>)"

definition get_connectors :: "infra_module \<Rightarrow> (string \<times> connector) list" where
  "get_connectors m =
     (case im_git m of None \<Rightarrow> [] | Some c \<Rightarrow> [(''git'', c)])
     @ (case im_crossplane m of None \<Rightarrow> [] | Some c \<Rightarrow> [(''crossplane'', c)])
     @ (case im_policy m of None \<Rightarrow> [] | Some c \<Rightarrow> [(''policy'', c)])
     @ (case im_webhook m of None \<Rightarrow> [] | Some c \<Rightarrow> [(''webhook'', c)])"

section \<open>Phases\<close>

text \<open>A run ends with an outcome, or is still polling (\<open>None\<close>); a phase that does not end the run
  passes on what later phases read.\<close>

datatype 'a phase = Stop exec_outcome history | Pending history | Next 'a history

fun and_then :: "'a phase \<Rightarrow> ('a \<Rightarrow> history \<Rightarrow> 'b phase) \<Rightarrow> 'b phase" where
  "and_then (Stop x h) k = Stop x h"
| "and_then (Pending h) k = Pending h"
| "and_then (Next a h) k = k a h"

definition fail_step :: "string \<Rightarrow> string \<Rightarrow> string \<Rightarrow> string \<Rightarrow> history \<Rightarrow> 'a phase" where
  "fail_step step code msg e h = Stop (Exec_err e) (h @ [Ended_err step code msg])"

text \<open>\<open>MapToConnectorRequest\<close> followed by \<open>CallConnector\<close>.\<close>

definition api_call ::
  "api_env \<Rightarrow> go_map \<Rightarrow> history \<Rightarrow> (string \<Rightarrow> history \<Rightarrow> 'a phase) \<Rightarrow> (string \<Rightarrow> history \<Rightarrow> 'a phase)
     \<Rightarrow> (connector_result \<Rightarrow> history \<Rightarrow> 'a phase) \<Rightarrow> 'a phase" where
  "api_call env m h bad_request failed ok =
     (case map_to_connector_request m of
        Inl e \<Rightarrow> bad_request e h
      | Inr req \<Rightarrow>
          let r = ev_call env h req; h1 = h @ [Called req r] in
          case r of
            Panics e \<Rightarrow> Stop (Exec_panic e) h1
          | Fail e \<Rightarrow> failed e h1
          | Ret res \<Rightarrow> ok res h1)"

definition render_phase ::
  "module_env \<Rightarrow> bool \<Rightarrow> go_map \<Rightarrow> history \<Rightarrow> (provision_params \<times> string) phase" where
  "render_phase me step params h0 =
     (let h = (if step then h0 @ [Began ''infra.render''] else h0) in
      case me_decode me params of
        Inl e \<Rightarrow> Stop (Exec_err (''decode infra params: '' @ e))
          (if step then h @ [Ended_err ''infra.render'' ''INFRA_PARAMS_INVALID'' e] else h)
      | Inr p \<Rightarrow>
          (case render_manifests (me_yaml me) (me_catalog me) p of
             Panics e \<Rightarrow> Stop (Exec_panic e) h
           | Fail e \<Rightarrow> Stop (Exec_err (''infra render failed: '' @ e))
               (if step then h @ [Ended_err ''infra.render'' ''INFRA_RENDER_FAILED'' e] else h)
           | Ret out \<Rightarrow> Next (p, out)
               (if step then h @ [Context_set ''infra.manifest'' (GStr out),
                  Ended_ok ''infra.render'' [(''manifest_yaml'', GStr out)]] else h)))"

definition policy_request :: "provision_params \<Rightarrow> string \<Rightarrow> go_map" where
  "policy_request p out =
     [(''connector'', GStr ''policy''), (''impl_key'', GStr ''policy-pmock''), (''operation'', GStr ''evaluate''),
      (''input'', GMap [(''policy_bundle'', GStr ''infra/crossplane-xr''), (''resource'', GStr out),
         (''context'', GStrMap [(''tenant'', pp_tenant p), (''environment'', pp_environment p)])])]"

definition policy_allows :: "connector_result \<Rightarrow> bool" where
  "policy_allows r =
     (case cr_output r of
        None \<Rightarrow> False
      | Some out \<Rightarrow>
          (case as_bool (go_get out ''allowed'') of
             Some b \<Rightarrow> b
           | None \<Rightarrow>
               (case as_map (go_get out ''output'') of
                  Some inner \<Rightarrow> bool_or_false (go_get inner ''allowed'')
                | None \<Rightarrow> False)))"

definition policy_violations :: "connector_result \<Rightarrow> go_any" where
  "policy_violations r = (case cr_output r of None \<Rightarrow> GNil | Some out \<Rightarrow> go_get out ''violations'')"

definition policy_phase ::
  "module_env \<Rightarrow> api_env \<Rightarrow> provision_params \<Rightarrow> string \<Rightarrow> history \<Rightarrow> unit phase" where
  "policy_phase me env p out h0 =
     api_call env (policy_request p out) (h0 @ [Began ''infra.policy_evaluate''])
       (\<lambda>e. fail_step ''infra.policy_evaluate'' ''POLICY_REQUEST_INVALID'' e (''policy request invalid: '' @ e))
       (\<lambda>e. fail_step ''infra.policy_evaluate'' ''POLICY_CALL_FAILED'' e (''policy evaluation failed: '' @ e))
       (\<lambda>r h.
         (case cr_error r of
            Some (code, msg) \<Rightarrow> fail_step ''infra.policy_evaluate'' ''POLICY_CALL_FAILED''
              (''Policy evaluation failed: '' @ code @ '' - '' @ msg)
              (''policy evaluation failed: '' @ code @ '' - '' @ msg) h
          | None \<Rightarrow>
              if \<not> policy_allows r
              then fail_step ''infra.policy_evaluate'' ''POLICY_VIOLATION''
                (''Policy denied: '' @ me_fmt me (policy_violations r))
                (''policy denied: '' @ me_fmt me (policy_violations r)) h
              else Next () (h @ [Ended_ok ''infra.policy_evaluate'' [(''allowed'', GBool True)]])))"

definition item_requires_approval :: "module_env \<Rightarrow> provision_params \<Rightarrow> bool" where
  "item_requires_approval me p =
     (case load_all (me_catalog me) of
        Inl _ \<Rightarrow> False
      | Inr cats \<Rightarrow>
          (case map_of cats (pp_catalogue_item p) of
             None \<Rightarrow> False | Some cat \<Rightarrow> requires_approval (cat_constraints cat)))"

definition approval_request_of :: "provision_params \<Rightarrow> approval_request" where
  "approval_request_of p = map_to_approval_request
     [(''summary'', GStr (''Provision '' @ pp_catalogue_item p @ '' cluster in '' @ pp_environment p)),
      (''detail'', GStr (''Tenant: '' @ pp_tenant p @ '', Owner: '' @ pp_owner p @ '', Region: '' @ pp_primary_region p)),
      (''blast_radius'', GStr ''production''), (''policy_ref'', GStr ''infra/crossplane-xr''),
      (''metadata'', GStrMap [(''approval_ttl'', ''1h''), (''tenant'', pp_tenant p)])]"

definition approval_phase ::
  "module_env \<Rightarrow> api_env \<Rightarrow> go_map \<Rightarrow> provision_params \<Rightarrow> history \<Rightarrow> unit phase" where
  "approval_phase me env params p h0 =
     (if bool_or_false (go_get params ''skip_approval_gate'') then Next () h0
      else if \<not> item_requires_approval me p then Next () h0
      else let req = approval_request_of p; h = h0 @ [Began ''infra.approval_gate''];
               w = ev_wait env h req; h1 = h @ [Waited req w]
           in case w of
                Inl e \<Rightarrow> fail_step ''infra.approval_gate'' ''APPROVAL_FAILED'' e (''approval failed: '' @ e) h1
              | Inr x \<Rightarrow>
                  if ao_decision x \<noteq> ''approved''
                  then fail_step ''infra.approval_gate'' ''APPROVAL_REJECTED''
                    (''Approval rejected: '' @ me_fmt_outcome me x) (''approval rejected: '' @ me_fmt_outcome me x) h1
                  else Next () (h1 @ [Ended_ok ''infra.approval_gate''
                    [(''decision'', GStr (ao_decision x)), (''approver'', GStr (ao_approver x))]]))"

definition phase1_complete :: "history \<Rightarrow> history" where
  "phase1_complete h = h @ [Began ''infra.phase1_complete'',
     Ended_ok ''infra.phase1_complete'' [(''status'',
       GStr ''Phase 1 complete - policy evaluated and approval granted'')]]"

section \<open>Commit\<close>

definition infra_repo :: "go_map \<Rightarrow> string" where
  "infra_repo params = (let r = string_or_empty (go_get params ''infra_repo'')
     in if r = [] then ''org/infra-manifests'' else r)"

definition manifests_map :: "provision_params \<Rightarrow> string \<Rightarrow> go_map" where
  "manifests_map p out =
     [(pp_tenant p @ ''/'' @ pp_environment p @ ''/'' @ pp_catalogue_item p @ ''.yaml'', GStr out)]"

definition path_prefix_of :: "provision_params \<Rightarrow> string" where
  "path_prefix_of p = ''tenants/'' @ pp_tenant p @ ''/'' @ pp_environment p @ ''/''"

definition commit_request :: "go_map \<Rightarrow> provision_params \<Rightarrow> string \<Rightarrow> go_map" where
  "commit_request params p out =
     [(''connector'', GStr ''git''), (''impl_key'', GStr ''git-file''), (''operation'', GStr ''commit_files''),
      (''input'', GMap [(''repo'', GStr (infra_repo params)), (''branch'', GStr ''main''),
         (''path_prefix'', GStr (path_prefix_of p)), (''files'', GMap (manifests_map p out)),
         (''message'', GStr (''Provision '' @ pp_catalogue_item p @ '' cluster'')),
         (''idempotency_key'', GStr (string_or_empty (go_get params ''idempotency_key'')))])]"

definition commit_failed :: "connector_result \<Rightarrow> history \<Rightarrow> 'a phase" where
  "commit_failed r h =
     (let msg = (case cr_error r of
            None \<Rightarrow> ''git connector returned non-success status''
          | Some (code, m) \<Rightarrow> ''git connector error ['' @ code @ '']: '' @ m);
          h1 = h @ [Ended_err ''infra.git_commit'' ''GIT_COMMIT_FAILED'' msg]
      in if cr_status r = ''terminal_error''
         then (case cr_error r of
                 None \<Rightarrow> Stop (Exec_panic ''invalid memory address or nil pointer dereference'') h1
               | Some (code, m) \<Rightarrow> Stop (Exec_terminal code msg
                   (if code \<noteq> [] then code @ '': '' @ msg else msg)) h1)
         else Stop (Exec_err (''git commit failed: '' @ msg)) h1)"

definition changed_of :: "connector_result \<Rightarrow> bool" where
  "changed_of r = (case cr_output r of None \<Rightarrow> True
     | Some out \<Rightarrow> (case as_bool (go_get out ''changed'') of None \<Rightarrow> True | Some b \<Rightarrow> b))"

definition commit_phase ::
  "api_env \<Rightarrow> go_map \<Rightarrow> provision_params \<Rightarrow> string \<Rightarrow> history \<Rightarrow> (string \<times> bool) phase" where
  "commit_phase env params p out h0 =
     api_call env (commit_request params p out) (h0 @ [Began ''infra.git_commit''])
       (\<lambda>e. fail_step ''infra.git_commit'' ''GIT_COMMIT_INVALID_REQUEST'' e (''git commit request invalid: '' @ e))
       (\<lambda>e. fail_step ''infra.git_commit'' ''GIT_COMMIT_FAILED'' e (''git commit failed: '' @ e))
       (\<lambda>r h.
         if cr_status r \<noteq> ''success'' then commit_failed r h
         else if commit_sha_of r = []
         then fail_step ''infra.git_commit'' ''GIT_COMMIT_INVALID'' ''missing commit_sha in result''
           ''missing commit_sha in git commit result'' h
         else Next (commit_sha_of r, changed_of r) (h @ [Ended_ok ''infra.git_commit''
           [(''commit_sha'', GStr (commit_sha_of r)), (''changed'', GBool (changed_of r))]]))"

section \<open>Callback\<close>

definition callback_request :: "string \<Rightarrow> go_map \<Rightarrow> go_map \<Rightarrow> go_map" where
  "callback_request url body params =
     [(''connector'', GStr ''webhook''), (''impl_key'', GStr ''webhook''), (''operation'', GStr ''post_callback''),
      (''input'', GMap [(''url'', GStr url), (''headers'', GStrMap [(''Content-Type'', ''application/json'')]),
         (''body'', GMap body),
         (''idempotency_key'', GStr (string_or_empty (go_get params ''idempotency_key'')))])]"

definition callback_done :: "connector_result \<Rightarrow> history \<Rightarrow> history" where
  "callback_done r h = (let out = (case cr_output r of None \<Rightarrow> [] | Some m \<Rightarrow> m) in
     h @ [Ended_ok ''infra.callback'' [(''status_code'', go_get out ''status_code''),
       (''response_body'', go_get out ''response_body'')]])"

text \<open>The callback that reports success: three copies in the source, which differ in the body.\<close>

definition success_callback :: "api_env \<Rightarrow> go_map \<Rightarrow> go_map \<Rightarrow> history \<Rightarrow> 'a phase" where
  "success_callback env params body h0 =
     api_call env (callback_request (string_or_empty (go_get params ''callback_url'')) body params)
       (h0 @ [Began ''infra.callback''])
       (\<lambda>e. fail_step ''infra.callback'' ''CALLBACK_REQUEST_INVALID'' e (''callback request invalid: '' @ e))
       (\<lambda>e. fail_step ''infra.callback'' ''CALLBACK_FAILED'' e (''callback failed: '' @ e))
       (\<lambda>r h. Stop Exec_ok (callback_done r h))"

text \<open>The callback that reports a failure: two copies, which assert the URL to be a string without
  a check and return the error of the run whatever becomes of the call. The argument is the error
  returned, given the error of the call.\<close>

definition failure_callback ::
  "api_env \<Rightarrow> go_map \<Rightarrow> go_map \<Rightarrow> (string option \<Rightarrow> string) \<Rightarrow> history \<Rightarrow> 'a phase" where
  "failure_callback env params body final h0 =
     (let h = h0 @ [Began ''infra.callback''] in
      case go_get params ''callback_url'' of
        GStr url \<Rightarrow>
          api_call env (callback_request url body params) h
            (\<lambda>e. fail_step ''infra.callback'' ''CALLBACK_REQUEST_INVALID'' e (''callback request invalid: '' @ e))
            (\<lambda>e h1. Stop (Exec_err (final (Some e))) (h1 @ [Ended_err ''infra.callback'' ''CALLBACK_FAILED'' e]))
            (\<lambda>r h1. Stop (Exec_err (final None)) (callback_done r h1))
      | _ \<Rightarrow> Stop (Exec_panic ''interface conversion: callback_url is not string'') h)"

section \<open>Health and remediation\<close>

definition resource_any :: "resource_reference \<Rightarrow> go_map" where
  "resource_any r = [(''type'', GStr (rr_type r)), (''arn'', GStr (rr_arn r)), (''id'', GStr (rr_id r))]"

definition poll_done :: "health_status \<Rightarrow> api_event" where
  "poll_done s = Ended_ok ''infra.health_poll'' [(''status'', GStr (hs_status s)), (''timestamp'', GTime (hs_timestamp s))]"

definition failed_body :: "go_map \<Rightarrow> string \<Rightarrow> string \<Rightarrow> go_map" where
  "failed_body params sha reason = [(''job_id'', go_get params ''job_id''), (''status'', GStr ''failed''),
     (''commit_sha'', GStr sha), (''reason'', GStr reason)]"

text \<open>In the first failure the error wrapped is the one of the callback, which is nil when that
  succeeded: an inner declaration shadows the error of the remediation.\<close>

definition remediation_phase ::
  "nat \<Rightarrow> module_env \<Rightarrow> api_env \<Rightarrow> go_map \<Rightarrow> provision_params \<Rightarrow> string \<Rightarrow> string \<Rightarrow> history
     \<Rightarrow> health_status phase" where
  "remediation_phase n me env params p out sha h0 =
     (case remediation_recommit env (infra_repo params) ''main'' (path_prefix_of p) (manifests_map p out)
        (''Provision '' @ pp_catalogue_item p @ '' cluster [remediation]'') ''git-file''
        (h0 @ [Began ''infra.remediation'']) of
        (Panics e, h) \<Rightarrow> Stop (Exec_panic e) h
      | (Fail e, h) \<Rightarrow>
          failure_callback env params (failed_body params sha ''health timeout and remediation failed'')
            (\<lambda>ce. ''health timeout and remediation failed: '' @ (case ce of None \<Rightarrow> ''%!w(<nil>)'' | Some x \<Rightarrow> x))
            (h @ [Ended_err ''infra.remediation'' ''REMEDIATION_FAILED'' e])
      | (Ret sha2, h) \<Rightarrow>
          (case check_health n env (me_status me) (infra_repo params) ''main'' sha2 ''git-file'' h of
             (None, h1) \<Rightarrow> Pending h1
           | (Some (Panics e), h1) \<Rightarrow> Stop (Exec_panic e) h1
           | (Some (Fail e), h1) \<Rightarrow>
               failure_callback env params (failed_body params sha2 ''double health timeout'')
                 (\<lambda>_. ''double health timeout: '' @ e)
                 (h1 @ [Ended_err ''infra.remediation'' ''DOUBLE_TIMEOUT'' ''second health timeout''])
           | (Some (Ret s), h1) \<Rightarrow>
               Next s (h1 @ [Ended_ok ''infra.remediation''
                 [(''new_commit_sha'', GStr sha2), (''health_status'', GStr (hs_status s))], poll_done s])))"

definition health_phase ::
  "nat \<Rightarrow> module_env \<Rightarrow> api_env \<Rightarrow> go_map \<Rightarrow> provision_params \<Rightarrow> string \<Rightarrow> string \<Rightarrow> history
     \<Rightarrow> health_status phase" where
  "health_phase n me env params p out sha h0 =
     (case check_health n env (me_status me) (infra_repo params) ''main'' sha ''git-file''
        (h0 @ [Began ''infra.health_poll'']) of
        (None, h) \<Rightarrow> Pending h
      | (Some (Panics e), h) \<Rightarrow> Stop (Exec_panic e) h
      | (Some (Fail e), h) \<Rightarrow> remediation_phase n me env params p out sha h
      | (Some (Ret s), h) \<Rightarrow> Next s (h @ [poll_done s]))"

section \<open>Execute\<close>

definition succeeded_body :: "go_map \<Rightarrow> string \<Rightarrow> go_any \<Rightarrow> string \<times> string \<Rightarrow> go_map" where
  "succeeded_body params sha refs note = [(''job_id'', go_get params ''job_id''), (''status'', GStr ''succeeded''),
     (''commit_sha'', GStr sha), (''resource_refs'', refs), (fst note, GStr (snd note))]"

definition deliver_phase ::
  "nat \<Rightarrow> module_env \<Rightarrow> api_env \<Rightarrow> go_map \<Rightarrow> provision_params \<Rightarrow> string \<Rightarrow> string \<times> bool \<Rightarrow> history
     \<Rightarrow> unit phase" where
  "deliver_phase n me env params p out c h =
     (let sha = fst c in
      if \<not> snd c then
        success_callback env params
          (succeeded_body params sha (GList []) (''reason'', ''idempotent commit - no changes'')) h
      else if bool_or_false (go_get params ''skip_health_check'') then
        success_callback env params (succeeded_body params sha (GList []) (''health_status'', ''healthy''))
          (h @ [poll_done \<lparr>hs_status = ''healthy'', hs_timestamp = ev_now env h, hs_resources = [], hs_commit_sha = []\<rparr>])
      else and_then (health_phase n me env params p out sha h)
        (\<lambda>s h1. success_callback env params
          (succeeded_body params sha (GMapList (map resource_any (hs_resources s))) (''health_status'', hs_status s)) h1))"

definition infra_execute ::
  "nat \<Rightarrow> module_env \<Rightarrow> api_env option \<Rightarrow> go_map \<Rightarrow> unit phase" where
  "infra_execute n me api params =
     and_then (render_phase me (api \<noteq> None) params [])
       (\<lambda>(p, out) h.
         (case api of
            None \<Rightarrow> Stop Exec_ok h
          | Some env \<Rightarrow>
              and_then (policy_phase me env p out h)
                (\<lambda>_ h. and_then (approval_phase me env params p h)
                  (\<lambda>_ h. and_then (commit_phase env params p out (phase1_complete h))
                    (\<lambda>c h. deliver_phase n me env params p out c h)))))"

section \<open>Queries\<close>

record query_result =
  qr_status :: string
  qr_data :: go_any
  qr_error :: string

definition query_error :: "string \<Rightarrow> query_result" where
  "query_error e = \<lparr>qr_status = ''error'', qr_data = GNil, qr_error = e\<rparr>"

definition query_ok :: "go_any \<Rightarrow> query_result" where
  "query_ok d = \<lparr>qr_status = ''ok'', qr_data = d, qr_error = []\<rparr>"

definition call_crossplane_connector ::
  "infra_module \<Rightarrow> string \<Rightarrow> go_map \<Rightarrow> connector_result outcome" where
  "call_crossplane_connector m oper inp =
     (case im_crossplane m of
        None \<Rightarrow> Fail ''crossplane connector not available''
      | Some c \<Rightarrow>
          (case c_validate c oper (Some inp) of
             Some e \<Rightarrow> Fail (''crossplane connector validation failed: '' @ e)
           | None \<Rightarrow>
               (case c_execute c oper (Some inp) None of
                  (_, Some e) \<Rightarrow> Fail (''crossplane connector execution failed: '' @ e)
                | (None, None) \<Rightarrow> Panics ''invalid memory address or nil pointer dereference''
                | (Some r, None) \<Rightarrow> Ret r)))"

definition query_list_resources :: "go_map \<Rightarrow> query_result" where
  "query_list_resources params =
     (let env = string_or_empty (go_get params ''env''); kind = string_or_empty (go_get params ''kind'');
          resources =
            [[(''kind'', GStr ''rds-instance''), (''name'', GStr ''database-1''), (''env'', GStr env),
              (''spec'', GMap [(''engine'', GStr ''postgres''), (''instance_class'', GStr ''db.t3.small''),
                 (''storage'', GInt 20)])],
             [(''kind'', GStr ''s3-bucket''), (''name'', GStr ''bucket-1''), (''env'', GStr env),
              (''spec'', GMap [(''name'', GStr ''my-bucket''), (''region'', GStr ''us-east-1'')])]]
      in query_ok (GMapList (if kind \<noteq> [] then filter (\<lambda>r. go_get r ''kind'' = GStr kind) resources else resources)))"

text \<open>\<open>strings.Index\<close> with the requirement \<open>idx > 0\<close>: the text before the first separator, which is
  not empty, and the text after it.\<close>

definition cut_at :: "char \<Rightarrow> string \<Rightarrow> (string \<times> string) option" where
  "cut_at d s = (let a = takeWhile (\<lambda>c. c \<noteq> d) s; b = dropWhile (\<lambda>c. c \<noteq> d) s
     in if b = [] \<or> a = [] then None else Some (a, tl b))"

definition health_of_output :: "go_map option \<Rightarrow> string" where
  "health_of_output out =
     (case out of
        None \<Rightarrow> ''unknown''
      | Some m \<Rightarrow>
          (case as_map (go_get m ''status'') of
             None \<Rightarrow> ''unknown''
           | Some s \<Rightarrow>
               (case as_string (go_get s ''health'') of
                  Some x \<Rightarrow> x
                | None \<Rightarrow>
                    (case as_list (go_get s ''conditions'') of
                       Some (c # cs) \<Rightarrow>
                         (case as_map c of
                            Some cond \<Rightarrow>
                              (case as_string (go_get cond ''type'') of Some t \<Rightarrow> t | None \<Rightarrow> ''unknown'')
                          | None \<Rightarrow> ''unknown'')
                     | _ \<Rightarrow> ''unknown''))))"

definition query_resource_health ::
  "infra_module \<Rightarrow> string \<Rightarrow> go_map \<Rightarrow> query_result outcome" where
  "query_resource_health m now params =
     (let rid = string_or_empty (go_get params ''resource_id'') in
      if rid = [] then Ret (query_error ''resource_id parameter is required'')
      else case (case cut_at (CHR ''/'') rid of Some x \<Rightarrow> Some x | None \<Rightarrow> cut_at (CHR '':'') rid) of
        None \<Rightarrow> Ret (query_error (''resource_id must be in format 'kind/name' or 'kind:name'' @ [CHR 0x27]))
      | Some (kind, name) \<Rightarrow>
          (case call_crossplane_connector m ''get_resource_status'' [(''kind'', GStr kind), (''name'', GStr name)] of
             Panics e \<Rightarrow> Panics e
           | Fail e \<Rightarrow> Ret (query_error (''failed to get resource status: '' @ e))
           | Ret r \<Rightarrow> Ret (query_ok (GMap [(''resource_id'', GStr rid), (''health'', GStr (health_of_output (cr_output r))),
               (''timestamp'', GStr now)]))))"

definition query_drift_report :: "string \<Rightarrow> go_map \<Rightarrow> query_result" where
  "query_drift_report now params =
     (let env = string_or_empty (go_get params ''env'') in
      if env = [] then query_error ''env parameter is required''
      else query_ok (GMap [(''env'', GStr env), (''timestamp'', GStr now), (''total_resources'', GInt 5),
        (''in_sync'', GInt 3), (''out_of_sync'', GInt 2),
        (''drifts'', GMapList
           [[(''resource'', GStr ''rds-instance/database-1''), (''field'', GStr ''instance_class''),
             (''expected'', GStr ''db.t3.medium''), (''actual'', GStr ''db.t3.small''), (''severity'', GStr ''medium'')],
            [(''resource'', GStr ''s3-bucket/bucket-1''), (''field'', GStr ''versioning''),
             (''expected'', GStr ''Enabled''), (''actual'', GStr ''Disabled''), (''severity'', GStr ''low'')]])]))"

definition infra_query :: "infra_module \<Rightarrow> string \<Rightarrow> string \<Rightarrow> go_map \<Rightarrow> query_result outcome" where
  "infra_query m now name params =
     (if name = ''list-resources'' then Ret (query_list_resources params)
      else if name = ''resource-health'' then query_resource_health m now params
      else if name = ''drift-report'' then Ret (query_drift_report now params)
      else Ret (query_error (''unknown query: '' @ name)))"

end
