(* ===== verification/Infra_Rendering.thy ===== *)
theory Infra_Rendering
  imports Infra_Engine
begin

text \<open>
  What the template engine guarantees of the documents it renders, with the fragments of
  \<open>RenderManifests\<close>: lemmas on the loop over the fragments and on the loop over the capabilities,
  and the properties that rest on them.
\<close>

section \<open>The loop over the fragments\<close>

definition part_of :: "provision_params \<Rightarrow> fragment \<Rightarrow> go_map" where
  "part_of p f = (if fr_applicable f p then (case fr_render f p of Ret part \<Rightarrow> part | _ \<Rightarrow> []) else [])"

lemma render_fragments_Ret:
  "render_fragments fs p st = Ret st' \<Longrightarrow>
     (\<forall>f \<in> set fs. fr_applicable f p \<longrightarrow> fr_validate f p = None \<and> (\<exists>part. fr_render f p = Ret part))
     \<and> st' = foldl add_part st (concat (map (part_of p) fs))"
proof (induction fs arbitrary: st)
  case (Cons f fs)
  show ?case
  proof (cases "fr_applicable f p")
    case True
    then obtain part where f: "fr_validate f p = None" "fr_render f p = Ret part"
      and r: "render_fragments fs p (foldl add_part st part) = Ret st'"
      using Cons.prems by (auto split: option.splits outcome.splits)
    show ?thesis using Cons.IH [OF r] f True by (auto simp: part_of_def)
  next
    case False
    then show ?thesis using Cons by (simp add: part_of_def)
  qed
qed simp

definition buildable :: "string \<times> go_any \<Rightarrow> bool" where
  "buildable kv \<longleftrightarrow> map_of param_builders (fst kv) \<noteq> None"

lemma foldl_add_part:
  "distinct (map fst (xs @ kvs)) \<Longrightarrow>
     foldl add_part (xs, filter buildable xs) kvs = (xs @ kvs, filter buildable (xs @ kvs))"
proof (induction kvs arbitrary: xs)
  case (Cons kv kvs)
  have fresh: "fst kv \<notin> fst ` set xs" "fst kv \<notin> fst ` set (filter buildable xs)"
    using Cons.prems by auto
  have "add_part (xs, filter buildable xs) kv = (xs @ [kv], filter buildable (xs @ [kv]))"
    using alist_put_fresh [OF fresh(1)] alist_put_fresh [OF fresh(2)]
    by (cases kv) (simp add: add_part_def buildable_def)
  then show ?case using Cons.IH [of "xs @ [kv]"] Cons.prems by simp
qed simp

text \<open>The key each fragment of the module renders, and when it applies.\<close>

definition infra_keys :: "(string \<times> (provision_params \<Rightarrow> bool)) list" where
  "infra_keys =
     [(''tags'', \<lambda>p. True), (''compliance'', \<lambda>p. True), (''kubernetes'', \<lambda>p. k8s_enabled (pp_kubernetes p)),
      (''vm'', \<lambda>p. vm_enabled (pp_vm p)), (''database'', \<lambda>p. db_enabled (pp_database p)),
      (''cache'', \<lambda>p. cache_enabled (pp_cache p)), (''objectStorage'', \<lambda>p. os_enabled (pp_object_store p)),
      (''blockStorage'', \<lambda>p. bs_enabled (pp_block_store p)), (''fileStorage'', \<lambda>p. fs_enabled (pp_file_store p)),
      (''vpc'', \<lambda>p. vpc_enabled (pp_vpc p)), (''loadBalancer'', \<lambda>p. lb_enabled (pp_load_balancer p)),
      (''dns'', \<lambda>p. dns_enabled (pp_dns p)), (''cdn'', \<lambda>p. cdn_enabled (pp_cdn p)),
      (''messaging'', \<lambda>p. msg_enabled (pp_messaging p)), (''identity'', \<lambda>p. idn_enabled (pp_identity p)),
      (''secrets'', \<lambda>p. sec_enabled (pp_secrets p)), (''observability'', \<lambda>p. obs_enabled (pp_observability p))]"

definition renders :: "fragment \<Rightarrow> string \<times> (provision_params \<Rightarrow> bool) \<Rightarrow> bool" where
  "renders f ka \<longleftrightarrow> (\<forall>p. fr_applicable f p = snd ka p
     \<and> (\<forall>part. fr_render f p = Ret part \<longrightarrow> (\<exists>m. part = [(fst ka, m)])))"

lemma renders_frag: "(\<And>p. \<exists>m. r p = [(k, m)]) \<Longrightarrow> renders (frag n a v r) (k, a)"
  by (simp add: renders_def frag_def)

lemmas render_defs = tags_render_def compliance_render_def kubernetes_render_def vm_render_def
  database_render_def cache_render_def object_storage_render_def block_storage_render_def
  file_storage_render_def load_balancer_render_def dns_render_def cdn_render_def
  messaging_render_def identity_render_def secrets_render_def observability_render_def

lemma renders_vpc: "renders \<lparr>fr_name = n, fr_applicable = a, fr_validate = v, fr_render = vpc_render\<rparr> (''vpc'', a)"
  by (auto simp: renders_def vpc_render_def Let_def split: option.splits)

lemma infra_fragments_keys: "list_all2 renders infra_fragments infra_keys"
  unfolding infra_fragments_def infra_keys_def list_all2_Cons list_all2_Nil
  by (intro conjI TrueI renders_frag renders_vpc) (simp_all add: render_defs Let_def)

lemma parts_keys:
  assumes "list_all2 renders fs ks"
    "\<forall>f \<in> set fs. fr_applicable f p \<longrightarrow> (\<exists>part. fr_render f p = Ret part)"
  shows "map fst (concat (map (part_of p) fs)) = map fst (filter (\<lambda>ka. snd ka p) ks)"
  using assms
proof (induction fs ks rule: list_all2_induct)
  case (Cons f fs ka ks)
  have "map fst (part_of p f) = (if snd ka p then [fst ka] else [])"
    using Cons by (force simp: renders_def part_of_def)
  then show ?case using Cons by (cases ka) auto
qed simp

lemma infra_keys_distinct: "distinct (map fst (filter (\<lambda>ka. snd ka p) infra_keys))"
  by (rule distinct_map_filter) (simp add: infra_keys_def)

lemma builders_dom: "map_of param_builders k \<noteq> None \<longleftrightarrow> k \<in> set capability_names"
  by (auto simp: param_builders_def capability_names_def)

lemma infra_keys_caps:
  "\<forall>ka \<in> set infra_keys. (fst ka \<in> {''tags'', ''compliance''} \<and> snd ka p)
     \<or> (fst ka \<in> set capability_names \<and> snd ka p = cap_on (capabilities p) (fst ka))"
  by (simp add: infra_keys_def capability_names_def cap_on_def capabilities_def)

lemma caps_infra_keys: "\<forall>c \<in> set capability_names. \<exists>ka \<in> set infra_keys. fst ka = c"
  by (simp add: infra_keys_def capability_names_def)

lemma infra_keys_enabled:
  "c \<in> set capability_names \<Longrightarrow>
     c \<in> set (map fst (filter (\<lambda>ka. snd ka p) infra_keys)) \<longleftrightarrow> cap_on (capabilities p) c"
proof -
  assume c: "c \<in> set capability_names"
  then have "c \<notin> {''tags'', ''compliance''}" by (auto simp: capability_names_def)
  then show ?thesis using infra_keys_caps [of p] caps_infra_keys c by fastforce
qed

text \<open>The parts handed to \<open>BuildXRs\<close>: one per enabled capability, and the tags.\<close>

definition rendered :: "provision_params \<Rightarrow> go_map" where
  "rendered p = concat (map (part_of p) infra_fragments)"

lemma rendered_keys:
  assumes "render_fragments infra_fragments p ([], []) = Ret st"
  shows "map fst (rendered p) = map fst (filter (\<lambda>ka. snd ka p) infra_keys)"
    "st = (rendered p, filter buildable (rendered p))"
proof -
  note r = render_fragments_Ret [OF assms]
  show k: "map fst (rendered p) = map fst (filter (\<lambda>ka. snd ka p) infra_keys)"
    unfolding rendered_def using parts_keys [OF infra_fragments_keys] r by blast
  show "st = (rendered p, filter buildable (rendered p))"
    using r foldl_add_part [of "[]" "rendered p"] k infra_keys_distinct [of p]
    by (simp add: rendered_def)
qed

lemma rendered_tags:
  "map_of (rendered p) ''tags'' = map_of (tags_render p) ''tags''"
  by (simp add: rendered_def infra_fragments_def part_of_def frag_def tags_render_def Let_def)

section \<open>The tags\<close>

definition tags_of :: "provision_params \<Rightarrow> (string \<times> string) list" where
  "tags_of p = (case go_get (tags_render p) ''tags'' of GStrMap t \<Rightarrow> t | _ \<Rightarrow> [])"

lemma tags_render_tags: "tags_render p = [(''tags'', GStrMap (tags_of p))]"
  by (simp add: tags_of_def tags_render_def Let_def go_get_def)

lemma map_of_fold_put:
  "map_of (fold (\<lambda>(k, v) t. alist_put k v t) xs t0) = map_of t0 ++ map_of (rev xs)"
  by (induction xs arbitrary: t0) (auto simp: map_add_def fun_eq_iff split: option.splits)

lemma distinct_fold_put:
  "distinct (map fst t0) \<Longrightarrow> distinct (map fst (fold (\<lambda>(k, v) t. alist_put k v t) xs t0))"
  by (induction xs arbitrary: t0) auto

lemma map_of_rev_distinct: "distinct (map fst xs) \<Longrightarrow> map_of (rev xs) = map_of xs"
  by (metis distinct_rev map_of_eqI map_of_is_SomeI map_of_SomeD rev_map set_rev
      map_of_inject_set)

lemma distinct_put_nonempty: "distinct (map fst m) \<Longrightarrow> distinct (map fst (put_nonempty k v m))"
  by (simp add: put_nonempty_def)

lemma tags_of_distinct: "distinct (map fst (tags_of p))"
  unfolding tags_of_def tags_render_def Let_def
  by (simp add: go_get_def) (intro distinct_fold_put distinct_put_nonempty, simp)

definition automatic_tags :: "provision_params \<Rightarrow> (string \<times> string) list" where
  "automatic_tags p = [(''cost-centre'', pp_cost_centre p), (''service'', pp_request_name p),
     (''environment'', pp_environment p), (''owner'', pp_owner p), (''managed-by'', ''release-engine''),
     (''tenant'', pp_tenant p), (''catalogue-item'', pp_catalogue_item p)]"

lemma map_of_put_nonempty [simp]:
  "map_of (put_nonempty k v m) x = (if x = k \<and> v \<noteq> [] then Some v else map_of m x)"
  by (simp add: put_nonempty_def)

lemma tags_of_lookup:
  assumes "(k, v) \<in> set (automatic_tags p)"
  shows "map_of (tags_of p) k = (case map_of (rev (pp_extra_tags p)) k of Some w \<Rightarrow> Some w | None \<Rightarrow> Some v)"
proof -
  have k: "k \<notin> {''business-unit'', ''project'', ''data-classification'', ''ttl''}" "map_of (automatic_tags p) k = Some v"
    using assms by (auto simp: automatic_tags_def)
  then show ?thesis
    unfolding tags_of_def tags_render_def Let_def automatic_tags_def [symmetric]
    by (simp add: go_get_def map_of_fold_put map_add_def split: option.split)
qed

lemma tags_of_nonempty: "tags_of p \<noteq> []"
  using tags_of_lookup [of "''service''" "pp_request_name p" p]
  by (auto simp: automatic_tags_def split: option.splits)

section \<open>The loop over the capabilities\<close>

definition doc_name :: "go_map \<Rightarrow> go_any" where
  "doc_name doc = go_get (map_any (go_get doc ''metadata'')) ''name''"

definition doc_params :: "go_map \<Rightarrow> go_map" where
  "doc_params doc = map_any (go_get (map_any (go_get doc ''spec'')) ''parameters'')"

definition doc_tags :: "go_map \<Rightarrow> (string \<times> string) list option" where
  "doc_tags doc = as_str_map (go_get (doc_params doc) ''tags'')"

lemma xr_document_simps [simp]:
  "doc_name (xr_document title p c pr ps) = GStr (pp_request_name p @ ''-'' @ c)"
  "doc_params (xr_document title p c pr ps) = ps"
  "go_get (xr_document title p c pr ps) ''kind'' = GStr (resolve_xrd_kind title c)"
  by (simp_all add: doc_name_def doc_params_def xr_document_def Let_def go_get_def map_any_def)

definition builder_for :: "string \<Rightarrow> provision_params \<Rightarrow> go_map \<Rightarrow> go_map" where
  "builder_for c = (case map_of param_builders c of None \<Rightarrow> (\<lambda>p m. m) | Some b \<Rightarrow> b)"

definition doc_for ::
  "(string \<Rightarrow> string) \<Rightarrow> provision_params \<Rightarrow> go_map \<Rightarrow> (string \<times> string) list \<Rightarrow> string \<Rightarrow> go_map" where
  "doc_for title p parts tags c = xr_document title p c
     (case map_of (capabilities p) c of None \<Rightarrow> [] | Some cap \<Rightarrow> provider_of cap (pp_default_provider p))
     (merge_tags_into_parameters (builder_for c p
        (if tags \<noteq> [] then alist_put ''tags'' (GStrMap tags) (map_any (go_get parts c)) else map_any (go_get parts c)))
        tags)"

lemma resolve_provider_eq: "resolve_provider cap dp = Inr (provider_of cap dp)"
  by (simp add: resolve_provider_def provider_of_def module_default_provider_def Let_def)

lemma build_docs_Inr:
  "build_docs title p parts tags ks = Inr docs \<Longrightarrow>
     docs = map (doc_for title p parts tags) (filter (\<lambda>k. k \<noteq> ''tags'' \<and> cap_on (capabilities p) k) ks)"
proof (induction ks arbitrary: docs)
  case (Cons k ks)
  show ?case
  proof (cases "k = ''tags'' \<or> \<not> cap_on (capabilities p) k")
    case True
    then have "build_docs title p parts tags ks = Inr docs"
      using Cons.prems by (auto simp: cap_on_def split: option.splits if_splits)
    then show ?thesis using Cons.IH True by auto
  next
    case False
    then obtain cap where cap: "map_of (capabilities p) k = Some cap" "is_enabled cap"
      by (auto simp: cap_on_def split: option.splits)
    obtain ds b where ds: "build_docs title p parts tags ks = Inr ds" "map_of param_builders k = Some b"
      and docs: "docs = doc_for title p parts tags k # ds"
      using Cons.prems False cap
      by (auto simp: resolve_provider_eq Let_def doc_for_def builder_for_def
          split: option.splits if_splits sum.splits)
    then show ?thesis using Cons.IH [OF ds(1)] False by simp
  qed
qed simp

section \<open>What a rendered set of documents looks like\<close>

lemma sorted_capability_names: "sorted capability_names"
  by code_simp

definition xr_parts :: "provision_params \<Rightarrow> go_map" where
  "xr_parts p = filter buildable (rendered p) @ [(''tags'', GStrMap (tags_of p))]"

lemma not_buildable: "\<not> buildable (''tags'', v)" "\<not> buildable (''compliance'', v)"
  by (simp_all add: buildable_def param_builders_def)

lemma inject_tags_rendered:
  assumes "render_fragments infra_fragments p ([], []) = Ret (sp, cp)"
  shows "inject_tags sp cp = xr_parts p"
proof -
  have st: "sp = rendered p" "cp = filter buildable (rendered p)"
    using rendered_keys(2) [OF assms] by simp_all
  have "map_of sp ''tags'' = Some (GStrMap (tags_of p))"
    using rendered_tags [of p] by (simp add: st tags_render_tags)
  moreover have "''tags'' \<notin> fst ` set cp" using not_buildable by (auto simp: st)
  ultimately show ?thesis
    using tags_of_nonempty [of p] st(2)
    by (cases "tags_of p") (auto simp: inject_tags_def xr_parts_def alist_put_fresh)
qed

lemma enabled_keys:
  assumes "render_fragments infra_fragments p ([], []) = Ret st"
  shows "filter (\<lambda>k. k \<noteq> ''tags'' \<and> cap_on (capabilities p) k) (sort (map fst (xr_parts p)))
       = filter (cap_on (capabilities p)) capability_names"
proof (rule sorted_distinct_set_unique)
  note keys = rendered_keys(1) [OF assms]
  have d: "distinct (map fst (rendered p))" using keys infra_keys_distinct [of p] by simp
  have "''tags'' \<notin> fst ` set (filter buildable (rendered p))" using not_buildable by auto
  then show "distinct (filter (\<lambda>k. k \<noteq> ''tags'' \<and> cap_on (capabilities p) k) (sort (map fst (xr_parts p))))"
    using distinct_map_filter [OF d] by (simp add: xr_parts_def)
  show "sorted (filter (\<lambda>k. k \<noteq> ''tags'' \<and> cap_on (capabilities p) k) (sort (map fst (xr_parts p))))"
    by (simp add: sorted_filter [where f = "\<lambda>x. x", simplified])
  show "sorted (filter (cap_on (capabilities p)) capability_names)"
    using sorted_filter [where f = "\<lambda>x. x", simplified, OF sorted_capability_names] by simp
  show "distinct (filter (cap_on (capabilities p)) capability_names)"
    using distinct_capability_names by simp
  have on: "cap_on (capabilities p) k \<Longrightarrow> k \<in> set capability_names" for k
    using capabilities_dom [of p k] by (auto simp: cap_on_def split: option.splits)
  have "k \<in> fst ` set (filter buildable (rendered p)) \<longleftrightarrow> cap_on (capabilities p) k"
    if k: "k \<in> set capability_names" for k
  proof -
    have "k \<in> fst ` set (filter buildable (rendered p)) \<longleftrightarrow> k \<in> set (map fst (rendered p))"
      using k builders_dom [of k] by (force simp: buildable_def image_iff)
    then show ?thesis using infra_keys_enabled [OF k, of p] keys by simp
  qed
  moreover have "''tags'' \<notin> set capability_names" by (simp add: capability_names_def)
  ultimately show "set (filter (\<lambda>k. k \<noteq> ''tags'' \<and> cap_on (capabilities p) k) (sort (map fst (xr_parts p))))
      = set (filter (cap_on (capabilities p)) capability_names)"
    using on by (auto simp: xr_parts_def)
qed

lemma extract_tags_parts:
  assumes "render_fragments infra_fragments p ([], []) = Ret st"
  shows "extract_tags (xr_parts p) = tags_of p"
proof -
  have "''tags'' \<notin> fst ` set (filter buildable (rendered p))" using not_buildable by auto
  then have "map_of (filter buildable (rendered p)) ''tags'' = None" unfolding map_of_eq_None_iff .
  then have "map_of (xr_parts p) ''tags'' = Some (GStrMap (tags_of p))"
    by (simp add: xr_parts_def map_add_def)
  then show ?thesis by (simp add: extract_tags_def)
qed

abbreviation infra_engine :: "(string \<times> template_catalog) list \<Rightarrow> engine" where
  "infra_engine cats \<equiv> \<lparr>en_fragments = infra_fragments, en_catalogs = cats\<rparr>"

lemma engine_docs_Ret:
  assumes "engine_docs title (infra_engine cats) p = Ret docs"
  obtains q st where "apply_catalog (infra_engine cats) p = (None, q)" "validate_params q = None"
    "validate_at_least_one_capability q = None" "validate_cross_cutting q = None"
    "render_fragments infra_fragments q ([], []) = Ret st" "docs \<noteq> []"
    "docs = map (doc_for title q (xr_parts q) (tags_of q)) (filter (cap_on (capabilities q)) capability_names)"
proof -
  obtain er q where a: "apply_catalog (infra_engine cats) p = (er, q)" by fastforce
  have er: "er = None" using assms a by (auto simp: engine_docs_def split: option.splits)
  have v: "validate_params q = None" "validate_at_least_one_capability q = None"
    "validate_cross_cutting q = None"
    using assms a er by (auto simp: engine_docs_def split: option.splits)
  obtain sp cp where r: "render_fragments infra_fragments q ([], []) = Ret (sp, cp)"
    and b: "build_xrs title q (inject_tags sp cp) = Inr docs" and ne: "docs \<noteq> []"
    using assms a er v by (auto simp: engine_docs_def split: outcome.splits sum.splits if_splits)
  have "docs = map (doc_for title q (xr_parts q) (tags_of q)) (filter (cap_on (capabilities q)) capability_names)"
    using build_docs_Inr [of title q "xr_parts q" "tags_of q" "sort (map fst (xr_parts q))" docs] b
      inject_tags_rendered [OF r] extract_tags_parts [OF r] enabled_keys [OF r]
    by (simp add: build_xrs_def)
  then show ?thesis using that a er v r ne by simp
qed

section \<open>A concrete request\<close>

definition ex_request :: provision_params where
  "ex_request = \<lparr>pp_contract_version = ''v1'', pp_request_name = ''shop'', pp_tenant = ''t1'', pp_owner = ''ann'',
     pp_environment = ''production'', pp_workload_profile = ''small'', pp_catalogue_item = ''k8s-app'',
     pp_namespace = ''ns'', pp_residency = ''eu'', pp_primary_region = ''eu-west-1'', pp_secondary_region = [],
     pp_availability = ''high'', pp_data_classification = ''restricted'', pp_compliance = [], pp_workload_type = ''web'',
     pp_workload_exposure = ''public'', pp_ingress_mode = ''public'', pp_egress_mode = ''nat'', pp_dr_required = False,
     pp_backup_required = True, pp_default_provider = [], pp_extra_tags = [(''owner'', ''team-a'')],
     pp_cost_centre = ''cc-1'', pp_business_unit = [], pp_project = [], pp_ttl = ''2028-02-29'',
     pp_kubernetes = \<lparr>k8s_enabled = True, k8s_provider = ''azure'', k8s_tier = [], k8s_size = ''small'',
       k8s_multi_az = False, k8s_version = [], k8s_node_pool_count = 1\<rparr>,
     pp_vm = \<lparr>vm_enabled = False, vm_provider = [], vm_count = 0, vm_instance_family = [], vm_size = [],
       vm_os_family = [], vm_os_image = [], vm_arch = [], vm_spot_enabled = False, vm_spot_max_price = (0, 1),
       vm_placement_group = [], vm_ssh_key_name = [], vm_user_data = [], vm_boot_disk_gib = 0,
       vm_boot_disk_type = [], vm_additional_disks = [], vm_multi_az = False,
       vm_auto_scaling = \<lparr>as_enabled = False, as_min_count = 0, as_max_count = 0, as_target_cpu = 0,
         as_scale_policy = []\<rparr>\<rparr>,
     pp_database = \<lparr>db_enabled = True, db_provider = [], db_engine = ''postgres'', db_tier = ''standard'',
       db_storage_gib = 20, db_storage_type = [], db_iops = 0, db_backup_enabled = True,
       db_backup_retention_days = 0, db_point_in_time_recovery = False, db_parameter_group = [],
       db_maintenance_window = []\<rparr>,
     pp_object_store = \<lparr>os_enabled = False, os_provider = [], os_class = [], os_versioning = False,
       os_retention_days = 0, os_bucket_count = 0\<rparr>,
     pp_block_store = \<lparr>bs_enabled = False, bs_provider = [], bs_volumes = []\<rparr>,
     pp_file_store = \<lparr>fs_enabled = False, fs_provider = [], fs_performance_mode = [], fs_throughput_mode = [],
       fs_throughput_mibs = 0, fs_size_gib = 0, fs_protocol = [], fs_multi_az = False\<rparr>,
     pp_vpc = \<lparr>vpc_enabled = False, vpc_provider = [], vpc_cidr = [], vpc_private_subnets = 0,
       vpc_public_subnets = 0, vpc_nat_gateways = 0, vpc_flow_logs = False, vpc_transit_gateway = False,
       vpc_peering_requests = []\<rparr>,
     pp_messaging = \<lparr>msg_enabled = False, msg_provider = [], msg_tier = [], msg_queue_count = 0,
       msg_topic_count = 0, msg_fifo = False, msg_encryption = False, msg_dlq_enabled = False,
       msg_dlq_max_retry = 0\<rparr>,
     pp_cache = \<lparr>cache_enabled = False, cache_provider = [], cache_engine = [], cache_tier = [],
       cache_node_type = [], cache_version = [], cache_replica_count = 0, cache_snapshot_retention_days = 0\<rparr>,
     pp_dns = \<lparr>dns_enabled = False, dns_provider = [], dns_zone_name = [], dns_private = False, dns_records = []\<rparr>,
     pp_load_balancer = \<lparr>lb_enabled = True, lb_provider = [], lb_type = ''application'', lb_scheme = ''internal'',
       lb_https = True, lb_waf = True, lb_idle_timeout = 0,
       lb_health_check = \<lparr>hc_path = [], hc_port = 0, hc_protocol = [], hc_interval_seconds = 0,
         hc_healthy_threshold = 0, hc_unhealthy_threshold = 0\<rparr>\<rparr>,
     pp_cdn = \<lparr>cdn_enabled = False, cdn_provider = [], cdn_origin_type = [], cdn_price_class = [],
       cdn_cache_policy_ttl = 0, cdn_custom_domains = [], cdn_waf = False\<rparr>,
     pp_identity = \<lparr>idn_enabled = True, idn_provider = [], idn_type = ''federated'', idn_service_account_count = 0,
       idn_policies = [], idn_federation_provider = ''okta'', idn_federation_audience = ''aud''\<rparr>,
     pp_secrets = \<lparr>sec_enabled = False, sec_provider = [], sec_kms_key_type = [], sec_kms_rotation_days = 0,
       sec_secret_count = 0, sec_auto_rotation = False, sec_rotation_interval_days = 0\<rparr>,
     pp_observability = \<lparr>obs_enabled = False, obs_provider = [], obs_metrics_retention_days = 0,
       obs_metrics_resolution = [], obs_custom_metric_namespaces = [], obs_log_retention_days = 0,
       obs_log_sink_type = [], obs_external_log_sink = [], obs_tracing_enabled = False,
       obs_tracing_sample_rate = (0, 1), obs_tracing_provider = [], obs_dashboard_enabled = False\<rparr>\<rparr>"

lemma ex_request_renders:
  "case engine_docs (\<lambda>s. s) (infra_engine [(''k8s-app'', k8s_app)]) ex_request of Ret docs \<Rightarrow> True | _ \<Rightarrow> False"
  by code_simp

section \<open>Properties\<close>

lemma merge_tags_tags:
  "tags \<noteq> [] \<Longrightarrow> as_str_map (go_get (merge_tags_into_parameters params tags) ''tags'')
     = Some (fold (\<lambda>(k, v) t. alist_put k v t) tags
         (case as_str_map (go_get params ''tags'') of None \<Rightarrow> [] | Some t \<Rightarrow> t))"
  by (simp add: merge_tags_into_parameters_def)

lemma doc_for_tags:
  "k \<in> dom (map_of (tags_of p)) \<Longrightarrow>
     \<exists>t. doc_tags (doc_for title q parts (tags_of p) c) = Some t \<and> map_of t k = map_of (tags_of p) k"
  by (auto simp: doc_for_def doc_tags_def merge_tags_tags tags_of_nonempty map_of_fold_put
      map_of_rev_distinct [OF tags_of_distinct] map_add_def)

lemma capabilities_defaults [simp]: "capabilities (apply_catalog_defaults cat p) = capabilities p"
  by (simp add: apply_catalog_defaults_def capabilities_def split: option.splits)

lemma apply_catalog_defaults_global [simp]:
  "pp_request_name (apply_catalog_defaults cat p) = pp_request_name p"
  "pp_environment (apply_catalog_defaults cat p) = pp_environment p"
  "pp_catalogue_item (apply_catalog_defaults cat p) = pp_catalogue_item p"
  "pp_default_provider (apply_catalog_defaults cat p) = pp_default_provider p"
  "automatic_tags (apply_catalog_defaults cat p) = automatic_tags p"
  "pp_extra_tags (apply_catalog_defaults cat p) = pp_extra_tags p"
  by (simp_all add: apply_catalog_defaults_def automatic_tags_def split: option.splits)

lemma apply_catalog_params:
  assumes "apply_catalog e p = (er, q)"
  obtains "q = p" | cat where "q = apply_catalog_defaults cat p"
  using assms by (auto simp: apply_catalog_def Let_def split: if_splits option.splits)

lemma required_Nil [simp]: "required v msg = [] \<longleftrightarrow> v \<noteq> []"
  by (simp add: required_def)

lemma reject_Nil [simp]: "reject b msg = [] \<longleftrightarrow> \<not> b"
  by (simp add: reject_def)

text \<open>C31: the documents of a successful rendering. There is exactly one per enabled capability, in
  alphabetical order, named after the request and the capability; and each carries every automatic
  tag (cost centre, service, environment, owner, tenant and so on), with the value of the request
  unless the request's own extra tags override it.\<close>

theorem one_document_per_capability:
  assumes "engine_docs title (infra_engine cats) p = Ret docs"
  shows "map doc_name docs
      = map (\<lambda>c. GStr (pp_request_name p @ ''-'' @ c)) (filter (cap_on (capabilities p)) capability_names)
    \<and> docs \<noteq> []
    \<and> (\<forall>doc \<in> set docs. \<forall>(k, v) \<in> set (automatic_tags p). \<exists>t. doc_tags doc = Some t \<and>
         map_of t k = (case map_of (rev (pp_extra_tags p)) k of Some w \<Rightarrow> Some w | None \<Rightarrow> Some v))"
proof -
  obtain q where a: "apply_catalog (infra_engine cats) p = (None, q)" and ne: "docs \<noteq> []"
    and docs: "docs = map (doc_for title q (xr_parts q) (tags_of q)) (filter (cap_on (capabilities q)) capability_names)"
    using engine_docs_Ret [OF assms] by metis
  have q: "capabilities q = capabilities p" "pp_request_name q = pp_request_name p"
    "automatic_tags q = automatic_tags p" "pp_extra_tags q = pp_extra_tags p"
    using apply_catalog_params [OF a] by (metis capabilities_defaults apply_catalog_defaults_global)+
  have tag: "\<exists>t. doc_tags doc = Some t \<and>
         map_of t k = (case map_of (rev (pp_extra_tags p)) k of Some w \<Rightarrow> Some w | None \<Rightarrow> Some v)"
    if "doc \<in> set docs" "(k, v) \<in> set (automatic_tags p)" for doc k v
  proof -
    have l: "map_of (tags_of q) k = (case map_of (rev (pp_extra_tags p)) k of Some w \<Rightarrow> Some w | None \<Rightarrow> Some v)"
      using tags_of_lookup [of k v q] that(2) q by simp
    then have "k \<in> dom (map_of (tags_of q))" by (auto simp: dom_def split: option.splits)
    then show ?thesis using doc_for_tags [of k q title q "xr_parts q"] that(1) l by (auto simp: docs)
  qed
  show ?thesis using ne tag by (auto simp: docs doc_for_def q)
qed

theorem one_document_per_capability_witness:
  "\<exists>docs. engine_docs (\<lambda>s. s) (infra_engine [(''k8s-app'', k8s_app)]) ex_request = Ret docs
    \<and> map doc_name docs = [GStr ''shop-database'', GStr ''shop-identity'', GStr ''shop-kubernetes'', GStr ''shop-loadBalancer'']
    \<and> (\<forall>doc \<in> set docs. \<exists>t. doc_tags doc = Some t \<and> map_of t ''owner'' = Some ''team-a'')"
proof -
  obtain docs where d: "engine_docs (\<lambda>s. s) (infra_engine [(''k8s-app'', k8s_app)]) ex_request = Ret docs"
    using ex_request_renders by (auto split: outcome.splits)
  note t = one_document_per_capability [OF d]
  have "map (\<lambda>c. GStr (pp_request_name ex_request @ ''-'' @ c)) (filter (cap_on (capabilities ex_request)) capability_names)
      = [GStr ''shop-database'', GStr ''shop-identity'', GStr ''shop-kubernetes'', GStr ''shop-loadBalancer'']"
    by code_simp
  moreover have "(''owner'', ''ann'') \<in> set (automatic_tags ex_request)"
    "map_of (rev (pp_extra_tags ex_request)) ''owner'' = Some ''team-a''"
    by (simp_all add: automatic_tags_def ex_request_def)
  ultimately show ?thesis using d t by fastforce
qed



lemma xr_parts_get:
  assumes "render_fragments infra_fragments p ([], []) = Ret st" "frag n a v r \<in> set infra_fragments"
    "a p" "r p = [(c, m)]" "c \<in> set capability_names"
  shows "go_get (xr_parts p) c = m"
proof -
  have "part_of p (frag n a v r) = [(c, m)]" using assms(3,4) by (simp add: part_of_def frag_def)
  then have "(c, m) \<in> set (rendered p)" using assms(2) by (force simp: rendered_def)
  moreover have "buildable (c, m)" using builders_dom [of c] assms(5) by (simp add: buildable_def)
  moreover have "distinct (map fst (filter buildable (rendered p)))"
    using rendered_keys(1) [OF assms(1)] infra_keys_distinct [of p] by (intro distinct_map_filter) simp
  ultimately have "map_of (filter buildable (rendered p)) c = Some m"
    by (intro map_of_is_SomeI) auto
  then show ?thesis by (simp add: go_get_def xr_parts_def map_add_def)
qed

lemma doc_for_param:
  "k \<noteq> ''tags'' \<Longrightarrow> go_get (doc_params (doc_for title p parts tags c)) k
     = go_get (builder_for c p (if tags \<noteq> [] then alist_put ''tags'' (GStrMap tags) (map_any (go_get parts c))
         else map_any (go_get parts c))) k"
  by (simp add: doc_for_def merge_tags_into_parameters_def Let_def)

definition built :: "string \<Rightarrow> provision_params \<Rightarrow> (provision_params \<Rightarrow> go_map) \<Rightarrow> (string \<times> string) list \<Rightarrow> go_map" where
  "built c p render tags = builder_for c p (alist_put ''tags'' (GStrMap tags) (map_any (go_get (render p) c)))"

lemma doc_for_built:
  assumes "render_fragments infra_fragments p ([], []) = Ret st" "frag n a v r \<in> set infra_fragments"
    "a p" "\<exists>m. r p = [(c, m)]" "c \<in> set capability_names" "k \<noteq> ''tags''"
  shows "go_get (doc_params (doc_for title p (xr_parts p) (tags_of p) c)) k = go_get (built c p r (tags_of p)) k"
proof -
  obtain m where m: "r p = [(c, m)]" using assms(4) by blast
  then have "go_get (xr_parts p) c = go_get (r p) c"
    using xr_parts_get [OF assms(1-3) m assms(5)] by (simp add: go_get_def)
  then show ?thesis using assms(6) tags_of_nonempty [of p] by (simp add: doc_for_param built_def)
qed

lemma block_storage_lost:
  "go_get (built ''blockStorage'' p block_storage_render t) ''sizeGb'' = GInt 100"
  "go_get (built ''blockStorage'' p block_storage_render t) ''volumeType'' = GStr ''gp3''"
  by (simp_all add: built_def builder_for_def param_builders_def build_block_storage_params_def
      block_storage_render_def go_get_def map_any_def Let_def)

lemma load_balancer_lost:
  "go_get (built ''loadBalancer'' p load_balancer_render t) ''https'' = GBool False"
  "go_get (built ''loadBalancer'' p load_balancer_render t) ''waf'' = GBool False"
  by (simp_all add: built_def builder_for_def param_builders_def build_load_balancer_params_def
      load_balancer_render_def waf_render_def bool_any_def go_get_def map_any_def Let_def)

lemma go_get_Cons [simp]: "go_get ((k, v) # m) k' = (if k' = k then v else go_get m k')"
  by (simp add: go_get_def)

lemma go_get_Nil [simp]: "go_get [] k = GNil"
  by (simp add: go_get_def)

lemma identity_part:
  fixes p t
  defines "m \<equiv> alist_put ''tags'' (GStrMap t) (map_any (go_get (identity_render p) ''identity''))"
  shows "go_get m ''type'' = GStr (idn_type (pp_identity p))" "as_list (go_get m ''policies'') = None"
    "go_get m ''servicePrincipal'' = GNil"
  unfolding m_def by (simp_all add: identity_render_def Let_def map_any_def)

lemma build_identity_without_policies:
  assumes "as_list (go_get m ''policies'') = None"
  shows "go_get (build_identity_params p m) ''managedPolicies'' = GStrList []"
    "go_get (build_identity_params p m) ''inlinePolicy'' = GNil"
  using assms by (simp_all add: build_identity_params_def Let_def)

lemma build_identity_unknown_type:
  assumes "go_get m ''type'' = GStr t" "t \<notin> {''service'', ''irsa'', ''federation''}" "go_get m ''servicePrincipal'' = GNil"
  shows "go_get (build_identity_params p m) ''type'' = GStr ''service''"
    "go_get (build_identity_params p m) ''servicePrincipal'' = GStr ''lambda.amazonaws.com''"
  using assms by (simp_all add: build_identity_params_def Let_def str_any_def split: prod.split)

lemma identity_lost:
  "go_get (built ''identity'' p identity_render t) ''managedPolicies'' = GStrList []"
  "go_get (built ''identity'' p identity_render t) ''inlinePolicy'' = GNil"
  "idn_type (pp_identity p) = ''federated'' \<Longrightarrow> go_get (built ''identity'' p identity_render t) ''type'' = GStr ''service''"
  "idn_type (pp_identity p) = ''federated'' \<Longrightarrow>
     go_get (built ''identity'' p identity_render t) ''servicePrincipal'' = GStr ''lambda.amazonaws.com''"
  using build_identity_without_policies [OF identity_part(2)] identity_part(1,3) [of t p]
    build_identity_unknown_type [OF identity_part(1) _ identity_part(3)]
  by (simp_all add: built_def builder_for_def param_builders_def)

lemma database_lost:
  "go_get (built ''database'' p database_render t) ''backupRetentionDays'' = GInt (db_backup_retention_days (pp_database p))"
  by (simp add: built_def builder_for_def param_builders_def build_database_params_def go_get_def)

lemma lost_fragments:
  "frag ''block-storage'' (\<lambda>p. bs_enabled (pp_block_store p)) block_storage_validate block_storage_render \<in> set infra_fragments"
  "frag ''load-balancer'' (\<lambda>p. lb_enabled (pp_load_balancer p)) load_balancer_validate load_balancer_render \<in> set infra_fragments"
  "frag ''identity'' (\<lambda>p. idn_enabled (pp_identity p)) identity_validate identity_render \<in> set infra_fragments"
  "frag ''database'' (\<lambda>p. db_enabled (pp_database p)) database_validate database_render \<in> set infra_fragments"
  by (simp_all add: infra_fragments_def)

text \<open>Settings a request makes that do not reach its documents. Whatever volumes are asked for,
  the block storage document describes one default volume of 100 GiB; a load balancer is emitted
  without HTTPS and without a web application firewall; a federated identity becomes a service
  identity of the Lambda service with no policy at all; and a database has the retention of the
  request, zero unless it says otherwise, where the fragment had computed one from the
  classification of the data.\<close>

theorem requested_settings_lost:
  assumes "engine_docs title (infra_engine cats) p = Ret docs" "doc \<in> set docs"
  shows "(doc_name doc = GStr (pp_request_name p @ ''-blockStorage'') \<longrightarrow>
       go_get (doc_params doc) ''sizeGb'' = GInt 100 \<and> go_get (doc_params doc) ''volumeType'' = GStr ''gp3'')
    \<and> (doc_name doc = GStr (pp_request_name p @ ''-loadBalancer'') \<longrightarrow>
       go_get (doc_params doc) ''https'' = GBool False \<and> go_get (doc_params doc) ''waf'' = GBool False)
    \<and> (doc_name doc = GStr (pp_request_name p @ ''-identity'') \<longrightarrow>
       go_get (doc_params doc) ''managedPolicies'' = GStrList [] \<and> go_get (doc_params doc) ''inlinePolicy'' = GNil
       \<and> (idn_type (pp_identity p) = ''federated'' \<longrightarrow> go_get (doc_params doc) ''type'' = GStr ''service''
            \<and> go_get (doc_params doc) ''servicePrincipal'' = GStr ''lambda.amazonaws.com''))
    \<and> (doc_name doc = GStr (pp_request_name p @ ''-database'') \<longrightarrow>
       go_get (doc_params doc) ''backupRetentionDays'' = GInt (db_backup_retention_days (pp_database p)))"
proof -
  obtain q st where a: "apply_catalog (infra_engine cats) p = (None, q)"
    and r: "render_fragments infra_fragments q ([], []) = Ret st"
    and docs: "docs = map (doc_for title q (xr_parts q) (tags_of q)) (filter (cap_on (capabilities q)) capability_names)"
    using engine_docs_Ret [OF assms(1)] by metis
  have n: "pp_request_name q = pp_request_name p" "pp_identity q = pp_identity p"
    "db_backup_retention_days (pp_database q) = db_backup_retention_days (pp_database p)"
    by (rule apply_catalog_params [OF a], simp, simp add: apply_catalog_defaults_def split: option.splits)+
  obtain c where c: "c \<in> set capability_names" "cap_on (capabilities q) c"
    and doc: "doc = doc_for title q (xr_parts q) (tags_of q) c"
    using assms(2) docs by auto
  have name: "doc_name doc = GStr (pp_request_name p @ ''-'' @ c)" by (simp add: doc doc_for_def n)
  note param = doc_for_built [OF r _ _ _ c(1), where title = title, folded doc]
  have bs: "go_get (doc_params doc) k = go_get (built c q block_storage_render (tags_of q)) k"
    if "c = ''blockStorage''" "k \<noteq> ''tags''" for k
    using that c(2) param [OF lost_fragments(1)]
    by (simp add: block_storage_render_def cap_on_def capabilities_def)
  have lb: "go_get (doc_params doc) k = go_get (built c q load_balancer_render (tags_of q)) k"
    if "c = ''loadBalancer''" "k \<noteq> ''tags''" for k
    using that c(2) param [OF lost_fragments(2)]
    by (simp add: load_balancer_render_def Let_def cap_on_def capabilities_def)
  have idn: "go_get (doc_params doc) k = go_get (built c q identity_render (tags_of q)) k"
    if "c = ''identity''" "k \<noteq> ''tags''" for k
    using that c(2) param [OF lost_fragments(3)]
    by (simp add: identity_render_def Let_def cap_on_def capabilities_def)
  have db: "go_get (doc_params doc) k = go_get (built c q database_render (tags_of q)) k"
    if "c = ''database''" "k \<noteq> ''tags''" for k
    using that c(2) param [OF lost_fragments(4)]
    by (simp add: database_render_def Let_def cap_on_def capabilities_def)
  show ?thesis
    using bs lb idn db
    by (simp add: name n(2,3) block_storage_lost load_balancer_lost identity_lost database_lost)
qed

theorem requested_settings_lost_witness:
  "\<exists>docs. engine_docs (\<lambda>s. s) (infra_engine [(''k8s-app'', k8s_app)]) ex_request = Ret docs
    \<and> (\<exists>doc \<in> set docs. go_get (doc_params doc) ''type'' = GStr ''service''
         \<and> go_get (doc_params doc) ''servicePrincipal'' = GStr ''lambda.amazonaws.com'')"
proof -
  obtain docs where d: "engine_docs (\<lambda>s. s) (infra_engine [(''k8s-app'', k8s_app)]) ex_request = Ret docs"
    using ex_request_renders by (auto split: outcome.splits)
  have "case engine_docs (\<lambda>s. s) (infra_engine [(''k8s-app'', k8s_app)]) ex_request of
      Ret docs \<Rightarrow> list_ex (\<lambda>doc. doc_name doc = GStr ''shop-identity'') docs | _ \<Rightarrow> False"
    by code_simp
  then obtain doc where doc: "doc \<in> set docs" "doc_name doc = GStr ''shop-identity''"
    using d by (auto simp: list_ex_iff)
  have "pp_request_name ex_request = ''shop''" "idn_type (pp_identity ex_request) = ''federated''"
    by (simp_all add: ex_request_def)
  then show ?thesis using requested_settings_lost [OF d doc(1)] doc d by auto
qed

end
