(* ===== verification/Infra_Runs.thy ===== *)
theory Infra_Runs
  imports Infra_Module Infra_Rendering
begin

text \<open>
  What every run of the infrastructure module guarantees, whatever its connectors answer. The lemmas
  say what each phase adds to the history: which files its commits carry, and how many commits there
  are. The properties of \<open>Execute\<close> follow from them by composition.
\<close>

section \<open>What a phase adds to the history\<close>

fun hist_of :: "'a phase \<Rightarrow> history" where
  "hist_of (Stop x h) = h"
| "hist_of (Pending h) = h"
| "hist_of (Next a h) = h"

definition commit_of :: "connector_request \<Rightarrow> bool" where
  "commit_of req \<longleftrightarrow> cq_operation req = ''commit_files''"

fun is_commit :: "api_event \<Rightarrow> bool" where
  "is_commit (Called req r) \<longleftrightarrow> commit_of req"
| "is_commit _ \<longleftrightarrow> False"

definition files_of :: "connector_request \<Rightarrow> go_any" where
  "files_of req = (case cq_input req of None \<Rightarrow> GNil | Some inp \<Rightarrow> go_get inp ''files'')"

fun commits_files :: "go_map \<Rightarrow> api_event \<Rightarrow> bool" where
  "commits_files F (Called req r) \<longleftrightarrow> (commit_of req \<longrightarrow> files_of req = GMap F)"
| "commits_files F _ \<longleftrightarrow> True"

text \<open>\<open>h'\<close> extends \<open>h\<close> by events with at most \<open>k\<close> commits, all of the files \<open>F\<close>.\<close>

definition grows :: "go_map \<Rightarrow> nat \<Rightarrow> history \<Rightarrow> history \<Rightarrow> bool" where
  "grows F k h h' \<longleftrightarrow> (\<exists>xs. h' = h @ xs \<and> list_all (commits_files F) xs \<and> length (filter is_commit xs) \<le> k)"

named_theorems grows_intros
  \<open>what the parts of a run add to the history\<close>

lemma grows_refl [grows_intros]: "grows F k h h"
  by (auto simp: grows_def intro: exI [of _ "[]"])

lemma grows_snoc:
  assumes "grows F k h h'" "\<not> is_commit e"
  shows "grows F k h (h' @ [e])"
proof -
  obtain xs where xs: "h' = h @ xs" "list_all (commits_files F) xs" "length (filter is_commit xs) \<le> k"
    using assms(1) by (auto simp: grows_def)
  have "commits_files F e" using assms(2) by (cases e) simp_all
  then show ?thesis using xs assms(2) by (auto simp: grows_def intro: exI [of _ "xs @ [e]"])
qed

lemma grows_commit:
  assumes "grows F k h h'" "commits_files F e"
  shows "grows F (Suc k) h (h' @ [e])"
proof -
  obtain xs where xs: "h' = h @ xs" "list_all (commits_files F) xs" "length (filter is_commit xs) \<le> k"
    using assms(1) by (auto simp: grows_def)
  then show ?thesis using assms(2) by (auto simp: grows_def intro!: exI [of _ "xs @ [e]"])
qed

lemma grows_append [simp]:
  "grows F k h (h @ xs) \<longleftrightarrow> list_all (commits_files F) xs \<and> length (filter is_commit xs) \<le> k"
  by (simp add: grows_def)

lemma grows_append_Cons [simp]:
  "grows F k (h @ [e]) (h @ e # xs) \<longleftrightarrow> list_all (commits_files F) xs \<and> length (filter is_commit xs) \<le> k"
  using grows_append [of F k "h @ [e]" xs] by simp

lemma grows_trans:
  assumes "grows F j h h1" "grows F k h1 h2"
  shows "grows F (j + k) h h2"
proof -
  obtain xs where "h1 = h @ xs" "list_all (commits_files F) xs" "length (filter is_commit xs) \<le> j"
    using assms(1) by (auto simp: grows_def)
  moreover obtain ys where "h2 = h1 @ ys" "list_all (commits_files F) ys" "length (filter is_commit ys) \<le> k"
    using assms(2) by (auto simp: grows_def)
  ultimately show ?thesis by simp
qed

lemma grows_mono: "grows F j h h' \<Longrightarrow> j \<le> k \<Longrightarrow> grows F k h h'"
  by (auto simp: grows_def)

lemma grows_step: "grows F k h h1 \<Longrightarrow> grows F 0 h1 h2 \<Longrightarrow> grows F k h h2"
  using grows_trans [of F k h h1 0 h2] by simp

lemma grows_and_then:
  assumes "grows F j h (hist_of ph)" "\<And>a h'. ph = Next a h' \<Longrightarrow> grows F k h' (hist_of (f a h'))"
  shows "grows F (j + k) h (hist_of (and_then ph f))"
proof (cases ph)
  case (Next a h')
  then show ?thesis using assms(1) assms(2) [OF Next] grows_trans by auto
qed (use assms(1) grows_mono in auto)

section \<open>Calls\<close>

text \<open>The request built from a map: its operation and its input.\<close>

lemma request_fields:
  assumes "map_to_connector_request m = Inr req"
  shows "cq_connector req = string_or_empty (go_get m ''connector'')"
    "cq_operation req = string_or_empty (go_get m ''operation'')"
    "cq_input req = as_map (go_get m ''input'')"
  using assms by (auto simp: map_to_connector_request_def Let_def split: if_splits)

lemma grows_api_call:
  assumes "string_or_empty (go_get m ''operation'') \<noteq> ''commit_files''"
    "\<And>e. grows F k h (hist_of (bad e h))"
    "\<And>e req r. \<not> commit_of req \<Longrightarrow> grows F k h (hist_of (failed e (h @ [Called req r])))"
    "\<And>res req r. \<not> commit_of req \<Longrightarrow> grows F k h (hist_of (ok res (h @ [Called req r])))"
  shows "grows F k h (hist_of (api_call env m h bad failed ok))"
proof (cases "map_to_connector_request m")
  case (Inr req)
  have nc: "\<not> commit_of req" using request_fields(2) [OF Inr] assms(1) by (simp add: commit_of_def)
  then have "grows F k h (h @ [Called req r])" for r by (intro grows_snoc grows_refl) simp
  then show ?thesis using Inr nc assms(3,4) by (simp add: api_call_def Let_def split: outcome.splits)
qed (simp add: api_call_def assms(2))

lemma hist_of_fail_step [simp]: "hist_of (fail_step s c m e h) = h @ [Ended_err s c m]"
  by (simp add: fail_step_def)

lemma grows_success_callback: "grows F 0 h (hist_of (success_callback env params body h))"
proof -
  let ?h = "h @ [Began ''infra.callback'']"
  have "grows F 0 ?h (hist_of (success_callback env params body h))"
    unfolding success_callback_def
  proof (rule grows_api_call)
    show "string_or_empty (go_get (callback_request (string_or_empty (go_get params ''callback_url'')) body params)
        ''operation'') \<noteq> ''commit_files''"
      by (simp add: callback_request_def go_get_def string_or_empty_def)
  qed (simp_all add: callback_done_def Let_def)
  moreover have "grows F 0 h ?h" by (intro grows_snoc grows_refl) simp
  ultimately show ?thesis by (rule grows_step [rotated])
qed

lemma grows_failure_callback: "grows F 0 h (hist_of (failure_callback env params body final h))"
proof -
  let ?h = "h @ [Began ''infra.callback'']"
  have h: "grows F 0 h ?h" by (intro grows_snoc grows_refl) simp
  have "grows F 0 ?h (hist_of (api_call env (callback_request url body params) ?h
      (\<lambda>e. fail_step ''infra.callback'' ''CALLBACK_REQUEST_INVALID'' e (''callback request invalid: '' @ e))
      (\<lambda>e h1. Stop (Exec_err (final (Some e))) (h1 @ [Ended_err ''infra.callback'' ''CALLBACK_FAILED'' e]))
      (\<lambda>r h1. Stop (Exec_err (final None)) (callback_done r h1))))" for url
  proof (rule grows_api_call)
    show "string_or_empty (go_get (callback_request url body params) ''operation'') \<noteq> ''commit_files''"
      by (simp add: callback_request_def go_get_def string_or_empty_def)
  qed (simp_all add: callback_done_def Let_def)
  then show ?thesis
    using h grows_step [OF h] by (auto simp: failure_callback_def Let_def split: go_any.splits)
qed

lemma grows_poll_loop:
  "grows F 0 h (snd (poll_loop n env st repo branch sha impl timeout interval start h))"
proof (induction n arbitrary: h)
  case (Suc n)
  have nc: "\<not> commit_of req" if "read_status_request repo branch impl = Inr req" for req
    using request_fields(2) [OF that [unfolded read_status_request_def]]
    by (simp add: commit_of_def go_get_def string_or_empty_def)
  have "grows F 0 h (h @ [Called req r])" if "read_status_request repo branch impl = Inr req" for req r
    using nc [OF that] by (intro grows_snoc grows_refl) simp
  moreover have "grows F 0 h (snd (poll_loop n env st repo branch sha impl timeout interval start
      ((h @ [Called req r]) @ [Slept interval])))" if "read_status_request repo branch impl = Inr req" for req r
    using nc [OF that] by (intro grows_step [OF _ Suc.IH] grows_snoc grows_refl) simp_all
  ultimately show ?case
    by (auto simp: Let_def grows_refl split: option.splits sum.splits outcome.splits)
qed (simp add: grows_refl)

lemma grows_check_health: "check_health n env st repo branch sha impl h = (out, h') \<Longrightarrow> grows F 0 h h'"
  using grows_poll_loop [of F h n env st repo branch sha impl "30 * second" 500000000 "ev_now env h"]
  by (simp add: check_health_def poll_health_status_def)

lemma grows_recommit:
  assumes "remediation_recommit env repo branch pre files msg impl h = (out, h')"
  shows "grows files 1 h h'"
proof -
  have "grows files 1 h (h @ [Called req r])"
    if "map_to_connector_request
        [(''connector'', GStr ''git''), (''impl_key'', GStr impl), (''operation'', GStr ''commit_files''),
         (''input'', GMap [(''repo'', GStr repo), (''branch'', GStr branch), (''path_prefix'', GStr pre),
            (''files'', GMap files), (''message'', GStr (msg @ '' [force-sync]'')),
            (''idempotency_key'', GStr (''remediation-'' @ int_str (go_quot (ev_now env h) second)))])] = Inr req" for req r
    using request_fields(3) [OF that] grows_commit [OF grows_refl, of files "Called req r" 0 h]
    by (simp add: files_of_def go_get_def)
  then show ?thesis
    using assms by (auto simp: remediation_recommit_def Let_def grows_refl split: sum.splits outcome.splits if_splits)
qed

section \<open>Phases\<close>

lemma grows_remediation_phase: "grows (manifests_map p out) 1 h (hist_of (remediation_phase n me env params p out sha h))"
proof -
  let ?F = "manifests_map p out"
  obtain r h1 where r: "remediation_recommit env (infra_repo params) ''main'' (path_prefix_of p) ?F
      (''Provision '' @ pp_catalogue_item p @ '' cluster [remediation]'') ''git-file''
      (h @ [Began ''infra.remediation'']) = (r, h1)" by fastforce
  have "grows ?F 0 h (h @ [Began ''infra.remediation''])" by (intro grows_snoc grows_refl) simp
  from grows_trans [OF this grows_recommit [OF r]] have g1: "grows ?F 1 h h1" by simp
  show ?thesis
  proof (cases r)
    case (Ret sha2)
    obtain q h2 where q: "check_health n env (me_status me) (infra_repo params) ''main'' sha2 ''git-file'' h1 = (q, h2)"
      by fastforce
    have g2: "grows ?F 1 h h2" using grows_step [OF g1 grows_check_health [OF q]] .
    then have "grows ?F 1 h (hist_of (failure_callback env params b f (h2 @ [Ended_err s c m])))" for b f s c m
      by (intro grows_step [OF _ grows_failure_callback] grows_snoc) simp_all
    moreover have "grows ?F 1 h ((h2 @ [Ended_ok s c]) @ [poll_done t])" for s c t
      using g2 by (intro grows_snoc) (simp_all add: poll_done_def)
    ultimately show ?thesis
      using r q Ret g2 by (auto simp: remediation_phase_def split: option.splits outcome.splits)
  next
    case (Fail e)
    have "grows ?F 1 h (hist_of (failure_callback env params b f (h1 @ [Ended_err s c m])))" for b f s c m
      using g1 by (intro grows_step [OF _ grows_failure_callback] grows_snoc) simp_all
    then show ?thesis using r Fail by (simp add: remediation_phase_def)
  next
    case (Panics e)
    then show ?thesis using r g1 by (simp add: remediation_phase_def)
  qed
qed

lemma grows_health_phase: "grows (manifests_map p out) 1 h (hist_of (health_phase n me env params p out sha h))"
proof -
  let ?F = "manifests_map p out"
  obtain q h1 where q: "check_health n env (me_status me) (infra_repo params) ''main'' sha ''git-file''
      (h @ [Began ''infra.health_poll'']) = (q, h1)" by fastforce
  have "grows ?F 0 h (h @ [Began ''infra.health_poll''])" by (intro grows_snoc grows_refl) simp
  then have g1: "grows ?F 0 h h1" using grows_check_health [OF q] grows_step by blast
  have "grows ?F 1 h (hist_of (remediation_phase n me env params p out sha h1))"
    using grows_trans [OF g1 grows_remediation_phase] by simp
  moreover have "grows ?F 1 h (h1 @ [poll_done s])" for s
    using g1 by (intro grows_snoc) (auto simp: poll_done_def intro: grows_mono)
  ultimately show ?thesis
    using q g1 by (auto simp: health_phase_def intro: grows_mono split: option.splits outcome.splits)
qed

lemma grows_deliver_phase: "grows (manifests_map p out) 1 h (hist_of (deliver_phase n me env params p out c h))"
proof -
  let ?F = "manifests_map p out"
  have sc: "grows ?F 1 h (hist_of (success_callback env params b h :: unit phase))" for b
    by (rule grows_mono [OF grows_success_callback]) simp
  have sk: "grows ?F 1 h (hist_of (success_callback env params b (h @ [poll_done s]) :: unit phase))" for b s
    by (intro grows_step [OF _ grows_success_callback] grows_snoc grows_refl) (simp add: poll_done_def)
  have "grows ?F (1 + 0) h (hist_of (and_then (health_phase n me env params p out sha h)
      (\<lambda>s h1. success_callback env params (b s) h1 :: unit phase)))" for sha b
    by (rule grows_and_then [OF grows_health_phase grows_success_callback])
  then show ?thesis using sc sk by (simp add: deliver_phase_def Let_def)
qed

lemma hist_of_commit_failed:
  "\<exists>msg. hist_of (commit_failed r h) = h @ [Ended_err ''infra.git_commit'' ''GIT_COMMIT_FAILED'' msg]"
  by (cases "cr_error r") (auto simp: commit_failed_def Let_def)

lemma grows_commit_phase: "grows (manifests_map p out) 1 h (hist_of (commit_phase env params p out h))"
proof (cases "map_to_connector_request (commit_request params p out)")
  case (Inl e)
  then show ?thesis by (simp add: commit_phase_def api_call_def)
next
  case (Inr req)
  let ?F = "manifests_map p out"
  let ?h = "h @ [Began ''infra.git_commit'']"
  let ?r = "ev_call env ?h req"
  let ?c = "Called req ?r"
  have files: "commits_files ?F ?c"
    using request_fields(3) [OF Inr] by (simp add: files_of_def go_get_def commit_request_def)
  then have g: "grows ?F 1 h (h @ [Began ''infra.git_commit'', ?c])" by simp
  have e: "grows ?F 1 h (h @ [Began ''infra.git_commit'', ?c, ev])" if "\<not> is_commit ev" for ev
    using grows_snoc [OF g that] by simp
  show ?thesis
  proof (cases ?r)
    case (Ret r)
    obtain msg where "hist_of (commit_failed r (h @ [Began ''infra.git_commit'', ?c]) :: (string \<times> bool) phase)
        = h @ [Began ''infra.git_commit'', ?c, Ended_err ''infra.git_commit'' ''GIT_COMMIT_FAILED'' msg]"
      using hist_of_commit_failed [of r "h @ [Began ''infra.git_commit'', ?c]"] by auto
    then show ?thesis
      using e Inr Ret by (simp add: commit_phase_def api_call_def Let_def del: grows_append)
  qed (use g e Inr in \<open>simp_all add: commit_phase_def api_call_def Let_def del: grows_append\<close>)
qed

section \<open>The gates before the commit\<close>

text \<open>The policy connector was asked about this very manifest and allowed it.\<close>

definition policy_passed :: "provision_params \<Rightarrow> string \<Rightarrow> history \<Rightarrow> bool" where
  "policy_passed p out h \<longleftrightarrow> (\<exists>q r. Called q (Ret r) \<in> set h \<and> map_to_connector_request (policy_request p out) = Inr q
     \<and> cr_error r = None \<and> policy_allows r)"

text \<open>The item needs no approval, the request turns the gate off, or somebody approved.\<close>

definition approval_passed :: "module_env \<Rightarrow> go_map \<Rightarrow> provision_params \<Rightarrow> history \<Rightarrow> bool" where
  "approval_passed me params p h \<longleftrightarrow> \<not> item_requires_approval me p
     \<or> bool_or_false (go_get params ''skip_approval_gate'')
     \<or> (\<exists>x. Waited (approval_request_of p) (Inr x) \<in> set h \<and> ao_decision x = ''approved'')"

lemma gates_mono:
  "policy_passed p out h \<Longrightarrow> policy_passed p out (h @ xs)"
  "approval_passed me params p h \<Longrightarrow> approval_passed me params p (h @ xs)"
  by (auto simp: policy_passed_def approval_passed_def)

lemma grows_render_phase: "grows F 0 h (hist_of (render_phase me step params h))"
  by (auto simp: render_phase_def Let_def grows_refl split: sum.splits outcome.splits)

lemma render_phase_Next:
  "render_phase me step params h = Next (p, out) h' \<Longrightarrow>
     me_decode me params = Inr p \<and> render_manifests (me_yaml me) (me_catalog me) p = Ret out"
  by (auto simp: render_phase_def Let_def split: sum.splits outcome.splits)

lemma grows_policy_phase: "grows F 0 h (hist_of (policy_phase me env p out h))"
proof -
  let ?h = "h @ [Began ''infra.policy_evaluate'']"
  have "grows F 0 ?h (hist_of (policy_phase me env p out h))"
    unfolding policy_phase_def
  proof (rule grows_api_call)
    show "string_or_empty (go_get (policy_request p out) ''operation'') \<noteq> ''commit_files''"
      by (simp add: policy_request_def go_get_def string_or_empty_def)
  qed (auto split: option.splits)
  moreover have "grows F 0 h ?h" by simp
  ultimately show ?thesis by (rule grows_step [rotated])
qed

lemma policy_phase_Next:
  assumes "policy_phase me env p out h = Next a h'"
  shows "policy_passed p out h'"
proof (cases "map_to_connector_request (policy_request p out)")
  case (Inr q)
  then show ?thesis
    using assms
    by (auto simp: policy_phase_def api_call_def policy_passed_def fail_step_def Let_def
        split: outcome.splits option.splits if_splits)
qed (use assms in \<open>simp add: policy_phase_def api_call_def fail_step_def\<close>)

lemma grows_approval_phase: "grows F 0 h (hist_of (approval_phase me env params p h))"
  by (auto simp: approval_phase_def Let_def grows_refl split: sum.splits)

lemma approval_phase_Next:
  assumes "approval_phase me env params p h = Next a h'"
  shows "approval_passed me params p h'" "\<exists>xs. h' = h @ xs"
  using assms
  by (auto simp: approval_phase_def approval_passed_def fail_step_def Let_def split: sum.splits if_splits)

lemma phase1_complete_append: "phase1_complete h = h @ [Began ''infra.phase1_complete'',
    Ended_ok ''infra.phase1_complete'' [(''status'', GStr ''Phase 1 complete - policy evaluated and approval granted'')]]"
  by (simp add: phase1_complete_def)

text \<open>A phase that returns, and never ends the run with success.\<close>

fun gate :: "'a phase \<Rightarrow> bool" where
  "gate (Stop x h) \<longleftrightarrow> x \<noteq> Exec_ok"
| "gate (Pending h) \<longleftrightarrow> False"
| "gate (Next a h) \<longleftrightarrow> True"

lemma gate_render_phase: "gate (render_phase me step params h)"
  by (auto simp: render_phase_def Let_def split: sum.splits outcome.splits)

lemma gate_policy_phase: "gate (policy_phase me env p out h)"
  by (auto simp: policy_phase_def api_call_def fail_step_def Let_def split: sum.splits outcome.splits option.splits)

lemma gate_approval_phase: "gate (approval_phase me env params p h)"
  by (auto simp: approval_phase_def fail_step_def Let_def split: sum.splits)

text \<open>The run ended at a gate, with an error and without a commit.\<close>

definition ended_early :: "'a phase \<Rightarrow> bool" where
  "ended_early ph \<longleftrightarrow> (\<exists>x h. ph = Stop x h \<and> x \<noteq> Exec_ok) \<and> (\<forall>F. grows F 0 [] (hist_of ph))"

lemma gate_cases:
  assumes "gate ph" "\<And>F. grows F 0 [] h" "\<And>F. grows F 0 h (hist_of ph)"
  shows "(\<forall>k. ended_early (and_then ph k :: 'b phase)) \<or> (\<exists>a h1. ph = Next a h1 \<and> (\<forall>F. grows F 0 [] h1))"
  using assms(1) grows_step [OF assms(2,3)] by (cases ph) (simp_all add: ended_early_def)

text \<open>A run either ends at a gate or passes both gates before its commit phase.\<close>

lemma infra_execute_cases:
  obtains (early) "ended_early (infra_execute n me (Some env) params)"
  | (late) p out h where "me_decode me params = Inr p" "render_manifests (me_yaml me) (me_catalog me) p = Ret out"
      "\<And>F. grows F 0 [] h" "policy_passed p out h" "approval_passed me params p h"
      "infra_execute n me (Some env) params = and_then (commit_phase env params p out h)
         (\<lambda>c h. deliver_phase n me env params p out c h)"
proof (rule ccontr)
  assume no: "\<not> thesis"
  let ?run = "infra_execute n me (Some env) params"
  have ne: "\<not> ended_early ?run" using no early by blast
  obtain p out h1 where r: "render_phase me True params [] = Next (p, out) h1" "\<And>F. grows F 0 [] h1"
    using gate_cases [OF gate_render_phase grows_refl grows_render_phase, where 'b = unit, of me True params] ne
    by (simp add: infra_execute_def) blast
  have p: "me_decode me params = Inr p" "render_manifests (me_yaml me) (me_catalog me) p = Ret out"
    using render_phase_Next [OF r(1)] by auto
  obtain u h2 where q: "policy_phase me env p out h1 = Next u h2" "\<And>F. grows F 0 [] h2"
    using gate_cases [OF gate_policy_phase r(2) grows_policy_phase, where 'b = unit, of me env p out] ne r(1)
    by (auto simp: infra_execute_def)
  obtain v h3 where w: "approval_phase me env params p h2 = Next v h3" "\<And>F. grows F 0 [] h3"
    using gate_cases [OF gate_approval_phase q(2) grows_approval_phase, where 'b = unit, of me env params p] ne r(1) q(1)
    by (auto simp: infra_execute_def)
  have "grows F 0 [] (phase1_complete h3)" for F
    by (rule grows_step [OF w(2)]) (simp add: phase1_complete_append)
  moreover obtain xs where "h3 = h2 @ xs" using approval_phase_Next(2) [OF w(1)] by blast
  then have "policy_passed p out (phase1_complete h3)"
    unfolding phase1_complete_append using gates_mono(1) [OF policy_phase_Next [OF q(1)]] by simp
  moreover have "approval_passed me params p (phase1_complete h3)"
    unfolding phase1_complete_append by (rule gates_mono(2) [OF approval_phase_Next(1) [OF w(1)]])
  moreover have "?run = and_then (commit_phase env params p out (phase1_complete h3))
      (\<lambda>c h. deliver_phase n me env params p out c h)"
    using r(1) q(1) w(1) by (simp add: infra_execute_def)
  ultimately have thesis by (rule late [OF p])
  with no show False ..
qed

section \<open>How a run ends\<close>

text \<open>A healthy status file of the commit \<open>sha\<close> was read.\<close>

definition healthy_read :: "status_env \<Rightarrow> string \<Rightarrow> history \<Rightarrow> bool" where
  "healthy_read st sha h \<longleftrightarrow> (\<exists>req r t s. Called req (Ret r) \<in> set h \<and> cq_operation req = ''read_file''
     \<and> poll_answer st t sha r = Inl (Ret s))"

text \<open>A commit was answered with the non-empty identifier \<open>sha\<close>.\<close>

definition committed :: "string \<Rightarrow> history \<Rightarrow> bool" where
  "committed sha h \<longleftrightarrow> sha \<noteq> [] \<and> (\<exists>req r. Called req (Ret r) \<in> set h \<and> cq_operation req = ''commit_files''
     \<and> commit_sha_of r = sha)"

lemma healthy_readI:
  "Called req (Ret r) \<in> set h \<Longrightarrow> cq_operation req = ''read_file'' \<Longrightarrow> poll_answer st t sha r = Inl (Ret s)
     \<Longrightarrow> healthy_read st sha h"
  unfolding healthy_read_def by blast

lemma committedI:
  "Called req (Ret r) \<in> set h \<Longrightarrow> cq_operation req = ''commit_files'' \<Longrightarrow> commit_sha_of r = sha \<Longrightarrow> sha \<noteq> []
     \<Longrightarrow> committed sha h"
  unfolding committed_def by blast

lemma deeds_mono:
  "healthy_read st sha h \<Longrightarrow> healthy_read st sha (h @ xs)" "committed sha h \<Longrightarrow> committed sha (h @ xs)"
  unfolding healthy_read_def committed_def by (simp_all, blast+)

lemma grows_append_ex: "grows F k h h' \<Longrightarrow> \<exists>xs. h' = h @ xs"
  by (auto simp: grows_def)

lemma check_health_Ret:
  "check_health n env st repo branch sha impl h = (Some (Ret s), h') \<Longrightarrow> healthy_read st sha h'"
  using poll_loop_healthy [of n env st repo branch sha impl "30 * second" 500000000 "ev_now env h" h s h']
  by (fastforce simp: check_health_def poll_health_status_def intro: healthy_readI)

lemma recommit_Ret:
  assumes "remediation_recommit env repo branch pre files msg impl h = (Ret sha, h')"
  shows "committed sha h'"
proof -
  have "cq_operation req = ''commit_files''" if "map_to_connector_request
        [(''connector'', GStr ''git''), (''impl_key'', GStr impl), (''operation'', GStr ''commit_files''),
         (''input'', inp)] = Inr req" for req inp
    using request_fields(2) [OF that] by (simp add: go_get_def string_or_empty_def)
  then show ?thesis
    using assms by (auto simp: remediation_recommit_def Let_def intro: committedI
        split: sum.splits outcome.splits if_splits)
qed

lemma remediation_phase_Next:
  assumes "remediation_phase n me env params p out sha h = Next s h'"
  shows "\<exists>sha'. committed sha' h' \<and> healthy_read (me_status me) sha' h'"
proof -
  obtain r h1 where r: "remediation_recommit env (infra_repo params) ''main'' (path_prefix_of p) (manifests_map p out)
      (''Provision '' @ pp_catalogue_item p @ '' cluster [remediation]'') ''git-file''
      (h @ [Began ''infra.remediation'']) = (r, h1)" by fastforce
  then obtain sha2 where s2: "r = Ret sha2"
    using assms by (cases r) (auto simp: remediation_phase_def failure_callback_def api_call_def fail_step_def Let_def
        split: go_any.splits sum.splits outcome.splits)
  obtain q h2 where q: "check_health n env (me_status me) (infra_repo params) ''main'' sha2 ''git-file'' h1 = (q, h2)"
    by fastforce
  then have "q = Some (Ret s)" "\<exists>xs. h' = h2 @ xs"
    using assms r s2 by (auto simp: remediation_phase_def failure_callback_def api_call_def fail_step_def Let_def
        split: option.splits go_any.splits sum.splits outcome.splits)
  moreover from this have "healthy_read (me_status me) sha2 h2" using check_health_Ret q by blast
  moreover have "committed sha2 h2"
    using recommit_Ret [OF r [unfolded s2]] grows_append_ex [OF grows_check_health [OF q]] deeds_mono(2) by blast
  ultimately show ?thesis using deeds_mono by blast
qed

lemma health_phase_Next:
  assumes "health_phase n me env params p out sha h = Next s h'" "committed sha h"
  shows "\<exists>sha'. committed sha' h' \<and> healthy_read (me_status me) sha' h'"
proof -
  obtain q h1 where q: "check_health n env (me_status me) (infra_repo params) ''main'' sha ''git-file''
      (h @ [Began ''infra.health_poll'']) = (q, h1)" by fastforce
  show ?thesis
  proof (cases "\<exists>e. q = Some (Fail e)")
    case True
    then show ?thesis using assms(1) q remediation_phase_Next by (auto simp: health_phase_def)
  next
    case False
    then have "q = Some (Ret s)" "h' = h1 @ [poll_done s]"
      using assms(1) q by (auto simp: health_phase_def split: option.splits outcome.splits)
    moreover from this have "healthy_read (me_status me) sha h1" using check_health_Ret q by blast
    moreover have "committed sha h1"
      using assms(2) grows_append_ex [OF grows_check_health [OF q]] deeds_mono(2) by fastforce
    ultimately show ?thesis using deeds_mono by blast
  qed
qed

lemma success_callback_ok:
  assumes "success_callback env params body h = Stop Exec_ok h'"
  shows "\<exists>xs req r. h' = h @ xs \<and> Called req (Ret r) \<in> set xs \<and> cq_operation req = ''post_callback''"
proof -
  have "cq_operation req = ''post_callback''" if "map_to_connector_request (callback_request url body params) = Inr req" for url req
    using request_fields(2) [OF that] by (simp add: callback_request_def go_get_def string_or_empty_def)
  then show ?thesis
    using assms by (auto simp: success_callback_def api_call_def fail_step_def callback_done_def Let_def
        split: sum.splits outcome.splits)
qed

lemma commit_phase_Next:
  assumes "commit_phase env params p out h = Next c h'"
  shows "committed (fst c) h'" "\<exists>req r. Called req (Ret r) \<in> set h' \<and> cq_operation req = ''commit_files''
    \<and> cr_status r = ''success'' \<and> commit_sha_of r = fst c \<and> changed_of r = snd c"
proof -
  have req: "cq_operation req = ''commit_files''" if "map_to_connector_request (commit_request params p out) = Inr req" for req
    using request_fields(2) [OF that] by (simp add: commit_request_def go_get_def string_or_empty_def)
  have no: "commit_failed r h1 \<noteq> Next c h2" for r h1 h2
    by (cases "cr_error r") (auto simp: commit_failed_def Let_def)
  obtain req' where q: "map_to_connector_request (commit_request params p out) = Inr req'"
    using assms by (cases "map_to_connector_request (commit_request params p out)")
      (auto simp: commit_phase_def api_call_def fail_step_def)
  obtain r where e: "ev_call env (h @ [Began ''infra.git_commit'']) req' = Ret r"
    using assms q by (cases "ev_call env (h @ [Began ''infra.git_commit'']) req'")
      (auto simp: commit_phase_def api_call_def fail_step_def Let_def)
  have r: "map_to_connector_request (commit_request params p out) = Inr req'"
      "Called req' (Ret r) \<in> set h'" "cr_status r = ''success''" "commit_sha_of r \<noteq> []"
      "c = (commit_sha_of r, changed_of r)"
    using assms no q e by (auto simp: commit_phase_def api_call_def fail_step_def Let_def split: if_splits)
  then show "committed (fst c) h'" using req committedI by simp
  show "\<exists>req r. Called req (Ret r) \<in> set h' \<and> cq_operation req = ''commit_files''
      \<and> cr_status r = ''success'' \<and> commit_sha_of r = fst c \<and> changed_of r = snd c"
    using r req [OF r(1)] by (intro exI [of _ req'] exI [of _ r]) simp
qed

lemma commit_failed_not [simp]: "commit_failed r h \<noteq> Stop Exec_ok h'" "commit_failed r h \<noteq> Pending h'"
  by (cases "cr_error r", simp_all add: commit_failed_def Let_def prod.case_eq_if)
    (cases "cr_error r", simp_all add: commit_failed_def Let_def prod.case_eq_if)

lemma commit_phase_not:
  "commit_phase env params p out h \<noteq> Stop Exec_ok h'" "commit_phase env params p out h \<noteq> Pending h'"
  by (auto simp: commit_phase_def api_call_def fail_step_def Let_def split: sum.splits outcome.splits)

lemma callbacks_end [simp]:
  "success_callback env params body h \<noteq> Next a h'" "success_callback env params body h \<noteq> Pending h'"
  "failure_callback env params body final h \<noteq> Next a h'" "failure_callback env params body final h \<noteq> Pending h'"
  "failure_callback env params body final h \<noteq> Stop Exec_ok h'"
  by (auto simp: success_callback_def failure_callback_def api_call_def fail_step_def Let_def
      split: go_any.splits sum.splits outcome.splits)

lemma gate_remediation: "remediation_phase n me env params p out sha h \<noteq> Stop Exec_ok h'"
  by (auto simp: remediation_phase_def split: option.splits outcome.splits prod.splits)

definition posted :: "history \<Rightarrow> bool" where
  "posted h \<longleftrightarrow> (\<exists>req r. Called req (Ret r) \<in> set h \<and> cq_operation req = ''post_callback'')"

lemma success_callback_posted:
  "success_callback env params body h = Stop Exec_ok h' \<Longrightarrow> posted h' \<and> (\<exists>xs. h' = h @ xs)"
  using success_callback_ok [of env params body h h'] unfolding posted_def by fastforce

lemma deliver_phase_ok:
  assumes "deliver_phase n me env params p out c h = Stop Exec_ok h'" "committed (fst c) h"
  shows "posted h' \<and> (\<not> snd c \<or> bool_or_false (go_get params ''skip_health_check'')
      \<or> (\<exists>sha. committed sha h' \<and> healthy_read (me_status me) sha h'))"
proof (cases "snd c \<and> \<not> bool_or_false (go_get params ''skip_health_check'')")
  case False
  then show ?thesis
    using assms(1) by (auto simp: deliver_phase_def Let_def dest: success_callback_posted split: if_splits)
next
  case True
  have "health_phase n me env params p out (fst c) h \<noteq> Stop Exec_ok h'"
    using gate_remediation by (auto simp: health_phase_def split: option.splits outcome.splits prod.splits)
  then obtain s h1 where s: "health_phase n me env params p out (fst c) h = Next s h1"
    using assms(1) True by (cases "health_phase n me env params p out (fst c) h")
      (auto simp: deliver_phase_def Let_def)
  then have cb: "success_callback env params (succeeded_body params (fst c)
      (GMapList (map resource_any (hs_resources s))) (''health_status'', hs_status s)) h1 = (Stop Exec_ok h' :: unit phase)"
    using assms(1) True by (simp add: deliver_phase_def Let_def)
  then show ?thesis
    using health_phase_Next [OF s assms(2)] success_callback_posted [OF cb] deeds_mono by blast
qed

section \<open>A concrete environment\<close>

text \<open>An environment whose clock counts the sleeps, whose policy connector allows everything, whose
  git connector answers every commit with the same identifier and serves a fixed status file.\<close>

definition ex_module_env :: module_env where
  "ex_module_env = \<lparr>me_yaml = \<lparr>ye_read = \<lambda>_. Inr (Scalar []), ye_print = \<lambda>_. Inr ''doc'', ye_title = \<lambda>s. s\<rparr>,
     me_catalog = Inr embedded_definitions, me_decode = \<lambda>_. Inr Infra_Rendering.ex_request,
     me_status = \<lparr>st_parse = \<lambda>_. Inl ''no yaml'', st_rfc3339 = \<lambda>_. None\<rparr>,
     me_fmt = \<lambda>_. [], me_fmt_outcome = \<lambda>_. []\<rparr>"

fun slept :: "api_event \<Rightarrow> duration" where
  "slept (Slept d) = max 0 d"
| "slept _ = 0"

definition ex_answer :: "string \<Rightarrow> connector_request \<Rightarrow> connector_result" where
  "ex_answer status req =
     (if cq_operation req = ''evaluate''
      then \<lparr>cr_status = ''success'', cr_output = Some [(''allowed'', GBool True)], cr_error = None\<rparr>
      else if cq_operation req = ''commit_files''
      then \<lparr>cr_status = ''success'', cr_output = Some [(''commit_sha'', GStr ''abc'')], cr_error = None\<rparr>
      else if cq_operation req = ''read_file''
      then \<lparr>cr_status = ''success'', cr_output = Some [(''content'', GStr (''status: '' @ status @ [CHR 0x0A]
        @ ''commit_sha: abc''))], cr_error = None\<rparr>
      else \<lparr>cr_status = ''error'', cr_output = None, cr_error = Some (''HTTP'', ''503'')\<rparr>)"

definition ex_env :: "string \<Rightarrow> api_env" where
  "ex_env status = \<lparr>ev_call = \<lambda>_ req. Ret (ex_answer status req),
     ev_wait = \<lambda>_ _. Inr \<lparr>ao_decision = ''approved'', ao_approver = ''ann'', ao_justification = [], ao_decided_at = 0\<rparr>,
     ev_now = \<lambda>h. sum_list (map slept h), ev_done = \<lambda>_. None, ev_done_asleep = \<lambda>_. None\<rparr>"

lemma slept_nonneg: "0 \<le> slept e" by (cases e) simp_all

lemma ex_clock: "clock_runs (ex_env status)"
  by (simp add: clock_runs_def ex_env_def slept_nonneg)

definition ex_run :: "string \<Rightarrow> unit phase" where
  "ex_run status = infra_execute 62 ex_module_env (Some (ex_env status)) [(''callback_url'', GStr ''https://x'')]"

lemma ex_run_healthy:
  "case ex_run ''healthy'' of Stop x h \<Rightarrow> x = Exec_ok \<and> list_ex is_commit h | _ \<Rightarrow> False"
  by code_simp

lemma ex_run_ok:
  obtains h where "ex_run ''healthy'' = Stop Exec_ok h" "list_ex is_commit h"
  using ex_run_healthy by (auto split: phase.splits)

section \<open>The engine's step API as the environment\<close>

text \<open>
  What the module needs of the step API it is handed: a connector call gives a result or panics, and
  never a Go error. The runner's adapter provides it: every failure on its side, a connector that is
  not found, input that does not validate, a secret that cannot be had, an error of the connector,
  becomes a result with status error.
\<close>

locale module_api =
  fixes env :: api_env
  assumes no_go_error: "ev_call env h req \<noteq> Fail e"
begin

lemma call_cases:
  obtains (result) r where "ev_call env h req = Ret r" | (panic) e where "ev_call env h req = Panics e"
  using no_go_error by (cases "ev_call env h req") auto

lemma success_callback_outcome:
  "\<exists>h'. success_callback env params body h = Stop Exec_ok h'
     \<or> (\<exists>e. success_callback env params body h = Stop (Exec_panic e) h')"
proof -
  obtain req where req: "map_to_connector_request
      (callback_request (string_or_empty (go_get params ''callback_url'')) body params) = Inr req"
    by (simp add: map_to_connector_request_def callback_request_def go_get_def string_or_empty_def Let_def)
  show ?thesis
    by (cases rule: call_cases [of "h @ [Began ''infra.callback'']" req])
      (simp_all add: success_callback_def api_call_def req Let_def)
qed

end

text \<open>The adapter of the runner as an environment. The adapter may differ from call to call, since the
  answers of its connectors depend on the world; the wait, the clock and the cancellation of the
  context are arguments.\<close>

definition adapter_env ::
  "(history \<Rightarrow> step_adapter) \<Rightarrow> (history \<Rightarrow> approval_request \<Rightarrow> string + approval_outcome)
     \<Rightarrow> (history \<Rightarrow> time) \<Rightarrow> (history \<Rightarrow> string option) \<Rightarrow> (history \<Rightarrow> string option) \<Rightarrow> api_env" where
  "adapter_env a w t c s = \<lparr>ev_call = \<lambda>h req. (case fst (call_connector (a h) req) of
       Call_result r \<Rightarrow> Ret r | Call_panic \<Rightarrow> Panics ''invalid memory address or nil pointer dereference''),
     ev_wait = w, ev_now = t, ev_done = c, ev_done_asleep = s\<rparr>"

interpretation adapter: module_api "adapter_env a w t c s" for a w t c s
  by unfold_locales (simp add: adapter_env_def split: call_outcome.splits)

section \<open>Properties\<close>



text \<open>A run commits at most twice, once itself and once for remediation, however long it polls.\<close>

theorem at_most_two_commits:
  "length (filter is_commit (hist_of (infra_execute n me (Some env) params))) \<le> 2"
proof (cases rule: infra_execute_cases [of n me env params])
  case early
  then have "grows [] 0 [] (hist_of (infra_execute n me (Some env) params))" by (simp add: ended_early_def)
  then show ?thesis by (auto simp: grows_def)
next
  case (late p out h)
  have "grows (manifests_map p out) (1 + 1) h (hist_of (infra_execute n me (Some env) params))"
    unfolding late(6) by (rule grows_and_then [OF grows_commit_phase grows_deliver_phase])
  from grows_trans [OF late(3) this] show ?thesis by (auto simp: grows_def)
qed

text \<open>What a successful run has done. A run that ends without an error made a commit that the git
  connector answered with success and a non-empty identifier. Either that commit changed nothing,
  or the request turns the health check off, or a status file with status healthy was read for a
  commit of this run; and the webhook connector was called.\<close>

theorem success_means_delivered:
  assumes "infra_execute n me (Some env) params = Stop Exec_ok h"
  shows "posted h \<and> (\<exists>req r. Called req (Ret r) \<in> set h \<and> cq_operation req = ''commit_files''
    \<and> cr_status r = ''success'' \<and> commit_sha_of r \<noteq> []
    \<and> (\<not> changed_of r \<or> bool_or_false (go_get params ''skip_health_check'')
        \<or> (\<exists>sha. committed sha h \<and> healthy_read (me_status me) sha h)))"
proof -
  obtain p out h0 where run: "and_then (commit_phase env params p out h0)
      (\<lambda>c h. deliver_phase n me env params p out c h) = Stop Exec_ok h"
    using infra_execute_cases [of n me env params] assms by (metis ended_early_def phase.inject(1))
  then obtain c h1 where c: "commit_phase env params p out h0 = Next c h1"
    and d: "deliver_phase n me env params p out c h1 = Stop Exec_ok h"
    using commit_phase_not(1) by (cases "commit_phase env params p out h0") auto
  obtain req r where r: "Called req (Ret r) \<in> set h1" "cq_operation req = ''commit_files''" "cr_status r = ''success''"
      "commit_sha_of r = fst c" "changed_of r = snd c" using commit_phase_Next(2) [OF c] by blast
  have sha: "committed (fst c) h1" using commit_phase_Next(1) [OF c] .
  obtain xs where xs: "h = h1 @ xs"
    using grows_append_ex [OF grows_deliver_phase [of p out h1 n me env params c]] d by auto
  have "fst c \<noteq> []" using sha by (simp add: committed_def)
  then show ?thesis
    using deliver_phase_ok [OF d sha] r xs by (intro conjI exI [of _ req] exI [of _ r]) simp_all
qed

theorem success_means_delivered_witness:
  "\<exists>h. infra_execute 62 ex_module_env (Some (ex_env ''healthy'')) [(''callback_url'', GStr ''https://x'')] = Stop Exec_ok h
    \<and> posted h"
proof -
  obtain h where h: "infra_execute 62 ex_module_env (Some (ex_env ''healthy'')) [(''callback_url'', GStr ''https://x'')] = Stop Exec_ok h"
    using ex_run_ok unfolding ex_run_def by blast
  then show ?thesis using success_means_delivered [OF h] by blast
qed



text \<open>The callback that reports success cannot fail a run. Over the runner's step API the module
  ends with success, or with a panic below the call, whatever result the webhook connector gives: a
  connector that is missing, or an answer with status error, is recorded as a callback step that
  went well.\<close>

theorem callback_failure_unnoticed:
  "\<exists>h'. success_callback (adapter_env a w t c s) params body h = Stop Exec_ok h'
     \<or> (\<exists>e. success_callback (adapter_env a w t c s) params body h = Stop (Exec_panic e) h')"
  by (rule adapter.success_callback_outcome)

text \<open>A status file of another commit ends the health check at once. The file keeps the status of the
  commit before until the cluster has caught up, and the first poll that reads it fails instead of
  waiting for the next.\<close>

theorem stale_status_ends_polling:
  assumes "ev_done env h = None" "read_status_request repo branch impl = Inr req" "ev_call env h req = Ret r"
    "cr_status r \<noteq> ''error''" "cr_output r = Some res" "go_get res ''content'' = GStr content"
    "parse_status_file st (ev_now env (h @ [Called req (Ret r)])) content sha = Inl e"
  shows "check_health (Suc n) env st repo branch sha impl h
    = (Some (Fail (''failed to parse status file: '' @ e)), h @ [Called req (Ret r)])"
  using assms by (simp add: check_health_def poll_health_status_def poll_answer_def)

end
