(* ===== verification/Infra_Job.thy ===== *)
theory Infra_Job
  imports Infra_Runs Lifecycle
begin

text \<open>
  The infrastructure module inside the engine: the module as the runner executes it, with its steps
  recorded in the database through the step API and its connector calls answered by the runner's
  adapter. Two things follow that neither component shows alone: such a module meets what the
  scheduler assumes of modules, and a job of it succeeds only after a delivery.
\<close>

section \<open>Recording a run\<close>

text \<open>The effect of one event of a run on the adapter and the database. Errors of the step API are
  dropped by the module, and the outcome of a wait is in the event; connector calls and sleeps do
  not touch the database.\<close>

fun record_event :: "conn_env \<Rightarrow> api_event \<Rightarrow> step_adapter \<times> db \<Rightarrow> step_adapter \<times> db" where
  "record_event env (Began k) (a, d) = (begin_step k a, d)"
| "record_event env (Context_set k v) (a, d) = (set_context k v a, d)"
| "record_event env (Ended_ok k out) (a, d) = (a, snd (end_step_ok env a k (Some out) d))"
| "record_event env (Ended_err k code msg) (a, d) = (a, snd (end_step_err env a k code msg d))"
| "record_event env (Waited req w) (a, d) = (a, snd (wait_for_approval env a req [] d))"
| "record_event env (Called req r) (a, d) = (a, d)"
| "record_event env (Slept t) (a, d) = (a, d)"

fun record_run :: "(nat \<Rightarrow> conn_env) \<Rightarrow> nat \<Rightarrow> history \<Rightarrow> step_adapter \<times> db \<Rightarrow> step_adapter \<times> db" where
  "record_run envs k [] s = s"
| "record_run envs k (e # h) s = record_run envs (Suc k) h (record_event (envs k) e s)"

text \<open>A run that has not ended would still be polling; with 62 turns and a clock that runs there is
  none.\<close>

fun outcome_of :: "unit phase \<Rightarrow> exec_outcome" where
  "outcome_of (Stop x h) = x"
| "outcome_of (Pending h) = Exec_err ''still polling''"
| "outcome_of (Next u h) = Exec_err ''still polling''"

definition infra_impl ::
  "nat \<Rightarrow> module_env \<Rightarrow> (step_adapter \<Rightarrow> api_env) \<Rightarrow> (nat \<Rightarrow> conn_env) \<Rightarrow> infra_module \<Rightarrow> module_impl" where
  "infra_impl n me env envs m =
     \<lparr>m_key = ''infra.provision'', m_version = ''latest'', m_connectors = Some (get_connectors m),
      m_secret_context = Some ''platform'',
      m_execute = \<lambda>a params d. (let ph = infra_execute n me (Some (env a)) params
        in (outcome_of ph, snd (record_run envs 0 (hist_of ph) (a, d))))\<rparr>"

section \<open>The database through a run\<close>

lemma record_event_evolves:
  assumes "env_ok env"
  shows "evolves d (snd (record_event env e (a, d)))"
proof -
  have "evolves d (snd (end_step_ok env a k out d))" "evolves d (snd (end_step_err env a k code msg d))"
    "evolves d (snd (wait_for_approval env a req es d))" for k out code msg req es
  proof -
    have ex: "evolves d d'" if "exec_stmt env 1 (\<lambda>t d. Inr ((), f t d)) d = (x, d')" "\<And>t d. jobs (f t d) = jobs d" for x d' f
      by (rule exec_evolves [OF assms _ that(1)]) (auto intro: evolves_other simp: that(2))
    show "evolves d (snd (end_step_ok env a k out d))"
      using ex [of "end_step_ok_stmt a k out"] by (auto simp: end_step_ok_def split: option.splits prod.splits sum.splits)
    show "evolves d (snd (end_step_err env a k code msg d))"
      using ex [of "end_step_err_stmt a k code msg"] by (auto simp: end_step_err_def split: option.splits prod.splits sum.splits)
    show "evolves d (snd (wait_for_approval env a req es d))"
      using ex [of "park_stmt a req"] by (auto simp: wait_for_approval_def split: option.splits prod.splits sum.splits)
  qed
  then show ?thesis by (cases e) simp_all
qed

lemma record_run_evolves:
  assumes "\<And>k. env_ok (envs k)"
  shows "evolves d (snd (record_run envs k h (a, d)))"
proof (induction h arbitrary: k a d)
  case (Cons e h)
  obtain a1 d1 where e: "record_event (envs k) e (a, d) = (a1, d1)" by fastforce
  have "evolves d d1" using record_event_evolves [OF assms [of k], of d e a] e by simp
  then show ?case using Cons.IH [of d1 "Suc k" a1] e evolves_trans by auto
qed simp

text \<open>The module meets what the scheduler assumes of the modules it runs.\<close>

lemma infra_runner_ok:
  assumes "\<And>k. env_ok (envs k)" "\<And>p v m. rs_lookup s p v = Some m \<Longrightarrow> \<exists>im. m = infra_impl n me env envs im"
  shows "runner_ok s"
  unfolding runner_ok_def
proof (intro allI impI)
  fix p v m a params d
  assume "rs_lookup s p v = Some m"
  then obtain im where "m = infra_impl n me env envs im" using assms(2) by blast
  then show "evolves d (snd (m_execute m a params d))"
    using record_run_evolves [OF assms(1)] by (simp add: infra_impl_def Let_def)
qed

text \<open>The runner reports success only when the module did.\<close>

lemma run_module_ok:
  assumes "run_module fin s m j v i r params d = (Run_ok, d')"
  shows "\<exists>d1. m_execute m (job_adapter s m j i r) params d = (Exec_ok, d1)"
proof -
  obtain x d1 where x: "m_execute m (job_adapter s m j i r) params d = (x, d1)" by fastforce
  then have "x = Exec_ok" using assms by (cases x) (auto simp: run_module_def Let_def split: prod.splits)
  then show ?thesis using x by blast
qed

lemma run_job_ok:
  assumes "run_job env fin s i r d = (Run_ok, d')"
  shows "\<exists>j v m p0 d1 d2. fenced i r j \<and> rs_lookup s (j_path_key j) v = Some m
    \<and> m_execute m (job_adapter s m j i r) (runtime_params i r (j_attempt j) p0) d1 = (Exec_ok, d2)"
proof -
  obtain x d1 where x: "exec_stmt env 1 (\<lambda>t d. Inr (List.find (fenced i r) (jobs d), d)) d = (x, d1)" by fastforce
  obtain j where j: "x = Inr (Some j)"
    using assms x by (auto simp: run_job_def split: option.splits sum.splits)
  have f: "fenced i r j"
    using x j find_Some_in [of "fenced i r" _ j] by (auto simp: exec_stmt_def Let_def split: option.splits)
  obtain p0 where p0: "decode_params (j_params_json j) = Inr (Some p0)"
    using assms x j by (auto simp: run_job_def split: option.splits sum.splits)
  define v where "v = (let v = version_of (rs_render s) (j_params_json j) in if v = [] then ''latest'' else v)"
  obtain m where m: "rs_lookup s (j_path_key j) v = Some m"
    using assms x j p0 by (auto simp: run_job_def v_def Let_def split: option.splits)
  have "run_module fin s m j v i r (runtime_params i r (j_attempt j) p0) d1 = (Run_ok, d')"
    using assms x j p0 m by (auto simp: run_job_def v_def Let_def split: option.splits)
  from run_module_ok [OF this] obtain d2 where
    "m_execute m (job_adapter s m j i r) (runtime_params i r (j_attempt j) p0) d1 = (Exec_ok, d2)" by blast
  then show ?thesis using f m by (intro exI conjI)
qed

section \<open>Properties\<close>

text \<open>C17: a job of the infrastructure module succeeds only by a delivery. When the runner reports
  success of a run whose module is the infrastructure module, whatever faults and sessions it met,
  the module ran for the fenced job under the job's own adapter and ended without an error: it made
  a commit that the git connector answered with success and a non-empty identifier, and either that
  commit changed nothing, or the request turns the health check off, or a status file with status
  healthy was read for a commit of the run; and the webhook connector was called.\<close>

theorem infra_job_success:
  assumes "run_job env fin s i r d = (Run_ok, d')"
    "\<forall>p v m. rs_lookup s p v = Some m \<longrightarrow> (\<exists>im. m = infra_impl n me envf envs im)"
  shows "\<exists>j m params h. fenced i r j
    \<and> infra_execute n me (Some (envf (job_adapter s m j i r))) params = Stop Exec_ok h
    \<and> go_get params ''job_id'' = GStr i \<and> posted h
    \<and> (\<exists>req res. Called req (Ret res) \<in> set h \<and> cq_operation req = ''commit_files''
        \<and> cr_status res = ''success'' \<and> commit_sha_of res \<noteq> []
        \<and> (\<not> changed_of res \<or> bool_or_false (go_get params ''skip_health_check'')
            \<or> (\<exists>sha. committed sha h \<and> healthy_read (me_status me) sha h)))"
proof -
  obtain j v m p0 d1 d2 where r: "fenced i r j" "rs_lookup s (j_path_key j) v = Some m"
      "m_execute m (job_adapter s m j i r) (runtime_params i r (j_attempt j) p0) d1 = (Exec_ok, d2)"
    using run_job_ok [OF assms(1)] by blast
  define params where "params = runtime_params i r (j_attempt j) p0"
  obtain im where im: "m = infra_impl n me envf envs im" using assms(2) r(2) by blast
  have "outcome_of (infra_execute n me (Some (envf (job_adapter s m j i r))) params) = Exec_ok"
    using r(3) by (simp add: im infra_impl_def Let_def params_def)
  then obtain h where h: "infra_execute n me (Some (envf (job_adapter s m j i r))) params = Stop Exec_ok h"
    by (cases "infra_execute n me (Some (envf (job_adapter s m j i r))) params") auto
  have "go_get params ''job_id'' = GStr i" by (simp add: params_def runtime_params_def)
  with r(1) h success_means_delivered [OF h] show ?thesis
    by (intro exI [of _ j] exI [of _ m] exI [of _ params] exI [of _ h]) (simp only: simp_thms)
qed

definition ex_infra_runner :: runner_service where
  "ex_infra_runner = (ex_runner Exec_ok)\<lparr>rs_lookup := \<lambda>_ _. Some
     (infra_impl 62 ex_module_env (\<lambda>_. Infra_Runs.ex_env ''healthy'') (\<lambda>_. quiet_env 21 True) new_legacy_module)\<rparr>"

lemma record_run_jobs: "jobs (snd (record_run (\<lambda>_. quiet_env t b) k h (a, d))) = jobs d"
proof (induction h arbitrary: k a d)
  case (Cons e h)
  obtain a1 d1 where e: "record_event (quiet_env t b) e (a, d) = (a1, d1)" by fastforce
  have "jobs d1 = jobs d"
    using e by (cases e) (auto simp: end_step_ok_def end_step_err_def wait_for_approval_def split: if_splits)
  then show ?case using Cons.IH [of "Suc k" a1 d1] e by simp
qed simp

lemma ex_infra_ok: "case infra_execute 62 ex_module_env (Some (Infra_Runs.ex_env ''healthy'')) (runtime_params ''j1'' ''r1'' 1 []) of
    Stop x h \<Rightarrow> x = Exec_ok | _ \<Rightarrow> False"
  by code_simp

lemma ex_infra_run:
  "\<exists>d'. run_job (quiet_env 20 True) (quiet_env 22 True) ex_infra_runner ''j1'' ''r1'' ex_db = (Run_ok, d')"
proof -
  let ?s = ex_infra_runner
  let ?m = "infra_impl 62 ex_module_env (\<lambda>_. Infra_Runs.ex_env ''healthy'') (\<lambda>_. quiet_env 21 True) new_legacy_module"
  obtain h where h: "infra_execute 62 ex_module_env (Some (Infra_Runs.ex_env ''healthy'')) (runtime_params ''j1'' ''r1'' 1 []) = Stop Exec_ok h"
    using ex_infra_ok by (auto split: phase.splits)
  define d1 where "d1 = snd (record_run (\<lambda>_. quiet_env 21 True) 0 h (job_adapter ?s ?m ex_job ''j1'' ''r1'', ex_db))"
  have x: "m_execute ?m (job_adapter ?s ?m ex_job ''j1'' ''r1'') (runtime_params ''j1'' ''r1'' 1 []) ex_db = (Exec_ok, d1)"
    using h by (simp add: infra_impl_def d1_def)
  have "find_job ''j1'' d1 = Some ex_job"
    using ex_find by (simp add: d1_def find_job_def record_run_jobs)
  moreover have "compute_next_run_at (rs_cron ?s) (j_schedule ex_job) 22 = Inr None"
    by (simp add: ex_job_def compute_next_run_at_def)
  ultimately have "\<exists>d'. finalise_success (quiet_env 22 True) (rs_cron ?s) ''j1'' ''r1'' d1 = (None, d')"
    using finalise_success_quiet [of "''j1''" d1 ex_job "''r1''"] by simp
  moreover have "run_job (quiet_env 20 True) (quiet_env 22 True) ?s ''j1'' ''r1'' ex_db
      = run_module (quiet_env 22 True) ?s ?m ex_job ''latest'' ''j1'' ''r1'' (runtime_params ''j1'' ''r1'' 1 []) ex_db"
  proof -
    have "j_params_json ex_job = GMap []" "j_attempt ex_job = 1" by (simp_all add: ex_job_def)
    moreover have "rs_lookup ?s p v = Some ?m" for p v by (simp add: ex_infra_runner_def)
    moreover have "List.find (fenced ''j1'' ''r1'') (jobs ex_db) = Some ex_job" by (rule find_fenced [OF ex_find]) simp
    ultimately show ?thesis by (simp add: run_job_def decode_params_def version_of_def go_get_def)
  qed
  ultimately show ?thesis using x by (auto simp: run_module_def)
qed

theorem infra_job_success_witness:
  "\<exists>d'. run_job (quiet_env 20 True) (quiet_env 22 True) ex_infra_runner ''j1'' ''r1'' ex_db = (Run_ok, d')
    \<and> (\<exists>h. posted h \<and> (\<exists>params. infra_execute 62 ex_module_env (Some (Infra_Runs.ex_env ''healthy'')) params = Stop Exec_ok h))"
proof -
  obtain d' where d: "run_job (quiet_env 20 True) (quiet_env 22 True) ex_infra_runner ''j1'' ''r1'' ex_db = (Run_ok, d')"
    using ex_infra_run by blast
  have "\<forall>p v m. rs_lookup ex_infra_runner p v = Some m \<longrightarrow>
      (\<exists>im. m = infra_impl 62 ex_module_env (\<lambda>_. Infra_Runs.ex_env ''healthy'') (\<lambda>_. quiet_env 21 True) im)"
    by (auto simp: ex_infra_runner_def)
  from infra_job_success [OF d this] show ?thesis using d by blast
qed

lemma ex_infra_runner_ok: "runner_ok ex_infra_runner"
  by (rule infra_runner_ok [of "\<lambda>_. quiet_env 21 True" _ 62 ex_module_env "\<lambda>_. Infra_Runs.ex_env ''healthy''"])
    (auto simp: quiet_env_ok ex_infra_runner_def)

end
