(* ===== verification/Outbox.thy ===== *)
theory Outbox
  imports RE_Prelude "HOL-Library.List_Lexorder" "HOL-Library.Char_ord"
begin

text \<open>
  The event dispatcher and the callback signer: \<open>src/internal/outbox/dispatcher.go\<close> and
  \<open>signer.go\<close>. The keyed hash (HMAC with SHA-256, as hexadecimal text) is a parameter.
\<close>

section \<open>Events and the dispatcher\<close>

definition event_types :: "string list" where
  "event_types = [''approval_requested'', ''approval_decided'', ''approval_escalated'', ''approval_expired'']"

record outbox_event =
  ev_type :: string
  ev_job_id :: string
  ev_step_id :: string
  ev_occurred_at :: time
  ev_payload :: go_map

record dispatcher =
  dp_types :: "string set"
  dp_pending :: "outbox_event list"

definition register_event_type :: "string \<Rightarrow> dispatcher \<Rightarrow> dispatcher" where
  "register_event_type t d = (if t = [] then d else d\<lparr>dp_types := insert t (dp_types d)\<rparr>)"

definition new_outbox_dispatcher :: dispatcher where
  "new_outbox_dispatcher = fold register_event_type event_types \<lparr>dp_types = {}, dp_pending = []\<rparr>"

definition registered_event_types :: "dispatcher \<Rightarrow> string list" where
  "registered_event_types d = sorted_list_of_set (dp_types d)"

definition emit :: "outbox_event \<Rightarrow> dispatcher \<Rightarrow> string option \<times> dispatcher" where
  "emit e d =
     (if ev_type e \<notin> dp_types d then (Some (''outbox event type not registered: '' @ ev_type e), d)
      else (None, d\<lparr>dp_pending := dp_pending d @ [e]\<rparr>))"

datatype dispatcher_event = Dp_ctx_done | Dp_tick | Dp_emit outbox_event

text \<open>\<open>Start\<close>, with the emissions that arrive while it runs: a tick empties the queue.\<close>

fun dispatcher_start :: "dispatcher_event list \<Rightarrow> dispatcher \<Rightarrow> dispatcher" where
  "dispatcher_start [] d = d"
| "dispatcher_start (Dp_ctx_done # es) d = d"
| "dispatcher_start (Dp_tick # es) d = dispatcher_start es (d\<lparr>dp_pending := []\<rparr>)"
| "dispatcher_start (Dp_emit e # es) d = dispatcher_start es (snd (emit e d))"

section \<open>The callback signer\<close>

record callback_signer =
  cs_key :: string
  cs_key_id :: string

definition sign :: "(string \<Rightarrow> string \<Rightarrow> string) \<Rightarrow> callback_signer \<Rightarrow> string \<Rightarrow> string \<times> string" where
  "sign hmac s payload = (hmac (cs_key s) payload, cs_key_id s)"

definition verify :: "callback_signer \<Rightarrow> string \<Rightarrow> string \<Rightarrow> string \<Rightarrow> bool" where
  "verify s payload signature keyID = False"

section \<open>Lemmas\<close>

lemma new_dispatcher_types: "dp_types new_outbox_dispatcher = set event_types"
  by (auto simp: new_outbox_dispatcher_def event_types_def register_event_type_def)

lemma emit_types [simp]: "dp_types (snd (emit e d)) = dp_types d"
  by (simp add: emit_def)

section \<open>Properties\<close>

text \<open>The dispatcher delivers nothing. Whatever is emitted while \<open>Start\<close> runs, after a tick
  only the events emitted since the last tick are left, and no operation hands an event to anyone:
  the queue is emptied and its events are lost.\<close>

theorem dispatcher_drops_events:
  assumes "Dp_ctx_done \<notin> set es"
  shows "dp_pending (dispatcher_start (es @ Dp_tick # map Dp_emit evs) d)
    = filter (\<lambda>e. ev_type e \<in> dp_types d) evs"
proof -
  have app: "dispatcher_start (xs @ ys) c = dispatcher_start ys (dispatcher_start xs c)"
    if "Dp_ctx_done \<notin> set xs" for xs ys c
    using that by (induction xs c rule: dispatcher_start.induct) auto
  have types: "dp_types (dispatcher_start xs c) = dp_types c" for xs c
    by (induction xs c rule: dispatcher_start.induct) auto
  have "dp_pending (dispatcher_start (map Dp_emit evs) c)
      = dp_pending c @ filter (\<lambda>e. ev_type e \<in> dp_types c) evs" for c
    by (induction evs arbitrary: c) (auto simp: emit_def)
  then show ?thesis by (simp add: app [OF assms] types)
qed

theorem dispatcher_drops_events_witness:
  "dp_pending (dispatcher_start ([Dp_emit \<lparr>ev_type = ''approval_decided'', ev_job_id = ''j'',
      ev_step_id = ''s'', ev_occurred_at = 1, ev_payload = []\<rparr>] @ Dp_tick # map Dp_emit [])
      new_outbox_dispatcher) = []"
  by (subst dispatcher_drops_events) simp_all

end
