(* ===== verification/Approval.thy ===== *)
theory Approval
  imports Outbox Job_Store "HOL-Library.Product_Lexorder"
begin

text \<open>
  The approval policy and the approval service kept in memory:
  \<open>src/internal/transport/http/services.go\<close> and \<open>approval_worker.go\<close>. The state of the service
  is a record; its operations take the current time. The map of steps is iterated in the order of
  the list, where Go leaves the order open: it decides only the order of the events of one tick.
  Metrics are left out. \<open>strconv.ParseFloat\<close> is a parameter with values in \<open>float64\<close>, whose
  comparison is that of IEEE 754.
\<close>

section \<open>The policy\<close>

datatype float64 = Fin int int | Pos_inf | Neg_inf | Nan

text \<open>\<open>Fin a b\<close> is the number \<open>a / b\<close> with \<open>b\<close> positive.\<close>

fun float_gt :: "float64 \<Rightarrow> float64 \<Rightarrow> bool" where
  "float_gt (Fin a b) (Fin c d) = (a * d > c * b)"
| "float_gt Pos_inf (Fin _ _) = True"
| "float_gt Pos_inf Neg_inf = True"
| "float_gt (Fin _ _) Neg_inf = True"
| "float_gt _ _ = False"

definition parse_float ::
  "(string \<Rightarrow> float64 option) \<Rightarrow> (string \<times> string) list option \<Rightarrow> string \<Rightarrow> float64 option" where
  "parse_float pf values key =
     (case values of
        None \<Rightarrow> None
      | Some m \<Rightarrow>
          (case map_of m key of
             None \<Rightarrow> None
           | Some raw \<Rightarrow> if trim_space raw = [] then None else pf raw))"

record policy_input =
  pi_approver :: string
  pi_approver_role :: string
  pi_approver_tenant :: string
  pi_job_owner :: string
  pi_job_tenant :: string
  pi_path_key :: string
  pi_step_key :: string
  pi_blast_radius :: string
  pi_metadata :: "(string \<times> string) list option"
  pi_allowed_roles :: "string list"
  pi_self_approval :: bool
  pi_min_approvers :: int

record policy_result =
  pr_allowed :: bool
  pr_reason :: string
  pr_violations :: "string list"

definition deny :: "string \<Rightarrow> string \<Rightarrow> policy_result" where
  "deny reason v = \<lparr>pr_allowed = False, pr_reason = reason, pr_violations = [v]\<rparr>"

definition evaluate_approval :: "(string \<Rightarrow> float64 option) \<Rightarrow> policy_input \<Rightarrow> policy_result" where
  "evaluate_approval pf i =
     (if pi_approver i = [] then deny ''missing approver'' ''approver_missing''
      else if \<not> pi_self_approval i \<and> pi_job_owner i \<noteq> [] \<and> pi_approver i = pi_job_owner i
      then deny ''self approval blocked'' ''self_approval_blocked''
      else if pi_job_tenant i \<noteq> [] \<and> pi_approver_tenant i = []
      then deny ''approver tenant missing'' ''approver_tenant_missing''
      else if pi_job_tenant i \<noteq> [] \<and> pi_approver_tenant i \<noteq> pi_job_tenant i
      then deny ''tenant scope mismatch'' ''tenant_scope_mismatch''
      else if pi_allowed_roles i \<noteq> [] \<and> \<not> list_ex (\<lambda>r. equal_fold r (pi_approver_role i)) (pi_allowed_roles i)
      then deny ''role not authorised'' ''role_not_allowed''
      else case parse_float pf (pi_metadata i) ''estimated_cost'' of
        Some est \<Rightarrow>
          (case parse_float pf (pi_metadata i) ''approver_limit'' of
             Some limit \<Rightarrow>
               if float_gt est limit then deny ''budget authority exceeded'' ''budget_exceeded''
               else \<lparr>pr_allowed = True, pr_reason = [], pr_violations = []\<rparr>
           | None \<Rightarrow> \<lparr>pr_allowed = True, pr_reason = [], pr_violations = []\<rparr>)
      | None \<Rightarrow> \<lparr>pr_allowed = True, pr_reason = [], pr_violations = []\<rparr>)"

section \<open>State of the service\<close>

record approval_context =
  ac_summary :: string
  ac_detail :: string
  ac_blast_radius :: string
  ac_policy_ref :: string
  ac_metadata :: "(string \<times> string) list option"

record approval_policy =
  ap_required :: bool
  ap_min_approvers :: int
  ap_allowed_roles :: "string list"
  ap_self_approval :: bool

record decision_record =
  dr_decision :: string
  dr_approver :: string
  dr_justification :: string
  dr_created_at :: time

record decision_input =
  di_job_id :: string
  di_step_id :: string
  di_decision :: string
  di_justification :: string
  di_idempotency_key :: string
  di_approver :: string
  di_approver_role :: string
  di_approver_tenant :: string

record decision_output =
  do_job_id :: string
  do_step_id :: string
  do_decision :: string
  do_state :: string
  do_idempotency_key :: string
  do_replay :: bool
  do_remaining :: int
  do_recorded_at :: time

record approval_step =
  as_job_id :: string
  as_step_id :: string
  as_tenant_id :: string
  as_path_key :: string
  as_status :: string
  as_job_owner :: string
  as_context :: approval_context
  as_policy :: approval_policy
  as_requested_at :: time
  as_expires_at :: "time option"
  as_escalated :: bool
  as_decisions :: "(string \<times> decision_record) list"

record approval_service =
  sv_steps :: "(string \<times> approval_step) list"
  sv_idem :: "(string \<times> (string \<times> decision_output)) list"
  sv_events :: "outbox_event list"
  sv_outbox :: "dispatcher option"
  sv_default_ttl :: duration

datatype approval_error =
    Err_step_not_found | Err_not_waiting | Err_idempotency_conflict | Err_decision_conflict
  | Err_forbidden | Err_policy_violation

text \<open>The zero value of \<open>time.Time\<close>, January 1 of the year 1, in nanoseconds of the Unix epoch.\<close>

definition zero_time :: time where
  "zero_time = - 62135596800 * second"

definition context_json :: "approval_context \<Rightarrow> go_any" where
  "context_json c = GMap [(''summary'', GStr (ac_summary c)), (''detail'', GStr (ac_detail c)),
     (''blast_radius'', GStr (ac_blast_radius c)), (''policy_ref'', GStr (ac_policy_ref c)),
     (''metadata'', case ac_metadata c of None \<Rightarrow> GNil | Some m \<Rightarrow> GStrMap m)]"

definition time_json :: "time option \<Rightarrow> go_any" where
  "time_json t = (case t of None \<Rightarrow> GNil | Some x \<Rightarrow> GTime x)"

definition step_map_key :: "string \<Rightarrow> string \<Rightarrow> string" where
  "step_map_key j s = j @ '':'' @ s"

text \<open>The error of the dispatcher's \<open>Emit\<close> is discarded.\<close>

definition record_event :: "outbox_event \<Rightarrow> approval_service \<Rightarrow> approval_service" where
  "record_event e s = s\<lparr>sv_events := sv_events s @ [e],
     sv_outbox := map_option (\<lambda>d. snd (emit e d)) (sv_outbox s)\<rparr>"

section \<open>Operations\<close>

text \<open>A nil decision map is made empty; both are the empty list here.\<close>

definition seed_step :: "time \<Rightarrow> approval_step \<Rightarrow> approval_service \<Rightarrow> approval_service" where
  "seed_step now step s =
     (let s1 = (if as_status step = [] then step\<lparr>as_status := ''waiting_approval''\<rparr> else step);
          s2 = (if as_requested_at s1 = zero_time then s1\<lparr>as_requested_at := now\<rparr> else s1);
          s3 = (if as_expires_at s2 = None \<and> as_status s2 = ''waiting_approval''
                then s2\<lparr>as_expires_at := Some (as_requested_at s2 + sv_default_ttl s)\<rparr> else s2);
          sv = s\<lparr>sv_steps := alist_put (step_map_key (as_job_id s3) (as_step_id s3)) s3 (sv_steps s)\<rparr>
      in if as_status s3 = ''waiting_approval''
         then record_event \<lparr>ev_type = ''approval_requested'', ev_job_id = as_job_id s3,
             ev_step_id = as_step_id s3, ev_occurred_at = now,
             ev_payload = [(''approval_request'', context_json (as_context s3)),
               (''policy_ref'', GStr (ac_policy_ref (as_context s3))),
               (''expires_at'', time_json (as_expires_at s3))]\<rparr> sv
         else sv)"

text \<open>\<open>float64(total) * 0.8\<close>, computed exactly here.\<close>

definition escalation_offset :: "duration \<Rightarrow> duration" where
  "escalation_offset ttl = go_quot (ttl * 4) 5"

definition escalate_step :: "time \<Rightarrow> time \<Rightarrow> duration \<Rightarrow> approval_step \<Rightarrow> approval_step \<times> outbox_event list" where
  "escalate_step now expires ttl step =
     (let span0 = expires - as_requested_at step;
          span = (if span0 \<le> 0 then ttl else span0);
          point = as_requested_at step + escalation_offset span
      in if \<not> as_escalated step \<and> point \<le> now \<and> now < expires
         then (step\<lparr>as_escalated := True\<rparr>,
           [\<lparr>ev_type = ''approval_escalated'', ev_job_id = as_job_id step, ev_step_id = as_step_id step,
             ev_occurred_at = now,
             ev_payload = [(''elapsed_seconds'', GInt (go_quot (now - as_requested_at step) second)),
               (''remaining_seconds'', GInt (go_quot (expires - now) second)),
               (''approval_request'', context_json (as_context step))]\<rparr>])
         else (step, []))"

definition expire_step :: "time \<Rightarrow> time \<Rightarrow> approval_step \<Rightarrow> approval_step \<times> outbox_event list" where
  "expire_step now expires step =
     (if expires \<le> now then
        (step\<lparr>as_status := ''error'',
            as_decisions := (case map_of (as_decisions step) ''system'' of
               Some _ \<Rightarrow> as_decisions step
             | None \<Rightarrow> alist_put ''system'' \<lparr>dr_decision = ''expired'', dr_approver = ''system'',
                 dr_justification = ''approval_timeout'', dr_created_at = now\<rparr> (as_decisions step))\<rparr>,
         [\<lparr>ev_type = ''approval_expired'', ev_job_id = as_job_id step, ev_step_id = as_step_id step,
           ev_occurred_at = now,
           ev_payload = [(''reason'', GStr ''approval_timeout''),
             (''original_request'', context_json (as_context step)),
             (''ttl_seconds'', GInt (go_quot (expires - as_requested_at step) second))]\<rparr>])
      else (step, []))"

definition tick_step :: "time \<Rightarrow> duration \<Rightarrow> approval_step \<Rightarrow> approval_step \<times> outbox_event list" where
  "tick_step now ttl step =
     (if as_status step \<noteq> ''waiting_approval'' then (step, [])
      else let expires = (case as_expires_at step of None \<Rightarrow> now + ttl | Some e \<Rightarrow> e);
               (s1, ev1) = escalate_step now expires ttl (step\<lparr>as_expires_at := Some expires\<rparr>);
               (s2, ev2) = expire_step now expires s1
           in (s2, ev1 @ ev2))"

definition tick_approvals :: "time \<Rightarrow> approval_service \<Rightarrow> approval_service" where
  "tick_approvals now s =
     fold (\<lambda>(k, step) sv. let (step', evs) = tick_step now (sv_default_ttl s) step
        in fold record_event evs (sv\<lparr>sv_steps := alist_put k step' (sv_steps sv)\<rparr>)) (sv_steps s) s"

definition drain_events :: "approval_service \<Rightarrow> outbox_event list \<times> approval_service" where
  "drain_events s = (sv_events s, s\<lparr>sv_events := []\<rparr>)"

definition ensure_terminal :: "string \<Rightarrow> string \<Rightarrow> approval_service \<Rightarrow> bool \<times> approval_service" where
  "ensure_terminal j k s =
     (case map_of (sv_steps s) (step_map_key j k) of
        None \<Rightarrow> (False, s)
      | Some step \<Rightarrow>
          if as_status step = ''waiting_approval''
          then (True, s\<lparr>sv_steps := alist_put (step_map_key j k) (step\<lparr>as_status := ''running''\<rparr>) (sv_steps s)\<rparr>)
          else (as_status step \<in> {''running'', ''succeeded'', ''failed'', ''jobs_exhausted''}, s))"

definition payload_hash :: "decision_input \<Rightarrow> string" where
  "payload_hash i = join_with ''|'' [di_job_id i, di_step_id i, di_decision i, di_justification i, di_approver i]"

definition approvals :: "approval_step \<Rightarrow> nat" where
  "approvals step = length (filter (\<lambda>(_, d). dr_decision d = ''approved'') (as_decisions step))"

definition remaining_approvals :: "approval_step \<Rightarrow> int" where
  "remaining_approvals step =
     (let required = (if ap_min_approvers (as_policy step) < 1 then 1 else ap_min_approvers (as_policy step))
      in max 0 (required - int (approvals step)))"

definition step_policy_input :: "approval_step \<Rightarrow> decision_input \<Rightarrow> policy_input" where
  "step_policy_input step i = \<lparr>pi_approver = di_approver i, pi_approver_role = di_approver_role i,
     pi_approver_tenant = di_approver_tenant i, pi_job_owner = as_job_owner step,
     pi_job_tenant = as_tenant_id step, pi_path_key = as_path_key step, pi_step_key = as_step_id step,
     pi_blast_radius = ac_blast_radius (as_context step), pi_metadata = ac_metadata (as_context step),
     pi_allowed_roles = ap_allowed_roles (as_policy step),
     pi_self_approval = ap_self_approval (as_policy step),
     pi_min_approvers = ap_min_approvers (as_policy step)\<rparr>"

text \<open>The step with the decision recorded, and its new status.\<close>

definition record_decision :: "time \<Rightarrow> decision_input \<Rightarrow> approval_step \<Rightarrow> approval_step" where
  "record_decision now i step =
     (let s1 = step\<lparr>as_decisions := alist_put (di_approver i) \<lparr>dr_decision = di_decision i,
              dr_approver = di_approver i, dr_justification = di_justification i, dr_created_at = now\<rparr>
              (as_decisions step)\<rparr>
      in if di_decision i = ''rejected'' then s1\<lparr>as_status := ''error''\<rparr>
         else if remaining_approvals s1 = 0 then s1\<lparr>as_status := ''running''\<rparr>
         else s1)"

definition accept_decision ::
  "time \<Rightarrow> decision_input \<Rightarrow> approval_step \<Rightarrow> approval_service \<Rightarrow> decision_output \<times> approval_service" where
  "accept_decision now i step s =
     (let step' = record_decision now i step;
          out = \<lparr>do_job_id = di_job_id i, do_step_id = di_step_id i, do_decision = di_decision i,
            do_state = as_status step', do_idempotency_key = di_idempotency_key i, do_replay = False,
            do_remaining = remaining_approvals step', do_recorded_at = now\<rparr>;
          s1 = record_event \<lparr>ev_type = ''approval_decided'', ev_job_id = di_job_id i,
                 ev_step_id = di_step_id i, ev_occurred_at = now,
                 ev_payload = [(''decision'', GStr (di_decision i)), (''approver'', GStr (di_approver i)),
                   (''justification'', GStr (di_justification i))]\<rparr>
               (s\<lparr>sv_steps := alist_put (step_map_key (di_job_id i) (di_step_id i)) step' (sv_steps s)\<rparr>)
      in (out, s1\<lparr>sv_idem := alist_put (di_idempotency_key i) (payload_hash i, out) (sv_idem s1)\<rparr>))"

definition submit_decision ::
  "(string \<Rightarrow> float64 option) \<Rightarrow> time \<Rightarrow> decision_input \<Rightarrow> approval_service
     \<Rightarrow> (approval_error + decision_output) \<times> approval_service" where
  "submit_decision pf now i s =
     (case map_of (sv_steps s) (step_map_key (di_job_id i) (di_step_id i)) of
        None \<Rightarrow> (Inl Err_step_not_found, s)
      | Some step \<Rightarrow>
          (case map_of (sv_idem s) (di_idempotency_key i) of
             Some (h, out) \<Rightarrow>
               if h \<noteq> payload_hash i then (Inl Err_idempotency_conflict, s)
               else (Inr (out\<lparr>do_replay := True\<rparr>), s)
           | None \<Rightarrow>
               if as_status step \<noteq> ''waiting_approval'' then (Inl Err_not_waiting, s)
               else if map_of (as_decisions step) (di_approver i) \<noteq> None then (Inl Err_decision_conflict, s)
               else let res = evaluate_approval pf (step_policy_input step i) in
                 if \<not> pr_allowed res then
                   (Inl (if ''self_approval_blocked'' \<in> set (pr_violations res)
                           \<or> ''budget_exceeded'' \<in> set (pr_violations res)
                         then Err_policy_violation else Err_forbidden), s)
                 else (case accept_decision now i step s of (out, s') \<Rightarrow> (Inr out, s'))))"

record approval_context_response =
  acr_job_id :: string
  acr_step_id :: string
  acr_status :: string
  acr_context :: approval_context
  acr_policy :: approval_policy
  acr_approved :: nat
  acr_rejected :: nat
  acr_remaining :: int
  acr_decisions :: "decision_record list"
  acr_expires_at :: "time option"

definition get_approval_context ::
  "string \<Rightarrow> string \<Rightarrow> approval_service \<Rightarrow> approval_error + approval_context_response" where
  "get_approval_context j k s =
     (case map_of (sv_steps s) (step_map_key j k) of
        None \<Rightarrow> Inl Err_step_not_found
      | Some step \<Rightarrow> Inr \<lparr>acr_job_id = as_job_id step, acr_step_id = as_step_id step,
          acr_status = as_status step, acr_context = as_context step, acr_policy = as_policy step,
          acr_approved = approvals step,
          acr_rejected = length (filter (\<lambda>(_, d). dr_decision d = ''rejected'') (as_decisions step)),
          acr_remaining = remaining_approvals step,
          acr_decisions = sort_key dr_created_at (map snd (as_decisions step)),
          acr_expires_at = as_expires_at step\<rparr>)"

record pending_job =
  pj_job_id :: string
  pj_tenant_id :: string
  pj_path_key :: string
  pj_step_id :: string
  pj_step_status :: string

definition pending_visible :: "string \<Rightarrow> string \<Rightarrow> approval_step \<Rightarrow> bool" where
  "pending_visible tenant role step \<longleftrightarrow> as_status step = ''waiting_approval''
     \<and> (tenant = [] \<or> as_tenant_id step = tenant)
     \<and> (role = [] \<or> ap_allowed_roles (as_policy step) = [] \<or> role \<in> set (ap_allowed_roles (as_policy step)))"

definition list_pending_jobs :: "string \<Rightarrow> string \<Rightarrow> approval_service \<Rightarrow> pending_job list" where
  "list_pending_jobs tenant role s =
     sort_key (\<lambda>p. (pj_tenant_id p, pj_job_id p, pj_step_id p))
       (map (\<lambda>(_, step). \<lparr>pj_job_id = as_job_id step, pj_tenant_id = as_tenant_id step,
          pj_path_key = as_path_key step, pj_step_id = as_step_id step,
          pj_step_status = as_status step\<rparr>)
        (filter (\<lambda>(_, step). pending_visible tenant role step) (sv_steps s)))"

definition seeded_example :: "time \<Rightarrow> approval_step" where
  "seeded_example now = \<lparr>as_job_id = ''job-123'', as_step_id = ''step-456'', as_tenant_id = ''acme-prod'',
     as_path_key = ''deploy-production'', as_status = ''waiting_approval'', as_job_owner = ''owner-1'',
     as_context = \<lparr>ac_summary = ''Approve production deployment'',
       ac_detail = ''Deploy release 2026.03.11 to production'', ac_blast_radius = ''high'',
       ac_policy_ref = ''paths.deploy-production.approval'',
       ac_metadata = Some [(''change_id'', ''CHANGE-1234'')]\<rparr>,
     as_policy = \<lparr>ap_required = True, ap_min_approvers = 2,
       ap_allowed_roles = [''release-manager'', ''team-lead''], ap_self_approval = False\<rparr>,
     as_requested_at = now, as_expires_at = Some (now + 48 * hour), as_escalated = False,
     as_decisions = []\<rparr>"

definition new_approval_service :: "time \<Rightarrow> dispatcher option \<Rightarrow> approval_service" where
  "new_approval_service now disp =
     (let s = \<lparr>sv_steps = [], sv_idem = [], sv_events = [],
                sv_outbox = disp, sv_default_ttl = 48 * hour\<rparr>
      in snd (drain_events (seed_step now (seeded_example now) s)))"

text \<open>The worker: \<open>Run\<close> over the events of its \<open>select\<close>; the time is that of each tick.\<close>

datatype worker_event = Worker_ctx_done | Worker_tick time

fun worker_run :: "worker_event list \<Rightarrow> approval_service \<Rightarrow> approval_service" where
  "worker_run [] s = s"
| "worker_run (Worker_ctx_done # es) s = s"
| "worker_run (Worker_tick t # es) s = worker_run es (tick_approvals t s)"

definition worker_interval :: "duration \<Rightarrow> duration" where
  "worker_interval d = (if d \<le> 0 then 30 * second else d)"

section \<open>Sequences of operations\<close>

datatype approval_op =
    Op_seed time approval_step
  | Op_decide time decision_input
  | Op_tick time
  | Op_drain

fun apply_op :: "(string \<Rightarrow> float64 option) \<Rightarrow> approval_op \<Rightarrow> approval_service \<Rightarrow> approval_service" where
  "apply_op pf (Op_seed now step) s = seed_step now step s"
| "apply_op pf (Op_decide now i) s = snd (submit_decision pf now i s)"
| "apply_op pf (Op_tick now) s = tick_approvals now s"
| "apply_op pf Op_drain s = snd (drain_events s)"

definition run_ops :: "(string \<Rightarrow> float64 option) \<Rightarrow> approval_op list \<Rightarrow> approval_service \<Rightarrow> approval_service" where
  "run_ops pf ops s = fold (apply_op pf) ops s"

text \<open>A step is seeded before anyone has decided on it.\<close>

fun fresh_seed :: "approval_op \<Rightarrow> bool" where
  "fresh_seed (Op_seed now step) \<longleftrightarrow> as_decisions step = [] \<and> as_status step \<in> {[], ''waiting_approval''}"
| "fresh_seed _ \<longleftrightarrow> True"

section \<open>The invariant of a step\<close>

definition required_approvals :: "approval_step \<Rightarrow> int" where
  "required_approvals step = max 1 (ap_min_approvers (as_policy step))"

definition approvers :: "approval_step \<Rightarrow> string set" where
  "approvers step = {a. \<exists>d. (a, d) \<in> set (as_decisions step) \<and> dr_decision d = ''approved''}"

definition step_ok :: "approval_step \<Rightarrow> bool" where
  "step_ok step \<longleftrightarrow> distinct (map fst (as_decisions step))
     \<and> (as_status step = ''running'' \<longrightarrow> required_approvals step \<le> int (approvals step))
     \<and> (\<not> ap_self_approval (as_policy step) \<and> as_job_owner step \<noteq> [] \<longrightarrow>
          as_job_owner step \<notin> approvers step)
     \<and> [] \<notin> approvers step"

definition service_ok :: "approval_service \<Rightarrow> bool" where
  "service_ok s \<longleftrightarrow> distinct (map fst (sv_steps s)) \<and> list_all (\<lambda>(_, step). step_ok step) (sv_steps s)"

lemma approvals_card: "distinct (map fst (as_decisions step)) \<Longrightarrow> approvals step = card (approvers step)"
proof -
  assume d: "distinct (map fst (as_decisions step))"
  let ?l = "filter (\<lambda>(_, d). dr_decision d = ''approved'') (as_decisions step)"
  have "distinct (map fst ?l)" using d by (induction "as_decisions step") (auto simp: distinct_map inj_on_def)
  moreover have "set (map fst ?l) = approvers step" by (force simp: approvers_def)
  ultimately show ?thesis unfolding approvals_def by (metis distinct_card length_map)
qed

lemma remaining_zero: "remaining_approvals step = 0 \<longleftrightarrow> required_approvals step \<le> int (approvals step)"
  by (auto simp: remaining_approvals_def required_approvals_def Let_def max_def)

lemma record_event_frame [simp]:
  "sv_steps (record_event e s) = sv_steps s" "sv_idem (record_event e s) = sv_idem s"
  "sv_default_ttl (record_event e s) = sv_default_ttl s"
  by (simp_all add: record_event_def)

lemma fold_record_event [simp]:
  "sv_steps (fold record_event es s) = sv_steps s" "sv_idem (fold record_event es s) = sv_idem s"
  by (induction es arbitrary: s) simp_all

lemma list_all_alist_put:
  "list_all P m \<Longrightarrow> P (k, v) \<Longrightarrow> list_all P (alist_put k v m)"
  by (induction k v m rule: alist_put.induct) auto

lemma approvers_put:
  assumes "a \<notin> fst ` set (as_decisions step)"
  shows "approvers (step\<lparr>as_decisions := alist_put a d (as_decisions step)\<rparr>)
    = approvers step \<union> (if dr_decision d = ''approved'' then {a} else {})"
proof -
  have "set (alist_put a d m) = insert (a, d) (set m)" if "a \<notin> fst ` set m" for m :: "(string \<times> decision_record) list"
    using that by (induction a d m rule: alist_put.induct) auto
  then show ?thesis using assms by (auto simp: approvers_def)
qed

lemma seed_step_ok:
  assumes "service_ok s" "as_decisions step = []" "as_status step \<in> {[], ''waiting_approval''}"
  shows "service_ok (seed_step now step s)"
proof -
  have "step_ok st" if "as_decisions st = []" "as_status st = ''waiting_approval''" for st
    using that by (simp add: step_ok_def approvers_def)
  then show ?thesis using assms
    by (auto simp: seed_step_def service_ok_def Let_def intro!: list_all_alist_put)
qed

lemma evaluate_allowed:
  assumes "pr_allowed (evaluate_approval pf i)"
  shows "pi_approver i \<noteq> []" "\<not> pi_self_approval i \<Longrightarrow> pi_job_owner i \<noteq> [] \<Longrightarrow> pi_approver i \<noteq> pi_job_owner i"
    "pi_job_tenant i \<noteq> [] \<Longrightarrow> pi_approver_tenant i = pi_job_tenant i"
    "pi_allowed_roles i \<noteq> [] \<Longrightarrow> list_ex (\<lambda>r. equal_fold r (pi_approver_role i)) (pi_allowed_roles i)"
  using assms by (auto simp: evaluate_approval_def deny_def split: if_splits)

lemma record_decision_ok:
  assumes "step_ok step" "as_status step = ''waiting_approval''"
    "map_of (as_decisions step) (di_approver i) = None"
    "pr_allowed (evaluate_approval pf (step_policy_input step i))"
  shows "step_ok (record_decision now i step)"
proof -
  let ?d = "\<lparr>dr_decision = di_decision i, dr_approver = di_approver i,
    dr_justification = di_justification i, dr_created_at = now\<rparr>"
  let ?s = "step\<lparr>as_decisions := alist_put (di_approver i) ?d (as_decisions step)\<rparr>"
  have new: "di_approver i \<notin> fst ` set (as_decisions step)"
    using assms(3) by (simp add: map_of_eq_None_iff)
  have "di_approver i \<noteq> []"
    "\<not> ap_self_approval (as_policy step) \<and> as_job_owner step \<noteq> [] \<longrightarrow> di_approver i \<noteq> as_job_owner step"
    using evaluate_allowed(1,2) [OF assms(4)] by (auto simp: step_policy_input_def)
  then have "distinct (map fst (as_decisions ?s))" "[] \<notin> approvers ?s"
    "\<not> ap_self_approval (as_policy ?s) \<and> as_job_owner ?s \<noteq> [] \<longrightarrow> as_job_owner ?s \<notin> approvers ?s"
    using assms(1) approvers_put [OF new, of ?d] by (auto simp: step_ok_def)
  then show ?thesis
    using assms(2) remaining_zero [of ?s]
    by (auto simp: record_decision_def Let_def step_ok_def approvers_def approvals_def
        required_approvals_def)
qed

lemma submit_decision_ok:
  assumes "service_ok s"
  shows "service_ok (snd (submit_decision pf now i s))"
proof (cases "snd (submit_decision pf now i s) = s")
  case False
  then obtain step where st: "map_of (sv_steps s) (step_map_key (di_job_id i) (di_step_id i)) = Some step"
      "as_status step = ''waiting_approval''" "map_of (as_decisions step) (di_approver i) = None"
      "pr_allowed (evaluate_approval pf (step_policy_input step i))"
      "snd (submit_decision pf now i s) = snd (accept_decision now i step s)"
    by (auto simp: submit_decision_def Let_def split: option.splits if_splits prod.splits)
  have "step_ok step" using map_of_SomeD [OF st(1)] assms by (auto simp: service_ok_def list_all_iff)
  from record_decision_ok [OF this st(2-4)] show ?thesis
    using assms by (auto simp: st(5) accept_decision_def Let_def service_ok_def intro!: list_all_alist_put)
qed (use assms in simp)

text \<open>A tick changes every step by itself.\<close>

lemma alist_put_middle:
  "k \<notin> fst ` set pre \<Longrightarrow> alist_put k v (pre @ (k, w) # post) = pre @ (k, v) # post"
  by (induction pre) auto

lemma tick_fold:
  assumes "distinct (map fst (pre @ xs))" "sv_steps sv = pre @ xs"
  shows "sv_steps (fold (\<lambda>(k, step) sv. let (step', evs) = tick_step now ttl step
        in fold record_event evs (sv\<lparr>sv_steps := alist_put k step' (sv_steps sv)\<rparr>)) xs sv)
    = pre @ map (\<lambda>(k, step). (k, fst (tick_step now ttl step))) xs"
  using assms
proof (induction xs arbitrary: pre sv)
  case (Cons x xs)
  obtain k step where x: "x = (k, step)" by (cases x)
  obtain step' evs where t: "tick_step now ttl step = (step', evs)" by fastforce
  let ?sv = "fold record_event evs (sv\<lparr>sv_steps := alist_put k step' (sv_steps sv)\<rparr>)"
  have "sv_steps ?sv = (pre @ [(k, step')]) @ xs"
    using Cons.prems x by (simp add: alist_put_middle)
  moreover have "distinct (map fst ((pre @ [(k, step')]) @ xs))" using Cons.prems(1) x by simp
  ultimately show ?case using Cons.IH [of "pre @ [(k, step')]" ?sv] x t by (simp add: Let_def)
qed simp

lemma tick_approvals_steps:
  assumes "distinct (map fst (sv_steps s))"
  shows "sv_steps (tick_approvals now s)
    = map (\<lambda>(k, step). (k, fst (tick_step now (sv_default_ttl s) step))) (sv_steps s)"
  unfolding tick_approvals_def using tick_fold [of "[]" "sv_steps s" s] assms by simp

lemma approvers_system:
  "approvers (st\<lparr>as_decisions := alist_put ''system'' \<lparr>dr_decision = ''expired'', dr_approver = ''system'',
     dr_justification = j, dr_created_at = t\<rparr> (as_decisions st)\<rparr>) \<subseteq> approvers st"
proof -
  have "set (alist_put k v m) \<subseteq> insert (k, v) (set m)" for k v and m :: "(string \<times> decision_record) list"
    by (induction k v m rule: alist_put.induct) auto
  then show ?thesis unfolding approvers_def by fastforce
qed

lemma escalate_step_keeps:
  "as_decisions (fst (escalate_step now e ttl step)) = as_decisions step"
  "as_status (fst (escalate_step now e ttl step)) = as_status step"
  "as_policy (fst (escalate_step now e ttl step)) = as_policy step"
  "as_job_owner (fst (escalate_step now e ttl step)) = as_job_owner step"
  "as_expires_at (fst (escalate_step now e ttl step)) = as_expires_at step"
  by (simp_all add: escalate_step_def Let_def)

lemma expire_step_ok:
  assumes "step_ok step" "as_status step = ''waiting_approval''"
  shows "step_ok (fst (expire_step now e step))"
  using assms approvers_system [where st = step and j = "''approval_timeout''" and t = now]
  by (auto simp: expire_step_def step_ok_def approvers_def split: option.splits)

lemma tick_step_ok: "step_ok step \<Longrightarrow> step_ok (fst (tick_step now ttl step))"
proof -
  assume ok: "step_ok step"
  let ?e = "case as_expires_at step of None \<Rightarrow> now + ttl | Some e \<Rightarrow> e"
  let ?s = "fst (escalate_step now ?e ttl (step\<lparr>as_expires_at := Some ?e\<rparr>))"
  show ?thesis
  proof (cases "as_status step = ''waiting_approval''")
    case True
    have "step_ok ?s" "as_status ?s = ''waiting_approval''"
      using ok True by (simp_all add: step_ok_def escalate_step_keeps approvers_def approvals_def
          required_approvals_def)
    from expire_step_ok [OF this, of now ?e] show ?thesis
      using True by (simp add: tick_step_def Let_def split_def)
  qed (use ok in \<open>simp add: tick_step_def\<close>)
qed

lemma run_ops_ok:
  assumes "list_all fresh_seed ops" "service_ok s"
  shows "service_ok (run_ops pf ops s)"
  using assms
proof (induction ops arbitrary: s)
  case (Cons op ops)
  have "service_ok (apply_op pf op s)"
  proof (cases op)
    case (Op_seed t st)
    then show ?thesis using Cons.prems seed_step_ok by simp
  next
    case (Op_decide t i)
    then show ?thesis using Cons.prems submit_decision_ok by simp
  next
    case (Op_tick t)
    then show ?thesis using Cons.prems(2) tick_step_ok
      by (auto simp: service_ok_def tick_approvals_steps list_all_iff split_def comp_def)
  next
    case Op_drain
    then show ?thesis using Cons.prems by (simp add: drain_events_def service_ok_def)
  qed
  then show ?case using Cons by (simp add: run_ops_def)
qed (simp add: run_ops_def)

lemma drain_events_ok: "service_ok s \<Longrightarrow> service_ok (snd (drain_events s))"
  by (simp add: drain_events_def service_ok_def)

lemma new_service_ok: "service_ok (new_approval_service now disp)"
  unfolding new_approval_service_def Let_def
  by (intro drain_events_ok seed_step_ok) (simp_all add: service_ok_def seeded_example_def)

section \<open>Properties\<close>


definition ex_decide :: "string \<Rightarrow> string \<Rightarrow> string \<Rightarrow> decision_input" where
  "ex_decide who key what = \<lparr>di_job_id = ''job-123'', di_step_id = ''step-456'', di_decision = what,
     di_justification = [], di_idempotency_key = key, di_approver = who,
     di_approver_role = ''Team-Lead'', di_approver_tenant = ''acme-prod''\<rparr>"

definition ex_step :: approval_step where
  "ex_step = seeded_example 10"

lemma ex_fold: "equal_fold ''release-manager'' ''Team-Lead'' = False" "equal_fold ''team-lead'' ''Team-Lead''"
  by code_simp+

lemma ex_allowed:
  "who \<noteq> [] \<Longrightarrow> who \<noteq> ''owner-1'' \<Longrightarrow>
   pr_allowed (evaluate_approval (\<lambda>_. None) (step_policy_input ex_step (ex_decide who key what)))"
  by (simp add: evaluate_approval_def step_policy_input_def ex_step_def seeded_example_def ex_decide_def
      parse_float_def ex_fold)

lemma ex_new_service:
  "map_of (sv_steps (new_approval_service 10 None)) ''job-123:step-456'' = Some ex_step"
  "sv_idem (new_approval_service 10 None) = []"
  by (simp_all add: new_approval_service_def drain_events_def seed_step_def seeded_example_def
      ex_step_def record_event_def step_map_key_def zero_time_def Let_def)

lemma ex_submit:
  fixes w
  defines "i \<equiv> ex_decide ''ann'' ''k1'' w" and "s \<equiv> new_approval_service 10 None"
  shows "submit_decision (\<lambda>_. None) 11 i s
    = (Inr (fst (accept_decision 11 i ex_step s)), snd (accept_decision 11 i ex_step s))"
proof -
  have "step_map_key (di_job_id i) (di_step_id i) = ''job-123:step-456''" "di_approver i = ''ann''"
    by (simp_all add: i_def ex_decide_def step_map_key_def)
  moreover have "as_status ex_step = ''waiting_approval''" "as_decisions ex_step = []"
    by (simp_all add: ex_step_def seeded_example_def)
  moreover have "pr_allowed (evaluate_approval (\<lambda>_. None) (step_policy_input ex_step i))"
    unfolding i_def by (rule ex_allowed) simp_all
  ultimately show ?thesis
    using ex_new_service by (simp add: submit_decision_def s_def split_def)
qed


text \<open>C13: deciding is idempotent: a decision that was accepted, sent again with the same key and
  content at any later time, returns the same result marked as a replay and changes nothing, even
  after the step has left the waiting state.\<close>

theorem decision_idempotent:
  assumes "submit_decision pf now i s = (Inr out, s')" "map_of (sv_idem s) (di_idempotency_key i) = None"
  shows "submit_decision pf now' i s' = (Inr (out\<lparr>do_replay := True\<rparr>), s') \<and> \<not> do_replay out"
proof -
  obtain step where "map_of (sv_steps s) (step_map_key (di_job_id i) (di_step_id i)) = Some step"
      "accept_decision now i step s = (out, s')"
    using assms by (auto simp: submit_decision_def Let_def split: option.splits if_splits prod.splits)
  then have "map_of (sv_steps s') (step_map_key (di_job_id i) (di_step_id i)) \<noteq> None"
      "map_of (sv_idem s') (di_idempotency_key i) = Some (payload_hash i, out)" "\<not> do_replay out"
    by (auto simp: accept_decision_def Let_def)
  then show ?thesis by (auto simp: submit_decision_def split: option.splits)
qed

theorem decision_idempotent_witness:
  "\<exists>out s'. submit_decision (\<lambda>_. None) 11 (ex_decide ''ann'' ''k1'' ''approved'') (new_approval_service 10 None)
      = (Inr out, s') \<and> submit_decision (\<lambda>_. None) 99 (ex_decide ''ann'' ''k1'' ''approved'') s'
      = (Inr (out\<lparr>do_replay := True\<rparr>), s')"
proof -
  obtain out s' where "submit_decision (\<lambda>_. None) 11 (ex_decide ''ann'' ''k1'' ''approved'')
      (new_approval_service 10 None) = (Inr out, s')"
    using ex_submit by blast
  with decision_idempotent [OF this, of 99] show ?thesis using ex_new_service(2) by auto
qed

text \<open>C12: the effect of an accepted decision on its step: it is recorded once per approver; a
  rejection ends the wait in error, the last missing approval opens the gate, and any other
  approval leaves the step waiting with the number of approvals still missing.\<close>

theorem decision_effect:
  assumes "submit_decision pf now i s = (Inr out, s')" "\<not> do_replay out"
    "map_of (sv_idem s) (di_idempotency_key i) = None"
    "map_of (sv_steps s) (step_map_key (di_job_id i) (di_step_id i)) = Some step"
  shows "as_status step = ''waiting_approval''
    \<and> pr_allowed (evaluate_approval pf (step_policy_input step i))
    \<and> map_of (as_decisions step) (di_approver i) = None
    \<and> (\<exists>step'. map_of (sv_steps s') (step_map_key (di_job_id i) (di_step_id i)) = Some step'
        \<and> map_option dr_decision (map_of (as_decisions step') (di_approver i)) = Some (di_decision i)
        \<and> do_state out = as_status step' \<and> do_remaining out = remaining_approvals step'
        \<and> as_status step' = (if di_decision i = ''rejected'' then ''error''
             else if remaining_approvals step' = 0 then ''running'' else ''waiting_approval''))"
proof -
  have g: "as_status step = ''waiting_approval''" "map_of (as_decisions step) (di_approver i) = None"
      "pr_allowed (evaluate_approval pf (step_policy_input step i))"
      "accept_decision now i step s = (out, s')"
    using assms(1,3,4) by (auto simp: submit_decision_def Let_def split: if_splits prod.splits)
  have r: "remaining_approvals (st\<lparr>as_status := x\<rparr>) = remaining_approvals st" for st x
    by (simp add: remaining_approvals_def approvals_def)
  let ?st = "record_decision now i step"
  have "map_of (sv_steps s') (step_map_key (di_job_id i) (di_step_id i)) = Some ?st"
      "do_state out = as_status ?st" "do_remaining out = remaining_approvals ?st"
    using g(4) by (auto simp: accept_decision_def Let_def)
  moreover have "map_option dr_decision (map_of (as_decisions ?st) (di_approver i)) = Some (di_decision i)"
      "as_status ?st = (if di_decision i = ''rejected'' then ''error''
         else if remaining_approvals ?st = 0 then ''running'' else ''waiting_approval'')"
    using g(1) by (simp_all add: record_decision_def Let_def r)
  ultimately show ?thesis using g by blast
qed

theorem decision_effect_witness:
  "\<exists>out s'. submit_decision (\<lambda>_. None) 11 (ex_decide ''ann'' ''k1'' ''rejected'') (new_approval_service 10 None)
      = (Inr out, s') \<and> do_state out = ''error''"
proof -
  let ?i = "ex_decide ''ann'' ''k1'' ''rejected''"
  obtain out s' where o: "submit_decision (\<lambda>_. None) 11 ?i (new_approval_service 10 None) = (Inr out, s')"
      "\<not> do_replay out"
    using ex_submit [of "''rejected''"] by (force simp: accept_decision_def Let_def)
  from decision_effect [OF this, of ex_step] ex_new_service have "do_state out = ''error''"
    by (auto simp: ex_decide_def step_map_key_def)
  with o show ?thesis by blast
qed

text \<open>Expiry and escalation of a waiting step. A tick before the expiry time leaves it waiting,
  a tick at or after it puts the step into error with a decision by the system, unless someone of
  that name had decided already; it is escalated at most once, and only when four fifths of the
  time to live have passed.\<close>

theorem tick_step_expiry:
  assumes "as_status step = ''waiting_approval''" "as_expires_at step = Some e" "as_requested_at step < e"
  shows "(now < e \<longrightarrow> as_status (fst (tick_step now ttl step)) = ''waiting_approval''
        \<and> as_decisions (fst (tick_step now ttl step)) = as_decisions step
        \<and> (as_escalated (fst (tick_step now ttl step)) \<longleftrightarrow> as_escalated step
             \<or> as_requested_at step + (e - as_requested_at step) * 4 div 5 \<le> now))
    \<and> (e \<le> now \<longrightarrow> as_status (fst (tick_step now ttl step)) = ''error''
        \<and> map_of (as_decisions (fst (tick_step now ttl step))) ''system'' \<noteq> None
        \<and> as_escalated (fst (tick_step now ttl step)) = as_escalated step)
    \<and> (as_escalated step \<longrightarrow> list_all (\<lambda>ev. ev_type ev \<noteq> ''approval_escalated'') (snd (tick_step now ttl step)))"
proof -
  have q: "escalation_offset (e - as_requested_at step) = (e - as_requested_at step) * 4 div 5"
    using assms(3) by (simp add: escalation_offset_def go_quot_def sgn_if)
  show ?thesis
    using assms by (auto simp: tick_step_def Let_def escalate_step_def expire_step_def
        q split: option.splits)
qed

theorem tick_step_expiry_witness:
  "as_status (fst (tick_step (10 + 48 * hour) 0 ex_step)) = ''error''"
proof -
  have "as_status ex_step = ''waiting_approval''" "as_expires_at ex_step = Some (10 + 48 * hour)"
    "as_requested_at ex_step < 10 + 48 * hour"
    by (simp_all add: ex_step_def seeded_example_def)
  from tick_step_expiry [OF this, of "10 + 48 * hour" 0] show ?thesis by simp
qed

text \<open>The approval policy, in full: a decision is allowed exactly when the approver is named,
  is not the owner unless self-approval is allowed, belongs to the tenant of the job if it has one,
  has one of the allowed roles (letter case aside) if there are any, and does not exceed a budget
  limit that is given together with an estimate.\<close>

theorem evaluate_approval_iff:
  "pr_allowed (evaluate_approval pf i) \<longleftrightarrow>
     pi_approver i \<noteq> []
     \<and> (pi_self_approval i \<or> pi_job_owner i = [] \<or> pi_approver i \<noteq> pi_job_owner i)
     \<and> (pi_job_tenant i = [] \<or> pi_approver_tenant i = pi_job_tenant i)
     \<and> (pi_allowed_roles i = [] \<or> (\<exists>r \<in> set (pi_allowed_roles i). to_lower r = to_lower (pi_approver_role i)))
     \<and> (case (parse_float pf (pi_metadata i) ''estimated_cost'', parse_float pf (pi_metadata i) ''approver_limit'') of
          (Some est, Some limit) \<Rightarrow> \<not> float_gt est limit | _ \<Rightarrow> True)"
  by (auto simp: evaluate_approval_def deny_def equal_fold_def list_ex_iff split: option.splits)

theorem evaluate_approval_iff_witness:
  "pr_allowed (evaluate_approval (\<lambda>_. None) (step_policy_input ex_step (ex_decide ''ann'' ''k1'' ''approved'')))"
proof -
  have "to_lower ''team-lead'' = to_lower ''Team-Lead''" by code_simp
  then show ?thesis
    unfolding evaluate_approval_iff
    by (simp add: step_policy_input_def ex_step_def seeded_example_def ex_decide_def parse_float_def)
qed

end
