(* ===== verification/Approval_Handler.thy ===== *)
theory Approval_Handler
  imports Approval Job_Intake
begin

text \<open>
  The HTTP handlers of the approval gate in \<open>src/internal/transport/http/job_handler.go\<close>:
  \<open>SubmitDecision\<close>, \<open>ListJobs\<close> and \<open>GetApprovalContext\<close>, on the service in memory and on the
  database. The casts \<open>$1::uuid\<close> and \<open>$2::bigint\<close> and the SHA-256 digest are parameters.
\<close>

section \<open>Requests\<close>

record auth_claims =
  cl_subject :: string
  cl_role :: string
  cl_tenant_id :: string

record decision_request =
  dq_decision :: string
  dq_justification :: string
  dq_idempotency_key :: string
  dq_run_id :: string

record decision_http =
  dh_job_id :: string
  dh_step_id :: string
  dh_body :: "decision_request option"
  dh_claims :: auth_claims
  dh_header :: "string \<Rightarrow> string"

record approval_env =
  ae_conn :: conn_env
  ae_now :: time
  ae_uuid :: string
  ae_valid_uuid :: "string \<Rightarrow> bool"
  ae_bigint :: "string \<Rightarrow> int option"
  ae_sha256 :: "string \<Rightarrow> string"
  ae_float :: "string \<Rightarrow> float64 option"

datatype decision_response = Dec_error int string | Dec_ok decision_output

definition derive_decision_key :: "(string \<Rightarrow> string) \<Rightarrow> string \<Rightarrow> string \<Rightarrow> string \<Rightarrow> string" where
  "derive_decision_key sha approver stepID runID = sha (approver @ '':'' @ stepID @ '':'' @ runID)"

text \<open>The identity of the caller: the claims of the token, and a header where a claim is empty.\<close>

definition first_nonempty :: "string \<Rightarrow> string \<Rightarrow> string" where
  "first_nonempty a b = (if a = [] then b else a)"

definition caller_approver :: "decision_http \<Rightarrow> string" where
  "caller_approver h = first_nonempty (first_nonempty (cl_subject (dh_claims h)) (dh_header h ''X-Approver''))
     ''anonymous''"

definition caller_role :: "decision_http \<Rightarrow> string" where
  "caller_role h = first_nonempty (cl_role (dh_claims h)) (dh_header h ''X-Approver-Role'')"

definition caller_tenant :: "decision_http \<Rightarrow> string" where
  "caller_tenant h = first_nonempty (cl_tenant_id (dh_claims h)) (dh_header h ''X-Approver-Tenant'')"

definition decision_key :: "approval_env \<Rightarrow> decision_http \<Rightarrow> decision_request \<Rightarrow> string" where
  "decision_key env h q =
     (if dq_idempotency_key q = [] then
        derive_decision_key (ae_sha256 env) (caller_approver h) (dh_step_id h)
          (first_nonempty (dq_run_id q) (dh_header h ''X-Run-ID''))
      else dq_idempotency_key q)"

section \<open>SubmitDecision\<close>

fun approval_error_response :: "approval_error \<Rightarrow> decision_response" where
  "approval_error_response Err_step_not_found = Dec_error 404 ''NOT_FOUND''"
| "approval_error_response Err_not_waiting = Dec_error 409 ''CONFLICT''"
| "approval_error_response Err_decision_conflict = Dec_error 409 ''CONFLICT''"
| "approval_error_response Err_idempotency_conflict = Dec_error 409 ''CONFLICT''"
| "approval_error_response Err_forbidden = Dec_error 403 ''FORBIDDEN''"
| "approval_error_response Err_policy_violation = Dec_error 422 ''POLICY_VIOLATION''"

definition decide_in_memory ::
  "approval_env \<Rightarrow> decision_http \<Rightarrow> decision_request \<Rightarrow> string \<Rightarrow> approval_service
     \<Rightarrow> decision_response \<times> approval_service" where
  "decide_in_memory env h q key s =
     (case submit_decision (ae_float env) (ae_now env)
        \<lparr>di_job_id = dh_job_id h, di_step_id = dh_step_id h, di_decision = dq_decision q,
         di_justification = dq_justification q, di_idempotency_key = key,
         di_approver = caller_approver h, di_approver_role = caller_role h,
         di_approver_tenant = caller_tenant h\<rparr> s of
        (Inl e, s') \<Rightarrow> (approval_error_response e, s')
      | (Inr out, s') \<Rightarrow> (Dec_ok out, s'))"

definition find_step :: "string \<Rightarrow> int \<Rightarrow> db \<Rightarrow> step_row option" where
  "find_step j k d = List.find (\<lambda>s. s_job_id s = j \<and> s_id s = k) (steps d)"

text \<open>\<open>SELECT ... FROM steps s JOIN jobs j ON j.id = s.job_id WHERE s.job_id = $1::uuid AND
  s.id = $2::bigint\<close>.\<close>

definition select_step_stmt ::
  "approval_env \<Rightarrow> string \<Rightarrow> string \<Rightarrow> time \<Rightarrow> db \<Rightarrow> string + ((step_row \<times> job_row) option \<times> db)" where
  "select_step_stmt env j k t d =
     (if \<not> ae_valid_uuid env j then Inl ''invalid input syntax for type uuid''
      else case ae_bigint env k of
        None \<Rightarrow> Inl ''invalid input syntax for type bigint''
      | Some n \<Rightarrow>
          Inr (case (find_step j n d, find_job j d) of (Some s, Some jb) \<Rightarrow> Some (s, jb) | _ \<Rightarrow> None, d))"

definition select_step_pk_stmt ::
  "approval_env \<Rightarrow> string \<Rightarrow> string \<Rightarrow> time \<Rightarrow> db \<Rightarrow> string + (int option \<times> db)" where
  "select_step_pk_stmt env j k t d =
     (if \<not> ae_valid_uuid env j then Inl ''invalid input syntax for type uuid''
      else case ae_bigint env k of
        None \<Rightarrow> Inl ''invalid input syntax for type bigint''
      | Some n \<Rightarrow> Inr (map_option s_id (find_step j n d), d))"

text \<open>\<open>INSERT INTO approval_decisions ... ON CONFLICT (idempotency_key) DO UPDATE SET job_id =
  EXCLUDED.job_id\<close>; the other unique constraint, one decision per approver and step, is an error.\<close>

definition insert_decision_stmt :: "decision_row \<Rightarrow> time \<Rightarrow> db \<Rightarrow> string + (string \<times> db)" where
  "insert_decision_stmt row t d =
     (case List.find (\<lambda>x. d_idempotency_key x = d_idempotency_key row) (approval_decisions d) of
        Some x \<Rightarrow> Inr (d_id x, d\<lparr>approval_decisions := update_rows
           (\<lambda>y. d_idempotency_key y = d_idempotency_key row) (\<lambda>y. y\<lparr>d_job_id := d_job_id row\<rparr>)
           (approval_decisions d)\<rparr>)
      | None \<Rightarrow>
          if list_ex (\<lambda>x. d_step_id x = d_step_id row \<and> d_approver x = d_approver row) (approval_decisions d)
          then Inl ''duplicate key value violates unique constraint uq_approval_per_approver''
          else Inr (d_id row, d\<lparr>approval_decisions := approval_decisions d @ [row\<lparr>d_created_at := t\<rparr>]\<rparr>))"

definition handler_policy_input :: "decision_http \<Rightarrow> job_row \<Rightarrow> policy_input" where
  "handler_policy_input h jb = \<lparr>pi_approver = caller_approver h, pi_approver_role = caller_role h,
     pi_approver_tenant = caller_tenant h,
     pi_job_owner = (case j_created_by jb of None \<Rightarrow> [] | Some c \<Rightarrow> c),
     pi_job_tenant = j_tenant_id jb, pi_path_key = j_path_key jb, pi_step_key = dh_step_id h,
     pi_blast_radius = [], pi_metadata = None,
     pi_allowed_roles = [''release-manager'', ''team-lead''], pi_self_approval = False,
     pi_min_approvers = 1\<rparr>"

definition decision_of_text :: "string \<Rightarrow> approval_decision" where
  "decision_of_text s = (if s = ''approved'' then Approved else if s = ''rejected'' then Rejected else Expired)"

definition store_decision ::
  "approval_env \<Rightarrow> decision_http \<Rightarrow> decision_request \<Rightarrow> string \<Rightarrow> string \<Rightarrow> db \<Rightarrow> decision_response \<times> db" where
  "store_decision env h q key runID d =
     (case exec_stmt (ae_conn env) 2 (select_step_pk_stmt env (dh_job_id h) (dh_step_id h)) d of
        (Inr (Some pk), d1) \<Rightarrow>
          (case exec_stmt (ae_conn env) 3 (insert_decision_stmt \<lparr>d_id = ae_uuid env, d_job_id = dh_job_id h,
               d_step_id = pk, d_run_id = runID, d_decision = decision_of_text (dq_decision q),
               d_approver = caller_approver h, d_justification = Some (dq_justification q),
               d_idempotency_key = key, d_created_at = 0\<rparr>) d1 of
             (Inl e, d2) \<Rightarrow> (Dec_error 500 ''INTERNAL_ERROR'', d2)
           | (Inr _, d2) \<Rightarrow> (Dec_ok \<lparr>do_job_id = dh_job_id h, do_step_id = dh_step_id h,
               do_decision = dq_decision q, do_state = ''running'', do_idempotency_key = key,
               do_replay = False, do_remaining = 0, do_recorded_at = ae_now env\<rparr>, d2))
      | (_, d1) \<Rightarrow> (Dec_error 404 ''NOT_FOUND'', d1))"

definition decide_in_db ::
  "approval_env \<Rightarrow> decision_http \<Rightarrow> decision_request \<Rightarrow> string \<Rightarrow> db \<Rightarrow> decision_response \<times> db" where
  "decide_in_db env h q key d =
     (case acquire (ae_conn env) of
        Some e \<Rightarrow> (Dec_error 500 ''INTERNAL_ERROR'', d)
      | None \<Rightarrow>
     (case exec_stmt (ae_conn env) 1 (select_step_stmt env (dh_job_id h) (dh_step_id h)) d of
        (Inl e, d1) \<Rightarrow> (Dec_error 500 ''INTERNAL_ERROR'', d1)
      | (Inr None, d1) \<Rightarrow> (Dec_error 404 ''NOT_FOUND'', d1)
      | (Inr (Some (s, jb)), d1) \<Rightarrow>
          if s_status s \<noteq> Waiting_approval then (Dec_error 409 ''CONFLICT'', d1)
          else let res = evaluate_approval (ae_float env) (handler_policy_input h jb) in
            if \<not> pr_allowed res then
              (if ''self_approval_blocked'' \<in> set (pr_violations res) \<or> ''budget_exceeded'' \<in> set (pr_violations res)
               then (Dec_error 422 ''POLICY_VIOLATION'', d1) else (Dec_error 403 ''FORBIDDEN'', d1))
            else let key' = (if key = [] then derive_decision_key (ae_sha256 env) (caller_approver h)
                     (dh_step_id h) (s_run_id s) else key)
                 in store_decision env h q key' (s_run_id s) d1))"

definition normalise_decision :: "decision_request \<Rightarrow> decision_request" where
  "normalise_decision q = q\<lparr>dq_decision := to_lower (trim_space (dq_decision q))\<rparr>"

definition submit_decision_http ::
  "approval_env \<Rightarrow> bool \<Rightarrow> decision_http \<Rightarrow> approval_service \<times> db
     \<Rightarrow> decision_response \<times> approval_service \<times> db" where
  "submit_decision_http env pool h st =
     (case st of (sv, d) \<Rightarrow>
      if dh_job_id h = [] \<or> dh_step_id h = [] then (Dec_error 404 ''NOT_FOUND'', sv, d)
      else case dh_body h of
        None \<Rightarrow> (Dec_error 400 ''INVALID_REQUEST'', sv, d)
      | Some q0 \<Rightarrow>
          let q = normalise_decision q0 in
          if dq_decision q \<noteq> ''approved'' \<and> dq_decision q \<noteq> ''rejected''
          then (Dec_error 400 ''INVALID_DECISION'', sv, d)
          else let key = decision_key env h q in
            if \<not> pool then (case decide_in_memory env h q key sv of (r, sv') \<Rightarrow> (r, sv', d))
            else (case decide_in_db env h q key d of (r, d') \<Rightarrow> (r, sv, d')))"

section \<open>ListJobs and GetApprovalContext on the database\<close>

definition pending_rows :: "string \<Rightarrow> db \<Rightarrow> (string \<times> string \<times> string \<times> int) list" where
  "pending_rows tenant d = sort_key (\<lambda>(i, _, _, k). (i, k))
     (concat (map (\<lambda>j. map (\<lambda>s. (j_id j, j_tenant_id j, j_path_key j, s_id s))
        (filter (\<lambda>s. s_job_id s = j_id j \<and> s_status s = Waiting_approval) (steps d)))
      (filter (\<lambda>j. tenant = [] \<or> j_tenant_id j = tenant) (jobs d))))"

datatype list_response =
    List_error int string
  | List_service "pending_job list"
  | List_rows "(string \<times> string \<times> string \<times> int) list"
  | List_empty

definition list_jobs ::
  "conn_env \<Rightarrow> bool \<Rightarrow> bool \<Rightarrow> string \<Rightarrow> string \<Rightarrow> string \<Rightarrow> approval_service \<Rightarrow> db \<Rightarrow> list_response" where
  "list_jobs env pool scan_fails step_status tenant role sv d =
     (if step_status = ''waiting_approval'' then
        if \<not> pool then List_service (list_pending_jobs tenant role sv)
        else case acquire env of
          Some e \<Rightarrow> List_error 500 ''INTERNAL_ERROR''
        | None \<Rightarrow>
            (case fst (exec_stmt env 1 (\<lambda>t d. Inr (pending_rows tenant d, d)) d) of
               Inl e \<Rightarrow> List_error 500 ''INTERNAL_ERROR''
             | Inr rows \<Rightarrow> if scan_fails \<and> rows \<noteq> [] then List_error 500 ''INTERNAL_ERROR'' else List_rows rows)
      else List_empty)"

datatype context_response =
    Ctx_error int string
  | Ctx_service approval_context_response
  | Ctx_row string string step_status "go_map option" "time option"

text \<open>The query error is compared with \<open>ErrApprovalStepNotFound\<close>, which the driver never
  returns, so a missing step is an internal error.\<close>

definition get_approval_context_http ::
  "approval_env \<Rightarrow> bool \<Rightarrow> string \<Rightarrow> string \<Rightarrow> approval_service \<Rightarrow> db \<Rightarrow> context_response" where
  "get_approval_context_http env pool j k sv d =
     (if \<not> pool then
        (case get_approval_context j k sv of
           Inl Err_step_not_found \<Rightarrow> Ctx_error 404 ''NOT_FOUND''
         | Inl _ \<Rightarrow> Ctx_error 500 ''INTERNAL_ERROR''
         | Inr c \<Rightarrow> Ctx_service c)
      else case acquire (ae_conn env) of
        Some e \<Rightarrow> Ctx_error 500 ''INTERNAL_ERROR''
      | None \<Rightarrow>
          (case fst (exec_stmt (ae_conn env) 1 (select_step_stmt env j k) d) of
             Inl e \<Rightarrow> Ctx_error 500 ''INTERNAL_ERROR''
           | Inr None \<Rightarrow> Ctx_error 500 ''INTERNAL_ERROR''
           | Inr (Some (s, jb)) \<Rightarrow> Ctx_row j k (s_status s) (s_approval_request s) (s_approval_expires_at s)))"

section \<open>Properties\<close>

lemma caller_approver_nonempty [simp]: "caller_approver h \<noteq> []"
  by (simp add: caller_approver_def first_nonempty_def)

text \<open>The row the handler inserts.\<close>

definition decision_row_of ::
  "approval_env \<Rightarrow> decision_http \<Rightarrow> decision_request \<Rightarrow> string \<Rightarrow> step_row \<Rightarrow> time \<Rightarrow> decision_row" where
  "decision_row_of env h q key s t = \<lparr>d_id = ae_uuid env, d_job_id = dh_job_id h, d_step_id = s_id s,
     d_run_id = s_run_id s, d_decision = decision_of_text (dq_decision q),
     d_approver = caller_approver h, d_justification = Some (dq_justification q),
     d_idempotency_key = key, d_created_at = t\<rparr>"

definition decision_ok_response :: "approval_env \<Rightarrow> decision_http \<Rightarrow> decision_request \<Rightarrow> string \<Rightarrow> decision_response" where
  "decision_ok_response env h q key = Dec_ok \<lparr>do_job_id = dh_job_id h, do_step_id = dh_step_id h,
     do_decision = dq_decision q, do_state = ''running'', do_idempotency_key = key,
     do_replay = False, do_remaining = 0, do_recorded_at = ae_now env\<rparr>"

lemma decide_in_db_quiet:
  assumes "ae_conn env = quiet_env t b" "ae_valid_uuid env (dh_job_id h)"
    "ae_bigint env (dh_step_id h) = Some n" "find_step (dh_job_id h) n d = Some s"
    "find_job (dh_job_id h) d = Some jb" "s_status s = Waiting_approval"
    "pr_allowed (evaluate_approval (ae_float env) (handler_policy_input h jb))" "key \<noteq> []"
  shows "decide_in_db env h q key d =
    (case insert_decision_stmt (decision_row_of env h q key s 0) t d of
       Inl e \<Rightarrow> (Dec_error 500 ''INTERNAL_ERROR'', d)
     | Inr (_, d2) \<Rightarrow> (decision_ok_response env h q key, d2))"
  using assms
  by (auto simp: decide_in_db_def select_step_stmt_def store_decision_def select_step_pk_stmt_def
      decision_row_of_def decision_ok_response_def Let_def split: sum.splits)

text \<open>Recording a decision. On a waiting step, by an allowed caller who has not decided yet and
  under a new key, the handler stores exactly one row, with the run of the step, the decision and
  the caller's name, and answers with success; the step itself is left as it is.\<close>

theorem decision_stored:
  assumes "ae_conn env = quiet_env t b" "ae_valid_uuid env (dh_job_id h)"
    "ae_bigint env (dh_step_id h) = Some n" "find_step (dh_job_id h) n d = Some s"
    "find_job (dh_job_id h) d = Some jb" "s_status s = Waiting_approval"
    "pr_allowed (evaluate_approval (ae_float env) (handler_policy_input h jb))" "key \<noteq> []"
    "\<forall>x \<in> set (approval_decisions d). d_idempotency_key x \<noteq> key
       \<and> (d_step_id x = n \<longrightarrow> d_approver x \<noteq> caller_approver h)"
  shows "decide_in_db env h q key d = (decision_ok_response env h q key,
    d\<lparr>approval_decisions := approval_decisions d @ [decision_row_of env h q key s t]\<rparr>)"
proof -
  have "s_id s = n" using assms(4) by (auto simp: find_step_def dest: find_Some_in)
  then have "insert_decision_stmt (decision_row_of env h q key s 0) t d =
      Inr (ae_uuid env, d\<lparr>approval_decisions := approval_decisions d @ [decision_row_of env h q key s t]\<rparr>)"
    using assms(9) by (auto simp: insert_decision_stmt_def decision_row_of_def find_None_iff list_ex_iff
        split: option.splits dest: find_Some_in)
  then show ?thesis using decide_in_db_quiet [OF assms(1-8)] by simp
qed

definition ex_http :: "string \<Rightarrow> decision_http" where
  "ex_http who = \<lparr>dh_job_id = ''j1'', dh_step_id = ''1'', dh_body = None,
     dh_claims = \<lparr>cl_subject = who, cl_role = ''team-lead'', cl_tenant_id = ''acme''\<rparr>, dh_header = \<lambda>_. []\<rparr>"

definition ex_aenv :: approval_env where
  "ex_aenv = \<lparr>ae_conn = quiet_env 30 True, ae_now = 30, ae_uuid = ''u1'', ae_valid_uuid = \<lambda>_. True,
     ae_bigint = \<lambda>k. if k = ''1'' then Some 1 else None, ae_sha256 = \<lambda>s. s, ae_float = \<lambda>_. None\<rparr>"

definition ex_parked :: db where
  "ex_parked = park_stmt (ex_adapter ''r1'') ex_request 20 ex_db"

definition ex_row :: step_row where
  "ex_row = hd (steps ex_parked)"

definition ex_dq :: "string \<Rightarrow> decision_request" where
  "ex_dq what = \<lparr>dq_decision = what, dq_justification = [], dq_idempotency_key = ''dk'', dq_run_id = []\<rparr>"

lemma ex_parked_facts:
  "find_step ''j1'' 1 ex_parked = Some ex_row" "find_job ''j1'' ex_parked = Some ex_job"
  "s_status ex_row = Waiting_approval" "approval_decisions ex_parked = []"
  "s_run_id ex_row = ''r1''" "s_id ex_row = 1"
  by (simp_all add: ex_parked_def ex_row_def park_stmt_def upsert_step_def ex_db_def empty_db_def
      ex_adapter_simps blank_step_def find_step_def find_job_def ex_job_def Let_def)

lemma ex_handler_allowed:
  "pr_allowed (evaluate_approval f (handler_policy_input (ex_http who) ex_job))"
  by (simp add: evaluate_approval_def handler_policy_input_def caller_approver_def caller_tenant_def
      caller_role_def first_nonempty_def ex_http_def ex_job_def equal_fold_def parse_float_def)

theorem decision_stored_witness:
  "decide_in_db ex_aenv (ex_http ''ann'') (ex_dq ''approved'') ''dk'' ex_parked
   = (decision_ok_response ex_aenv (ex_http ''ann'') (ex_dq ''approved'') ''dk'',
      ex_parked\<lparr>approval_decisions := approval_decisions ex_parked
        @ [decision_row_of ex_aenv (ex_http ''ann'') (ex_dq ''approved'') ''dk'' ex_row 30]\<rparr>)"
  by (rule decision_stored [where n = 1 and jb = ex_job and b = True])
    (use ex_parked_facts ex_handler_allowed in \<open>simp_all add: ex_aenv_def ex_http_def\<close>)

text \<open>A key that was already used is not checked against the decision it was used for: the
  handler answers that the decision of the request was taken, while every stored decision, its
  approver and its step stay what they were.\<close>

theorem decision_key_reuse:
  assumes "ae_conn env = quiet_env t b" "ae_valid_uuid env (dh_job_id h)"
    "ae_bigint env (dh_step_id h) = Some n" "find_step (dh_job_id h) n d = Some s"
    "find_job (dh_job_id h) d = Some jb" "s_status s = Waiting_approval"
    "pr_allowed (evaluate_approval (ae_float env) (handler_policy_input h jb))" "key \<noteq> []"
    "x \<in> set (approval_decisions d)" "d_idempotency_key x = key"
  shows "\<exists>d'. decide_in_db env h q key d = (decision_ok_response env h q key, d')
    \<and> map (\<lambda>y. (d_step_id y, d_run_id y, d_decision y, d_approver y)) (approval_decisions d')
      = map (\<lambda>y. (d_step_id y, d_run_id y, d_decision y, d_approver y)) (approval_decisions d)"
proof -
  have "List.find (\<lambda>x. d_idempotency_key x = key) (approval_decisions d) \<noteq> None"
    using assms(9,10) by (auto simp: find_None_iff)
  then obtain y where "List.find (\<lambda>x. d_idempotency_key x = key) (approval_decisions d) = Some y"
    by blast
  then have "insert_decision_stmt (decision_row_of env h q key s 0) t d =
      Inr (d_id y, d\<lparr>approval_decisions := update_rows (\<lambda>y. d_idempotency_key y = key)
         (\<lambda>y. y\<lparr>d_job_id := dh_job_id h\<rparr>) (approval_decisions d)\<rparr>)"
    by (simp add: insert_decision_stmt_def decision_row_of_def)
  then have "decide_in_db env h q key d = (decision_ok_response env h q key,
      d\<lparr>approval_decisions := update_rows (\<lambda>y. d_idempotency_key y = key)
         (\<lambda>y. y\<lparr>d_job_id := dh_job_id h\<rparr>) (approval_decisions d)\<rparr>)"
    using decide_in_db_quiet [OF assms(1-8), of q] by simp
  then show ?thesis by simp
qed

theorem decision_key_reuse_witness:
  "let d = ex_parked\<lparr>approval_decisions := [decision_row_of ex_aenv (ex_http ''ann'') (ex_dq ''approved'') ''dk'' ex_row 30]\<rparr>
   in \<exists>d'. decide_in_db ex_aenv (ex_http ''bob'') (ex_dq ''rejected'') ''dk'' d
        = (decision_ok_response ex_aenv (ex_http ''bob'') (ex_dq ''rejected'') ''dk'', d')
      \<and> map d_decision (approval_decisions d') = [Approved]"
proof -
  let ?x = "decision_row_of ex_aenv (ex_http ''ann'') (ex_dq ''approved'') ''dk'' ex_row 30"
  let ?d = "ex_parked\<lparr>approval_decisions := [?x]\<rparr>"
  have "\<exists>d'. decide_in_db ex_aenv (ex_http ''bob'') (ex_dq ''rejected'') ''dk'' ?d
      = (decision_ok_response ex_aenv (ex_http ''bob'') (ex_dq ''rejected'') ''dk'', d')
    \<and> map (\<lambda>y. (d_step_id y, d_run_id y, d_decision y, d_approver y)) (approval_decisions d')
      = map (\<lambda>y. (d_step_id y, d_run_id y, d_decision y, d_approver y)) (approval_decisions ?d)"
    by (rule decision_key_reuse [where n = 1 and jb = ex_job and s = ex_row and x = ?x and b = True and t = 30])
      (use ex_parked_facts ex_handler_allowed in
        \<open>simp_all add: ex_aenv_def ex_http_def decision_row_of_def find_step_def find_job_def\<close>)
  then obtain d' where d': "decide_in_db ex_aenv (ex_http ''bob'') (ex_dq ''rejected'') ''dk'' ?d
      = (decision_ok_response ex_aenv (ex_http ''bob'') (ex_dq ''rejected'') ''dk'', d')"
    "map (\<lambda>y. (d_step_id y, d_run_id y, d_decision y, d_approver y)) (approval_decisions d')
      = [(d_step_id ?x, d_run_id ?x, d_decision ?x, d_approver ?x)]" by (elim exE conjE) simp
  then have "map d_decision (approval_decisions d') = [Approved]"
    by (auto simp: decision_row_of_def ex_dq_def decision_of_text_def map_eq_Cons_conv)
  with d'(1) show ?thesis unfolding Let_def by (intro exI conjI)
qed

text \<open>For a job that was submitted through the API the handler's policy asks only for the
  tenant and the role of the caller: the owner column is never filled in, so the rule against
  approving one's own job excludes nobody.\<close>

theorem self_approval_not_excluded:
  "pr_allowed (evaluate_approval pf (handler_policy_input h (new_job_row q e u))) \<longleftrightarrow>
     (q_tenant_id q = [] \<or> caller_tenant h = q_tenant_id q)
     \<and> to_lower (caller_role h) \<in> {''release-manager'', ''team-lead''}"
proof -
  have "to_lower ''release-manager'' = ''release-manager''" "to_lower ''team-lead'' = ''team-lead''"
    by code_simp+
  then show ?thesis
    by (auto simp: evaluate_approval_def handler_policy_input_def new_job_row_def parse_float_def
        equal_fold_def deny_def)
qed

end
