(* ===== verification/Middleware.thy ===== *)
theory Middleware
  imports Complex_Main RE_Prelude
begin

text \<open>
  The HTTP middleware of \<open>src/internal/transport/http/middleware.go\<close>: the token buckets of the
  rate limiter, the cache of signing keys and the bearer-token check. Numbers of tokens are
  rationals, where Go computes in double precision; times are nanoseconds. The JWT library and
  the HTTP client are parameters.
\<close>

section \<open>Token buckets\<close>

record token_bucket =
  tb_tokens :: rat
  tb_capacity :: rat
  tb_refill :: rat
  tb_last_refill :: time

definition seconds_between :: "time \<Rightarrow> time \<Rightarrow> rat" where
  "seconds_between a b = of_int (b - a) / of_int second"

definition refilled :: "time \<Rightarrow> token_bucket \<Rightarrow> rat" where
  "refilled now b =
     (let tokens = tb_tokens b + seconds_between (tb_last_refill b) now * tb_refill b
      in if tokens > tb_capacity b then tb_capacity b else tokens)"

definition consume :: "time \<Rightarrow> token_bucket \<Rightarrow> bool \<times> token_bucket" where
  "consume now b =
     (let b1 = b\<lparr>tb_tokens := refilled now b, tb_last_refill := now\<rparr>
      in if tb_tokens b1 \<ge> 1 then (True, b1\<lparr>tb_tokens := tb_tokens b1 - 1\<rparr>) else (False, b1))"

definition remaining_tokens :: "time \<Rightarrow> token_bucket \<Rightarrow> rat" where
  "remaining_tokens now b = refilled now b"

text \<open>\<open>int(x)\<close> truncates, and the quotient is positive.\<close>

definition retry_after :: "token_bucket \<Rightarrow> int" where
  "retry_after b =
     (let needed = 1 - tb_tokens b in if needed \<le> 0 then 0 else \<lfloor>needed / tb_refill b\<rfloor> + 1)"

record rate_limiter_store =
  rl_buckets :: "(string \<times> token_bucket) list"
  rl_capacity :: rat
  rl_refill :: rat

definition new_rate_limiter_store :: "rat \<Rightarrow> rat \<Rightarrow> rate_limiter_store" where
  "new_rate_limiter_store cap refill = \<lparr>rl_buckets = [], rl_capacity = cap, rl_refill = refill\<rparr>"

definition get_bucket :: "time \<Rightarrow> string \<Rightarrow> rate_limiter_store \<Rightarrow> token_bucket \<times> rate_limiter_store" where
  "get_bucket now tenant s =
     (case map_of (rl_buckets s) tenant of
        Some b \<Rightarrow> (b, s)
      | None \<Rightarrow>
          let b = \<lparr>tb_tokens = rl_capacity s, tb_capacity = rl_capacity s, tb_refill = rl_refill s,
                    tb_last_refill = now\<rparr>
          in (b, s\<lparr>rl_buckets := alist_put tenant b (rl_buckets s)\<rparr>))"

text \<open>The tenant is what the token check stored in the request context, if anything.\<close>

definition limiter_tenant :: "go_any \<Rightarrow> string" where
  "limiter_tenant v = (case v of GNil \<Rightarrow> ''default'' | GStr s \<Rightarrow> s | _ \<Rightarrow> ''default'')"

datatype limit_outcome = Limit_next | Limit_rejected int

definition rate_limit ::
  "time \<Rightarrow> time \<Rightarrow> go_any \<Rightarrow> rate_limiter_store \<Rightarrow> limit_outcome \<times> rate_limiter_store" where
  "rate_limit t0 now tenantID s =
     (let tenant = limiter_tenant tenantID;
          (b, s1) = get_bucket t0 tenant s;
          (ok, b1) = consume now b;
          s2 = s1\<lparr>rl_buckets := alist_put tenant b1 (rl_buckets s1)\<rparr>
      in if \<not> ok then (Limit_rejected (retry_after b1), s2) else (Limit_next, s2))"

section \<open>Signing keys\<close>

record jwk =
  jwk_kid :: string
  jwk_kty :: string
  jwk_n :: "nat option"
  jwk_e :: "nat option"

type_synonym public_key = "nat \<times> nat"

record jwks_cache =
  jc_keys :: "(string \<times> public_key) list"
  jc_issuer :: string
  jc_refresh_after :: time

definition new_jwks_cache :: "string \<Rightarrow> time \<Rightarrow> jwks_cache" where
  "new_jwks_cache issuer zero = \<lparr>jc_keys = [], jc_issuer = issuer, jc_refresh_after = zero\<rparr>"

text \<open>What a GET returns: a transport error, or a status with the decoded body, where \<open>None\<close> is a
  decoding error. \<open>ok_url\<close> tells whether \<open>http.NewRequest\<close> and \<open>url.Parse\<close> accept a URL.\<close>

datatype 'a http_result = Http_failed string | Http_response int "'a option"

record jwks_net =
  jn_ok_url :: "string \<Rightarrow> bool"
  jn_discovery :: "string \<Rightarrow> string http_result"
  jn_jwks :: "string \<Rightarrow> jwk list http_result"

definition trim_suffix :: "string \<Rightarrow> string \<Rightarrow> string" where
  "trim_suffix s p = rev (trim_prefix (rev s) (rev p))"

definition discover_jwks_uri :: "jwks_net \<Rightarrow> jwks_cache \<Rightarrow> string + string" where
  "discover_jwks_uri net c =
     (let configURL = trim_suffix (jc_issuer c) ''/'' @ ''/.well-known/openid-configuration'' in
      if \<not> jn_ok_url net configURL then Inl ''failed to create OIDC discovery request''
      else case jn_discovery net configURL of
        Http_failed e \<Rightarrow> Inl (''failed to fetch OIDC discovery document: '' @ e)
      | Http_response st body \<Rightarrow>
          if st \<noteq> 200 then Inl (''OIDC discovery endpoint returned status '' @ int_str st)
          else case body of
            None \<Rightarrow> Inl ''failed to decode OIDC discovery document''
          | Some uri \<Rightarrow>
              if uri = [] then Inl ''OIDC discovery document missing jwks_uri''
              else if \<not> jn_ok_url net uri then Inl ''invalid jwks_uri in discovery document''
              else Inr uri)"

definition parse_jwks :: "jwk list \<Rightarrow> (string \<times> public_key) list" where
  "parse_jwks ks = foldl (\<lambda>m k. if jwk_kty k \<noteq> ''RSA'' then m
     else case jwk_n k of
       None \<Rightarrow> m
     | Some n \<Rightarrow> (case jwk_e k of None \<Rightarrow> m | Some e \<Rightarrow> alist_put (jwk_kid k) (n, e) m)) [] ks"

definition jwks_refresh :: "jwks_net \<Rightarrow> time \<Rightarrow> jwks_cache \<Rightarrow> string option \<times> jwks_cache" where
  "jwks_refresh net now c =
     (case discover_jwks_uri net c of
        Inl e \<Rightarrow> (Some e, c)
      | Inr uri \<Rightarrow>
          (case jn_jwks net uri of
             Http_failed e \<Rightarrow> (Some (''failed to fetch JWKS: '' @ e), c)
           | Http_response st body \<Rightarrow>
               if st \<noteq> 200 then (Some (''JWKS endpoint returned status '' @ int_str st), c)
               else case body of
                 None \<Rightarrow> (Some ''failed to decode JWKS'', c)
               | Some ks \<Rightarrow>
                   (None, c\<lparr>jc_keys := fold (\<lambda>(k, v) m. alist_put k v m) (parse_jwks ks) (jc_keys c),
                      jc_refresh_after := now + 5 * minute\<rparr>)))"

definition get_key ::
  "jwks_net \<Rightarrow> time \<Rightarrow> time \<Rightarrow> string \<Rightarrow> jwks_cache \<Rightarrow> (string + public_key) \<times> jwks_cache" where
  "get_key net now now' kid c =
     (let cached = map_of (jc_keys c) kid;
          needsRefresh = (jc_refresh_after c < now)
      in if cached \<noteq> None \<and> \<not> needsRefresh then (Inr (the cached), c)
         else case jwks_refresh net now' c of
           (Some e, c1) \<Rightarrow>
             (case cached of
                Some k \<Rightarrow> (Inr k, c1)
              | None \<Rightarrow> (Inl (''failed to fetch JWKS: '' @ e), c1))
         | (None, c1) \<Rightarrow>
             (case map_of (jc_keys c1) kid of
                None \<Rightarrow> (Inl (''key not found: '' @ kid), c1)
              | Some k \<Rightarrow> (Inr k, c1)))"

section \<open>Claims\<close>

definition claim_as_string :: "go_map \<Rightarrow> string \<Rightarrow> string" where
  "claim_as_string m k = string_or_empty (go_get m k)"

definition claim_as_string_slice :: "go_map \<Rightarrow> string \<Rightarrow> string list" where
  "claim_as_string_slice m k =
     (case go_get m k of
        GList xs \<Rightarrow> filter (\<lambda>s. s \<noteq> []) (map string_or_empty (filter (\<lambda>x. as_string x \<noteq> None) xs))
      | GStrList xs \<Rightarrow> xs
      | _ \<Rightarrow> [])"

text \<open>\<open>int64(v)\<close> of a float truncates towards zero; a value outside the 64-bit range, which Go
  leaves to the machine, does not occur in the model.\<close>

definition claim_as_int64 :: "go_map \<Rightarrow> string \<Rightarrow> int" where
  "claim_as_int64 m k = (case go_get m k of GFloat a b \<Rightarrow> go_quot a b | GInt i \<Rightarrow> i | _ \<Rightarrow> 0)"

definition mask_token :: "string \<Rightarrow> string" where
  "mask_token t = (if length t \<le> 12 then ''[REDACTED]'' else take 8 t @ ''...'' @ drop (length t - 4) t)"

record claims =
  cm_subject :: string
  cm_tenant_id :: string
  cm_role :: string
  cm_brand_ids :: "string list"
  cm_group_ids :: "string list"
  cm_issuer :: string
  cm_audience :: string
  cm_expires_at :: int
  cm_issued_at :: int

definition claims_of :: "go_map \<Rightarrow> claims" where
  "claims_of m = \<lparr>cm_subject = claim_as_string m ''sub'', cm_tenant_id = claim_as_string m ''tenant_id'',
     cm_role = claim_as_string m ''role'', cm_brand_ids = claim_as_string_slice m ''brand_ids'',
     cm_group_ids = claim_as_string_slice m ''groups'', cm_issuer = claim_as_string m ''iss'',
     cm_audience = claim_as_string m ''aud'', cm_expires_at = claim_as_int64 m ''exp'',
     cm_issued_at = claim_as_int64 m ''iat''\<rparr>"

section \<open>The bearer-token check\<close>

text \<open>
  The JWT library: \<open>jl_header\<close> is \<open>ParseUnverified\<close> (the header, or an error), \<open>jl_verify key
  issuer audience t\<close> is \<open>ParseWithClaims\<close> with a key function that refuses every method but RSA:
  an error, or the verified claims and the flag \<open>Valid\<close>.
\<close>

record jwt_lib =
  jl_header :: "string \<Rightarrow> go_map option"
  jl_verify :: "public_key \<Rightarrow> string \<Rightarrow> string \<Rightarrow> string \<Rightarrow> string + (go_map \<times> bool)"

datatype auth_outcome = Auth_rejected string | Auth_next claims "string option"

fun split_first :: "string \<Rightarrow> (string \<times> string) option" where
  "split_first [] = None"
| "split_first (c # s) = (if c = CHR '' '' then Some ([], s)
     else case split_first s of None \<Rightarrow> None | Some (a, b) \<Rightarrow> Some (c # a, b))"

definition bearer_token :: "string \<Rightarrow> string option" where
  "bearer_token hdr =
     (if hdr = [] then None
      else case split_first hdr of
        None \<Rightarrow> None
      | Some (scheme, t) \<Rightarrow> if equal_fold scheme ''Bearer'' then Some t else None)"

definition auth_process ::
  "jwt_lib \<Rightarrow> jwks_net \<Rightarrow> string \<Rightarrow> string \<Rightarrow> time \<Rightarrow> time \<Rightarrow> string \<Rightarrow> jwks_cache
     \<Rightarrow> auth_outcome \<times> jwks_cache" where
  "auth_process lib net issuer audience now now' hdr c =
     (case bearer_token hdr of
        None \<Rightarrow> (Auth_rejected ''AUTH_MISSING'', c)
      | Some t \<Rightarrow>
     (case jl_header lib t of
        None \<Rightarrow> (Auth_rejected ''AUTH_INVALID'', c)
      | Some h \<Rightarrow>
     (case as_string (go_get h ''kid'') of
        None \<Rightarrow> (Auth_rejected ''AUTH_INVALID'', c)
      | Some kid \<Rightarrow>
     (case get_key net now now' kid c of
        (Inl e, c1) \<Rightarrow> (Auth_rejected ''AUTH_INVALID'', c1)
      | (Inr key, c1) \<Rightarrow>
     (case jl_verify lib key issuer audience t of
        Inl e \<Rightarrow> (Auth_rejected ''AUTH_INVALID'', c1)
      | Inr (m, valid) \<Rightarrow>
          if \<not> valid then (Auth_rejected ''AUTH_INVALID'', c1)
          else let cl = claims_of m in
            (Auth_next cl (if cm_tenant_id cl \<noteq> [] then Some (cm_tenant_id cl) else None), c1))))))"

section \<open>Lemmas on buckets\<close>

definition bucket_ok :: "token_bucket \<Rightarrow> bool" where
  "bucket_ok b \<longleftrightarrow> 0 \<le> tb_tokens b \<and> tb_tokens b \<le> tb_capacity b \<and> 0 \<le> tb_refill b"

fun consume_all :: "time list \<Rightarrow> token_bucket \<Rightarrow> nat \<times> token_bucket" where
  "consume_all [] b = (0, b)"
| "consume_all (t # ts) b =
     (let (ok, b1) = consume t b; (n, b2) = consume_all ts b1 in (if ok then n + 1 else n, b2))"

lemma seconds_nonneg: "a \<le> b \<Longrightarrow> 0 \<le> seconds_between a b"
  by (simp add: seconds_between_def)

lemma seconds_add: "seconds_between a b + seconds_between b c = seconds_between a c"
  by (simp add: seconds_between_def add_divide_distrib [symmetric])

lemma refilled_bounds:
  assumes "bucket_ok b" "tb_last_refill b \<le> now"
  shows "0 \<le> refilled now b" "refilled now b \<le> tb_capacity b"
    "refilled now b \<le> tb_tokens b + seconds_between (tb_last_refill b) now * tb_refill b"
  using assms seconds_nonneg [OF assms(2)]
  by (auto simp: refilled_def bucket_ok_def Let_def not_less intro: add_nonneg_nonneg)

lemma consume_ok:
  assumes "bucket_ok b" "tb_last_refill b \<le> now" "consume now b = (ok, b')"
  shows "bucket_ok b'" "tb_last_refill b' = now" "tb_refill b' = tb_refill b"
    "tb_capacity b' = tb_capacity b"
    "tb_tokens b' + (if ok then 1 else 0)
       \<le> tb_tokens b + seconds_between (tb_last_refill b) now * tb_refill b"
proof -
  note r = refilled_bounds [OF assms(1,2)]
  have b': "b' = b\<lparr>tb_tokens := (if ok then refilled now b - 1 else refilled now b), tb_last_refill := now\<rparr>"
    "ok \<Longrightarrow> 1 \<le> refilled now b"
    using assms(3) by (auto simp: consume_def Let_def split: if_splits)
  show "bucket_ok b'" using b' r(1,2) assms(1) by (simp add: bucket_ok_def)
  show "tb_last_refill b' = now" "tb_refill b' = tb_refill b" "tb_capacity b' = tb_capacity b"
    using b'(1) by simp_all
  show "tb_tokens b' + (if ok then 1 else 0)
      \<le> tb_tokens b + seconds_between (tb_last_refill b) now * tb_refill b"
    using b'(1) r(3) by simp
qed

lemma consume_all_bound:
  assumes "bucket_ok b" "sorted (tb_last_refill b # ts)" "consume_all ts b = (n, b')"
  shows "of_nat n + tb_tokens b' \<le> tb_tokens b
      + seconds_between (tb_last_refill b) (last (tb_last_refill b # ts)) * tb_refill b
    \<and> bucket_ok b'"
  using assms
proof (induction ts arbitrary: b n)
  case Nil
  then show ?case by (simp add: seconds_between_def)
next
  case (Cons t ts)
  obtain ok b1 where c: "consume t b = (ok, b1)" by fastforce
  obtain m where m: "consume_all ts b1 = (m, b')" "n = (if ok then m + 1 else m)"
    using Cons.prems(3) c by (auto simp: Let_def split: prod.splits)
  note k = consume_ok [OF Cons.prems(1) _ c]
  have t: "tb_last_refill b \<le> t" using Cons.prems(2) by simp
  have "sorted (tb_last_refill b1 # ts)" using Cons.prems(2) k(2) t by simp
  from Cons.IH [OF k(1) [OF t] this m(1)]
  have ih: "of_nat m + tb_tokens b' \<le> tb_tokens b1 + seconds_between t (last (t # ts)) * tb_refill b"
    "bucket_ok b'" using k(2,3) [OF t] by simp_all
  have "seconds_between (tb_last_refill b) (last (t # ts)) * tb_refill b
      = seconds_between (tb_last_refill b) t * tb_refill b + seconds_between t (last (t # ts)) * tb_refill b"
    unfolding distrib_right [symmetric] seconds_add ..
  then show ?case using ih k(5) [OF t] m(2) by (cases ok) auto
qed

section \<open>Properties\<close>

text \<open>C26: the limiter's guarantee: over any sequence of requests of a tenant, the number admitted
  is at most the capacity of the bucket plus the refill rate times the seconds elapsed, and the
  bucket never holds less than nothing nor more than its capacity.\<close>

theorem rate_limit_bound:
  assumes "bucket_ok b" "sorted (tb_last_refill b # ts)" "consume_all ts b = (n, b')"
  shows "of_nat n \<le> tb_capacity b
      + seconds_between (tb_last_refill b) (last (tb_last_refill b # ts)) * tb_refill b
    \<and> 0 \<le> tb_tokens b' \<and> tb_tokens b' \<le> tb_capacity b'"
  using consume_all_bound [OF assms] assms(1) by (auto simp: bucket_ok_def)

definition ex_bucket :: token_bucket where
  "ex_bucket = \<lparr>tb_tokens = 2, tb_capacity = 2, tb_refill = 1, tb_last_refill = 0\<rparr>"

theorem rate_limit_bound_witness:
  "fst (consume_all [0, 0, 0, second] ex_bucket) = 3
   \<and> of_nat (fst (consume_all [0, 0, 0, second] ex_bucket)) \<le> (2 :: rat) + 1"
proof -
  obtain n b' where c: "consume_all [0, 0, 0, second] ex_bucket = (n, b')" by fastforce
  have "n = 3" using c by (simp add: ex_bucket_def consume_def refilled_def seconds_between_def Let_def
      split: if_splits)
  moreover have "of_nat n \<le> tb_capacity ex_bucket
      + seconds_between (tb_last_refill ex_bucket) (last (tb_last_refill ex_bucket # [0, 0, 0, second]))
        * tb_refill ex_bucket"
    using rate_limit_bound [OF _ _ c] by (simp add: ex_bucket_def bucket_ok_def)
  ultimately show ?thesis using c by (simp add: ex_bucket_def seconds_between_def)
qed

text \<open>The \<open>Retry-After\<close> header keeps its word: a tenant whose request was rejected and who
  sends nothing until that many seconds have passed is admitted.\<close>

theorem retry_after_suffices:
  assumes "consume now b = (False, b1)" "0 < tb_refill b" "1 \<le> tb_capacity b"
    "now + retry_after b1 * second \<le> later"
  shows "fst (consume later b1)"
proof -
  have b1: "tb_tokens b1 < 1" "tb_last_refill b1 = now" "tb_refill b1 = tb_refill b"
    "tb_capacity b1 = tb_capacity b"
    using assms(1) by (auto simp: consume_def Let_def split: if_splits)
  let ?q = "(1 - tb_tokens b1) / tb_refill b"
  have "retry_after b1 = \<lfloor>?q\<rfloor> + 1" using b1 by (simp add: retry_after_def)
  then have "?q \<le> of_int (retry_after b1)" by linarith
  also have "\<dots> \<le> seconds_between now later"
  proof -
    have "retry_after b1 * second \<le> later - now" using assms(4) by linarith
    then have "of_int (retry_after b1 * second) \<le> (of_int (later - now) :: rat)" by (simp only: of_int_le_iff)
    then show ?thesis by (simp add: seconds_between_def field_simps)
  qed
  finally have "1 - tb_tokens b1 \<le> seconds_between now later * tb_refill b"
    using assms(2) by (simp add: field_simps)
  then have "1 \<le> refilled later b1"
    using assms(3) b1 by (auto simp: refilled_def Let_def)
  then show ?thesis by (simp add: consume_def)
qed

theorem retry_after_suffices_witness:
  "let b = ex_bucket\<lparr>tb_tokens := 1 / 2\<rparr>; b1 = snd (consume 0 b)
   in \<not> fst (consume 0 b) \<and> retry_after b1 = 1 \<and> fst (consume second b1)"
proof -
  let ?b = "ex_bucket\<lparr>tb_tokens := 1 / 2\<rparr>"
  have c: "consume 0 ?b = (False, ?b)"
    by (simp add: consume_def refilled_def ex_bucket_def seconds_between_def)
  have "\<lfloor>1 / 2 :: rat\<rfloor> = 0" by (rule floor_unique) simp_all
  then have r: "retry_after ?b = 1" by (simp add: retry_after_def ex_bucket_def)
  have "fst (consume second ?b)"
    by (rule retry_after_suffices [OF c]) (simp_all add: r, simp_all add: ex_bucket_def)
  then show ?thesis using c r by simp
qed

text \<open>Tenants do not share their buckets: a request of one tenant leaves the bucket of every
  other as it was.\<close>

theorem rate_limit_isolation:
  assumes "tenant \<noteq> limiter_tenant v"
  shows "map_of (rl_buckets (snd (rate_limit t0 now v s))) tenant = map_of (rl_buckets s) tenant"
  using assms by (auto simp: rate_limit_def get_bucket_def Let_def split: prod.splits option.splits)

theorem rate_limit_isolation_witness:
  "map_of (rl_buckets (snd (rate_limit 0 0 (GStr ''acme'')
      ((new_rate_limiter_store 2 1)\<lparr>rl_buckets := [(''other'', ex_bucket)]\<rparr>)))) ''other'' = Some ex_bucket"
  by (subst rate_limit_isolation) (simp_all add: limiter_tenant_def)

text \<open>What it takes to pass the token check. The handler is reached only with a bearer token
  whose header names a key, under which, with the configured issuer and audience, the library
  verified the token as valid; the identity handed on is made of the verified claims. Every other
  request is rejected.\<close>

theorem auth_only_verified:
  "case fst (auth_process lib net issuer audience now now' hdr c) of
     Auth_rejected code \<Rightarrow> code = ''AUTH_MISSING'' \<and> bearer_token hdr = None \<or> code = ''AUTH_INVALID''
   | Auth_next cl tenant \<Rightarrow> \<exists>t h kid key m. bearer_token hdr = Some t \<and> jl_header lib t = Some h
        \<and> go_get h ''kid'' = GStr kid \<and> fst (get_key net now now' kid c) = Inr key
        \<and> jl_verify lib key issuer audience t = Inr (m, True) \<and> cl = claims_of m
        \<and> (tenant = None \<longleftrightarrow> cm_tenant_id cl = [])"
proof (cases "bearer_token hdr")
  case None
  then show ?thesis by (simp add: auth_process_def)
next
  case t: (Some t)
  show ?thesis
  proof (cases "jl_header lib t")
    case None
    then show ?thesis using t by (simp add: auth_process_def)
  next
    case h: (Some h)
    show ?thesis
    proof (cases "as_string (go_get h ''kid'')")
      case None
      then show ?thesis using t h by (simp add: auth_process_def)
    next
      case k: (Some kid)
      then have kid: "go_get h ''kid'' = GStr kid" by (cases "go_get h ''kid''") auto
      obtain r c1 where g: "get_key net now now' kid c = (r, c1)" by fastforce
      show ?thesis using t h k kid g
        by (cases r) (auto simp: auth_process_def Let_def split: sum.splits prod.splits)
    qed
  qed
qed

lemma fold_put_keeps:
  "map_of m k \<noteq> None \<Longrightarrow> map_of (fold (\<lambda>(k, v) m. alist_put k v m) xs m) k \<noteq> None"
  by (induction xs arbitrary: m) (auto split: prod.splits)

text \<open>A key that was once fetched is trusted for ever: no refresh, however often and whatever
  the issuer publishes, removes it from the cache, so a key the issuer has withdrawn still
  verifies tokens.\<close>

theorem withdrawn_key_still_trusted:
  assumes "map_of (jc_keys c) kid = Some key"
  shows "map_of (jc_keys (snd (get_key net now now' k c))) kid \<noteq> None
    \<and> (\<exists>key'. fst (get_key net now now' kid c) = Inr key')"
proof -
  have r: "map_of (jc_keys (snd (jwks_refresh net now' c))) kid \<noteq> None"
    using assms fold_put_keeps [of "jc_keys c" kid]
    by (simp add: jwks_refresh_def split: sum.splits http_result.splits option.splits)
  obtain e c1 where e: "jwks_refresh net now' c = (e, c1)" by fastforce
  have c1: "map_of (jc_keys c1) kid \<noteq> None" using r e by simp
  show ?thesis using assms c1 e
    by (cases e) (auto simp: get_key_def Let_def split: option.splits)
qed

theorem withdrawn_key_still_trusted_witness:
  "let c = \<lparr>jc_keys = [(''old'', (7, 3))], jc_issuer = ''https://id'', jc_refresh_after = 0\<rparr>;
       net = \<lparr>jn_ok_url = \<lambda>_. True, jn_discovery = \<lambda>_. Http_response 200 (Some ''u''),
              jn_jwks = \<lambda>_. Http_response 200 (Some [])\<rparr>
   in \<exists>key. fst (get_key net 10 10 ''old'' c) = Inr key"
  unfolding Let_def
  by (rule withdrawn_key_still_trusted [THEN conjunct2]) simp

end
