(* ===== verification/Infra_Yaml.thy ===== *)
theory Infra_Yaml
  imports Infra_Engine
begin

text \<open>
  The canonical form of a YAML document: \<open>sortYAMLNode\<close> and \<open>marshalDeterministic\<close> of
  \<open>src/internal/module/infra/template/xr.go\<close>. Two documents are the same when they differ only in
  the order of the entries of their mappings.
\<close>

inductive same_yaml :: "yaml_node \<Rightarrow> yaml_node \<Rightarrow> bool" where
  same_scalar: "same_yaml (Scalar v) (Scalar v)"
| same_alias: "same_yaml (Alias v) (Alias v)"
| same_document: "list_all2 same_yaml ns ms \<Longrightarrow> same_yaml (Document ns) (Document ms)"
| same_sequence: "list_all2 same_yaml ns ms \<Longrightarrow> same_yaml (Sequence ns) (Sequence ms)"
| same_mapping: "list_all2 (\<lambda>x y. fst x = fst y \<and> same_yaml (snd x) (snd y)) kvs lws
    \<Longrightarrow> mset lws = mset kvs' \<Longrightarrow> same_yaml (Mapping kvs) (Mapping kvs')"
monos list.rel_mono_strong

fun distinct_keys :: "yaml_node \<Rightarrow> bool" where
  "distinct_keys (Document ns) = list_all distinct_keys ns"
| "distinct_keys (Mapping kvs) =
     (distinct (map (\<lambda>kv. node_value (fst kv)) kvs) \<and> list_all (\<lambda>(k, v). distinct_keys v) kvs)"
| "distinct_keys (Sequence ns) = list_all distinct_keys ns"
| "distinct_keys _ = True"

lemma map_sort_same:
  assumes "list_all2 (\<lambda>n m. same_yaml n m \<and> (distinct_keys n \<longrightarrow> sort_yaml_node n = sort_yaml_node m)) ns ms"
    "list_all distinct_keys ns"
  shows "map sort_yaml_node ns = map sort_yaml_node ms"
  using assms by (induction ns ms rule: list_all2_induct) auto

text \<open>Sorting by distinct keys forgets the order of the entries.\<close>

lemma sort_entries_perm:
  assumes "distinct (map key xs)" "mset xs = mset ys"
  shows "sort_key key xs = sort_key key ys"
proof (rule sort_key_inj_key_eq)
  show "mset xs = mset (sort_key key ys)" using assms(2) by simp
  show "inj_on key (set xs)" using assms(1) by (simp add: distinct_map)
  show "sorted (map key (sort_key key ys))" by simp
qed

lemma same_yaml_sorted: "same_yaml n m \<Longrightarrow> distinct_keys n \<Longrightarrow> sort_yaml_node n = sort_yaml_node m"
proof (induction rule: same_yaml.induct)
  case (same_document ns ms)
  then show ?case using map_sort_same [of ns ms] by simp
next
  case (same_sequence ns ms)
  then show ?case using map_sort_same [of ns ms] by simp
next
  case (same_mapping kvs lws kvs')
  let ?g = "\<lambda>(k, v). (k, sort_yaml_node v)"
  have "list_all (\<lambda>(k, v). distinct_keys v) kvs" using same_mapping.prems by simp
  with same_mapping.IH have "map ?g kvs = map ?g lws"
    by (induction kvs lws rule: list_all2_induct) (auto split: prod.splits)
  moreover have "mset (map ?g lws) = mset (map ?g kvs')" using same_mapping.hyps by simp
  moreover have "distinct (map (\<lambda>kv. node_value (fst kv)) (map ?g kvs))"
    using same_mapping.prems by (simp add: case_prod_unfold comp_def)
  ultimately show ?case
    using sort_entries_perm [of "\<lambda>kv. node_value (fst kv)" "map ?g kvs" "map ?g kvs'"] by simp
qed simp_all

lemma sort_yaml_node_idem: "sort_yaml_node (sort_yaml_node n) = sort_yaml_node n"
proof (induction n rule: sort_yaml_node.induct)
  case (2 kvs)
  let ?g = "\<lambda>(k, v). (k, sort_yaml_node v)" and ?key = "\<lambda>kv::yaml_node \<times> yaml_node. node_value (fst kv)"
  let ?s = "sort_key ?key (map ?g kvs)"
  have "map ?g ?s = ?s"
  proof (rule map_idI)
    fix x assume "x \<in> set ?s"
    then obtain k v where "(k, v) \<in> set kvs" "x = (k, sort_yaml_node v)" by auto
    then show "?g x = x" using 2 by auto
  qed
  then show ?case by (simp add: sort_key_id_if_sorted)
qed (simp_all cong: map_cong)

text \<open>C32: deterministic manifests. The text of a document does not depend on the order in which the
  entries of its mappings were produced (Go ranges over maps in random order): documents with
  distinct keys that differ only in the order of entries, at any depth, are printed alike. Sorting is
  idempotent.\<close>

theorem marshal_deterministic_order:
  assumes "ye_read y doc = Inr n" "ye_read y doc' = Inr m" "same_yaml n m" "distinct_keys n"
  shows "marshal_deterministic y doc = marshal_deterministic y doc'
    \<and> sort_yaml_node (sort_yaml_node n) = sort_yaml_node n"
  using assms same_yaml_sorted [OF assms(3,4)] sort_yaml_node_idem
  by (simp add: marshal_deterministic_def)

text \<open>A reader of flat documents, for a concrete instance.\<close>

definition flat_yaml :: yaml_env where
  "flat_yaml = \<lparr>ye_read = (\<lambda>m. Inr (Mapping (map (\<lambda>(k, v). (Scalar k, Scalar (string_or_empty v))) m))),
     ye_print = (\<lambda>n. case n of
         Mapping kvs \<Rightarrow> Inr (concat (map (\<lambda>(k, v). node_value k @ '': '' @ node_value v @ [CHR 0x0A]) kvs))
       | _ \<Rightarrow> Inl ''not a mapping''),
     ye_title = (\<lambda>s. s)\<rparr>"

theorem marshal_deterministic_order_witness:
  "marshal_deterministic flat_yaml [(''b'', GStr ''1''), (''a'', GStr ''2'')]
   = marshal_deterministic flat_yaml [(''a'', GStr ''2''), (''b'', GStr ''1'')]"
proof -
  have "same_yaml (Mapping [(Scalar ''b'', Scalar ''1''), (Scalar ''a'', Scalar ''2'')])
      (Mapping [(Scalar ''a'', Scalar ''2''), (Scalar ''b'', Scalar ''1'')])"
    by (rule same_mapping [where lws = "[(Scalar ''b'', Scalar ''1''), (Scalar ''a'', Scalar ''2'')]"])
      (simp_all add: same_scalar add_mset_commute)
  then show ?thesis
    by (rule marshal_deterministic_order [OF _ _ _, THEN conjunct1, rotated 2]) (simp_all add: flat_yaml_def string_or_empty_def)
qed

end
