(* ===== verification/Module_Config.thy ===== *)
theory Module_Config
  imports Infra_Module
begin

text \<open>
  Module configuration and assembly: the file loader \<open>src/internal/module/config/loader.go\<close> with
  its path confinement, the typed configuration of the infrastructure module
  (\<open>module/infra/config.go\<close>), the factory (\<open>module/factory.go\<close>), the module registry
  (\<open>registry/module_registry.go\<close>) and the resolver and bootstrap of the runner
  (\<open>runner/module_resolver.go\<close>, \<open>module_bootstrap.go\<close>). Environment variables, the file system and
  the YAML package are a record of functions.
\<close>

section \<open>Paths: the parts of Go's package filepath the source calls\<close>

text \<open>One component of a path pushed on the cleaned components before it.\<close>

definition push_comp :: "bool \<Rightarrow> string list \<Rightarrow> string \<Rightarrow> string list" where
  "push_comp rooted out c =
     (if c = [] \<or> c = ''.'' then out
      else if c = ''..'' then
        (if out \<noteq> [] \<and> last out \<noteq> ''..'' then butlast out else if rooted then out else out @ [c])
      else out @ [c])"

definition render_path :: "bool \<Rightarrow> string list \<Rightarrow> string" where
  "render_path rooted cs =
     (if rooted then CHR ''/'' # join_with ''/'' cs else if cs = [] then ''.'' else join_with ''/'' cs)"

definition is_rooted :: "string \<Rightarrow> bool" where
  "is_rooted p \<longleftrightarrow> has_prefix p ''/''"

definition clean_comps :: "bool \<Rightarrow> string list \<Rightarrow> string list" where
  "clean_comps rooted ws = foldl (push_comp rooted) [] ws"

definition path_clean :: "string \<Rightarrow> string" where
  "path_clean p =
     (if p = [] then ''.'' else render_path (is_rooted p) (clean_comps (is_rooted p) (split_on (CHR ''/'') p)))"

text \<open>\<open>filepath.Join\<close> of two elements.\<close>

definition path_join :: "string \<Rightarrow> string \<Rightarrow> string" where
  "path_join a b = (if a \<noteq> [] then path_clean (a @ ''/'' @ b) else if b \<noteq> [] then path_clean b else [])"

section \<open>The loader\<close>

record module_config_file =
  mc_api_version :: string
  mc_module :: string
  mc_vars :: go_map
  mc_families :: "(string \<times> string) list option"

datatype read_result = Read_data string | Read_missing | Read_failed string

record config_env =
  ce_getenv :: "string \<Rightarrow> string"
  ce_stat :: "string \<Rightarrow> bool"
  ce_read :: "string \<Rightarrow> read_result"
  ce_yaml :: "string \<Rightarrow> string + module_config_file"
  ce_wide :: "string \<Rightarrow> bool"

text \<open>\<open>ConfigError\<close> with its code, the wrapped error and the details; other errors by their text.\<close>

datatype config_error = Config_error string string "(string \<times> string) list" | Other_error string

definition is_ascii :: "char \<Rightarrow> bool" where
  "is_ascii c \<longleftrightarrow> (of_char c :: nat) < 128"

definition is_letter_ascii :: "char \<Rightarrow> bool" where
  "is_letter_ascii c \<longleftrightarrow> (let n = of_char c :: nat in (65 \<le> n \<and> n \<le> 90) \<or> (97 \<le> n \<and> n \<le> 122))"

text \<open>The source ranges over the runes of the name. Every ASCII byte is a rune of its own; whether the
  other runes are letters or digits is a question to the Unicode tables, \<open>ce_wide\<close>.\<close>

definition is_valid_module_name :: "config_env \<Rightarrow> string \<Rightarrow> bool" where
  "is_valid_module_name e name \<longleftrightarrow> name \<noteq> []
     \<and> list_all (\<lambda>c. is_ascii c \<longrightarrow> is_letter_ascii c \<or> is_digit c \<or> c = CHR ''-'' \<or> c = CHR ''_'') name
     \<and> (list_all is_ascii name \<or> ce_wide e name)"

definition is_path_safe :: "string \<Rightarrow> bool" where
  "is_path_safe path \<longleftrightarrow> path \<noteq> [] \<and> ''..'' \<notin> set (split_on (CHR ''/'') (path_clean path))"

definition invalid_name :: "string \<Rightarrow> string \<Rightarrow> config_error" where
  "invalid_name m reason = Config_error ''CONFIG_INVALID_MODULE_NAME'' ''invalid module name''
     [(''module'', m), (''reason'', reason)]"

definition invalid_path :: "string \<Rightarrow> string \<Rightarrow> config_error" where
  "invalid_path p reason = Config_error ''CONFIG_INVALID_PATH'' ''invalid module name''
     [(''path'', p), (''reason'', reason)]"

definition cfg_file :: "string \<Rightarrow> string" where
  "cfg_file m = ''cfg_'' @ m @ ''.yaml''"

definition within :: "string \<Rightarrow> string \<Rightarrow> bool" where
  "within p root \<longleftrightarrow> has_prefix p (root @ ''/'') \<or> p = root"

definition default_config_path :: "string \<Rightarrow> string \<Rightarrow> config_error + string \<times> bool" where
  "default_config_path base m =
     (if base = [] then Inl (Config_error ''CONFIG_PATH_RESOLUTION_FAILED'' ''configuration file not found''
        [(''module'', m), (''reason'', ''no config path found and defaultBasePath is empty'')])
      else let root = path_clean base; p = path_clean (path_join root (cfg_file m))
           in if \<not> within p root then Inl (invalid_name m ''resolved path escapes base directory'')
              else Inr (p, False))"

definition resolve_config_path :: "config_env \<Rightarrow> string \<Rightarrow> string \<Rightarrow> config_error + string \<times> bool" where
  "resolve_config_path e base m =
     (if \<not> is_valid_module_name e m then Inl (invalid_name m ''module name contains invalid characters'')
      else let path = ce_getenv e (''CFG_PATH_'' @ to_upper m); cfg_root = ce_getenv e ''CFG_ROOT'' in
        if path \<noteq> [] then
          (if \<not> is_path_safe path then Inl (invalid_name m ''CFG_PATH contains path traversal sequences'')
           else Inr (path_clean path, True))
        else if cfg_root \<noteq> [] then
          (if \<not> is_path_safe cfg_root then Inl (invalid_name m ''CFG_ROOT contains path traversal sequences'')
           else let root = path_clean cfg_root; p = path_clean (path_join root (cfg_file m)) in
             if \<not> within p root then Inl (invalid_name m ''resolved path escapes config root directory'')
             else if ce_stat e p then Inr (p, False)
             else default_config_path base m)
        else default_config_path base m)"

definition permitted_roots :: "config_env \<Rightarrow> string \<Rightarrow> string list" where
  "permitted_roots e base =
     (if ce_getenv e ''CFG_ROOT'' \<noteq> [] then [path_clean (ce_getenv e ''CFG_ROOT'')] else [])
     @ (if base \<noteq> [] then [path_clean base] else [])"

definition sanitize_and_confine :: "config_env \<Rightarrow> string \<Rightarrow> string \<Rightarrow> bool \<Rightarrow> config_error + string" where
  "sanitize_and_confine e base path from_env =
     (let p = path_clean path in
      if from_env \<or> permitted_roots e base = [] then
        (if \<not> is_path_safe p then Inl (invalid_path path ''path contains traversal sequences'') else Inr p)
      else if list_ex (within p) (permitted_roots e base) then Inr p
      else Inl (invalid_path path ''path is not within any permitted config root directory''))"

definition api_version_v1 :: string where
  "api_version_v1 = ''module.config/v1''"

definition validate_framework_concerns :: "module_config_file \<Rightarrow> string \<Rightarrow> config_error option" where
  "validate_framework_concerns c m =
     (if mc_api_version c = [] then Some (Config_error ''CONFIG_MISSING_FIELD'' ''missing required field'' [(''field'', ''apiVersion'')])
      else if mc_api_version c \<noteq> api_version_v1
      then Some (Config_error ''CONFIG_UNSUPPORTED_API_VERSION'' ''unsupported API version''
        [(''expected'', api_version_v1), (''actual'', mc_api_version c)])
      else if mc_module c = [] then Some (Config_error ''CONFIG_MISSING_FIELD'' ''missing required field'' [(''field'', ''module'')])
      else if mc_module c \<noteq> m
      then Some (Config_error ''CONFIG_MODULE_MISMATCH'' ''module name mismatch'' [(''expected'', m), (''actual'', mc_module c)])
      else if mc_families c = None
      then Some (Config_error ''CONFIG_MISSING_CONNECTOR_FAMILIES'' ''missing connector families mapping'' [])
      else None)"

definition config_load :: "config_env \<Rightarrow> string \<Rightarrow> string \<Rightarrow> config_error + module_config_file" where
  "config_load e base m =
     (case resolve_config_path e base m of
        Inl er \<Rightarrow> Inl er
      | Inr (path, from_env) \<Rightarrow>
     (case sanitize_and_confine e base path from_env of
        Inl er \<Rightarrow> Inl er
      | Inr p \<Rightarrow>
     (case ce_read e p of
        Read_missing \<Rightarrow> Inl (Config_error ''CONFIG_FILE_NOT_FOUND'' ''configuration file not found'' [(''path'', p)])
      | Read_failed er \<Rightarrow> Inl (Other_error (''failed to read config file '' @ p @ '': '' @ er))
      | Read_data d \<Rightarrow>
     (case ce_yaml e d of
        Inl er \<Rightarrow> Inl (Config_error ''CONFIG_INVALID_YAML'' ''invalid YAML content'' [(''path'', p), (''error'', er)])
      | Inr c \<Rightarrow> (case validate_framework_concerns c m of Some er \<Rightarrow> Inl er | None \<Rightarrow> Inr c)))))"

section \<open>Typed configuration of the infrastructure module\<close>

record connector_selection =
  cs_git :: string
  cs_crossplane :: string
  cs_policy :: string
  cs_webhook :: string

record infra_config =
  ic_vars :: infra_vars
  ic_connectors :: connector_selection

text \<open>Texts the standard library makes: the error of \<open>time.ParseDuration\<close>, a duration under \<open>%v\<close>, a
  dynamic type under \<open>%T\<close>.\<close>

record go_texts =
  gt_dur_err :: "string \<Rightarrow> string"
  gt_dur :: "duration \<Rightarrow> string"
  gt_type :: "go_any \<Rightarrow> string"

definition required_connector_families :: "string list" where
  "required_connector_families = [''git'', ''crossplane'', ''policy'', ''webhook'']"

definition parse_duration_var :: "go_texts \<Rightarrow> string \<Rightarrow> duration \<Rightarrow> go_map \<Rightarrow> string + duration" where
  "parse_duration_var t name dflt vars =
     (case map_of vars name of
        None \<Rightarrow> Inr dflt
      | Some (GStr str) \<Rightarrow>
          (case parse_duration str of
             None \<Rightarrow> Inl (''invalid '' @ name @ '' duration '' @ go_quote str @ '': '' @ gt_dur_err t str)
           | Some d \<Rightarrow> if d \<le> 0 then Inl (name @ '' must be positive, got '' @ gt_dur t d) else Inr d)
      | Some v \<Rightarrow> Inl (name @ '' must be a string duration, got '' @ gt_type t v))"

definition valid_levels :: "string list" where
  "valid_levels = [''debug'', ''info'', ''warn'', ''warning'', ''error'', ''dpanic'', ''panic'', ''fatal'']"

definition parse_log_level :: "go_texts \<Rightarrow> go_map \<Rightarrow> string + string" where
  "parse_log_level t vars =
     (case map_of vars ''log_level'' of
        None \<Rightarrow> Inr ''info''
      | Some (GStr str) \<Rightarrow>
          if str \<notin> set valid_levels
          then Inl (''invalid log_level '' @ go_quote str @ '', must be one of: debug, info, warn, error, dpanic, panic, fatal'')
          else Inr str
      | Some v \<Rightarrow> Inl (''log_level must be a string, got '' @ gt_type t v))"

definition parse_vars :: "go_texts \<Rightarrow> go_map \<Rightarrow> string + infra_vars" where
  "parse_vars t vars =
     (case parse_duration_var t ''health_timeout'' (30 * second) vars of
        Inl er \<Rightarrow> Inl er
      | Inr ht \<Rightarrow>
     (case parse_duration_var t ''poll_interval'' 500000000 vars of
        Inl er \<Rightarrow> Inl er
      | Inr pi \<Rightarrow>
     (case parse_log_level t vars of
        Inl er \<Rightarrow> Inl er
      | Inr lvl \<Rightarrow>
          if pi \<ge> ht
          then Inl (''poll_interval ('' @ gt_dur t pi @ '') must be less than health_timeout ('' @ gt_dur t ht @ '')'')
          else Inr \<lparr>iv_health_timeout = ht, iv_poll_interval = pi, iv_log_level = lvl\<rparr>)))"

text \<open>The map of families with Go's zero value for a missing key; the checks for an empty
  implementation after the loop cannot fail any more, as the loop has made them already.\<close>

definition family_impl :: "(string \<times> string) list option \<Rightarrow> string \<Rightarrow> string" where
  "family_impl fams f = (case fams of None \<Rightarrow> [] | Some m \<Rightarrow> (case map_of m f of None \<Rightarrow> [] | Some v \<Rightarrow> v))"

definition parse_connectors :: "(string \<times> string) list option \<Rightarrow> string + connector_selection" where
  "parse_connectors fams =
     (case List.find (\<lambda>f. family_impl fams f = []) required_connector_families of
        Some f \<Rightarrow> Inl (''missing required connector family '' @ go_quote f @ '' in connectors.families'')
      | None \<Rightarrow>
          let sel = \<lparr>cs_git = family_impl fams ''git'', cs_crossplane = family_impl fams ''crossplane'',
                     cs_policy = family_impl fams ''policy'', cs_webhook = family_impl fams ''webhook''\<rparr>
          in if cs_git sel = [] then Inl ''git connector implementation cannot be empty''
             else if cs_crossplane sel = [] then Inl ''crossplane connector implementation cannot be empty''
             else if cs_policy sel = [] then Inl ''policy connector implementation cannot be empty''
             else if cs_webhook sel = [] then Inl ''webhook connector implementation cannot be empty''
             else Inr sel)"

definition parse_config :: "go_texts \<Rightarrow> module_config_file option \<Rightarrow> string + infra_config" where
  "parse_config t raw =
     (case raw of
        None \<Rightarrow> Inl ''raw config is nil''
      | Some c \<Rightarrow>
     (case parse_vars t (mc_vars c) of
        Inl er \<Rightarrow> Inl (''failed to parse vars: '' @ er)
      | Inr vars \<Rightarrow>
     (case parse_connectors (mc_families c) of
        Inl er \<Rightarrow> Inl (''failed to parse connectors: '' @ er)
      | Inr sel \<Rightarrow> Inr \<lparr>ic_vars = vars, ic_connectors = sel\<rparr>)))"

section \<open>The factory\<close>

record module_factory =
  fa_env :: config_env
  fa_base :: string
  fa_texts :: go_texts
  fa_families :: family_registry

fun config_error_text :: "config_error \<Rightarrow> string" where
  "config_error_text (Config_error code er detail) = code @ '': '' @ er"
| "config_error_text (Other_error er) = er"

definition is_prefixed_with_infra :: "string \<Rightarrow> bool" where
  "is_prefixed_with_infra key \<longleftrightarrow> 6 < length key \<and> take 6 key = ''infra-''"

definition resolve_crossplane :: "family_registry \<Rightarrow> string \<Rightarrow> string + connector" where
  "resolve_crossplane fr sel =
     (case family_resolve fr ''crossplane'' (if is_prefixed_with_infra sel then sel else ''infra-'' @ sel) of
        Inr c \<Rightarrow> Inr c
      | Inl _ \<Rightarrow>
          (case family_resolve fr ''infra'' sel of
             Inr c \<Rightarrow> Inr c
           | Inl er \<Rightarrow> Inl (''failed to resolve infra connector '' @ sel @ '': '' @ er)))"

text \<open>The assertions to the typed connector interfaces always succeed, as these add no method.\<close>

definition assemble_infra_module :: "module_factory \<Rightarrow> module_config_file \<Rightarrow> string + infra_module" where
  "assemble_infra_module f c =
     (case parse_config (fa_texts f) (Some c) of
        Inl er \<Rightarrow> Inl (''failed to parse infra module config: '' @ er)
      | Inr cfg \<Rightarrow>
     (let sel = ic_connectors cfg; fr = fa_families f in
      case family_resolve fr ''git'' (cs_git sel) of
        Inl er \<Rightarrow> Inl (''failed to resolve git connector '' @ cs_git sel @ '': '' @ er)
      | Inr git \<Rightarrow>
     (case family_resolve fr ''policy'' (cs_policy sel) of
        Inl er \<Rightarrow> Inl (''failed to resolve policy connector '' @ cs_policy sel @ '': '' @ er)
      | Inr policy \<Rightarrow>
     (case family_resolve fr ''webhook'' (cs_webhook sel) of
        Inl er \<Rightarrow> Inl (''failed to resolve webhook connector '' @ cs_webhook sel @ '': '' @ er)
      | Inr webhook \<Rightarrow>
     (case resolve_crossplane fr (cs_crossplane sel) of
        Inl er \<Rightarrow> Inl er
      | Inr crossplane \<Rightarrow>
     (case new_module (ic_vars cfg) (Some git) (Some crossplane) (Some policy) (Some webhook) of
        Inl er \<Rightarrow> Inl (''failed to create infra module: '' @ er)
      | Inr m \<Rightarrow> Inr m))))))"

definition assemble_config_managed_module :: "module_factory \<Rightarrow> string \<Rightarrow> string + infra_module" where
  "assemble_config_managed_module f name =
     (case config_load (fa_env f) (fa_base f) name of
        Inl er \<Rightarrow> Inl (''failed to load config for module '' @ name @ '': '' @ config_error_text er)
      | Inr c \<Rightarrow>
          if name = ''infra'' then assemble_infra_module f c
          else Inl (''module '' @ name @ '' is not config-managed or not supported''))"

definition is_config_managed_module :: "string \<Rightarrow> bool" where
  "is_config_managed_module name \<longleftrightarrow> name = ''infra''"

section \<open>Registries, resolver and bootstrap\<close>

text \<open>The plain connector registry keeps connectors by their key, the module registry modules by key
  and version joined with a colon.\<close>

record 'c plain_registry =
  pr_connectors :: "(string \<times> 'c) list"

definition plain_register :: "('c \<Rightarrow> string) \<Rightarrow> 'c \<Rightarrow> 'c plain_registry \<Rightarrow> string + 'c plain_registry" where
  "plain_register key c r =
     (case map_of (pr_connectors r) (key c) of
        Some _ \<Rightarrow> Inl ''CONNECTOR_DUPLICATE: duplicate connector registration''
      | None \<Rightarrow> Inr (r\<lparr>pr_connectors := alist_put (key c) c (pr_connectors r)\<rparr>))"

definition plain_lookup :: "'c plain_registry \<Rightarrow> string \<Rightarrow> 'c option" where
  "plain_lookup r k = map_of (pr_connectors r) k"

record 'm module_registry =
  mr_modules :: "(string \<times> 'm) list"

definition module_id :: "string \<Rightarrow> string \<Rightarrow> string" where
  "module_id key version = key @ '':'' @ version"

definition module_register ::
  "('m \<Rightarrow> string \<times> string) \<Rightarrow> 'm \<Rightarrow> 'm module_registry \<Rightarrow> string + 'm module_registry" where
  "module_register kv m r =
     (let i = module_id (fst (kv m)) (snd (kv m)) in
      case map_of (mr_modules r) i of
        Some _ \<Rightarrow> Inl ''MODULE_DUPLICATE: duplicate module registration''
      | None \<Rightarrow> Inr (r\<lparr>mr_modules := alist_put i m (mr_modules r)\<rparr>))"

definition module_lookup :: "'m module_registry \<Rightarrow> string \<Rightarrow> string \<Rightarrow> 'm option" where
  "module_lookup r key version = map_of (mr_modules r) (module_id key version)"

definition infra_kv :: "infra_module \<Rightarrow> string \<times> string" where
  "infra_kv m = (''infra.provision'', ''latest'')"

definition new_default_module_registry :: "string + infra_module module_registry" where
  "new_default_module_registry = module_register infra_kv new_legacy_module \<lparr>mr_modules = []\<rparr>"

record module_resolver =
  re_factory :: module_factory
  re_legacy :: "infra_module module_registry"

definition extract_module_name :: "string \<Rightarrow> string" where
  "extract_module_name key = takeWhile (\<lambda>c. c \<noteq> CHR ''.'') key"

definition resolve_config_managed_module :: "module_resolver \<Rightarrow> string \<Rightarrow> string + infra_module" where
  "resolve_config_managed_module r name =
     (case assemble_config_managed_module (re_factory r) name of
        Inl er \<Rightarrow> Inl (''failed to assemble config-managed module '' @ name @ '': '' @ er)
      | Inr m \<Rightarrow> Inr m)"

definition resolve_legacy_module :: "module_resolver \<Rightarrow> string \<Rightarrow> string \<Rightarrow> string + infra_module" where
  "resolve_legacy_module r key version =
     (case module_lookup (re_legacy r) key version of
        None \<Rightarrow> Inl (''legacy module not found: '' @ key @ '':'' @ version)
      | Some m \<Rightarrow> Inr m)"

definition resolve_module :: "module_resolver \<Rightarrow> string \<Rightarrow> string \<Rightarrow> string + infra_module" where
  "resolve_module r key version =
     (let name = extract_module_name key in
      if is_config_managed_module name then resolve_config_managed_module r name
      else resolve_legacy_module r key version)"

definition new_config_aware_module_resolver ::
  "config_env \<Rightarrow> go_texts \<Rightarrow> family_registry \<Rightarrow> string + module_resolver" where
  "new_config_aware_module_resolver e t fr =
     (let base = (if ce_getenv e ''CFG_ROOT'' \<noteq> [] then ce_getenv e ''CFG_ROOT'' else ''.'') in
      case new_default_module_registry of
        Inl er \<Rightarrow> Inl er
      | Inr legacy \<Rightarrow> Inr \<lparr>re_factory = \<lparr>fa_env = e, fa_base = base, fa_texts = t, fa_families = fr\<rparr>,
                        re_legacy = legacy\<rparr>)"

text \<open>The dynamic registry resolves on every lookup; what it stores is never read.\<close>

record dynamic_registry =
  dr_resolver :: module_resolver
  dr_modules :: "(string \<times> infra_module) list"

definition bootstrap_with_config ::
  "config_env \<Rightarrow> go_texts \<Rightarrow> family_registry \<Rightarrow> string + dynamic_registry" where
  "bootstrap_with_config e t fr =
     (case new_config_aware_module_resolver e t fr of
        Inl er \<Rightarrow> Inl er
      | Inr r \<Rightarrow> Inr \<lparr>dr_resolver = r, dr_modules = []\<rparr>)"

definition dynamic_register :: "infra_module \<Rightarrow> dynamic_registry \<Rightarrow> string + dynamic_registry" where
  "dynamic_register m r = Inr r"

definition dynamic_lookup :: "dynamic_registry \<Rightarrow> string \<Rightarrow> string \<Rightarrow> infra_module option \<times> dynamic_registry" where
  "dynamic_lookup r key version =
     (case resolve_module (dr_resolver r) key version of
        Inl er \<Rightarrow> (None, r)
      | Inr m \<Rightarrow> (Some m, r\<lparr>dr_modules := alist_put (module_id key version) m (dr_modules r)\<rparr>))"

interpretation plain: keyed_registry "plain_register key" plain_lookup key "\<lambda>c. c" for key
  by unfold_locales (auto simp: plain_register_def plain_lookup_def split: option.splits)

interpretation modules: keyed_registry "module_register kv" "\<lambda>r. map_of (mr_modules r)"
  "\<lambda>m. module_id (fst (kv m)) (snd (kv m))" "\<lambda>m. m" for kv
  by unfold_locales (auto simp: module_register_def Let_def split: option.splits)

section \<open>Clean paths\<close>

lemma split_on_append: "split_on d (a @ d # b) = split_on d a @ split_on d b"
  by (induction a) (auto split: list.splits)

lemma split_on_single: "d \<notin> set a \<Longrightarrow> split_on d a = [a]"
  by (induction a) auto

lemma split_join:
  "\<forall>w \<in> set ws. d \<notin> set w \<Longrightarrow> ws \<noteq> [] \<Longrightarrow> split_on d (join_with [d] ws) = ws"
proof (induction ws rule: induct_list012)
  case (3 w v ws)
  then show ?case using split_on_append [of d w "join_with [d] (v # ws)"] by (simp add: split_on_single)
qed (simp_all add: split_on_single)

lemma join_with_snoc: "ws \<noteq> [] \<Longrightarrow> join_with sep (ws @ [w]) = join_with sep ws @ sep @ w"
proof (induction ws rule: induct_list012)
  case (3 x y ws)
  then show ?case by (cases ws) simp_all
qed simp_all

lemma clean_comps_Nil [simp]: "clean_comps rooted [] = []"
  by (simp add: clean_comps_def)

lemma clean_comps_snoc [simp]: "clean_comps rooted (ws @ [w]) = push_comp rooted (clean_comps rooted ws) w"
  by (simp add: clean_comps_def)

lemma push_comp_cases:
  obtains "push_comp rooted out c = out" | "out \<noteq> []" "push_comp rooted out c = butlast out"
  | "push_comp rooted out c = out @ [c]" "c \<noteq> []" "c \<noteq> ''.''"
proof -
  have "push_comp rooted out c = out \<or> (out \<noteq> [] \<and> push_comp rooted out c = butlast out)
      \<or> (push_comp rooted out c = out @ [c] \<and> c \<noteq> [] \<and> c \<noteq> ''.'')"
    by (simp add: push_comp_def)
  then show thesis using that by blast
qed

lemma clean_comps_length: "length (clean_comps rooted ws) \<le> length ws"
proof (induction ws rule: rev_induct)
  case (snoc w ws)
  then show ?case by (cases rule: push_comp_cases [of rooted "clean_comps rooted ws" w]) simp_all
qed simp

lemma clean_comps_set: "set (clean_comps rooted ws) \<subseteq> {w \<in> set ws. w \<noteq> [] \<and> w \<noteq> ''.''}"
proof (induction ws rule: rev_induct)
  case (snoc w ws)
  then show ?case
    by (cases rule: push_comp_cases [of rooted "clean_comps rooted ws" w]) (auto dest: in_set_butlastD)
qed simp

text \<open>A prefix of a clean list of components is clean, so cleaning twice changes nothing.\<close>

lemma clean_prefix:
  assumes "clean_comps rooted (cs @ [c]) = cs @ [c]"
  shows "clean_comps rooted cs = cs"
  using assms clean_comps_length [of rooted cs]
  by (cases rule: push_comp_cases [of rooted "clean_comps rooted cs" c]) (auto dest: arg_cong [where f = length])

lemma clean_comps_idem [simp]: "clean_comps rooted (clean_comps rooted ws) = clean_comps rooted ws"
proof (induction ws rule: rev_induct)
  case (snoc w ws)
  let ?cs = "clean_comps rooted ws"
  show ?case
  proof (cases rule: push_comp_cases [of rooted ?cs w])
    case 2
    then have "clean_comps rooted (butlast ?cs @ [last ?cs]) = butlast ?cs @ [last ?cs]"
      using snoc.IH by (simp del: clean_comps_snoc)
    from clean_prefix [OF this] show ?thesis using 2 by simp
  next
    case 3
    then show ?thesis using clean_comps_snoc [of rooted ?cs w] snoc.IH by simp
  qed (simp_all add: snoc.IH)
qed simp

text \<open>A clean path falls into its components again.\<close>

definition comps_of :: "string \<Rightarrow> string list" where
  "comps_of p = clean_comps (is_rooted p) (split_on (CHR ''/'') p)"

lemma comps_of_set: "c \<in> set (comps_of p) \<Longrightarrow> c \<noteq> [] \<and> c \<noteq> ''.'' \<and> CHR ''/'' \<notin> set c"
  using clean_comps_set [of "is_rooted p"] split_on_no_sep unfolding comps_of_def by blast

lemma path_clean_render: "p \<noteq> [] \<Longrightarrow> path_clean p = render_path (is_rooted p) (comps_of p)"
  by (simp add: path_clean_def comps_of_def)

text \<open>What is needed of the components a path is rendered from.\<close>

definition plain :: "string list \<Rightarrow> bool" where
  "plain cs \<longleftrightarrow> (\<forall>c \<in> set cs. c \<noteq> [] \<and> c \<noteq> ''.'' \<and> CHR ''/'' \<notin> set c)"

lemma plain_comps_of: "plain (comps_of p)"
  using comps_of_set by (auto simp: plain_def)

lemma join_with_Cons: "join_with sep (w # ws) = w @ (if ws = [] then [] else sep @ join_with sep ws)"
  by (cases ws) simp_all

lemma join_not_rooted: "plain cs \<Longrightarrow> \<not> is_rooted (join_with ''/'' cs)"
  by (cases cs) (auto simp: join_with_Cons plain_def is_rooted_def has_prefix_def neq_Nil_conv)

lemma clean_comps_skip: "clean_comps r ([] # ws) = clean_comps r ws" "clean_comps r (''.'' # ws) = clean_comps r ws"
  by (simp_all add: clean_comps_def push_comp_def)

lemma is_rooted_render [simp]: "plain cs \<Longrightarrow> is_rooted (render_path r cs) = r"
  using join_not_rooted [of cs] by (auto simp: render_path_def is_rooted_def has_prefix_def)

lemma render_nonempty: "plain cs \<Longrightarrow> render_path r cs \<noteq> []"
  by (cases cs) (auto simp: join_with_Cons render_path_def plain_def)

lemma clean_split_render:
  assumes "plain cs" "clean_comps r cs = cs"
  shows "clean_comps r (split_on (CHR ''/'') (render_path r cs)) = cs"
proof -
  have sj: "cs \<noteq> [] \<Longrightarrow> split_on (CHR ''/'') (join_with ''/'' cs) = cs"
    using assms(1) split_join [of cs "CHR ''/''"] by (auto simp: plain_def)
  show ?thesis
    using assms(2) sj by (cases "cs = []") (auto simp: render_path_def clean_comps_skip)
qed

lemma path_clean_idem [simp]: "path_clean (path_clean p) = path_clean p"
proof (cases "p = []")
  case True
  then show ?thesis by (simp add: path_clean_def is_rooted_def has_prefix_def clean_comps_def push_comp_def render_path_def)
next
  case False
  have c: "clean_comps (is_rooted p) (comps_of p) = comps_of p" by (simp add: comps_of_def)
  show ?thesis
    unfolding path_clean_render [OF False]
    using clean_split_render [OF plain_comps_of c] render_nonempty [OF plain_comps_of] plain_comps_of
    by (simp add: path_clean_def)
qed

text \<open>Joining a clean root and a file name: the root itself, a separator and the name, except for the
  root directory and the current directory.\<close>

lemma path_clean_nonempty [simp]: "path_clean p \<noteq> []"
  using render_nonempty [OF plain_comps_of] by (simp add: path_clean_def comps_of_def [symmetric])

definition file_name :: "string \<Rightarrow> bool" where
  "file_name f \<longleftrightarrow> f \<noteq> [] \<and> f \<noteq> ''.'' \<and> f \<noteq> ''..'' \<and> CHR ''/'' \<notin> set f"

lemma path_join_clean:
  assumes "file_name f"
  shows "path_join (path_clean r) f = (if path_clean r = ''/'' then ''/'' @ f else if path_clean r = ''.'' then f
    else path_clean r @ ''/'' @ f)"
proof -
  define b cs where "b = is_rooted (path_clean r)" and "cs = comps_of (path_clean r)"
  have ne: "path_clean r \<noteq> []" "plain cs"
    using render_nonempty [OF plain_comps_of] plain_comps_of
    by (simp_all add: path_clean_def cs_def comps_of_def [symmetric])
  have root: "path_clean r = render_path b cs"
    using path_clean_render [OF ne(1)] by (simp add: b_def cs_def)
  have push: "push_comp b cs f = cs @ [f]" using assms by (simp add: push_comp_def file_name_def)
  have rt: "is_rooted (path_clean r @ ''/'' @ f) = b"
    using ne(1) by (cases "path_clean r") (auto simp: b_def is_rooted_def has_prefix_def)
  have "split_on (CHR ''/'') (path_clean r @ ''/'' @ f) = split_on (CHR ''/'') (path_clean r) @ [f]"
    using assms split_on_append [of "CHR ''/''" "path_clean r" f] by (simp add: split_on_single file_name_def)
  then have "path_join (path_clean r) f = render_path b (cs @ [f])"
    using ne(1) rt push by (simp add: path_join_def path_clean_def cs_def comps_of_def b_def)
  moreover have "path_clean r = ''/'' \<longleftrightarrow> b \<and> cs = []"
  proof -
    have "join_with ''/'' cs \<noteq> []" if "cs \<noteq> []" using that ne(2) by (cases cs) (auto simp: join_with_Cons plain_def)
    moreover have "join_with ''/'' cs \<noteq> ''/''" using join_not_rooted [OF ne(2)] by (auto simp: is_rooted_def has_prefix_def)
    ultimately show ?thesis unfolding root by (auto simp: render_path_def)
  qed
  moreover have "path_clean r = ''.'' \<longleftrightarrow> \<not> b \<and> cs = []"
  proof -
    have "join_with ''/'' cs \<noteq> ''.''" if "cs \<noteq> []"
      using that ne(2) by (cases cs) (auto simp: join_with_Cons plain_def append_eq_Cons_conv)
    then show ?thesis unfolding root by (auto simp: render_path_def)
  qed
  ultimately show ?thesis
    unfolding root using join_with_snoc [of cs "''/''" f] by (auto simp: render_path_def)
qed

section \<open>Confinement\<close>

lemma cfg_file_name: "CHR ''/'' \<notin> set m \<Longrightarrow> file_name (cfg_file m)"
  by (simp add: file_name_def cfg_file_def)

lemma valid_name_no_slash:
  assumes "is_valid_module_name e m"
  shows "CHR ''/'' \<notin> set m"
proof
  assume "CHR ''/'' \<in> set m"
  then have "is_letter_ascii (CHR ''/'') \<or> is_digit (CHR ''/'')"
    using assms by (auto simp: is_valid_module_name_def list_all_iff is_ascii_def)
  then show False by (auto simp: is_letter_ascii_def is_digit_def)
qed

text \<open>A root is usable unless it is the root or the current directory; a path built from a usable root
  is within it and clean.\<close>

definition usable_root :: "string \<Rightarrow> bool" where
  "usable_root r \<longleftrightarrow> path_clean r \<noteq> ''/'' \<and> path_clean r \<noteq> ''.''"

lemma path_join_idem [simp]: "file_name f \<Longrightarrow> path_clean (path_join (path_clean r) f) = path_join (path_clean r) f"
  by (auto simp: path_join_def)

lemma within_root:
  assumes "CHR ''/'' \<notin> set m"
  shows "within (path_clean (path_join (path_clean r) (cfg_file m))) (path_clean r) \<longleftrightarrow> usable_root r"
proof -
  have j: "path_clean (path_join (path_clean r) (cfg_file m)) = path_join (path_clean r) (cfg_file m)"
    by (rule path_join_idem [OF cfg_file_name [OF assms]])
  show ?thesis
    unfolding j
    unfolding path_join_clean [OF cfg_file_name [OF assms]]
    by (auto simp: within_def usable_root_def cfg_file_def has_prefix_def)
qed

lemma usable_root_path:
  assumes "CHR ''/'' \<notin> set m" "usable_root r"
  shows "path_clean (path_join (path_clean r) (cfg_file m)) = path_clean r @ ''/'' @ cfg_file m"
proof -
  have f: "file_name (cfg_file m)" by (rule cfg_file_name [OF assms(1)])
  show ?thesis
    unfolding path_join_idem [OF f]
    unfolding path_join_clean [OF f] using assms(2) by (simp add: usable_root_def)
qed

lemma default_path_iff:
  assumes "CHR ''/'' \<notin> set m"
  shows "default_config_path base m = Inr (p, b) \<longleftrightarrow>
    base \<noteq> [] \<and> usable_root base \<and> p = path_clean base @ ''/'' @ cfg_file m \<and> \<not> b"
  using within_root [OF assms] usable_root_path [OF assms]
  by (auto simp: default_config_path_def Let_def)

text \<open>Where the path of a configuration file comes from.\<close>

definition from_root :: "config_env \<Rightarrow> string \<Rightarrow> string \<Rightarrow> string \<Rightarrow> bool" where
  "from_root e base m p \<longleftrightarrow> (\<exists>r. (r = ce_getenv e ''CFG_ROOT'' \<or> r = base) \<and> r \<noteq> [] \<and> usable_root r
     \<and> p = path_clean r @ ''/'' @ cfg_file m)"

definition from_operator :: "config_env \<Rightarrow> string \<Rightarrow> string \<Rightarrow> bool" where
  "from_operator e m p \<longleftrightarrow> (let v = ce_getenv e (''CFG_PATH_'' @ to_upper m)
     in v \<noteq> [] \<and> p = path_clean v \<and> ''..'' \<notin> set (split_on (CHR ''/'') p))"

lemma resolve_config_path_cases:
  assumes "resolve_config_path e base m = Inr (p, b)"
  shows "CHR ''/'' \<notin> set m" "b \<Longrightarrow> from_operator e m p" "\<not> b \<Longrightarrow> from_root e base m p"
proof -
  have v: "is_valid_module_name e m" using assms by (auto simp: resolve_config_path_def split: if_splits)
  note slash = valid_name_no_slash [OF v]
  show "CHR ''/'' \<notin> set m" by (rule slash)
  have d: "from_root e base m p" if "default_config_path base m = Inr (p, b)"
    using that default_path_iff [OF slash] by (auto simp: from_root_def)
  have nb: "\<not> b" if "default_config_path base m = Inr (p, b)"
    using that default_path_iff [OF slash] by simp
  have "b \<and> from_operator e m p \<or> \<not> b \<and> from_root e base m p"
  proof (cases "ce_getenv e (''CFG_PATH_'' @ to_upper m) = []")
    case False
    then show ?thesis
      using assms v by (auto simp: resolve_config_path_def Let_def from_operator_def is_path_safe_def split: if_splits)
  next
    case True
    then show ?thesis
      using assms v d nb within_root [OF slash, of "ce_getenv e ''CFG_ROOT''"]
        usable_root_path [OF slash, of "ce_getenv e ''CFG_ROOT''"]
      by (auto simp: resolve_config_path_def Let_def from_root_def split: if_splits)
  qed
  then show "b \<Longrightarrow> from_operator e m p" "\<not> b \<Longrightarrow> from_root e base m p" by auto
qed

lemma from_root_clean:
  assumes "from_root e base m p" "CHR ''/'' \<notin> set m"
  shows "path_clean p = p" "list_ex (within p) (permitted_roots e base)"
proof -
  obtain r where r: "r = ce_getenv e ''CFG_ROOT'' \<or> r = base" "r \<noteq> []" "usable_root r"
      "p = path_clean r @ ''/'' @ cfg_file m" using assms(1) by (auto simp: from_root_def)
  have p: "p = path_clean (path_join (path_clean r) (cfg_file m))"
    using usable_root_path [OF assms(2) r(3)] r(4) by simp
  then show "path_clean p = p" by simp
  have "within p (path_clean r)" unfolding p using within_root [OF assms(2)] r(3) by simp
  moreover have "path_clean r \<in> set (permitted_roots e base)" using r(1,2) by (auto simp: permitted_roots_def)
  ultimately show "list_ex (within p) (permitted_roots e base)" by (auto simp: list_ex_iff)
qed

text \<open>The second check never rejects, and never changes, what the resolution returns.\<close>

lemma sanitize_accepts:
  assumes "resolve_config_path e base m = Inr (p, b)"
  shows "sanitize_and_confine e base p b = Inr p"
proof (cases b)
  case True
  have "from_operator e m p" using resolve_config_path_cases(2) [OF assms] True by simp
  then have "path_clean p = p" "is_path_safe p"
    by (auto simp: from_operator_def Let_def is_path_safe_def)
  then show ?thesis using True by (simp add: sanitize_and_confine_def)
next
  case False
  note f = from_root_clean [OF resolve_config_path_cases(3) [OF assms False] resolve_config_path_cases(1) [OF assms]]
  then show ?thesis using False by (auto simp: sanitize_and_confine_def)
qed

lemma config_load_Inr:
  assumes "config_load e base m = Inr c"
  obtains p b d where "resolve_config_path e base m = Inr (p, b)" "ce_read e p = Read_data d" "ce_yaml e d = Inr c"
    "validate_framework_concerns c m = None"
  using assms by (auto simp: config_load_def sanitize_accepts split: sum.splits read_result.splits option.splits)

lemma resolve_dot_base:
  assumes "ce_getenv e ''CFG_ROOT'' = []" "ce_getenv e ''CFG_PATH_INFRA'' = []"
  shows "\<exists>er. resolve_config_path e ''.'' ''infra'' = Inl er"
proof (rule ccontr)
  assume "\<nexists>er. resolve_config_path e ''.'' ''infra'' = Inl er"
  then obtain p b where r: "resolve_config_path e ''.'' ''infra'' = Inr (p, b)"
    by (cases "resolve_config_path e ''.'' ''infra''") auto
  have up: "to_upper ''infra'' = ''INFRA''" by code_simp
  then have "\<not> from_operator e ''infra'' p" using assms(2) by (simp add: from_operator_def)
  moreover have "path_clean ''.'' = ''.''"
    by (simp add: path_clean_def is_rooted_def has_prefix_def clean_comps_def push_comp_def render_path_def)
  then have "\<not> from_root e ''.'' ''infra'' p" using assms(1) by (auto simp: from_root_def usable_root_def)
  ultimately show False using resolve_config_path_cases(2,3) [OF r] by blast
qed

section \<open>A concrete configuration\<close>

definition ex_config_file :: module_config_file where
  "ex_config_file = \<lparr>mc_api_version = ''module.config/v1'', mc_module = ''infra'',
     mc_vars = [(''log_level'', GStr ''warn'')],
     mc_families = Some [(''git'', ''file''), (''crossplane'', ''crossplane''), (''policy'', ''pmock''), (''webhook'', ''wmock'')]\<rparr>"

definition ex_config_env :: config_env where
  "ex_config_env = \<lparr>ce_getenv = \<lambda>k. if k = ''CFG_ROOT'' then ''/etc//re/./'' else [],
     ce_stat = \<lambda>p. p = ''/etc/re/cfg_infra.yaml'',
     ce_read = \<lambda>p. if p = ''/etc/re/cfg_infra.yaml'' then Read_data ''cfg'' else Read_missing,
     ce_yaml = \<lambda>_. Inr ex_config_file, ce_wide = \<lambda>_. False\<rparr>"

definition ex_texts :: go_texts where
  "ex_texts = \<lparr>gt_dur_err = \<lambda>_. [], gt_dur = \<lambda>_. [], gt_type = \<lambda>_. []\<rparr>"

definition ex_connector :: "string \<Rightarrow> connector" where
  "ex_connector k = \<lparr>c_key = k, c_type = None, c_validate = \<lambda>_ _. None, c_required_secrets = None,
     c_execute = \<lambda>_ _ _. (None, None), c_close = None\<rparr>"

definition ex_conns :: conn_registry where
  "ex_conns = \<lparr>connectors = map (\<lambda>k. (k, ex_connector k)) [''git-file'', ''infra-crossplane'', ''policy-pmock'', ''webhook-wmock''],
     closed = False\<rparr>"

definition ex_factory :: module_factory where
  "ex_factory = \<lparr>fa_env = ex_config_env, fa_base = ''/etc/re'', fa_texts = ex_texts,
     fa_families = \<lparr>fr_registry = ex_conns, families = map (\<lambda>f. (f_name f, f)) default_families\<rparr>\<rparr>"

lemma ex_load: "config_load ex_config_env ''/etc/re'' ''infra'' = Inr ex_config_file"
  by code_simp

lemma ex_assemble: "case assemble_config_managed_module ex_factory ''infra'' of
    Inr m \<Rightarrow> map_option c_key (im_crossplane m) = Some ''infra-crossplane'' | Inl _ \<Rightarrow> False"
  by code_simp

section \<open>Properties\<close>

text \<open>C28: a module configuration is read only from where it may be. A configuration that \<open>Load\<close>
  returns is what the YAML package makes of a file that is named either by the operator's variable
  for the module, cleaned and without a parent component, or by one of the two root directories, as
  the file \<open>cfg_<module>.yaml\<close> directly in it; the module's name has no separator. The configuration
  has the supported version, is for the module asked for and has connector families.\<close>

theorem config_load_confined:
  assumes "config_load e base m = Inr c"
  shows "CHR ''/'' \<notin> set m \<and> mc_api_version c = ''module.config/v1'' \<and> mc_module c = m \<and> mc_families c \<noteq> None
    \<and> (\<exists>p d. ce_read e p = Read_data d \<and> ce_yaml e d = Inr c \<and> (from_operator e m p \<or> from_root e base m p))"
proof -
  obtain p b d where r: "resolve_config_path e base m = Inr (p, b)" "ce_read e p = Read_data d" "ce_yaml e d = Inr c"
    and v: "validate_framework_concerns c m = None" using config_load_Inr [OF assms] by blast
  have "from_operator e m p \<or> from_root e base m p" using resolve_config_path_cases(2,3) [OF r(1)] by blast
  moreover have "mc_api_version c = ''module.config/v1''" "mc_module c = m" "mc_families c \<noteq> None"
    using v by (auto simp: validate_framework_concerns_def api_version_v1_def split: if_splits)
  ultimately show ?thesis using r resolve_config_path_cases(1) [OF r(1)] by blast
qed

theorem config_load_confined_witness:
  "mc_module ex_config_file = ''infra'' \<and> (\<exists>p d. ce_read ex_config_env p = Read_data d
    \<and> (from_operator ex_config_env ''infra'' p \<or> from_root ex_config_env ''/etc/re'' ''infra'' p))"
  using config_load_confined [OF ex_load] by blast

text \<open>C29: the typed configuration is well formed. Whatever the file holds, a configuration that is
  accepted has a positive poll interval shorter than the health timeout, one of the known log
  levels, and a non-empty implementation, the one the file names, for each required family.\<close>

theorem parse_config_well_formed:
  assumes "parse_config t (Some c) = Inr cfg"
  shows "0 < iv_poll_interval (ic_vars cfg) \<and> iv_poll_interval (ic_vars cfg) < iv_health_timeout (ic_vars cfg)
    \<and> iv_log_level (ic_vars cfg) \<in> set valid_levels
    \<and> (\<forall>(f, impl) \<in> set (zip required_connector_families [cs_git (ic_connectors cfg), cs_crossplane (ic_connectors cfg),
          cs_policy (ic_connectors cfg), cs_webhook (ic_connectors cfg)]).
        impl \<noteq> [] \<and> (\<exists>m. mc_families c = Some m \<and> map_of m f = Some impl))"
proof -
  obtain vars sel where p: "parse_vars t (mc_vars c) = Inr vars" "parse_connectors (mc_families c) = Inr sel"
    and cfg: "cfg = \<lparr>ic_vars = vars, ic_connectors = sel\<rparr>"
    using assms by (auto simp: parse_config_def split: sum.splits)
  have pos: "0 < d" if "parse_duration_var t n dflt v = Inr d" "0 < dflt" for n dflt v d
    using that by (auto simp: parse_duration_var_def split: option.splits go_any.splits if_splits)
  have lvl: "l \<in> set valid_levels" if "parse_log_level t v = Inr l" for v l
    using that by (auto simp: parse_log_level_def valid_levels_def split: option.splits go_any.splits if_splits)
  have v: "0 < iv_poll_interval vars" "iv_poll_interval vars < iv_health_timeout vars" "iv_log_level vars \<in> set valid_levels"
    using p(1) pos lvl by (auto simp: parse_vars_def split: sum.splits if_splits)
  have fi: "\<exists>m. mc_families c = Some m \<and> map_of m f = Some (family_impl (mc_families c) f)"
    if "family_impl (mc_families c) f \<noteq> []" for f
    using that by (auto simp: family_impl_def split: option.splits)
  have s: "sel = \<lparr>cs_git = family_impl (mc_families c) ''git'', cs_crossplane = family_impl (mc_families c) ''crossplane'',
      cs_policy = family_impl (mc_families c) ''policy'', cs_webhook = family_impl (mc_families c) ''webhook''\<rparr>"
    "\<forall>f \<in> set required_connector_families. family_impl (mc_families c) f \<noteq> []"
    using p(2) by (auto simp: parse_connectors_def Let_def find_none split: option.splits if_splits)
  show ?thesis using v s(2) fi by (simp add: cfg s(1) required_connector_families_def)
qed

theorem parse_config_well_formed_witness:
  "\<exists>cfg. parse_config ex_texts (Some ex_config_file) = Inr cfg \<and> 0 < iv_poll_interval (ic_vars cfg)"
proof -
  have "case parse_config ex_texts (Some ex_config_file) of Inr _ \<Rightarrow> True | Inl _ \<Rightarrow> False" by code_simp
  then obtain cfg where c: "parse_config ex_texts (Some ex_config_file) = Inr cfg" by (auto split: sum.splits)
  then show ?thesis using parse_config_well_formed [OF c] by blast
qed

text \<open>The connectors of an assembled module belong to their families. After \<open>SetupFamilyRegistry\<close>,
  a module that the factory assembles is the infrastructure module, with all four connectors set,
  each registered under a key that is a member of the family it is used for; the control plane's
  connector is of the family infra, whatever the configuration calls it.\<close>

theorem assembled_connectors:
  assumes "setup_family_registry r = Inr (fa_families f)" "assemble_config_managed_module f name = Inr m"
  shows "name = ''infra'' \<and> (\<forall>(family, conn) \<in> set [(''git'', im_git m), (''infra'', im_crossplane m), (''policy'', im_policy m),
      (''webhook'', im_webhook m)]. \<exists>c fam key. conn = Some c \<and> fam \<in> set default_families \<and> f_name fam = family
        \<and> has_member fam key \<and> conn_lookup r key = Some c)"
proof -
  obtain c where n: "name = ''infra''" and a: "assemble_infra_module f c = Inr m"
    using assms(2) by (auto simp: assemble_config_managed_module_def split: sum.splits if_splits)
  have member: "\<exists>c' fam key. Some x = Some c' \<and> fam \<in> set default_families \<and> f_name fam = fa
      \<and> has_member fam key \<and> conn_lookup r key = Some c'" if "family_resolve (fa_families f) fa k = Inr x" for fa k x
    using family_resolve_member [OF assms(1) that] by blast
  have no: "\<exists>er. family_resolve (fa_families f) ''crossplane'' k = Inl er" for k
  proof -
    have "map_of (map (\<lambda>f. (f_name f, f)) default_families) ''crossplane'' = None" by (simp add: default_families_def)
    moreover have "fa_families f = \<lparr>fr_registry = r, families = map (\<lambda>f. (f_name f, f)) default_families\<rparr>"
      using assms(1) by (simp add: setup_family_registry_eq)
    ultimately show ?thesis by (simp add: family_resolve_def)
  qed
  have cp: "family_resolve (fa_families f) ''infra'' k = Inr x" if "resolve_crossplane (fa_families f) k = Inr x" for k x
    using that no [of "if is_prefixed_with_infra k then k else ''infra-'' @ k"]
    by (auto simp: resolve_crossplane_def split: sum.splits)
  obtain cfg :: infra_config and git pol web cro where p:
      "family_resolve (fa_families f) ''git'' (cs_git (ic_connectors cfg)) = Inr git"
      "family_resolve (fa_families f) ''policy'' (cs_policy (ic_connectors cfg)) = Inr pol"
      "family_resolve (fa_families f) ''webhook'' (cs_webhook (ic_connectors cfg)) = Inr web"
      "resolve_crossplane (fa_families f) (cs_crossplane (ic_connectors cfg)) = Inr cro"
      "new_module (ic_vars cfg) (Some git) (Some cro) (Some pol) (Some web) = Inr m"
    using a by (auto simp: assemble_infra_module_def Let_def split: sum.splits)
  have "im_git m = Some git" "im_crossplane m = Some cro" "im_policy m = Some pol" "im_webhook m = Some web"
    using p(5) by (auto simp: new_module_def)
  then show ?thesis
    using n member [OF p(1)] member [OF cp [OF p(4)]] member [OF p(2)] member [OF p(3)] by simp
qed

theorem assembled_connectors_witness:
  "\<exists>m c. assemble_config_managed_module ex_factory ''infra'' = Inr m \<and> im_git m = Some c"
proof -
  obtain m where m: "assemble_config_managed_module ex_factory ''infra'' = Inr m"
    using ex_assemble by (auto split: sum.splits)
  have "setup_family_registry ex_conns = Inr (fa_families ex_factory)"
    by (simp add: setup_family_registry_eq ex_factory_def)
  from assembled_connectors [OF this m] have "\<exists>c. im_git m = Some c" by auto
  then show ?thesis using m by blast
qed

text \<open>Without configuration variables there is no infrastructure module. The bootstrap then takes
  the current directory as the base path, of which no joined path has the prefix the loader checks:
  every lookup of a key of the module fails, whatever files there are.\<close>

theorem default_bootstrap_without_infra:
  assumes "ce_getenv e ''CFG_ROOT'' = []" "ce_getenv e ''CFG_PATH_INFRA'' = []"
    "bootstrap_with_config e t fr = Inr reg" "extract_module_name key = ''infra''"
  shows "dynamic_lookup reg key version = (None, reg)"
proof -
  obtain er where "resolve_config_path e ''.'' ''infra'' = Inl er" using resolve_dot_base [OF assms(1,2)] by blast
  then have l: "config_load e ''.'' ''infra'' = Inl er" by (simp add: config_load_def)
  have "fa_env (re_factory (dr_resolver reg)) = e" "fa_base (re_factory (dr_resolver reg)) = ''.''"
    using assms(1,3) by (auto simp: bootstrap_with_config_def new_config_aware_module_resolver_def Let_def
        split: sum.splits)
  then show ?thesis
    using l assms(4) by (simp add: dynamic_lookup_def resolve_module_def is_config_managed_module_def
        resolve_config_managed_module_def assemble_config_managed_module_def)
qed

theorem default_bootstrap_without_infra_witness:
  "\<exists>reg. bootstrap_with_config (ex_config_env\<lparr>ce_getenv := \<lambda>_. []\<rparr>) ex_texts (fa_families ex_factory) = Inr reg
     \<and> dynamic_lookup reg ''infra.provision'' ''latest'' = (None, reg)"
proof -
  obtain reg where r: "bootstrap_with_config (ex_config_env\<lparr>ce_getenv := \<lambda>_. []\<rparr>) ex_texts (fa_families ex_factory) = Inr reg"
    by (auto simp: bootstrap_with_config_def new_config_aware_module_resolver_def new_default_module_registry_def
        module_register_def Let_def)
  have "dynamic_lookup reg ''infra.provision'' ''latest'' = (None, reg)"
    by (rule default_bootstrap_without_infra [OF _ _ r]) (simp_all add: extract_module_name_def)
  then show ?thesis using r by blast
qed

end
