(* ===== verification/Dora.thy ===== *)
theory Dora
  imports RE_Prelude Complex_Main
begin

text \<open>
  Normalisation of provider webhooks into DORA events: \<open>src/internal/dora\<close>. What \<open>json.Unmarshal\<close>
  makes of a body for each of the payload structures, and \<open>time.Parse\<close> with the RFC 3339 layout, are
  functions of the record \<open>dora_json\<close>; \<open>time.Now\<close> is an argument.
\<close>

section \<open>Events\<close>

record dora_event =
  ev_tenant_id :: string
  ev_event_type :: string
  ev_event_source :: string
  ev_service_ref :: string
  ev_environment :: string
  ev_correlation_key :: string
  ev_source_event_id :: string
  ev_timestamp :: time
  ev_payload :: "go_map option"

text \<open>\<open>time.Time{}\<close>, the first of January of the year 1.\<close>

definition unset_time :: time where
  "unset_time = - 62135596800 * second"

definition dora_event_types :: "string list" where
  "dora_event_types = [''deployment.succeeded'', ''deployment.failed'', ''commit.pushed'', ''commit.merged'',
     ''incident.opened'', ''incident.resolved'', ''rollback.completed'']"

definition validate_event :: "dora_event \<Rightarrow> string option" where
  "validate_event e =
     (if trim_space (ev_tenant_id e) = [] then Some ''tenant_id is required''
      else if trim_space (ev_service_ref e) = [] then Some ''service_ref is required''
      else if trim_space (ev_event_source e) = [] then Some ''event_source is required''
      else if ev_timestamp e = unset_time then Some ''event_timestamp is required''
      else if ev_event_type e \<in> set dora_event_types then None
      else Some (''unsupported event_type: '' @ ev_event_type e))"

section \<open>Payloads\<close>

record push_commit =
  pc_id :: string
  pc_timestamp :: string
  pc_message :: string

record push_payload =
  pu_ref :: string
  pu_commits :: "push_commit list"

record pull_request_payload =
  pr_action :: string
  pr_merged :: bool
  pr_merged_at :: string
  pr_merge_commit_sha :: string
  pr_head_sha :: string

record merge_request_payload =
  mq_state :: string
  mq_merged_at :: string
  mq_merge_commit_sha :: string
  mq_last_commit :: string

record datadog_payload =
  dd_event_type :: string
  dd_id :: string
  dd_status :: string
  dd_created_at :: string
  dd_updated_at :: string

record opsgenie_payload =
  og_action :: string
  og_id :: string
  og_created_at :: string
  og_updated_at :: string

record dora_json =
  dj_push :: "string \<Rightarrow> string + push_payload"
  dj_pull_request :: "string \<Rightarrow> string + pull_request_payload"
  dj_merge_request :: "string \<Rightarrow> string + merge_request_payload"
  dj_datadog :: "string \<Rightarrow> string + datadog_payload"
  dj_opsgenie :: "string \<Rightarrow> string + opsgenie_payload"
  dj_rfc3339 :: "string \<Rightarrow> string + time"

type_synonym headers = "(string \<times> string) list"

definition header :: "headers \<Rightarrow> string \<Rightarrow> string" where
  "header hs k = trim_space (case map_of hs k of None \<Rightarrow> [] | Some v \<Rightarrow> v)"

section \<open>Source control\<close>

text \<open>The normalisers of GitHub and GitLab have the same push loop; \<open>source\<close> is the provider, which
  also stands in their error texts.\<close>

definition source_id :: "string \<Rightarrow> string \<Rightarrow> string" where
  "source_id delivery tail = (if delivery \<noteq> [] then delivery @ '':'' @ tail else [])"

definition push_event ::
  "string \<Rightarrow> string \<Rightarrow> string \<Rightarrow> string \<Rightarrow> string \<Rightarrow> nat \<Rightarrow> push_commit \<Rightarrow> time \<Rightarrow> dora_event" where
  "push_event source tenant service delivery ref i c t =
     (let sha = trim_space (pc_id c) in
      \<lparr>ev_tenant_id = tenant, ev_event_type = ''commit.pushed'', ev_event_source = source, ev_service_ref = service,
       ev_environment = [], ev_correlation_key = sha,
       ev_source_event_id = source_id (trim_space delivery) (''commit.pushed:'' @ sha @ '':'' @ nat_str i),
       ev_timestamp = t,
       ev_payload = Some [(''sha'', GStr sha), (''ref'', GStr ref), (''message'', GStr (pc_message c))]\<rparr>)"

fun push_events ::
  "dora_json \<Rightarrow> time \<Rightarrow> string \<Rightarrow> string \<Rightarrow> string \<Rightarrow> string \<Rightarrow> string \<Rightarrow> nat \<Rightarrow> push_commit list
     \<Rightarrow> string + dora_event list" where
  "push_events j now source tenant service delivery ref i [] = Inr []"
| "push_events j now source tenant service delivery ref i (c # cs) =
     (if trim_space (pc_id c) = [] then push_events j now source tenant service delivery ref (Suc i) cs
      else case (if trim_space (pc_timestamp c) \<noteq> [] then dj_rfc3339 j (pc_timestamp c) else Inr now) of
        Inl e \<Rightarrow> Inl (''parse '' @ source @ '' push commit timestamp: '' @ e)
      | Inr t \<Rightarrow>
          (case push_events j now source tenant service delivery ref (Suc i) cs of
             Inl e \<Rightarrow> Inl e
           | Inr es \<Rightarrow> Inr (push_event source tenant service delivery ref i c t # es)))"

definition normalize_push ::
  "dora_json \<Rightarrow> time \<Rightarrow> string \<Rightarrow> string \<Rightarrow> string \<Rightarrow> string \<Rightarrow> string \<Rightarrow> string + dora_event list" where
  "normalize_push j now source tenant service delivery body =
     (case dj_push j body of
        Inl e \<Rightarrow> Inl (''parse '' @ source @ '' push payload: '' @ e)
      | Inr p \<Rightarrow> push_events j now source tenant service delivery (pu_ref p) 0 (pu_commits p))"

definition merged_event ::
  "string \<Rightarrow> string \<Rightarrow> string \<Rightarrow> string \<Rightarrow> string \<Rightarrow> time \<Rightarrow> dora_event" where
  "merged_event source tenant service delivery sha t =
     \<lparr>ev_tenant_id = tenant, ev_event_type = ''commit.merged'', ev_event_source = source, ev_service_ref = service,
      ev_environment = [], ev_correlation_key = sha,
      ev_source_event_id = source_id (trim_space delivery) (''commit.merged:'' @ sha),
      ev_timestamp = t, ev_payload = Some [(''sha'', GStr sha)]\<rparr>"

definition normalize_merged ::
  "dora_json \<Rightarrow> time \<Rightarrow> string \<Rightarrow> string \<Rightarrow> string \<Rightarrow> string \<Rightarrow> string \<Rightarrow> string \<Rightarrow> string \<Rightarrow> string
     \<Rightarrow> string + dora_event list" where
  "normalize_merged j now source what tenant service delivery merge_sha head_sha merged_at =
     (let sha = (if trim_space merge_sha \<noteq> [] then trim_space merge_sha else trim_space head_sha) in
      if sha = [] then Inl (source @ '' '' @ what @ '' merged event missing commit sha'')
      else case (if trim_space merged_at \<noteq> [] then dj_rfc3339 j merged_at else Inr now) of
        Inl e \<Rightarrow> Inl (''parse '' @ source @ '' '' @ what @ '' merged_at: '' @ e)
      | Inr t \<Rightarrow> Inr [merged_event source tenant service delivery sha t])"

definition normalize_github_pull_request ::
  "dora_json \<Rightarrow> time \<Rightarrow> string \<Rightarrow> string \<Rightarrow> string \<Rightarrow> string \<Rightarrow> string + dora_event list" where
  "normalize_github_pull_request j now tenant service delivery body =
     (case dj_pull_request j body of
        Inl e \<Rightarrow> Inl (''parse github pull_request payload: '' @ e)
      | Inr p \<Rightarrow>
          if \<not> equal_fold (pr_action p) ''closed'' \<or> \<not> pr_merged p then Inr []
          else normalize_merged j now ''github'' ''pull_request'' tenant service delivery
                 (pr_merge_commit_sha p) (pr_head_sha p) (pr_merged_at p))"

definition github_normalize ::
  "dora_json \<Rightarrow> time \<Rightarrow> string \<Rightarrow> string \<Rightarrow> headers \<Rightarrow> string \<Rightarrow> string + dora_event list" where
  "github_normalize j now tenant service hs body =
     (let kind = header hs ''x-github-event''; delivery = header hs ''x-github-delivery'' in
      if kind = ''push'' then normalize_push j now ''github'' tenant service delivery body
      else if kind = ''pull_request'' then normalize_github_pull_request j now tenant service delivery body
      else Inr [])"

definition normalize_gitlab_merge_request ::
  "dora_json \<Rightarrow> time \<Rightarrow> string \<Rightarrow> string \<Rightarrow> string \<Rightarrow> string \<Rightarrow> string + dora_event list" where
  "normalize_gitlab_merge_request j now tenant service delivery body =
     (case dj_merge_request j body of
        Inl e \<Rightarrow> Inl (''parse gitlab merge request payload: '' @ e)
      | Inr p \<Rightarrow>
          if \<not> equal_fold (mq_state p) ''merged'' then Inr []
          else normalize_merged j now ''gitlab'' ''merge request'' tenant service delivery
                 (mq_merge_commit_sha p) (mq_last_commit p) (mq_merged_at p))"

definition gitlab_normalize ::
  "dora_json \<Rightarrow> time \<Rightarrow> string \<Rightarrow> string \<Rightarrow> headers \<Rightarrow> string \<Rightarrow> string + dora_event list" where
  "gitlab_normalize j now tenant service hs body =
     (let kind = header hs ''x-gitlab-event''; delivery = header hs ''x-gitlab-delivery'' in
      if equal_fold kind ''Push Hook'' then normalize_push j now ''gitlab'' tenant service delivery body
      else if equal_fold kind ''Merge Request Hook'' then normalize_gitlab_merge_request j now tenant service delivery body
      else Inr [])"

section \<open>Incidents\<close>

text \<open>\<open>if parsed, err := time.Parse(...); err == nil\<close>: a text that does not parse is ignored.\<close>

definition time_or :: "dora_json \<Rightarrow> string \<Rightarrow> time \<Rightarrow> time" where
  "time_or j raw t =
     (if trim_space raw \<noteq> [] then (case dj_rfc3339 j (trim_space raw) of Inl _ \<Rightarrow> t | Inr t' \<Rightarrow> t') else t)"

definition first_header :: "headers \<Rightarrow> string list \<Rightarrow> string" where
  "first_header hs ks = (case filter (\<lambda>k. header hs k \<noteq> []) ks of [] \<Rightarrow> [] | k # _ \<Rightarrow> header hs k)"

definition incident_event ::
  "string \<Rightarrow> string \<Rightarrow> string \<Rightarrow> string \<Rightarrow> string \<Rightarrow> string \<Rightarrow> time \<Rightarrow> go_map \<Rightarrow> dora_event" where
  "incident_event source tenant service kind delivery incident t payload =
     \<lparr>ev_tenant_id = tenant, ev_event_type = kind, ev_event_source = source, ev_service_ref = service,
      ev_environment = [], ev_correlation_key = incident,
      ev_source_event_id = source_id delivery (kind @ '':'' @ incident),
      ev_timestamp = t, ev_payload = Some payload\<rparr>"

definition datadog_kind :: "string \<Rightarrow> string \<Rightarrow> string option" where
  "datadog_kind status hint =
     (if contains_sub hint ''resolve'' \<or> contains_sub status ''resolved'' \<or> contains_sub status ''ok''
      then Some ''incident.resolved''
      else if contains_sub hint ''open'' \<or> contains_sub hint ''trigger'' \<or> contains_sub status ''trigger''
        \<or> contains_sub status ''alert''
      then Some ''incident.opened'' else None)"

definition datadog_normalize ::
  "dora_json \<Rightarrow> time \<Rightarrow> string \<Rightarrow> string \<Rightarrow> headers \<Rightarrow> string \<Rightarrow> string + dora_event list" where
  "datadog_normalize j now tenant service hs body =
     (case dj_datadog j body of
        Inl e \<Rightarrow> Inl (''parse datadog payload: '' @ e)
      | Inr p \<Rightarrow>
          let incident = trim_space (dd_id p); t = time_or j (dd_created_at p) now in
          if incident = [] then Inl ''datadog payload missing id''
          else case datadog_kind (to_lower (trim_space (dd_status p))) (to_lower (trim_space (dd_event_type p))) of
            None \<Rightarrow> Inr []
          | Some kind \<Rightarrow>
              Inr [incident_event ''datadog'' tenant service kind
                (first_header hs [''dd-request-id'', ''x-datadog-request-id'', ''x-datadog-delivery'']) incident
                (if kind = ''incident.resolved'' then time_or j (dd_updated_at p) t else t)
                [(''incident_id'', GStr incident), (''status'', GStr (dd_status p)), (''event_type'', GStr (dd_event_type p))]])"

definition opsgenie_kind :: "string \<Rightarrow> string option" where
  "opsgenie_kind action =
     (if action \<in> {''create'', ''created'', ''opened'', ''open''} then Some ''incident.opened''
      else if action \<in> {''close'', ''closed'', ''resolved'', ''acknowledged''} then Some ''incident.resolved'' else None)"

definition opsgenie_normalize ::
  "dora_json \<Rightarrow> time \<Rightarrow> string \<Rightarrow> string \<Rightarrow> headers \<Rightarrow> string \<Rightarrow> string + dora_event list" where
  "opsgenie_normalize j now tenant service hs body =
     (case dj_opsgenie j body of
        Inl e \<Rightarrow> Inl (''parse opsgenie payload: '' @ e)
      | Inr p \<Rightarrow>
          let incident = trim_space (og_id p); t = time_or j (og_created_at p) now in
          if incident = [] then Inl ''opsgenie payload missing alert id''
          else case opsgenie_kind (to_lower (trim_space (og_action p))) of
            None \<Rightarrow> Inr []
          | Some kind \<Rightarrow>
              Inr [incident_event ''opsgenie'' tenant service kind
                (first_header hs [''x-request-id'', ''x-opsgenie-webhook-id'', ''x-opsgenie-delivery'']) incident
                (if kind = ''incident.resolved'' then time_or j (og_updated_at p) t else t)
                [(''incident_id'', GStr incident), (''action'', GStr (og_action p))]])"

section \<open>The registry\<close>

type_synonym normalizer =
  "dora_json \<Rightarrow> time \<Rightarrow> string \<Rightarrow> string \<Rightarrow> headers \<Rightarrow> string \<Rightarrow> string + dora_event list"

definition norm_resolve :: "(string \<times> normalizer) list \<Rightarrow> string \<Rightarrow> normalizer option" where
  "norm_resolve r provider = map_of r (to_lower (trim_space provider))"

text \<open>A second registration for the same provider panics (\<open>None\<close>).\<close>

definition norm_register ::
  "string \<times> normalizer \<Rightarrow> (string \<times> normalizer) list \<Rightarrow> (string \<times> normalizer) list option" where
  "norm_register n r =
     (let provider = to_lower (trim_space (fst n)) in
      case map_of r provider of Some _ \<Rightarrow> None | None \<Rightarrow> Some (alist_put provider (snd n) r))"

definition default_normalizers :: "(string \<times> normalizer) list" where
  "default_normalizers = [(''github'', github_normalize), (''gitlab'', gitlab_normalize),
     (''opsgenie'', opsgenie_normalize), (''datadog'', datadog_normalize)]"

definition new_dora_registry :: "(string \<times> normalizer) list option" where
  "new_dora_registry = foldl (\<lambda>r n. Option.bind r (norm_register n)) (Some []) default_normalizers"

section \<open>Lemmas\<close>

lemma new_dora_registry_eq: "new_dora_registry = Some default_normalizers"
proof -
  have "to_lower (trim_space s) = s" if "s \<in> {''github'', ''gitlab'', ''opsgenie'', ''datadog''}" for s
    using that by (elim insertE) (simp_all add: to_lower_def lower_char_def trim_space_def is_space_def)
  then show ?thesis
    by (simp add: new_dora_registry_def default_normalizers_def norm_register_def)
qed

text \<open>What the events of a webhook have in common: tenant and service of the request, a supported
  type, a correlation key, and a source id unless the delivery has none.\<close>

definition event_of :: "string \<Rightarrow> string \<Rightarrow> dora_event \<Rightarrow> bool" where
  "event_of tenant service e \<longleftrightarrow> ev_tenant_id e = tenant \<and> ev_service_ref e = service
     \<and> ev_event_type e \<in> set dora_event_types \<and> trim_space (ev_event_source e) \<noteq> [] \<and> ev_correlation_key e \<noteq> []"

lemma source_names [simp]:
  "trim_space ''github'' \<noteq> []" "trim_space ''gitlab'' \<noteq> []" "trim_space ''datadog'' \<noteq> []" "trim_space ''opsgenie'' \<noteq> []"
  by (simp_all add: trim_space_def is_space_def)

lemma event_kinds [simp]:
  "''commit.pushed'' \<in> set dora_event_types" "''commit.merged'' \<in> set dora_event_types"
  "''incident.opened'' \<in> set dora_event_types" "''incident.resolved'' \<in> set dora_event_types"
  by (simp_all add: dora_event_types_def)

lemma push_event_of [simp]:
  "event_of tenant service (push_event source tenant service delivery ref i c t)
     \<longleftrightarrow> trim_space source \<noteq> [] \<and> trim_space (pc_id c) \<noteq> []"
  "ev_event_source (push_event source tenant service delivery ref i c t) = source"
  by (simp_all add: event_of_def push_event_def Let_def)

lemma merged_event_of [simp]:
  "event_of tenant service (merged_event source tenant service delivery sha t)
     \<longleftrightarrow> trim_space source \<noteq> [] \<and> sha \<noteq> []"
  "ev_event_source (merged_event source tenant service delivery sha t) = source"
  by (simp_all add: event_of_def merged_event_def)

lemma incident_event_of [simp]:
  "event_of tenant service (incident_event source tenant service kind delivery incident t payload)
     \<longleftrightarrow> kind \<in> set dora_event_types \<and> trim_space source \<noteq> [] \<and> incident \<noteq> []"
  "ev_event_source (incident_event source tenant service kind delivery incident t payload) = source"
  by (simp_all add: event_of_def incident_event_def)

lemma push_events_of:
  "push_events j now source tenant service delivery ref i cs = Inr es \<Longrightarrow> trim_space source \<noteq> []
     \<Longrightarrow> \<forall>e\<in>set es. event_of tenant service e \<and> ev_event_source e = source"
proof (induction cs arbitrary: i es)
  case (Cons c cs)
  show ?case
  proof (cases "trim_space (pc_id c) = []")
    case True
    then show ?thesis using Cons by simp
  next
    case False
    then obtain t es' where "push_events j now source tenant service delivery ref (Suc i) cs = Inr es'"
      "es = push_event source tenant service delivery ref i c t # es'"
      using Cons.prems(1) by (auto split: sum.splits)
    then show ?thesis using Cons.IH Cons.prems(2) False by simp
  qed
qed simp

lemma merged_events_of:
  "normalize_merged j now source what tenant service delivery a b c = Inr es \<Longrightarrow> trim_space source \<noteq> []
     \<Longrightarrow> \<forall>e\<in>set es. event_of tenant service e \<and> ev_event_source e = source"
  by (simp add: normalize_merged_def Let_def split: if_split_asm sum.split_asm) force+

lemma datadog_kinds: "datadog_kind s h = Some k \<Longrightarrow> k \<in> set dora_event_types"
  by (simp add: datadog_kind_def split: if_split_asm) force+

lemma opsgenie_kinds: "opsgenie_kind a = Some k \<Longrightarrow> k \<in> set dora_event_types"
  by (simp add: opsgenie_kind_def split: if_split_asm) force+

lemma normalize_push_of:
  "normalize_push j now source tenant service delivery body = Inr es \<Longrightarrow> trim_space source \<noteq> []
     \<Longrightarrow> \<forall>e\<in>set es. event_of tenant service e \<and> ev_event_source e = source"
  by (simp add: normalize_push_def push_events_of split: sum.split_asm)

lemma github_events_of:
  assumes "github_normalize j now tenant service hs body = Inr es"
  shows "\<forall>e\<in>set es. event_of tenant service e \<and> ev_event_source e = ''github''"
proof -
  have "\<forall>e\<in>set es. event_of tenant service e \<and> ev_event_source e = ''github''"
    if "normalize_github_pull_request j now tenant service delivery body = Inr es" for delivery
    using that merged_events_of [OF _ source_names(1)]
    by (simp add: normalize_github_pull_request_def split: sum.split_asm if_split_asm)
  then show ?thesis
    using assms normalize_push_of [OF _ source_names(1)]
    by (simp add: github_normalize_def Let_def split: if_split_asm)
qed

lemma gitlab_events_of:
  assumes "gitlab_normalize j now tenant service hs body = Inr es"
  shows "\<forall>e\<in>set es. event_of tenant service e \<and> ev_event_source e = ''gitlab''"
proof -
  have "\<forall>e\<in>set es. event_of tenant service e \<and> ev_event_source e = ''gitlab''"
    if "normalize_gitlab_merge_request j now tenant service delivery body = Inr es" for delivery
    using that merged_events_of [OF _ source_names(2)]
    by (simp add: normalize_gitlab_merge_request_def split: sum.split_asm if_split_asm)
  then show ?thesis
    using assms normalize_push_of [OF _ source_names(2)]
    by (simp add: gitlab_normalize_def Let_def split: if_split_asm)
qed

lemma datadog_events_of:
  "datadog_normalize j now tenant service hs body = Inr es
     \<Longrightarrow> \<forall>e\<in>set es. event_of tenant service e \<and> ev_event_source e = ''datadog''"
  using datadog_kinds by (simp add: datadog_normalize_def Let_def split: sum.split_asm if_split_asm option.split_asm) force+

lemma opsgenie_events_of:
  "opsgenie_normalize j now tenant service hs body = Inr es
     \<Longrightarrow> \<forall>e\<in>set es. event_of tenant service e \<and> ev_event_source e = ''opsgenie''"
  using opsgenie_kinds by (simp add: opsgenie_normalize_def Let_def split: sum.split_asm if_split_asm option.split_asm) force+

lemma normalizer_event_of:
  assumes "(provider, n) \<in> set default_normalizers" "n j now tenant service hs body = Inr es" "e \<in> set es"
  shows "event_of tenant service e \<and> ev_event_source e = provider"
  using assms github_events_of gitlab_events_of datadog_events_of opsgenie_events_of
  unfolding default_normalizers_def list.set insert_iff prod.inject empty_iff by (elim disjE conjE FalseE) simp_all

end
