(* ===== verification/Dora_Store.thy ===== *)
theory Dora_Store
  imports Dora
begin

text \<open>
  The tables of \<open>src/internal/db/schema.go\<close> behind the DORA handler and the metrics writer, the
  statements both send, and the environment of a request: connections that may not be available,
  statements that fail before or after the server has applied them, and what other sessions do
  between two statements. The materialised views are tables of their own, since nothing in the
  source refreshes them.
\<close>

section \<open>Tables\<close>

record dora_row =
  dr_id :: string
  dr_tenant_id :: string
  dr_event_type :: string
  dr_event_source :: string
  dr_service_ref :: "string option"
  dr_environment :: "string option"
  dr_correlation_key :: "string option"
  dr_source_event_id :: "string option"
  dr_timestamp :: time
  dr_payload :: string

record dead_letter =
  dl_id :: string
  dl_tenant_id :: string
  dl_provider :: string
  dl_source_event_id :: "string option"
  dl_headers :: go_any
  dl_body :: string
  dl_failure_reason :: go_map
  dl_created_at :: time
  dl_replayed_at :: "time option"
  dl_replay_job_id :: "string option"

record group_brand =
  gb_group_id :: string
  gb_brand_id :: string
  gb_tenant_id :: string
  gb_classification_version :: string
  gb_last_synced_at :: time

record commit_link =
  ln_tenant_id :: string
  ln_service_ref :: string
  ln_commit_sha :: string
  ln_deployment_id :: string
  ln_outcome :: string
  ln_time :: time

record job_event =
  je_ts :: time
  je_tenant_id :: string
  je_job_id :: string
  je_path_key :: string
  je_event :: string
  je_attempt :: int
  je_run_id :: string
  je_code :: string
  je_duration_ms :: int
  je_labels :: string

record frequency_day =
  fq_tenant_id :: string
  fq_service_ref :: "string option"
  fq_environment :: "string option"
  fq_bucket :: time
  fq_success_count :: nat
  fq_failure_count :: nat

record incident_day =
  dy_tenant_id :: string
  dy_service_ref :: "string option"
  dy_bucket :: time
  dy_resolved_count :: nat
  dy_p50_restore_seconds :: rat

record dora_db =
  dora_events :: "dora_row list"
  dead_letters :: "dead_letter list"
  group_brand_map :: "group_brand list"
  commit_links :: "commit_link list"
  metrics_job_events :: "job_event list"
  frequency_daily :: "frequency_day list"
  incidents_daily :: "incident_day list"

definition empty_dora_db :: dora_db where
  "empty_dora_db = \<lparr>dora_events = [], dead_letters = [], group_brand_map = [], commit_links = [],
     metrics_job_events = [], frequency_daily = [], incidents_daily = []\<rparr>"

definition deployment_types :: "string list" where
  "deployment_types = [''deployment.succeeded'', ''deployment.failed'']"

section \<open>Unique indexes\<close>

text \<open>\<open>NULL\<close> is not equal to \<open>NULL\<close> in a unique index.\<close>

definition sql_eq :: "'a option \<Rightarrow> 'a option \<Rightarrow> bool" where
  "sql_eq a b \<longleftrightarrow> a \<noteq> None \<and> a = b"

definition same_source_event :: "dora_row \<Rightarrow> dora_row \<Rightarrow> bool" where
  "same_source_event r x \<longleftrightarrow> dr_tenant_id r = dr_tenant_id x \<and> dr_event_source r = dr_event_source x
     \<and> sql_eq (dr_source_event_id r) (dr_source_event_id x)"

definition same_deployment :: "dora_row \<Rightarrow> dora_row \<Rightarrow> bool" where
  "same_deployment r x \<longleftrightarrow> dr_event_type r \<in> set deployment_types \<and> dr_event_type r = dr_event_type x
     \<and> dr_tenant_id r = dr_tenant_id x \<and> sql_eq (dr_service_ref r) (dr_service_ref x)
     \<and> sql_eq (dr_environment r) (dr_environment x) \<and> sql_eq (dr_correlation_key r) (dr_correlation_key x)"

definition row_conflict :: "dora_row \<Rightarrow> dora_row \<Rightarrow> bool" where
  "row_conflict r x \<longleftrightarrow> dr_id r = dr_id x \<or> same_source_event r x \<or> same_deployment r x"

text \<open>The table's constraints: supported types, and no two rows in conflict.\<close>

fun no_conflicts :: "dora_row list \<Rightarrow> bool" where
  "no_conflicts [] = True"
| "no_conflicts (r # rs) = (list_all (\<lambda>x. \<not> row_conflict x r) rs \<and> no_conflicts rs)"

definition events_ok :: "dora_row list \<Rightarrow> bool" where
  "events_ok rs \<longleftrightarrow> no_conflicts rs \<and> list_all (\<lambda>r. dr_event_type r \<in> set dora_event_types) rs"

section \<open>Statements\<close>

text \<open>\<open>INSERT INTO dora_events ... ON CONFLICT DO NOTHING\<close>; the answer is the id of the new row.\<close>

definition insert_event_stmt :: "dora_row \<Rightarrow> time \<Rightarrow> dora_db \<Rightarrow> string + (string option \<times> dora_db)" where
  "insert_event_stmt r t d =
     (if dr_event_type r \<notin> set dora_event_types
      then Inl ''new row for relation dora_events violates check constraint dora_events_type_check''
      else if list_ex (row_conflict r) (dora_events d) then Inr (None, d)
      else Inr (Some (dr_id r), d\<lparr>dora_events := dora_events d @ [r]\<rparr>))"

definition insert_dead_letter_stmt :: "dead_letter \<Rightarrow> time \<Rightarrow> dora_db \<Rightarrow> string + (string \<times> dora_db)" where
  "insert_dead_letter_stmt r t d =
     (if dl_id r \<in> set (map dl_id (dead_letters d))
      then Inl ''duplicate key value violates unique constraint dora_webhook_dead_letter_pkey''
      else Inr (dl_id r, d\<lparr>dead_letters := dead_letters d @ [r\<lparr>dl_created_at := t\<rparr>]\<rparr>))"

definition select_dead_letter :: "string \<Rightarrow> string \<Rightarrow> dora_db \<Rightarrow> dead_letter option" where
  "select_dead_letter i tenant d =
     List.find (\<lambda>r. dl_id r = i \<and> dl_tenant_id r = tenant) (dead_letters d)"

definition mark_replayed :: "string \<Rightarrow> time \<Rightarrow> dead_letter \<Rightarrow> dead_letter" where
  "mark_replayed job t r = r\<lparr>dl_replayed_at := Some t,
     dl_replay_job_id := Some (case dl_replay_job_id r of None \<Rightarrow> job | Some j \<Rightarrow> j)\<rparr>"

text \<open>\<open>UPDATE dora_webhook_dead_letter ... WHERE ... AND replayed_at IS NULL RETURNING\<close>: no row is
  an error of \<open>Scan\<close>.\<close>

definition mark_replayed_stmt ::
  "string \<Rightarrow> string \<Rightarrow> string \<Rightarrow> time \<Rightarrow> dora_db \<Rightarrow> string + (string \<times> dora_db)" where
  "mark_replayed_stmt i tenant job t d =
     (let P = (\<lambda>r. dl_id r = i \<and> dl_tenant_id r = tenant \<and> dl_replayed_at r = None);
          f = mark_replayed job t
      in case List.find P (dead_letters d) of
           None \<Rightarrow> Inl ''no rows in result set''
         | Some r \<Rightarrow> Inr (the (dl_replay_job_id (f r)), d\<lparr>dead_letters := update_rows P f (dead_letters d)\<rparr>))"

definition last_synced :: "string \<Rightarrow> string \<Rightarrow> dora_db \<Rightarrow> time option" where
  "last_synced tenant grp d =
     (case map gb_last_synced_at (filter (\<lambda>g. gb_tenant_id g = tenant \<and> gb_group_id g = grp) (group_brand_map d)) of
        [] \<Rightarrow> None | t # ts \<Rightarrow> Some (fold max ts t))"

section \<open>The environment of a request\<close>

record dora_env =
  de_pool :: bool
  de_acquire :: "nat \<Rightarrow> string option"
  de_fault :: "nat \<Rightarrow> (bool \<times> string) option"
  de_gap :: "nat \<Rightarrow> dora_db \<Rightarrow> dora_db"
  de_time :: "nat \<Rightarrow> time"
  de_uuid :: "nat \<Rightarrow> string"
  de_now :: time
  de_json_error :: "string option"
  de_rows :: "nat option"
  de_marshal :: "go_map \<Rightarrow> string + string"
  de_atoi :: "string \<Rightarrow> int option"
  de_parsers :: dora_json

definition dora_exec ::
  "dora_env \<Rightarrow> nat \<Rightarrow> (time \<Rightarrow> dora_db \<Rightarrow> string + ('a \<times> dora_db)) \<Rightarrow> dora_db \<Rightarrow> (string + 'a) \<times> dora_db" where
  "dora_exec env k f d =
     (let d1 = de_gap env k d in
      case de_fault env k of
        Some (applied, e) \<Rightarrow>
          (Inl e, if applied then (case f (de_time env k) d1 of Inl _ \<Rightarrow> d1 | Inr (_, d2) \<Rightarrow> d2) else d1)
      | None \<Rightarrow> (case f (de_time env k) d1 of Inl e \<Rightarrow> (Inl e, d1) | Inr (a, d2) \<Rightarrow> (Inr a, d2)))"

text \<open>A query: the answer depends on the tables, which it leaves as they are.\<close>

definition dora_query :: "dora_env \<Rightarrow> nat \<Rightarrow> (dora_db \<Rightarrow> string + 'a) \<Rightarrow> dora_db \<Rightarrow> (string + 'a) \<times> dora_db" where
  "dora_query env k f d =
     dora_exec env k (\<lambda>t d. case f d of Inl e \<Rightarrow> Inl e | Inr a \<Rightarrow> Inr (a, d)) d"

text \<open>A database that answers, with nobody else writing.\<close>

definition quiet_dora :: "dora_env \<Rightarrow> bool" where
  "quiet_dora env \<longleftrightarrow> de_pool env \<and> (\<forall>k. de_acquire env k = None) \<and> (\<forall>k. de_fault env k = None)
     \<and> (\<forall>k d. de_gap env k d = d)"

section \<open>Lemmas\<close>

lemma dora_exec_quiet:
  "quiet_dora env \<Longrightarrow> dora_exec env k f d =
     (case f (de_time env k) d of Inl e \<Rightarrow> (Inl e, d) | Inr (a, d2) \<Rightarrow> (Inr a, d2))"
  by (simp add: dora_exec_def quiet_dora_def)

lemma dora_query_quiet:
  "quiet_dora env \<Longrightarrow> dora_query env k f d = (f d, d)"
  by (simp add: dora_query_def dora_exec_quiet split: sum.split)

lemma dora_query_db: "snd (dora_query env k f d) = de_gap env k d"
  by (simp add: dora_query_def dora_exec_def Let_def split: option.split sum.split)

lemma no_conflicts_snoc:
  "no_conflicts (rs @ [r]) \<longleftrightarrow> no_conflicts rs \<and> \<not> list_ex (row_conflict r) rs"
  by (induction rs) (auto simp: list_ex_iff list_all_iff)

lemma insert_event_keeps_ok:
  "insert_event_stmt r t d = Inr (a, d') \<Longrightarrow> events_ok (dora_events d) \<Longrightarrow> events_ok (dora_events d')"
  by (auto simp: insert_event_stmt_def events_ok_def no_conflicts_snoc split: if_splits)

text \<open>After an insert the table has the row or one in conflict with it, and every earlier row.\<close>

lemma insert_event_covers:
  assumes "insert_event_stmt r t d = Inr (a, d')"
  shows "list_ex (row_conflict r) (dora_events d')" "set (dora_events d) \<subseteq> set (dora_events d')"
  using assms by (auto simp: insert_event_stmt_def row_conflict_def list_ex_iff split: if_splits)

lemma insert_event_noop:
  "list_ex (row_conflict r) (dora_events d) \<Longrightarrow> dr_event_type r \<in> set dora_event_types
     \<Longrightarrow> insert_event_stmt r t d = Inr (None, d)"
  by (simp add: insert_event_stmt_def)

lemma insert_event_frame:
  "insert_event_stmt r t d = Inr (a, d') \<Longrightarrow> dead_letters d' = dead_letters d"
  by (auto simp: insert_event_stmt_def split: if_splits)

end
