(* ===== verification/Dora_Stats.thy ===== *)
theory Dora_Stats
  imports Dora_Store
begin

text \<open>
  The four DORA measures of \<open>src/internal/transport/http/dora_handler.go\<close>: the queries behind lead time,
  change failure rate and time to restore, and the views of \<open>src/internal/db/schema.go\<close> they read.
  Numbers of type \<open>float64\<close> are rational numbers here, computed without rounding; time zones are UTC.
\<close>

section \<open>Queries that may fail\<close>

type_synonym 'a dora_q = "dora_db \<Rightarrow> (string + 'a) \<times> dora_db"

definition q_return :: "'a \<Rightarrow> 'a dora_q" where
  "q_return a d = (Inr a, d)"

definition q_bind :: "'a dora_q \<Rightarrow> ('a \<Rightarrow> 'b dora_q) \<Rightarrow> 'b dora_q" where
  "q_bind m f d = (case m d of (Inl e, d') \<Rightarrow> (Inl e, d') | (Inr a, d') \<Rightarrow> f a d')"

text \<open>The message a handler answers with in place of the error of the query.\<close>

definition q_label :: "string \<Rightarrow> 'a dora_q \<Rightarrow> 'a dora_q" where
  "q_label msg m d = (case m d of (Inl e, d') \<Rightarrow> (Inl msg, d') | r \<Rightarrow> r)"

section \<open>Statistics\<close>

record lead_time_stats =
  lt_p50 :: "rat option"
  lt_p95 :: "rat option"
  lt_successful :: nat
  lt_correlated :: nat

record cfr_stats =
  cf_percent :: "rat option"
  cf_deployments :: nat
  cf_incidents_opened :: nat
  cf_correlated :: nat
  cf_explicit :: nat
  cf_heuristic :: nat
  cf_proxy_percent :: "rat option"

record mttr_stats =
  mt_p50 :: "rat option"
  mt_opened :: nat
  mt_resolved_pairs :: nat

definition no_lead_time :: lead_time_stats where
  "no_lead_time = \<lparr>lt_p50 = None, lt_p95 = None, lt_successful = 0, lt_correlated = 0\<rparr>"

definition no_cfr :: cfr_stats where
  "no_cfr = \<lparr>cf_percent = None, cf_deployments = 0, cf_incidents_opened = 0, cf_correlated = 0, cf_explicit = 0,
     cf_heuristic = 0, cf_proxy_percent = None\<rparr>"

definition no_mttr :: mttr_stats where
  "no_mttr = \<lparr>mt_p50 = None, mt_opened = 0, mt_resolved_pairs = 0\<rparr>"

text \<open>The rows of one service with one of the types and a time in \<open>[start, stop)\<close>.\<close>

definition events_in :: "string \<Rightarrow> string \<Rightarrow> string list \<Rightarrow> time \<Rightarrow> time \<Rightarrow> dora_db \<Rightarrow> dora_row list" where
  "events_in tenant service kinds start stop d =
     filter (\<lambda>r. dr_tenant_id r = tenant \<and> dr_service_ref r = Some service \<and> dr_event_type r \<in> set kinds
        \<and> start \<le> dr_timestamp r \<and> dr_timestamp r < stop) (dora_events d)"

text \<open>\<open>percentile_cont\<close>: linear interpolation between the two nearest values, \<open>NULL\<close> for no value.\<close>

definition percentile_cont :: "rat \<Rightarrow> rat list \<Rightarrow> rat option" where
  "percentile_cont p xs =
     (if xs = [] then None
      else let ys = sort xs; pos = p * of_nat (length xs - 1); lo = nat \<lfloor>pos\<rfloor>; hi = nat \<lceil>pos\<rceil> in
        Some (ys ! lo + (pos - of_nat lo) * (ys ! hi - ys ! lo)))"

subsection \<open>Lead time\<close>

definition min_time :: "time list \<Rightarrow> time option" where
  "min_time ts = (case ts of [] \<Rightarrow> None | t # ts' \<Rightarrow> Some (fold min ts' t))"

definition first_commit_time :: "string \<Rightarrow> string \<Rightarrow> time \<Rightarrow> string \<Rightarrow> dora_db \<Rightarrow> time option" where
  "first_commit_time tenant service stop sha d =
     min_time (map dr_timestamp (filter (\<lambda>r. dr_tenant_id r = tenant \<and> dr_service_ref r = Some service
       \<and> dr_event_type r \<in> {''commit.pushed'', ''commit.merged''} \<and> dr_correlation_key r = Some sha
       \<and> dr_timestamp r < stop) (dora_events d)))"

definition deployment_links :: "string \<Rightarrow> string \<Rightarrow> dora_db \<Rightarrow> commit_link list" where
  "deployment_links tenant service d =
     filter (\<lambda>l. ln_tenant_id l = tenant \<and> ln_service_ref l = service \<and> ln_outcome l = ''succeeded'') (commit_links d)"

definition lead_seconds :: "string \<Rightarrow> string \<Rightarrow> time \<Rightarrow> dora_db \<Rightarrow> dora_row \<Rightarrow> rat option" where
  "lead_seconds tenant service stop d r =
     map_option (\<lambda>t. of_int (dr_timestamp r - t) / of_int second)
       (min_time (List.map_filter (\<lambda>l. first_commit_time tenant service stop (ln_commit_sha l) d)
          (filter (\<lambda>l. ln_deployment_id l = dr_id r) (deployment_links tenant service d))))"

definition lead_times :: "string \<Rightarrow> string \<Rightarrow> time \<Rightarrow> time \<Rightarrow> dora_db \<Rightarrow> rat list" where
  "lead_times tenant service start stop d =
     List.map_filter (lead_seconds tenant service stop d) (events_in tenant service [''deployment.succeeded''] start stop d)"

definition correlated_deployments :: "string \<Rightarrow> string \<Rightarrow> time \<Rightarrow> time \<Rightarrow> dora_db \<Rightarrow> nat" where
  "correlated_deployments tenant service start stop d =
     length (remdups (map ln_deployment_id (filter (\<lambda>l. start \<le> ln_time l \<and> ln_time l < stop)
       (deployment_links tenant service d))))"

definition query_lead_time_stats ::
  "dora_env \<Rightarrow> nat \<Rightarrow> string \<Rightarrow> string \<Rightarrow> time \<Rightarrow> time \<Rightarrow> lead_time_stats dora_q" where
  "query_lead_time_stats env k tenant service start stop =
     q_bind (dora_query env k (\<lambda>d. Inr (length (events_in tenant service [''deployment.succeeded''] start stop d)))) (\<lambda>n.
     q_bind (dora_query env (k + 1) (\<lambda>d. Inr (correlated_deployments tenant service start stop d))) (\<lambda>m.
     q_bind (dora_query env (k + 2) (\<lambda>d. Inr (lead_times tenant service start stop d))) (\<lambda>xs.
     q_return \<lparr>lt_p50 = percentile_cont (1 / 2) xs, lt_p95 = percentile_cont (95 / 100) xs,
       lt_successful = n, lt_correlated = m\<rparr>)))"

subsection \<open>Change failure rate\<close>

definition incidents_after :: "string \<Rightarrow> string \<Rightarrow> time \<Rightarrow> dora_db \<Rightarrow> dora_row \<Rightarrow> dora_row list" where
  "incidents_after tenant service stop d r =
     filter (\<lambda>i. dr_tenant_id i = tenant \<and> dr_service_ref i = Some service \<and> dr_event_type i = ''incident.opened''
       \<and> dr_timestamp r \<le> dr_timestamp i \<and> dr_timestamp i < stop) (dora_events d)"

definition explicit_match :: "string \<Rightarrow> string \<Rightarrow> time \<Rightarrow> time \<Rightarrow> dora_db \<Rightarrow> string list" where
  "explicit_match tenant service start stop d =
     remdups (map dr_id (filter (\<lambda>r. list_ex (\<lambda>i. sql_eq (dr_correlation_key i) (dr_correlation_key r))
       (incidents_after tenant service stop d r)) (events_in tenant service deployment_types start stop d)))"

definition heuristic_match :: "string \<Rightarrow> string \<Rightarrow> time \<Rightarrow> time \<Rightarrow> dora_db \<Rightarrow> string list" where
  "heuristic_match tenant service start stop d =
     remdups (map dr_id (filter (\<lambda>r. list_ex (\<lambda>i. dr_timestamp i \<le> dr_timestamp r + hour)
         (incidents_after tenant service stop d r)
       \<and> dr_id r \<notin> set (explicit_match tenant service start stop d))
       (events_in tenant service deployment_types start stop d)))"

definition percent_of :: "nat \<Rightarrow> nat \<Rightarrow> rat" where
  "percent_of a b = of_nat a / of_nat b * 100"

definition query_cfr_stats ::
  "dora_env \<Rightarrow> nat \<Rightarrow> string \<Rightarrow> string \<Rightarrow> time \<Rightarrow> time \<Rightarrow> cfr_stats dora_q" where
  "query_cfr_stats env k tenant service start stop =
     q_bind (dora_query env k (\<lambda>d. Inr (length (events_in tenant service deployment_types start stop d)))) (\<lambda>n.
     q_bind (dora_query env (k + 1) (\<lambda>d. Inr (length (events_in tenant service [''incident.opened''] start stop d)))) (\<lambda>m.
     let stats = no_cfr\<lparr>cf_deployments := n, cf_incidents_opened := m\<rparr> in
     if n = 0 then q_return stats
     else q_bind (dora_query env (k + 2) (\<lambda>d. Inr (length (explicit_match tenant service start stop d),
         length (heuristic_match tenant service start stop d)))) (\<lambda>(a, b).
     let stats = stats\<lparr>cf_explicit := a, cf_heuristic := b, cf_correlated := a + b, cf_percent := Some (percent_of (a + b) n)\<rparr> in
     if m = 0 then
       q_bind (dora_query env (k + 3) (\<lambda>d. Inr (length (events_in tenant service [''deployment.failed''] start stop d)))) (\<lambda>f.
       q_return (stats\<lparr>cf_proxy_percent := Some (percent_of f n), cf_percent := Some (percent_of f n)\<rparr>))
     else q_return stats)))"

definition cfr_quality :: "cfr_stats \<Rightarrow> string" where
  "cfr_quality st =
     (if cf_deployments st = 0 then ''no_data''
      else if cf_incidents_opened st = 0 then (if cf_proxy_percent st \<noteq> None then ''proxy'' else ''no_data'')
      else if cf_correlated st = 0 then ''partial''
      else if cf_heuristic st > 0 then ''partial''
      else if cf_explicit st > 0 then ''complete''
      else ''partial'')"

definition cfr_proxy_description :: "cfr_stats \<Rightarrow> string option" where
  "cfr_proxy_description st = (if cf_proxy_percent st = None then None
     else Some ''computed from deployment failure rate because no incident.opened events were available'')"

subsection \<open>Time to restore\<close>

definition day :: duration where
  "day = 24 * hour"

definition day_of :: "time \<Rightarrow> time" where
  "day_of t = t div day * day"

text \<open>The view \<open>dora_incidents_daily\<close>: one entry per service and day with the pairs of an opened and a
  resolved event under the same key.\<close>

definition incident_pairs :: "dora_db \<Rightarrow> (dora_row \<times> dora_row) list" where
  "incident_pairs d = concat (map (\<lambda>a. map (Pair a) (filter (\<lambda>r. dr_event_type r = ''incident.resolved''
     \<and> dr_tenant_id r = dr_tenant_id a \<and> sql_eq (dr_correlation_key r) (dr_correlation_key a)) (dora_events d)))
     (filter (\<lambda>a. dr_event_type a = ''incident.opened'') (dora_events d)))"

definition pair_group :: "dora_row \<times> dora_row \<Rightarrow> string \<times> string option \<times> time" where
  "pair_group p = (dr_tenant_id (fst p), dr_service_ref (fst p), day_of (dr_timestamp (fst p)))"

definition restore_seconds :: "dora_row \<times> dora_row \<Rightarrow> rat" where
  "restore_seconds p = of_int (dr_timestamp (snd p) - dr_timestamp (fst p)) / of_int second"

definition incidents_view :: "dora_db \<Rightarrow> incident_day list" where
  "incidents_view d = map (\<lambda>g. let ps = filter (\<lambda>p. pair_group p = g) (incident_pairs d) in
     \<lparr>dy_tenant_id = fst g, dy_service_ref = fst (snd g), dy_bucket = snd (snd g), dy_resolved_count = length ps,
      dy_p50_restore_seconds = the (percentile_cont (1 / 2) (map restore_seconds ps))\<rparr>)
     (remdups (map pair_group (incident_pairs d)))"

text \<open>The view \<open>dora_deployment_frequency_daily\<close>.\<close>

definition frequency_group :: "dora_row \<Rightarrow> string \<times> string option \<times> string option \<times> time" where
  "frequency_group r = (dr_tenant_id r, dr_service_ref r, dr_environment r, day_of (dr_timestamp r))"

definition frequency_view :: "dora_db \<Rightarrow> frequency_day list" where
  "frequency_view d =
     (let ds = filter (\<lambda>r. dr_event_type r \<in> set deployment_types) (dora_events d) in
      map (\<lambda>g. let rs = filter (\<lambda>r. frequency_group r = g) ds in
        \<lparr>fq_tenant_id = fst g, fq_service_ref = fst (snd g), fq_environment = fst (snd (snd g)), fq_bucket = snd (snd (snd g)),
         fq_success_count = length (filter (\<lambda>r. dr_event_type r = ''deployment.succeeded'') rs),
         fq_failure_count = length (filter (\<lambda>r. dr_event_type r = ''deployment.failed'') rs)\<rparr>)
       (remdups (map frequency_group ds)))"

definition query_mttr_stats ::
  "dora_env \<Rightarrow> nat \<Rightarrow> string \<Rightarrow> string \<Rightarrow> time \<Rightarrow> time \<Rightarrow> mttr_stats dora_q" where
  "query_mttr_stats env k tenant service start stop =
     q_bind (dora_query env k (\<lambda>d. Inr (length (events_in tenant service [''incident.opened''] start stop d)))) (\<lambda>n.
     q_bind (dora_query env (k + 1) (\<lambda>d. Inr (filter (\<lambda>v. dy_tenant_id v = tenant \<and> dy_service_ref v = Some service
         \<and> day_of start \<le> dy_bucket v \<and> dy_bucket v < day_of stop) (incidents_daily d)))) (\<lambda>vs.
     q_return \<lparr>mt_p50 = percentile_cont (1 / 2) (map dy_p50_restore_seconds vs), mt_opened = n,
       mt_resolved_pairs = sum_list (map dy_resolved_count vs)\<rparr>))"

definition mttr_quality :: "mttr_stats \<Rightarrow> string" where
  "mttr_quality st =
     (if mt_opened st = 0 then ''no_data''
      else if mt_resolved_pairs st = 0 \<or> mt_p50 st = None then ''partial''
      else if mt_resolved_pairs st < mt_opened st then ''partial''
      else ''complete'')"

subsection \<open>Comparison of two periods\<close>

definition percent_delta :: "rat \<Rightarrow> rat \<Rightarrow> rat option" where
  "percent_delta previous current =
     (if previous = 0 then (if current = 0 then Some 0 else None) else Some ((current - previous) / previous * 100))"

definition lead_time_delta :: "rat option \<Rightarrow> rat option \<Rightarrow> rat option" where
  "lead_time_delta previous current =
     (case (previous, current) of (Some p, Some c) \<Rightarrow> percent_delta p c | _ \<Rightarrow> None)"

section \<open>The summary\<close>

record dora_summary =
  ds_tenant_id :: string
  ds_service_ref :: string
  ds_classification_version :: string
  ds_start :: time
  ds_end :: time
  ds_daily_avg :: rat
  ds_frequency_quality :: string
  ds_lead_time :: lead_time_stats
  ds_lead_time_quality :: string
  ds_cfr :: cfr_stats
  ds_cfr_quality :: string
  ds_cfr_proxy_description :: "string option"
  ds_mttr :: mttr_stats
  ds_mttr_quality :: string
  ds_previous_start :: time
  ds_previous_end :: time
  ds_previous_daily_avg :: rat
  ds_previous_lead_time :: lead_time_stats
  ds_previous_cfr_percent :: "rat option"
  ds_previous_mttr_p50 :: "rat option"
  ds_delta_frequency :: "rat option"
  ds_delta_lead_time :: "rat option"
  ds_delta_cfr :: "rat option"
  ds_delta_mttr :: "rat option"

section \<open>Lemmas\<close>

lemma q_bind_Inr: "q_bind m f d = (Inr b, d') \<longleftrightarrow> (\<exists>a d1. m d = (Inr a, d1) \<and> f a d1 = (Inr b, d'))"
  by (simp add: q_bind_def split: prod.split sum.split)

lemma query_still:
  "(\<And>k d. de_gap env k d = d) \<Longrightarrow> dora_query env k f d = (Inr a, d') \<Longrightarrow> f d = Inr a \<and> d' = d"
  by (auto simp: dora_query_def dora_exec_def Let_def split: option.split_asm sum.split_asm)

lemma matched_ids:
  "set (explicit_match tenant service start stop d) \<inter> set (heuristic_match tenant service start stop d) = {}"
  "set (explicit_match tenant service start stop d) \<union> set (heuristic_match tenant service start stop d)
     \<subseteq> dr_id ` set (events_in tenant service deployment_types start stop d)"
  by (auto simp: heuristic_match_def) (auto simp: explicit_match_def)

lemma matched_at_most_all:
  "length (explicit_match tenant service start stop d) + length (heuristic_match tenant service start stop d)
     \<le> length (events_in tenant service deployment_types start stop d)"
proof -
  let ?E = "explicit_match tenant service start stop d" and ?H = "heuristic_match tenant service start stop d"
  let ?D = "events_in tenant service deployment_types start stop d"
  have "distinct ?E" "distinct ?H" by (simp_all add: explicit_match_def heuristic_match_def)
  then have "length ?E + length ?H = card (set ?E \<union> set ?H)"
    using matched_ids(1) by (simp add: card_Un_disjoint distinct_card)
  also have "\<dots> \<le> card (dr_id ` set ?D)" by (intro card_mono matched_ids) simp
  also have "\<dots> \<le> length ?D" using card_image_le [OF finite_set, of dr_id ?D] card_length [of ?D] by linarith
  finally show ?thesis .
qed

lemma failed_at_most_all:
  "length (events_in tenant service [''deployment.failed''] start stop d)
     \<le> length (events_in tenant service deployment_types start stop d)"
proof -
  have "events_in tenant service [''deployment.failed''] start stop d
      = filter (\<lambda>r. dr_event_type r = ''deployment.failed'') (events_in tenant service deployment_types start stop d)"
    unfolding events_in_def filter_filter by (intro filter_cong) (auto simp: deployment_types_def)
  then show ?thesis by simp
qed

lemma percent_bounds: "a \<le> b \<Longrightarrow> 0 < b \<Longrightarrow> 0 \<le> percent_of a b \<and> percent_of a b \<le> 100"
  by (simp add: percent_of_def divide_le_eq)

text \<open>What the four queries of the change failure rate return when nobody else writes.\<close>

lemma query_cfr_result:
  assumes "\<And>k d. de_gap env k d = d" "query_cfr_stats env k tenant service start stop d = (Inr st, d')"
  defines "n \<equiv> length (events_in tenant service deployment_types start stop d)"
    and "a \<equiv> length (explicit_match tenant service start stop d)"
    and "b \<equiv> length (heuristic_match tenant service start stop d)"
    and "f \<equiv> length (events_in tenant service [''deployment.failed''] start stop d)"
    and "m \<equiv> length (events_in tenant service [''incident.opened''] start stop d)"
  shows "d' = d \<and> cf_deployments st = n \<and> cf_incidents_opened st = m
     \<and> cf_percent st = (if n = 0 then None else Some (percent_of (if m = 0 then f else a + b) n))
     \<and> (n \<noteq> 0 \<longrightarrow> cf_explicit st = a \<and> cf_heuristic st = b \<and> cf_correlated st = a + b)"
  using assms(2) unfolding n_def a_def b_def f_def m_def query_cfr_stats_def Let_def
  by (auto simp: q_bind_Inr q_return_def no_cfr_def split: if_split_asm dest!: query_still [OF assms(1)])

end
