(* ===== verification/Dora_Handler.thy ===== *)
theory Dora_Handler
  imports Dora_Stats Middleware
begin

text \<open>
  The DORA endpoints of \<open>src/internal/transport/http/dora_handler.go\<close> that read and write events and
  dead letters: \<open>IngestWebhook\<close>, \<open>ReplayDeadLetter\<close>, \<open>GetDeadLetter\<close>, \<open>ListDeadLetter\<close>,
  \<open>GetDeployments\<close> and the shared \<open>authorize\<close>.

  A handler's answer is the list of the \<open>c.JSON\<close> calls it makes, because a handler may make more
  than one: \<open>c.JSON\<close> returns the error of writing the response (\<open>de_json_error\<close>, \<open>None\<close> when the
  client got it), and \<open>authorize\<close> returns that value to its caller. JSON documents are values of
  \<open>go_any\<close>; texts are taken to be valid UTF-8, which \<open>encoding/json\<close> keeps as they are.
\<close>

section \<open>Requests and responses\<close>

record dora_request =
  rq_param :: string
  rq_query :: "string \<Rightarrow> string"
  rq_headers :: "(string \<times> string list) list"
  rq_body :: "string + string"
  rq_claims :: "claims option"

datatype dora_response =
    Dora_error int string string
  | Group_map_stale
  | Processed nat
  | Not_processed string string string
  | Replayed string string nat
  | Dead_letter_list "dead_letter list"
  | Dead_letter_item dead_letter
  | Deployments "dora_row list"
  | Version_mismatch string "(string \<times> string) list"
  | Summary dora_summary

text \<open>A query parameter with \<open>strings.TrimSpace\<close>.\<close>

definition qp :: "dora_request \<Rightarrow> string \<Rightarrow> string" where
  "qp q k = trim_space (rq_query q k)"

section \<open>Authorisation\<close>

definition group_map_ttl :: duration where
  "group_map_ttl = 15 * minute"

definition refuse ::
  "dora_env \<Rightarrow> dora_response \<Rightarrow> dora_db \<Rightarrow> (dora_response list \<times> string option) \<times> dora_db" where
  "refuse env r d = (([r], de_json_error env), d)"

definition authorize ::
  "dora_env \<Rightarrow> nat \<Rightarrow> dora_request \<Rightarrow> string \<Rightarrow> dora_db \<Rightarrow> (dora_response list \<times> string option) \<times> dora_db" where
  "authorize env k q tenant d =
     (case rq_claims q of
        None \<Rightarrow> refuse env (Dora_error 403 ''missing authorization claims'' ''FORBIDDEN'') d
      | Some c \<Rightarrow>
          let brand = qp q ''brand_id''; grp = qp q ''group_id'' in
          if cm_tenant_id c \<noteq> [] \<and> cm_tenant_id c \<noteq> tenant
          then refuse env (Dora_error 403 ''tenant mismatch'' ''FORBIDDEN'') d
          else if brand = [] \<and> grp = [] \<or> brand \<noteq> [] \<and> grp \<noteq> []
          then refuse env (Dora_error 403 ''exactly one of brand_id or group_id is required'' ''FORBIDDEN'') d
          else if brand \<noteq> [] then
            (if brand \<notin> set (cm_brand_ids c)
             then refuse env (Dora_error 403 ''brand not permitted'' ''FORBIDDEN'') d else (([], None), d))
          else if grp \<notin> set (cm_group_ids c)
          then refuse env (Dora_error 403 ''group not permitted'' ''FORBIDDEN'') d
          else if \<not> de_pool env \<or> de_acquire env k \<noteq> None then refuse env Group_map_stale d
          else case dora_query env k (\<lambda>d. case last_synced tenant grp d of
                 None \<Rightarrow> Inl ''cannot scan NULL into time.Time'' | Some t \<Rightarrow> Inr t) d of
            (Inl e, d1) \<Rightarrow> refuse env Group_map_stale d1
          | (Inr t, d1) \<Rightarrow>
              if de_now env - t > group_map_ttl then refuse env Group_map_stale d1 else (([], None), d1))"

text \<open>\<open>if err := h.authorize(c, tenantID); err != nil { return err }\<close> and what follows it.\<close>

definition after_authorize ::
  "dora_env \<Rightarrow> nat \<Rightarrow> dora_request \<Rightarrow> string \<Rightarrow> (dora_db \<Rightarrow> dora_response list \<times> dora_db) \<Rightarrow> dora_db
     \<Rightarrow> dora_response list \<times> dora_db" where
  "after_authorize env k q tenant body d =
     (case authorize env k q tenant d of
        ((ws, Some e), d1) \<Rightarrow> (ws, d1)
      | ((ws, None), d1) \<Rightarrow> (case body d1 of (ws', d2) \<Rightarrow> (ws @ ws', d2)))"

definition limit_param :: "dora_env \<Rightarrow> dora_request \<Rightarrow> nat option" where
  "limit_param env q =
     (if qp q ''limit'' = [] then Some 50
      else case de_atoi env (qp q ''limit'') of
        None \<Rightarrow> None
      | Some n \<Rightarrow> if n \<le> 0 \<or> n > 200 then None else Some (nat n))"

section \<open>Headers\<close>

text \<open>The two maps that \<open>headerMaps\<close> builds from the request's headers, in the order in which the
  runtime walks them: all values for storing, the first one for the normaliser.\<close>

definition header_value :: "string list \<Rightarrow> go_any" where
  "header_value vs = (if vs = [] then GNil else GList (map GStr vs))"

definition headers_multi :: "(string \<times> string list) list \<Rightarrow> go_map" where
  "headers_multi hs = foldl (\<lambda>m h. alist_put (to_lower (fst h)) (header_value (snd h)) m) [] hs"

definition headers_flat :: "(string \<times> string list) list \<Rightarrow> headers" where
  "headers_flat hs =
     foldl (\<lambda>m h. case snd h of [] \<Rightarrow> m | v # _ \<Rightarrow> alist_put (to_lower (fst h)) v m) [] hs"

text \<open>\<open>json.Unmarshal\<close> of one value into \<open>string\<close> and into \<open>[]string\<close>: \<open>null\<close> leaves the zero value.\<close>

fun decode_string :: "go_any \<Rightarrow> string option" where
  "decode_string (GStr s) = Some s"
| "decode_string GNil = Some []"
| "decode_string _ = None"

fun decode_strings :: "go_any \<Rightarrow> string list option" where
  "decode_strings GNil = Some []"
| "decode_strings (GList vs) = those (map decode_string vs)"
| "decode_strings _ = None"

fun decode_object :: "(go_any \<Rightarrow> 'a option) \<Rightarrow> go_any \<Rightarrow> (string \<times> 'a) list option" where
  "decode_object f GNil = Some []"
| "decode_object f (GMap m) = those (map (\<lambda>(k, v). map_option (Pair k) (f v)) m)"
| "decode_object f _ = None"

definition header_key :: "string \<Rightarrow> string" where
  "header_key k = to_lower (trim_space k)"

text \<open>The argument is \<open>None\<close> for the empty text and \<open>Inl\<close> the error for a text that is not JSON.\<close>

definition parse_stored_header_map :: "(string + go_any) option \<Rightarrow> string + headers" where
  "parse_stored_header_map stored =
     (case stored of
        None \<Rightarrow> Inr []
      | Some (Inl e) \<Rightarrow> Inl e
      | Some (Inr v) \<Rightarrow>
          (case decode_object Some v of
             None \<Rightarrow> Inl ''json: cannot unmarshal into Go value of type map''
           | Some _ \<Rightarrow>
               (case decode_object decode_strings v of
                  Some multi \<Rightarrow>
                    Inr (foldl (\<lambda>m h. case snd h of [] \<Rightarrow> m | x # _ \<Rightarrow> alist_put (header_key (fst h)) x m) [] multi)
                | None \<Rightarrow>
                    (case decode_object decode_string v of
                       Some flat \<Rightarrow> Inr (foldl (\<lambda>m h. alist_put (header_key (fst h)) (snd h) m) [] flat)
                     | None \<Rightarrow> Inl ''unsupported stored header format''))))"

section \<open>Dead letters\<close>

definition write_dead_letter ::
  "dora_env \<Rightarrow> nat \<Rightarrow> string \<Rightarrow> string \<Rightarrow> string \<Rightarrow> go_any \<Rightarrow> string \<Rightarrow> string \<Rightarrow> dora_db \<Rightarrow> string \<times> dora_db" where
  "write_dead_letter env k tenant provider code hs body detail d =
     (if \<not> de_pool env \<or> de_acquire env k \<noteq> None then ([], d)
      else case dora_exec env k (insert_dead_letter_stmt
          \<lparr>dl_id = de_uuid env k, dl_tenant_id = tenant, dl_provider = provider, dl_source_event_id = None,
           dl_headers = hs, dl_body = body,
           dl_failure_reason = [(''error_code'', GStr code), (''error_detail'', GStr detail)],
           dl_created_at = 0, dl_replayed_at = None, dl_replay_job_id = None\<rparr>) d of
        (Inl e, d1) \<Rightarrow> ([], d1)
      | (Inr i, d1) \<Rightarrow> (i, d1))"

text \<open>\<open>normalizeFailureResponse\<close>: an empty third argument is a response without \<open>dead_letter_id\<close>.\<close>

definition fail_with_dead_letter ::
  "dora_env \<Rightarrow> nat \<Rightarrow> string \<Rightarrow> string \<Rightarrow> string \<Rightarrow> string \<Rightarrow> go_any \<Rightarrow> string \<Rightarrow> dora_db
     \<Rightarrow> dora_response list \<times> dora_db" where
  "fail_with_dead_letter env k tenant provider code detail hs body d =
     (case write_dead_letter env k tenant provider code hs body detail d of
        (i, d1) \<Rightarrow> ([if i = [] then Not_processed ''store_error'' detail [] else Not_processed code detail i], d1))"

section \<open>Storing events\<close>

definition nullable_string :: "string \<Rightarrow> string option" where
  "nullable_string v = (if trim_space v = [] then None else Some (trim_space v))"

definition payload_text :: "dora_env \<Rightarrow> dora_event \<Rightarrow> string + string" where
  "payload_text env e = (case ev_payload e of None \<Rightarrow> Inr ''{}'' | Some m \<Rightarrow> de_marshal env m)"

definition event_row :: "string \<Rightarrow> dora_event \<Rightarrow> string \<Rightarrow> dora_row" where
  "event_row i e payload =
     \<lparr>dr_id = i, dr_tenant_id = ev_tenant_id e, dr_event_type = ev_event_type e, dr_event_source = ev_event_source e,
      dr_service_ref = Some (ev_service_ref e), dr_environment = Some (ev_environment e),
      dr_correlation_key = Some (ev_correlation_key e), dr_source_event_id = nullable_string (ev_source_event_id e),
      dr_timestamp = ev_timestamp e, dr_payload = payload\<rparr>"

datatype store_failure = Bad_payload string | Bad_insert string

fun store_events :: "dora_env \<Rightarrow> nat \<Rightarrow> dora_event list \<Rightarrow> dora_db \<Rightarrow> (store_failure + nat) \<times> dora_db" where
  "store_events env k [] d = (Inr 0, d)"
| "store_events env k (e # es) d =
     (case payload_text env e of
        Inl m \<Rightarrow> (Inl (Bad_payload m), d)
      | Inr p \<Rightarrow>
          (case dora_exec env k (insert_event_stmt (event_row (de_uuid env k) e p)) d of
             (Inl m, d1) \<Rightarrow> (Inl (Bad_insert m), d1)
           | (Inr _, d1) \<Rightarrow>
               (case store_events env (Suc k) es d1 of
                  (Inl f, d2) \<Rightarrow> (Inl f, d2)
                | (Inr n, d2) \<Rightarrow> (Inr (Suc n), d2))))"

text \<open>The first event that \<open>ValidateEvent\<close> refuses.\<close>

definition first_invalid :: "dora_event list \<Rightarrow> string option" where
  "first_invalid es = (case filter (\<lambda>e. validate_event e \<noteq> None) es of [] \<Rightarrow> None | e # _ \<Rightarrow> validate_event e)"

section \<open>IngestWebhook\<close>

definition webhook_provider :: "dora_request \<Rightarrow> string" where
  "webhook_provider q = to_lower (trim_space (rq_param q))"

definition webhook_events :: "dora_env \<Rightarrow> dora_request \<Rightarrow> string \<Rightarrow> normalizer \<Rightarrow> string + dora_event list" where
  "webhook_events env q body n = n (de_parsers env) (de_now env) (qp q ''tenant_id'') (qp q ''service_ref'')
     (headers_flat (rq_headers q)) body"

definition ingest_webhook ::
  "(string \<times> normalizer) list \<Rightarrow> dora_env \<Rightarrow> dora_request \<Rightarrow> dora_db \<Rightarrow> dora_response list \<times> dora_db" where
  "ingest_webhook registry env q d =
     (let provider = webhook_provider q; tenant = qp q ''tenant_id''; service = qp q ''service_ref'' in
      if provider = [] \<or> tenant = [] \<or> service = []
      then ([Dora_error 400 ''provider, tenant_id and service_ref are required'' ''INVALID_REQUEST''], d)
      else case rq_body q of
        Inl e \<Rightarrow> ([Dora_error 400 ''could not read request body'' ''INVALID_REQUEST''], d)
      | Inr body \<Rightarrow>
          let dead = (\<lambda>k code detail. fail_with_dead_letter env k tenant provider code detail
                        (GMap (headers_multi (rq_headers q))) body) in
          (case norm_resolve registry provider of
             None \<Rightarrow> dead 0 ''normalizer_not_found'' ''no normalizer registered for provider'' d
           | Some n \<Rightarrow>
          (case webhook_events env q body n of
             Inl e \<Rightarrow> dead 0 ''normalizer_error'' e d
           | Inr events \<Rightarrow>
          (case first_invalid events of
             Some e \<Rightarrow> dead 0 ''validation_error'' e d
           | None \<Rightarrow>
          if events = [] then ([Processed 0], d)
          else if \<not> de_pool env \<or> de_acquire env 1 \<noteq> None then dead 0 ''store_error'' ''database unavailable'' d
          else case store_events env 1 events d of
            (Inl (Bad_payload m), d1) \<Rightarrow> dead (Suc (length events)) ''validation_error'' m d1
          | (Inl (Bad_insert m), d1) \<Rightarrow> dead (Suc (length events)) ''store_error'' m d1
          | (Inr n, d1) \<Rightarrow> ([Processed n], d1)))))"

section \<open>ReplayDeadLetter\<close>

definition replay_events ::
  "dora_env \<Rightarrow> dora_request \<Rightarrow> dead_letter \<Rightarrow> headers \<Rightarrow> normalizer \<Rightarrow> string + dora_event list" where
  "replay_events env q r hs n =
     n (de_parsers env) (de_now env) (qp q ''tenant_id'')
       (if qp q ''service_ref'' = [] then ''unknown'' else qp q ''service_ref'') hs (dl_body r)"

definition replay_row ::
  "(string \<times> normalizer) list \<Rightarrow> dora_env \<Rightarrow> dora_request \<Rightarrow> dead_letter \<Rightarrow> dora_db \<Rightarrow> dora_response list \<times> dora_db" where
  "replay_row registry env q r d =
     (let i = trim_space (rq_param q); tenant = qp q ''tenant_id'' in
      if dl_replayed_at r \<noteq> None then ([Dora_error 409 ''dead-letter row already replayed'' ''ALREADY_REPLAYED''], d)
      else case parse_stored_header_map (Some (Inr (dl_headers r))) of
        Inl e \<Rightarrow> ([Dora_error 422 ''invalid stored dead-letter headers'' ''INVALID_REQUEST''], d)
      | Inr hs \<Rightarrow>
     (case norm_resolve registry (dl_provider r) of
        None \<Rightarrow> ([Dora_error 422 ''no normalizer registered for provider'' ''NORMALIZER_NOT_FOUND''], d)
      | Some n \<Rightarrow>
     (case replay_events env q r hs n of
        Inl e \<Rightarrow> ([Dora_error 422 ''normalizer replay failed'' ''NORMALIZER_ERROR''], d)
      | Inr events \<Rightarrow>
     (case first_invalid events of
        Some e \<Rightarrow> ([Dora_error 422 ''normalizer replay validation failed'' ''VALIDATION_ERROR''], d)
      | None \<Rightarrow>
     (case store_events env 2 events d of
        (Inl (Bad_payload m), d1) \<Rightarrow> ([Dora_error 422 ''normalizer replay validation failed'' ''VALIDATION_ERROR''], d1)
      | (Inl (Bad_insert m), d1) \<Rightarrow> ([Dora_error 500 ''could not replay dead-letter row'' ''INTERNAL_ERROR''], d1)
      | (Inr written, d1) \<Rightarrow>
     (let k = 2 + length events in
      case dora_exec env k (mark_replayed_stmt i tenant (de_uuid env k)) d1 of
        (Inl e, d2) \<Rightarrow> ([Dora_error 409 ''dead-letter row already replayed'' ''ALREADY_REPLAYED''], d2)
      | (Inr job, d2) \<Rightarrow> ([Replayed i job written], d2)))))))"

definition with_dead_letter ::
  "dora_env \<Rightarrow> dora_request \<Rightarrow> (dead_letter \<Rightarrow> dora_db \<Rightarrow> dora_response list \<times> dora_db) \<Rightarrow> dora_db
     \<Rightarrow> dora_response list \<times> dora_db" where
  "with_dead_letter env q f d =
     (let i = trim_space (rq_param q); tenant = qp q ''tenant_id'' in
      if i = [] \<or> tenant = [] then ([Dora_error 400 ''id and tenant_id are required'' ''INVALID_REQUEST''], d)
      else after_authorize env 0 q tenant (\<lambda>d.
        if \<not> de_pool env then ([Dora_error 404 ''dead-letter row not found'' ''NOT_FOUND''], d)
        else if de_acquire env 1 \<noteq> None then ([Dora_error 500 ''database unavailable'' ''INTERNAL_ERROR''], d)
        else case dora_query env 1 (\<lambda>d. case select_dead_letter i tenant d of
               None \<Rightarrow> Inl ''no rows in result set'' | Some r \<Rightarrow> Inr r) d of
          (Inl e, d1) \<Rightarrow> ([Dora_error 404 ''dead-letter row not found'' ''NOT_FOUND''], d1)
        | (Inr r, d1) \<Rightarrow> f r d1) d)"

definition replay_dead_letter ::
  "(string \<times> normalizer) list \<Rightarrow> dora_env \<Rightarrow> dora_request \<Rightarrow> dora_db \<Rightarrow> dora_response list \<times> dora_db" where
  "replay_dead_letter registry env q d = with_dead_letter env q (replay_row registry env q) d"

definition get_dead_letter :: "dora_env \<Rightarrow> dora_request \<Rightarrow> dora_db \<Rightarrow> dora_response list \<times> dora_db" where
  "get_dead_letter env q d = with_dead_letter env q (\<lambda>r d. ([Dead_letter_item r], d)) d"

section \<open>Listings\<close>

text \<open>\<open>ORDER BY t DESC LIMIT n\<close>; \<open>rows.Next\<close> delivers at most \<open>de_rows\<close> rows when the connection is
  lost on the way, which the loops cannot tell from the end of the result.\<close>

definition newest_first :: "dora_env \<Rightarrow> ('r \<Rightarrow> time) \<Rightarrow> nat \<Rightarrow> 'r list \<Rightarrow> 'r list" where
  "newest_first env t n rows =
     (let rs = take n (sort_key (\<lambda>r. - t r) rows) in case de_rows env of None \<Rightarrow> rs | Some m \<Rightarrow> take m rs)"

definition list_dead_letter :: "dora_env \<Rightarrow> dora_request \<Rightarrow> dora_db \<Rightarrow> dora_response list \<times> dora_db" where
  "list_dead_letter env q d =
     (let tenant = qp q ''tenant_id'' in
      if tenant = [] then ([Dora_error 400 ''tenant_id is required'' ''INVALID_REQUEST''], d)
      else after_authorize env 0 q tenant (\<lambda>d.
        case limit_param env q of
          None \<Rightarrow> ([Dora_error 400 ''limit must be between 1 and 200'' ''INVALID_REQUEST''], d)
        | Some n \<Rightarrow>
            let provider = qp q ''provider'' in
            if \<not> de_pool env then ([Dead_letter_list []], d)
            else if de_acquire env 1 \<noteq> None then ([Dora_error 500 ''database unavailable'' ''INTERNAL_ERROR''], d)
            else case dora_query env 1 (\<lambda>d. Inr (newest_first env dl_created_at n
                   (filter (\<lambda>r. dl_tenant_id r = tenant \<and> (provider = [] \<or> dl_provider r = provider)) (dead_letters d)))) d of
              (Inl e, d1) \<Rightarrow> ([Dora_error 500 ''could not query dead-letter rows'' ''INTERNAL_ERROR''], d1)
            | (Inr rows, d1) \<Rightarrow> ([Dead_letter_list rows], d1)) d)"

definition get_deployments :: "dora_env \<Rightarrow> dora_request \<Rightarrow> dora_db \<Rightarrow> dora_response list \<times> dora_db" where
  "get_deployments env q d =
     (let tenant = qp q ''tenant_id''; service = qp q ''service_ref'' in
      if tenant = [] \<or> service = [] then ([Dora_error 400 ''tenant_id and service_ref are required'' ''INVALID_REQUEST''], d)
      else after_authorize env 0 q tenant (\<lambda>d.
        case limit_param env q of
          None \<Rightarrow> ([Dora_error 400 ''limit must be between 1 and 200'' ''INVALID_REQUEST''], d)
        | Some n \<Rightarrow>
            if \<not> de_pool env then ([Deployments []], d)
            else if de_acquire env 1 \<noteq> None then ([Dora_error 500 ''database unavailable'' ''INTERNAL_ERROR''], d)
            else case dora_query env 1 (\<lambda>d. Inr (newest_first env dr_timestamp n
                   (filter (\<lambda>r. dr_tenant_id r = tenant \<and> dr_service_ref r = Some service
                      \<and> dr_event_type r \<in> set deployment_types) (dora_events d)))) d of
              (Inl e, d1) \<Rightarrow> ([Dora_error 500 ''could not query deployments'' ''INTERNAL_ERROR''], d1)
            | (Inr rows, d1) \<Rightarrow>
                if list_ex (\<lambda>r. dr_environment r = None \<or> dr_correlation_key r = None) rows
                then ([Dora_error 500 ''could not scan deployment row'' ''INTERNAL_ERROR''], d1)
                else ([Deployments rows], d1)) d)"

end
