(* ===== verification/Dora_Delivery.thy ===== *)
theory Dora_Delivery
  imports Dora_Handler
begin

text \<open>
  What the DORA handler guarantees for a webhook: the stored headers give the normaliser back what it
  saw, a webhook is stored, dead-lettered or refused but never dropped, a delivery with an identifier
  counts once however often it is sent, and a dead letter is replayed once. The refusals of
  \<open>authorize\<close> are shown not to stop the handlers.
\<close>

section \<open>Stored headers\<close>

lemma lower_char_idem [simp]: "lower_char (lower_char c) = lower_char c"
proof (cases "65 \<le> (of_char c :: nat) \<and> (of_char c :: nat) \<le> 90")
  case True
  then have "of_char (char_of ((of_char c :: nat) + 32)) = (of_char c :: nat) + 32" by simp
  then show ?thesis using True by (simp add: lower_char_def Let_def)
qed (auto simp: lower_char_def Let_def)

lemma to_lower_idem [simp]: "to_lower (to_lower s) = to_lower s"
  by (simp add: to_lower_def)

text \<open>A key that has no space at either end: every field name that \<open>net/http\<close> accepts.\<close>

definition field_name :: "string \<Rightarrow> bool" where
  "field_name k \<longleftrightarrow> trim_space (to_lower k) = to_lower k"

lemma fold_put_fresh:
  assumes "distinct (map f xs)" "\<forall>x\<in>set xs. f x \<notin> fst ` set m"
  shows "foldl (\<lambda>m x. alist_put (f x) (g x) m) m xs = m @ map (\<lambda>x. (f x, g x)) xs"
  using assms
proof (induction xs arbitrary: m)
  case (Cons x xs)
  then have put: "alist_put (f x) (g x) m = m @ [(f x, g x)]" by (simp add: alist_put_fresh)
  have "f x \<notin> f ` set xs" using Cons.prems(1) by simp
  then have "\<forall>y\<in>set xs. f y \<noteq> f x" by (metis imageI)
  then have "\<forall>y\<in>set xs. f y \<notin> fst ` set (m @ [(f x, g x)])" using Cons.prems(2) by simp
  then show ?case using Cons.IH [of "m @ [(f x, g x)]"] Cons.prems(1) put by simp
qed simp

lemma headers_multi_map:
  "distinct (map (\<lambda>h. to_lower (fst h)) hs)
     \<Longrightarrow> headers_multi hs = map (\<lambda>h. (to_lower (fst h), header_value (snd h))) hs"
  by (simp add: headers_multi_def fold_put_fresh)

lemma those_Some: "those (map (\<lambda>x. Some (f x)) xs) = Some (map f xs)"
  by (induction xs) simp_all

lemma decode_header_value [simp]: "decode_strings (header_value vs) = Some vs"
  by (simp add: header_value_def those_Some [of "\<lambda>x. x", simplified] comp_def)

lemma decode_headers_multi:
  "decode_object decode_strings (GMap (map (\<lambda>h. (to_lower (fst h), header_value (snd h))) hs))
     = Some (map (\<lambda>h. (to_lower (fst h), snd h)) hs)"
  by (simp add: comp_def those_Some)

lemma stored_headers_parse:
  assumes "distinct (map (\<lambda>h. to_lower (fst h)) hs)" "\<forall>h\<in>set hs. field_name (fst h)"
  shows "parse_stored_header_map (Some (Inr (GMap (headers_multi hs)))) = Inr (headers_flat hs)"
proof -
  have key: "header_key (to_lower (fst h)) = to_lower (fst h)" if "h \<in> set hs" for h
    using assms(2) that by (simp add: header_key_def field_name_def)
  have "foldl (\<lambda>m h. case snd h of [] \<Rightarrow> m | x # _ \<Rightarrow> alist_put (header_key (fst h)) x m) m
          (map (\<lambda>h. (to_lower (fst h), snd h)) hs)
      = foldl (\<lambda>m h. case snd h of [] \<Rightarrow> m | v # _ \<Rightarrow> alist_put (to_lower (fst h)) v m) m hs" for m
    using key by (induction hs arbitrary: m) (simp_all split: list.split)
  moreover have "decode_object Some (GMap m) = Some m" for m :: go_map
    by (induction m) auto
  ultimately show ?thesis
    unfolding parse_stored_header_map_def headers_flat_def headers_multi_map [OF assms(1)]
    by (simp only: option.case sum.case decode_headers_multi)
qed

section \<open>No webhook is dropped\<close>

text \<open>Other sessions may add rows and change others, but they do not delete.\<close>

definition gaps_keep :: "dora_env \<Rightarrow> bool" where
  "gaps_keep env \<longleftrightarrow> (\<forall>k d. set (dora_events d) \<subseteq> set (dora_events (de_gap env k d)))"

lemma exec_insert_event:
  assumes "gaps_keep env" "dora_exec env k (insert_event_stmt r) d = (res, d')"
  shows "set (dora_events d) \<subseteq> set (dora_events d')"
    and "res = Inr a \<Longrightarrow> list_ex (row_conflict r) (dora_events d')"
proof -
  let ?d1 = "de_gap env k d"
  have gap: "set (dora_events d) \<subseteq> set (dora_events ?d1)" using assms(1) by (simp add: gaps_keep_def)
  have mono: "set (dora_events ?d1) \<subseteq> set (dora_events d2)"
    if "insert_event_stmt r (de_time env k) ?d1 = Inr (b, d2)" for b d2
    using insert_event_covers(2) [OF that] .
  show "set (dora_events d) \<subseteq> set (dora_events d')"
    using assms(2) gap mono
    by (cases "insert_event_stmt r (de_time env k) ?d1")
      (fastforce simp: dora_exec_def Let_def split: option.splits if_splits prod.splits)+
  show "list_ex (row_conflict r) (dora_events d')" if "res = Inr a"
    using assms(2) that insert_event_covers(1) [of r "de_time env k" ?d1]
    by (auto simp: dora_exec_def Let_def split: option.splits sum.splits prod.splits)
qed

definition covered :: "dora_db \<Rightarrow> dora_event \<Rightarrow> bool" where
  "covered d e \<longleftrightarrow> (\<exists>i p. list_ex (row_conflict (event_row i e p)) (dora_events d))"

lemma covered_mono: "covered d e \<Longrightarrow> set (dora_events d) \<subseteq> set (dora_events d') \<Longrightarrow> covered d' e"
  by (auto simp: covered_def list_ex_iff)

lemma store_events_covers:
  "store_events env k es d = (res, d') \<Longrightarrow> gaps_keep env
     \<Longrightarrow> set (dora_events d) \<subseteq> set (dora_events d') \<and> (\<forall>n. res = Inr n \<longrightarrow> n = length es \<and> (\<forall>e\<in>set es. covered d' e))"
proof (induction es arbitrary: k d res d')
  case (Cons e es)
  show ?case
  proof (cases "payload_text env e")
    case (Inl m)
    then show ?thesis using Cons.prems(1) by auto
  next
    case (Inr p)
    let ?r = "event_row (de_uuid env k) e p"
    obtain res1 d1 where ex: "dora_exec env k (insert_event_stmt ?r) d = (res1, d1)" by (metis surj_pair)
    note one = exec_insert_event [OF Cons.prems(2) ex]
    show ?thesis
    proof (cases res1)
      case (Inl m)
      then show ?thesis using Cons.prems(1) Inr ex one(1) by auto
    next
      case (Inr a)
      obtain res2 d2 where st: "store_events env (Suc k) es d1 = (res2, d2)" by (metis surj_pair)
      note rest = Cons.IH [OF st Cons.prems(2)]
      have "covered d1 e" using one(2) Inr by (auto simp: covered_def)
      then have "covered d2 e" using rest covered_mono by blast
      then show ?thesis
        using Cons.prems(1) \<open>payload_text env e = Inr p\<close> ex Inr st rest one(1)
        by (auto split: sum.splits)
    qed
  qed
qed simp

definition dead_letter_of :: "string \<Rightarrow> string \<Rightarrow> go_any \<Rightarrow> string \<Rightarrow> string \<Rightarrow> dead_letter \<Rightarrow> bool" where
  "dead_letter_of tenant provider hs body i r \<longleftrightarrow> dl_id r = i \<and> dl_tenant_id r = tenant \<and> dl_provider r = provider
     \<and> dl_headers r = hs \<and> dl_body r = body \<and> dl_replayed_at r = None"

lemma write_dead_letter_stores:
  "write_dead_letter env k tenant provider code hs body detail d = (i, d') \<Longrightarrow> i \<noteq> []
     \<Longrightarrow> \<exists>r\<in>set (dead_letters d'). dead_letter_of tenant provider hs body i r"
  by (auto simp: write_dead_letter_def dora_exec_def Let_def insert_dead_letter_stmt_def dead_letter_of_def
      split: if_splits option.splits sum.splits prod.splits)

text \<open>The answer to a webhook that could not be processed.\<close>

definition accounted_failure :: "string \<Rightarrow> string \<Rightarrow> go_any \<Rightarrow> string \<Rightarrow> dora_response list \<Rightarrow> dora_db \<Rightarrow> bool" where
  "accounted_failure tenant provider hs body ws d \<longleftrightarrow>
     (\<exists>code detail i. i \<noteq> [] \<and> ws = [Not_processed code detail i]
        \<and> (\<exists>r\<in>set (dead_letters d). dead_letter_of tenant provider hs body i r))
     \<or> (\<exists>detail. ws = [Not_processed ''store_error'' detail []])"

lemma fail_accounted:
  "fail_with_dead_letter env k tenant provider code detail hs body d = (ws, d')
     \<Longrightarrow> accounted_failure tenant provider hs body ws d'"
  using write_dead_letter_stores [of env k tenant provider code hs body detail d]
  by (auto simp: fail_with_dead_letter_def accounted_failure_def split: prod.splits if_splits)

lemma ingest_cases:
  assumes "gaps_keep env" "ingest_webhook registry env q d = (ws, d')"
    and "webhook_provider q \<noteq> []" "qp q ''tenant_id'' \<noteq> []" "qp q ''service_ref'' \<noteq> []" "rq_body q = Inr body"
  shows "(\<exists>n events. norm_resolve registry (webhook_provider q) = Some n \<and> webhook_events env q body n = Inr events
        \<and> first_invalid events = None \<and> ws = [Processed (length events)] \<and> (\<forall>e\<in>set events. covered d' e))
     \<or> accounted_failure (qp q ''tenant_id'') (webhook_provider q) (GMap (headers_multi (rq_headers q))) body ws d'"
    (is "?ok \<or> ?failed")
proof -
  let ?dead = "\<lambda>k code detail. fail_with_dead_letter env k (qp q ''tenant_id'') (webhook_provider q) code detail
    (GMap (headers_multi (rq_headers q))) body"
  note step = assms(2) [unfolded ingest_webhook_def Let_def, simplified assms(3-6) if_False sum.case simp_thms]
  show ?thesis
  proof (cases "norm_resolve registry (webhook_provider q)")
    case None
    then show ?thesis using step fail_accounted by simp
  next
    case (Some n)
    note n = Some
    show ?thesis
    proof (cases "webhook_events env q body n")
      case (Inl e)
      then show ?thesis using step n fail_accounted by simp
    next
      case (Inr events)
      note ev = Inr
      show ?thesis
      proof (cases "first_invalid events")
        case (Some e)
        then show ?thesis using step n ev fail_accounted by simp
      next
        case None
        obtain res d1 where st: "store_events env 1 events d = (res, d1)" by (metis surj_pair)
        note cov = store_events_covers [OF st assms(1)]
        have "?ok \<or> ?failed" if "events = []"
          using step n ev None that by auto
        moreover have "?ok \<or> ?failed" if "events \<noteq> []" "\<not> de_pool env \<or> de_acquire env 1 \<noteq> None"
          using step n ev None that fail_accounted by simp
        moreover have "?ok \<or> ?failed" if "events \<noteq> []" "de_pool env" "de_acquire env 1 = None"
        proof (cases res)
          case (Inl f)
          then show ?thesis using step n ev None that st fail_accounted by (cases f) simp_all
        next
          case (Inr w)
          then have "ws = [Processed w] \<and> d' = d1" using step n ev None that st by simp
          then have ?ok using cov Inr n ev None by simp
          then show ?thesis ..
        qed
        ultimately show ?thesis by blast
      qed
    qed
  qed
qed

end
