(* ===== verification/Dora_Redelivery.thy ===== *)
theory Dora_Redelivery
  imports Dora_Delivery
begin

text \<open>
  Repetition: a webhook that is delivered again, a dead letter that is replayed again, and what the
  refusals of \<open>authorize\<close> do to the handlers that call it.
\<close>

section \<open>A delivery counts once\<close>

text \<open>The identifier a provider gives a delivery, in the headers each normaliser looks at.\<close>

definition delivery_id :: "string \<Rightarrow> headers \<Rightarrow> string" where
  "delivery_id provider hs =
     (if provider = ''github'' then header hs ''x-github-delivery''
      else if provider = ''gitlab'' then header hs ''x-gitlab-delivery''
      else if provider = ''datadog'' then first_header hs [''dd-request-id'', ''x-datadog-request-id'', ''x-datadog-delivery'']
      else first_header hs [''x-request-id'', ''x-opsgenie-webhook-id'', ''x-opsgenie-delivery''])"

text \<open>Two runs of a normaliser at different times give events that differ in times only.\<close>

definition retimed :: "time \<Rightarrow> dora_event \<Rightarrow> dora_event \<Rightarrow> bool" where
  "retimed t e e' \<longleftrightarrow> e' = e\<lparr>ev_timestamp := ev_timestamp e'\<rparr> \<and> ev_timestamp e' \<in> {ev_timestamp e, t}"

definition retime_result :: "time \<Rightarrow> string + dora_event list \<Rightarrow> string + dora_event list \<Rightarrow> bool" where
  "retime_result t a b \<longleftrightarrow>
     (case (a, b) of (Inl e, Inl e') \<Rightarrow> e = e' | (Inr es, Inr es') \<Rightarrow> list_all2 (retimed t) es es' | _ \<Rightarrow> False)"

lemma retime_simps [simp]:
  "retime_result t (Inl e) (Inl e')  \<longleftrightarrow> e = e'"
  "retime_result t (Inr es) (Inr es') \<longleftrightarrow> list_all2 (retimed t) es es'"
  "retime_result t (Inr es) (Inl e') \<longleftrightarrow> False"
  "retime_result t (Inl e) (Inr es') \<longleftrightarrow> False"
  by (simp_all add: retime_result_def)

lemma retimed_events [simp]:
  "retimed t (push_event source tenant service delivery ref i c a) (push_event source tenant service delivery ref i c b)
     \<longleftrightarrow> b = a \<or> b = t"
  "retimed t (merged_event source tenant service delivery sha a) (merged_event source tenant service delivery sha b)
     \<longleftrightarrow> b = a \<or> b = t"
  "retimed t (incident_event source tenant service kind delivery incident a p)
     (incident_event source tenant service kind delivery incident b p) \<longleftrightarrow> b = a \<or> b = t"
  by (simp_all add: retimed_def push_event_def merged_event_def incident_event_def Let_def)

lemma retime_push_events:
  "retime_result t (push_events j now source tenant service delivery ref i cs)
     (push_events j t source tenant service delivery ref i cs)"
proof (induction cs arbitrary: i)
  case (Cons c cs)
  show ?case
    using Cons [of "Suc i"]
    by (cases "push_events j now source tenant service delivery ref (Suc i) cs";
        cases "push_events j t source tenant service delivery ref (Suc i) cs")
      (simp_all split: sum.split)
qed simp

lemma retime_normalize_push:
  "retime_result t (normalize_push j now source tenant service delivery body)
     (normalize_push j t source tenant service delivery body)"
  by (cases "dj_push j body") (simp_all add: normalize_push_def retime_push_events)

lemma retime_normalize_merged:
  "retime_result t (normalize_merged j now source what tenant service delivery a b c)
     (normalize_merged j t source what tenant service delivery a b c)"
  by (simp add: normalize_merged_def Let_def split: sum.split)

lemma retime_time_or: "time_or j raw b \<in> {time_or j raw a, t}" if "b \<in> {a, t}"
  using that by (auto simp: time_or_def split: sum.split)

lemma retime_normalizer:
  assumes "(provider, n) \<in> set default_normalizers"
  shows "retime_result t (n j now tenant service hs body) (n j t tenant service hs body)"
proof -
  have pr: "retime_result t (normalize_github_pull_request j now tenant service delivery body)
      (normalize_github_pull_request j t tenant service delivery body)" for delivery
    by (cases "dj_pull_request j body")
      (simp_all add: normalize_github_pull_request_def retime_normalize_merged)
  have mr: "retime_result t (normalize_gitlab_merge_request j now tenant service delivery body)
      (normalize_gitlab_merge_request j t tenant service delivery body)" for delivery
    by (cases "dj_merge_request j body")
      (simp_all add: normalize_gitlab_merge_request_def retime_normalize_merged)
  have c: "time_or j raw t \<in> {time_or j raw now, t}" for raw
    by (rule retime_time_or) simp
  then have u: "time_or j raw' (time_or j raw t) \<in> {time_or j raw' (time_or j raw now), t}" for raw raw'
    by (intro retime_time_or) simp
  have gh: "retime_result t (github_normalize j now tenant service hs body) (github_normalize j t tenant service hs body)"
    by (simp add: github_normalize_def Let_def retime_normalize_push pr)
  have gl: "retime_result t (gitlab_normalize j now tenant service hs body) (gitlab_normalize j t tenant service hs body)"
    by (simp add: gitlab_normalize_def Let_def retime_normalize_push mr)
  have dd: "retime_result t (datadog_normalize j now tenant service hs body) (datadog_normalize j t tenant service hs body)"
    using c u by (simp add: datadog_normalize_def Let_def split: sum.split option.split)
  have og: "retime_result t (opsgenie_normalize j now tenant service hs body) (opsgenie_normalize j t tenant service hs body)"
    using c u by (simp add: opsgenie_normalize_def Let_def split: sum.split option.split)
  show ?thesis
    using assms gh gl dd og unfolding default_normalizers_def by (simp, elim disjE) simp_all
qed

lemma source_id_nonblank: "delivery \<noteq> [] \<Longrightarrow> trim_space (source_id delivery tail) \<noteq> []"
  unfolding trim_space_empty_iff by (simp add: source_id_def is_space_def)

definition has_source_id :: "dora_event \<Rightarrow> bool" where
  "has_source_id e \<longleftrightarrow> trim_space (ev_source_event_id e) \<noteq> []"

lemma has_source_id_events [simp]:
  "delivery \<noteq> [] \<Longrightarrow> trim_space delivery = delivery
     \<Longrightarrow> has_source_id (push_event source tenant service delivery ref i c t)"
  "delivery \<noteq> [] \<Longrightarrow> trim_space delivery = delivery
     \<Longrightarrow> has_source_id (merged_event source tenant service delivery sha t)"
  "delivery \<noteq> [] \<Longrightarrow> has_source_id (incident_event source tenant service kind delivery incident t p)"
  by (simp_all add: has_source_id_def push_event_def merged_event_def incident_event_def Let_def source_id_nonblank
      del: nat_str.simps)

lemma push_events_source_id:
  "push_events j now source tenant service delivery ref i cs = Inr es \<Longrightarrow> delivery \<noteq> []
     \<Longrightarrow> trim_space delivery = delivery \<Longrightarrow> list_all has_source_id es"
  by (induction cs arbitrary: i es) (auto split: if_splits sum.splits)

lemma normalize_merged_source_id:
  "normalize_merged j now source what tenant service delivery a b c = Inr es \<Longrightarrow> delivery \<noteq> []
     \<Longrightarrow> trim_space delivery = delivery \<Longrightarrow> list_all has_source_id es"
  by (auto simp: normalize_merged_def Let_def split: if_splits sum.splits)

lemma trim_header [simp]: "trim_space (header hs k) = header hs k"
  by (simp add: header_def)

lemma normalizer_source_id:
  assumes "(provider, n) \<in> set default_normalizers" "delivery_id provider hs \<noteq> []"
    "n j now tenant service hs body = Inr es"
  shows "list_all has_source_id es"
proof -
  have push: "list_all has_source_id es"
    if "normalize_push j now source tenant service (header hs k) body = Inr es" "header hs k \<noteq> []" for source k
    using that by (auto simp: normalize_push_def dest: push_events_source_id split: sum.splits)
  have pr: "list_all has_source_id es"
    if "normalize_github_pull_request j now tenant service (header hs k) body = Inr es" "header hs k \<noteq> []" for k
    using that by (auto simp: normalize_github_pull_request_def dest: normalize_merged_source_id
        split: sum.splits if_splits)
  have mr: "list_all has_source_id es"
    if "normalize_gitlab_merge_request j now tenant service (header hs k) body = Inr es" "header hs k \<noteq> []" for k
    using that by (auto simp: normalize_gitlab_merge_request_def dest: normalize_merged_source_id
        split: sum.splits if_splits)
  consider "provider = ''github''" "n = github_normalize" | "provider = ''gitlab''" "n = gitlab_normalize"
    | "provider = ''datadog''" "n = datadog_normalize" | "provider = ''opsgenie''" "n = opsgenie_normalize"
    using assms(1) by (auto simp: default_normalizers_def)
  then show ?thesis
  proof cases
    case 1
    then show ?thesis using assms(2,3) push pr
      by (simp add: delivery_id_def github_normalize_def Let_def split: if_split_asm)
  next
    case 2
    then show ?thesis using assms(2,3) push mr
      by (simp add: delivery_id_def gitlab_normalize_def Let_def split: if_split_asm)
  next
    case 3
    then show ?thesis using assms(2,3)
      by (simp add: delivery_id_def datadog_normalize_def Let_def split: if_split_asm sum.split_asm option.split_asm) auto
  next
    case 4
    then show ?thesis using assms(2,3)
      by (simp add: delivery_id_def opsgenie_normalize_def Let_def split: if_split_asm sum.split_asm option.split_asm) auto
  qed
qed

text \<open>A row that stands in the way of the event whatever id, time and payload its row would have.\<close>

definition blocks :: "dora_event \<Rightarrow> dora_row \<Rightarrow> bool" where
  "blocks e x \<longleftrightarrow> same_source_event (event_row [] e []) x \<or> same_deployment (event_row [] e []) x"

lemma row_conflict_event: "row_conflict (event_row i e p) x \<longleftrightarrow> i = dr_id x \<or> blocks e x"
  by (simp add: row_conflict_def blocks_def same_source_event_def same_deployment_def event_row_def)

lemma blocks_own: "has_source_id e \<Longrightarrow> blocks e (event_row i e p)"
  by (simp add: blocks_def same_source_event_def event_row_def sql_eq_def nullable_string_def has_source_id_def)

lemma blocks_retimed: "retimed t e e' \<Longrightarrow> blocks e' x \<longleftrightarrow> blocks e x"
proof -
  assume "retimed t e e'"
  then have "e' = e\<lparr>ev_timestamp := ev_timestamp e'\<rparr>" by (simp add: retimed_def)
  moreover have "blocks (e\<lparr>ev_timestamp := s\<rparr>) x \<longleftrightarrow> blocks e x" for s
    by (simp add: blocks_def same_source_event_def same_deployment_def event_row_def)
  ultimately show ?thesis by metis
qed

lemma store_events_blocks:
  "store_events env k es d = (Inr n, d') \<Longrightarrow> quiet_dora env \<Longrightarrow> inj (de_uuid env)
     \<Longrightarrow> \<forall>j\<ge>k. de_uuid env j \<notin> dr_id ` set (dora_events d) \<Longrightarrow> list_all has_source_id es
     \<Longrightarrow> set (dora_events d) \<subseteq> set (dora_events d') \<and> (\<forall>e\<in>set es. \<exists>x\<in>set (dora_events d'). blocks e x)"
proof (induction es arbitrary: k d n)
  case (Cons e es)
  from Cons.prems(1) obtain p where p: "payload_text env e = Inr p" by (auto split: sum.splits)
  let ?r = "event_row (de_uuid env k) e p"
  from Cons.prems(1) p obtain a d1 m where
    ins: "insert_event_stmt ?r (de_time env k) d = Inr (a, d1)" and st: "store_events env (Suc k) es d1 = (Inr m, d')"
    by (auto simp: dora_exec_quiet [OF Cons.prems(2)] split: sum.splits prod.splits)
  have fresh: "de_uuid env k \<noteq> dr_id x" if "x \<in> set (dora_events d)" for x
    using Cons.prems(4) that by (metis imageI order_refl)
  have one: "\<exists>x\<in>set (dora_events d1). blocks e x"
    using ins fresh Cons.prems(5) blocks_own
    by (auto simp: insert_event_stmt_def row_conflict_event list_ex_iff split: if_splits)
  have "dora_events d1 = dora_events d \<or> dora_events d1 = dora_events d @ [?r]"
    using ins by (auto simp: insert_event_stmt_def split: if_splits)
  moreover have "dr_id ?r = de_uuid env k" by (simp add: event_row_def)
  moreover have "de_uuid env j \<noteq> de_uuid env k" if "Suc k \<le> j" for j
    using Cons.prems(3) that by (auto dest: injD)
  moreover have "de_uuid env j \<noteq> dr_id x" if "Suc k \<le> j" "x \<in> set (dora_events d)" for j x
    using Cons.prems(4) that by (metis Suc_leD imageI)
  ultimately have "\<forall>j\<ge>Suc k. de_uuid env j \<notin> dr_id ` set (dora_events d1)" by auto
  then have rest: "set (dora_events d1) \<subseteq> set (dora_events d') \<and> (\<forall>e\<in>set es. \<exists>x\<in>set (dora_events d'). blocks e x)"
    using Cons.IH [OF st Cons.prems(2,3)] Cons.prems(5) by simp
  then show ?case using one insert_event_covers(2) [OF ins] by auto
qed simp

lemma store_events_blocked:
  assumes "quiet_dora env" "\<And>m. \<exists>s. de_marshal env m = Inr s" "list_all (\<lambda>e. ev_event_type e \<in> set dora_event_types) es"
    "\<forall>e\<in>set es. \<exists>x\<in>set (dora_events d). blocks e x"
  shows "store_events env k es d = (Inr (length es), d)"
  using assms(3,4)
proof (induction es arbitrary: k)
  case (Cons e es)
  obtain p where p: "payload_text env e = Inr p"
    using assms(2) by (cases "ev_payload e") (auto simp: payload_text_def)
  have "list_ex (row_conflict (event_row (de_uuid env k) e p)) (dora_events d)"
    using Cons.prems(2) by (auto simp: list_ex_iff row_conflict_event)
  moreover have "dr_event_type (event_row (de_uuid env k) e p) \<in> set dora_event_types"
    using Cons.prems(1) by (simp add: event_row_def)
  ultimately show ?case
    using Cons p by (simp add: dora_exec_quiet [OF assms(1)] insert_event_noop)
qed simp

lemma first_invalid_None: "first_invalid es = None \<longleftrightarrow> (\<forall>e\<in>set es. validate_event e = None)"
proof (cases "filter (\<lambda>e. validate_event e \<noteq> None) es")
  case Nil
  then show ?thesis by (auto simp: first_invalid_def filter_empty_conv)
next
  case (Cons e es')
  then have "e \<in> set (filter (\<lambda>e. validate_event e \<noteq> None) es)" by simp
  then show ?thesis using Cons by (auto simp: first_invalid_def)
qed

lemma valid_event_type: "validate_event e = None \<Longrightarrow> ev_event_type e \<in> set dora_event_types"
  by (simp add: validate_event_def split: if_split_asm)

lemma validate_retimed:
  assumes "retimed t e e'" "t \<noteq> unset_time" "validate_event e = None"
  shows "validate_event e' = None"
proof -
  have e': "e' = e\<lparr>ev_timestamp := ev_timestamp e'\<rparr>" and t: "ev_timestamp e' \<in> {ev_timestamp e, t}"
    using assms(1) by (simp_all add: retimed_def)
  have "ev_timestamp e \<noteq> unset_time" using assms(3) by (simp add: validate_event_def split: if_split_asm)
  then have "ev_timestamp e' \<noteq> unset_time" using t assms(2) by auto
  moreover have "s \<noteq> unset_time \<Longrightarrow> validate_event (e\<lparr>ev_timestamp := s\<rparr>) = None" for s
    using assms(3) by (simp add: validate_event_def split: if_split_asm)
  ultimately show ?thesis using e' by metis
qed


lemma fail_not_processed: "fst (fail_with_dead_letter env k tenant provider code detail hs body d) \<noteq> [Processed w]"
  by (simp add: fail_with_dead_letter_def split: prod.split)

lemma ingest_processedE:
  assumes "ingest_webhook registry env q d = ([Processed w], d1)"
  obtains body n events where "webhook_provider q \<noteq> []" "qp q ''tenant_id'' \<noteq> []" "qp q ''service_ref'' \<noteq> []"
    "rq_body q = Inr body" "norm_resolve registry (webhook_provider q) = Some n"
    "webhook_events env q body n = Inr events" "first_invalid events = None"
    "store_events env 1 events d = (Inr w, d1)"
proof -
  have no: "fail_with_dead_letter env k tenant provider code detail hs body d2 \<noteq> ([Processed w], d1)"
    for k tenant provider code detail hs body d2
    using fail_not_processed by (metis fst_conv)
  have ok: "webhook_provider q \<noteq> []" "qp q ''tenant_id'' \<noteq> []" "qp q ''service_ref'' \<noteq> []"
    using assms by (auto simp: ingest_webhook_def Let_def)
  then obtain body where body: "rq_body q = Inr body"
    using assms by (cases "rq_body q") (simp_all add: ingest_webhook_def Let_def)
  note step = assms [unfolded ingest_webhook_def Let_def, simplified ok body if_False sum.case simp_thms]
  obtain n where n: "norm_resolve registry (webhook_provider q) = Some n"
    using step no by (cases "norm_resolve registry (webhook_provider q)") simp_all
  obtain events where ev: "webhook_events env q body n = Inr events"
    using step n no by (cases "webhook_events env q body n") simp_all
  have valid: "first_invalid events = None"
    using step n ev no by (cases "first_invalid events") simp_all
  have "store_events env 1 events d = (Inr w, d1)"
    using step n ev valid no
    by (simp split: if_split_asm prod.split_asm sum.split_asm store_failure.split_asm)
  then show thesis using that ok body n ev valid by blast
qed

lemma ingest_processedI:
  assumes "webhook_provider q \<noteq> []" "qp q ''tenant_id'' \<noteq> []" "qp q ''service_ref'' \<noteq> []"
    "rq_body q = Inr body" "norm_resolve registry (webhook_provider q) = Some n"
    "webhook_events env q body n = Inr events" "first_invalid events = None"
    "store_events env 1 events d = (Inr w, d1)" "quiet_dora env"
  shows "ingest_webhook registry env q d = ([Processed w], d1)"
  using assms by (cases "events = []") (simp_all add: ingest_webhook_def quiet_dora_def Let_def)

lemma space_lower_char [simp]: "is_space (lower_char c) \<longleftrightarrow> is_space c"
proof -
  have code: "is_space c \<longleftrightarrow> (of_char c :: nat) \<in> {32, 9, 10, 11, 12, 13}" for c
  proof
    assume "(of_char c :: nat) \<in> {32, 9, 10, 11, 12, 13}"
    then have "c \<in> (char_of :: nat \<Rightarrow> char) ` {32, 9, 10, 11, 12, 13}"
      by (metis char_of_char image_eqI)
    then show "is_space c" by (auto simp: is_space_def char_of_def bit_simps)
  qed (auto simp: is_space_def)
  have "(of_char c :: nat) < 256" by simp
  then show ?thesis by (auto simp: code lower_char_def Let_def)
qed

lemma trim_to_lower: "trim_space (to_lower s) = to_lower (trim_space s)"
  by (simp add: trim_space_def to_lower_def dropWhile_map comp_def rev_map)

lemma norm_resolve_webhook:
  "norm_resolve default_normalizers (webhook_provider q) = Some n \<Longrightarrow> (webhook_provider q, n) \<in> set default_normalizers"
  by (auto simp: norm_resolve_def webhook_provider_def trim_to_lower dest: map_of_SomeD)

lemma redelivery:
  assumes "quiet_dora env" "quiet_dora env'" "inj (de_uuid env)" "\<forall>k. de_uuid env k \<notin> dr_id ` set (dora_events d)"
    "de_parsers env' = de_parsers env" "\<And>m. \<exists>s. de_marshal env' m = Inr s" "de_now env' \<noteq> unset_time"
    "delivery_id (webhook_provider q) (headers_flat (rq_headers q)) \<noteq> []"
    "ingest_webhook default_normalizers env q d = ([Processed w], d1)"
  shows "ingest_webhook default_normalizers env' q d1 = ([Processed w], d1)"
proof (rule ingest_processedE [OF assms(9)])
  fix body n events
  assume ok: "webhook_provider q \<noteq> []" "qp q ''tenant_id'' \<noteq> []" "qp q ''service_ref'' \<noteq> []" "rq_body q = Inr body"
    and n: "norm_resolve default_normalizers (webhook_provider q) = Some n"
    and ev: "webhook_events env q body n = Inr events" and valid: "first_invalid events = None"
    and st: "store_events env 1 events d = (Inr w, d1)"
  note reg = norm_resolve_webhook [OF n]
  have "list_all has_source_id events"
    using normalizer_source_id [OF reg assms(8)] ev by (simp add: webhook_events_def)
  then have blocked: "\<forall>e\<in>set events. \<exists>x\<in>set (dora_events d1). blocks e x"
    using store_events_blocks [OF st assms(1,3)] assms(4) by blast
  have "retime_result (de_now env') (webhook_events env q body n) (webhook_events env' q body n)"
    using retime_normalizer [OF reg] by (simp add: webhook_events_def assms(5))
  then obtain events' where ev': "webhook_events env' q body n = Inr events'"
    and re: "list_all2 (retimed (de_now env')) events events'"
    using ev by (cases "webhook_events env' q body n") auto
  have pair: "\<exists>e\<in>set events. retimed (de_now env') e e'" if "e' \<in> set events'" for e'
    using re that by (metis in_set_conv_nth list_all2_conv_all_nth)
  have valid': "\<forall>e'\<in>set events'. validate_event e' = None"
    using pair validate_retimed [OF _ assms(7)] valid by (meson first_invalid_None)
  have "\<forall>e'\<in>set events'. \<exists>x\<in>set (dora_events d1). blocks e' x"
    using pair blocked blocks_retimed by blast
  moreover have "list_all (\<lambda>e. ev_event_type e \<in> set dora_event_types) events'"
    using valid' valid_event_type by (simp add: list_all_iff)
  ultimately have "store_events env' 1 events' d1 = (Inr (length events'), d1)"
    by (intro store_events_blocked [OF assms(2,6)])
  moreover have "length events' = w"
    using re store_events_covers [OF st] assms(1) list_all2_lengthD [OF re]
    by (simp add: gaps_keep_def quiet_dora_def)
  ultimately show ?thesis
    using ingest_processedI [OF ok n ev' _ _ assms(2)] valid' first_invalid_None by blast
qed

section \<open>A dead letter is replayed once\<close>

definition all_replayed :: "string \<Rightarrow> string \<Rightarrow> dora_db \<Rightarrow> bool" where
  "all_replayed i tenant d \<longleftrightarrow>
     list_all (\<lambda>r. dl_id r = i \<and> dl_tenant_id r = tenant \<longrightarrow> dl_replayed_at r \<noteq> None) (dead_letters d)"

lemma mark_replayed_all: "mark_replayed_stmt i tenant job t d = Inr (a, d') \<Longrightarrow> all_replayed i tenant d'"
proof -
  let ?P = "\<lambda>r. dl_id r = i \<and> dl_tenant_id r = tenant \<and> dl_replayed_at r = None"
  assume "mark_replayed_stmt i tenant job t d = Inr (a, d')"
  then have d': "dead_letters d' = update_rows ?P (mark_replayed job t) (dead_letters d)"
    by (auto simp: mark_replayed_stmt_def Let_def split: option.split_asm)
  have "dl_replayed_at (if ?P r then mark_replayed job t r else r) \<noteq> None"
    if "dl_id (if ?P r then mark_replayed job t r else r) = i \<and> dl_tenant_id (if ?P r then mark_replayed job t r else r) = tenant" for r
    using that by (cases "?P r") (simp_all add: mark_replayed_def)
  then show ?thesis
    unfolding all_replayed_def d' update_rows_def list.pred_map by (simp add: list_all_iff)
qed

lemma exec_mark_replayed:
  "dora_exec env k (mark_replayed_stmt i tenant job) d = (Inr a, d') \<Longrightarrow> all_replayed i tenant d'"
  by (auto simp: dora_exec_def Let_def dest: mark_replayed_all split: option.split_asm sum.split_asm)

lemma replay_row_replayed:
  "replay_row registry env q r d = (ws, d') \<Longrightarrow> Replayed i job w \<in> set ws
     \<Longrightarrow> i = trim_space (rq_param q) \<and> all_replayed i (qp q ''tenant_id'') d'"
  unfolding replay_row_def Let_def
  by (auto dest: exec_mark_replayed
      split: if_split_asm sum.split_asm option.split_asm prod.split_asm store_failure.split_asm)

lemma authorize_answers:
  "authorize env k q tenant d = ((ws, e), d') \<Longrightarrow> x \<in> set ws \<Longrightarrow> x = Group_map_stale \<or> (\<exists>m c. x = Dora_error 403 m c)"
  by (simp add: authorize_def refuse_def Let_def split: option.split_asm if_split_asm prod.split_asm sum.split_asm) auto

lemma with_dead_letter_replayed:
  assumes "with_dead_letter env q f d = (ws, d')" "Replayed i job w \<in> set ws"
  obtains ws' r d1 where "f r d1 = (ws', d')" "Replayed i job w \<in> set ws'"
proof -
  have "trim_space (rq_param q) \<noteq> []" "qp q ''tenant_id'' \<noteq> []"
    using assms by (auto simp: with_dead_letter_def Let_def split: if_split_asm)
  then have body: "after_authorize env 0 q (qp q ''tenant_id'') (\<lambda>d.
        if \<not> de_pool env then ([Dora_error 404 ''dead-letter row not found'' ''NOT_FOUND''], d)
        else if de_acquire env 1 \<noteq> None then ([Dora_error 500 ''database unavailable'' ''INTERNAL_ERROR''], d)
        else case dora_query env 1 (\<lambda>d. case select_dead_letter (trim_space (rq_param q)) (qp q ''tenant_id'') d of
               None \<Rightarrow> Inl ''no rows in result set'' | Some r \<Rightarrow> Inr r) d of
          (Inl e, d1) \<Rightarrow> ([Dora_error 404 ''dead-letter row not found'' ''NOT_FOUND''], d1)
        | (Inr r, d1) \<Rightarrow> f r d1) d = (ws, d')"
    using assms(1) by (simp add: with_dead_letter_def Let_def)
  obtain ws0 e d0 where au: "authorize env 0 q (qp q ''tenant_id'') d = ((ws0, e), d0)" by (metis surj_pair)
  have no: "Replayed i job w \<notin> set ws0" using authorize_answers [OF au] by auto
  show thesis
    using body au no assms(2) that
    by (cases e) (auto simp: after_authorize_def split: if_split_asm prod.split_asm sum.split_asm)
qed

section \<open>Refusals\<close>

text \<open>When the refusal reaches the client, \<open>authorize\<close> returns no error.\<close>

lemma authorize_proceeds:
  assumes "de_json_error env = None" "\<And>k d. de_gap env k d = d"
  shows "\<exists>ws. authorize env k q tenant d = ((ws, None), d)"
proof -
  have "snd (dora_query env k f d) = d" for f :: "dora_db \<Rightarrow> string + time"
    by (simp add: dora_query_db assms(2))
  then have q: "\<exists>x. dora_query env k f d = (x, d)" for f :: "dora_db \<Rightarrow> string + time"
    by (metis prod.collapse)
  obtain x where "dora_query env k (\<lambda>d. case last_synced tenant (qp q ''group_id'') d of
      None \<Rightarrow> Inl ''cannot scan NULL into time.Time'' | Some t \<Rightarrow> Inr t) d = (x, d)"
    using q by blast
  then show ?thesis
    by (simp add: authorize_def refuse_def assms(1) Let_def split: option.split sum.split)
qed

lemma authorize_keeps:
  assumes "\<And>k d. de_gap env k d = d"
  shows "snd (authorize env k q tenant d) = d"
  using dora_query_db [of env k "\<lambda>d. case last_synced tenant (qp q ''group_id'') d of
      None \<Rightarrow> Inl ''cannot scan NULL into time.Time'' | Some t \<Rightarrow> Inr t" d]
  by (simp add: authorize_def refuse_def Let_def assms split: option.split prod.split sum.split) auto

lemma query_keeps:
  assumes "\<And>k d. de_gap env k d = d"
  obtains x where "dora_query env k f d = (x, d)" "x = f d \<or> (\<exists>e. x = Inl e)"
proof -
  have "fst (dora_query env k f d) = f d \<or> (\<exists>e. fst (dora_query env k f d) = Inl e)"
    by (simp add: dora_query_def dora_exec_def Let_def assms split: option.split sum.split)
  then show thesis using that dora_query_db [of env k f d] assms by (metis prod.collapse)
qed

lemma replay_again:
  assumes "all_replayed (trim_space (rq_param q)) (qp q ''tenant_id'') d" "\<And>k d. de_gap env k d = d"
  shows "snd (replay_dead_letter registry env q d) = d \<and> Replayed i job n \<notin> set (fst (replay_dead_letter registry env q d))"
proof -
  let ?i = "trim_space (rq_param q)" and ?t = "qp q ''tenant_id''"
  obtain x where x: "dora_query env 1 (\<lambda>d. case select_dead_letter ?i ?t d of
      None \<Rightarrow> Inl ''no rows in result set'' | Some r \<Rightarrow> Inr r) d = (x, d)"
    "x = (case select_dead_letter ?i ?t d of None \<Rightarrow> Inl ''no rows in result set'' | Some r \<Rightarrow> Inr r) \<or> (\<exists>e. x = Inl e)"
    using query_keeps [OF assms(2)] by metis
  have row: "replay_row registry env q r d = ([Dora_error 409 ''dead-letter row already replayed'' ''ALREADY_REPLAYED''], d)"
    if "x = Inr r" for r
  proof -
    have "select_dead_letter ?i ?t d = Some r" using x(2) that by (auto split: option.split_asm)
    then have "r \<in> set (dead_letters d) \<and> dl_id r = ?i \<and> dl_tenant_id r = ?t"
      unfolding select_dead_letter_def by (rule find_Some_in)
    then show ?thesis using assms(1) by (auto simp: replay_row_def Let_def all_replayed_def list_all_iff)
  qed
  obtain ws e where au: "authorize env 0 q ?t d = ((ws, e), d)"
    using authorize_keeps [OF assms(2)] by (metis prod.collapse)
  have "Replayed i job n \<notin> set ws" using authorize_answers [OF au] by auto
  then show ?thesis
    using au x(1) row
    by (cases e; cases x) (simp_all add: replay_dead_letter_def with_dead_letter_def after_authorize_def Let_def)
qed

lemma after_authorize_proceeds:
  assumes "de_json_error env = None" "\<And>k d. de_gap env k d = d"
  obtains ws where "after_authorize env k q tenant body d = (ws @ fst (body d), snd (body d))"
proof -
  obtain ws where "authorize env k q tenant d = ((ws, None), d)" using authorize_proceeds [OF assms] by blast
  then show thesis using that by (simp add: after_authorize_def split: prod.split)
qed

lemma qp_claims [simp]: "qp (q\<lparr>rq_claims := c\<rparr>) k = qp q k"
  by (simp add: qp_def)

lemma replay_events_claims [simp]: "replay_events env (q\<lparr>rq_claims := c\<rparr>) = replay_events env q"
  by (simp add: fun_eq_iff replay_events_def)

lemma replay_row_claims [simp]: "replay_row registry env (q\<lparr>rq_claims := c\<rparr>) = replay_row registry env q"
  unfolding replay_row_def replay_events_claims qp_claims by simp

lemma with_dead_letter_claims:
  assumes "de_json_error env = None" "\<And>k d. de_gap env k d = d" "\<And>r d. fst (f r d) \<noteq> []"
  shows "snd (with_dead_letter env (q\<lparr>rq_claims := c\<rparr>) f d) = snd (with_dead_letter env q f d)
    \<and> last (fst (with_dead_letter env (q\<lparr>rq_claims := c\<rparr>) f d)) = last (fst (with_dead_letter env q f d))"
proof -
  let ?i = "trim_space (rq_param q)" and ?t = "qp q ''tenant_id''"
  define body where "body = (\<lambda>d.
        if \<not> de_pool env then ([Dora_error 404 ''dead-letter row not found'' ''NOT_FOUND''], d)
        else if de_acquire env 1 \<noteq> None then ([Dora_error 500 ''database unavailable'' ''INTERNAL_ERROR''], d)
        else case dora_query env 1 (\<lambda>d. case select_dead_letter ?i ?t d of
               None \<Rightarrow> Inl ''no rows in result set'' | Some r \<Rightarrow> Inr r) d of
          (Inl e, d1) \<Rightarrow> ([Dora_error 404 ''dead-letter row not found'' ''NOT_FOUND''], d1)
        | (Inr r, d1) \<Rightarrow> f r d1)"
  have ne: "fst (body d) \<noteq> []" using assms(3) by (simp add: body_def split: prod.split sum.split)
  obtain ws ws' where "after_authorize env 0 (q\<lparr>rq_claims := c\<rparr>) ?t body d = (ws @ fst (body d), snd (body d))"
    "after_authorize env 0 q ?t body d = (ws' @ fst (body d), snd (body d))"
    using after_authorize_proceeds [OF assms(1,2)] by metis
  then show ?thesis using ne by (simp add: with_dead_letter_def Let_def flip: body_def)
qed

lemma replay_row_answers: "fst (replay_row registry env q r d) \<noteq> []"
  by (simp add: replay_row_def Let_def split: sum.split option.split prod.split store_failure.split)

section \<open>Properties\<close>

text \<open>An example: the push of one commit to GitHub, with a delivery identifier.\<close>

definition ex_parsers :: dora_json where
  "ex_parsers = \<lparr>dj_push = (\<lambda>_. Inr \<lparr>pu_ref = ''main'', pu_commits = [\<lparr>pc_id = ''c1'', pc_timestamp = [], pc_message = ''m''\<rparr>]\<rparr>),
     dj_pull_request = (\<lambda>_. Inl ''e''), dj_merge_request = (\<lambda>_. Inl ''e''), dj_datadog = (\<lambda>_. Inl ''e''),
     dj_opsgenie = (\<lambda>_. Inl ''e''), dj_rfc3339 = (\<lambda>_. Inl ''e'')\<rparr>"

definition ex_dora_env :: "string \<Rightarrow> time \<Rightarrow> dora_env" where
  "ex_dora_env p t = \<lparr>de_pool = True, de_acquire = (\<lambda>_. None), de_fault = (\<lambda>_. None), de_gap = (\<lambda>_ d. d),
     de_time = (\<lambda>_. t), de_uuid = (\<lambda>k. p @ replicate k (CHR ''x'')), de_now = t, de_json_error = None,
     de_rows = None, de_marshal = (\<lambda>_. Inr ''{}''), de_atoi = (\<lambda>_. None), de_parsers = ex_parsers\<rparr>"

definition ex_webhook :: "string \<Rightarrow> dora_request" where
  "ex_webhook kind = \<lparr>rq_param = ''GitHub'',
     rq_query = (\<lambda>k. if k = ''tenant_id'' then ''t1'' else if k = ''service_ref'' then ''s1'' else []),
     rq_headers = [(''X-Github-Event'', [kind]), (''X-Github-Delivery'', [''d1''])], rq_body = Inr ''{}'', rq_claims = None\<rparr>"

definition ex_replay :: dora_request where
  "ex_replay = \<lparr>rq_param = ''r'', rq_query = (\<lambda>k. if k = ''tenant_id'' then ''t1'' else []), rq_headers = [],
     rq_body = Inr [], rq_claims = None\<rparr>"

text \<open>The dead letter of that push.\<close>

definition ex_dead_letter :: dead_letter where
  "ex_dead_letter = \<lparr>dl_id = ''r'', dl_tenant_id = ''t1'', dl_provider = ''github'', dl_source_event_id = None,
     dl_headers = GMap (headers_multi (rq_headers (ex_webhook ''push''))), dl_body = ''{}'', dl_failure_reason = [],
     dl_created_at = 0, dl_replayed_at = None, dl_replay_job_id = None\<rparr>"

definition ex_dora_db :: dora_db where
  "ex_dora_db = empty_dora_db\<lparr>dead_letters := [ex_dead_letter]\<rparr>"

lemma ex_quiet [simp]: "quiet_dora (ex_dora_env p t)"
  by (simp add: quiet_dora_def ex_dora_env_def)

lemma ex_uuid_inj: "inj (de_uuid (ex_dora_env p t))"
  by (rule injI) (simp add: ex_dora_env_def replicate_eq_replicate)



text \<open>C36: A dead letter is replayed at most once. After a replay that was answered as accepted, every
  further replay of the row changes no table and is not accepted, whoever asks and whether or not the
  database answers.\<close>

theorem replayed_once:
  assumes "replay_dead_letter registry env q d = (ws, d')" "Replayed i job n \<in> set ws"
    and "trim_space (rq_param q') = i" "qp q' ''tenant_id'' = qp q ''tenant_id''" "\<And>k d. de_gap env' k d = d"
  shows "snd (replay_dead_letter registry env' q' d') = d'
     \<and> (\<forall>job' n'. Replayed i job' n' \<notin> set (fst (replay_dead_letter registry env' q' d')))"
proof (rule with_dead_letter_replayed [OF assms(1) [unfolded replay_dead_letter_def] assms(2)])
  fix r d1 ws'
  assume "replay_row registry env q r d1 = (ws', d')" "Replayed i job n \<in> set ws'"
  then have "all_replayed (trim_space (rq_param q')) (qp q' ''tenant_id'') d'"
    using replay_row_replayed assms(3,4) by metis
  then show ?thesis using replay_again [OF _ assms(5)] by blast
qed

theorem replayed_once_witness:
  "let env = ex_dora_env ''a'' 5; d = snd (replay_dead_letter default_normalizers env ex_replay ex_dora_db) in
     Replayed ''r'' ''axxx'' 1 \<in> set (fst (replay_dead_letter default_normalizers env ex_replay ex_dora_db))
     \<and> snd (replay_dead_letter default_normalizers env ex_replay d) = d"
proof -
  let ?a = "replay_dead_letter default_normalizers (ex_dora_env ''a'' 5) ex_replay ex_dora_db"
  have "Replayed ''r'' ''axxx'' 1 \<in> set (fst ?a)" by code_simp
  moreover have "trim_space (rq_param ex_replay) = ''r''" by code_simp
  moreover have "de_gap (ex_dora_env ''a'' 5) k d = d" for k d by (simp add: ex_dora_env_def)
  ultimately show ?thesis
    unfolding Let_def using replayed_once [of default_normalizers "ex_dora_env ''a'' 5" ex_replay ex_dora_db "fst ?a" "snd ?a"]
    by simp
qed

text \<open>C37: A refusal by \<open>authorize\<close> does not stop the request. When the refusal is delivered to the client,
  replaying a dead letter has the same effect and reading one ends in the same answer whatever claims the
  caller has, or none.\<close>

theorem refusals_do_not_stop:
  assumes "de_json_error env = None" "\<And>k d. de_gap env k d = d"
  shows "snd (replay_dead_letter registry env (q\<lparr>rq_claims := c\<rparr>) d) = snd (replay_dead_letter registry env q d)
     \<and> last (fst (get_dead_letter env (q\<lparr>rq_claims := c\<rparr>) d)) = last (fst (get_dead_letter env q d))"
  using with_dead_letter_claims [OF assms, of "replay_row registry env q"] replay_row_answers
    with_dead_letter_claims [OF assms, of "\<lambda>r d. ([Dead_letter_item r], d)"]
  by (simp add: replay_dead_letter_def get_dead_letter_def)

theorem refusals_do_not_stop_witness:
  "let env = ex_dora_env ''a'' 5; admin = ex_replay\<lparr>rq_claims := Some (claims_of [(''tenant_id'', GStr ''t1'')])\<rparr> in
     Dora_error 403 ''missing authorization claims'' ''FORBIDDEN'' \<in> set (fst (get_dead_letter env ex_replay ex_dora_db))
     \<and> last (fst (get_dead_letter env ex_replay ex_dora_db)) = Dead_letter_item ex_dead_letter
     \<and> last (fst (get_dead_letter env admin ex_dora_db)) = Dead_letter_item ex_dead_letter
     \<and> length (dora_events (snd (replay_dead_letter default_normalizers env ex_replay ex_dora_db))) = 1"
proof -
  let ?env = "ex_dora_env ''a'' 5"
  let ?admin = "ex_replay\<lparr>rq_claims := Some (claims_of [(''tenant_id'', GStr ''t1'')])\<rparr>"
  have "Dora_error 403 ''missing authorization claims'' ''FORBIDDEN'' \<in> set (fst (get_dead_letter ?env ex_replay ex_dora_db))"
    by code_simp
  moreover have "last (fst (get_dead_letter ?env ex_replay ex_dora_db)) = Dead_letter_item ex_dead_letter" by code_simp
  moreover have "length (dora_events (snd (replay_dead_letter default_normalizers ?env ex_replay ex_dora_db))) = 1"
    by code_simp
  moreover have "de_json_error ?env = None" "de_gap ?env k d = d" for k d by (simp_all add: ex_dora_env_def)
  ultimately show ?thesis
    unfolding Let_def using refusals_do_not_stop [where env = ?env and q = ex_replay] by simp
qed



lemma ex_gaps_keep [simp]: "gaps_keep (ex_dora_env p t)"
  by (simp add: gaps_keep_def ex_dora_env_def)

lemma ex_not_processed:
  "ingest_webhook [] (ex_dora_env ''a'' 5) (ex_webhook ''push'') empty_dora_db
     = ([Not_processed ''normalizer_not_found'' ''no normalizer registered for provider'' ''a''],
        snd (ingest_webhook [] (ex_dora_env ''a'' 5) (ex_webhook ''push'') empty_dora_db))"
proof -
  have "fst (ingest_webhook [] (ex_dora_env ''a'' 5) (ex_webhook ''push'') empty_dora_db)
     = [Not_processed ''normalizer_not_found'' ''no normalizer registered for provider'' ''a'']" by code_simp
  then show ?thesis by (metis prod.collapse)
qed




end
