(* ===== verification/Dora_Summary.thy ===== *)
theory Dora_Summary
  imports Dora_Redelivery "HOL-Library.List_Lexorder" "HOL-Library.Char_ord"
begin

text \<open>
  \<open>GetSummary\<close> and \<open>GetGroupSummary\<close> of \<open>src/internal/transport/http/dora_handler.go\<close>: the four measures of
  a service over a window of days and over the window before it. The calls to the metrics recorder are
  left out; times stay in the range of \<open>time.Time\<close>.
\<close>

definition success_count :: "string \<Rightarrow> string \<Rightarrow> time \<Rightarrow> time \<Rightarrow> dora_db \<Rightarrow> nat" where
  "success_count tenant service start stop d =
     sum_list (map fq_success_count (filter (\<lambda>v. fq_tenant_id v = tenant \<and> fq_service_ref v = Some service
       \<and> start \<le> fq_bucket v \<and> fq_bucket v < stop) (frequency_daily d)))"

definition lead_time_quality :: "lead_time_stats \<Rightarrow> string" where
  "lead_time_quality st =
     (if lt_successful st > 0 \<and> lt_correlated st > 0 \<and> lt_p50 st \<noteq> None
      then (if of_nat (lt_correlated st) / of_nat (lt_successful st) \<ge> (80 / 100 :: rat) then ''complete'' else ''partial'')
      else ''no_data'')"

record summary_data =
  sd_success :: nat
  sd_previous_success :: nat
  sd_lead_time :: lead_time_stats
  sd_previous_lead_time :: lead_time_stats
  sd_cfr :: cfr_stats
  sd_previous_cfr :: cfr_stats
  sd_mttr :: mttr_stats
  sd_previous_mttr :: mttr_stats

definition no_summary_data :: summary_data where
  "no_summary_data = \<lparr>sd_success = 0, sd_previous_success = 0, sd_lead_time = no_lead_time,
     sd_previous_lead_time = no_lead_time, sd_cfr = no_cfr, sd_previous_cfr = no_cfr, sd_mttr = no_mttr,
     sd_previous_mttr = no_mttr\<rparr>"

text \<open>The queries of a summary in the order of the source.\<close>

definition query_summary ::
  "dora_env \<Rightarrow> nat \<Rightarrow> string \<Rightarrow> string \<Rightarrow> time \<Rightarrow> time \<Rightarrow> time \<Rightarrow> summary_data dora_q" where
  "query_summary env k tenant service before start now =
     q_bind (q_label ''could not query deployment frequency''
       (dora_query env k (\<lambda>d. Inr (success_count tenant service start now d)))) (\<lambda>n.
     q_bind (q_label ''could not query previous period frequency''
       (dora_query env (k + 1) (\<lambda>d. Inr (success_count tenant service before start d)))) (\<lambda>n'.
     q_bind (q_label ''could not query lead time''
       (query_lead_time_stats env (k + 2) tenant service start now)) (\<lambda>l.
     q_bind (q_label ''could not query previous lead time''
       (query_lead_time_stats env (k + 5) tenant service before start)) (\<lambda>l'.
     q_bind (q_label ''could not query change failure rate''
       (query_cfr_stats env (k + 8) tenant service start now)) (\<lambda>c.
     q_bind (q_label ''could not query previous change failure rate''
       (query_cfr_stats env (k + 12) tenant service before start)) (\<lambda>c'.
     q_bind (q_label ''could not query mttr''
       (query_mttr_stats env (k + 16) tenant service start now)) (\<lambda>m.
     q_bind (q_label ''could not query previous mttr''
       (query_mttr_stats env (k + 18) tenant service before start)) (\<lambda>m'.
     q_return \<lparr>sd_success = n, sd_previous_success = n', sd_lead_time = l, sd_previous_lead_time = l',
       sd_cfr = c, sd_previous_cfr = c', sd_mttr = m, sd_previous_mttr = m'\<rparr>))))))))"

text \<open>The response; without a database every value is the zero value and every quality \<open>no_data\<close>.\<close>

definition summary_of ::
  "string \<Rightarrow> string \<Rightarrow> string \<Rightarrow> int \<Rightarrow> time \<Rightarrow> summary_data \<Rightarrow> dora_summary" where
  "summary_of tenant service version days now v =
     (let start = now - days * day; before = start - days * day;
          avg = of_nat (sd_success v) / of_int days; avg' = of_nat (sd_previous_success v) / of_int days in
      \<lparr>ds_tenant_id = tenant, ds_service_ref = service, ds_classification_version = version,
       ds_start = start, ds_end = now, ds_daily_avg = avg,
       ds_frequency_quality = (if sd_success v > 0 then ''complete'' else ''no_data''),
       ds_lead_time = sd_lead_time v, ds_lead_time_quality = lead_time_quality (sd_lead_time v),
       ds_cfr = sd_cfr v, ds_cfr_quality = cfr_quality (sd_cfr v),
       ds_cfr_proxy_description = cfr_proxy_description (sd_cfr v),
       ds_mttr = sd_mttr v, ds_mttr_quality = mttr_quality (sd_mttr v),
       ds_previous_start = before, ds_previous_end = start, ds_previous_daily_avg = avg',
       ds_previous_lead_time = sd_previous_lead_time v, ds_previous_cfr_percent = cf_percent (sd_previous_cfr v),
       ds_previous_mttr_p50 = mt_p50 (sd_previous_mttr v),
       ds_delta_frequency = percent_delta avg' avg,
       ds_delta_lead_time = lead_time_delta (lt_p50 (sd_previous_lead_time v)) (lt_p50 (sd_lead_time v)),
       ds_delta_cfr = lead_time_delta (cf_percent (sd_previous_cfr v)) (cf_percent (sd_cfr v)),
       ds_delta_mttr = lead_time_delta (mt_p50 (sd_previous_mttr v)) (mt_p50 (sd_mttr v))\<rparr>)"

definition window_days :: "dora_env \<Rightarrow> dora_request \<Rightarrow> int option" where
  "window_days env q =
     (if qp q ''window_days'' = [] then Some 30
      else case de_atoi env (qp q ''window_days'') of None \<Rightarrow> None | Some n \<Rightarrow> if n \<le> 0 then None else Some n)"

definition classification_version :: "dora_request \<Rightarrow> string" where
  "classification_version q = (if qp q ''classification_version'' = [] then ''dora-2023-default+gates-included''
     else qp q ''classification_version'')"

definition get_summary_from :: "nat \<Rightarrow> dora_env \<Rightarrow> dora_request \<Rightarrow> dora_db \<Rightarrow> dora_response list \<times> dora_db" where
  "get_summary_from k env q d =
     (let tenant = qp q ''tenant_id''; service = qp q ''service_ref''; now = de_now env in
      if tenant = [] \<or> service = [] then ([Dora_error 400 ''tenant_id and service_ref are required'' ''INVALID_REQUEST''], d)
      else after_authorize env k q tenant (\<lambda>d.
        case window_days env q of
          None \<Rightarrow> ([Dora_error 400 ''window_days must be a positive integer'' ''INVALID_REQUEST''], d)
        | Some days \<Rightarrow>
            let answer = (\<lambda>v. [Summary (summary_of tenant service (classification_version q) days now v)]) in
            if \<not> de_pool env then (answer no_summary_data, d)
            else if de_acquire env (k + 1) \<noteq> None then ([Dora_error 500 ''database unavailable'' ''INTERNAL_ERROR''], d)
            else case query_summary env (k + 1) tenant service (now - days * day - days * day) (now - days * day) now d of
              (Inl msg, d1) \<Rightarrow> ([Dora_error 500 msg ''INTERNAL_ERROR''], d1)
            | (Inr v, d1) \<Rightarrow> (answer v, d1)) d)"

definition get_summary :: "dora_env \<Rightarrow> dora_request \<Rightarrow> dora_db \<Rightarrow> dora_response list \<times> dora_db" where
  "get_summary = get_summary_from 0"

text \<open>The brands of a group with their versions, in the order of the brands.\<close>

definition group_versions :: "string \<Rightarrow> string \<Rightarrow> dora_db \<Rightarrow> (string \<times> string) list" where
  "group_versions tenant grp d =
     map (\<lambda>g. (gb_brand_id g, gb_classification_version g)) (sort_key gb_brand_id
       (filter (\<lambda>g. gb_tenant_id g = tenant \<and> gb_group_id g = grp) (group_brand_map d)))"

definition get_group_summary :: "dora_env \<Rightarrow> dora_request \<Rightarrow> dora_db \<Rightarrow> dora_response list \<times> dora_db" where
  "get_group_summary env q d =
     (let tenant = qp q ''tenant_id''; service = qp q ''service_ref''; grp = qp q ''group_id'' in
      if tenant = [] \<or> service = [] \<or> grp = []
      then ([Dora_error 400 ''tenant_id, service_ref and group_id are required'' ''INVALID_REQUEST''], d)
      else after_authorize env 0 q tenant (\<lambda>d.
        if \<not> de_pool env \<or> de_acquire env 1 \<noteq> None then ([Group_map_stale], d)
        else case dora_query env 1 (\<lambda>d. Inr (group_versions tenant grp d)) d of
          (Inl e, d1) \<Rightarrow> ([Dora_error 500 ''could not query group classification versions'' ''INTERNAL_ERROR''], d1)
        | (Inr vs, d1) \<Rightarrow>
            if length (remdups (map snd vs)) > 1 then ([Version_mismatch grp vs], d1)
            else get_summary_from 2 env q d1) d)"

section \<open>Lemmas\<close>

lemma q_label_Inr: "q_label msg m d = (Inr a, d') \<longleftrightarrow> m d = (Inr a, d')"
  by (auto simp: q_label_def split: prod.split_asm sum.split_asm)

definition still :: "dora_env \<Rightarrow> bool" where
  "still env \<longleftrightarrow> (\<forall>k d. de_gap env k d = d)"

lemma still_gap: "still env \<Longrightarrow> de_gap env k d = d"
  by (simp add: still_def)

lemma still_query: "still env \<Longrightarrow> dora_query env k f d = (Inr a, d') \<Longrightarrow> f d = Inr a \<and> d' = d"
  by (rule query_still) (simp_all add: still_gap)

lemma lead_time_still:
  assumes "still env" "query_lead_time_stats env k tenant service start stop d = (Inr st, d')"
  shows "d' = d"
  using assms(2) by (auto simp: query_lead_time_stats_def q_bind_Inr q_return_def dest!: still_query [OF assms(1)])

text \<open>The change failure rates of a summary are those of its two windows.\<close>

lemma query_summary_cfr:
  assumes "still env" "query_summary env k tenant service before start now d = (Inr v, d')"
  shows "\<exists>k d1. query_cfr_stats env k tenant service start now d = (Inr (sd_cfr v), d1)"
    and "\<exists>k d1. query_cfr_stats env k tenant service before start d = (Inr (sd_previous_cfr v), d1)"
proof -
  have cfr: "d2 = d1" if "query_cfr_stats env k tenant service a b d1 = (Inr st, d2)" for k a b d1 st d2
    using query_cfr_result [of env k tenant service a b d1 st d2] that still_gap [OF assms(1)] by blast
  obtain l l' c c' d1 d2 where
    "query_lead_time_stats env (k + 2) tenant service start now d = (Inr l, d1)"
    "query_lead_time_stats env (k + 5) tenant service before start d1 = (Inr l', d2)"
    and c: "sd_cfr v = c" "sd_previous_cfr v = c'"
    and q: "\<exists>d3 d4. query_cfr_stats env (k + 8) tenant service start now d2 = (Inr c, d3)
       \<and> query_cfr_stats env (k + 12) tenant service before start d3 = (Inr c', d4)"
    using assms(2) unfolding query_summary_def q_bind_Inr q_label_Inr q_return_def
    by (auto dest!: still_query [OF assms(1)])
  then have "d2 = d" using lead_time_still [OF assms(1)] by metis
  with q c cfr show "\<exists>k d1. query_cfr_stats env k tenant service start now d = (Inr (sd_cfr v), d1)"
    "\<exists>k d1. query_cfr_stats env k tenant service before start d = (Inr (sd_previous_cfr v), d1)"
    by metis+
qed

lemma get_summary_answer:
  assumes "still env" "Summary s \<in> set (fst (get_summary env q d))"
  obtains version days v where "s = summary_of (qp q ''tenant_id'') (qp q ''service_ref'') version days (de_now env) v" "0 < days"
    "\<not> de_pool env \<and> v = no_summary_data \<or> (\<exists>d1. query_summary env 1 (qp q ''tenant_id'') (qp q ''service_ref'')
       (de_now env - days * day - days * day) (de_now env - days * day) (de_now env) d = (Inr v, d1))"
proof -
  obtain ws e where au: "authorize env 0 q (qp q ''tenant_id'') d = ((ws, e), d)"
    using authorize_keeps [OF still_gap [OF assms(1)]] by (metis prod.collapse)
  have no: "Summary s \<notin> set ws" using authorize_answers [OF au] by auto
  have pos: "window_days env q = Some days \<Longrightarrow> 0 < days" for days
    by (auto simp: window_days_def split: if_split_asm option.split_asm)
  show thesis
    using assms(2) au no that pos
    by (cases e; cases "window_days env q")
      (auto simp: get_summary_def get_summary_from_def after_authorize_def Let_def
        split: if_split_asm prod.split_asm sum.split_asm)
qed

text \<open>The rate of one window.\<close>

lemma cfr_window:
  assumes "still env" "query_cfr_stats env k tenant service start stop d = (Inr st, d')"
  shows "(\<forall>p. cf_percent st = Some p \<longrightarrow> 0 \<le> p \<and> p \<le> 100)
     \<and> (cf_percent st = None \<longleftrightarrow> events_in tenant service deployment_types start stop d = [])"
  using query_cfr_result [OF still_gap [OF assms(1)] assms(2)] matched_at_most_all [of tenant service start stop d]
    failed_at_most_all [of tenant service start stop d] percent_bounds
  by (simp split: if_split_asm)

section \<open>What the views count\<close>

lemma sum_groups:
  "distinct gs \<Longrightarrow> (\<forall>r\<in>set rs. P r \<longrightarrow> key r \<in> set gs)
     \<Longrightarrow> sum_list (map (\<lambda>g. length (filter (\<lambda>r. P r \<and> key r = g) rs)) gs) = length (filter P rs)"
proof (induction gs arbitrary: P)
  case (Cons g gs)
  have "length (filter P rs) = length (filter (\<lambda>r. P r \<and> key r = g) rs) + length (filter (\<lambda>r. P r \<and> key r \<noteq> g) rs)"
    by (induction rs) auto
  moreover have "sum_list (map (\<lambda>h. length (filter (\<lambda>r. (P r \<and> key r \<noteq> g) \<and> key r = h) rs)) gs)
      = length (filter (\<lambda>r. P r \<and> key r \<noteq> g) rs)"
    using Cons.prems by (intro Cons.IH) auto
  moreover have "filter (\<lambda>r. (P r \<and> key r \<noteq> g) \<and> key r = h) rs = filter (\<lambda>r. P r \<and> key r = h) rs" if "h \<in> set gs" for h
    using Cons.prems(1) that by (intro filter_cong) auto
  then have "map (\<lambda>h. length (filter (\<lambda>r. (P r \<and> key r \<noteq> g) \<and> key r = h) rs)) gs
      = map (\<lambda>h. length (filter (\<lambda>r. P r \<and> key r = h) rs)) gs" by simp
  ultimately show ?case by (simp only: list.map sum_list.Cons)
qed simp

text \<open>On a fresh view the deployment frequency counts the successful deployments by their day, so that a
  window that starts within a day leaves out the rest of that day.\<close>

lemma frequency_counts_days:
  "success_count tenant service start stop (d\<lparr>frequency_daily := frequency_view d\<rparr>)
     = length (filter (\<lambda>r. dr_tenant_id r = tenant \<and> dr_service_ref r = Some service
         \<and> dr_event_type r = ''deployment.succeeded''
         \<and> start \<le> day_of (dr_timestamp r) \<and> day_of (dr_timestamp r) < stop) (dora_events d))"
proof -
  define ds where "ds = filter (\<lambda>r. dr_event_type r \<in> set deployment_types) (dora_events d)"
  define Q where "Q = (\<lambda>g :: string \<times> string option \<times> string option \<times> time.
    fst g = tenant \<and> fst (snd g) = Some service \<and> start \<le> snd (snd (snd g)) \<and> snd (snd (snd g)) < stop)"
  let ?S = "\<lambda>r. dr_event_type r = ''deployment.succeeded''"
  let ?gs = "filter Q (remdups (map frequency_group ds))"
  have "success_count tenant service start stop (d\<lparr>frequency_daily := frequency_view d\<rparr>)
      = sum_list (map (\<lambda>g. length (filter ?S (filter (\<lambda>r. frequency_group r = g) ds))) ?gs)"
    by (simp add: success_count_def frequency_view_def Let_def filter_map comp_def ds_def Q_def)
  also have "\<dots> = sum_list (map (\<lambda>g. length (filter (\<lambda>r. (?S r \<and> Q (frequency_group r)) \<and> frequency_group r = g) ds)) ?gs)"
    by (intro arg_cong [of _ _ sum_list] map_cong refl) (auto intro!: arg_cong [of _ _ length] filter_cong)
  also have "\<dots> = length (filter (\<lambda>r. ?S r \<and> Q (frequency_group r)) ds)"
    by (rule sum_groups) auto
  also have "filter (\<lambda>r. ?S r \<and> Q (frequency_group r)) ds = filter (\<lambda>r. dr_tenant_id r = tenant
         \<and> dr_service_ref r = Some service \<and> ?S r
         \<and> start \<le> day_of (dr_timestamp r) \<and> day_of (dr_timestamp r) < stop) (dora_events d)"
    unfolding ds_def filter_filter Q_def frequency_group_def
    by (intro filter_cong) (auto simp: deployment_types_def)
  finally show ?thesis .
qed

section \<open>Properties\<close>


definition ex_row :: "string \<Rightarrow> string \<Rightarrow> time \<Rightarrow> dora_row" where
  "ex_row i kind t = \<lparr>dr_id = i, dr_tenant_id = ''t1'', dr_event_type = kind, dr_event_source = ''x'',
     dr_service_ref = Some ''s1'', dr_environment = Some [], dr_correlation_key = Some ''c1'', dr_source_event_id = None,
     dr_timestamp = t, dr_payload = ''{}''\<rparr>"

definition ex_history :: dora_db where
  "ex_history = empty_dora_db\<lparr>dora_events := [ex_row ''1'' ''deployment.succeeded'' 10, ex_row ''2'' ''deployment.failed'' 20,
     ex_row ''3'' ''incident.opened'' 15]\<rparr>"


text \<open>The view of incidents counts pairs: an alert that was acknowledged and then closed counts twice, and
  hides an incident that is still open from the quality of the measure.\<close>

definition ex_incidents :: dora_db where
  "ex_incidents = (let d = empty_dora_db\<lparr>dora_events := [ex_row ''1'' ''incident.opened'' 10,
       (ex_row ''2'' ''incident.opened'' 20)\<lparr>dr_correlation_key := Some ''c2''\<rparr>,
       ex_row ''3'' ''incident.resolved'' 30, ex_row ''4'' ''incident.resolved'' 40]\<rparr>
     in d\<lparr>incidents_daily := incidents_view d\<rparr>)"

lemma open_incident_hidden:
  "(case last (fst (get_summary (ex_dora_env ''a'' (2 * day)) (ex_webhook ''push'') ex_incidents)) of
      Summary s \<Rightarrow> mt_opened (ds_mttr s) = 2 \<and> ds_mttr_quality s = ''complete'' | _ \<Rightarrow> False)"
  by code_simp

end
