(* ===== verification/Metrics_Writer.thy ===== *)
theory Metrics_Writer
  imports Dora_Stats
begin

text \<open>
  \<open>src/internal/observability/metrics_sql_writer.go\<close>: the queue and the workers that store job events and,
  for the end of a job, a deployment event with its links to commits. Goroutines are steps of a relation:
  a caller enqueues, a worker takes an event and processes it, a worker leaves after \<open>Close\<close>. Where a
  \<open>select\<close> has several ready cases the runtime chooses, and the model allows each.
\<close>

section \<open>Events and the writer\<close>

record metrics_event =
  me_tenant_id :: string
  me_job_id :: string
  me_path_key :: string
  me_attempt :: int
  me_run_id :: string
  me_event_type :: string
  me_timestamp :: time
  me_environment :: string
  me_commit_shas :: "string list"
  me_duration_ms :: int
  me_error_code :: string
  me_metadata :: "(string \<times> string) list option"

text \<open>The histogram of write durations in milliseconds: one counter per bucket, cumulative.\<close>

record write_histogram =
  wh_buckets :: "rat list"
  wh_count :: nat
  wh_sum :: rat
  wh_bucket_counts :: "(rat \<times> nat) list"

record metrics_writer =
  mw_queue :: "metrics_event list"
  mw_queue_size :: nat
  mw_running :: nat
  mw_closed :: bool
  mw_stopped :: bool
  mw_duration :: write_histogram
  mw_total_written :: nat

datatype writer_error = Queue_full string | Ctx_error string

definition new_metrics_sql_writer :: "int \<Rightarrow> int \<Rightarrow> metrics_writer" where
  "new_metrics_sql_writer queue_size workers =
     \<lparr>mw_queue = [], mw_queue_size = nat (if queue_size \<le> 0 then 10000 else queue_size),
      mw_running = nat (if workers \<le> 0 then 4 else workers), mw_closed = False, mw_stopped = False,
      mw_duration = \<lparr>wh_buckets = [1, 5, 10, 25, 50, 100, 250, 500, 1000], wh_count = 0, wh_sum = 0, wh_bucket_counts = []\<rparr>,
      mw_total_written = 0\<rparr>"

text \<open>\<open>WriteEvent\<close>: \<open>cancelled\<close> is the error of a context that is done; \<open>prefer_ctx\<close> is the choice of the
  runtime when the queue has room as well.\<close>

definition write_event ::
  "string option \<Rightarrow> bool \<Rightarrow> metrics_event \<Rightarrow> metrics_writer \<Rightarrow> writer_error option \<times> metrics_writer" where
  "write_event cancelled prefer_ctx e w =
     (if mw_closed w then (Some (Queue_full ''writer closed''), w)
      else if length (mw_queue w) < mw_queue_size w then
        (case cancelled of
           Some err \<Rightarrow> if prefer_ctx then (Some (Ctx_error err), w) else (None, w\<lparr>mw_queue := mw_queue w @ [e]\<rparr>)
         | None \<Rightarrow> (None, w\<lparr>mw_queue := mw_queue w @ [e]\<rparr>))
      else case cancelled of
        Some err \<Rightarrow> (Some (Ctx_error err), w)
      | None \<Rightarrow> (Some (Queue_full (nat_str (mw_queue_size w))), w))"

definition record_success :: "int \<Rightarrow> metrics_writer \<Rightarrow> metrics_writer" where
  "record_success ms w =
     (let h = mw_duration w in
      w\<lparr>mw_duration := h\<lparr>wh_count := Suc (wh_count h), wh_sum := wh_sum h + of_int ms,
          wh_bucket_counts := foldl (\<lambda>m b. if of_int ms \<le> b
            then alist_put b (Suc (case map_of m b of None \<Rightarrow> 0 | Some n \<Rightarrow> n)) m else m) (wh_bucket_counts h) (wh_buckets h)\<rparr>,
        mw_total_written := Suc (mw_total_written w)\<rparr>)"

section \<open>Storing an event\<close>

definition dora_event_type_from_job_event :: "string \<Rightarrow> string option" where
  "dora_event_type_from_job_event t =
     (if t = ''job_completed'' then Some ''deployment.succeeded''
      else if t = ''job_failed'' then Some ''deployment.failed'' else None)"

text \<open>What the writer needs beyond a request's environment: which texts PostgreSQL takes for a \<open>uuid\<close>,
  the JSON text of the metadata and of the payload, and the measured duration.\<close>

record writer_env =
  we_db :: dora_env
  we_valid_uuid :: "string \<Rightarrow> bool"
  we_metadata :: "(string \<times> string) list \<Rightarrow> string option"
  we_payload :: "go_map \<Rightarrow> string + string"
  we_duration :: int

definition encode_metadata :: "writer_env \<Rightarrow> (string \<times> string) list option \<Rightarrow> string" where
  "encode_metadata env m = (case m of None \<Rightarrow> ''{}''
     | Some kv \<Rightarrow> (case we_metadata env kv of None \<Rightarrow> ''{}'' | Some s \<Rightarrow> s))"

definition int4 :: "int \<Rightarrow> bool" where
  "int4 n \<longleftrightarrow> - 2147483648 \<le> n \<and> n \<le> 2147483647"

definition job_event_row :: "writer_env \<Rightarrow> metrics_event \<Rightarrow> job_event" where
  "job_event_row env e = \<lparr>je_ts = me_timestamp e, je_tenant_id = me_tenant_id e, je_job_id = me_job_id e,
     je_path_key = me_path_key e, je_event = me_event_type e, je_attempt = me_attempt e, je_run_id = me_run_id e,
     je_code = me_error_code e, je_duration_ms = me_duration_ms e, je_labels = encode_metadata env (me_metadata e)\<rparr>"

text \<open>The casts \<open>$3::uuid\<close> and \<open>$7::uuid\<close>, and the range of the columns \<open>attempt\<close> and \<open>duration_ms\<close>.\<close>

definition event_params_error :: "writer_env \<Rightarrow> metrics_event \<Rightarrow> string option" where
  "event_params_error env e =
     (if \<not> we_valid_uuid env (me_job_id e) \<or> \<not> we_valid_uuid env (me_run_id e) then Some ''invalid input syntax for type uuid''
      else if \<not> int4 (me_attempt e) \<or> \<not> int4 (me_duration_ms e) then Some ''integer out of range'' else None)"

definition job_event_stmt :: "writer_env \<Rightarrow> metrics_event \<Rightarrow> time \<Rightarrow> dora_db \<Rightarrow> string + (unit \<times> dora_db)" where
  "job_event_stmt env e t d =
     (case event_params_error env e of
        Some err \<Rightarrow> Inl err
      | None \<Rightarrow> Inr ((), d\<lparr>metrics_job_events := metrics_job_events d @ [job_event_row env e]\<rparr>))"

definition deployment_row :: "string \<Rightarrow> metrics_event \<Rightarrow> string \<Rightarrow> string \<Rightarrow> dora_row" where
  "deployment_row i e kind payload =
     \<lparr>dr_id = i, dr_tenant_id = me_tenant_id e, dr_event_type = kind, dr_event_source = ''release-engine'',
      dr_service_ref = Some (me_path_key e), dr_environment = Some (me_environment e),
      dr_correlation_key = Some (me_job_id e), dr_source_event_id = None, dr_timestamp = me_timestamp e,
      dr_payload = payload\<rparr>"

definition link_of :: "metrics_event \<Rightarrow> string \<Rightarrow> string \<Rightarrow> string \<Rightarrow> commit_link" where
  "link_of e i outcome sha = \<lparr>ln_tenant_id = me_tenant_id e, ln_service_ref = me_path_key e, ln_commit_sha = sha,
     ln_deployment_id = i, ln_outcome = outcome, ln_time = me_timestamp e\<rparr>"

definition link_key :: "commit_link \<Rightarrow> string \<times> string \<times> string \<times> string" where
  "link_key l = (ln_tenant_id l, ln_service_ref l, ln_commit_sha l, ln_deployment_id l)"

definition insert_link :: "commit_link list \<Rightarrow> commit_link \<Rightarrow> commit_link list" where
  "insert_link ls l = (if link_key l \<in> set (map link_key ls) then ls else ls @ [l])"

text \<open>One statement: the job event, the deployment event, and the links when the deployment event is new.\<close>

definition deployment_stmt ::
  "writer_env \<Rightarrow> string \<Rightarrow> metrics_event \<Rightarrow> string \<Rightarrow> string \<Rightarrow> time \<Rightarrow> dora_db \<Rightarrow> string + (unit \<times> dora_db)" where
  "deployment_stmt env i e kind payload t d =
     (case event_params_error env e of
        Some err \<Rightarrow> Inl err
      | None \<Rightarrow>
          let d1 = d\<lparr>metrics_job_events := metrics_job_events d @ [job_event_row env e]\<rparr>;
              outcome = (if kind = ''deployment.succeeded'' then ''succeeded'' else ''failed'') in
          (case insert_event_stmt (deployment_row i e kind payload) t d1 of
             Inl err \<Rightarrow> Inl err
           | Inr (None, d2) \<Rightarrow> Inr ((), d2)
           | Inr (Some new_id, d2) \<Rightarrow>
               Inr ((), d2\<lparr>commit_links := foldl insert_link (commit_links d2)
                 (map (link_of e new_id outcome) (filter (\<lambda>sha. sha \<noteq> []) (me_commit_shas e)))\<rparr>)))"

definition stamp :: "writer_env \<Rightarrow> metrics_event \<Rightarrow> metrics_event" where
  "stamp env e = (if me_timestamp e = unset_time then e\<lparr>me_timestamp := de_now (we_db env)\<rparr> else e)"

definition event_payload :: "metrics_event \<Rightarrow> go_map" where
  "event_payload e = [(''job_id'', GStr (me_job_id e)), (''run_id'', GStr (me_run_id e)), (''commit_shas'', GStrList (me_commit_shas e))]"

text \<open>\<open>processEvent\<close>: the event is given up on every error, which is only logged.\<close>

definition process_event :: "writer_env \<Rightarrow> metrics_event \<Rightarrow> metrics_writer \<times> dora_db \<Rightarrow> metrics_writer \<times> dora_db" where
  "process_event env e0 s =
     (case s of (w, d) \<Rightarrow>
      let e = stamp env e0 in
      if de_acquire (we_db env) 0 \<noteq> None then (w, d)
      else case dora_event_type_from_job_event (me_event_type e) of
        None \<Rightarrow>
          (case dora_exec (we_db env) 0 (job_event_stmt env e) d of
             (Inl _, d1) \<Rightarrow> (w, d1) | (Inr _, d1) \<Rightarrow> (record_success (we_duration env) w, d1))
      | Some kind \<Rightarrow>
          (case we_payload env (event_payload e) of
             Inl _ \<Rightarrow> (w, d)
           | Inr payload \<Rightarrow>
               (case dora_exec (we_db env) 0 (deployment_stmt env (de_uuid (we_db env) 0) e kind payload) d of
                  (Inl _, d1) \<Rightarrow> (w, d1) | (Inr _, d1) \<Rightarrow> (record_success (we_duration env) w, d1))))"

section \<open>Steps\<close>

text \<open>\<open>Close\<close> sets the flag and closes \<open>stopCh\<close>; it then waits for the workers, at most ten seconds.\<close>

definition close_writer :: "metrics_writer \<Rightarrow> metrics_writer" where
  "close_writer w = (if mw_closed w then w else w\<lparr>mw_closed := True, mw_stopped := True\<rparr>)"

inductive writer_step :: "metrics_writer \<times> dora_db \<Rightarrow> metrics_writer \<times> dora_db \<Rightarrow> bool" where
  Write: "writer_step (w, d) (snd (write_event c b e w), d)"
| Take: "0 < mw_running w \<Longrightarrow> mw_queue w = e # es
    \<Longrightarrow> writer_step (w, d) (process_event env e (w\<lparr>mw_queue := es\<rparr>, d))"
| Leave: "mw_stopped w \<Longrightarrow> 0 < mw_running w \<Longrightarrow> writer_step (w, d) (w\<lparr>mw_running := mw_running w - 1\<rparr>, d)"
| Close: "writer_step (w, d) (close_writer w, d)"

inductive_cases writer_stepE: "writer_step s s'"

abbreviation writer_run :: "metrics_writer \<times> dora_db \<Rightarrow> metrics_writer \<times> dora_db \<Rightarrow> bool" where
  "writer_run \<equiv> writer_step\<^sup>*\<^sup>*"

section \<open>The queue\<close>

definition writer_core :: "metrics_writer \<Rightarrow> metrics_event list \<times> nat \<times> nat \<times> bool \<times> bool" where
  "writer_core w = (mw_queue w, mw_queue_size w, mw_running w, mw_closed w, mw_stopped w)"

lemma record_success_core [simp]: "writer_core (record_success ms w) = writer_core w"
  by (simp add: writer_core_def record_success_def Let_def)

lemma process_event_core [simp]: "writer_core (fst (process_event env e (w, d))) = writer_core w"
  by (simp add: process_event_def Let_def split: option.split sum.split prod.split)

definition writer_inv :: "metrics_writer \<Rightarrow> bool" where
  "writer_inv w \<longleftrightarrow> length (mw_queue w) \<le> mw_queue_size w \<and> (mw_stopped w \<longleftrightarrow> mw_closed w)"

lemma writer_inv_core: "writer_core w = writer_core w' \<Longrightarrow> writer_inv w = writer_inv w'"
  by (simp add: writer_core_def writer_inv_def)

lemma write_event_inv: "writer_inv w \<Longrightarrow> writer_inv (snd (write_event c b e w))"
  by (simp add: writer_inv_def write_event_def split: option.split)

lemma writer_step_inv: "writer_step s s' \<Longrightarrow> writer_inv (fst s) \<Longrightarrow> writer_inv (fst s')"
proof (induction rule: writer_step.induct)
  case (Write w d c b e)
  then show ?case by (simp add: write_event_inv)
next
  case (Take w e es d env)
  have "writer_inv (w\<lparr>mw_queue := es\<rparr>)" using Take by (simp add: writer_inv_def)
  then show ?case using writer_inv_core [OF process_event_core [of env e "w\<lparr>mw_queue := es\<rparr>" d]] by simp
qed (auto simp: close_writer_def writer_inv_def)

lemma writer_run_inv: "writer_run s s' \<Longrightarrow> writer_inv (fst s) \<Longrightarrow> writer_inv (fst s')"
  by (induction rule: rtranclp_induct) (auto dest: writer_step_inv)

text \<open>After the last worker has left, nothing is stored any more.\<close>

definition abandoned :: "metrics_writer \<Rightarrow> bool" where
  "abandoned w \<longleftrightarrow> mw_running w = 0 \<and> mw_closed w"

lemma abandoned_step:
  "writer_step s s' \<Longrightarrow> abandoned (fst s) \<Longrightarrow> abandoned (fst s') \<and> mw_queue (fst s') = mw_queue (fst s) \<and> snd s' = snd s"
  by (induction rule: writer_step.induct) (auto simp: abandoned_def write_event_def close_writer_def)

lemma abandoned_run:
  "writer_run s s' \<Longrightarrow> abandoned (fst s) \<Longrightarrow> abandoned (fst s') \<and> mw_queue (fst s') = mw_queue (fst s) \<and> snd s' = snd s"
  by (induction rule: rtranclp_induct) (auto dest: abandoned_step)

lemma workers_leave:
  "mw_stopped w \<Longrightarrow> writer_run (w, d) (w\<lparr>mw_running := 0\<rparr>, d)"
proof (induction "mw_running w" arbitrary: w)
  case 0
  then have "w\<lparr>mw_running := 0\<rparr> = w" by simp
  then show ?case by simp
next
  case (Suc n)
  let ?w = "w\<lparr>mw_running := mw_running w - 1\<rparr>"
  have "writer_step (w, d) (?w, d)" using Suc by (intro Leave) simp_all
  moreover have "writer_run (?w, d) (?w\<lparr>mw_running := 0\<rparr>, d)" using Suc by (intro Suc.hyps) simp_all
  ultimately show ?case by (simp add: converse_rtranclp_into_rtranclp)
qed

lemma close_abandons:
  assumes "\<not> mw_closed w"
  shows "writer_run (w, d) (w\<lparr>mw_closed := True, mw_stopped := True, mw_running := 0\<rparr>, d)"
proof -
  let ?w = "w\<lparr>mw_closed := True, mw_stopped := True\<rparr>"
  have "writer_step (w, d) (?w, d)" using Close [of w d] assms by (simp add: close_writer_def)
  then show ?thesis using workers_leave [of ?w d] by (simp add: converse_rtranclp_into_rtranclp)
qed

section \<open>Deployments\<close>

definition deployment_of :: "metrics_event \<Rightarrow> string \<Rightarrow> dora_row \<Rightarrow> bool" where
  "deployment_of e kind x \<longleftrightarrow> same_deployment (deployment_row [] e kind []) x"

lemma deployment_conflict:
  "row_conflict (deployment_row i e kind p) x \<longleftrightarrow> i = dr_id x \<or> deployment_of e kind x"
  by (simp add: row_conflict_def deployment_of_def same_source_event_def same_deployment_def deployment_row_def sql_eq_def)

lemma deployment_of_own: "kind \<in> set deployment_types \<Longrightarrow> deployment_of e kind (deployment_row i e kind p)"
  by (simp add: deployment_of_def same_deployment_def deployment_row_def sql_eq_def)

lemma deployment_of_stamp [simp]: "deployment_of (stamp env e) kind x = deployment_of e kind x"
  by (simp add: deployment_of_def same_deployment_def deployment_row_def stamp_def)

lemma job_event_kinds:
  "dora_event_type_from_job_event t = Some kind \<Longrightarrow> kind \<in> set deployment_types \<and> kind \<in> set dora_event_types"
  by (simp add: dora_event_type_from_job_event_def deployment_types_def dora_event_types_def split: if_split_asm)

lemma stamp_fields [simp]:
  "me_event_type (stamp env e) = me_event_type e" "me_tenant_id (stamp env e) = me_tenant_id e"
  "me_path_key (stamp env e) = me_path_key e" "me_commit_shas (stamp env e) = me_commit_shas e"
  "event_params_error env' (stamp env e) = event_params_error env' e" "event_payload (stamp env e) = event_payload e"
  by (simp_all add: stamp_def event_params_error_def event_payload_def)

lemma foldl_insert_link: "set (foldl insert_link ls ms) \<supseteq> set ls"
  "m \<in> set ms \<Longrightarrow> link_key m \<in> link_key ` set (foldl insert_link ls ms)"
proof -
  show mono: "set (foldl insert_link ls ms) \<supseteq> set ls" for ls
  proof (induction ms arbitrary: ls)
    case (Cons m ms)
    have "set ls \<subseteq> set (insert_link ls m)" by (auto simp: insert_link_def)
    then show ?case using Cons [of "insert_link ls m"] by simp
  qed simp
  show "m \<in> set ms \<Longrightarrow> link_key m \<in> link_key ` set (foldl insert_link ls ms)"
  proof (induction ms arbitrary: ls)
    case (Cons x ms)
    have one: "link_key x \<in> link_key ` set (insert_link ls x)" by (auto simp: insert_link_def)
    have "set (insert_link ls x) \<subseteq> set (foldl insert_link (insert_link ls x) ms)"
    proof (induction ms arbitrary: ls x)
      case (Cons m ms)
      have "set (insert_link ls x) \<subseteq> set (insert_link (insert_link ls x) m)" by (auto simp: insert_link_def)
      then show ?case using Cons [of "insert_link ls x" m] by simp
    qed simp
    then have "link_key x \<in> link_key ` set (foldl insert_link (insert_link ls x) ms)" using one by (meson image_mono subsetD)
    then show ?case using Cons by auto
  qed simp
qed


lemma deployment_stmt_new:
  assumes "event_params_error env e = None" "kind \<in> set dora_event_types"
    "\<forall>x\<in>set (dora_events d). i \<noteq> dr_id x \<and> \<not> deployment_of e kind x"
  shows "deployment_stmt env i e kind p t d = Inr ((), d\<lparr>metrics_job_events := metrics_job_events d @ [job_event_row env e],
     dora_events := dora_events d @ [deployment_row i e kind p],
     commit_links := foldl insert_link (commit_links d) (map (link_of e i
       (if kind = ''deployment.succeeded'' then ''succeeded'' else ''failed'')) (filter (\<lambda>sha. sha \<noteq> []) (me_commit_shas e)))\<rparr>)"
proof -
  have "\<not> list_ex (row_conflict (deployment_row i e kind p)) (dora_events d)"
    using assms(3) by (simp add: list_ex_iff deployment_conflict)
  moreover have "dr_event_type (deployment_row i e kind p) = kind" "dr_id (deployment_row i e kind p) = i"
    by (simp_all add: deployment_row_def)
  ultimately show ?thesis
    using assms(1,2) by (simp add: deployment_stmt_def insert_event_stmt_def Let_def)
qed

lemma deployment_stmt_again:
  assumes "kind \<in> set dora_event_types" "\<exists>x\<in>set (dora_events d). deployment_of e kind x"
    "deployment_stmt env i e kind p t d = Inr (u, d')"
  shows "dora_events d' = dora_events d \<and> commit_links d' = commit_links d"
proof -
  have "list_ex (row_conflict (deployment_row i e kind p)) (dora_events d)"
    using assms(2) by (auto simp: list_ex_iff deployment_conflict)
  moreover have "dr_event_type (deployment_row i e kind p) = kind" by (simp add: deployment_row_def)
  ultimately show ?thesis
    using assms(1,3) by (auto simp: deployment_stmt_def insert_event_stmt_def Let_def split: option.split_asm)
qed

lemma process_event_again:
  assumes "\<And>k d. de_gap (we_db env) k d = d" "dora_event_type_from_job_event (me_event_type e) = Some kind"
    "\<exists>x\<in>set (dora_events d). deployment_of e kind x"
  shows "dora_events (snd (process_event env e (w, d))) = dora_events d
     \<and> commit_links (snd (process_event env e (w, d))) = commit_links d"
proof -
  have same: "dora_events d2 = dora_events d \<and> commit_links d2 = commit_links d"
    if "dora_exec (we_db env) 0 (deployment_stmt env i (stamp env e) kind p) d = (r, d2)" for i p r d2
    using that deployment_stmt_again [of kind d "stamp env e" env i p] assms(3) job_event_kinds [OF assms(2)]
    by (simp add: dora_exec_def Let_def assms(1) split: option.split_asm sum.split_asm prod.split_asm if_split_asm)
  then show ?thesis
    by (simp add: process_event_def Let_def assms(2) split: sum.split prod.split)
qed

section \<open>Properties\<close>


definition ex_writer_env :: "string \<Rightarrow> writer_env" where
  "ex_writer_env i = \<lparr>we_db = \<lparr>de_pool = True, de_acquire = (\<lambda>_. None), de_fault = (\<lambda>_. None), de_gap = (\<lambda>_ d. d),
     de_time = (\<lambda>_. 5), de_uuid = (\<lambda>_. i), de_now = 5, de_json_error = None, de_rows = None,
     de_marshal = (\<lambda>_. Inr ''{}''), de_atoi = (\<lambda>_. None), de_parsers = \<lparr>dj_push = (\<lambda>_. Inl ''e''),
       dj_pull_request = (\<lambda>_. Inl ''e''), dj_merge_request = (\<lambda>_. Inl ''e''), dj_datadog = (\<lambda>_. Inl ''e''),
       dj_opsgenie = (\<lambda>_. Inl ''e''), dj_rfc3339 = (\<lambda>_. Inl ''e'')\<rparr>\<rparr>,
     we_valid_uuid = (\<lambda>_. True), we_metadata = (\<lambda>_. None), we_payload = (\<lambda>_. Inr ''{}''), we_duration = 3\<rparr>"

definition ex_metrics_event :: metrics_event where
  "ex_metrics_event = \<lparr>me_tenant_id = ''t1'', me_job_id = ''j1'', me_path_key = ''p1'', me_attempt = 1, me_run_id = ''r1'',
     me_event_type = ''job_completed'', me_timestamp = 4, me_environment = ''prod'', me_commit_shas = [''c1'', [], ''c2''],
     me_duration_ms = 7, me_error_code = [], me_metadata = None\<rparr>"


text \<open>\<open>Close\<close> may abandon events that were accepted. From every state of an open writer there is a run in
  which the writer is closed, its workers leave, the events of the queue stay where they are, and no later
  step stores anything. Its comment promises to drain the queue.\<close>

theorem close_abandons_queue:
  assumes "\<not> mw_closed w"
  shows "\<exists>w'. writer_run (w, d) (w', d) \<and> mw_queue w' = mw_queue w \<and> mw_running w' = 0
     \<and> (\<forall>w'' d''. writer_run (w', d) (w'', d'') \<longrightarrow> mw_queue w'' = mw_queue w \<and> d'' = d)"
proof -
  let ?w = "w\<lparr>mw_closed := True, mw_stopped := True, mw_running := 0\<rparr>"
  have "abandoned ?w" by (simp add: abandoned_def)
  then have "\<forall>w'' d''. writer_run (?w, d) (w'', d'') \<longrightarrow> mw_queue w'' = mw_queue w \<and> d'' = d"
    by (auto dest: abandoned_run)
  then show ?thesis using close_abandons [OF assms, of d] by (intro exI [of _ ?w]) simp
qed


theorem close_abandons_queue_witness:
  "\<exists>w'. writer_run ((new_metrics_sql_writer 8 1)\<lparr>mw_queue := [ex_metrics_event]\<rparr>, empty_dora_db) (w', empty_dora_db)
     \<and> mw_queue w' = [ex_metrics_event] \<and> mw_running w' = 0"
proof -
  let ?w = "(new_metrics_sql_writer 8 1)\<lparr>mw_queue := [ex_metrics_event]\<rparr>"
  have "\<not> mw_closed ?w" by (simp add: new_metrics_sql_writer_def)
  from close_abandons_queue [OF this, of empty_dora_db] show ?thesis by auto
qed

text \<open>The queue never holds more than its size, and the workers are told to stop exactly when it is closed.\<close>

lemma queue_bounded:
  "writer_run (new_metrics_sql_writer n k, d) (w, d') \<Longrightarrow> length (mw_queue w) \<le> mw_queue_size w \<and> (mw_stopped w \<longleftrightarrow> mw_closed w)"
  using writer_run_inv [of "(new_metrics_sql_writer n k, d)" "(w, d')"]
  by (simp add: writer_inv_def new_metrics_sql_writer_def)

end
