(* ===== verification/Process_Config.thy ===== *)
theory Process_Config
  imports RE_Prelude
begin

text \<open>
  The configuration of the process: \<open>src/internal/config/loader.go\<close>. The environment is a function from
  names to values, the empty text for a variable that is not set, as \<open>os.Getenv\<close> gives it after
  \<open>godotenv.Load\<close> has added the variables of a \<open>.env\<close> file.
\<close>

section \<open>Numbers and truth values as text\<close>

text \<open>\<open>strconv.Atoi\<close>: an optional sign and decimal digits, in the range of 64 bits.\<close>

definition go_atoi :: "string \<Rightarrow> int option" where
  "go_atoi s =
     (let neg = (s \<noteq> [] \<and> hd s = CHR ''-'');
          ds = (if s \<noteq> [] \<and> (hd s = CHR ''-'' \<or> hd s = CHR ''+'') then tl s else s);
          n = (if neg then - int (digits_val ds) else int (digits_val ds))
      in if ds = [] \<or> \<not> list_all is_digit ds then None
         else if n < - 9223372036854775808 \<or> 9223372036854775807 < n then None else Some n)"

definition parse_bool :: "string \<Rightarrow> bool option" where
  "parse_bool s =
     (if s \<in> {''1'', ''t'', ''T'', ''TRUE'', ''true'', ''True''} then Some True
      else if s \<in> {''0'', ''f'', ''F'', ''FALSE'', ''false'', ''False''} then Some False else None)"

section \<open>The loader\<close>

type_synonym environ = "string \<Rightarrow> string"

record process_config =
  pc_http_port :: int
  pc_database_url :: string
  pc_oidc_issuer_url :: string
  pc_oidc_audience :: string
  pc_dora_prometheus_enabled :: bool
  pc_volta_env_type :: string
  pc_volta_storage :: string
  pc_volta_sm_secret_id :: string
  pc_volta_s3_bucket :: string
  pc_volta_file_path :: string
  pc_volta_passphrase_env_var :: string
  pc_admin_token_sm_secret_id :: string
  pc_job_execution_timeout :: string
  pc_api_client_timeout :: string

datatype load_error = Missing_var string | Invalid_var string

definition required_vars :: "string list" where
  "required_vars = [''DATABASE_URL'', ''OIDC_ISSUER_URL'', ''OIDC_AUDIENCE'', ''VOLTA_SM_SECRET_ID'', ''VOLTA_S3_BUCKET'']"

definition env_or :: "environ \<Rightarrow> string \<Rightarrow> string \<Rightarrow> string" where
  "env_or env k dflt = (if env k = [] then dflt else env k)"

definition load_process_config :: "environ \<Rightarrow> load_error + process_config" where
  "load_process_config env =
     (case List.find (\<lambda>k. env k = []) required_vars of
        Some k \<Rightarrow> Inl (Missing_var k)
      | None \<Rightarrow>
     (case go_atoi (env_or env ''HTTP_PORT'' ''8080'') of
        None \<Rightarrow> Inl (Invalid_var ''HTTP_PORT'')
      | Some port \<Rightarrow>
     (case (if env ''DORA_PROMETHEUS_ENABLED'' = [] then Some True else parse_bool (env ''DORA_PROMETHEUS_ENABLED'')) of
        None \<Rightarrow> Inl (Invalid_var ''DORA_PROMETHEUS_ENABLED'')
      | Some dora \<Rightarrow>
          Inr \<lparr>pc_http_port = port, pc_database_url = env ''DATABASE_URL'', pc_oidc_issuer_url = env ''OIDC_ISSUER_URL'',
            pc_oidc_audience = env ''OIDC_AUDIENCE'', pc_dora_prometheus_enabled = dora,
            pc_volta_env_type = env_or env ''VOLTA_ENV'' ''prod'', pc_volta_storage = env_or env ''VOLTA_STORAGE'' ''s3'',
            pc_volta_sm_secret_id = env ''VOLTA_SM_SECRET_ID'', pc_volta_s3_bucket = env ''VOLTA_S3_BUCKET'',
            pc_volta_file_path = env ''VOLTA_FILE_PATH'',
            pc_volta_passphrase_env_var = env_or env ''VOLTA_PASSPHRASE_ENV_VAR'' ''VOLTA_MASTER_PASSPHRASE'',
            pc_admin_token_sm_secret_id = env ''ADMIN_TOKEN_SM_SECRET_ID'',
            pc_job_execution_timeout = env_or env ''JOB_EXECUTION_TIMEOUT'' ''45s'',
            pc_api_client_timeout = env_or env ''API_CLIENT_TIMEOUT'' ''30s''\<rparr>)))"

section \<open>Lemmas\<close>

lemma env_or_nonempty: "dflt \<noteq> [] \<Longrightarrow> env_or env k dflt \<noteq> []"
  by (simp add: env_or_def)

text \<open>A configuration that loads has every required value, and the loader names the first one missing.\<close>

lemma load_process_config_complete:
  assumes "load_process_config env = Inr c"
  shows "\<forall>k\<in>set required_vars. env k \<noteq> []"
    and "pc_volta_passphrase_env_var c \<noteq> []" "pc_volta_storage c \<noteq> []"
    and "go_atoi (env_or env ''HTTP_PORT'' ''8080'') = Some (pc_http_port c)"
proof -
  have none: "List.find (\<lambda>k. env k = []) required_vars = None"
    using assms by (cases "List.find (\<lambda>k. env k = []) required_vars") (simp_all add: load_process_config_def)
  then show "\<forall>k\<in>set required_vars. env k \<noteq> []" by (simp add: find_None_iff)
  obtain port where port: "go_atoi (env_or env ''HTTP_PORT'' ''8080'') = Some port"
    using assms none by (cases "go_atoi (env_or env ''HTTP_PORT'' ''8080'')") (simp_all add: load_process_config_def)
  note c = assms [unfolded load_process_config_def none port option.case]
  show "go_atoi (env_or env ''HTTP_PORT'' ''8080'') = Some (pc_http_port c)"
    "pc_volta_passphrase_env_var c \<noteq> []" "pc_volta_storage c \<noteq> []"
    using c port by (auto simp: env_or_nonempty split: option.split_asm)
qed

lemma load_process_config_missing:
  "load_process_config env = Inl (Missing_var k) \<longleftrightarrow> List.find (\<lambda>k. env k = []) required_vars = Some k"
  by (simp add: load_process_config_def split: option.split)

end
