(* ===== verification/Secrets.thy ===== *)
theory Secrets
  imports Process_Config Middleware
begin

text \<open>
  Secrets of tenants: the vault manager \<open>src/internal/secrets/volta_manager.go\<close>, the handlers of
  \<open>src/internal/transport/http/secrets_handler.go\<close> and the platform route of \<open>server.go\<close>. The vault
  library is a record of functions over a state of its own; vaults are handles. The list \<open>vt_calls\<close>
  records the calls that reach the library.
\<close>

section \<open>The vault library\<close>

text \<open>A listed entry: a pointer that may be nil to a structure, of which the string fields matter.\<close>

type_synonym volta_entry = "(string \<times> go_any) list option"

record ('h, 'w) volta_lib =
  vl_get :: "string \<Rightarrow> 'w \<Rightarrow> (string + 'h) \<times> 'w"
  vl_store :: "'h \<Rightarrow> string \<Rightarrow> string \<Rightarrow> 'w \<Rightarrow> string option \<times> 'w"
  vl_delete :: "'h \<Rightarrow> string \<Rightarrow> 'w \<Rightarrow> string option \<times> 'w"
  vl_list :: "'h \<Rightarrow> 'w \<Rightarrow> (string + volta_entry list) \<times> 'w"
  vl_close :: "'h \<Rightarrow> 'w \<Rightarrow> string option \<times> 'w"
  vl_close_all :: "('w \<Rightarrow> string option \<times> 'w) option"
  vl_secret_value :: "string \<Rightarrow> string + string option"

datatype 'h vault_call =
    Call_get string 'h
  | Call_store 'h string string
  | Call_delete 'h string
  | Call_list 'h
  | Call_close 'h

record ('h, 'w) vault_state =
  vt_vaults :: "(string \<times> 'h) list"
  vt_passphrase :: string
  vt_passphrase_env_var :: string
  vt_environ :: environ
  vt_world :: 'w
  vt_calls :: "'h vault_call list"

section \<open>The manager\<close>

text \<open>The options of the library: the variable of the passphrase and, in file mode, the salt.\<close>

record volta_options =
  vo_env_passphrase_var :: string
  vo_memory_lock :: bool
  vo_salt :: string

definition passphrase_var :: "process_config \<Rightarrow> string" where
  "passphrase_var cfg = (if pc_volta_passphrase_env_var cfg = [] then ''VOLTA_MASTER_PASSPHRASE''
     else pc_volta_passphrase_env_var cfg)"

definition build_volta_options :: "environ \<Rightarrow> process_config \<Rightarrow> bool \<Rightarrow> volta_options" where
  "build_volta_options env cfg salt = \<lparr>vo_env_passphrase_var = passphrase_var cfg, vo_memory_lock = True,
     vo_salt = (if salt then env ''VOLTA_SALT'' else [])\<rparr>"

datatype volta_store = File_store volta_options string | S3_store volta_options string

definition new_manager_with_deps ::
  "(volta_store \<Rightarrow> string + 'w) \<Rightarrow> environ \<Rightarrow> process_config \<Rightarrow> string + ('h, 'w) vault_state" where
  "new_manager_with_deps create env cfg =
     (let state = (\<lambda>w. \<lparr>vt_vaults = [], vt_passphrase = [], vt_passphrase_env_var = [], vt_environ = env, vt_world = w, vt_calls = []\<rparr>) in
      if pc_volta_storage cfg = ''file'' then
        (case create (File_store (build_volta_options env cfg True) (pc_volta_file_path cfg)) of
           Inl e \<Rightarrow> Inl e | Inr w \<Rightarrow> Inr (state w))
      else if pc_volta_storage cfg = ''s3'' then
        (case create (S3_store (build_volta_options env cfg False) (pc_volta_s3_bucket cfg)) of
           Inl e \<Rightarrow> Inl (''failed to create S3 vault manager: '' @ e) | Inr w \<Rightarrow> Inr (state w))
      else Inl (''unsupported volta storage type: '' @ pc_volta_storage cfg))"

text \<open>\<open>os.Setenv\<close> refuses an empty name, and \<open>=\<close> or NUL in it or NUL in the value.\<close>

definition go_setenv :: "string \<Rightarrow> string \<Rightarrow> environ \<Rightarrow> environ option" where
  "go_setenv k v env =
     (if k = [] \<or> CHR ''='' \<in> set k \<or> CHR 0x00 \<in> set k \<or> CHR 0x00 \<in> set v then None else Some (env(k := v)))"

definition fetch_passphrase :: "('h, 'w) volta_lib \<Rightarrow> process_config \<Rightarrow> string + string" where
  "fetch_passphrase lib cfg =
     (case vl_secret_value lib (pc_volta_sm_secret_id cfg) of
        Inl e \<Rightarrow> Inl (''failed to get secret: '' @ e)
      | Inr None \<Rightarrow> Inl ''secret value is empty''
      | Inr (Some p) \<Rightarrow> Inr p)"

definition manager_init ::
  "('h, 'w) volta_lib \<Rightarrow> process_config \<Rightarrow> ('h, 'w) vault_state \<Rightarrow> string option \<times> ('h, 'w) vault_state" where
  "manager_init lib cfg s0 =
     (let var = passphrase_var cfg; s = s0\<lparr>vt_passphrase_env_var := var\<rparr> in
      if vt_environ s var \<noteq> [] then (None, s\<lparr>vt_passphrase := vt_environ s var\<rparr>)
      else case fetch_passphrase lib cfg of
        Inl e \<Rightarrow> (Some (''volta bootstrap failed: '' @ e), s)
      | Inr p \<Rightarrow>
          (case go_setenv var p (vt_environ s) of
             None \<Rightarrow> (Some ''failed to set passphrase env var'', s)
           | Some env \<Rightarrow> (None, s\<lparr>vt_environ := env, vt_passphrase := p\<rparr>)))"

definition get_vault ::
  "('h, 'w) volta_lib \<Rightarrow> string \<Rightarrow> ('h, 'w) vault_state \<Rightarrow> (string + 'h) \<times> ('h, 'w) vault_state" where
  "get_vault lib tenant s =
     (case map_of (vt_vaults s) tenant of
        Some h \<Rightarrow> (Inr h, s)
      | None \<Rightarrow>
     (case vl_get lib tenant (vt_world s) of
        (Inl e, w) \<Rightarrow> (Inl (''tenant vault unavailable: '' @ e), s\<lparr>vt_world := w\<rparr>)
      | (Inr h, w) \<Rightarrow>
          let s1 = s\<lparr>vt_world := w, vt_calls := vt_calls s @ [Call_get tenant h]\<rparr> in
          if vt_passphrase s \<noteq> [] \<and> vt_passphrase_env_var s \<noteq> [] then
            (case go_setenv (vt_passphrase_env_var s) (vt_passphrase s) (vt_environ s) of
               None \<Rightarrow> (Inl ''failed to re-arm passphrase env var'', s1)
             | Some env \<Rightarrow> (Inr h, s1\<lparr>vt_environ := env, vt_vaults := alist_put tenant h (vt_vaults s)\<rparr>))
          else (Inr h, s1\<lparr>vt_vaults := alist_put tenant h (vt_vaults s)\<rparr>)))"

definition call_vault ::
  "'h vault_call \<Rightarrow> ('w \<Rightarrow> 'a \<times> 'w) \<Rightarrow> ('h, 'w) vault_state \<Rightarrow> 'a \<times> ('h, 'w) vault_state" where
  "call_vault c f s = (case f (vt_world s) of (a, w) \<Rightarrow> (a, s\<lparr>vt_world := w, vt_calls := vt_calls s @ [c]\<rparr>))"

fun close_vaults :: "('h, 'w) volta_lib \<Rightarrow> (string \<times> 'h) list \<Rightarrow> ('h, 'w) vault_state \<Rightarrow> ('h, 'w) vault_state" where
  "close_vaults lib [] s = s"
| "close_vaults lib ((t, h) # vs) s = close_vaults lib vs (snd (call_vault (Call_close h) (vl_close lib h) s))"

definition close_all :: "('h, 'w) volta_lib \<Rightarrow> ('h, 'w) vault_state \<Rightarrow> string option \<times> ('h, 'w) vault_state" where
  "close_all lib s =
     (let s1 = (close_vaults lib (vt_vaults s) s)\<lparr>vt_vaults := []\<rparr> in
      case vl_close_all lib of
        None \<Rightarrow> (None, s1)
      | Some f \<Rightarrow> (case f (vt_world s1) of (e, w) \<Rightarrow> (e, s1\<lparr>vt_world := w\<rparr>)))"

text \<open>\<open>ListSecrets\<close> takes the first of three fields that is a string; an empty one drops the entry.\<close>

definition entry_key :: "volta_entry \<Rightarrow> string" where
  "entry_key e =
     (case e of None \<Rightarrow> []
      | Some fs \<Rightarrow> (case List.find (\<lambda>k. as_string (go_get fs k) \<noteq> None) [''SecretID'', ''ID'', ''Name''] of
          None \<Rightarrow> [] | Some k \<Rightarrow> string_or_empty (go_get fs k)))"

definition entry_keys :: "volta_entry list \<Rightarrow> string list" where
  "entry_keys es = filter (\<lambda>k. k \<noteq> []) (map entry_key es)"

section \<open>The handlers\<close>

record secret_request =
  sr_tenant :: string
  sr_key :: string
  sr_claims :: "claims option"
  sr_value :: "string option"

datatype secret_response =
    Secret_error int string string
  | Secret_stored string string
  | Secret_keys string "string list"
  | Secret_deleted string string

definition validate_tenant_and_key :: "string \<Rightarrow> string \<Rightarrow> string option" where
  "validate_tenant_and_key tenant key =
     (if tenant = [] then Some ''tenant ID is required''
      else if key = [] then Some ''secret key is required''
      else if contains_sub key ''..'' \<or> contains_sub key ''/'' then Some ''invalid secret key'' else None)"

definition is_authorized_to_set_secret :: "claims \<Rightarrow> string \<Rightarrow> bool" where
  "is_authorized_to_set_secret c tenant \<longleftrightarrow>
     (if tenant = ''platform'' then cm_role c = ''platform-admin'' \<or> ''platform-admin'' \<in> set (cm_group_ids c)
      else cm_subject c \<noteq> [])"

definition is_authorized_to_list_secrets :: "claims \<Rightarrow> string \<Rightarrow> bool" where
  "is_authorized_to_list_secrets c tenant \<longleftrightarrow>
     (if tenant = ''platform'' then cm_role c = ''platform-admin'' \<or> ''platform-admin'' \<in> set (cm_group_ids c)
      else cm_subject c \<noteq> [])"

definition is_authorized_to_delete_secret :: "claims \<Rightarrow> string \<Rightarrow> bool" where
  "is_authorized_to_delete_secret c tenant = is_authorized_to_set_secret c tenant"

definition store_secret ::
  "('h, 'w) volta_lib \<Rightarrow> string \<Rightarrow> string \<Rightarrow> string \<Rightarrow> ('h, 'w) vault_state \<Rightarrow> string option \<times> ('h, 'w) vault_state" where
  "store_secret lib tenant key v s =
     (case get_vault lib tenant s of
        (Inl e, s1) \<Rightarrow> (Some (''failed to get vault for tenant '' @ tenant @ '': '' @ e), s1)
      | (Inr h, s1) \<Rightarrow>
          (case call_vault (Call_store h key v) (vl_store lib h key v) s1 of
             (None, s2) \<Rightarrow> (None, s2) | (Some e, s2) \<Rightarrow> (Some (''failed to store secret: '' @ e), s2)))"

definition list_secret_keys ::
  "('h, 'w) volta_lib \<Rightarrow> string \<Rightarrow> ('h, 'w) vault_state \<Rightarrow> (string + string list) \<times> ('h, 'w) vault_state" where
  "list_secret_keys lib tenant s =
     (case get_vault lib tenant s of
        (Inl e, s1) \<Rightarrow> (Inl (''failed to get vault for tenant '' @ tenant @ '': '' @ e), s1)
      | (Inr h, s1) \<Rightarrow>
          (case call_vault (Call_list h) (vl_list lib h) s1 of
             (Inl e, s2) \<Rightarrow> (Inl (''failed to list secrets: '' @ e), s2) | (Inr es, s2) \<Rightarrow> (Inr (entry_keys es), s2)))"

definition delete_secret_key ::
  "('h, 'w) volta_lib \<Rightarrow> string \<Rightarrow> string \<Rightarrow> ('h, 'w) vault_state \<Rightarrow> string option \<times> ('h, 'w) vault_state" where
  "delete_secret_key lib tenant key s =
     (case get_vault lib tenant s of
        (Inl e, s1) \<Rightarrow> (Some (''failed to get vault for tenant '' @ tenant @ '': '' @ e), s1)
      | (Inr h, s1) \<Rightarrow>
          (case call_vault (Call_delete h key) (vl_delete lib h key) s1 of
             (None, s2) \<Rightarrow> (None, s2) | (Some e, s2) \<Rightarrow> (Some (''failed to delete secret: '' @ e), s2)))"

definition set_secret ::
  "('h, 'w) volta_lib \<Rightarrow> secret_request \<Rightarrow> ('h, 'w) vault_state \<Rightarrow> secret_response \<times> ('h, 'w) vault_state" where
  "set_secret lib q s =
     (case validate_tenant_and_key (sr_tenant q) (sr_key q) of
        Some e \<Rightarrow> (Secret_error 400 e ''INVALID_REQUEST'', s)
      | None \<Rightarrow>
     (case sr_claims q of
        None \<Rightarrow> (Secret_error 401 ''authentication required'' ''AUTH_REQUIRED'', s)
      | Some c \<Rightarrow>
          if \<not> is_authorized_to_set_secret c (sr_tenant q)
          then (Secret_error 403 ''not authorized to set secret for this tenant'' ''FORBIDDEN'', s)
          else case sr_value q of
            None \<Rightarrow> (Secret_error 400 ''invalid request body'' ''INVALID_REQUEST'', s)
          | Some v \<Rightarrow>
              if v = [] then (Secret_error 400 ''secret value cannot be empty'' ''INVALID_REQUEST'', s)
              else case store_secret lib (sr_tenant q) (sr_key q) v s of
                (Some e, s1) \<Rightarrow> (Secret_error 500 ''failed to store secret'' ''INTERNAL_ERROR'', s1)
              | (None, s1) \<Rightarrow> (Secret_stored (sr_key q) (sr_tenant q), s1)))"

definition list_secrets ::
  "('h, 'w) volta_lib \<Rightarrow> secret_request \<Rightarrow> ('h, 'w) vault_state \<Rightarrow> secret_response \<times> ('h, 'w) vault_state" where
  "list_secrets lib q s =
     (if sr_tenant q = [] then (Secret_error 400 ''tenant ID is required'' ''INVALID_REQUEST'', s)
      else case sr_claims q of
        None \<Rightarrow> (Secret_error 401 ''authentication required'' ''AUTH_REQUIRED'', s)
      | Some c \<Rightarrow>
          if \<not> is_authorized_to_list_secrets c (sr_tenant q)
          then (Secret_error 403 ''not authorized to list secrets for this tenant'' ''FORBIDDEN'', s)
          else case list_secret_keys lib (sr_tenant q) s of
            (Inl e, s1) \<Rightarrow> (Secret_keys (sr_tenant q) [], s1)
          | (Inr ks, s1) \<Rightarrow> (Secret_keys (sr_tenant q) ks, s1))"

definition delete_secret ::
  "('h, 'w) volta_lib \<Rightarrow> secret_request \<Rightarrow> ('h, 'w) vault_state \<Rightarrow> secret_response \<times> ('h, 'w) vault_state" where
  "delete_secret lib q s =
     (case validate_tenant_and_key (sr_tenant q) (sr_key q) of
        Some e \<Rightarrow> (Secret_error 400 e ''INVALID_REQUEST'', s)
      | None \<Rightarrow>
     (case sr_claims q of
        None \<Rightarrow> (Secret_error 401 ''authentication required'' ''AUTH_REQUIRED'', s)
      | Some c \<Rightarrow>
          if \<not> is_authorized_to_delete_secret c (sr_tenant q)
          then (Secret_error 403 ''not authorized to delete secret for this tenant'' ''FORBIDDEN'', s)
          else case delete_secret_key lib (sr_tenant q) (sr_key q) s of
            (Some e, s1) \<Rightarrow>
              if contains_sub e ''not found'' \<or> contains_sub e ''does not exist''
              then (Secret_error 404 ''secret not found'' ''NOT_FOUND'', s1)
              else (Secret_error 500 ''failed to delete secret'' ''INTERNAL_ERROR'', s1)
          | (None, s1) \<Rightarrow> (Secret_deleted (sr_key q) (sr_tenant q), s1)))"

section \<open>The platform route\<close>

definition resolve_admin_token :: "environ \<Rightarrow> string" where
  "resolve_admin_token env = env ''ADMIN_TOKEN''"

text \<open>The route exists only with an admin token (\<open>None\<close> otherwise); \<open>auth\<close> is the \<open>Authorization\<close> header.\<close>

definition put_platform_secret ::
  "('h, 'w) volta_lib \<Rightarrow> string \<Rightarrow> string \<Rightarrow> string \<Rightarrow> string option \<Rightarrow> ('h, 'w) vault_state
     \<Rightarrow> (secret_response \<times> ('h, 'w) vault_state) option" where
  "put_platform_secret lib admin auth key v s =
     (if admin = [] then None
      else Some (
        if \<not> has_prefix auth (''Bearer '' @ admin) then (Secret_error 401 ''unauthorized'' ''AUTH_REQUIRED'', s)
        else case v of
          None \<Rightarrow> (Secret_error 400 ''invalid request body'' ''INVALID_REQUEST'', s)
        | Some x \<Rightarrow>
            if x = [] then (Secret_error 400 ''invalid request body'' ''INVALID_REQUEST'', s)
            else case store_secret lib ''platform'' key x s of
              (Some e, s1) \<Rightarrow> (Secret_error 500 e ''INTERNAL_ERROR'', s1)
            | (None, s1) \<Rightarrow> (Secret_stored key ''platform'', s1)))"

section \<open>Calls to the library\<close>

text \<open>Every cached handle is one the library returned for that tenant.\<close>

definition handles_sound :: "('h, 'w) vault_state \<Rightarrow> bool" where
  "handles_sound s \<longleftrightarrow> (\<forall>t h. (t, h) \<in> set (vt_vaults s) \<longrightarrow> Call_get t h \<in> set (vt_calls s))"

text \<open>A step keeps the calls made so far, and its new ones satisfy \<open>P\<close>.\<close>

definition adds_calls :: "('h vault_call \<Rightarrow> 'h vault_call set \<Rightarrow> bool) \<Rightarrow> ('h, 'w) vault_state \<Rightarrow> ('h, 'w) vault_state \<Rightarrow> bool" where
  "adds_calls P s s' \<longleftrightarrow> set (vt_calls s) \<subseteq> set (vt_calls s') \<and> (handles_sound s \<longrightarrow> handles_sound s' \<and>
     (\<forall>c\<in>set (vt_calls s'). c \<in> set (vt_calls s) \<or> P c (set (vt_calls s'))))"

lemma adds_calls_refl [simp]: "adds_calls P s s"
  by (simp add: adds_calls_def)

lemma alist_put_entries: "set (alist_put k v m) \<subseteq> insert (k, v) (set m)"
  by (induction k v m rule: alist_put.induct) auto

lemma handles_sound_mono:
  "handles_sound s \<Longrightarrow> vt_vaults s' = vt_vaults s \<Longrightarrow> set (vt_calls s) \<subseteq> set (vt_calls s') \<Longrightarrow> handles_sound s'"
  by (auto simp: handles_sound_def)

text \<open>The new vault of a tenant: asked from the library and, unless the passphrase cannot be set, cached.\<close>

lemma get_vault_new:
  assumes "map_of (vt_vaults s) tenant = None" "vl_get lib tenant (vt_world s) = (Inr h, w)" "get_vault lib tenant s = (r, s')"
  shows "vt_calls s' = vt_calls s @ [Call_get tenant h] \<and> set (vt_vaults s') \<subseteq> insert (tenant, h) (set (vt_vaults s))
     \<and> (r = Inr h \<or> (\<exists>e. r = Inl e))"
  using assms(3) alist_put_entries [of tenant h "vt_vaults s"]
  unfolding get_vault_def assms(1,2) option.case prod.case sum.case Let_def
  by (simp split: if_split_asm option.split_asm) (auto split: if_split_asm)

lemma get_vault_calls:
  assumes "get_vault lib tenant s = (r, s')"
  shows "adds_calls (\<lambda>c _. \<exists>h. c = Call_get tenant h) s s'
    \<and> (\<forall>h. r = Inr h \<longrightarrow> handles_sound s \<longrightarrow> Call_get tenant h \<in> set (vt_calls s'))"
proof (cases "map_of (vt_vaults s) tenant")
  case (Some h)
  then have "r = Inr h" "s' = s" using assms by (simp_all add: get_vault_def)
  then show ?thesis using Some by (auto simp: handles_sound_def dest: map_of_SomeD)
next
  case None
  obtain x w where x: "vl_get lib tenant (vt_world s) = (x, w)" by (metis surj_pair)
  show ?thesis
  proof (cases x)
    case (Inl e)
    then have "r = Inl (''tenant vault unavailable: '' @ e)" "s' = s\<lparr>vt_world := w\<rparr>"
      using assms None x by (simp_all add: get_vault_def)
    then show ?thesis by (simp add: adds_calls_def handles_sound_def)
  next
    case (Inr h)
    note new = get_vault_new [OF None x [unfolded Inr] assms]
    then have "handles_sound s \<Longrightarrow> handles_sound s'" by (auto simp: handles_sound_def)
    then show ?thesis using new by (auto simp: adds_calls_def)
  qed
qed

lemma call_vault_calls:
  "call_vault c f s = (r, s') \<Longrightarrow> vt_calls s' = vt_calls s @ [c] \<and> vt_vaults s' = vt_vaults s"
  by (auto simp: call_vault_def split: prod.split_asm)

text \<open>A vault call on the handle of the tenant.\<close>

lemma vault_call_on_handle:
  assumes "get_vault lib tenant s = (Inr h, s1)" "call_vault (mk h) f s1 = (r, s')"
  shows "adds_calls (\<lambda>c C. (\<exists>h. c = Call_get tenant h) \<or> (\<exists>h. c = mk h \<and> Call_get tenant h \<in> C)) s s'"
proof -
  note g = get_vault_calls [OF assms(1)] and c = call_vault_calls [OF assms(2)]
  have "set (vt_calls s1) \<subseteq> set (vt_calls s')" using c by auto
  then have "handles_sound s1 \<Longrightarrow> handles_sound s'" using c handles_sound_mono by blast
  then show ?thesis using g c by (auto simp: adds_calls_def)
qed

lemma adds_calls_weaken: "adds_calls P s s' \<Longrightarrow> (\<And>c C. P c C \<Longrightarrow> Q c C) \<Longrightarrow> adds_calls Q s s'"
  by (auto simp: adds_calls_def)

text \<open>The three operations on a tenant's vault have the same effect on the state up to the call they make.\<close>

definition on_vault ::
  "('h, 'w) volta_lib \<Rightarrow> string \<Rightarrow> ('h \<Rightarrow> 'h vault_call) \<Rightarrow> ('h \<Rightarrow> 'w \<Rightarrow> 'a \<times> 'w) \<Rightarrow> ('h, 'w) vault_state \<Rightarrow> ('h, 'w) vault_state" where
  "on_vault lib tenant mk f s = (case get_vault lib tenant s of (Inl e, s1) \<Rightarrow> s1 | (Inr h, s1) \<Rightarrow> snd (call_vault (mk h) (f h) s1))"

lemma on_vault_calls:
  "adds_calls (\<lambda>c C. (\<exists>h. c = Call_get tenant h) \<or> (\<exists>h. c = mk h \<and> Call_get tenant h \<in> C)) s (on_vault lib tenant mk f s)"
proof -
  obtain x s1 where x: "get_vault lib tenant s = (x, s1)" by (metis surj_pair)
  show ?thesis
  proof (cases x)
    case (Inl e)
    then show ?thesis using x get_vault_calls [OF x] by (auto simp: on_vault_def elim: adds_calls_weaken)
  next
    case (Inr h)
    obtain y s2 where y: "call_vault (mk h) (f h) s1 = (y, s2)" by (metis surj_pair)
    then show ?thesis using vault_call_on_handle [OF x [unfolded Inr], of mk] x Inr by (simp add: on_vault_def)
  qed
qed

lemma vault_operations:
  "snd (store_secret lib tenant key v s) = on_vault lib tenant (\<lambda>h. Call_store h key v) (\<lambda>h. vl_store lib h key v) s"
  "snd (delete_secret_key lib tenant key s) = on_vault lib tenant (\<lambda>h. Call_delete h key) (\<lambda>h. vl_delete lib h key) s"
  "snd (list_secret_keys lib tenant s) = on_vault lib tenant Call_list (vl_list lib) s"
  by (simp_all add: store_secret_def delete_secret_key_def list_secret_keys_def on_vault_def split: prod.split sum.split option.split)

lemma close_vaults_calls: "adds_calls (\<lambda>c _. \<exists>h. c = Call_close h) s ((close_vaults lib vs s)\<lparr>vt_vaults := []\<rparr>)"
proof -
  have "set (vt_calls s) \<subseteq> set (vt_calls (close_vaults lib vs s))
      \<and> set (vt_calls (close_vaults lib vs s)) \<subseteq> set (vt_calls s) \<union> range Call_close"
  proof (induction vs arbitrary: s)
    case (Cons th vs)
    obtain t h where th: "th = (t, h)" by (cases th)
    obtain r s1 where s1: "call_vault (Call_close h) (vl_close lib h) s = (r, s1)" by (metis surj_pair)
    then show ?case using Cons [of s1] call_vault_calls [OF s1] th by auto
  qed simp
  then show ?thesis by (auto simp: adds_calls_def handles_sound_def)
qed

section \<open>Requests in sequence\<close>

datatype secret_op =
    Op_set secret_request
  | Op_list secret_request
  | Op_delete secret_request
  | Op_platform string string "string option"
  | Op_close

fun apply_secret_op :: "('h, 'w) volta_lib \<Rightarrow> string \<Rightarrow> secret_op \<Rightarrow> ('h, 'w) vault_state \<Rightarrow> ('h, 'w) vault_state" where
  "apply_secret_op lib admin (Op_set q) s = snd (set_secret lib q s)"
| "apply_secret_op lib admin (Op_list q) s = snd (list_secrets lib q s)"
| "apply_secret_op lib admin (Op_delete q) s = snd (delete_secret lib q s)"
| "apply_secret_op lib admin (Op_platform auth key v) s =
     (case put_platform_secret lib admin auth key v s of None \<Rightarrow> s | Some (_, s') \<Rightarrow> s')"
| "apply_secret_op lib admin Op_close s = snd (close_all lib s)"

definition run_secret_ops :: "('h, 'w) volta_lib \<Rightarrow> string \<Rightarrow> secret_op list \<Rightarrow> ('h, 'w) vault_state \<Rightarrow> ('h, 'w) vault_state" where
  "run_secret_ops lib admin ops s = foldl (\<lambda>s op. apply_secret_op lib admin op s) s ops"

text \<open>The requests that may store or delete a secret.\<close>

definition authorised_request :: "secret_request \<Rightarrow> bool" where
  "authorised_request q \<longleftrightarrow> validate_tenant_and_key (sr_tenant q) (sr_key q) = None
     \<and> (case sr_claims q of None \<Rightarrow> False | Some c \<Rightarrow> is_authorized_to_set_secret c (sr_tenant q))"

fun may_store :: "string \<Rightarrow> secret_op \<Rightarrow> string \<Rightarrow> string \<Rightarrow> string \<Rightarrow> bool" where
  "may_store admin (Op_set q) tenant key v \<longleftrightarrow>
     authorised_request q \<and> tenant = sr_tenant q \<and> key = sr_key q \<and> sr_value q = Some v \<and> v \<noteq> []"
| "may_store admin (Op_platform auth k x) tenant key v \<longleftrightarrow>
     admin \<noteq> [] \<and> has_prefix auth (''Bearer '' @ admin) \<and> tenant = ''platform'' \<and> key = k \<and> x = Some v \<and> v \<noteq> []"
| "may_store admin _ tenant key v \<longleftrightarrow> False"

fun may_delete :: "secret_op \<Rightarrow> string \<Rightarrow> string \<Rightarrow> bool" where
  "may_delete (Op_delete q) tenant key \<longleftrightarrow> authorised_request q \<and> tenant = sr_tenant q \<and> key = sr_key q"
| "may_delete _ tenant key \<longleftrightarrow> False"

definition justified :: "string \<Rightarrow> secret_op set \<Rightarrow> 'h vault_call \<Rightarrow> 'h vault_call set \<Rightarrow> bool" where
  "justified admin ops c C \<longleftrightarrow>
     (\<forall>h k v. c = Call_store h k v \<longrightarrow> (\<exists>op\<in>ops. \<exists>t. may_store admin op t k v \<and> Call_get t h \<in> C))
     \<and> (\<forall>h k. c = Call_delete h k \<longrightarrow> (\<exists>op\<in>ops. \<exists>t. may_delete op t k \<and> Call_get t h \<in> C))"

lemma set_secret_calls: "adds_calls (justified admin {Op_set q}) s (snd (set_secret lib q s))"
proof (cases "authorised_request q \<and> (\<exists>v. sr_value q = Some v \<and> v \<noteq> [])")
  case True
  then obtain v where v: "authorised_request q" "sr_value q = Some v" "v \<noteq> []" by blast
  then have "snd (set_secret lib q s) = snd (store_secret lib (sr_tenant q) (sr_key q) v s)"
    by (auto simp: set_secret_def authorised_request_def split: option.split_asm option.split prod.split)
  then show ?thesis
    using v unfolding vault_operations by (auto intro!: adds_calls_weaken [OF on_vault_calls] simp: justified_def)
next
  case False
  then have "snd (set_secret lib q s) = s"
    by (auto simp: set_secret_def authorised_request_def split: option.split_asm option.split)
  then show ?thesis by simp
qed

lemma delete_secret_calls: "adds_calls (justified admin {Op_delete q}) s (snd (delete_secret lib q s))"
proof (cases "authorised_request q")
  case True
  then have "snd (delete_secret lib q s) = snd (delete_secret_key lib (sr_tenant q) (sr_key q) s)"
    by (auto simp: delete_secret_def authorised_request_def is_authorized_to_delete_secret_def
        split: option.split_asm option.split prod.split)
  then show ?thesis
    using True unfolding vault_operations by (auto intro!: adds_calls_weaken [OF on_vault_calls] simp: justified_def)
next
  case False
  then have "snd (delete_secret lib q s) = s"
    by (auto simp: delete_secret_def authorised_request_def is_authorized_to_delete_secret_def split: option.split_asm option.split)
  then show ?thesis by simp
qed

lemma list_secrets_calls: "adds_calls (justified admin {Op_list q}) s (snd (list_secrets lib q s))"
proof -
  have "snd (list_secrets lib q s) = s \<or> snd (list_secrets lib q s) = snd (list_secret_keys lib (sr_tenant q) s)"
    by (simp add: list_secrets_def split: option.split prod.split sum.split)
  then show ?thesis
    unfolding vault_operations by (auto intro!: adds_calls_weaken [OF on_vault_calls] simp: justified_def)
qed

lemma put_platform_secret_calls:
  assumes "put_platform_secret lib admin auth key v s = Some (r, s')"
  shows "adds_calls (justified admin {Op_platform auth key v}) s s'"
proof (cases "has_prefix auth (''Bearer '' @ admin) \<and> (\<exists>x. v = Some x \<and> x \<noteq> [])")
  case True
  then obtain x where x: "has_prefix auth (''Bearer '' @ admin)" "v = Some x" "x \<noteq> []" by blast
  then have "s' = snd (store_secret lib ''platform'' key x s)" "admin \<noteq> []"
    using assms by (auto simp: put_platform_secret_def split: if_split_asm prod.split_asm option.split_asm)
  then show ?thesis
    using x unfolding vault_operations by (auto intro!: adds_calls_weaken [OF on_vault_calls] simp: justified_def)
next
  case False
  then have "s' = s" using assms by (auto simp: put_platform_secret_def split: if_split_asm option.split_asm)
  then show ?thesis by simp
qed

lemma close_all_calls: "adds_calls (justified admin {Op_close}) s (snd (close_all lib s))"
proof -
  have "adds_calls (\<lambda>c _. \<exists>h. c = Call_close h) s (snd (close_all lib s))"
    using close_vaults_calls [of s lib "vt_vaults s"]
    by (simp add: close_all_def Let_def adds_calls_def handles_sound_def split: option.split prod.split)
  then show ?thesis by (rule adds_calls_weaken) (auto simp: justified_def)
qed

lemma apply_secret_op_calls: "adds_calls (justified admin {op}) s (apply_secret_op lib admin op s)"
proof (cases op)
  case (Op_platform auth key v)
  then show ?thesis
    by (cases "put_platform_secret lib admin auth key v s") (auto simp: put_platform_secret_calls)
qed (simp_all add: set_secret_calls delete_secret_calls list_secrets_calls close_all_calls)

lemma justified_mono: "justified admin ops c C \<Longrightarrow> ops \<subseteq> ops' \<Longrightarrow> C \<subseteq> C' \<Longrightarrow> justified admin ops' c C'"
  unfolding justified_def by blast

lemma run_secret_ops_justified:
  assumes "handles_sound s" "\<forall>c\<in>set (vt_calls s). justified admin {} c (set (vt_calls s))"
  shows "handles_sound (run_secret_ops lib admin ops s)
     \<and> (\<forall>c\<in>set (vt_calls (run_secret_ops lib admin ops s)). justified admin (set ops) c (set (vt_calls (run_secret_ops lib admin ops s))))"
proof (induction ops rule: rev_induct)
  case Nil
  then show ?case using assms by (simp add: run_secret_ops_def)
next
  case (snoc op ops)
  let ?s = "run_secret_ops lib admin ops s"
  let ?s' = "apply_secret_op lib admin op ?s"
  have run: "run_secret_ops lib admin (ops @ [op]) s = ?s'" by (simp add: run_secret_ops_def)
  note step = apply_secret_op_calls [of admin op ?s lib, unfolded adds_calls_def]
  have "justified admin (set (ops @ [op])) c (set (vt_calls ?s'))" if "c \<in> set (vt_calls ?s')" for c
  proof (cases "c \<in> set (vt_calls ?s)")
    case True
    then have "justified admin (set ops) c (set (vt_calls ?s))" using snoc by blast
    then show ?thesis by (rule justified_mono) (use step in auto)
  next
    case False
    then have "justified admin {op} c (set (vt_calls ?s'))" using step snoc that by blast
    then show ?thesis by (rule justified_mono) auto
  qed
  then show ?case unfolding run using step snoc by blast
qed

section \<open>Properties\<close>

text \<open>A library for examples: the vault of a tenant is its name, and the state lists what was stored.\<close>

definition ex_lib :: "(string, (string \<times> string \<times> string) list) volta_lib" where
  "ex_lib = \<lparr>vl_get = (\<lambda>t w. (Inr t, w)), vl_store = (\<lambda>h k v w. (None, (h, k, v) # w)),
     vl_delete = (\<lambda>h k w. (None, filter (\<lambda>(a, b, _). (a, b) \<noteq> (h, k)) w)),
     vl_list = (\<lambda>h w. (Inr (map (\<lambda>(_, k, _). Some [(''ID'', GStr k)]) w), w)), vl_close = (\<lambda>h w. (None, w)),
     vl_close_all = None, vl_secret_value = (\<lambda>_. Inr None)\<rparr>"

definition ex_vaults :: "(string, (string \<times> string \<times> string) list) vault_state" where
  "ex_vaults = \<lparr>vt_vaults = [], vt_passphrase = [], vt_passphrase_env_var = [], vt_environ = (\<lambda>_. []), vt_world = [], vt_calls = []\<rparr>"

definition ex_put :: secret_request where
  "ex_put = \<lparr>sr_tenant = ''t1'', sr_key = ''k'', sr_claims = Some (claims_of [(''sub'', GStr ''u''), (''tenant_id'', GStr ''t2'')]),
     sr_value = Some ''v''\<rparr>"



text \<open>The secrets of a tenant other than \<open>platform\<close> are not protected from the other tenants. The handlers
  answer and act the same for all callers with a subject, whatever tenant, role and groups their tokens
  carry.\<close>

theorem secrets_ignore_callers_tenant:
  assumes "sr_tenant q \<noteq> ''platform''" "cm_subject c \<noteq> []" "cm_subject c' \<noteq> []"
  shows "set_secret lib (q\<lparr>sr_claims := Some c\<rparr>) s = set_secret lib (q\<lparr>sr_claims := Some c'\<rparr>) s
     \<and> list_secrets lib (q\<lparr>sr_claims := Some c\<rparr>) s = list_secrets lib (q\<lparr>sr_claims := Some c'\<rparr>) s
     \<and> delete_secret lib (q\<lparr>sr_claims := Some c\<rparr>) s = delete_secret lib (q\<lparr>sr_claims := Some c'\<rparr>) s"
proof -
  have auth: "is_authorized_to_set_secret x (sr_tenant q)" "is_authorized_to_list_secrets x (sr_tenant q)"
    "is_authorized_to_delete_secret x (sr_tenant q)" if "cm_subject x \<noteq> []" for x
    using assms(1) that
    by (simp_all add: is_authorized_to_set_secret_def is_authorized_to_list_secrets_def is_authorized_to_delete_secret_def)
  have fields: "sr_tenant (q\<lparr>sr_claims := x\<rparr>) = sr_tenant q" "sr_key (q\<lparr>sr_claims := x\<rparr>) = sr_key q"
    "sr_value (q\<lparr>sr_claims := x\<rparr>) = sr_value q" "sr_claims (q\<lparr>sr_claims := x\<rparr>) = x" for x
    by simp_all
  show ?thesis
    unfolding set_secret_def list_secrets_def delete_secret_def fields option.case
    using auth assms(2,3) by simp
qed

theorem secrets_ignore_callers_tenant_witness:
  "set_secret ex_lib ex_put ex_vaults
     = set_secret ex_lib (ex_put\<lparr>sr_claims := Some (claims_of [(''sub'', GStr ''w''), (''tenant_id'', GStr ''t1'')])\<rparr>) ex_vaults
     \<and> fst (set_secret ex_lib ex_put ex_vaults) = Secret_stored ''k'' ''t1''"
proof -
  let ?c = "claims_of [(''sub'', GStr ''u''), (''tenant_id'', GStr ''t2'')]"
  let ?c' = "claims_of [(''sub'', GStr ''w''), (''tenant_id'', GStr ''t1'')]"
  have "cm_subject ?c \<noteq> []" "cm_subject ?c' \<noteq> []" by code_simp+
  moreover have "sr_tenant ex_put \<noteq> ''platform''" "ex_put\<lparr>sr_claims := Some ?c\<rparr> = ex_put" by (simp_all add: ex_put_def)
  moreover have "fst (set_secret ex_lib ex_put ex_vaults) = Secret_stored ''k'' ''t1''" by code_simp
  ultimately show ?thesis
    using secrets_ignore_callers_tenant [of ex_put ?c ?c' ex_lib ex_vaults] by simp
qed

text \<open>The platform route takes any token that begins with the admin token.\<close>

lemma admin_token_is_a_prefix:
  "put_platform_secret lib admin (''Bearer '' @ admin @ rest) key v s = put_platform_secret lib admin (''Bearer '' @ admin) key v s"
proof -
  have "has_prefix (''Bearer '' @ admin @ rest) (''Bearer '' @ admin)" using has_prefix_append [of "''Bearer '' @ admin" rest] by simp
  moreover have "has_prefix (''Bearer '' @ admin) (''Bearer '' @ admin)" using has_prefix_append [of "''Bearer '' @ admin" "[]"] by simp
  ultimately show ?thesis by (simp add: put_platform_secret_def)
qed

end
