(* ===== verification/Git_Github.thy ===== *)
theory Git_Github
  imports Infra_Module
begin

text \<open>
  The GitHub connector, \<open>src/internal/connector/github/github.go\<close>, and what it shares with the
  other connectors: the check of the required fields and the assertions on the input map, which
  panic. The client library and the network are records of functions on an unknown world; every
  call is recorded with its reply. \<open>Ret r\<close> stands for the Go pair of a result and no error,
  \<open>Fail e\<close> for no result and an error. The iteration order of the map of files is that of the
  list, and the theorems hold for every list.
\<close>

section \<open>Input of the connectors\<close>

text \<open>\<open>input[k].(string)\<close> and its kin without the second result: another type panics.\<close>

definition assert_panic :: "string \<Rightarrow> string \<Rightarrow> 'r outcome" where
  "assert_panic k ty = Panics (''interface conversion: '' @ k @ '' is not '' @ ty)"

definition need_string :: "go_map \<Rightarrow> string \<Rightarrow> (string \<Rightarrow> 's \<Rightarrow> 'r outcome \<times> 's) \<Rightarrow> 's \<Rightarrow> 'r outcome \<times> 's" where
  "need_string input k f s =
     (case as_string (go_get input k) of None \<Rightarrow> (assert_panic k ''string'', s) | Some x \<Rightarrow> f x s)"

definition need_map :: "go_map \<Rightarrow> string \<Rightarrow> (go_map \<Rightarrow> 's \<Rightarrow> 'r outcome \<times> 's) \<Rightarrow> 's \<Rightarrow> 'r outcome \<times> 's" where
  "need_map input k f s =
     (case as_map (go_get input k) of None \<Rightarrow> (assert_panic k ''map[string]interface {}'', s) | Some m \<Rightarrow> f m s)"

text \<open>\<open>input["events"].([]interface{})\<close> and the assertion on each element.\<close>

definition need_strings :: "go_map \<Rightarrow> string \<Rightarrow> (string list \<Rightarrow> 's \<Rightarrow> 'r outcome \<times> 's) \<Rightarrow> 's \<Rightarrow> 'r outcome \<times> 's" where
  "need_strings input k f s =
     (case as_list (go_get input k) of
        None \<Rightarrow> (assert_panic k ''[]interface {}'', s)
      | Some xs \<Rightarrow> if list_all (\<lambda>x. as_string x \<noteq> None) xs then f (map string_or_empty xs) s
          else (assert_panic k ''string'', s))"

text \<open>The lookup and the loop that every \<open>Validate\<close> has: the first field that is missing is
  reported.\<close>

definition check_fields :: "string list \<Rightarrow> go_map \<Rightarrow> string option" where
  "check_fields req input =
     map_option (\<lambda>f. ''missing required field: '' @ f) (List.find (\<lambda>f. map_of input f = None) req)"

definition validate_operation :: "bool \<Rightarrow> (string \<times> string list) list \<Rightarrow> string \<Rightarrow> go_map \<Rightarrow> string option" where
  "validate_operation is_closed table operation input =
     (if is_closed then Some ''connector is closed''
      else case map_of table operation of
        None \<Rightarrow> Some (''unknown operation: '' @ operation)
      | Some req \<Rightarrow> check_fields req input)"

definition git_required_fields :: "(string \<times> string list) list" where
  "git_required_fields =
     [(''create_repository'', [''owner'', ''name'']),
      (''delete_repository'', [''owner'', ''name'']),
      (''create_pull_request'', [''owner'', ''repo'', ''title'', ''head'', ''base'']),
      (''add_repository_collaborator'', [''owner'', ''repo'', ''username'']),
      (''create_repository_webhook'', [''owner'', ''repo'', ''url'', ''events'']),
      (''commit_files'', [''repo'', ''branch'', ''path_prefix'', ''files'', ''message'', ''idempotency_key'']),
      (''read_file'', [''repo'', ''branch'', ''path''])]"

definition terminal_error :: "string \<Rightarrow> string \<Rightarrow> connector_result" where
  "terminal_error code msg = \<lparr>cr_status = ''terminal_error'', cr_output = None, cr_error = Some (code, msg)\<rparr>"

definition success_result :: "go_map option \<Rightarrow> connector_result" where
  "success_result out = \<lparr>cr_status = ''success'', cr_output = out, cr_error = None\<rparr>"

definition split_repo :: "string \<Rightarrow> (string \<times> string) option" where
  "split_repo repo =
     (case split_on (CHR ''/'') repo of
        [a, b] \<Rightarrow> if a = [] \<or> b = [] then None else Some (a, b)
      | _ \<Rightarrow> None)"

definition invalid_repo :: connector_result where
  "invalid_repo = terminal_error ''INVALID_REPO'' (''repo must be in format '' @ [CHR 0x27] @ ''owner/name'' @ [CHR 0x27])"

section \<open>The client library\<close>

text \<open>An error of the library: the status of the response, when there is one, and the text.\<close>

type_synonym gh_error = "int option \<times> string"

text \<open>What \<open>GetContents\<close> returns for a path: \<open>gf_content\<close> is the result of \<open>GetContent\<close>, \<open>None\<close>
  when the path is a directory, whose file is \<open>nil\<close> and makes the method panic.\<close>

record gh_file =
  gf_content :: "(string + string) option"
  gf_sha :: string

record tree_entry =
  te_path :: string
  te_mode :: string
  te_type :: string
  te_sha :: string

record ref_reply =
  rr_status :: int
  rr_body :: string
  rr_refs :: "string + string list"

record 'w gh_client =
  gh_base_url :: string
  gh_create_repo :: "string \<Rightarrow> string \<Rightarrow> 'w \<Rightarrow> (gh_error + (int \<times> string)) \<times> 'w"
  gh_delete_repo :: "string \<Rightarrow> string \<Rightarrow> 'w \<Rightarrow> (gh_error + unit) \<times> 'w"
  gh_create_pr :: "string \<Rightarrow> string \<Rightarrow> string \<times> string \<times> string \<Rightarrow> 'w \<Rightarrow> (gh_error + (int \<times> string)) \<times> 'w"
  gh_add_collaborator :: "string \<Rightarrow> string \<Rightarrow> string \<Rightarrow> 'w \<Rightarrow> (gh_error + unit) \<times> 'w"
  gh_create_hook :: "string \<Rightarrow> string \<Rightarrow> string \<Rightarrow> string list \<Rightarrow> 'w \<Rightarrow> (gh_error + int) \<times> 'w"
  gh_get_ref :: "string \<Rightarrow> string \<Rightarrow> string \<Rightarrow> 'w \<Rightarrow> (gh_error + string) \<times> 'w"
  gh_get_commit :: "string \<Rightarrow> string \<Rightarrow> string \<Rightarrow> 'w \<Rightarrow> (gh_error + string) \<times> 'w"
  gh_get_contents :: "string \<Rightarrow> string \<Rightarrow> string \<Rightarrow> string \<Rightarrow> 'w \<Rightarrow> (gh_error + gh_file) \<times> 'w"
  gh_create_blob :: "string \<Rightarrow> string \<Rightarrow> string \<Rightarrow> 'w \<Rightarrow> (gh_error + string) \<times> 'w"
  gh_create_tree :: "string \<Rightarrow> string \<Rightarrow> string \<Rightarrow> tree_entry list \<Rightarrow> 'w \<Rightarrow> (gh_error + string) \<times> 'w"
  gh_create_commit :: "string \<Rightarrow> string \<Rightarrow> string \<Rightarrow> string \<Rightarrow> string \<Rightarrow> 'w \<Rightarrow> (gh_error + string) \<times> 'w"
  gh_update_ref :: "string \<Rightarrow> string \<Rightarrow> string \<Rightarrow> string \<Rightarrow> bool \<Rightarrow> 'w \<Rightarrow> (gh_error + unit) \<times> 'w"

datatype gh_event =
    Ev_create_repo string string
  | Ev_delete_repo string string
  | Ev_create_pr string string
  | Ev_add_collaborator string string string
  | Ev_create_hook string string
  | Ev_get_ref string string string "gh_error + string"
  | Ev_http_get string "string + ref_reply"
  | Ev_get_commit string string string "gh_error + string"
  | Ev_get_contents string string string string "gh_error + gh_file"
  | Ev_create_blob string string string "gh_error + string"
  | Ev_create_tree string string string "tree_entry list" "gh_error + string"
  | Ev_create_commit string string string string string "gh_error + string"
  | Ev_update_ref string string string string bool "gh_error + unit"

record 'w gh_state =
  gs_world :: 'w
  gs_trace :: "gh_event list"

definition gh_call :: "('r \<Rightarrow> gh_event) \<Rightarrow> ('w \<Rightarrow> 'r \<times> 'w) \<Rightarrow> 'w gh_state \<Rightarrow> 'r \<times> 'w gh_state" where
  "gh_call ev f s = (case f (gs_world s) of (r, w) \<Rightarrow> (r, \<lparr>gs_world = w, gs_trace = gs_trace s @ [ev r]\<rparr>))"

text \<open>The parts of the library and of the process that make clients: \<open>NewClient\<close>,
  \<open>WithEnterpriseURLs\<close>, \<open>WithAuthToken\<close>, and the plain HTTP client's \<open>GET\<close>, which carries no
  token.\<close>

record 'w gh_library =
  gl_new :: "'w gh_client"
  gl_enterprise :: "string \<Rightarrow> string + 'w gh_client"
  gl_token :: "string \<Rightarrow> 'w gh_client \<Rightarrow> 'w gh_client"
  gl_http_get :: "string \<Rightarrow> 'w \<Rightarrow> (string + ref_reply) \<times> 'w"

section \<open>The connector\<close>

record 'w github_connector =
  gc_base :: base_connector
  gc_client :: "'w gh_client option"
  gc_http_get :: "string \<Rightarrow> 'w \<Rightarrow> (string + ref_reply) \<times> 'w"
  gc_closed :: bool

definition trim_slashes_right :: "string \<Rightarrow> string" where
  "trim_slashes_right s = rev (dropWhile (\<lambda>c. c = CHR ''/'') (rev s))"

definition new_github_connector :: "'w gh_library \<Rightarrow> (string \<times> string) list \<Rightarrow> string + 'w github_connector" where
  "new_github_connector lib extra =
     (case new_base_connector Type_git ''github'' of
        Inl e \<Rightarrow> Inl e
      | Inr b \<Rightarrow>
          let url = trim_slashes_right (trim_space (case map_of extra ''base_url'' of None \<Rightarrow> [] | Some u \<Rightarrow> u));
              made = (if url \<noteq> [] then gl_enterprise lib url else Inr (gl_new lib))
          in case made of
               Inl e \<Rightarrow> Inl e
             | Inr cl \<Rightarrow> Inr \<lparr>gc_base = b, gc_client = Some cl, gc_http_get = gl_http_get lib, gc_closed = False\<rparr>)"

definition new_github_connector_with_client ::
  "'w gh_library \<Rightarrow> string \<Rightarrow> 'w gh_client \<Rightarrow> string + 'w github_connector" where
  "new_github_connector_with_client lib token cl =
     (case new_base_connector Type_git ''github'' of
        Inl e \<Rightarrow> Inl e
      | Inr b \<Rightarrow> Inr \<lparr>gc_base = b, gc_client = Some (if token \<noteq> [] then gl_token lib token cl else cl),
          gc_http_get = gl_http_get lib, gc_closed = False\<rparr>)"

definition github_validate :: "'w github_connector \<Rightarrow> string \<Rightarrow> go_map \<Rightarrow> string option" where
  "github_validate c operation input = validate_operation (gc_closed c) git_required_fields operation input"

definition github_required_secrets :: "string \<Rightarrow> string list" where
  "github_required_secrets operation = [''git-access-token'']"

definition github_close :: "'w github_connector \<Rightarrow> string option \<times> 'w github_connector" where
  "github_close c = (None, c\<lparr>gc_closed := True\<rparr>)"

definition github_operations :: "(string \<times> bool) list" where
  "github_operations = map (\<lambda>(n, _). (n, False)) git_required_fields"

section \<open>Operations of one call\<close>

definition gh_create_repository ::
  "'w gh_client \<Rightarrow> go_map \<Rightarrow> 'w gh_state \<Rightarrow> connector_result outcome \<times> 'w gh_state" where
  "gh_create_repository cl input =
     need_string input ''name'' (\<lambda>name. need_string input ''owner'' (\<lambda>owner s.
       case gh_call (\<lambda>_. Ev_create_repo owner name) (gh_create_repo cl owner name) s of
         (Inl (status, e), s1) \<Rightarrow>
           (if status = Some 403 then Ret (terminal_error ''AUTH_FAILURE'' ''failed to create repository'') else Fail e, s1)
       | (Inr (ident, html_url), s1) \<Rightarrow>
           (Ret (success_result (Some [(''id'', GInt ident), (''html_url'', GStr html_url)])), s1)))"

definition gh_delete_repository ::
  "'w gh_client \<Rightarrow> go_map \<Rightarrow> 'w gh_state \<Rightarrow> connector_result outcome \<times> 'w gh_state" where
  "gh_delete_repository cl input =
     need_string input ''owner'' (\<lambda>owner. need_string input ''name'' (\<lambda>name s.
       case gh_call (\<lambda>_. Ev_delete_repo owner name) (gh_delete_repo cl owner name) s of
         (Inl (_, e), s1) \<Rightarrow> (Fail e, s1)
       | (Inr _, s1) \<Rightarrow> (Ret (success_result None), s1)))"

definition gh_create_pull_request ::
  "'w gh_client \<Rightarrow> go_map \<Rightarrow> 'w gh_state \<Rightarrow> connector_result outcome \<times> 'w gh_state" where
  "gh_create_pull_request cl input =
     need_string input ''owner'' (\<lambda>owner. need_string input ''repo'' (\<lambda>repo.
     need_string input ''title'' (\<lambda>title. need_string input ''head'' (\<lambda>head. need_string input ''base'' (\<lambda>base s.
       case gh_call (\<lambda>_. Ev_create_pr owner repo) (gh_create_pr cl owner repo (title, head, base)) s of
         (Inl (_, e), s1) \<Rightarrow> (Fail e, s1)
       | (Inr (number, url), s1) \<Rightarrow>
           (Ret (success_result (Some [(''number'', GInt number), (''url'', GStr url)])), s1))))))"

definition gh_add_repository_collaborator ::
  "'w gh_client \<Rightarrow> go_map \<Rightarrow> 'w gh_state \<Rightarrow> connector_result outcome \<times> 'w gh_state" where
  "gh_add_repository_collaborator cl input =
     need_string input ''owner'' (\<lambda>owner. need_string input ''repo'' (\<lambda>repo. need_string input ''username'' (\<lambda>user s.
       case gh_call (\<lambda>_. Ev_add_collaborator owner repo user) (gh_add_collaborator cl owner repo user) s of
         (Inl (_, e), s1) \<Rightarrow> (Fail e, s1)
       | (Inr _, s1) \<Rightarrow> (Ret (success_result None), s1))))"

definition gh_create_repository_webhook ::
  "'w gh_client \<Rightarrow> go_map \<Rightarrow> 'w gh_state \<Rightarrow> connector_result outcome \<times> 'w gh_state" where
  "gh_create_repository_webhook cl input =
     need_string input ''owner'' (\<lambda>owner. need_string input ''repo'' (\<lambda>repo.
     need_strings input ''events'' (\<lambda>events. need_string input ''url'' (\<lambda>url s.
       case gh_call (\<lambda>_. Ev_create_hook owner repo) (gh_create_hook cl owner repo url events) s of
         (Inl (_, e), s1) \<Rightarrow> (Fail e, s1)
       | (Inr ident, s1) \<Rightarrow> (Ret (success_result (Some [(''id'', GInt ident)])), s1)))))"

definition gh_read_file ::
  "'w gh_client \<Rightarrow> go_map \<Rightarrow> 'w gh_state \<Rightarrow> connector_result outcome \<times> 'w gh_state" where
  "gh_read_file cl input =
     need_string input ''repo'' (\<lambda>repo. need_string input ''branch'' (\<lambda>branch. need_string input ''path'' (\<lambda>path s.
       case split_repo repo of
         None \<Rightarrow> (Ret invalid_repo, s)
       | Some (owner, name) \<Rightarrow>
           (case gh_call (Ev_get_contents owner name path branch) (gh_get_contents cl owner name path branch) s of
              (Inl (status, e), s1) \<Rightarrow>
                (Ret (if status = Some 404
                      then terminal_error ''FILE_NOT_FOUND'' (''file '' @ path @ '' not found in repo '' @ repo)
                      else terminal_error ''READ_FILE_FAILED'' (''failed to read file: '' @ e)), s1)
            | (Inr f, s1) \<Rightarrow>
                (case gf_content f of
                   None \<Rightarrow> (Panics ''invalid memory address or nil pointer dereference'', s1)
                 | Some (Inl e) \<Rightarrow>
                     (Ret (terminal_error ''CONTENT_DECODE_FAILED'' (''failed to decode file content: '' @ e)), s1)
                 | Some (Inr content) \<Rightarrow>
                     (Ret (success_result (Some [(''content'', GStr content), (''sha'', GStr (gf_sha f))])), s1))))))"

section \<open>Committing files\<close>

definition get_gitea_ref ::
  "'w github_connector \<Rightarrow> 'w gh_client \<Rightarrow> string \<Rightarrow> string \<Rightarrow> string \<Rightarrow> 'w gh_state \<Rightarrow> (string + string) \<times> 'w gh_state" where
  "get_gitea_ref c cl owner repo branch s =
     (let url = gh_base_url cl @ ''repos/'' @ owner @ ''/'' @ repo @ ''/git/refs/heads/'' @ branch in
      case gh_call (Ev_http_get url) (gc_http_get c url) s of
        (Inl e, s1) \<Rightarrow> (Inl e, s1)
      | (Inr r, s1) \<Rightarrow>
          if rr_status r \<noteq> 200 then (Inl (''HTTP '' @ int_str (rr_status r) @ '': '' @ rr_body r), s1)
          else case rr_refs r of
            Inl e \<Rightarrow> (Inl e, s1)
          | Inr [] \<Rightarrow> (Inl ''no refs returned'', s1)
          | Inr (sha # _) \<Rightarrow> (Inr sha, s1))"

text \<open>The head of the branch: GitHub's path first, Gitea's after a 404.\<close>

definition branch_head ::
  "'w github_connector \<Rightarrow> 'w gh_client \<Rightarrow> string \<Rightarrow> string \<Rightarrow> string \<Rightarrow> 'w gh_state
     \<Rightarrow> (connector_result + string) \<times> 'w gh_state" where
  "branch_head c cl owner repo branch s =
     (let ref = ''refs/heads/'' @ branch in
      case gh_call (Ev_get_ref owner repo ref) (gh_get_ref cl owner repo ref) s of
        (Inr sha, s1) \<Rightarrow> (Inr sha, s1)
      | (Inl (status, e), s1) \<Rightarrow>
          if status = Some 404 then
            (case get_gitea_ref c cl owner repo branch s1 of
               (Inr sha, s2) \<Rightarrow> (Inr sha, s2)
             | (Inl e2, s2) \<Rightarrow> (Inl (terminal_error ''BRANCH_NOT_FOUND''
                 (''branch '' @ branch @ '' not found: GitHub: '' @ e @ '', Gitea: '' @ e2)), s2))
          else (Inl (terminal_error ''BRANCH_NOT_FOUND'' (''branch '' @ branch @ '' not found: '' @ e)), s1))"

text \<open>One file: skipped (\<open>Inr None\<close>) when the branch has it with this content, else a blob and its
  entry in the new tree.\<close>

definition commit_file ::
  "'w gh_client \<Rightarrow> string \<Rightarrow> string \<Rightarrow> string \<Rightarrow> string \<Rightarrow> string \<times> go_any \<Rightarrow> 'w gh_state
     \<Rightarrow> (connector_result outcome + tree_entry option) \<times> 'w gh_state" where
  "commit_file cl owner repo branch path_prefix pv s =
     (case as_string (snd pv) of
        None \<Rightarrow> (Inl (Ret (terminal_error ''INVALID_CONTENT'' (''content for path '' @ fst pv @ '' must be a string''))), s)
      | Some content \<Rightarrow>
          let full_path = path_prefix @ fst pv;
              (found, s1) = gh_call (Ev_get_contents owner repo full_path branch)
                (gh_get_contents cl owner repo full_path branch) s
          in if (case found of Inl _ \<Rightarrow> False | Inr f \<Rightarrow> gf_content f = None)
             then (Inl (Panics ''invalid memory address or nil pointer dereference''), s1)
             else if (case found of Inl _ \<Rightarrow> False | Inr f \<Rightarrow> gf_content f = Some (Inr content)) then (Inr None, s1)
             else case gh_call (Ev_create_blob owner repo content) (gh_create_blob cl owner repo content) s1 of
               (Inl (_, e), s2) \<Rightarrow>
                 (Inl (Ret (terminal_error ''BLOB_CREATE_FAILED'' (''failed to create blob for '' @ full_path @ '': '' @ e))), s2)
             | (Inr sha, s2) \<Rightarrow>
                 (Inr (Some \<lparr>te_path = full_path, te_mode = ''100644'', te_type = ''blob'', te_sha = sha\<rparr>), s2))"

fun commit_loop ::
  "'w gh_client \<Rightarrow> string \<Rightarrow> string \<Rightarrow> string \<Rightarrow> string \<Rightarrow> go_map \<Rightarrow> tree_entry list \<Rightarrow> bool \<Rightarrow> 'w gh_state
     \<Rightarrow> (connector_result outcome + (tree_entry list \<times> bool)) \<times> 'w gh_state" where
  "commit_loop cl owner repo branch path_prefix [] entries changed s = (Inr (entries, changed), s)"
| "commit_loop cl owner repo branch path_prefix (pv # fs) entries changed s =
     (case commit_file cl owner repo branch path_prefix pv s of
        (Inl stop, s1) \<Rightarrow> (Inl stop, s1)
      | (Inr None, s1) \<Rightarrow> commit_loop cl owner repo branch path_prefix fs entries changed s1
      | (Inr (Some e), s1) \<Rightarrow> commit_loop cl owner repo branch path_prefix fs (entries @ [e]) True s1)"

text \<open>The tree, the commit on the head that was read, and the branch.\<close>

definition commit_entries ::
  "'w gh_client \<Rightarrow> string \<Rightarrow> string \<Rightarrow> string \<Rightarrow> string \<Rightarrow> string \<Rightarrow> string \<Rightarrow> tree_entry list \<Rightarrow> 'w gh_state
     \<Rightarrow> connector_result \<times> 'w gh_state" where
  "commit_entries cl owner repo branch message head_sha base_tree entries s =
     (case gh_call (Ev_create_tree owner repo base_tree entries) (gh_create_tree cl owner repo base_tree entries) s of
        (Inl (_, e), s1) \<Rightarrow> (terminal_error ''TREE_CREATE_FAILED'' (''failed to create tree: '' @ e), s1)
      | (Inr tree, s1) \<Rightarrow>
     (case gh_call (Ev_create_commit owner repo message tree head_sha)
         (gh_create_commit cl owner repo message tree head_sha) s1 of
        (Inl (_, e), s2) \<Rightarrow> (terminal_error ''COMMIT_CREATE_FAILED'' (''failed to create commit: '' @ e), s2)
      | (Inr sha, s2) \<Rightarrow>
     (let ref = ''refs/heads/'' @ branch in
      case gh_call (Ev_update_ref owner repo ref sha False) (gh_update_ref cl owner repo ref sha False) s2 of
        (Inl (_, e), s3) \<Rightarrow> (terminal_error ''REF_UPDATE_FAILED'' (''failed to update branch: '' @ e), s3)
      | (Inr _, s3) \<Rightarrow>
          (success_result (Some [(''commit_sha'', GStr sha), (''changed'', GBool True)]), s3))))"

definition commit_to ::
  "'w github_connector \<Rightarrow> 'w gh_client \<Rightarrow> string \<Rightarrow> string \<Rightarrow> string \<Rightarrow> string \<Rightarrow> go_map \<Rightarrow> string \<Rightarrow> 'w gh_state
     \<Rightarrow> connector_result outcome \<times> 'w gh_state" where
  "commit_to c cl owner repo branch path_prefix files message s =
     (case branch_head c cl owner repo branch s of
        (Inl r, s1) \<Rightarrow> (Ret r, s1)
      | (Inr head_sha, s1) \<Rightarrow>
     (case gh_call (Ev_get_commit owner repo head_sha) (gh_get_commit cl owner repo head_sha) s1 of
        (Inl (_, e), s2) \<Rightarrow>
          (Ret (terminal_error ''COMMIT_NOT_FOUND'' (''commit '' @ head_sha @ '' not found: '' @ e)), s2)
      | (Inr base_tree, s2) \<Rightarrow>
     (case commit_loop cl owner repo branch path_prefix files [] False s2 of
        (Inl stop, s3) \<Rightarrow> (stop, s3)
      | (Inr (entries, changed), s3) \<Rightarrow>
          if \<not> changed
          then (Ret (success_result (Some [(''commit_sha'', GStr head_sha), (''changed'', GBool False)])), s3)
          else case commit_entries cl owner repo branch message head_sha base_tree entries s3 of
            (r, s4) \<Rightarrow> (Ret r, s4))))"

definition gh_commit_files ::
  "'w github_connector \<Rightarrow> 'w gh_client \<Rightarrow> go_map \<Rightarrow> 'w gh_state \<Rightarrow> connector_result outcome \<times> 'w gh_state" where
  "gh_commit_files c cl input =
     need_string input ''repo'' (\<lambda>repo. need_string input ''branch'' (\<lambda>branch.
     need_string input ''path_prefix'' (\<lambda>path_prefix. need_map input ''files'' (\<lambda>files.
     need_string input ''message'' (\<lambda>message. need_string input ''idempotency_key'' (\<lambda>idempotency_key s.
       case split_repo repo of
         None \<Rightarrow> (Ret invalid_repo, s)
       | Some (owner, name) \<Rightarrow> commit_to c cl owner name branch path_prefix files message s))))))"

section \<open>Execute\<close>

definition gh_dispatch ::
  "'w github_connector \<Rightarrow> 'w gh_client \<Rightarrow> string \<Rightarrow> go_map \<Rightarrow> 'w gh_state \<Rightarrow> connector_result outcome \<times> 'w gh_state" where
  "gh_dispatch c cl operation input s =
     (if operation = ''create_repository'' then gh_create_repository cl input s
      else if operation = ''delete_repository'' then gh_delete_repository cl input s
      else if operation = ''create_pull_request'' then gh_create_pull_request cl input s
      else if operation = ''add_repository_collaborator'' then gh_add_repository_collaborator cl input s
      else if operation = ''create_repository_webhook'' then gh_create_repository_webhook cl input s
      else if operation = ''commit_files'' then gh_commit_files c cl input s
      else if operation = ''read_file'' then gh_read_file cl input s
      else (Fail (''operation not implemented: '' @ operation), s))"

definition github_execute ::
  "'w gh_library \<Rightarrow> 'w github_connector \<Rightarrow> string option \<Rightarrow> string \<Rightarrow> go_map \<Rightarrow> (string \<times> string) list
     \<Rightarrow> 'w gh_state \<Rightarrow> connector_result outcome \<times> 'w gh_state" where
  "github_execute lib c ctx_err operation input secrets s =
     (case ctx_err of
        Some e \<Rightarrow> (Fail e, s)
      | None \<Rightarrow>
          if gc_closed c then (Fail ''connector is closed'', s)
          else if operation = ''invalid_operation_name'' then (Fail ''invalid operation name'', s)
          else case (map_of secrets ''git-access-token'', gc_client c) of
            (None, Some cl) \<Rightarrow> gh_dispatch c cl operation input s
          | (None, None) \<Rightarrow>
              (Ret (terminal_error ''MISSING_SECRET'' ''missing required secret: git-access-token''), s)
          | (Some token, Some cl) \<Rightarrow> gh_dispatch c (gl_token lib token cl) operation input s
          | (Some token, None) \<Rightarrow> gh_dispatch c (gl_token lib token (gl_new lib)) operation input s)"

end
