(* ===== verification/Git_Gitea.thy ===== *)
theory Git_Gitea
  imports Module_Config Git_Github
begin

text \<open>
  The Gitea connector, \<open>src/internal/connector/gitea/gitea.go\<close>. The HTTP client is a function on an
  unknown world whose failures include requests that cannot be built; every request is recorded
  with its reply, and so is what the connector prints. A request body is the value that is
  marshalled; a reply carries its text and the value the JSON decoder gives for it. The positions
  in the texts of decoding errors are left out.
\<close>

section \<open>Escaping and base64\<close>

definition hex_digit :: "nat \<Rightarrow> char" where
  "hex_digit n = ''0123456789ABCDEF'' ! n"

definition percent :: "char \<Rightarrow> string" where
  "percent c = [CHR ''%'', hex_digit (of_char c div 16), hex_digit (of_char c mod 16)]"

definition unreserved :: "char \<Rightarrow> bool" where
  "unreserved c \<longleftrightarrow> (let n = of_char c :: nat in 48 \<le> n \<and> n \<le> 57 \<or> 65 \<le> n \<and> n \<le> 90 \<or> 97 \<le> n \<and> n \<le> 122)
     \<or> c \<in> set ''-_.~''"

text \<open>\<open>url.PathEscape\<close> and \<open>url.QueryEscape\<close>.\<close>

definition path_escape :: "string \<Rightarrow> string" where
  "path_escape s = concat (map (\<lambda>c. if unreserved c \<or> c \<in> set ''$&+:=@'' then [c] else percent c) s)"

definition query_escape :: "string \<Rightarrow> string" where
  "query_escape s = concat (map (\<lambda>c. if c = CHR '' '' then ''+'' else if unreserved c then [c] else percent c) s)"

definition b64_alphabet :: string where
  "b64_alphabet = ''ABCDEFGHIJKLMNOPQRSTUVWXYZabcdefghijklmnopqrstuvwxyz0123456789+/''"

definition b64_char :: "nat \<Rightarrow> char" where
  "b64_char n = b64_alphabet ! n"

definition b64_value :: "char \<Rightarrow> nat option" where
  "b64_value c = map_of (zip b64_alphabet [0..<64]) c"

text \<open>\<open>base64.StdEncoding\<close>: \<open>EncodeToString\<close> and \<open>DecodeString\<close>, which skips line ends.\<close>

fun b64_encode_bytes :: "nat list \<Rightarrow> string" where
  "b64_encode_bytes [] = []"
| "b64_encode_bytes [a] = [b64_char (a div 4), b64_char (a mod 4 * 16), CHR ''='', CHR ''='']"
| "b64_encode_bytes [a, b] =
     [b64_char (a div 4), b64_char (a mod 4 * 16 + b div 16), b64_char (b mod 16 * 4), CHR ''='']"
| "b64_encode_bytes (a # b # c # r) =
     [b64_char (a div 4), b64_char (a mod 4 * 16 + b div 16), b64_char (b mod 16 * 4 + c div 64), b64_char (c mod 64)]
       @ b64_encode_bytes r"

definition b64_encode :: "string \<Rightarrow> string" where
  "b64_encode s = b64_encode_bytes (map of_char s)"

fun b64_decode_quads :: "string \<Rightarrow> nat list option" where
  "b64_decode_quads [] = Some []"
| "b64_decode_quads (p # q # x # y # r) =
     (if r = [] \<and> y = CHR ''='' then
        (if x = CHR ''='' then
           (case (b64_value p, b64_value q) of
              (Some i, Some j) \<Rightarrow> Some [(i * 4 + j div 16)]
            | _ \<Rightarrow> None)
         else
           (case (b64_value p, b64_value q, b64_value x) of
              (Some i, Some j, Some k) \<Rightarrow> Some [i * 4 + j div 16, j mod 16 * 16 + k div 4]
            | _ \<Rightarrow> None))
      else
        (case (b64_value p, b64_value q, b64_value x, b64_value y) of
           (Some i, Some j, Some k, Some l) \<Rightarrow>
             map_option (\<lambda>t. (i * 4 + j div 16) # (j mod 16 * 16 + k div 4) # (k mod 4 * 64 + l) # t) (b64_decode_quads r)
         | _ \<Rightarrow> None))"
| "b64_decode_quads _ = None"

definition b64_decode :: "string \<Rightarrow> string option" where
  "b64_decode s =
     map_option (map char_of) (b64_decode_quads (filter (\<lambda>c. c \<noteq> CHR 0x0A \<and> c \<noteq> CHR 0x0D) s))"

definition trim_slashes_left :: "string \<Rightarrow> string" where
  "trim_slashes_left s = dropWhile (\<lambda>c. c = CHR ''/'') s"

definition join_repo_path :: "string \<Rightarrow> string \<Rightarrow> string" where
  "join_repo_path pre p =
     (let a = trim_space pre; b = trim_space p in
      if a = [] then trim_slashes_left b
      else if b = [] then trim_slashes_left a
      else trim_slashes_left (path_join a b))"

definition escape_path :: "string \<Rightarrow> string" where
  "escape_path p = join_with ''/'' (map path_escape (split_on (CHR ''/'') (trim_slashes_left p)))"

section \<open>Requests\<close>

record http_request =
  hq_method :: string
  hq_url :: string
  hq_headers :: "(string \<times> string) list"
  hq_body :: "go_map option"

record http_reply =
  hp_code :: int
  hp_status :: string
  hp_text :: string
  hp_json :: "string + go_any"

record 'w gt_state =
  tt_world :: 'w
  tt_trace :: "(http_request \<times> (string + http_reply)) list"
  tt_stdout :: "string list"

record 'w gitea_connector =
  gt_base :: base_connector
  gt_do :: "http_request \<Rightarrow> 'w \<Rightarrow> (string + http_reply) \<times> 'w"
  gt_base_url :: string
  gt_closed :: bool

datatype gt_error = Status_error int string | Other_error string

fun gt_error_text :: "gt_error \<Rightarrow> string" where
  "gt_error_text (Status_error n body) = ''HTTP '' @ int_str n @ '': '' @ body"
| "gt_error_text (Other_error e) = e"

text \<open>\<open>AsHTTPStatusError\<close> and \<open>isHTTPStatus\<close>.\<close>

fun as_http_status_error :: "gt_error \<Rightarrow> (int \<times> string) option" where
  "as_http_status_error (Status_error n body) = Some (n, body)"
| "as_http_status_error (Other_error _) = None"

definition is_http_status :: "gt_error \<Rightarrow> int \<Rightarrow> bool" where
  "is_http_status e n \<longleftrightarrow> (case as_http_status_error e of None \<Rightarrow> False | Some (k, _) \<Rightarrow> k = n)"

definition gt_headers :: "string \<Rightarrow> bool \<Rightarrow> (string \<times> string) list" where
  "gt_headers token has_body =
     [(''Accept'', ''application/json'')] @ (if has_body then [(''Content-Type'', ''application/json'')] else [])
       @ [(''Authorization'', ''token '' @ token), (''X-Gitea-Token'', token)]"

definition gt_request :: "string \<Rightarrow> string \<Rightarrow> string \<Rightarrow> go_map option \<Rightarrow> http_request" where
  "gt_request token method url body =
     \<lparr>hq_method = method, hq_url = url, hq_headers = gt_headers token (body \<noteq> None), hq_body = body\<rparr>"

text \<open>\<open>doJSON\<close> up to the decoding of the reply, and with it. \<open>zero\<close> is the value of the target when
  the reply is empty.\<close>

definition do_request ::
  "'w gitea_connector \<Rightarrow> string \<Rightarrow> string \<Rightarrow> string \<Rightarrow> go_map option \<Rightarrow> 'w gt_state \<Rightarrow> (gt_error + http_reply) \<times> 'w gt_state" where
  "do_request c token method url body s =
     (let q = gt_request token method url body in
      case gt_do c q (tt_world s) of
        (r, w) \<Rightarrow>
          (let s1 = s\<lparr>tt_world := w, tt_trace := tt_trace s @ [(q, r)]\<rparr> in
           case r of
             Inl e \<Rightarrow> (Inl (Other_error e), s1)
           | Inr p \<Rightarrow>
               if hp_code p < 200 \<or> 300 \<le> hp_code p
               then (Inl (Status_error (hp_code p)
                       (if trim_space (hp_text p) = [] then hp_status p else trim_space (hp_text p))), s1)
               else (Inr p, s1)))"

definition do_json ::
  "'w gitea_connector \<Rightarrow> string \<Rightarrow> string \<Rightarrow> string \<Rightarrow> go_map option \<Rightarrow> (go_any \<Rightarrow> string + 'a) \<Rightarrow> 'a \<Rightarrow> 'w gt_state
     \<Rightarrow> (gt_error + 'a) \<times> 'w gt_state" where
  "do_json c token method url body decode zero s =
     (case do_request c token method url body s of
        (Inl e, s1) \<Rightarrow> (Inl e, s1)
      | (Inr p, s1) \<Rightarrow>
          if hp_text p = [] then (Inr zero, s1)
          else case hp_json p of
            Inl e \<Rightarrow> (Inl (Other_error e), s1)
          | Inr v \<Rightarrow> (case decode v of Inl e \<Rightarrow> (Inl (Other_error e), s1) | Inr a \<Rightarrow> (Inr a, s1)))"

text \<open>\<open>json.Unmarshal\<close> into the struct types of the source: \<open>null\<close> and absent fields leave the zero
  value, another type is an error.\<close>

definition json_mismatch :: string where
  "json_mismatch = ''json: cannot unmarshal value into Go struct field''"

definition json_fields :: "go_any \<Rightarrow> string + go_map" where
  "json_fields v = (case v of GMap m \<Rightarrow> Inr m | GNil \<Rightarrow> Inr [] | _ \<Rightarrow> Inl json_mismatch)"

definition json_str :: "go_map \<Rightarrow> string \<Rightarrow> string + string" where
  "json_str m k = (case go_get m k of GStr x \<Rightarrow> Inr x | GNil \<Rightarrow> Inr [] | _ \<Rightarrow> Inl json_mismatch)"

definition json_int64 :: "go_map \<Rightarrow> string \<Rightarrow> string + int" where
  "json_int64 m k = (case go_get m k of
     GInt i \<Rightarrow> if - (2 ^ 63) \<le> i \<and> i < 2 ^ 63 then Inr i else Inl json_mismatch
   | GNil \<Rightarrow> Inr 0 | _ \<Rightarrow> Inl json_mismatch)"

definition sum_bind :: "'e + 'a \<Rightarrow> ('a \<Rightarrow> 'e + 'b) \<Rightarrow> 'e + 'b" where
  "sum_bind x f = (case x of Inl e \<Rightarrow> Inl e | Inr a \<Rightarrow> f a)"

text \<open>The head of a branch, \<open>branchResponse\<close> (of which only \<open>Commit.SHA\<close> is used).\<close>

definition decode_branch :: "go_any \<Rightarrow> string + string" where
  "decode_branch v = sum_bind (json_fields v) (\<lambda>m. sum_bind (json_str m ''name'') (\<lambda>_.
     sum_bind (json_fields (go_get m ''commit'')) (\<lambda>k. json_str k ''id'')))"

definition get_branch ::
  "'w gitea_connector \<Rightarrow> string \<Rightarrow> string \<Rightarrow> string \<Rightarrow> string \<Rightarrow> 'w gt_state \<Rightarrow> (gt_error + string) \<times> 'w gt_state" where
  "get_branch c token owner repo branch s =
     do_json c token ''GET'' (gt_base_url c @ ''/repos/'' @ path_escape owner @ ''/'' @ path_escape repo
       @ ''/branches/'' @ path_escape branch) None decode_branch [] s"

record contents_response =
  cs_type :: string
  cs_encoding :: string
  cs_content :: string
  cs_sha :: string
  cs_path :: string

definition decode_contents :: "go_any \<Rightarrow> string + contents_response" where
  "decode_contents v = sum_bind (json_fields v) (\<lambda>m. sum_bind (json_str m ''type'') (\<lambda>ty.
     sum_bind (json_str m ''encoding'') (\<lambda>enc. sum_bind (json_str m ''content'') (\<lambda>ct.
     sum_bind (json_str m ''sha'') (\<lambda>sha. sum_bind (json_str m ''path'') (\<lambda>p.
       Inr \<lparr>cs_type = ty, cs_encoding = enc, cs_content = ct, cs_sha = sha, cs_path = p\<rparr>))))))"

definition decoded_content :: "contents_response \<Rightarrow> string + string" where
  "decoded_content r =
     (if cs_encoding r = ''base64'' \<or> cs_encoding r = [] then
        (case b64_decode (filter (\<lambda>c. c \<noteq> CHR 0x0A) (cs_content r)) of
           None \<Rightarrow> Inl ''illegal base64 data'' | Some x \<Rightarrow> Inr x)
      else Inr (cs_content r))"

definition contents_url :: "'w gitea_connector \<Rightarrow> string \<Rightarrow> string \<Rightarrow> string \<Rightarrow> string" where
  "contents_url c owner repo file_path =
     gt_base_url c @ ''/repos/'' @ path_escape owner @ ''/'' @ path_escape repo @ ''/contents/'' @ escape_path file_path"

definition get_contents ::
  "'w gitea_connector \<Rightarrow> string \<Rightarrow> string \<Rightarrow> string \<Rightarrow> string \<Rightarrow> string \<Rightarrow> 'w gt_state
     \<Rightarrow> (gt_error + contents_response) \<times> 'w gt_state" where
  "get_contents c token owner repo file_path branch s =
     do_json c token ''GET'' (contents_url c owner repo file_path @ ''?ref='' @ query_escape branch) None
       decode_contents \<lparr>cs_type = [], cs_encoding = [], cs_content = [], cs_sha = [], cs_path = []\<rparr> s"

text \<open>The commit of a file write, the empty string when the reply names none.\<close>

definition decode_write :: "go_any \<Rightarrow> string + string" where
  "decode_write v = sum_bind (json_fields v) (\<lambda>m. sum_bind (json_fields (go_get m ''content'')) (\<lambda>f.
     sum_bind (json_str f ''path'') (\<lambda>_. sum_bind (json_str f ''sha'') (\<lambda>_.
     sum_bind (json_fields (go_get m ''commit'')) (\<lambda>k. json_str k ''sha'')))))"

definition create_file ::
  "'w gitea_connector \<Rightarrow> string \<Rightarrow> string \<Rightarrow> string \<Rightarrow> string \<Rightarrow> string \<Rightarrow> string \<Rightarrow> string \<Rightarrow> 'w gt_state
     \<Rightarrow> (gt_error + string) \<times> 'w gt_state" where
  "create_file c token owner repo branch file_path message content s =
     do_json c token ''POST'' (contents_url c owner repo file_path)
       (Some [(''content'', GStr (b64_encode content)), (''message'', GStr message), (''branch'', GStr branch)])
       decode_write [] s"

definition update_file ::
  "'w gitea_connector \<Rightarrow> string \<Rightarrow> string \<Rightarrow> string \<Rightarrow> string \<Rightarrow> string \<Rightarrow> string \<Rightarrow> string \<Rightarrow> string \<Rightarrow> 'w gt_state
     \<Rightarrow> (gt_error + string) \<times> 'w gt_state" where
  "update_file c token owner repo branch file_path message content sha s =
     do_json c token ''PUT'' (contents_url c owner repo file_path)
       (Some [(''content'', GStr (b64_encode content)), (''message'', GStr message), (''branch'', GStr branch),
          (''sha'', GStr sha)])
       decode_write [] s"

section \<open>The connector\<close>

definition new_gitea_connector ::
  "(http_request \<Rightarrow> 'w \<Rightarrow> (string + http_reply) \<times> 'w) \<Rightarrow> (string \<times> string) list \<Rightarrow> string + 'w gitea_connector" where
  "new_gitea_connector http extra =
     (case new_base_connector Type_git ''gitea'' of
        Inl e \<Rightarrow> Inl e
      | Inr b \<Rightarrow>
          let url = trim_slashes_right (trim_space (case map_of extra ''base_url'' of None \<Rightarrow> [] | Some u \<Rightarrow> u)) in
          if url = [] then Inl ''missing required config: extra.base_url''
          else Inr \<lparr>gt_base = b, gt_do = http,
            gt_base_url = (if contains_sub url ''/api/'' then url else url @ ''/api/v1''), gt_closed = False\<rparr>)"

definition gitea_validate :: "'w gitea_connector \<Rightarrow> string \<Rightarrow> go_map \<Rightarrow> string option" where
  "gitea_validate c operation input = validate_operation (gt_closed c) git_required_fields operation input"

definition gitea_required_secrets :: "string \<Rightarrow> string list" where
  "gitea_required_secrets operation = [''git-access-token'']"

definition gitea_close :: "'w gitea_connector \<Rightarrow> string option \<times> 'w gitea_connector" where
  "gitea_close c = (None, c\<lparr>gt_closed := True\<rparr>)"

definition gitea_operations :: "(string \<times> bool) list" where
  "gitea_operations = map (\<lambda>(n, _). (n, False)) git_required_fields"

definition http_error_result :: "string \<Rightarrow> string \<Rightarrow> gt_error \<Rightarrow> connector_result" where
  "http_error_result code msg e = terminal_error code (msg @ '': '' @ gt_error_text e)"

definition gt_create_repository ::
  "'w gitea_connector \<Rightarrow> string \<Rightarrow> go_map \<Rightarrow> 'w gt_state \<Rightarrow> connector_result outcome \<times> 'w gt_state" where
  "gt_create_repository c token input =
     need_string input ''owner'' (\<lambda>owner. need_string input ''name'' (\<lambda>name s.
       case do_json c token ''POST'' (gt_base_url c @ ''/orgs/'' @ path_escape owner @ ''/repos'')
           (Some [(''name'', GStr name)])
           (\<lambda>v. sum_bind (json_fields v) (\<lambda>m. sum_bind (json_int64 m ''id'') (\<lambda>i. sum_bind (json_str m ''html_url'') (\<lambda>u. Inr (i, u)))))
           (0, []) s of
         (Inl e, s1) \<Rightarrow> (Ret (http_error_result ''AUTH_FAILURE'' ''failed to create repository'' e), s1)
       | (Inr (i, u), s1) \<Rightarrow> (Ret (success_result (Some [(''id'', GInt i), (''html_url'', GStr u)])), s1)))"

definition gt_delete_repository ::
  "'w gitea_connector \<Rightarrow> string \<Rightarrow> go_map \<Rightarrow> 'w gt_state \<Rightarrow> connector_result outcome \<times> 'w gt_state" where
  "gt_delete_repository c token input =
     need_string input ''owner'' (\<lambda>owner. need_string input ''name'' (\<lambda>name s.
       case do_request c token ''DELETE'' (gt_base_url c @ ''/repos/'' @ path_escape owner @ ''/'' @ path_escape name) None s of
         (Inl e, s1) \<Rightarrow> (Fail (gt_error_text e), s1)
       | (Inr _, s1) \<Rightarrow> (Ret (success_result None), s1)))"

definition gt_create_pull_request ::
  "'w gitea_connector \<Rightarrow> string \<Rightarrow> go_map \<Rightarrow> 'w gt_state \<Rightarrow> connector_result outcome \<times> 'w gt_state" where
  "gt_create_pull_request c token input =
     need_string input ''repo'' (\<lambda>repo. need_string input ''title'' (\<lambda>title.
     need_string input ''head'' (\<lambda>head. need_string input ''base'' (\<lambda>base s.
       case split_repo repo of
         None \<Rightarrow> (Ret invalid_repo, s)
       | Some (owner, name) \<Rightarrow>
           let body = string_or_empty (go_get input ''body'') in
           (case do_json c token ''POST'' (gt_base_url c @ ''/repos/'' @ path_escape owner @ ''/'' @ path_escape name @ ''/pulls'')
               (Some ([(''title'', GStr title), (''head'', GStr head), (''base'', GStr base)]
                  @ (if body \<noteq> [] then [(''body'', GStr body)] else [])))
               (\<lambda>v. sum_bind (json_fields v) (\<lambda>m. sum_bind (json_int64 m ''number'') (\<lambda>n.
                  sum_bind (json_str m ''html_url'') (\<lambda>h. sum_bind (json_str m ''url'') (\<lambda>u. Inr (n, h, u))))))
               (0, [], []) s of
              (Inl e, s1) \<Rightarrow> (Fail (gt_error_text e), s1)
            | (Inr (n, h, u), s1) \<Rightarrow>
                (Ret (success_result (Some [(''number'', GInt n), (''url'', GStr (if h = [] then u else h))])), s1))))))"

definition gt_add_repository_collaborator ::
  "'w gitea_connector \<Rightarrow> string \<Rightarrow> go_map \<Rightarrow> 'w gt_state \<Rightarrow> connector_result outcome \<times> 'w gt_state" where
  "gt_add_repository_collaborator c token input =
     need_string input ''repo'' (\<lambda>repo. need_string input ''username'' (\<lambda>user s.
       case split_repo repo of
         None \<Rightarrow> (Ret invalid_repo, s)
       | Some (owner, name) \<Rightarrow>
           let permission = string_or_empty (go_get input ''permission'') in
           (case do_request c token ''PUT'' (gt_base_url c @ ''/repos/'' @ path_escape owner @ ''/'' @ path_escape name
                @ ''/collaborators/'' @ path_escape user)
               (Some (if permission \<noteq> [] then [(''permission'', GStr permission)] else [])) s of
              (Inl e, s1) \<Rightarrow> (Fail (gt_error_text e), s1)
            | (Inr _, s1) \<Rightarrow> (Ret (success_result None), s1))))"

definition gt_create_repository_webhook ::
  "'w gitea_connector \<Rightarrow> string \<Rightarrow> go_map \<Rightarrow> 'w gt_state \<Rightarrow> connector_result outcome \<times> 'w gt_state" where
  "gt_create_repository_webhook c token input =
     need_string input ''repo'' (\<lambda>repo. need_string input ''url'' (\<lambda>hook_url s.
       case split_repo repo of
         None \<Rightarrow> (Ret invalid_repo, s)
       | Some (owner, name) \<Rightarrow>
           need_strings input ''events'' (\<lambda>events s.
             case do_json c token ''POST'' (gt_base_url c @ ''/repos/'' @ path_escape owner @ ''/'' @ path_escape name @ ''/hooks'')
                 (Some [(''type'', GStr ''gitea''), (''active'', GBool True), (''events'', GStrList events),
                    (''config'', GMap [(''url'', GStr hook_url), (''content_type'', GStr ''json'')])])
                 (\<lambda>v. sum_bind (json_fields v) (\<lambda>m. json_int64 m ''id'')) 0 s of
               (Inl e, s1) \<Rightarrow> (Fail (gt_error_text e), s1)
             | (Inr i, s1) \<Rightarrow> (Ret (success_result (Some [(''id'', GInt i)])), s1)) s))"

section \<open>Committing and reading files\<close>

definition branch_error :: "string \<Rightarrow> gt_error \<Rightarrow> connector_result" where
  "branch_error branch e =
     (let code = (case as_http_status_error e of
            None \<Rightarrow> ''BRANCH_NOT_FOUND''
          | Some (n, body) \<Rightarrow>
              if n = 404 then
                (if contains_sub body ''GetUserByName'' \<or> contains_sub body ''user redirect does not exist''
                 then ''REPO_NOT_FOUND'' else ''BRANCH_NOT_FOUND'')
              else if n = 401 \<or> n = 403 then ''AUTH_FAILURE'' else ''BRANCH_NOT_FOUND'')
      in terminal_error code (''branch '' @ branch @ '' not found: '' @ gt_error_text e))"

text \<open>One file: \<open>Inr None\<close> when the branch has it with this content, \<open>Inr (Some sha)\<close> with the
  commit that wrote it.\<close>

definition write_file ::
  "'w gitea_connector \<Rightarrow> string \<Rightarrow> string \<Rightarrow> string \<Rightarrow> string \<Rightarrow> string \<Rightarrow> string \<Rightarrow> string \<times> go_any \<Rightarrow> 'w gt_state
     \<Rightarrow> (connector_result + string option) \<times> 'w gt_state" where
  "write_file c token owner repo branch path_prefix message pv s =
     (case as_string (snd pv) of
        None \<Rightarrow> (Inl (terminal_error ''INVALID_CONTENT'' (''content for path '' @ fst pv @ '' must be a string'')), s)
      | Some content \<Rightarrow>
          let full_path = join_repo_path path_prefix (fst pv) in
          (case get_contents c token owner repo full_path branch s of
             (Inl e, s1) \<Rightarrow>
               if \<not> is_http_status e 404
               then (Inl (terminal_error ''READ_FILE_FAILED''
                      (''failed checking existing file '' @ full_path @ '': '' @ gt_error_text e)), s1)
               else
                 (case create_file c token owner repo branch full_path message content s1 of
                    (Inl e2, s2) \<Rightarrow> (Inl (terminal_error ''FILE_CREATE_FAILED''
                      (''failed to create file '' @ full_path @ '': '' @ gt_error_text e2)), s2)
                  | (Inr sha, s2) \<Rightarrow> (Inr (Some sha), s2))
           | (Inr existing, s1) \<Rightarrow>
               (case decoded_content existing of
                  Inl e \<Rightarrow> (Inl (terminal_error ''CONTENT_DECODE_FAILED''
                    (''failed to decode existing content for '' @ full_path @ '': '' @ e)), s1)
                | Inr decoded \<Rightarrow>
                    if decoded = content then (Inr None, s1)
                    else
                      (case update_file c token owner repo branch full_path message content (cs_sha existing) s1 of
                         (Inl e2, s2) \<Rightarrow> (Inl (terminal_error ''FILE_UPDATE_FAILED''
                           (''failed to update file '' @ full_path @ '': '' @ gt_error_text e2)), s2)
                       | (Inr sha, s2) \<Rightarrow> (Inr (Some sha), s2)))))"

fun write_loop ::
  "'w gitea_connector \<Rightarrow> string \<Rightarrow> string \<Rightarrow> string \<Rightarrow> string \<Rightarrow> string \<Rightarrow> string \<Rightarrow> go_map \<Rightarrow> string option \<Rightarrow> 'w gt_state
     \<Rightarrow> (connector_result + string option) \<times> 'w gt_state" where
  "write_loop c token owner repo branch path_prefix message [] last_sha s = (Inr last_sha, s)"
| "write_loop c token owner repo branch path_prefix message (pv # fs) last_sha s =
     (case write_file c token owner repo branch path_prefix message pv s of
        (Inl r, s1) \<Rightarrow> (Inl r, s1)
      | (Inr None, s1) \<Rightarrow> write_loop c token owner repo branch path_prefix message fs last_sha s1
      | (Inr (Some sha), s1) \<Rightarrow> write_loop c token owner repo branch path_prefix message fs (Some sha) s1)"

definition gt_commit_to ::
  "'w gitea_connector \<Rightarrow> string \<Rightarrow> string \<Rightarrow> string \<Rightarrow> string \<Rightarrow> string \<Rightarrow> go_map \<Rightarrow> string \<Rightarrow> 'w gt_state
     \<Rightarrow> connector_result \<times> 'w gt_state" where
  "gt_commit_to c token owner repo branch path_prefix files message s =
     (case get_branch c token owner repo branch s of
        (Inl e, s1) \<Rightarrow> (branch_error branch e, s1)
      | (Inr _, s1) \<Rightarrow>
     (case write_loop c token owner repo branch path_prefix message files None s1 of
        (Inl r, s2) \<Rightarrow> (r, s2)
      | (Inr (Some sha), s2) \<Rightarrow>
          (success_result (Some [(''commit_sha'', GStr sha), (''changed'', GBool True)]), s2)
      | (Inr None, s2) \<Rightarrow>
          (case get_branch c token owner repo branch s2 of
             (h, s3) \<Rightarrow> (success_result (Some [(''commit_sha'', GStr (case h of Inl _ \<Rightarrow> [] | Inr sha \<Rightarrow> sha)),
                (''changed'', GBool False)]), s3))))"

definition gt_commit_files ::
  "'w gitea_connector \<Rightarrow> string \<Rightarrow> go_map \<Rightarrow> 'w gt_state \<Rightarrow> connector_result outcome \<times> 'w gt_state" where
  "gt_commit_files c token input =
     need_string input ''repo'' (\<lambda>repo. need_string input ''branch'' (\<lambda>branch.
     need_string input ''path_prefix'' (\<lambda>path_prefix. need_map input ''files'' (\<lambda>files.
     need_string input ''message'' (\<lambda>message. need_string input ''idempotency_key'' (\<lambda>_ s.
       case split_repo repo of
         None \<Rightarrow> (Ret invalid_repo, s)
       | Some (owner, name) \<Rightarrow>
           (case gt_commit_to c token owner name branch path_prefix files message s of (r, s1) \<Rightarrow> (Ret r, s1))))))))"

definition gt_read_file ::
  "'w gitea_connector \<Rightarrow> string \<Rightarrow> go_map \<Rightarrow> 'w gt_state \<Rightarrow> connector_result outcome \<times> 'w gt_state" where
  "gt_read_file c token input =
     need_string input ''repo'' (\<lambda>repo. need_string input ''branch'' (\<lambda>branch. need_string input ''path'' (\<lambda>file_path s.
       case split_repo repo of
         None \<Rightarrow> (Ret invalid_repo, s)
       | Some (owner, name) \<Rightarrow>
           (case get_contents c token owner name file_path branch s of
              (Inl e, s1) \<Rightarrow>
                (Ret (if is_http_status e 404
                      then terminal_error ''FILE_NOT_FOUND'' (''file '' @ file_path @ '' not found in repo '' @ repo)
                      else terminal_error ''READ_FILE_FAILED'' (''failed to read file: '' @ gt_error_text e)), s1)
            | (Inr r, s1) \<Rightarrow>
                (Ret (case decoded_content r of
                   Inl e \<Rightarrow> terminal_error ''CONTENT_DECODE_FAILED'' (''failed to decode file content: '' @ e)
                 | Inr x \<Rightarrow> success_result (Some [(''content'', GStr x), (''sha'', GStr (cs_sha r))])), s1)))))"

section \<open>Execute\<close>

definition token_log :: "string \<Rightarrow> string list" where
  "token_log token = (if 8 \<le> length token
     then [''[gitea-connector] token (first-8): '' @ take 8 token @ ''... (len='' @ nat_str (length token) @ '')''] else [])"

definition gt_dispatch ::
  "'w gitea_connector \<Rightarrow> string \<Rightarrow> string \<Rightarrow> go_map \<Rightarrow> 'w gt_state \<Rightarrow> connector_result outcome \<times> 'w gt_state" where
  "gt_dispatch c token operation input s =
     (if operation = ''create_repository'' then gt_create_repository c token input s
      else if operation = ''delete_repository'' then gt_delete_repository c token input s
      else if operation = ''create_pull_request'' then gt_create_pull_request c token input s
      else if operation = ''add_repository_collaborator'' then gt_add_repository_collaborator c token input s
      else if operation = ''create_repository_webhook'' then gt_create_repository_webhook c token input s
      else if operation = ''commit_files'' then gt_commit_files c token input s
      else if operation = ''read_file'' then gt_read_file c token input s
      else (Fail (''operation not implemented: '' @ operation), s))"

definition gitea_execute ::
  "'w gitea_connector \<Rightarrow> string option \<Rightarrow> string \<Rightarrow> go_map \<Rightarrow> (string \<times> string) list \<Rightarrow> 'w gt_state
     \<Rightarrow> connector_result outcome \<times> 'w gt_state" where
  "gitea_execute c ctx_err operation input secrets s =
     (case ctx_err of
        Some e \<Rightarrow> (Fail e, s)
      | None \<Rightarrow>
          if gt_closed c then (Fail ''connector is closed'', s)
          else if operation = ''invalid_operation_name'' then (Fail ''invalid operation name'', s)
          else let token = trim_space (case map_of secrets ''git-access-token'' of None \<Rightarrow> [] | Some t \<Rightarrow> t) in
            if token = []
            then (Ret (terminal_error ''MISSING_SECRET'' ''missing required secret: git-access-token''), s)
            else gt_dispatch c token operation input (s\<lparr>tt_stdout := tt_stdout s @ token_log token\<rparr>))"

end
