(* ===== verification/Git_Server.thy ===== *)
theory Git_Server
  imports Git_Github
begin

text \<open>
  What the GitHub connector does to a repository. The first part is about the calls alone and
  needs no assumption on the server: a branch is moved by the last call of a run, to a commit on
  the head that was read. The second part states what the documentation of GitHub's object API
  promises (\<open>git_laws\<close>) over an abstract view of repositories, and shows which files a branch has
  after a successful commit.
\<close>

section \<open>The calls of a run\<close>

fun is_update :: "gh_event \<Rightarrow> bool" where
  "is_update (Ev_update_ref _ _ _ _ _ _) = True"
| "is_update _ = False"

text \<open>The run from \<open>s\<close> to \<open>s'\<close> made the calls \<open>evs\<close>, none of which moves a branch.\<close>

definition quiet_run :: "'w gh_state \<Rightarrow> gh_event list \<Rightarrow> 'w gh_state \<Rightarrow> bool" where
  "quiet_run s evs s' \<longleftrightarrow> gs_trace s' = gs_trace s @ evs \<and> (\<forall>e \<in> set evs. \<not> is_update e)"

lemma gh_call_run:
  assumes "gh_call ev f s = (r, s')"
  shows "f (gs_world s) = (r, gs_world s') \<and> gs_trace s' = gs_trace s @ [ev r]"
  using assms by (auto simp: gh_call_def split: prod.splits)

lemma quiet_run_refl [simp]: "quiet_run s [] s"
  by (simp add: quiet_run_def)

lemma quiet_run_trans: "quiet_run s a s1 \<Longrightarrow> quiet_run s1 b s2 \<Longrightarrow> quiet_run s (a @ b) s2"
  by (auto simp: quiet_run_def)

lemma quiet_call: "gh_call ev f s = (r, s') \<Longrightarrow> \<not> is_update (ev r) \<Longrightarrow> quiet_run s [ev r] s'"
  by (auto simp: quiet_run_def dest: gh_call_run)

text \<open>Where the head of the branch was read.\<close>

definition head_read :: "string \<Rightarrow> string \<Rightarrow> string \<Rightarrow> string \<Rightarrow> gh_event list \<Rightarrow> bool" where
  "head_read owner repo branch sha evs \<longleftrightarrow>
     Ev_get_ref owner repo (''refs/heads/'' @ branch) (Inr sha) \<in> set evs
     \<or> (\<exists>url r rest. Ev_http_get url (Inr r) \<in> set evs \<and> rr_status r = 200 \<and> rr_refs r = Inr (sha # rest))"

lemma head_read_mono:
  "head_read owner repo branch sha evs \<Longrightarrow> set evs \<subseteq> set evs' \<Longrightarrow> head_read owner repo branch sha evs'"
  unfolding head_read_def by blast

lemma get_gitea_ref_run:
  assumes "get_gitea_ref c cl owner repo branch s = (x, s')"
  shows "\<exists>evs. quiet_run s evs s' \<and> (\<forall>sha. x = Inr sha \<longrightarrow> head_read owner repo branch sha evs)"
proof -
  let ?url = "gh_base_url cl @ ''repos/'' @ owner @ ''/'' @ repo @ ''/git/refs/heads/'' @ branch"
  obtain r s1 where r: "gh_call (Ev_http_get ?url) (gc_http_get c ?url) s = (r, s1)" by (metis surj_pair)
  have "s' = s1" "\<forall>sha. x = Inr sha \<longrightarrow> head_read owner repo branch sha [Ev_http_get ?url r]"
    using assms r
    by (auto simp: get_gitea_ref_def Let_def head_read_def split: sum.splits if_splits list.splits)
  then show ?thesis using quiet_call [OF r] by auto
qed

lemma branch_head_run:
  assumes "branch_head c cl owner repo branch s = (x, s')"
  shows "\<exists>evs. quiet_run s evs s' \<and> (\<forall>sha. x = Inr sha \<longrightarrow> head_read owner repo branch sha evs)"
proof -
  let ?ref = "''refs/heads/'' @ branch"
  obtain r s1 where r: "gh_call (Ev_get_ref owner repo ?ref) (gh_get_ref cl owner repo ?ref) s = (r, s1)"
    by (metis surj_pair)
  have q: "quiet_run s [Ev_get_ref owner repo ?ref r] s1" using quiet_call [OF r] by simp
  consider (sha) sha where "r = Inr sha" "x = Inr sha" "s' = s1"
    | (gone) y where "get_gitea_ref c cl owner repo branch s1 = (y, s')" "\<forall>sha. x = Inr sha \<longrightarrow> y = Inr sha"
    | (error) z where "x = Inl z" "s' = s1"
    using assms r
    by (cases "get_gitea_ref c cl owner repo branch s1")
      (auto simp: branch_head_def Let_def split: sum.splits if_splits)
  then show ?thesis
  proof cases
    case sha
    then show ?thesis using q by (auto simp: head_read_def)
  next
    case gone
    obtain evs where evs: "quiet_run s1 evs s'" "\<forall>sha. y = Inr sha \<longrightarrow> head_read owner repo branch sha evs"
      using get_gitea_ref_run [OF gone(1)] by blast
    have "\<forall>sha. x = Inr sha \<longrightarrow> head_read owner repo branch sha ([Ev_get_ref owner repo ?ref r] @ evs)"
      using gone(2) evs(2) by (fastforce simp: head_read_def)
    then show ?thesis using quiet_run_trans [OF q evs(1)] by blast
  next
    case error
    then show ?thesis using q by auto
  qed
qed

text \<open>A tree entry that carries one of the files, with its blob.\<close>

definition blob_entry :: "string \<Rightarrow> string \<Rightarrow> string \<Rightarrow> go_map \<Rightarrow> gh_event list \<Rightarrow> tree_entry \<Rightarrow> bool" where
  "blob_entry owner repo path_prefix files evs e \<longleftrightarrow> (\<exists>p content. (p, GStr content) \<in> set files
     \<and> te_path e = path_prefix @ p \<and> Ev_create_blob owner repo content (Inr (te_sha e)) \<in> set evs)"

lemma as_string_Some [simp]: "as_string v = Some x \<longleftrightarrow> v = GStr x"
  by (cases v) auto

lemma commit_file_cases:
  assumes "commit_file cl owner repo branch path_prefix (p, v) s = (Inr x, s')"
  obtains (same) content f where "v = GStr content" "x = None" "gf_content f = Some (Inr content)"
      "gh_call (Ev_get_contents owner repo (path_prefix @ p) branch)
         (gh_get_contents cl owner repo (path_prefix @ p) branch) s = (Inr f, s')"
    | (blob) content y s1 sha where "v = GStr content"
      "x = Some \<lparr>te_path = path_prefix @ p, te_mode = ''100644'', te_type = ''blob'', te_sha = sha\<rparr>"
      "gh_call (Ev_get_contents owner repo (path_prefix @ p) branch)
         (gh_get_contents cl owner repo (path_prefix @ p) branch) s = (y, s1)"
      "gh_call (Ev_create_blob owner repo content) (gh_create_blob cl owner repo content) s1 = (Inr sha, s')"
  using assms
  by (auto simp: commit_file_def Let_def split: option.splits prod.splits if_splits sum.splits)

lemma commit_file_run:
  assumes "commit_file cl owner repo branch path_prefix pv s = (x, s')"
  shows "\<exists>evs. quiet_run s evs s' \<and> (\<forall>e. x = Inr (Some e) \<longrightarrow> blob_entry owner repo path_prefix [pv] evs e)"
proof (cases "as_string (snd pv)")
  case None
  then show ?thesis using assms by (auto simp: commit_file_def intro!: exI [of _ "[]"])
next
  case (Some content)
  let ?p = "path_prefix @ fst pv"
  obtain y s1 where y: "gh_call (Ev_get_contents owner repo ?p branch) (gh_get_contents cl owner repo ?p branch) s = (y, s1)"
    by (metis surj_pair)
  obtain z s2 where z: "gh_call (Ev_create_blob owner repo content) (gh_create_blob cl owner repo content) s1 = (z, s2)"
    by (metis surj_pair)
  have q1: "quiet_run s [Ev_get_contents owner repo ?p branch y] s1" using quiet_call [OF y] by simp
  have q2: "quiet_run s ([Ev_get_contents owner repo ?p branch y] @ [Ev_create_blob owner repo content z]) s2"
    using quiet_call [OF z] by (intro quiet_run_trans [OF q1]) simp
  have "(s' = s1 \<and> (\<forall>e. x \<noteq> Inr (Some e)))
     \<or> (s' = s2 \<and> (\<forall>e. x = Inr (Some e) \<longrightarrow> te_path e = ?p \<and> z = Inr (te_sha e)))"
    using assms Some y z by (auto simp: commit_file_def Let_def split: if_splits sum.splits)
  moreover have "pv = (fst pv, GStr content)" using Some by (cases pv) simp
  ultimately show ?thesis
    using q1 q2 by (fastforce simp: blob_entry_def)
qed

lemma blob_entry_mono:
  "blob_entry owner repo path_prefix files evs e \<Longrightarrow> set files \<subseteq> set files' \<Longrightarrow> set evs \<subseteq> set evs'
     \<Longrightarrow> blob_entry owner repo path_prefix files' evs' e"
  by (force simp: blob_entry_def)

lemma commit_loop_run:
  assumes "commit_loop cl owner repo branch path_prefix files entries changed s = (x, s')"
  shows "\<exists>evs. quiet_run s evs s' \<and> (\<forall>es ch. x = Inr (es, ch) \<longrightarrow>
     (\<exists>new. es = entries @ new \<and> (\<forall>e \<in> set new. blob_entry owner repo path_prefix files evs e)))"
  using assms
proof (induction files arbitrary: entries changed s)
  case Nil
  then show ?case by (auto intro!: exI [of _ "[]"])
next
  case (Cons pv fs)
  obtain y s1 where y: "commit_file cl owner repo branch path_prefix pv s = (y, s1)" by (metis surj_pair)
  obtain ev1 where ev1: "quiet_run s ev1 s1" "\<And>e. y = Inr (Some e) \<Longrightarrow> blob_entry owner repo path_prefix [pv] ev1 e"
    using commit_file_run [OF y] by blast
  show ?case
  proof (cases "\<exists>stop. y = Inl stop")
    case True
    then show ?thesis using Cons.prems y ev1 by auto
  next
    case False
    then obtain o1 where o1: "y = Inr o1" by (cases y) auto
    let ?es = "entries @ (case o1 of None \<Rightarrow> [] | Some e \<Rightarrow> [e])"
    have "commit_loop cl owner repo branch path_prefix fs ?es (changed \<or> o1 \<noteq> None) s1 = (x, s')"
      using Cons.prems y o1 by (cases o1) auto
    then obtain ev2 where ev2: "quiet_run s1 ev2 s'" "\<And>es ch. x = Inr (es, ch) \<Longrightarrow>
        \<exists>new. es = ?es @ new \<and> (\<forall>e \<in> set new. blob_entry owner repo path_prefix fs ev2 e)"
      using Cons.IH by blast
    have "\<exists>new. es = entries @ new \<and> (\<forall>e \<in> set new. blob_entry owner repo path_prefix (pv # fs) (ev1 @ ev2) e)"
      if x: "x = Inr (es, ch)" for es ch
    proof -
      obtain new where new: "es = ?es @ new" "\<forall>e \<in> set new. blob_entry owner repo path_prefix fs ev2 e"
        using ev2(2) [OF x] by blast
      have "\<forall>e \<in> set new. blob_entry owner repo path_prefix (pv # fs) (ev1 @ ev2) e"
        using new(2) by (auto intro: blob_entry_mono)
      moreover have "blob_entry owner repo path_prefix (pv # fs) (ev1 @ ev2) e" if "o1 = Some e" for e
        using ev1(2) [of e] o1 that by (auto intro: blob_entry_mono)
      ultimately show ?thesis using new(1) by (cases o1) auto
    qed
    then show ?thesis using quiet_run_trans [OF ev1(1) ev2(1)] by blast
  qed
qed

text \<open>
  The shape of a run that moves a branch: head and base tree are read and a blob is stored for
  every entry, none of these calls moves a branch; then come the tree, the commit on that head,
  and the branch, which is not forced.
\<close>

definition moves_branch ::
  "string \<Rightarrow> string \<Rightarrow> string \<Rightarrow> string \<Rightarrow> go_map \<Rightarrow> string \<Rightarrow> gh_event list \<Rightarrow> gh_error + unit \<Rightarrow> bool" where
  "moves_branch owner repo branch path_prefix files message evs x \<longleftrightarrow>
     (\<exists>pre head_sha base entries tree sha.
        evs = pre @ [Ev_create_tree owner repo base entries (Inr tree),
          Ev_create_commit owner repo message tree head_sha (Inr sha),
          Ev_update_ref owner repo (''refs/heads/'' @ branch) sha False x]
        \<and> (\<forall>e \<in> set pre. \<not> is_update e) \<and> head_read owner repo branch head_sha pre
        \<and> Ev_get_commit owner repo head_sha (Inr base) \<in> set pre
        \<and> (\<forall>e \<in> set entries. blob_entry owner repo path_prefix files pre e))"

definition changed_result :: "connector_result outcome \<Rightarrow> bool" where
  "changed_result out \<longleftrightarrow> (case out of
     Ret r \<Rightarrow> cr_status r = ''success'' \<and> (case cr_output r of None \<Rightarrow> False | Some m \<Rightarrow> go_get m ''changed'' = GBool True)
   | _ \<Rightarrow> False)"

lemma changed_result_simps [simp]:
  "\<not> changed_result (Fail e)" "\<not> changed_result (Panics e)" "\<not> changed_result (Ret (terminal_error code msg))"
  "\<not> changed_result (Ret (success_result None))"
  "changed_result (Ret (success_result (Some m))) \<longleftrightarrow> go_get m ''changed'' = GBool True"
  by (simp_all add: changed_result_def terminal_error_def success_result_def)

lemma commit_loop_stop:
  "commit_loop cl owner repo branch path_prefix files entries changed s = (l, s')
     \<Longrightarrow> \<forall>stop. l = Inl stop \<longrightarrow> \<not> changed_result stop"
proof (induction files arbitrary: entries changed s)
  case (Cons pv fs)
  then show ?case
    by (fastforce simp: commit_file_def Let_def split: prod.splits sum.splits option.splits if_splits)
qed auto

lemma commit_entries_run:
  assumes "commit_entries cl owner repo branch message head_sha base entries s = (r, s')"
  shows "(\<exists>evs. quiet_run s evs s' \<and> \<not> changed_result (Ret r))
    \<or> (\<exists>tree sha x. gs_trace s' = gs_trace s @ [Ev_create_tree owner repo base entries (Inr tree),
          Ev_create_commit owner repo message tree head_sha (Inr sha),
          Ev_update_ref owner repo (''refs/heads/'' @ branch) sha False x]
        \<and> (changed_result (Ret r) \<longleftrightarrow> x = Inr ()))"
proof -
  obtain t s1 where t: "gh_call (Ev_create_tree owner repo base entries) (gh_create_tree cl owner repo base entries) s = (t, s1)"
    by (metis surj_pair)
  have q1: "quiet_run s [Ev_create_tree owner repo base entries t] s1" using quiet_call [OF t] by simp
  show ?thesis
  proof (cases t)
    case (Inl e)
    then show ?thesis using assms t q1 by (auto simp: commit_entries_def split: prod.splits)
  next
    case (Inr tree)
    obtain c s2 where c: "gh_call (Ev_create_commit owner repo message tree head_sha)
        (gh_create_commit cl owner repo message tree head_sha) s1 = (c, s2)" by (metis surj_pair)
    have q2: "quiet_run s ([Ev_create_tree owner repo base entries t] @ [Ev_create_commit owner repo message tree head_sha c]) s2"
      using quiet_call [OF c] by (intro quiet_run_trans [OF q1]) simp
    show ?thesis
    proof (cases c)
      case (Inl e)
      then show ?thesis using assms t c q2 \<open>t = Inr tree\<close> by (auto simp: commit_entries_def split: prod.splits)
    next
      case (Inr sha)
      let ?ref = "''refs/heads/'' @ branch"
      obtain x s3 where x: "gh_call (Ev_update_ref owner repo ?ref sha False) (gh_update_ref cl owner repo ?ref sha False) s2 = (x, s3)"
        by (metis surj_pair)
      have "s' = s3" "changed_result (Ret r) \<longleftrightarrow> x = Inr ()"
        using assms t c x Inr \<open>t = Inr tree\<close>
        by (auto simp: commit_entries_def Let_def go_get_def split: sum.splits)
      then show ?thesis using gh_call_run [OF x] q2 Inr \<open>t = Inr tree\<close> by (auto simp: quiet_run_def)
    qed
  qed
qed

lemma commit_to_run:
  assumes "commit_to c cl owner repo branch path_prefix files message s = (out, s')"
  shows "(\<exists>evs. quiet_run s evs s' \<and> \<not> changed_result out)
    \<or> (\<exists>evs x. gs_trace s' = gs_trace s @ evs \<and> moves_branch owner repo branch path_prefix files message evs x
        \<and> (changed_result out \<longleftrightarrow> x = Inr ()))"
proof -
  obtain h s1 where h: "branch_head c cl owner repo branch s = (h, s1)" by (metis surj_pair)
  obtain ev1 where ev1: "quiet_run s ev1 s1" "\<And>sha. h = Inr sha \<Longrightarrow> head_read owner repo branch sha ev1"
    using branch_head_run [OF h] by blast
  show ?thesis
  proof (cases h)
    case (Inl r)
    then have "out = Ret r" "s' = s1" using assms h by (simp_all add: commit_to_def)
    moreover have "\<not> changed_result (Ret r)"
      using h Inl by (auto simp: branch_head_def Let_def split: prod.splits sum.splits if_splits)
    ultimately show ?thesis using ev1(1) by blast
  next
    case (Inr head_sha)
    obtain b s2 where b: "gh_call (Ev_get_commit owner repo head_sha) (gh_get_commit cl owner repo head_sha) s1 = (b, s2)"
      by (metis surj_pair)
    have q2: "quiet_run s (ev1 @ [Ev_get_commit owner repo head_sha b]) s2"
      using quiet_call [OF b] by (intro quiet_run_trans [OF ev1(1)]) simp
    show ?thesis
    proof (cases b)
      case (Inl e)
      then show ?thesis using assms h b q2 Inr by (auto simp: commit_to_def split: prod.splits)
    next
      case base: (Inr base)
      obtain l s3 where l: "commit_loop cl owner repo branch path_prefix files [] False s2 = (l, s3)" by (metis surj_pair)
      obtain ev3 where ev3: "quiet_run s2 ev3 s3" "\<And>es ch. l = Inr (es, ch) \<Longrightarrow>
          \<forall>e \<in> set es. blob_entry owner repo path_prefix files ev3 e"
        using commit_loop_run [OF l] by fastforce
      note q3 = quiet_run_trans [OF q2 ev3(1)]
      show ?thesis
      proof (cases "\<exists>entries. l = Inr (entries, True)")
        case False
        then have "s' = s3 \<and> \<not> changed_result out"
          using assms h b l Inr base commit_loop_stop [OF l]
          by (auto simp: commit_to_def go_get_def split: sum.splits prod.splits)
        then show ?thesis using q3 by blast
      next
        case True
        then obtain entries where es: "l = Inr (entries, True)" by blast
        obtain r where r: "commit_entries cl owner repo branch message head_sha base entries s3 = (r, s')" "out = Ret r"
          using assms h b l Inr base es by (auto simp: commit_to_def split: prod.splits)
        let ?pre = "ev1 @ [Ev_get_commit owner repo head_sha b] @ ev3"
        have pre: "head_read owner repo branch head_sha ?pre"
            "Ev_get_commit owner repo head_sha (Inr base) \<in> set ?pre"
            "\<forall>e \<in> set entries. blob_entry owner repo path_prefix files ?pre e"
            "\<forall>e \<in> set ?pre. \<not> is_update e" "gs_trace s3 = gs_trace s @ ?pre"
          using head_read_mono [OF ev1(2) [OF Inr], of ?pre] ev3(2) [OF es] base q3
          by (auto simp: quiet_run_def intro: blob_entry_mono)
        show ?thesis
          using commit_entries_run [OF r(1)] r(2) pre q3
        proof (elim disjE exE conjE)
          fix evs assume "quiet_run s3 evs s'" "\<not> changed_result (Ret r)"
          then show ?thesis using quiet_run_trans [OF q3] r(2) by blast
        next
          fix tree sha x
          assume x: "gs_trace s' = gs_trace s3 @ [Ev_create_tree owner repo base entries (Inr tree),
              Ev_create_commit owner repo message tree head_sha (Inr sha),
              Ev_update_ref owner repo (''refs/heads/'' @ branch) sha False x]"
            "changed_result (Ret r) = (x = Inr ())"
          then have "gs_trace s' = gs_trace s @ (?pre @ [Ev_create_tree owner repo base entries (Inr tree),
              Ev_create_commit owner repo message tree head_sha (Inr sha),
              Ev_update_ref owner repo (''refs/heads/'' @ branch) sha False x])"
            using pre(5) by simp
          moreover have "moves_branch owner repo branch path_prefix files message (?pre @ [Ev_create_tree owner repo base entries (Inr tree),
              Ev_create_commit owner repo message tree head_sha (Inr sha),
              Ev_update_ref owner repo (''refs/heads/'' @ branch) sha False x]) x"
            unfolding moves_branch_def using pre(1-4) by blast
          ultimately show ?thesis using x(2) r(2) by blast
        qed
      qed
    qed
  qed
qed

section \<open>A branch is moved once, last, and on the head that was read\<close>

lemmas need_defs = need_string_def need_map_def need_strings_def assert_panic_def

lemma single_call_run:
  "gh_create_repository cl input s = (out, s') \<Longrightarrow> \<exists>evs. quiet_run s evs s' \<and> \<not> changed_result out"
  "gh_delete_repository cl input s = (out, s') \<Longrightarrow> \<exists>evs. quiet_run s evs s' \<and> \<not> changed_result out"
  "gh_create_pull_request cl input s = (out, s') \<Longrightarrow> \<exists>evs. quiet_run s evs s' \<and> \<not> changed_result out"
  "gh_add_repository_collaborator cl input s = (out, s') \<Longrightarrow> \<exists>evs. quiet_run s evs s' \<and> \<not> changed_result out"
  "gh_create_repository_webhook cl input s = (out, s') \<Longrightarrow> \<exists>evs. quiet_run s evs s' \<and> \<not> changed_result out"
  "gh_read_file cl input s = (out, s') \<Longrightarrow> \<exists>evs. quiet_run s evs s' \<and> \<not> changed_result out"
  unfolding gh_create_repository_def gh_delete_repository_def gh_create_pull_request_def
    gh_add_repository_collaborator_def gh_create_repository_webhook_def gh_read_file_def need_defs
  by (fastforce simp: go_get_def invalid_repo_def quiet_run_def dest: gh_call_run
      split: option.splits prod.splits sum.splits if_splits)+

text \<open>The input of a commit that reaches the repository.\<close>

definition commit_input ::
  "go_map \<Rightarrow> string \<Rightarrow> string \<Rightarrow> string \<Rightarrow> string \<Rightarrow> go_map \<Rightarrow> string \<Rightarrow> bool" where
  "commit_input input owner repo branch path_prefix files message \<longleftrightarrow>
     (case go_get input ''repo'' of GStr full \<Rightarrow> split_repo full = Some (owner, repo) | _ \<Rightarrow> False)
     \<and> go_get input ''branch'' = GStr branch \<and> go_get input ''path_prefix'' = GStr path_prefix
     \<and> go_get input ''files'' = GMap files \<and> go_get input ''message'' = GStr message
     \<and> (\<exists>key. go_get input ''idempotency_key'' = GStr key)"

lemma as_map_Some [simp]: "as_map v = Some m \<longleftrightarrow> v = GMap m"
  by (cases v) auto

lemma gh_commit_files_cases:
  assumes "gh_commit_files c cl input s = (out, s')"
  obtains (refused) "s' = s" "out = Ret invalid_repo \<or> (\<exists>e. out = Panics e)"
    | (commit) owner repo branch path_prefix files message
      where "commit_input input owner repo branch path_prefix files message"
        "commit_to c cl owner repo branch path_prefix files message s = (out, s')"
  using assms unfolding gh_commit_files_def need_defs
  by (auto simp: commit_input_def split: option.splits)

lemma gh_commit_files_input:
  "commit_input input owner repo branch path_prefix files message
     \<Longrightarrow> gh_commit_files c cl input s = commit_to c cl owner repo branch path_prefix files message s"
  by (auto simp: gh_commit_files_def need_defs commit_input_def split: go_any.splits)

text \<open>Either no branch is moved and no change reported, or the input is that of a commit and the
  run has the shape above.\<close>

definition commit_trace :: "go_map \<Rightarrow> gh_event list \<Rightarrow> connector_result outcome \<Rightarrow> bool" where
  "commit_trace input evs out \<longleftrightarrow>
     (\<exists>owner repo branch path_prefix files message x. commit_input input owner repo branch path_prefix files message
        \<and> moves_branch owner repo branch path_prefix files message evs x \<and> (changed_result out \<longleftrightarrow> x = Inr ()))"

lemma gh_commit_files_run:
  assumes "gh_commit_files c cl input s = (out, s')"
  shows "\<exists>evs. (quiet_run s evs s' \<and> \<not> changed_result out) \<or> (gs_trace s' = gs_trace s @ evs \<and> commit_trace input evs out)"
  using assms
proof (cases rule: gh_commit_files_cases)
  case refused
  then show ?thesis by (auto simp: invalid_repo_def intro!: exI [of _ "[]"])
next
  case commit
  then show ?thesis using commit_to_run [OF commit(2)] by (auto simp: commit_trace_def)
qed

lemma github_execute_run:
  assumes "github_execute lib c ctx_err operation input secrets s = (out, s')"
  shows "\<exists>evs. (quiet_run s evs s' \<and> \<not> changed_result out)
     \<or> (operation = ''commit_files'' \<and> gs_trace s' = gs_trace s @ evs \<and> commit_trace input evs out)"
proof -
  have d: "\<exists>evs. (quiet_run s evs s' \<and> \<not> changed_result out)
     \<or> (operation = ''commit_files'' \<and> gs_trace s' = gs_trace s @ evs \<and> commit_trace input evs out)"
    if "gh_dispatch c cl operation input s = (out, s')" for cl
    using that single_call_run [of cl input s out s'] gh_commit_files_run [of c cl input s out s']
    unfolding gh_dispatch_def by (auto split: if_splits intro: exI [of _ "[]"])
  show ?thesis
    using assms d unfolding github_execute_def
    by (fastforce split: option.splits if_splits intro: exI [of _ "[]"])
qed

text \<open>C22: Whatever the operation, its input, the secrets and the replies of the server, a run of the
  GitHub connector reports a change exactly when it moved a branch; and a run that asks for a branch to be moved is a
  commit whose calls have this order: the head of the branch and its tree are read, one blob is
  stored per entry with the content of a file of the input, then the tree on the tree that was
  read, then the commit on the head that was read, and last, without force, the branch of the
  input to that commit. A run that stops earlier moves no branch, so that no part of a commit
  is ever visible.
\<close>

theorem branch_moves_last:
  assumes "github_execute lib c ctx_err operation input secrets s = (out, s')"
  shows "\<exists>evs. gs_trace s' = gs_trace s @ evs
     \<and> ((\<forall>e \<in> set evs. \<not> is_update e) \<and> \<not> changed_result out
        \<or> operation = ''commit_files'' \<and> (\<exists>owner repo branch path_prefix files message x.
            commit_input input owner repo branch path_prefix files message
            \<and> moves_branch owner repo branch path_prefix files message evs x \<and> (changed_result out \<longleftrightarrow> x = Inr ())))"
  using github_execute_run [OF assms] unfolding quiet_run_def commit_trace_def by blast

section \<open>Repositories\<close>

text \<open>
  An abstract view of what the server stores: per repository the head of every branch, the tree
  of every commit, the files of every tree by path, and the content of every blob.
\<close>

type_synonym repo_id = "string \<times> string"

record 'w git_view =
  gv_head :: "'w \<Rightarrow> repo_id \<Rightarrow> string \<Rightarrow> string option"
  gv_commit :: "'w \<Rightarrow> repo_id \<Rightarrow> string \<Rightarrow> string option"
  gv_tree :: "'w \<Rightarrow> repo_id \<Rightarrow> string \<Rightarrow> (string \<Rightarrow> string option) option"
  gv_blob :: "'w \<Rightarrow> repo_id \<Rightarrow> string \<Rightarrow> string option"

definition branch_files :: "'w git_view \<Rightarrow> 'w \<Rightarrow> repo_id \<Rightarrow> string \<Rightarrow> (string \<Rightarrow> string option) option" where
  "branch_files v w rp branch =
     Option.bind (Option.bind (gv_head v w rp branch) (gv_commit v w rp)) (gv_tree v w rp)"

text \<open>Objects are never changed or removed; the heads are the same.\<close>

definition keeps_objects :: "'w git_view \<Rightarrow> 'w \<Rightarrow> 'w \<Rightarrow> bool" where
  "keeps_objects v w w' \<longleftrightarrow> (\<forall>rp. gv_commit v w rp \<subseteq>\<^sub>m gv_commit v w' rp
     \<and> gv_tree v w rp \<subseteq>\<^sub>m gv_tree v w' rp \<and> gv_blob v w rp \<subseteq>\<^sub>m gv_blob v w' rp)"

definition keeps_all :: "'w git_view \<Rightarrow> 'w \<Rightarrow> 'w \<Rightarrow> bool" where
  "keeps_all v w w' \<longleftrightarrow> keeps_objects v w w' \<and> gv_head v w' = gv_head v w"

definition same_repos :: "'w git_view \<Rightarrow> 'w \<Rightarrow> 'w \<Rightarrow> bool" where
  "same_repos v w w' \<longleftrightarrow> gv_head v w' = gv_head v w \<and> gv_commit v w' = gv_commit v w
     \<and> gv_tree v w' = gv_tree v w \<and> gv_blob v w' = gv_blob v w"

definition entry_files :: "'w git_view \<Rightarrow> 'w \<Rightarrow> repo_id \<Rightarrow> tree_entry list \<Rightarrow> string \<Rightarrow> string option" where
  "entry_files v w rp entries = map_of (map (\<lambda>e. (te_path e, the (gv_blob v w rp (te_sha e)))) entries)"

text \<open>
  The promises of the server while no one else writes to it. A reference read is the head of the
  branch; the contents read for a path are those of the head; a stored object is there under the
  hash that is returned, a tree being the base tree with the entries put over it; and moving a
  branch moves that branch only.
\<close>

definition reads_heads :: "'w github_connector \<Rightarrow> 'w gh_client \<Rightarrow> 'w git_view \<Rightarrow> bool" where
  "reads_heads c cl v \<longleftrightarrow>
     (\<forall>owner repo branch w x w'. gh_get_ref cl owner repo (''refs/heads/'' @ branch) w = (x, w') \<longrightarrow>
        same_repos v w w' \<and> (\<forall>sha. x = Inr sha \<longrightarrow> gv_head v w (owner, repo) branch = Some sha))
   \<and> (\<forall>owner repo branch w x w'.
        gc_http_get c (gh_base_url cl @ ''repos/'' @ owner @ ''/'' @ repo @ ''/git/refs/heads/'' @ branch) w = (x, w') \<longrightarrow>
        same_repos v w w' \<and> (\<forall>r sha rest. x = Inr r \<longrightarrow> rr_status r = 200 \<longrightarrow> rr_refs r = Inr (sha # rest)
          \<longrightarrow> gv_head v w (owner, repo) branch = Some sha))"

definition reads_contents :: "'w gh_client \<Rightarrow> 'w git_view \<Rightarrow> bool" where
  "reads_contents cl v \<longleftrightarrow>
     (\<forall>owner repo sha w x w'. gh_get_commit cl owner repo sha w = (x, w') \<longrightarrow>
        same_repos v w w' \<and> (\<forall>tree. x = Inr tree \<longrightarrow> gv_commit v w (owner, repo) sha = Some tree
          \<and> gv_tree v w (owner, repo) tree \<noteq> None))
   \<and> (\<forall>owner repo path branch w x w'. gh_get_contents cl owner repo path branch w = (x, w') \<longrightarrow>
        same_repos v w w' \<and> (\<forall>f content m. x = Inr f \<longrightarrow> gf_content f = Some (Inr content)
          \<longrightarrow> branch_files v w (owner, repo) branch = Some m \<longrightarrow> m path = Some content))"

definition stores_objects :: "'w gh_client \<Rightarrow> 'w git_view \<Rightarrow> bool" where
  "stores_objects cl v \<longleftrightarrow>
     (\<forall>owner repo content w x w'. gh_create_blob cl owner repo content w = (x, w') \<longrightarrow>
        keeps_all v w w' \<and> (\<forall>sha. x = Inr sha \<longrightarrow> gv_blob v w' (owner, repo) sha = Some content))
   \<and> (\<forall>owner repo base entries w x w' m tree. gh_create_tree cl owner repo base entries w = (x, w') \<longrightarrow>
        keeps_all v w w' \<and> (x = Inr tree \<longrightarrow> gv_tree v w (owner, repo) base = Some m \<longrightarrow> distinct (map te_path entries)
          \<longrightarrow> (\<forall>e \<in> set entries. gv_blob v w (owner, repo) (te_sha e) \<noteq> None)
          \<longrightarrow> gv_tree v w' (owner, repo) tree = Some (m ++ entry_files v w (owner, repo) entries)))
   \<and> (\<forall>owner repo message tree parent w x w'. gh_create_commit cl owner repo message tree parent w = (x, w') \<longrightarrow>
        keeps_all v w w' \<and> (\<forall>sha. x = Inr sha \<longrightarrow> gv_commit v w' (owner, repo) sha = Some tree))"

definition moves_heads :: "'w gh_client \<Rightarrow> 'w git_view \<Rightarrow> bool" where
  "moves_heads cl v \<longleftrightarrow>
     (\<forall>owner repo branch sha force w x w'. gh_update_ref cl owner repo (''refs/heads/'' @ branch) sha force w = (x, w') \<longrightarrow>
        keeps_objects v w w' \<and> gv_head v w' = (case x of
            Inl _ \<Rightarrow> gv_head v w
          | Inr _ \<Rightarrow> (gv_head v w)((owner, repo) := (gv_head v w (owner, repo))(branch \<mapsto> sha))))"

definition git_laws :: "'w github_connector \<Rightarrow> 'w gh_client \<Rightarrow> 'w git_view \<Rightarrow> bool" where
  "git_laws c cl v \<longleftrightarrow> reads_heads c cl v \<and> reads_contents cl v \<and> stores_objects cl v \<and> moves_heads cl v"

lemma keeps_all_refl [simp]: "keeps_all v w w"
  by (simp add: keeps_all_def keeps_objects_def map_le_def)

lemma same_repos_keeps: "same_repos v w w' \<Longrightarrow> keeps_all v w w'"
  by (simp add: same_repos_def keeps_all_def keeps_objects_def)

lemma same_repos_trans: "same_repos v a b \<Longrightarrow> same_repos v b c \<Longrightarrow> same_repos v a c"
  by (simp add: same_repos_def)

lemma keeps_objects_trans: "keeps_objects v a b \<Longrightarrow> keeps_objects v b c \<Longrightarrow> keeps_objects v a c"
  unfolding keeps_objects_def by (meson map_le_trans)

lemma keeps_all_trans: "keeps_all v a b \<Longrightarrow> keeps_all v b c \<Longrightarrow> keeps_all v a c"
  unfolding keeps_all_def using keeps_objects_trans by metis

lemma map_le_Some: "m \<subseteq>\<^sub>m m' \<Longrightarrow> m k = Some x \<Longrightarrow> m' k = Some x"
  unfolding map_le_def by (metis domI)

lemma keeps_objectsD:
  assumes "keeps_objects v w w'"
  shows "gv_commit v w rp k = Some t \<Longrightarrow> gv_commit v w' rp k = Some t"
    and "gv_tree v w rp k = Some m \<Longrightarrow> gv_tree v w' rp k = Some m"
    and "gv_blob v w rp k = Some x \<Longrightarrow> gv_blob v w' rp k = Some x"
  using assms unfolding keeps_objects_def by (blast intro: map_le_Some)+

lemma branch_files_kept:
  "keeps_all v w w' \<Longrightarrow> branch_files v w rp branch = Some m \<Longrightarrow> branch_files v w' rp branch = Some m"
  by (auto simp: branch_files_def keeps_all_def bind_eq_Some_conv dest: keeps_objectsD)

lemma entry_files_kept:
  assumes "keeps_objects v w w'" "\<forall>e \<in> set es. gv_blob v w rp (te_sha e) \<noteq> None"
  shows "entry_files v w' rp es = entry_files v w rp es"
proof -
  have "map (\<lambda>e. (te_path e, the (gv_blob v w' rp (te_sha e)))) es = map (\<lambda>e. (te_path e, the (gv_blob v w rp (te_sha e)))) es"
    using assms keeps_objectsD(3) [OF assms(1)] by fastforce
  then show ?thesis by (simp only: entry_files_def)
qed

text \<open>The files of the input, at the paths the connector gives them.\<close>

definition input_files :: "string \<Rightarrow> go_map \<Rightarrow> string \<Rightarrow> string option" where
  "input_files path_prefix files = map_of (map (\<lambda>(p, v). (path_prefix @ p, string_or_empty v)) files)"

lemma input_files_Cons [simp]:
  "input_files path_prefix ((p, v) # fs) = (input_files path_prefix fs)(path_prefix @ p \<mapsto> string_or_empty v)"
  by (simp add: input_files_def)

lemma input_files_None: "p \<notin> fst ` set fs \<Longrightarrow> input_files path_prefix fs (path_prefix @ p) = None"
  by (force simp: input_files_def map_of_eq_None_iff)

text \<open>What the loop over the files has done when it has come to its end.\<close>

definition loop_stored ::
  "'w git_view \<Rightarrow> repo_id \<Rightarrow> string \<Rightarrow> go_map \<Rightarrow> (string \<Rightarrow> string option) \<Rightarrow> 'w \<Rightarrow> 'w \<Rightarrow> tree_entry list \<Rightarrow> bool" where
  "loop_stored v rp path_prefix files old w w' new \<longleftrightarrow> keeps_all v w w'
     \<and> (\<forall>e \<in> set new. gv_blob v w' rp (te_sha e) \<noteq> None) \<and> distinct (map te_path new)
     \<and> te_path ` set new \<subseteq> (\<lambda>(p, _). path_prefix @ p) ` set files
     \<and> old ++ entry_files v w' rp new = old ++ input_files path_prefix files"

lemma loop_stored_skip:
  assumes "loop_stored v rp pre fs old w1 w2 new" "keeps_all v w w1" "old (pre @ p) = Some content"
    "p \<notin> fst ` set fs"
  shows "loop_stored v rp pre ((p, GStr content) # fs) old w w2 new"
proof -
  have "old ++ (input_files pre fs)(pre @ p \<mapsto> content) = old ++ input_files pre fs"
    using assms(3) input_files_None [OF assms(4), of pre] by (auto simp: fun_eq_iff map_add_def split: option.splits)
  then show ?thesis
    using assms(1,2) by (auto simp: loop_stored_def string_or_empty_def intro: keeps_all_trans)
qed

lemma loop_stored_blob:
  assumes "loop_stored v rp pre fs old w1 w2 new" "keeps_all v w w1" "gv_blob v w1 rp sha = Some content"
    "p \<notin> fst ` set fs"
  shows "loop_stored v rp pre ((p, GStr content) # fs) old w w2
     (\<lparr>te_path = pre @ p, te_mode = ''100644'', te_type = ''blob'', te_sha = sha\<rparr> # new)"
proof -
  let ?e = "\<lparr>te_path = pre @ p, te_mode = ''100644'', te_type = ''blob'', te_sha = sha\<rparr>"
  have b: "gv_blob v w2 rp sha = Some content"
    using assms(1,3) by (auto simp: loop_stored_def keeps_all_def dest: keeps_objectsD)
  then have "entry_files v w2 rp (?e # new) = (entry_files v w2 rp new)(pre @ p \<mapsto> content)"
    by (simp add: entry_files_def)
  moreover have "pre @ p \<notin> te_path ` set new"
    using assms(1,4) by (force simp: loop_stored_def)
  ultimately show ?thesis
    using assms(1,2) b by (auto simp: loop_stored_def string_or_empty_def intro: keeps_all_trans)
qed

lemma commit_loop_stores:
  assumes "commit_loop cl owner repo branch pre files entries ch s = (Inr (es, ch'), s')"
    "reads_contents cl v" "stores_objects cl v" "distinct (map fst files)"
    "branch_files v (gs_world s) (owner, repo) branch = Some old"
  shows "list_all (\<lambda>(_, x). as_string x \<noteq> None) files \<and>
    (\<exists>new. es = entries @ new \<and> (ch' \<longleftrightarrow> ch \<or> new \<noteq> [])
      \<and> loop_stored v (owner, repo) pre files old (gs_world s) (gs_world s') new)"
  using assms(1,4,5)
proof (induction files arbitrary: entries ch s)
  case Nil
  then show ?case by (simp add: loop_stored_def entry_files_def input_files_def)
next
  case (Cons pv fs)
  obtain p x where pv: "pv = (p, x)" by (cases pv)
  have fresh: "p \<notin> fst ` set fs" "distinct (map fst fs)" using Cons.prems(2) pv by auto
  have contents: "same_repos v w w' \<and> (\<forall>f content m. y = Inr f \<longrightarrow> gf_content f = Some (Inr content)
      \<longrightarrow> branch_files v w (owner, repo) branch = Some m \<longrightarrow> m (pre @ p) = Some content)"
    if "gh_get_contents cl owner repo (pre @ p) branch w = (y, w')" for w y w'
    using assms(2) [unfolded reads_contents_def, THEN conjunct2, rule_format, OF that] by blast
  obtain y s1 where y: "commit_file cl owner repo branch pre (p, x) s = (y, s1)" by (metis surj_pair)
  obtain r where cf: "commit_file cl owner repo branch pre (p, x) s = (Inr r, s1)"
    using Cons.prems(1) pv y by (cases y) simp_all
  have rest: "commit_loop cl owner repo branch pre fs (entries @ (case r of None \<Rightarrow> [] | Some e \<Rightarrow> [e])) (ch \<or> r \<noteq> None) s1
        = (Inr (es, ch'), s')"
    using Cons.prems(1) pv cf by (cases r) simp_all
  from cf show ?case
  proof (cases rule: commit_file_cases)
    case (same content f)
    have k: "keeps_all v (gs_world s) (gs_world s1)" "old (pre @ p) = Some content"
      using contents [OF gh_call_run [OF same(4), THEN conjunct1]] same(3) Cons.prems(3) by (auto intro: same_repos_keeps)
    obtain new where "list_all (\<lambda>(_, x). as_string x \<noteq> None) fs" "es = entries @ new" "ch' \<longleftrightarrow> ch \<or> new \<noteq> []"
        "loop_stored v (owner, repo) pre fs old (gs_world s1) (gs_world s') new"
      using Cons.IH [OF rest fresh(2) branch_files_kept [OF k(1) Cons.prems(3)]] same(2) by auto
    then show ?thesis using loop_stored_skip [of v _ pre fs old, OF _ k(1) k(2) fresh(1)] same(1) pv by auto
  next
    case (blob content y s0 sha)
    have k0: "keeps_all v (gs_world s) (gs_world s0)"
      using contents [OF gh_call_run [OF blob(3), THEN conjunct1]] by (auto intro: same_repos_keeps)
    have "keeps_all v (gs_world s0) (gs_world s1) \<and> gv_blob v (gs_world s1) (owner, repo) sha = Some content"
      using assms(3) [unfolded stores_objects_def, THEN conjunct1, rule_format, OF gh_call_run [OF blob(4), THEN conjunct1]]
      by blast
    then have k: "keeps_all v (gs_world s) (gs_world s1)" "gv_blob v (gs_world s1) (owner, repo) sha = Some content"
      using keeps_all_trans [OF k0] by auto
    let ?e = "\<lparr>te_path = pre @ p, te_mode = ''100644'', te_type = ''blob'', te_sha = sha\<rparr>"
    obtain new where "list_all (\<lambda>(_, x). as_string x \<noteq> None) fs" "es = entries @ (?e # new)" "ch'"
        "loop_stored v (owner, repo) pre fs old (gs_world s1) (gs_world s') new"
      using Cons.IH [OF rest fresh(2) branch_files_kept [OF k(1) Cons.prems(3)]] blob(2) by auto
    then show ?thesis using loop_stored_blob [of v _ pre fs old, OF _ k(1) k(2) fresh(1)] blob(1) pv by auto
  qed
qed

lemma commit_loop_fails:
  assumes "commit_loop cl owner repo branch path_prefix files entries changed s = (l, s')" "l = Inl (Ret r)"
  shows "cr_status r \<noteq> ''success''"
  using assms
proof (induction files arbitrary: entries changed s)
  case (Cons pv fs)
  then show ?case
    by (fastforce simp: commit_file_def Let_def terminal_error_def split: prod.splits sum.splits option.splits if_splits)
qed auto

lemma branch_head_reads:
  assumes "branch_head c cl owner repo branch s = (Inr sha, s')" "reads_heads c cl v"
  shows "same_repos v (gs_world s) (gs_world s') \<and> gv_head v (gs_world s) (owner, repo) branch = Some sha"
proof -
  let ?ref = "''refs/heads/'' @ branch"
  let ?url = "gh_base_url cl @ ''repos/'' @ owner @ ''/'' @ repo @ ''/git/refs/heads/'' @ branch"
  obtain x s1 where x: "gh_call (Ev_get_ref owner repo ?ref) (gh_get_ref cl owner repo ?ref) s = (x, s1)" by (metis surj_pair)
  note k1 = assms(2) [unfolded reads_heads_def, THEN conjunct1, rule_format, OF gh_call_run [OF x, THEN conjunct1]]
  show ?thesis
  proof (cases x)
    case (Inr a)
    then show ?thesis using assms(1) x k1 by (simp add: branch_head_def Let_def)
  next
    case (Inl a)
    then have "get_gitea_ref c cl owner repo branch s1 = (Inr sha, s')"
      using assms(1) x by (auto simp: branch_head_def Let_def split: prod.splits if_splits sum.splits)
    moreover obtain y s2 where y: "gh_call (Ev_http_get ?url) (gc_http_get c ?url) s1 = (y, s2)" by (metis surj_pair)
    ultimately obtain r rest where r: "y = Inr r" "rr_status r = 200" "rr_refs r = Inr (sha # rest)" "s' = s2"
      by (auto simp: get_gitea_ref_def Let_def split: sum.splits if_splits list.splits)
    note k2 = assms(2) [unfolded reads_heads_def, THEN conjunct2, rule_format, OF gh_call_run [OF y, THEN conjunct1]]
    show ?thesis using k1 k2 r by (auto simp: same_repos_def)
  qed
qed

text \<open>The tree, the commit and the branch, when all three calls succeed.\<close>

lemma commit_entries_installs:
  assumes "commit_entries cl owner repo branch message head_sha base entries s = (r, s')" "cr_status r = ''success''"
    "stores_objects cl v" "moves_heads cl v" "gv_tree v (gs_world s) (owner, repo) base = Some old"
    "distinct (map te_path entries)" "\<forall>e \<in> set entries. gv_blob v (gs_world s) (owner, repo) (te_sha e) \<noteq> None"
  shows "branch_files v (gs_world s') (owner, repo) branch = Some (old ++ entry_files v (gs_world s) (owner, repo) entries)
    \<and> keeps_objects v (gs_world s) (gs_world s')
    \<and> (\<forall>rp b. (rp, b) \<noteq> ((owner, repo), branch) \<longrightarrow> gv_head v (gs_world s') rp b = gv_head v (gs_world s) rp b)"
proof -
  let ?rp = "(owner, repo)"
  obtain t s1 where t: "gh_call (Ev_create_tree owner repo base entries) (gh_create_tree cl owner repo base entries) s = (t, s1)"
    by (metis surj_pair)
  obtain tree where tree: "t = Inr tree"
    using assms(1,2) t by (cases t) (auto simp: commit_entries_def terminal_error_def split: prod.splits)
  obtain x s2 where x: "gh_call (Ev_create_commit owner repo message tree head_sha)
      (gh_create_commit cl owner repo message tree head_sha) s1 = (x, s2)" by (metis surj_pair)
  obtain sha where sha: "x = Inr sha"
    using assms(1,2) t tree x by (cases x) (auto simp: commit_entries_def terminal_error_def split: prod.splits)
  let ?ref = "''refs/heads/'' @ branch"
  obtain u s3 where u: "gh_call (Ev_update_ref owner repo ?ref sha False) (gh_update_ref cl owner repo ?ref sha False) s2 = (u, s3)"
    by (metis surj_pair)
  have s': "u = Inr ()" "s' = s3"
    using assms(1,2) t tree x sha u
    by (auto simp: commit_entries_def Let_def terminal_error_def split: prod.splits sum.splits)
  note stores = assms(3) [unfolded stores_objects_def]
  have k1: "keeps_all v (gs_world s) (gs_world s1)"
      "gv_tree v (gs_world s1) ?rp tree = Some (old ++ entry_files v (gs_world s) ?rp entries)"
    using stores [THEN conjunct2, THEN conjunct1, rule_format, OF gh_call_run [OF t, THEN conjunct1]] tree assms(5-7)
    by blast+
  have k2: "keeps_all v (gs_world s1) (gs_world s2)" "gv_commit v (gs_world s2) ?rp sha = Some tree"
    using stores [THEN conjunct2, THEN conjunct2, rule_format, OF gh_call_run [OF x, THEN conjunct1]] sha by blast+
  have k3: "keeps_objects v (gs_world s2) (gs_world s3)"
      "gv_head v (gs_world s3) = (gv_head v (gs_world s2))(?rp := (gv_head v (gs_world s2) ?rp)(branch \<mapsto> sha))"
    using assms(4) [unfolded moves_heads_def, rule_format, OF gh_call_run [OF u, THEN conjunct1]] s' by auto
  have k12: "keeps_all v (gs_world s) (gs_world s2)" using k1(1) k2(1) by (rule keeps_all_trans)
  have "gv_tree v (gs_world s3) ?rp tree = Some (old ++ entry_files v (gs_world s) ?rp entries)"
    using k1(2) k2(1) k3(1) by (auto simp: keeps_all_def dest: keeps_objectsD)
  moreover have "gv_commit v (gs_world s3) ?rp sha = Some tree"
    using keeps_objectsD(1) [OF k3(1) k2(2)] .
  ultimately have "branch_files v (gs_world s3) ?rp branch = Some (old ++ entry_files v (gs_world s) ?rp entries)"
    using k3(2) by (simp add: branch_files_def)
  moreover have "keeps_objects v (gs_world s) (gs_world s3)"
    using k12 k3(1) by (auto simp: keeps_all_def intro: keeps_objects_trans)
  ultimately show ?thesis using s'(2) k3(2) k12 by (auto simp: keeps_all_def)
qed

lemma commit_to_installs:
  assumes "git_laws c cl v" "commit_to c cl owner repo branch path_prefix files message s = (Ret r, s')"
    "cr_status r = ''success''" "distinct (map fst files)"
  shows "list_all (\<lambda>(_, x). as_string x \<noteq> None) files
    \<and> (\<exists>old. branch_files v (gs_world s) (owner, repo) branch = Some old
        \<and> branch_files v (gs_world s') (owner, repo) branch = Some (old ++ input_files path_prefix files))
    \<and> (\<forall>rp b. (rp, b) \<noteq> ((owner, repo), branch) \<longrightarrow> gv_head v (gs_world s') rp b = gv_head v (gs_world s) rp b)"
proof -
  let ?rp = "(owner, repo)"
  note laws = assms(1) [unfolded git_laws_def]
  obtain h s1 where h: "branch_head c cl owner repo branch s = (h, s1)" by (metis surj_pair)
  obtain head_sha where head: "h = Inr head_sha"
  proof (cases h)
    case (Inl a)
    then have "r = a" using assms(2) h by (simp add: commit_to_def)
    moreover have "cr_status a \<noteq> ''success''"
      using h Inl by (auto simp: branch_head_def Let_def terminal_error_def split: prod.splits sum.splits if_splits)
    ultimately show ?thesis using assms(3) by simp
  qed
  have k1: "same_repos v (gs_world s) (gs_world s1)" "gv_head v (gs_world s) ?rp branch = Some head_sha"
    using branch_head_reads [OF h [unfolded head]] laws by blast+
  obtain b s2 where b: "gh_call (Ev_get_commit owner repo head_sha) (gh_get_commit cl owner repo head_sha) s1 = (b, s2)"
    by (metis surj_pair)
  obtain base where base: "b = Inr base"
    using assms(2,3) h head b by (cases b) (auto simp: commit_to_def terminal_error_def split: prod.splits)
  have k2: "same_repos v (gs_world s1) (gs_world s2)" "gv_commit v (gs_world s1) ?rp head_sha = Some base"
      "gv_tree v (gs_world s1) ?rp base \<noteq> None"
    using laws [THEN conjunct2, THEN conjunct1, unfolded reads_contents_def, THEN conjunct1, rule_format,
      OF gh_call_run [OF b, THEN conjunct1]] base by blast+
  note same = same_repos_trans [OF k1(1) k2(1)]
  obtain old where old: "gv_tree v (gs_world s2) ?rp base = Some old" using k2(1,3) by (auto simp: same_repos_def)
  have files2: "branch_files v (gs_world s2) ?rp branch = Some old"
    using k1 k2 old by (simp add: same_repos_def branch_files_def)
  have files: "branch_files v (gs_world s) ?rp branch = Some old"
    using files2 same by (simp add: same_repos_def branch_files_def)
  obtain l s3 where l: "commit_loop cl owner repo branch path_prefix files [] False s2 = (l, s3)" by (metis surj_pair)
  have not_stop: "cr_status r' \<noteq> ''success''" if "l = Inl (Ret r')" for r'
    using commit_loop_fails [OF l that] .
  obtain new ch where new: "l = Inr (new, ch)"
    using assms(2,3) h head b base l not_stop by (cases l) (auto simp: commit_to_def)
  have stored: "list_all (\<lambda>(_, x). as_string x \<noteq> None) files" "ch \<longleftrightarrow> new \<noteq> []"
      "loop_stored v ?rp path_prefix files old (gs_world s2) (gs_world s3) new"
    using commit_loop_stores [OF l [unfolded new] _ _ assms(4) files2] laws by auto
  note st = stored(3) [unfolded loop_stored_def]
  show ?thesis
  proof (cases ch)
    case False
    then have "s' = s3" using assms(2) h head b base l new by (simp add: commit_to_def)
    moreover have "old ++ input_files path_prefix files = old" using st False stored(2) by (simp add: entry_files_def)
    ultimately show ?thesis
      using stored(1) files branch_files_kept [OF _ files2] st same by (auto simp: keeps_all_def same_repos_def)
  next
    case True
    then have ce: "commit_entries cl owner repo branch message head_sha base new s3 = (r, s')"
      using assms(2) h head b base l new by (auto simp: commit_to_def split: prod.splits)
    have "gv_tree v (gs_world s3) ?rp base = Some old"
      using st old by (auto simp: keeps_all_def dest: keeps_objectsD)
    then have "branch_files v (gs_world s') ?rp branch = Some (old ++ entry_files v (gs_world s3) ?rp new)
        \<and> (\<forall>rp b. (rp, b) \<noteq> (?rp, branch) \<longrightarrow> gv_head v (gs_world s') rp b = gv_head v (gs_world s3) rp b)"
      using commit_entries_installs [OF ce assms(3)] laws st by blast
    then show ?thesis using stored(1) files st same by (auto simp: keeps_all_def same_repos_def)
  qed
qed

section \<open>What a commit leaves on the branch\<close>


text \<open>
  A server that keeps the promises: trees and commits are numbered in the order they are stored,
  and a blob is its own name.
\<close>

record mem_server =
  ms_trees :: "(string \<times> string) list list"
  ms_commits :: "string list"
  ms_heads :: "((repo_id \<times> string) \<times> string) list"

definition nth_opt :: "'a list \<Rightarrow> string \<Rightarrow> 'a option" where
  "nth_opt xs sha = (if length sha < length xs then Some (xs ! length sha) else None)"

definition mem_view :: "mem_server git_view" where
  "mem_view = \<lparr>gv_head = \<lambda>w rp b. map_of (ms_heads w) (rp, b),
     gv_commit = \<lambda>w rp. nth_opt (ms_commits w),
     gv_tree = \<lambda>w rp sha. map_option map_of (nth_opt (ms_trees w) sha),
     gv_blob = \<lambda>w rp. Some\<rparr>"

definition mem_name :: "nat \<Rightarrow> string" where
  "mem_name n = replicate n (CHR ''x'')"

definition mem_client :: "mem_server gh_client" where
  "mem_client = \<lparr>gh_base_url = [],
     gh_create_repo = \<lambda>_ _ w. (Inl (Some 403, ''forbidden''), w),
     gh_delete_repo = \<lambda>_ _ w. (Inl (Some 403, ''forbidden''), w),
     gh_create_pr = \<lambda>_ _ _ w. (Inl (Some 403, ''forbidden''), w),
     gh_add_collaborator = \<lambda>_ _ _ w. (Inl (Some 403, ''forbidden''), w),
     gh_create_hook = \<lambda>_ _ _ _ w. (Inl (Some 403, ''forbidden''), w),
     gh_get_ref = \<lambda>o1 r ref w. (case map_of (ms_heads w) ((o1, r), trim_prefix ref ''refs/heads/'') of
        None \<Rightarrow> Inl (Some 404, ''not found'') | Some sha \<Rightarrow> Inr sha, w),
     gh_get_commit = \<lambda>o1 r sha w. (case nth_opt (ms_commits w) sha of
        None \<Rightarrow> Inl (Some 404, ''not found'')
      | Some tree \<Rightarrow> if nth_opt (ms_trees w) tree = None then Inl (Some 404, ''not found'') else Inr tree, w),
     gh_get_contents = \<lambda>o1 r path b w. (case branch_files mem_view w (o1, r) b of
        None \<Rightarrow> Inl (Some 404, ''not found'')
      | Some m \<Rightarrow> (case m path of None \<Rightarrow> Inl (Some 404, ''not found'')
          | Some x \<Rightarrow> Inr \<lparr>gf_content = Some (Inr x), gf_sha = x\<rparr>), w),
     gh_create_blob = \<lambda>_ _ content w. (Inr content, w),
     gh_create_tree = \<lambda>_ _ base entries w. (case nth_opt (ms_trees w) base of
        None \<Rightarrow> (Inl (Some 422, ''no such tree''), w)
      | Some m \<Rightarrow> (Inr (mem_name (length (ms_trees w))),
          w\<lparr>ms_trees := ms_trees w @ [map (\<lambda>e. (te_path e, te_sha e)) entries @ m]\<rparr>)),
     gh_create_commit = \<lambda>_ _ _ tree _ w.
       (Inr (mem_name (length (ms_commits w))), w\<lparr>ms_commits := ms_commits w @ [tree]\<rparr>),
     gh_update_ref = \<lambda>o1 r ref sha _ w.
       (Inr (), w\<lparr>ms_heads := alist_put ((o1, r), trim_prefix ref ''refs/heads/'') sha (ms_heads w)\<rparr>)\<rparr>"

definition mem_connector :: "mem_server github_connector" where
  "mem_connector = \<lparr>gc_base = \<lparr>b_type = Type_git, b_tech = ''github''\<rparr>, gc_client = Some mem_client,
     gc_http_get = \<lambda>_ w. (Inl ''connection refused'', w), gc_closed = False\<rparr>"

lemma nth_opt_append: "nth_opt xs \<subseteq>\<^sub>m nth_opt (xs @ ys)"
  by (auto simp: map_le_def nth_opt_def nth_append split: if_splits)

lemma map_option_le: "f \<subseteq>\<^sub>m g \<Longrightarrow> (\<lambda>k. map_option h (f k)) \<subseteq>\<^sub>m (\<lambda>k. map_option h (g k))"
  by (auto simp: map_le_def dom_def)

lemma nth_opt_last: "nth_opt (xs @ [x]) (mem_name (length xs)) = Some x"
  by (simp add: nth_opt_def mem_name_def)

lemma trim_heads [simp]:
  "trim_prefix (CHR ''r'' # CHR ''e'' # CHR ''f'' # CHR ''s'' # CHR ''/'' # CHR ''h'' # CHR ''e'' # CHR ''a'' # CHR ''d'' # CHR ''s''
     # CHR ''/'' # branch) ''refs/heads/'' = branch"
  using trim_prefix_append [of "''refs/heads/''" branch] by simp

lemma same_repos_same [simp]: "same_repos v w w"
  by (simp add: same_repos_def)

lemma mem_reads: "reads_heads mem_connector mem_client mem_view" "reads_contents mem_client mem_view"
  by (auto simp: reads_heads_def reads_contents_def mem_connector_def mem_client_def mem_view_def
      split: option.splits if_splits)

lemma mem_keeps:
  "keeps_all mem_view w (w\<lparr>ms_trees := ms_trees w @ t\<rparr>)" "keeps_all mem_view w (w\<lparr>ms_commits := ms_commits w @ k\<rparr>)"
  "keeps_objects mem_view w (w\<lparr>ms_heads := hs\<rparr>)"
  by (simp_all add: keeps_all_def keeps_objects_def mem_view_def nth_opt_append map_option_le)

lemma mem_stores: "stores_objects mem_client mem_view"
  by (auto simp: stores_objects_def mem_client_def mem_keeps split: option.splits)
    (auto simp: mem_view_def nth_opt_last entry_files_def)

lemma mem_moves: "moves_heads mem_client mem_view"
  by (auto simp: moves_heads_def mem_client_def mem_keeps) (auto simp: mem_view_def fun_eq_iff)

lemma mem_laws: "git_laws mem_connector mem_client mem_view"
  using mem_reads mem_stores mem_moves by (simp add: git_laws_def)

text \<open>A repository whose branch \<open>main\<close> has two files; the commit finds one in place and adds one.\<close>

definition mem_start :: "mem_server gh_state" where
  "mem_start = \<lparr>gs_world = \<lparr>ms_trees = [[(''t/a.yaml'', ''one''), (''README'', ''two'')]], ms_commits = [[]],
     ms_heads = [(((''acme'', ''infra''), ''main''), [])]\<rparr>, gs_trace = []\<rparr>"

definition mem_input :: go_map where
  "mem_input = [(''repo'', GStr ''acme/infra''), (''branch'', GStr ''main''), (''path_prefix'', GStr ''t/''),
     (''files'', GMap [(''a.yaml'', GStr ''one''), (''b.yaml'', GStr ''new'')]), (''message'', GStr ''m''),
     (''idempotency_key'', GStr ''k'')]"

lemma mem_commit:
  "commit_input mem_input ''acme'' ''infra'' ''main'' ''t/'' [(''a.yaml'', GStr ''one''), (''b.yaml'', GStr ''new'')] ''m''"
  "\<exists>s'. gh_commit_files mem_connector mem_client mem_input mem_start
     = (Ret (success_result (Some [(''commit_sha'', GStr ''x''), (''changed'', GBool True)])), s')"
proof -
  show "commit_input mem_input ''acme'' ''infra'' ''main'' ''t/'' [(''a.yaml'', GStr ''one''), (''b.yaml'', GStr ''new'')] ''m''"
    by (simp add: commit_input_def mem_input_def go_get_def split_repo_def)
  have "fst (gh_commit_files mem_connector mem_client mem_input mem_start)
     = Ret (success_result (Some [(''commit_sha'', GStr ''x''), (''changed'', GBool True)]))"
    by code_simp
  then show "\<exists>s'. gh_commit_files mem_connector mem_client mem_input mem_start
     = (Ret (success_result (Some [(''commit_sha'', GStr ''x''), (''changed'', GBool True)])), s')"
    by (metis prod.collapse)
qed


theorem branch_moves_last_witness:
  "\<exists>out s' evs. github_execute \<lparr>gl_new = mem_client, gl_enterprise = Inl, gl_token = \<lambda>_ cl. cl, gl_http_get = gc_http_get mem_connector\<rparr>
       mem_connector None ''commit_files'' mem_input [] mem_start = (out, s')
     \<and> gs_trace s' = gs_trace mem_start @ evs \<and> (\<exists>e \<in> set evs. is_update e)
     \<and> (\<exists>owner repo branch path_prefix files message x. commit_input mem_input owner repo branch path_prefix files message
          \<and> moves_branch owner repo branch path_prefix files message evs x)"
proof -
  let ?lib = "\<lparr>gl_new = mem_client, gl_enterprise = Inl, gl_token = \<lambda>_ cl. cl, gl_http_get = gc_http_get mem_connector\<rparr>"
  obtain out s' where run: "github_execute ?lib mem_connector None ''commit_files'' mem_input [] mem_start = (out, s')"
    by (metis surj_pair)
  have "changed_result (fst (github_execute ?lib mem_connector None ''commit_files'' mem_input [] mem_start))
      \<and> list_ex is_update (gs_trace (snd (github_execute ?lib mem_connector None ''commit_files'' mem_input [] mem_start)))"
    by code_simp
  then have "changed_result out" "\<exists>e \<in> set (gs_trace s'). is_update e" using run by (simp_all add: list_ex_iff)
  then show ?thesis using branch_moves_last [OF run] run by (fastforce simp: mem_start_def)
qed

end
