(* ===== verification/Git_Writes.thy ===== *)
theory Git_Writes
  imports Git_Gitea Git_Server
begin

text \<open>
  What the Gitea connector writes. Contents are sent in base64 and read back as they were
  (\<open>b64_roundtrip\<close>); every request of a commit that is not a read writes one file of the input with
  its content, and a reported success means that every file was found in place or written. Each
  file is a commit of its own, so that a commit of several files can end half done.
\<close>

section \<open>Base64\<close>

lemma b64_value_char: "n < 64 \<Longrightarrow> b64_value (b64_char n) = Some n"
proof -
  have "\<forall>n \<in> {0..<64}. b64_value (b64_char n) = Some n" by code_simp
  then show "n < 64 \<Longrightarrow> b64_value (b64_char n) = Some n" by simp
qed

lemma b64_char_ok: "n < 64 \<Longrightarrow> b64_char n \<notin> {CHR ''='', CHR 0x0A, CHR 0x0D}"
proof -
  have "\<forall>n \<in> {0..<64}. b64_char n \<notin> {CHR ''='', CHR 0x0A, CHR 0x0D}" by code_simp
  then show "n < 64 \<Longrightarrow> b64_char n \<notin> {CHR ''='', CHR 0x0A, CHR 0x0D}" by simp
qed

lemma six_bits:
  fixes a b :: nat
  assumes "a < 256" "b < 256"
  shows "a div 4 < 64" "a mod 4 * 16 < 64" "a mod 4 * 16 + b div 16 < 64" "a mod 16 * 4 < 64" "a mod 16 * 4 + b div 64 < 64"
    "a mod 64 < 64"
  using assms by linarith+

lemma small_quotients: "(n :: nat) < 256 \<Longrightarrow> n div 16 < 16 \<and> n div 64 < 4"
  by linarith

lemma b64_quads_roundtrip:
  "\<forall>n \<in> set xs. n < 256 \<Longrightarrow> b64_decode_quads (b64_encode_bytes xs) = Some xs"
proof (induction xs rule: b64_encode_bytes.induct)
  case (2 a)
  then show ?case using six_bits [of a a] by (simp add: b64_value_char)
next
  case (3 a b)
  have "b64_char (b mod 16 * 4) \<noteq> CHR ''=''" using 3 b64_char_ok [of "b mod 16 * 4"] six_bits(4) [of b b] by simp
  then show ?case using 3 six_bits [of a b] six_bits [of b b] small_quotients [of b] by (simp add: b64_value_char)
next
  case (4 a b c r)
  have "b64_char (c mod 64) \<noteq> CHR ''=''" using b64_char_ok [of "c mod 64"] by simp
  then show ?case using 4 six_bits [of a b] six_bits [of b c] small_quotients [of b] small_quotients [of c]
    by (simp add: b64_value_char)
qed simp

lemma b64_encode_clean: "\<forall>n \<in> set xs. n < 256 \<Longrightarrow> c \<in> set (b64_encode_bytes xs) \<Longrightarrow> c \<noteq> CHR 0x0A \<and> c \<noteq> CHR 0x0D"
proof (induction xs rule: b64_encode_bytes.induct)
  case (2 a)
  then show ?case using b64_char_ok [of "a div 4"] b64_char_ok [of "a mod 4 * 16"] six_bits [of a a] by auto
next
  case (3 a b)
  then show ?case
    using b64_char_ok [of "a div 4"] b64_char_ok [of "a mod 4 * 16 + b div 16"] b64_char_ok [of "b mod 16 * 4"]
      six_bits [of a b] six_bits [of b b] by auto
next
  case (4 a b d r)
  then show ?case
    using b64_char_ok [of "a div 4"] b64_char_ok [of "a mod 4 * 16 + b div 16"] b64_char_ok [of "b mod 16 * 4 + d div 64"]
      b64_char_ok [of "d mod 64"] six_bits [of a b] six_bits [of b d] by auto
qed simp

lemma b64_roundtrip: "b64_decode (b64_encode x) = Some x"
proof -
  have bytes: "\<forall>n \<in> set (map of_char x). n < (256 :: nat)" by simp
  have "filter (\<lambda>c. c \<noteq> CHR 0x0A \<and> c \<noteq> CHR 0x0D) (b64_encode x) = b64_encode x"
    using b64_encode_clean [OF bytes] by (simp add: b64_encode_def filter_id_conv)
  then show ?thesis
    using b64_quads_roundtrip [OF bytes] by (simp add: b64_decode_def b64_encode_def comp_def)
qed

section \<open>The requests of a commit\<close>

text \<open>A request that writes the file \<open>p\<close> with \<open>content\<close> to the branch of the input.\<close>

definition writes_file ::
  "'w gitea_connector \<Rightarrow> string \<Rightarrow> string \<Rightarrow> string \<Rightarrow> string \<Rightarrow> string \<Rightarrow> string \<Rightarrow> string \<Rightarrow> string \<Rightarrow> http_request \<Rightarrow> bool" where
  "writes_file c token owner repo branch path_prefix message p content q \<longleftrightarrow>
     hq_method q \<in> {''POST'', ''PUT''} \<and> hq_url q = contents_url c owner repo (join_repo_path path_prefix p)
     \<and> hq_headers q = gt_headers token True
     \<and> (case hq_body q of None \<Rightarrow> False | Some b \<Rightarrow> go_get b ''branch'' = GStr branch \<and> go_get b ''message'' = GStr message
          \<and> (case go_get b ''content'' of GStr x \<Rightarrow> b64_decode x = Some content | _ \<Rightarrow> False))"

text \<open>The content that a reply to a read of a file carries.\<close>

definition reply_content :: "http_reply \<Rightarrow> string + string" where
  "reply_content r =
     (if hp_text r = [] then Inr [] else sum_bind (hp_json r) (\<lambda>v. sum_bind (decode_contents v) decoded_content))"

definition accepted :: "string + http_reply \<Rightarrow> bool" where
  "accepted x \<longleftrightarrow> (case x of Inl _ \<Rightarrow> False | Inr r \<Rightarrow> 200 \<le> hp_code r \<and> hp_code r < 300)"

text \<open>The file was read from the branch with this content, or written and accepted.\<close>

definition settled ::
  "'w gitea_connector \<Rightarrow> string \<Rightarrow> string \<Rightarrow> string \<Rightarrow> string \<Rightarrow> string \<Rightarrow> string
     \<Rightarrow> (http_request \<times> (string + http_reply)) list \<Rightarrow> string \<times> go_any \<Rightarrow> bool" where
  "settled c token owner repo branch path_prefix message evs pv \<longleftrightarrow> (\<exists>content. snd pv = GStr content \<and>
     ((\<exists>q r. (q, Inr r) \<in> set evs \<and> hq_method q = ''GET''
          \<and> hq_url q = contents_url c owner repo (join_repo_path path_prefix (fst pv)) @ ''?ref='' @ query_escape branch
          \<and> reply_content r = Inr content)
      \<or> (\<exists>q x. (q, x) \<in> set evs \<and> writes_file c token owner repo branch path_prefix message (fst pv) content q \<and> accepted x)))"

definition only_file_writes ::
  "'w gitea_connector \<Rightarrow> string \<Rightarrow> string \<Rightarrow> string \<Rightarrow> string \<Rightarrow> string \<Rightarrow> string \<Rightarrow> go_map
     \<Rightarrow> (http_request \<times> (string + http_reply)) list \<Rightarrow> bool" where
  "only_file_writes c token owner repo branch path_prefix message files evs \<longleftrightarrow>
     (\<forall>(q, x) \<in> set evs. hq_method q = ''GET'' \<or> (\<exists>p content. (p, GStr content) \<in> set files
        \<and> writes_file c token owner repo branch path_prefix message p content q))"

lemma do_request_run:
  assumes "do_request c token method url body s = (x, s')"
  shows "\<exists>r. tt_trace s' = tt_trace s @ [(gt_request token method url body, r)] \<and> (\<forall>p. x = Inr p \<longrightarrow> r = Inr p \<and> accepted r)"
proof -
  obtain r w where r: "gt_do c (gt_request token method url body) (tt_world s) = (r, w)" by (metis surj_pair)
  have "tt_trace s' = tt_trace s @ [(gt_request token method url body, r)]"
    using assms by (cases r) (auto simp: do_request_def Let_def r split: if_splits)
  moreover have "\<forall>p. x = Inr p \<longrightarrow> r = Inr p \<and> accepted r"
    using assms by (cases r) (auto simp: do_request_def Let_def r accepted_def split: if_splits)
  ultimately show ?thesis by blast
qed

lemma do_json_run:
  assumes "do_json c token method url body decode zero s = (x, s')"
  shows "\<exists>r. tt_trace s' = tt_trace s @ [(gt_request token method url body, r)]
      \<and> (\<forall>a. x = Inr a \<longrightarrow> accepted r \<and> (\<exists>p. r = Inr p \<and> (if hp_text p = [] then a = zero
           else sum_bind (hp_json p) decode = Inr a)))"
proof -
  obtain y s1 where y: "do_request c token method url body s = (y, s1)" by (metis surj_pair)
  obtain r where r: "tt_trace s1 = tt_trace s @ [(gt_request token method url body, r)]"
      "\<forall>p. y = Inr p \<longrightarrow> r = Inr p \<and> accepted r"
    using do_request_run [OF y] by blast
  show ?thesis
  proof (cases y)
    case (Inl e)
    then have "s' = s1" "\<forall>a. x \<noteq> Inr a" using assms y by (auto simp: do_json_def)
    then show ?thesis using r by auto
  next
    case (Inr p)
    have "s' = s1 \<and> (\<forall>a. x = Inr a \<longrightarrow> (if hp_text p = [] then a = zero else sum_bind (hp_json p) decode = Inr a))"
      using assms unfolding do_json_def y Inr prod.case sum.case
      by (cases "hp_json p") (auto simp: sum_bind_def split: if_split_asm sum.split_asm)
    then show ?thesis using r Inr by blast
  qed
qed

lemma gt_request_simps [simp]:
  "hq_method (gt_request token method url body) = method" "hq_url (gt_request token method url body) = url"
  "hq_body (gt_request token method url body) = body"
  "hq_headers (gt_request token method url (Some b)) = gt_headers token True"
  by (simp_all add: gt_request_def)

lemma get_branch_run:
  assumes "get_branch c token owner repo branch s = (x, s')"
  shows "\<exists>q r. tt_trace s' = tt_trace s @ [(q, r)] \<and> hq_method q = ''GET''"
  using do_json_run [OF assms [unfolded get_branch_def]] by auto

lemma get_contents_run:
  assumes "get_contents c token owner repo path branch s = (x, s')"
  shows "\<exists>q r. tt_trace s' = tt_trace s @ [(q, r)] \<and> hq_method q = ''GET''
      \<and> hq_url q = contents_url c owner repo path @ ''?ref='' @ query_escape branch
      \<and> (\<forall>a. x = Inr a \<longrightarrow> (\<exists>p. r = Inr p \<and> (if hp_text p = [] then decoded_content a = Inr []
           else sum_bind (hp_json p) decode_contents = Inr a)))"
proof -
  have zero: "decoded_content \<lparr>cs_type = [], cs_encoding = [], cs_content = [], cs_sha = [], cs_path = []\<rparr> = Inr []"
    by code_simp
  show ?thesis using do_json_run [OF assms [unfolded get_contents_def]] zero by fastforce
qed

lemma write_runs:
  "create_file c token owner repo branch (join_repo_path path_prefix p) message content s = (x, s') \<Longrightarrow>
     \<exists>q r. tt_trace s' = tt_trace s @ [(q, r)] \<and> writes_file c token owner repo branch path_prefix message p content q
       \<and> (\<forall>a. x = Inr a \<longrightarrow> accepted r)"
  "update_file c token owner repo branch (join_repo_path path_prefix p) message content sha s = (x, s') \<Longrightarrow>
     \<exists>q r. tt_trace s' = tt_trace s @ [(q, r)] \<and> writes_file c token owner repo branch path_prefix message p content q
       \<and> (\<forall>a. x = Inr a \<longrightarrow> accepted r)"
  unfolding create_file_def update_file_def
  by (drule do_json_run, force simp: writes_file_def go_get_def b64_roundtrip)+

lemma writes_mono:
  "only_file_writes c token owner repo branch pre message fs evs \<Longrightarrow> set fs \<subseteq> set fs'
     \<Longrightarrow> only_file_writes c token owner repo branch pre message fs' evs"
  "settled c token owner repo branch pre message evs pv \<Longrightarrow> set evs \<subseteq> set evs'
     \<Longrightarrow> settled c token owner repo branch pre message evs' pv"
  unfolding only_file_writes_def settled_def by blast+

lemma only_file_writes_append [simp]:
  "only_file_writes c token owner repo branch pre message fs (a @ b) \<longleftrightarrow>
     only_file_writes c token owner repo branch pre message fs a \<and> only_file_writes c token owner repo branch pre message fs b"
  by (auto simp: only_file_writes_def)

lemma only_file_writes_read [simp]:
  "only_file_writes c token owner repo branch pre message fs []"
  "hq_method q = ''GET'' \<Longrightarrow> only_file_writes c token owner repo branch pre message fs [(q, r)]"
  by (simp_all add: only_file_writes_def)

lemma file_written:
  assumes "hq_method q = ''GET''" "writes_file c token owner repo branch pre message (fst pv) content q2" "pv = (fst pv, GStr content)"
  shows "only_file_writes c token owner repo branch pre message [pv] [(q, r), (q2, r2)]
    \<and> (accepted r2 \<longrightarrow> settled c token owner repo branch pre message [(q, r), (q2, r2)] pv)"
proof -
  have "(fst pv, GStr content) \<in> set [pv]" using assms(3) by simp
  then have "only_file_writes c token owner repo branch pre message [pv] [(q, r), (q2, r2)]"
    using assms(1,2) unfolding only_file_writes_def by auto
  moreover have "snd pv = GStr content" using assms(3) by (metis snd_conv)
  ultimately show ?thesis using assms(2) unfolding settled_def by auto
qed

text \<open>One file: its reads and writes, and no success is reported by an early return.\<close>

lemma write_file_run:
  assumes "write_file c token owner repo branch pre message pv s = (x, s')"
  shows "\<exists>evs. tt_trace s' = tt_trace s @ evs \<and> only_file_writes c token owner repo branch pre message [pv] evs
    \<and> (\<forall>y. x = Inr y \<longrightarrow> settled c token owner repo branch pre message evs pv)
    \<and> (\<forall>r. x = Inl r \<longrightarrow> cr_status r = ''terminal_error'')"
proof (cases "as_string (snd pv)")
  case None
  then show ?thesis using assms by (auto simp: write_file_def terminal_error_def intro!: exI [of _ "[]"])
next
  case (Some content)
  then have pv: "pv = (fst pv, GStr content)" by (cases pv) simp
  let ?p = "join_repo_path pre (fst pv)"
  obtain g s1 where g: "get_contents c token owner repo ?p branch s = (g, s1)" by (metis surj_pair)
  obtain q r where q: "tt_trace s1 = tt_trace s @ [(q, r)]" "hq_method q = ''GET''"
      "hq_url q = contents_url c owner repo ?p @ ''?ref='' @ query_escape branch"
      "\<forall>a. g = Inr a \<longrightarrow> (\<exists>p. r = Inr p \<and> (if hp_text p = [] then decoded_content a = Inr []
           else sum_bind (hp_json p) decode_contents = Inr a))"
    using get_contents_run [OF g] by metis
  consider (read) "s' = s1" "\<And>y. x = Inr y \<Longrightarrow> \<exists>a. g = Inr a \<and> decoded_content a = Inr content"
      "\<And>z. x = Inl z \<Longrightarrow> cr_status z = ''terminal_error''"
    | (create) y where "create_file c token owner repo branch ?p message content s1 = (y, s')"
      "\<And>a. x = Inr a \<Longrightarrow> \<exists>b. y = Inr b" "\<And>z. x = Inl z \<Longrightarrow> cr_status z = ''terminal_error''"
    | (update) y sha where "update_file c token owner repo branch ?p message content sha s1 = (y, s')"
      "\<And>a. x = Inr a \<Longrightarrow> \<exists>b. y = Inr b" "\<And>z. x = Inl z \<Longrightarrow> cr_status z = ''terminal_error''"
    using assms unfolding write_file_def Some option.case Let_def g prod.case
    by (auto simp: terminal_error_def split: sum.split_asm if_split_asm prod.split_asm)
  then show ?thesis
  proof cases
    case read
    have "settled c token owner repo branch pre message [(q, r)] pv" if x: "x = Inr y" for y
    proof -
      obtain a where a: "g = Inr a" "decoded_content a = Inr content" using read(2) [OF x] by blast
      then obtain p where p: "r = Inr p" "if hp_text p = [] then decoded_content a = Inr []
           else sum_bind (hp_json p) decode_contents = Inr a" using q(4) by blast
      then have "reply_content p = Inr content"
        using a(2) by (auto simp: reply_content_def sum_bind_def split: if_split_asm sum.split_asm)
      moreover have "snd pv = GStr content" using pv by (metis snd_conv)
      ultimately show ?thesis using q(2,3) p(1) unfolding settled_def by auto
    qed
    then show ?thesis using read q by (intro exI [of _ "[(q, r)]"]) auto
  next
    case create
    obtain q2 r2 where w: "tt_trace s' = tt_trace s1 @ [(q2, r2)]"
        "writes_file c token owner repo branch pre message (fst pv) content q2" "\<And>a. y = Inr a \<Longrightarrow> accepted r2"
      using write_runs(1) [OF create(1)] by blast
    show ?thesis
      using file_written [OF q(2) w(2) pv, of r r2] w(1,3) q(1) create(2,3)
      by (intro exI [of _ "[(q, r), (q2, r2)]"]) auto
  next
    case update
    obtain q2 r2 where w: "tt_trace s' = tt_trace s1 @ [(q2, r2)]"
        "writes_file c token owner repo branch pre message (fst pv) content q2" "\<And>a. y = Inr a \<Longrightarrow> accepted r2"
      using write_runs(2) [OF update(1)] by blast
    show ?thesis
      using file_written [OF q(2) w(2) pv, of r r2] w(1,3) q(1) update(2,3)
      by (intro exI [of _ "[(q, r), (q2, r2)]"]) auto
  qed
qed

lemma write_loop_run:
  assumes "write_loop c token owner repo branch pre message files last_sha s = (x, s')"
  shows "\<exists>evs. tt_trace s' = tt_trace s @ evs \<and> only_file_writes c token owner repo branch pre message files evs
    \<and> (\<forall>y. x = Inr y \<longrightarrow> (\<forall>pv \<in> set files. settled c token owner repo branch pre message evs pv))
    \<and> (\<forall>r. x = Inl r \<longrightarrow> cr_status r = ''terminal_error'')"
  using assms
proof (induction files arbitrary: last_sha s)
  case Nil
  then show ?case by (auto intro!: exI [of _ "[]"])
next
  case (Cons pv fs)
  obtain y s1 where y: "write_file c token owner repo branch pre message pv s = (y, s1)" by (metis surj_pair)
  obtain ev1 where ev1: "tt_trace s1 = tt_trace s @ ev1" "only_file_writes c token owner repo branch pre message [pv] ev1"
      "\<And>z. y = Inr z \<Longrightarrow> settled c token owner repo branch pre message ev1 pv"
      "\<And>r. y = Inl r \<Longrightarrow> cr_status r = ''terminal_error''"
    using write_file_run [OF y] by blast
  have w1: "only_file_writes c token owner repo branch pre message (pv # fs) ev1"
    using writes_mono(1) [OF ev1(2)] by simp
  show ?case
  proof (cases y)
    case (Inl r)
    then have "x = Inl r" "s' = s1" using Cons.prems y by simp_all
    then show ?thesis using ev1 w1 Inl by (intro exI [of _ ev1]) simp
  next
    case (Inr z)
    then have "write_loop c token owner repo branch pre message fs (case z of None \<Rightarrow> last_sha | Some a \<Rightarrow> Some a) s1 = (x, s')"
      using Cons.prems y by (cases z) simp_all
    then obtain ev2 where ev2: "tt_trace s' = tt_trace s1 @ ev2" "only_file_writes c token owner repo branch pre message fs ev2"
        "\<And>u. x = Inr u \<Longrightarrow> \<forall>pv \<in> set fs. settled c token owner repo branch pre message ev2 pv"
        "\<And>r. x = Inl r \<Longrightarrow> cr_status r = ''terminal_error''"
      using Cons.IH by blast
    have "only_file_writes c token owner repo branch pre message (pv # fs) ev2"
      using ev2(2) by (rule writes_mono(1)) auto
    moreover have "settled c token owner repo branch pre message (ev1 @ ev2) pv"
      using ev1(3) [OF Inr] by (rule writes_mono(2)) simp
    moreover have "\<forall>pv \<in> set fs. settled c token owner repo branch pre message (ev1 @ ev2) pv" if "x = Inr u" for u
      using ev2(3) [OF that] writes_mono(2) [of c token owner repo branch pre message ev2 _ "ev1 @ ev2"] by simp
    ultimately show ?thesis using ev1(1) ev2(1,4) w1 by (intro exI [of _ "ev1 @ ev2"]) auto
  qed
qed

lemma gt_commit_to_run:
  assumes "gt_commit_to c token owner repo branch pre files message s = (r, s')"
  shows "\<exists>evs. tt_trace s' = tt_trace s @ evs \<and> only_file_writes c token owner repo branch pre message files evs
    \<and> (cr_status r = ''success'' \<longrightarrow> (\<forall>pv \<in> set files. settled c token owner repo branch pre message evs pv))"
proof -
  obtain h s1 where h: "get_branch c token owner repo branch s = (h, s1)" by (metis surj_pair)
  obtain q0 r0 where q0: "tt_trace s1 = tt_trace s @ [(q0, r0)]" "hq_method q0 = ''GET''"
    using get_branch_run [OF h] by blast
  show ?thesis
  proof (cases h)
    case (Inl e)
    then have "r = branch_error branch e" "s' = s1" using assms h by (simp_all add: gt_commit_to_def)
    then show ?thesis using q0 by (intro exI [of _ "[(q0, r0)]"]) (simp add: branch_error_def Let_def terminal_error_def)
  next
    case (Inr sha)
    obtain l s2 where l: "write_loop c token owner repo branch pre message files None s1 = (l, s2)" by (metis surj_pair)
    obtain evs where evs: "tt_trace s2 = tt_trace s1 @ evs" "only_file_writes c token owner repo branch pre message files evs"
        "\<And>y. l = Inr y \<Longrightarrow> \<forall>pv \<in> set files. settled c token owner repo branch pre message evs pv"
        "\<And>z. l = Inl z \<Longrightarrow> cr_status z = ''terminal_error''"
      using write_loop_run [OF l] by blast
    obtain k s3 where k: "get_branch c token owner repo branch s2 = (k, s3)" by (metis surj_pair)
    obtain q3 r3 where q3: "tt_trace s3 = tt_trace s2 @ [(q3, r3)]" "hq_method q3 = ''GET''"
      using get_branch_run [OF k] by blast
    consider (stop) z where "l = Inl z" "r = z" "s' = s2" | (changed) x where "l = Inr (Some x)" "s' = s2"
      | (same) "l = Inr None" "s' = s3"
      using assms unfolding gt_commit_to_def h Inr prod.case sum.case l k by (cases l) (auto split: option.split_asm)
    then show ?thesis
    proof cases
      case stop
      then show ?thesis using q0 evs by (intro exI [of _ "(q0, r0) # evs"]) (simp add: only_file_writes_def)
    next
      case changed
      have "\<forall>pv \<in> set files. settled c token owner repo branch pre message ((q0, r0) # evs) pv"
        using evs(3) [OF changed(1)] writes_mono(2) [of c token owner repo branch pre message evs _ "(q0, r0) # evs"] by auto
      then show ?thesis using changed q0 evs(1,2) by (intro exI [of _ "(q0, r0) # evs"]) (simp add: only_file_writes_def)
    next
      case same
      have "\<forall>pv \<in> set files. settled c token owner repo branch pre message ((q0, r0) # evs @ [(q3, r3)]) pv"
        using evs(3) [OF same(1)] writes_mono(2) [of c token owner repo branch pre message evs _ "(q0, r0) # evs @ [(q3, r3)]"]
        by auto
      then show ?thesis
        using same q0 q3 evs(1,2) by (intro exI [of _ "(q0, r0) # evs @ [(q3, r3)]"]) (auto simp: only_file_writes_def)
    qed
  qed
qed

lemma gt_commit_files_input:
  "commit_input input owner repo branch path_prefix files message
     \<Longrightarrow> gt_commit_files c token input s =
       (case gt_commit_to c token owner repo branch path_prefix files message s of (r, s1) \<Rightarrow> (Ret r, s1))"
  by (auto simp: gt_commit_files_def need_defs commit_input_def split: go_any.splits)

text \<open>C23: In a commit through the Gitea connector every request that is not a read is the creation or
  the update of one file of the input, at its path below the prefix, carrying the token, the
  branch, the message and, in base64, the content of that file; and when success is reported, every file of the
  input was either read from the branch with its content or written by an accepted request.
\<close>

theorem gitea_commit_settles_files:
  assumes "commit_input input owner repo branch path_prefix files message" "\<not> gt_closed c"
    "map_of secrets ''git-access-token'' = Some secret" "trim_space secret \<noteq> []"
    "gitea_execute c None ''commit_files'' input secrets s = (Ret r, s')"
  shows "\<exists>evs. tt_trace s' = tt_trace s @ evs
    \<and> only_file_writes c (trim_space secret) owner repo branch path_prefix message files evs
    \<and> (cr_status r = ''success'' \<longrightarrow>
         (\<forall>pv \<in> set files. settled c (trim_space secret) owner repo branch path_prefix message evs pv))"
proof -
  let ?s = "s\<lparr>tt_stdout := tt_stdout s @ token_log (trim_space secret)\<rparr>"
  have "gt_commit_to c (trim_space secret) owner repo branch path_prefix files message ?s = (r, s')"
    using assms(2-5) by (simp add: gitea_execute_def Let_def gt_dispatch_def gt_commit_files_input [OF assms(1)] split: prod.splits)
  then show ?thesis using gt_commit_to_run by fastforce
qed

text \<open>
  A server with one branch, whose world is the list of its files by URL in base64, and which
  refuses writes to the URLs of a list.
\<close>

definition json_reply :: "int \<Rightarrow> go_map \<Rightarrow> string + http_reply" where
  "json_reply code m = Inr \<lparr>hp_code = code, hp_status = nat_str (nat code), hp_text = ''{...}'', hp_json = Inr (GMap m)\<rparr>"

definition files_server ::
  "string list \<Rightarrow> http_request \<Rightarrow> (string \<times> string) list \<Rightarrow> (string + http_reply) \<times> (string \<times> string) list" where
  "files_server refused q w =
     (let url = takeWhile (\<lambda>c. c \<noteq> CHR ''?'') (hq_url q) in
      if hq_method q = ''GET'' then
        (if contains_sub url ''/branches/'' then json_reply 200 [(''name'', GStr ''main''), (''commit'', GMap [(''id'', GStr ''h'')])]
         else (case map_of w url of None \<Rightarrow> json_reply 404 []
            | Some x \<Rightarrow> json_reply 200 [(''encoding'', GStr ''base64''), (''content'', GStr x), (''sha'', GStr ''f'')]), w)
      else if url \<in> set refused then (json_reply 500 [], w)
      else (json_reply 201 [(''commit'', GMap [(''sha'', GStr ''k'')])],
        alist_put url (case hq_body q of None \<Rightarrow> [] | Some b \<Rightarrow> string_or_empty (go_get b ''content'')) w))"

definition files_connector :: "string list \<Rightarrow> (string \<times> string) list gitea_connector" where
  "files_connector refused = \<lparr>gt_base = \<lparr>b_type = Type_git, b_tech = ''gitea''\<rparr>, gt_do = files_server refused,
     gt_base_url = ''http://git/api/v1'', gt_closed = False\<rparr>"

definition files_url :: "string \<Rightarrow> string" where
  "files_url p = ''http://git/api/v1/repos/acme/infra/contents/t/'' @ p"

text \<open>The branch already has \<open>a.yaml\<close> as the input asks for it.\<close>

definition files_start :: "(string \<times> string) list gt_state" where
  "files_start = \<lparr>tt_world = [(files_url ''a.yaml'', b64_encode ''one'')], tt_trace = [], tt_stdout = []\<rparr>"

theorem gitea_commit_settles_files_witness:
  "\<exists>r s' evs. gitea_execute (files_connector []) None ''commit_files'' mem_input [(''git-access-token'', ''t'')] files_start = (Ret r, s')
     \<and> cr_status r = ''success'' \<and> tt_trace s' = evs
     \<and> settled (files_connector []) ''t'' ''acme'' ''infra'' ''main'' ''t/'' ''m'' evs (''b.yaml'', GStr ''new'')"
proof -
  let ?run = "gitea_execute (files_connector []) None ''commit_files'' mem_input [(''git-access-token'', ''t'')] files_start"
  have "fst ?run = Ret (success_result (Some [(''commit_sha'', GStr ''k''), (''changed'', GBool True)]))" by code_simp
  then obtain s' where run: "?run = (Ret (success_result (Some [(''commit_sha'', GStr ''k''), (''changed'', GBool True)])), s')"
    by (metis prod.collapse)
  have "trim_space ''t'' = ''t''" by code_simp
  then show ?thesis
    using gitea_commit_settles_files [OF mem_commit(1) _ _ _ run] run
    by (auto simp: files_connector_def files_start_def success_result_def)
qed

text \<open>
  A commit of two files whose second write is refused reports an error, and the first file is
  on the branch. The same commit through the GitHub connector, which moves the branch only after
  everything is stored, would leave it as it was.
\<close>

lemma gitea_commit_half_done:
  "(case gitea_execute (files_connector [files_url ''b.yaml'']) None ''commit_files'' mem_input
       [(''git-access-token'', ''t'')] (files_start\<lparr>tt_world := []\<rparr>) of
      (Ret r, s') \<Rightarrow> map_option fst (cr_error r) = Some ''FILE_CREATE_FAILED''
        \<and> tt_world s' = [(files_url ''a.yaml'', b64_encode ''one'')]
    | _ \<Rightarrow> False)"
  by code_simp

text \<open>A token of at least eight characters is printed in part.\<close>

lemma gitea_prints_token:
  assumes "\<not> gt_closed c" "map_of secrets ''git-access-token'' = Some secret" "8 \<le> length (trim_space secret)"
    "operation = ''unknown''"
  shows "tt_stdout (snd (gitea_execute c None operation input secrets s)) = tt_stdout s
     @ [''[gitea-connector] token (first-8): '' @ take 8 (trim_space secret) @ ''... (len='' @ nat_str (length (trim_space secret)) @ '')'']"
  using assms by (auto simp: gitea_execute_def Let_def gt_dispatch_def token_log_def simp del: nat_str.simps)

text \<open>
  \<open>Validate\<close> asks for the owner and the repository of a pull request, but the operation reads the
  repository alone, as owner and name: an input with the name only passes and is then refused.
\<close>

lemma gitea_pull_request_refused:
  assumes "go_get input ''repo'' = GStr name" "CHR ''/'' \<notin> set name"
    "go_get input ''title'' = GStr t" "go_get input ''head'' = GStr h" "go_get input ''base'' = GStr b"
  shows "gt_create_pull_request c token input s = (Ret invalid_repo, s)"
proof -
  have "split_on (CHR ''/'') name = [name]" using assms(2)
    by (induction name) auto
  then show ?thesis using assms by (simp add: gt_create_pull_request_def need_string_def split_repo_def)
qed

end
