(* ===== verification/Service_Connectors.thy ===== *)
theory Service_Connectors
  imports Git_Writes
begin

text \<open>
  The remaining connectors of \<open>src/internal/connector\<close>: policy, webhook, Crossplane and AWS, with their
  clients as records of functions on an unknown world, and the step executor of
  \<open>src/internal/runner/step_executor.go\<close>, which recovers from the panics of a connector. The contract
  that all connectors share once they are closed is the locale \<open>closable\<close>, interpreted for the six of
  them.
\<close>

section \<open>Policy\<close>

record policy_connector =
  pc_base :: base_connector
  pc_closed :: bool

definition new_policy_connector :: "string + policy_connector" where
  "new_policy_connector =
     (case new_base_connector Type_policy ''embedded'' of
        Inl e \<Rightarrow> Inl e | Inr b \<Rightarrow> Inr \<lparr>pc_base = b, pc_closed = False\<rparr>)"

text \<open>A resource that is no map is printed and accepted.\<close>

definition policy_validate :: "policy_connector \<Rightarrow> string \<Rightarrow> go_map \<Rightarrow> string option" where
  "policy_validate c operation input =
     (if pc_closed c then Some ''connector is closed''
      else if operation \<noteq> ''evaluate'' then Some (''unknown operation: '' @ operation)
      else check_fields [''policy_bundle'', ''resource''] input)"

definition policy_evaluate :: connector_result where
  "policy_evaluate = success_result (Some [(''allowed'', GBool True), (''violations'', GList [])])"

definition policy_execute ::
  "policy_connector \<Rightarrow> string option \<Rightarrow> string \<Rightarrow> go_map \<Rightarrow> (string \<times> string) list \<Rightarrow> unit \<Rightarrow> connector_result outcome \<times> unit" where
  "policy_execute c ctx_err operation input secrets s =
     (if pc_closed c then (Fail ''connector is closed'', s)
      else if operation \<noteq> ''evaluate'' then (Fail (''operation not implemented: '' @ operation), s)
      else (Ret policy_evaluate, s))"

definition policy_close :: "policy_connector \<Rightarrow> string option \<times> policy_connector" where
  "policy_close c = (None, c\<lparr>pc_closed := True\<rparr>)"

section \<open>Webhook\<close>

text \<open>The environment of a callback: \<open>json.Marshal\<close> of a value, \<open>fmt.Sprint\<close> of a header that is no
  string, and the HTTP client, whose failures include requests that cannot be built. The
  headers of a request are the calls of \<open>Header.Set\<close> in their order.\<close>

record 'w webhook_client =
  wc_marshal :: "go_any \<Rightarrow> string + string"
  wc_sprint :: "go_any \<Rightarrow> string"
  wc_create :: "string \<Rightarrow> string option"
  wc_post :: "string \<Rightarrow> (string \<times> string) list \<Rightarrow> string \<Rightarrow> 'w \<Rightarrow> (string + (int \<times> string)) \<times> 'w"

record 'w webhook_connector =
  wh_base :: base_connector
  wh_client :: "'w webhook_client"
  wh_closed :: bool

definition new_webhook_connector :: "'w webhook_client \<Rightarrow> string + 'w webhook_connector" where
  "new_webhook_connector cl =
     (case new_base_connector Type_webhook ''webhook'' of
        Inl e \<Rightarrow> Inl e | Inr b \<Rightarrow> Inr \<lparr>wh_base = b, wh_client = cl, wh_closed = False\<rparr>)"

definition webhook_validate :: "'w webhook_connector \<Rightarrow> string \<Rightarrow> go_map \<Rightarrow> string option" where
  "webhook_validate c operation input =
     (if wh_closed c then Some ''connector is closed''
      else if operation \<noteq> ''post_callback'' then Some (''unknown operation: '' @ operation)
      else case check_fields [''url'', ''headers'', ''body'', ''idempotency_key''] input of
        Some e \<Rightarrow> Some e
      | None \<Rightarrow>
          (case go_get input ''headers'' of
             GStrMap _ \<Rightarrow> None
           | GMap hs \<Rightarrow> map_option (\<lambda>(k, _). ''header value for '' @ k @ '' must be a string'')
               (List.find (\<lambda>(_, v). as_string v = None) hs)
           | _ \<Rightarrow> Some ''headers must be a map[string]string''))"

definition callback_headers :: "'w webhook_client \<Rightarrow> go_any \<Rightarrow> (string \<times> string) list" where
  "callback_headers cl v = (''Content-Type'', ''application/json'') #
     (case v of
        GStrMap hs \<Rightarrow> hs
      | GMap hs \<Rightarrow> map (\<lambda>(k, x). (k, case as_string x of Some t \<Rightarrow> t | None \<Rightarrow> wc_sprint cl x)) hs
      | _ \<Rightarrow> [])"

definition post_callback ::
  "'w webhook_connector \<Rightarrow> go_map \<Rightarrow> 'w \<Rightarrow> connector_result outcome \<times> 'w" where
  "post_callback c input w =
     (let cl = wh_client c; url = string_or_empty (go_get input ''url'') in
      if trim_space url = [] then (Fail ''url is required'', w)
      else case wc_marshal cl (go_get input ''body'') of
        Inl e \<Rightarrow> (Fail (''marshal body: '' @ e), w)
      | Inr body \<Rightarrow>
     (case wc_create cl url of
        Some e \<Rightarrow> (Fail (''create request: '' @ e), w)
      | None \<Rightarrow>
     (case wc_post cl url (callback_headers cl (go_get input ''headers'')) body w of
        (Inl e, w1) \<Rightarrow> (Fail e, w1)
      | (Inr (code, text), w1) \<Rightarrow>
          (Ret (success_result (Some [(''status_code'', GInt code), (''response_body'', GStr text)])), w1))))"

definition webhook_execute ::
  "'w webhook_connector \<Rightarrow> string option \<Rightarrow> string \<Rightarrow> go_map \<Rightarrow> (string \<times> string) list \<Rightarrow> 'w \<Rightarrow> connector_result outcome \<times> 'w" where
  "webhook_execute c ctx_err operation input secrets w =
     (if wh_closed c then (Fail ''connector is closed'', w)
      else if operation \<noteq> ''post_callback'' then (Fail (''operation not implemented: '' @ operation), w)
      else post_callback c input w)"

definition webhook_close :: "'w webhook_connector \<Rightarrow> string option \<times> 'w webhook_connector" where
  "webhook_close c = (None, c\<lparr>wh_closed := True\<rparr>)"

section \<open>Crossplane\<close>

text \<open>
  The Kubernetes client and the JSON package: \<open>kc_decode\<close> reads the first value of a text into a
  map (\<open>None\<close> for \<open>nil\<close>), \<open>kc_copy\<close> is the copy of a map through its text, \<open>kc_named\<close> is
  \<open>Unstructured.SetName\<close>, \<open>kc_status\<close> is \<open>NestedMap\<close> at \<open>status\<close>, \<open>None\<close> when it is missing or no map. The UID
  of an object is shown as a string.
\<close>

record gvr =
  gv_group :: string
  gv_version :: string
  gv_resource :: string

record 'w k8s_client =
  kc_decode :: "string \<Rightarrow> string + go_map option"
  kc_copy :: "go_map \<Rightarrow> go_map option"
  kc_named :: "string \<Rightarrow> go_map option \<Rightarrow> go_map"
  kc_create :: "gvr \<Rightarrow> go_map \<Rightarrow> 'w \<Rightarrow> (string + (string \<times> string)) \<times> 'w"
  kc_get :: "gvr \<Rightarrow> string \<Rightarrow> 'w \<Rightarrow> (string + go_map) \<times> 'w"
  kc_delete :: "gvr \<Rightarrow> string \<Rightarrow> 'w \<Rightarrow> string option \<times> 'w"
  kc_status :: "go_map \<Rightarrow> go_map option"

record 'w crossplane_connector =
  cx_base :: base_connector
  cx_client :: "'w k8s_client"
  cx_closed :: bool

definition new_crossplane_connector :: "'w k8s_client \<Rightarrow> string + 'w crossplane_connector" where
  "new_crossplane_connector cl =
     (case new_base_connector Type_infra ''crossplane'' of
        Inl e \<Rightarrow> Inl e | Inr b \<Rightarrow> Inr \<lparr>cx_base = b, cx_client = cl, cx_closed = False\<rparr>)"

definition crossplane_validate :: "'w crossplane_connector \<Rightarrow> string \<Rightarrow> go_map \<Rightarrow> string option" where
  "crossplane_validate c operation input = validate_operation (cx_closed c)
     [(''create_composite_resource'', [''kind'', ''name'', ''manifest'']), (''get_resource_status'', [''kind'', ''name'']),
      (''delete_resource'', [''kind'', ''name''])] operation input"

definition parse_gvr :: "string \<Rightarrow> gvr" where
  "parse_gvr kind = \<lparr>gv_group = ''pkg.crossplane.io'', gv_version = ''v1'', gv_resource = kind\<rparr>"

definition manifest_object :: "'w k8s_client \<Rightarrow> go_any \<Rightarrow> string + go_map option" where
  "manifest_object cl v =
     (case v of
        GStr text \<Rightarrow> (case kc_decode cl text of Inl e \<Rightarrow> Inl (''invalid json manifest: '' @ e) | Inr m \<Rightarrow> Inr m)
      | GMap m \<Rightarrow> Inr (kc_copy cl m)
      | _ \<Rightarrow> Inl ''manifest must be a string or map[string]interface{}'')"

definition create_composite_resource ::
  "'w crossplane_connector \<Rightarrow> go_map \<Rightarrow> 'w \<Rightarrow> connector_result outcome \<times> 'w" where
  "create_composite_resource c input =
     need_string input ''kind'' (\<lambda>kind. need_string input ''name'' (\<lambda>name w.
       case manifest_object (cx_client c) (go_get input ''manifest'') of
         Inl e \<Rightarrow> (Fail e, w)
       | Inr obj \<Rightarrow>
           (case kc_create (cx_client c) (parse_gvr kind) (kc_named (cx_client c) name obj) w of
              (Inl e, w1) \<Rightarrow> (Fail e, w1)
            | (Inr (n, uid), w1) \<Rightarrow> (Ret (success_result (Some [(''name'', GStr n), (''uid'', GStr uid)])), w1))))"

definition get_resource_status ::
  "'w crossplane_connector \<Rightarrow> go_map \<Rightarrow> 'w \<Rightarrow> connector_result outcome \<times> 'w" where
  "get_resource_status c input =
     need_string input ''kind'' (\<lambda>kind. need_string input ''name'' (\<lambda>name w.
       case kc_get (cx_client c) (parse_gvr kind) name w of
         (Inl e, w1) \<Rightarrow> (Fail e, w1)
       | (Inr obj, w1) \<Rightarrow>
           (Ret (success_result (Some [(''status'', case kc_status (cx_client c) obj of None \<Rightarrow> GStr ''Unknown'' | Some m \<Rightarrow> GMap m)])), w1)))"

definition delete_resource ::
  "'w crossplane_connector \<Rightarrow> go_map \<Rightarrow> 'w \<Rightarrow> connector_result outcome \<times> 'w" where
  "delete_resource c input =
     need_string input ''kind'' (\<lambda>kind. need_string input ''name'' (\<lambda>name w.
       case kc_delete (cx_client c) (parse_gvr kind) name w of
         (Some e, w1) \<Rightarrow> (Fail e, w1)
       | (None, w1) \<Rightarrow> (Ret (success_result None), w1)))"

definition crossplane_execute ::
  "'w crossplane_connector \<Rightarrow> string option \<Rightarrow> string \<Rightarrow> go_map \<Rightarrow> (string \<times> string) list \<Rightarrow> 'w \<Rightarrow> connector_result outcome \<times> 'w" where
  "crossplane_execute c ctx_err operation input secrets w =
     (case ctx_err of
        Some e \<Rightarrow> (Fail e, w)
      | None \<Rightarrow>
          if cx_closed c then (Fail ''connector is closed'', w)
          else if operation = ''create_composite_resource'' then create_composite_resource c input w
          else if operation = ''get_resource_status'' then get_resource_status c input w
          else if operation = ''delete_resource'' then delete_resource c input w
          else (Fail (''operation not implemented: '' @ operation), w))"

definition crossplane_close :: "'w crossplane_connector \<Rightarrow> string option \<times> 'w crossplane_connector" where
  "crossplane_close c = (None, c\<lparr>cx_closed := True\<rparr>)"

section \<open>AWS\<close>

text \<open>The three clients; the ARN of a role is \<open>None\<close> when the role or its ARN is \<open>nil\<close>.\<close>

record 'w aws_client =
  ac_create_bucket :: "string \<Rightarrow> 'w \<Rightarrow> string option \<times> 'w"
  ac_create_role :: "string \<Rightarrow> string \<Rightarrow> 'w \<Rightarrow> (string + string option) \<times> 'w"
  ac_describe_cluster :: "string \<Rightarrow> 'w \<Rightarrow> string option \<times> 'w"

record 'w aws_connector =
  aw_base :: base_connector
  aw_client :: "'w aws_client"
  aw_closed :: bool

definition new_aws_connector :: "'w aws_client \<Rightarrow> string + 'w aws_connector" where
  "new_aws_connector cl =
     (case new_base_connector Type_cloud ''aws'' of
        Inl e \<Rightarrow> Inl e | Inr b \<Rightarrow> Inr \<lparr>aw_base = b, aw_client = cl, aw_closed = False\<rparr>)"

definition aws_validate :: "'w aws_connector \<Rightarrow> string \<Rightarrow> go_map \<Rightarrow> string option" where
  "aws_validate c operation input = validate_operation (aw_closed c)
     [(''create_s3_bucket'', [''name'']), (''create_iam_role'', [''name'', ''policy'']),
      (''create_eks_cluster'', [''name'', ''version'']), (''get_cluster_status'', [''name''])] operation input"

definition aws_describe ::
  "'w aws_connector \<Rightarrow> go_map \<Rightarrow> go_map \<Rightarrow> 'w \<Rightarrow> connector_result outcome \<times> 'w" where
  "aws_describe c out input =
     need_string input ''name'' (\<lambda>name w. case ac_describe_cluster (aw_client c) name w of
         (Some e, w1) \<Rightarrow> (Fail e, w1)
       | (None, w1) \<Rightarrow> (Ret (success_result (Some out)), w1))"

definition aws_execute ::
  "'w aws_connector \<Rightarrow> string option \<Rightarrow> string \<Rightarrow> go_map \<Rightarrow> (string \<times> string) list \<Rightarrow> 'w \<Rightarrow> connector_result outcome \<times> 'w" where
  "aws_execute c ctx_err operation input secrets w =
     (case ctx_err of
        Some e \<Rightarrow> (Fail e, w)
      | None \<Rightarrow>
          if aw_closed c then (Fail ''connector is closed'', w)
          else if operation = ''create_s3_bucket'' then
            need_string input ''name'' (\<lambda>name w. case ac_create_bucket (aw_client c) name w of
                (Some e, w1) \<Rightarrow> (Fail e, w1)
              | (None, w1) \<Rightarrow> (Ret (success_result None), w1)) w
          else if operation = ''create_iam_role'' then
            need_string input ''name'' (\<lambda>name. need_string input ''policy'' (\<lambda>policy w.
              case ac_create_role (aw_client c) name policy w of
                (Inl e, w1) \<Rightarrow> (Fail e, w1)
              | (Inr None, w1) \<Rightarrow> (Panics ''invalid memory address or nil pointer dereference'', w1)
              | (Inr (Some arn), w1) \<Rightarrow> (Ret (success_result (Some [(''arn'', GStr arn)])), w1))) w
          else if operation = ''create_eks_cluster'' then aws_describe c [(''arn'', GStr ''arn:aws:eks:mock'')] input w
          else if operation = ''get_cluster_status'' then aws_describe c [(''status'', GStr ''ACTIVE'')] input w
          else (Fail (''operation not implemented: '' @ operation), w))"

definition aws_close :: "'w aws_connector \<Rightarrow> string option \<times> 'w aws_connector" where
  "aws_close c = (None, c\<lparr>aw_closed := True\<rparr>)"

section \<open>The step executor\<close>

text \<open>\<open>run\<close> is the \<open>Execute\<close> of the connector that is found, called without secrets: it returns a
  pair or panics.\<close>

datatype exec_run = Returned "connector_result option" "string option" | Panicked string

definition step_execute ::
  "conn_registry \<Rightarrow> (connector \<Rightarrow> string \<Rightarrow> go_map \<Rightarrow> exec_run) \<Rightarrow> string \<Rightarrow> string \<Rightarrow> go_map
     \<Rightarrow> connector_result option \<times> string option" where
  "step_execute reg run key operation input =
     (case conn_lookup reg key of
        None \<Rightarrow> (None, Some (''connector not found: '' @ key))
      | Some c \<Rightarrow>
          (case run c operation input of
             Panicked m \<Rightarrow> (Some (terminal_error ''PANIC'' m), Some (''connector panic: '' @ m))
           | Returned None (Some e) \<Rightarrow> (Some (terminal_error ''EXECUTION_ERROR'' e), Some e)
           | Returned r e \<Rightarrow> (r, e)))"

definition step_label :: "connector_result option \<times> string option \<Rightarrow> string" where
  "step_label x =
     (case x of (r, e) \<Rightarrow>
        if e \<noteq> None \<or> (case r of None \<Rightarrow> False | Some res \<Rightarrow> cr_status res = ''terminal_error'') then ''error''
        else if (case r of None \<Rightarrow> False | Some res \<Rightarrow> cr_status res = ''retryable_error'') then ''transient_error''
        else ''success'')"

text \<open>A result, with the label of its outcome, comes from every connector that is found and does
  not return two nils.\<close>

lemma step_execute_result:
  assumes "conn_lookup reg key = Some c" "run c operation input \<noteq> Returned None None"
  shows "\<exists>r e. step_execute reg run key operation input = (Some r, e)
    \<and> (\<forall>m. run c operation input = Panicked m \<longrightarrow> step_label (Some r, e) = ''error'')"
proof (cases "run c operation input")
  case (Returned r e)
  then show ?thesis using assms by (cases r; cases e) (auto simp: step_execute_def)
next
  case (Panicked m)
  then show ?thesis using assms by (auto simp: step_execute_def step_label_def)
qed

section \<open>The contract of a closed connector\<close>

type_synonym conn_call = "string option \<times> string \<times> go_map \<times> (string \<times> string) list"

fun run_calls ::
  "('c \<Rightarrow> string option \<Rightarrow> string \<Rightarrow> go_map \<Rightarrow> (string \<times> string) list \<Rightarrow> 's \<Rightarrow> connector_result outcome \<times> 's)
     \<Rightarrow> 'c \<Rightarrow> conn_call list \<Rightarrow> 's \<Rightarrow> connector_result outcome list \<times> 's" where
  "run_calls exec c [] s = ([], s)"
| "run_calls exec c ((ctx, operation, input, secrets) # calls) s =
     (case exec c ctx operation input secrets s of
        (out, s1) \<Rightarrow> (case run_calls exec c calls s1 of (outs, s2) \<Rightarrow> (out # outs, s2)))"

locale closable =
  fixes exec :: "'c \<Rightarrow> string option \<Rightarrow> string \<Rightarrow> go_map \<Rightarrow> (string \<times> string) list \<Rightarrow> 's \<Rightarrow> connector_result outcome \<times> 's"
    and valid :: "'c \<Rightarrow> string \<Rightarrow> go_map \<Rightarrow> string option"
    and cls :: "'c \<Rightarrow> string option \<times> 'c"
  assumes closed_exec: "\<exists>e. exec (snd (cls c)) ctx operation input secrets s = (Fail e, s)"
    and closed_valid: "valid (snd (cls c)) operation input = Some ''connector is closed''"
    and close_ok: "fst (cls c) = None"
    and close_again: "cls (snd (cls c)) = cls c"
begin

lemma closed_runs:
  "snd (run_calls exec (snd (cls c)) calls s) = s
   \<and> (\<forall>out \<in> set (fst (run_calls exec (snd (cls c)) calls s)). \<exists>e. out = Fail e)"
proof (induction calls)
  case (Cons x calls)
  obtain ctx operation input secrets where x: "x = (ctx, operation, input, secrets)" by (cases x)
  obtain e where "exec (snd (cls c)) ctx operation input secrets s = (Fail e, s)" using closed_exec by blast
  then show ?case using Cons x by (auto split: prod.splits)
qed simp

end

interpretation gh: closable "github_execute lib" github_validate github_close for lib
  by unfold_locales (auto simp: github_execute_def github_validate_def github_close_def validate_operation_def split: option.splits)

interpretation gt: closable gitea_execute gitea_validate gitea_close
  by unfold_locales (auto simp: gitea_execute_def gitea_validate_def gitea_close_def validate_operation_def split: option.splits)

interpretation po: closable policy_execute policy_validate policy_close
  by unfold_locales (auto simp: policy_execute_def policy_validate_def policy_close_def)

interpretation wh: closable webhook_execute webhook_validate webhook_close
  by unfold_locales (auto simp: webhook_execute_def webhook_validate_def webhook_close_def)

interpretation cx: closable crossplane_execute crossplane_validate crossplane_close
  by unfold_locales
    (auto simp: crossplane_execute_def crossplane_validate_def crossplane_close_def validate_operation_def split: option.splits)

interpretation aw: closable aws_execute aws_validate aws_close
  by unfold_locales (auto simp: aws_execute_def aws_validate_def aws_close_def validate_operation_def split: option.splits)

text \<open>
  After \<open>Close\<close>, no sequence of calls of any of the six connectors, with any operations, inputs,
  secrets and contexts, makes a request, prints anything or changes the world outside: each call
  returns an error and leaves the state as it was, and every input is refused by \<open>Validate\<close>.
\<close>

lemma closed_connectors_do_nothing:
  "snd (run_calls (github_execute lib) (snd (github_close c1)) calls s1) = s1
   \<and> snd (run_calls gitea_execute (snd (gitea_close c2)) calls s2) = s2
   \<and> snd (run_calls webhook_execute (snd (webhook_close c3)) calls s3) = s3
   \<and> snd (run_calls crossplane_execute (snd (crossplane_close c4)) calls s4) = s4
   \<and> snd (run_calls aws_execute (snd (aws_close c5)) calls s5) = s5
   \<and> list_all (\<lambda>out. case out of Fail _ \<Rightarrow> True | _ \<Rightarrow> False) (fst (run_calls policy_execute (snd (policy_close c6)) calls ()))
   \<and> github_validate (snd (github_close c1)) operation input = Some ''connector is closed''
   \<and> gitea_validate (snd (gitea_close c2)) operation input = Some ''connector is closed''"
proof (intro conjI)
  show "list_all (\<lambda>out. case out of Fail _ \<Rightarrow> True | _ \<Rightarrow> False) (fst (run_calls policy_execute (snd (policy_close c6)) calls ()))"
    using po.closed_runs [of c6 calls "()"] by (auto simp: list_all_iff)
qed (rule gh.closed_runs [THEN conjunct1] gt.closed_runs [THEN conjunct1] wh.closed_runs [THEN conjunct1]
    cx.closed_runs [THEN conjunct1] aw.closed_runs [THEN conjunct1] gh.closed_valid gt.closed_valid)+

section \<open>Results that do not depend on the outside\<close>

text \<open>Every resource is allowed by the embedded policy connector, under every bundle.\<close>

lemma policy_always_allows:
  "\<not> pc_closed c \<Longrightarrow> policy_execute c ctx_err ''evaluate'' input secrets s = (Ret policy_evaluate, s)
     \<and> go_get (the (cr_output policy_evaluate)) ''allowed'' = GBool True"
  by (simp add: policy_execute_def policy_evaluate_def success_result_def go_get_def)

text \<open>A callback succeeds whatever status the receiver answers with.\<close>

lemma callback_succeeds_on_any_status:
  assumes "post_callback c input w = (out, w')" "wc_post (wh_client c) url hs body w0 = (Inr (code, txt), w1)"
    "url = string_or_empty (go_get input ''url'')" "trim_space url \<noteq> []" "wc_create (wh_client c) url = None"
    "wc_marshal (wh_client c) (go_get input ''body'') = Inr body"
    "hs = callback_headers (wh_client c) (go_get input ''headers'')" "w0 = w"
  shows "out = Ret (success_result (Some [(''status_code'', GInt code), (''response_body'', GStr txt)]))"
  using assms by (simp add: post_callback_def Let_def)

text \<open>Creating a cluster only describes it, and every cluster that can be described is active.\<close>

lemma aws_cluster_stub:
  assumes "\<not> aw_closed c" "go_get input ''name'' = GStr name" "ac_describe_cluster (aw_client c) name w = (None, w')"
  shows "aws_execute c None ''create_eks_cluster'' input secrets w = (Ret (success_result (Some [(''arn'', GStr ''arn:aws:eks:mock'')])), w')"
    and "aws_execute c None ''get_cluster_status'' input secrets w = (Ret (success_result (Some [(''status'', GStr ''ACTIVE'')])), w')"
  using assms by (simp_all add: aws_execute_def aws_describe_def need_string_def)

end
