(* ===== verification/Module_Queries.thy ===== *)
theory Module_Queries
  imports Service_Connectors
begin

text \<open>
  The query API, \<open>src/internal/transport/http/query_handler.go\<close>, over the registry of the bootstrap
  (\<open>runner/module_bootstrap.go\<close>), with the descriptors of the modules (\<open>registry/module.go\<close>), and the
  scaffold module, \<open>src/internal/module/scaffold/module.go\<close>, whose steps are recorded in the order they are
  reported to the step API. The scaffold module is not registered by any code of the program.
\<close>

section \<open>Descriptors\<close>

record operation_descriptor =
  od_name :: string
  od_params :: "(string \<times> string) list"
  od_requires_approval :: bool

record query_descriptor =
  qd_name :: string
  qd_description :: string
  qd_params :: "(string \<times> string) list"

record entity_descriptor =
  ed_kind :: string
  ed_attributes :: "(string \<times> string) list"

record module_descriptor =
  md_name :: string
  md_domain :: string
  md_operations :: "operation_descriptor list"
  md_queries :: "query_descriptor list"
  md_entities :: "entity_descriptor list"

definition infra_describe :: module_descriptor where
  "infra_describe = \<lparr>md_name = ''infra'', md_domain = ''infrastructure'',
     md_operations =
       [\<lparr>od_name = ''provision'', od_params = [(''tenant'', ''string''), (''environment'', ''string''), (''catalogue_item'', ''string''),
           (''owner'', ''string''), (''primary_region'', ''string'')], od_requires_approval = True\<rparr>,
        \<lparr>od_name = ''deprovision'', od_params = [(''tenant'', ''string''), (''environment'', ''string''), (''resource_id'', ''string'')],
           od_requires_approval = True\<rparr>],
     md_queries =
       [\<lparr>qd_name = ''list-resources'', qd_description = ''List all infrastructure resources'',
           qd_params = [(''env'', ''string''), (''kind'', ''string'')]\<rparr>,
        \<lparr>qd_name = ''resource-health'', qd_description = ''Get health status of resources'', qd_params = [(''resource_id'', ''string'')]\<rparr>,
        \<lparr>qd_name = ''drift-report'', qd_description = ''Compare desired (Git) vs actual (Crossplane) state'',
           qd_params = [(''env'', ''string'')]\<rparr>],
     md_entities =
       [\<lparr>ed_kind = ''rds-instance'', ed_attributes = [(''engine'', ''string''), (''instance_class'', ''string''), (''storage'', ''int'')]\<rparr>,
        \<lparr>ed_kind = ''s3-bucket'', ed_attributes = [(''name'', ''string''), (''region'', ''string'')]\<rparr>,
        \<lparr>ed_kind = ''vpc'', ed_attributes = [(''cidr'', ''string''), (''region'', ''string'')]\<rparr>]\<rparr>"

section \<open>The query handler\<close>

datatype query_response =
    Query_error int string string
  | Query_answer query_result
  | Query_describe module_descriptor
  | Query_list "module_descriptor list"
  | Query_panic string

text \<open>The query parameters of a URL are lists of values; the first counts, an empty list is left out.\<close>

definition query_params :: "(string \<times> string list) list \<Rightarrow> go_map" where
  "query_params qs = map (\<lambda>(k, vs). (k, GStr (hd vs))) (filter (\<lambda>(_, vs). vs \<noteq> []) qs)"

definition module_not_found :: query_response where
  "module_not_found = Query_error 404 ''module not found'' ''MODULE_NOT_FOUND''"

definition execute_query ::
  "string \<Rightarrow> string \<Rightarrow> string \<Rightarrow> (string \<times> string list) list \<Rightarrow> dynamic_registry \<Rightarrow> query_response \<times> dynamic_registry" where
  "execute_query now name query qs r =
     (case dynamic_lookup r name ''latest'' of
        (None, r1) \<Rightarrow> (module_not_found, r1)
      | (Some m, r1) \<Rightarrow>
          (case infra_query m now query (query_params qs) of
             Fail e \<Rightarrow> (Query_error 500 e ''QUERY_EXECUTION_FAILED'', r1)
           | Panics e \<Rightarrow> (Query_panic e, r1)
           | Ret a \<Rightarrow> (Query_answer a, r1)))"

definition describe_module :: "string \<Rightarrow> dynamic_registry \<Rightarrow> query_response \<times> dynamic_registry" where
  "describe_module name r =
     (case dynamic_lookup r name ''latest'' of
        (None, r1) \<Rightarrow> (module_not_found, r1)
      | (Some m, r1) \<Rightarrow> (Query_describe infra_describe, r1))"

text \<open>\<open>ListModules\<close> of the registry of the bootstrap: two known keys are resolved.\<close>

fun describe_known :: "(string \<times> string) list \<Rightarrow> dynamic_registry \<Rightarrow> module_descriptor list \<times> dynamic_registry" where
  "describe_known [] r = ([], r)"
| "describe_known ((k, v) # ks) r =
     (case dynamic_lookup r k v of
        (x, r1) \<Rightarrow> (case describe_known ks r1 of (ds, r2) \<Rightarrow> (if x = None then ds else infra_describe # ds, r2)))"

definition list_known_modules :: "dynamic_registry \<Rightarrow> module_descriptor list \<times> dynamic_registry" where
  "list_known_modules r = describe_known [(''infra.provision'', ''latest''), (''scaffolding/create-service'', ''1.0.0'')] r"

definition list_modules :: "dynamic_registry \<Rightarrow> query_response \<times> dynamic_registry" where
  "list_modules r = (case list_known_modules r of (ds, r1) \<Rightarrow> (Query_list ds, r1))"

section \<open>The scaffold module\<close>

record scaffold_module =
  sm_customer_id :: string

definition new_scaffold_module :: "string \<Rightarrow> string + scaffold_module" where
  "new_scaffold_module customer =
     (if customer = [] then Inl ''customerID is required'' else Inr \<lparr>sm_customer_id = customer\<rparr>)"

definition new_legacy_scaffold_module :: scaffold_module where
  "new_legacy_scaffold_module = \<lparr>sm_customer_id = []\<rparr>"

definition scaffold_query :: "string \<Rightarrow> go_map \<Rightarrow> query_result" where
  "scaffold_query name params = query_error ''queries not yet implemented for scaffold module''"

definition scaffold_describe :: module_descriptor where
  "scaffold_describe = \<lparr>md_name = ''scaffold'', md_domain = ''service-scaffolding'',
     md_operations = [\<lparr>od_name = ''create-service'', od_params = [(''customer_id'', ''string''), (''service_name'', ''string''),
        (''owner'', ''string''), (''org'', ''string''), (''template'', ''string'')], od_requires_approval = False\<rparr>],
     md_queries = [\<lparr>qd_name = ''list-services'', qd_description = ''List all scaffolded services'',
        qd_params = [(''customer_id'', ''string''), (''org'', ''string'')]\<rparr>],
     md_entities = [\<lparr>ed_kind = ''service'', ed_attributes = [(''name'', ''string''), (''owner'', ''string''),
        (''repository'', ''string''), (''created_at'', ''timestamp'')]\<rparr>]\<rparr>"

definition scaffold_secret_tenant :: "scaffold_module \<Rightarrow> string" where
  "scaffold_secret_tenant m = sm_customer_id m"

datatype scaffold_event =
    Scaffold_begin string
  | Scaffold_ok string go_map
  | Scaffold_err string string string

definition required_params :: "string list" where
  "required_params = [''customer_id'', ''service_name'', ''owner'', ''org'', ''template'']"

text \<open>Events are reported only when a step API is given.\<close>

definition report :: "bool \<Rightarrow> scaffold_event list \<Rightarrow> scaffold_event list" where
  "report has_api es = (if has_api then es else [])"

definition scaffold_execute ::
  "bool \<Rightarrow> go_map \<Rightarrow> scaffold_module \<Rightarrow> string option \<times> scaffold_event list \<times> scaffold_module" where
  "scaffold_execute has_api params m =
     (case List.find (\<lambda>k. string_or_empty (go_get params k) = []) required_params of
        Some k \<Rightarrow>
          let e = k @ '' parameter is required and must be a non-empty string'' in
          (Some e, report has_api [Scaffold_begin ''scaffold.validate'', Scaffold_err ''scaffold.validate'' ''INVALID_PARAMS'' e], m)
      | None \<Rightarrow>
          let p = (\<lambda>k. string_or_empty (go_get params k));
              m1 = (if sm_customer_id m = [] then m\<lparr>sm_customer_id := p ''customer_id''\<rparr> else m)
          in (None, report has_api
               [Scaffold_begin ''scaffold.validate'',
                Scaffold_ok ''scaffold.validate'' (map (\<lambda>k. (k, GStr (p k))) required_params),
                Scaffold_begin ''scaffold.render_template'',
                Scaffold_ok ''scaffold.render_template'' [(''rendered'', GBool True)],
                Scaffold_begin ''scaffold.create_repository'',
                Scaffold_ok ''scaffold.create_repository''
                  [(''repo_url'', GStr (''https://github.com/'' @ p ''org'' @ ''/'' @ p ''service_name''))],
                Scaffold_begin ''scaffold.register_component'',
                Scaffold_ok ''scaffold.register_component''
                  [(''entity_ref'', GStr (''component:'' @ p ''owner'' @ ''/'' @ p ''service_name''))],
                Scaffold_begin ''scaffold.notify_completion'',
                Scaffold_ok ''scaffold.notify_completion'' []], m1))"

section \<open>Descriptors and answers agree for the infrastructure module\<close>

lemma resource_health_error:
  assumes "query_resource_health m now params = Ret a"
  shows "qr_error a = [] \<or> hd (qr_error a) \<in> {CHR ''r'', CHR ''f''}"
proof -
  let ?rid = "string_or_empty (go_get params ''resource_id'')"
  let ?cut = "case cut_at (CHR ''/'') ?rid of Some x \<Rightarrow> Some x | None \<Rightarrow> cut_at (CHR '':'') ?rid"
  consider (empty) "?rid = []" | (format) "?rid \<noteq> []" "?cut = None"
    | (call) kind name where "?rid \<noteq> []" "?cut = Some (kind, name)"
    by (cases ?cut) auto
  then show ?thesis
  proof cases
    case empty
    then show ?thesis using assms by (auto simp: query_resource_health_def query_error_def)
  next
    case format
    then show ?thesis using assms by (auto simp: query_resource_health_def query_error_def Let_def)
  next
    case call
    then show ?thesis using assms
      by (cases "call_crossplane_connector m ''get_resource_status'' [(''kind'', GStr kind), (''name'', GStr name)]")
        (auto simp: query_resource_health_def query_error_def query_ok_def Let_def)
  qed
qed

text \<open>A query is refused as unknown exactly when the descriptor does not list it.\<close>

lemma query_listed_iff_known:
  "infra_query m now name params = Ret (query_error (''unknown query: '' @ name))
     \<longleftrightarrow> name \<notin> qd_name ` set (md_queries infra_describe)"
proof -
  have a: "query_list_resources ps \<noteq> query_error (''unknown query: '' @ n)" for ps n
    by (simp add: query_list_resources_def Let_def query_ok_def query_error_def)
  have b: "query_drift_report now ps \<noteq> query_error (''unknown query: '' @ n)" for ps n
    by (simp add: query_drift_report_def Let_def query_ok_def query_error_def)
  have c: "query_resource_health m now ps \<noteq> Ret (query_error (''unknown query: '' @ n))" for ps n
    using resource_health_error [of m now ps "query_error (''unknown query: '' @ n)"] by (auto simp: query_error_def)
  have names: "qd_name ` set (md_queries infra_describe) = {''list-resources'', ''resource-health'', ''drift-report''}"
    by (simp add: infra_describe_def)
  show ?thesis unfolding names infra_query_def using a b c by simp
qed

text \<open>The list of modules has at most the infrastructure module, in the registry of the bootstrap.\<close>

lemma scaffold_never_listed:
  assumes "bootstrap_with_config e t fr = Inr r"
  shows "fst (list_known_modules r) = [] \<or> fst (list_known_modules r) = [infra_describe]"
proof -
  have reg: "re_legacy (dr_resolver r) = \<lparr>mr_modules = [(module_id ''infra.provision'' ''latest'', new_legacy_module)]\<rparr>"
    using assms by (auto simp: bootstrap_with_config_def new_config_aware_module_resolver_def new_default_module_registry_def
        module_register_def infra_kv_def Let_def split: sum.splits)
  have name: "extract_module_name ''scaffolding/create-service'' = ''scaffolding/create-service''"
    by (simp add: extract_module_name_def)
  have "\<not> is_config_managed_module ''scaffolding/create-service''"
    by code_simp
  then have none: "fst (dynamic_lookup r1 ''scaffolding/create-service'' ''1.0.0'') = None"
    if "re_legacy (dr_resolver r1) = re_legacy (dr_resolver r)" for r1
    using that reg name
    by (simp add: dynamic_lookup_def resolve_module_def Let_def resolve_legacy_module_def module_lookup_def module_id_def)
  obtain x r1 where x: "dynamic_lookup r ''infra.provision'' ''latest'' = (x, r1)" by (metis surj_pair)
  then have "re_legacy (dr_resolver r1) = re_legacy (dr_resolver r)"
    by (auto simp: dynamic_lookup_def split: sum.splits)
  then have "fst (dynamic_lookup r1 ''scaffolding/create-service'' ''1.0.0'') = None" by (rule none)
  then show ?thesis using x by (auto simp: list_known_modules_def split: prod.splits)
qed

text \<open>
  The health that a query reports is the type of the first condition: whether the condition holds
  is not looked at, so that a resource whose condition \<open>Ready\<close> is false is reported as \<open>Ready\<close>.
\<close>

lemma health_ignores_condition_status:
  assumes "go_get out ''status'' = GMap st" "as_string (go_get st ''health'') = None"
    "go_get st ''conditions'' = GList (GMap [(''type'', GStr ty), (''status'', v)] # cs)"
  shows "health_of_output (Some out) = ty"
  using assms by (simp add: health_of_output_def) (simp add: go_get_def)

section \<open>The scaffold module keeps its first customer\<close>

text \<open>Every valid run succeeds and reports a repository, although no connector is called.\<close>

lemma scaffold_execute_valid:
  assumes "\<forall>k \<in> set required_params. string_or_empty (go_get params k) \<noteq> []"
  shows "fst (scaffold_execute has_api params m) = None"
proof -
  have "List.find (\<lambda>k. string_or_empty (go_get params k) = []) required_params = None"
    using assms by (auto simp: find_None_iff)
  then show ?thesis by (simp add: scaffold_execute_def Let_def)
qed

text \<open>
  The tenant for secrets is the customer of the first valid run; the runs of other customers that
  share the module afterwards keep it.
\<close>

lemma scaffold_tenant_sticky:
  assumes "scaffold_execute a1 params1 new_legacy_scaffold_module = (None, es1, m1)"
    "scaffold_execute a2 params2 m1 = (r2, es2, m2)"
  shows "scaffold_secret_tenant m2 = string_or_empty (go_get params1 ''customer_id'')"
proof -
  have m1: "sm_customer_id m1 = string_or_empty (go_get params1 ''customer_id'')"
      "string_or_empty (go_get params1 ''customer_id'') \<noteq> []"
    using assms(1) by (auto simp: scaffold_execute_def Let_def new_legacy_scaffold_module_def required_params_def
        split: option.splits if_splits)
  then have "m2 = m1" using assms(2) by (auto simp: scaffold_execute_def Let_def split: option.splits)
  then show ?thesis using m1 by (simp add: scaffold_secret_tenant_def)
qed

end
