(* ===== verification/Audit_Trail.thy ===== *)
theory Audit_Trail
  imports Step_Api
begin

text \<open>
  The audit trail: \<open>src/internal/audit\<close>, the table \<open>audit_log\<close> of \<open>src/internal/db/schema.go\<close>, and the
  goroutine of \<open>CallConnector\<close> (\<open>src/internal/runner/step_api.go\<close>) that records the access to secrets and
  shares the variable \<open>err\<close> with the call it accompanies. An \<open>INSERT\<close> fails for a column the table
  does not have and for a missing value of a column that needs one; log output is left out.
\<close>

section \<open>Inserting into a table\<close>

record sql_column =
  sc_name :: string
  sc_not_null :: bool
  sc_default :: bool

type_synonym sql_row = "(string \<times> go_any) list"

definition sql_insert :: "string \<Rightarrow> sql_column list \<Rightarrow> sql_row \<Rightarrow> sql_row list \<Rightarrow> string + sql_row list" where
  "sql_insert table cols row rows =
     (case List.find (\<lambda>k. k \<notin> sc_name ` set cols) (map fst row) of
        Some k \<Rightarrow> Inl (''column '' @ go_quote k @ '' of relation '' @ go_quote table @ '' does not exist'')
      | None \<Rightarrow>
     (case List.find (\<lambda>c. sc_not_null c \<and> \<not> sc_default c \<and> sc_name c \<notin> fst ` set row) cols of
        Some c \<Rightarrow> Inl (''null value in column '' @ go_quote (sc_name c) @ '' of relation '' @ go_quote table
          @ '' violates not-null constraint'')
      | None \<Rightarrow> Inr (rows @ [row])))"

definition audit_log_columns :: "sql_column list" where
  "audit_log_columns = map (\<lambda>(n, nn, d). \<lparr>sc_name = n, sc_not_null = nn, sc_default = d\<rparr>)
     [(''id'', True, True), (''ts'', True, True), (''tenant_id'', True, False), (''principal'', True, False),
      (''action'', True, False), (''target'', True, False), (''result'', True, False), (''details'', False, True),
      (''ip_address'', False, False), (''user_agent'', False, False), (''created_at'', True, True)]"

section \<open>The service\<close>

record full_audit_event = audit_event +
  ae_metadata :: "(string \<times> string) list"
  ae_timestamp :: "time option"
  ae_request_id :: string

record audit_error =
  au_err :: string
  au_code :: string
  au_detail :: "(string \<times> string) list"

definition audit_error_text :: "audit_error \<Rightarrow> string" where
  "audit_error_text e = au_code e @ '': '' @ au_err e"

definition new_audit_error :: "string \<Rightarrow> string \<Rightarrow> (string \<times> string) list \<Rightarrow> audit_error" where
  "new_audit_error err code detail = \<lparr>au_err = err, au_code = code, au_detail = detail\<rparr>"

definition event_invalid :: "string \<Rightarrow> audit_error" where
  "event_invalid msg = new_audit_error ''invalid audit event'' ''AUDIT_EVENT_INVALID'' [(''error'', msg)]"

definition write_failed :: "string \<Rightarrow> audit_error" where
  "write_failed msg = new_audit_error ''audit write failed'' ''AUDIT_WRITE_FAILED'' [(''error'', msg)]"

definition audit_row :: "time \<Rightarrow> full_audit_event \<Rightarrow> sql_row" where
  "audit_row now e =
     [(''tenant_id'', GStr (ae_tenant e)), (''principal'', GStr (ae_principal e)), (''action'', GStr (ae_action e)),
      (''target'', GStr (ae_target e)), (''decision'', GStr (ae_decision e)), (''reason'', GStr (ae_reason e)),
      (''metadata'', GStrMap (ae_metadata e)),
      (''timestamp'', GTime (case ae_timestamp e of None \<Rightarrow> now | Some t \<Rightarrow> t)),
      (''request_id'', GStr (ae_request_id e)), (''job_id'', GStr (ae_job_id e)), (''run_id'', GStr (ae_run_id e)),
      (''created_at'', GTime now)]"

text \<open>\<open>acq\<close> is the error of \<open>Acquire\<close> and \<open>fault\<close> that of the connection, if any; \<open>cols\<close> are the
  columns of the table the statement meets.\<close>

definition audit_record ::
  "sql_column list \<Rightarrow> string option \<Rightarrow> string option \<Rightarrow> time \<Rightarrow> full_audit_event \<Rightarrow> sql_row list
     \<Rightarrow> audit_error option \<times> sql_row list" where
  "audit_record cols acq fault now e rows =
     (if ae_tenant e = [] then (Some (event_invalid ''tenant_id is required''), rows)
      else if ae_action e = [] then (Some (event_invalid ''action is required''), rows)
      else case acq of
        Some err \<Rightarrow> (Some (write_failed err), rows)
      | None \<Rightarrow>
          (case fault of
             Some err \<Rightarrow> (Some (write_failed err), rows)
           | None \<Rightarrow>
               (case sql_insert ''audit_log'' cols (audit_row now e) rows of
                  Inl err \<Rightarrow> (Some (write_failed err), rows)
                | Inr rows' \<Rightarrow> (None, rows'))))"

definition policy_decision_event :: "string \<Rightarrow> string \<Rightarrow> string \<Rightarrow> string \<Rightarrow> string \<Rightarrow> string \<Rightarrow> full_audit_event" where
  "policy_decision_event tenant who action target decision reason =
     \<lparr>ae_tenant = tenant, ae_principal = who, ae_action = action, ae_target = target, ae_decision = decision,
      ae_reason = reason, ae_job_id = [], ae_run_id = [], ae_metadata = [], ae_timestamp = None, ae_request_id = []\<rparr>"

definition job_action_event :: "string \<Rightarrow> string \<Rightarrow> string \<Rightarrow> string \<Rightarrow> string \<Rightarrow> string \<Rightarrow> full_audit_event" where
  "job_action_event tenant who action job_id decision reason =
     \<lparr>ae_tenant = tenant, ae_principal = who, ae_action = action, ae_target = [], ae_decision = decision,
      ae_reason = reason, ae_job_id = job_id, ae_run_id = [], ae_metadata = [], ae_timestamp = None, ae_request_id = []\<rparr>"

definition admin_action_event :: "string \<Rightarrow> string \<Rightarrow> string \<Rightarrow> string \<Rightarrow> string \<Rightarrow> string \<Rightarrow> full_audit_event" where
  "admin_action_event tenant who action target decision reason =
     policy_decision_event tenant who action target decision reason"

section \<open>The race of the secret call\<close>

text \<open>
  \<open>err = a.auditService.Record(...)\<close> in the goroutine assigns the variable that the call assigns with
  the result of \<open>UseSecrets\<close> and reads after it. The assignment of the goroutine comes before the
  one of the call, between it and the read, or after the read.
\<close>

datatype race = Goes_first | Goes_between | Goes_last

definition raced_err :: "race \<Rightarrow> string option \<Rightarrow> string option \<Rightarrow> string option" where
  "raced_err when audit_err err = (if when = Goes_between then audit_err else err)"

text \<open>The error messages of the call print \<open>err\<close> as it is then. With no error the result is
  converted, whatever \<open>UseSecrets\<close> gave.\<close>

definition secret_call ::
  "race \<Rightarrow> string option \<Rightarrow> vault \<Rightarrow> connector \<Rightarrow> connector_request \<Rightarrow> string list \<Rightarrow> call_outcome" where
  "secret_call when audit_err v c req keys =
     (case use_secrets v c req keys of
        (r, e) \<Rightarrow>
          (case raced_err when audit_err e of
             Some e' \<Rightarrow> call_error ''SECRET_EXECUTION_FAILED'' (''failed to execute with secrets: '' @ e')
           | None \<Rightarrow> convert_result r))"

section \<open>No event reaches the table of the schema\<close>

lemma sql_insert_unknown:
  assumes "k \<in> fst ` set row" "k \<notin> sc_name ` set cols"
  shows "\<exists>e. sql_insert table cols row rows = Inl e"
proof -
  have "List.find (\<lambda>k. k \<notin> sc_name ` set cols) (map fst row) \<noteq> None"
    using assms by (auto simp: find_None_iff)
  then show ?thesis by (auto simp: sql_insert_def split: option.splits)
qed

lemma sql_insert_ok:
  assumes "fst ` set row \<subseteq> sc_name ` set cols" "\<forall>c \<in> set cols. sc_not_null c \<and> \<not> sc_default c \<longrightarrow> sc_name c \<in> fst ` set row"
  shows "sql_insert table cols row rows = Inr (rows @ [row])"
proof -
  have "List.find (\<lambda>k. k \<notin> sc_name ` set cols) (map fst row) = None"
    using assms(1) by (auto simp: find_None_iff)
  moreover have "List.find (\<lambda>c. sc_not_null c \<and> \<not> sc_default c \<and> sc_name c \<notin> fst ` set row) cols = None"
    using assms(2) by (auto simp: find_None_iff)
  ultimately show ?thesis by (simp add: sql_insert_def)
qed

lemma audit_row_columns: "map fst (audit_row now e) = map fst (audit_row now' e')"
  by (simp add: audit_row_def)

text \<open>C24: On the table \<open>audit_log\<close> as the schema creates it no audit event is ever stored: the statement
  names columns the table does not have, so that \<open>Record\<close> returns an error for every event, and
  the table stays as it is. On a table with exactly the columns of the statement, as the
  integration test of the package creates, every event with a tenant and an action is stored
  unless the pool or the connection fails.
\<close>

theorem audit_log_never_written:
  "(\<exists>err. audit_record audit_log_columns acq fault now e rows = (Some err, rows))
   \<and> audit_record (map (\<lambda>k. \<lparr>sc_name = fst k, sc_not_null = nn, sc_default = d\<rparr>) (audit_row now e)) acq fault now e rows
     = (if ae_tenant e = [] then (Some (event_invalid ''tenant_id is required''), rows)
        else if ae_action e = [] then (Some (event_invalid ''action is required''), rows)
        else case acq of Some err \<Rightarrow> (Some (write_failed err), rows)
          | None \<Rightarrow> (case fault of Some err \<Rightarrow> (Some (write_failed err), rows) | None \<Rightarrow> (None, rows @ [audit_row now e])))"
proof -
  have "''decision'' \<in> fst ` set (audit_row now e)" by (simp add: audit_row_def)
  moreover have "''decision'' \<notin> sc_name ` set audit_log_columns" by (simp add: audit_log_columns_def)
  ultimately obtain err where "sql_insert ''audit_log'' audit_log_columns (audit_row now e) rows = Inl err"
    using sql_insert_unknown by blast
  then have "\<exists>err. audit_record audit_log_columns acq fault now e rows = (Some err, rows)"
    by (simp add: audit_record_def split: option.splits)
  moreover have "sql_insert ''audit_log'' (map (\<lambda>k. \<lparr>sc_name = fst k, sc_not_null = nn, sc_default = d\<rparr>) (audit_row now e))
      (audit_row now e) rows = Inr (rows @ [audit_row now e])"
    by (rule sql_insert_ok) (auto simp: image_image)
  ultimately show ?thesis by (simp add: audit_record_def split: option.splits)
qed

section \<open>What the race does to a call\<close>

text \<open>When the goroutine does not come between, the call is the one of \<open>CallConnector\<close>.\<close>

lemma secret_call_no_race:
  assumes "when \<noteq> Goes_between" "secret_tenant a = Inr tenant" "a_vault a = Some vm" "vm tenant = Inr v"
  shows "secret_call when audit_err v c req keys = fst (call_with_secrets a c req keys)"
  using assms by (auto simp: secret_call_def raced_err_def call_with_secrets_def Let_def split: prod.splits option.splits)

text \<open>
  When it does, a call that succeeded is reported as failed if the event is not recorded, and a
  call whose vault gave no secrets panics if it is.
\<close>

lemma secret_call_race:
  assumes "use_secrets v c req keys = (r, e)"
  shows "\<exists>res. secret_call Goes_between (Some err) v c req keys = Call_result res \<and> adapter_error res"
    and "r = None \<Longrightarrow> secret_call Goes_between None v c req keys = Call_panic"
  using assms by (simp_all add: secret_call_def raced_err_def convert_result_def adapter_error_intros)

end
