(* ===== verification/Db_Schema.thy ===== *)
theory Db_Schema
  imports Job_Store
begin

text \<open>
  The statements of \<open>src/internal/db/schema.go\<close> and what PostgreSQL does with them. A statement is the
  part of the SQL text that the catalog checks: the names it creates, the columns with their types,
  the columns of keys, checks and references, the columns that an index or a view reads, the types
  of a function. Defaults, predicates and bodies are left to the tables of \<open>Job_Store\<close>,
  \<open>Dora_Store\<close> and \<open>External_Effects\<close>, which model the rows. \<open>exec_ddl\<close> is the effect of one
  statement on the catalog, \<open>exec_schema\<close> the loop of \<open>dbCreate\<close> over \<open>SchemaAll\<close>.
\<close>

section \<open>Statements and the catalog\<close>

datatype table_constraint = Key "string list" | Check "string list" | Refers string string string

datatype schema_stmt =
    Create_type string "string list"
  | Create_table string "(string \<times> string) list" "table_constraint list"
  | Create_view string string "(string \<times> string list) list"
  | Create_materialized_view string "string list" "(string \<times> string list) list"
  | Create_index string string "string list"
  | Create_function string "string list" string

text \<open>Tables, views and indexes share one name space.\<close>

datatype relation = Table "string list" "string list list" | View "string list" | Matview "string list" | Index_on string

record catalog =
  cat_types :: "(string \<times> string list) list"
  cat_relations :: "(string \<times> relation) list"
  cat_routines :: "((string \<times> string list) \<times> string) list"

abbreviation types :: "catalog \<Rightarrow> string \<Rightarrow> string list option" where
  "types c \<equiv> map_of (cat_types c)"

abbreviation relations :: "catalog \<Rightarrow> string \<Rightarrow> relation option" where
  "relations c \<equiv> map_of (cat_relations c)"

abbreviation routines :: "catalog \<Rightarrow> string \<times> string list \<Rightarrow> string option" where
  "routines c \<equiv> map_of (cat_routines c)"

definition empty_catalog :: catalog where
  "empty_catalog = \<lparr>cat_types = [], cat_relations = [], cat_routines = []\<rparr>"

datatype ddl_error =
    Undefined_relation string | Undefined_column string | Undefined_type string
  | Wrong_object string | Invalid_definition string | Invalid_foreign_key string

definition builtin_types :: "string list" where
  "builtin_types = [''text'', ''uuid'', ''jsonb'', ''int'', ''bigint'', ''bigserial'', ''bytea'', ''timestamptz'', ''interval'',
     ''boolean'', ''void'']"

definition known_type :: "catalog \<Rightarrow> string \<Rightarrow> bool" where
  "known_type c t \<longleftrightarrow> t \<in> set builtin_types \<or> types c t \<noteq> None"

fun rel_columns :: "relation \<Rightarrow> string list option" where
  "rel_columns (Table cols _) = Some cols"
| "rel_columns (View cols) = Some cols"
| "rel_columns (Matview cols) = Some cols"
| "rel_columns (Index_on _) = None"

text \<open>A query or an index reads columns of a relation.\<close>

definition read_error :: "catalog \<Rightarrow> string \<times> string list \<Rightarrow> ddl_error option" where
  "read_error c u =
     (case relations c (fst u) of
        None \<Rightarrow> Some (Undefined_relation (fst u))
      | Some r \<Rightarrow>
          (case rel_columns r of
             None \<Rightarrow> Some (Wrong_object (fst u))
           | Some cols \<Rightarrow> map_option Undefined_column (List.find (\<lambda>x. x \<notin> set cols) (snd u))))"

fun read_errors :: "catalog \<Rightarrow> (string \<times> string list) list \<Rightarrow> ddl_error option" where
  "read_errors c [] = None"
| "read_errors c (u # us) = (case read_error c u of Some e \<Rightarrow> Some e | None \<Rightarrow> read_errors c us)"

section \<open>Execution\<close>

fun table_constraint_error :: "catalog \<Rightarrow> string list \<Rightarrow> table_constraint \<Rightarrow> ddl_error option" where
  "table_constraint_error c cols (Key ks) = map_option Undefined_column (List.find (\<lambda>x. x \<notin> set cols) ks)"
| "table_constraint_error c cols (Check ks) = map_option Undefined_column (List.find (\<lambda>x. x \<notin> set cols) ks)"
| "table_constraint_error c cols (Refers col table target) =
     (if col \<notin> set cols then Some (Undefined_column col)
      else case relations c table of
        None \<Rightarrow> Some (Undefined_relation table)
      | Some (Table tcols tkeys) \<Rightarrow>
          if target \<notin> set tcols then Some (Undefined_column target)
          else if [target] \<notin> set tkeys then Some (Invalid_foreign_key table)
          else None
      | Some _ \<Rightarrow> Some (Wrong_object table))"

fun key_columns :: "table_constraint \<Rightarrow> string list option" where
  "key_columns (Key ks) = Some ks"
| "key_columns _ = None"

definition table_error :: "catalog \<Rightarrow> (string \<times> string) list \<Rightarrow> table_constraint list \<Rightarrow> ddl_error option" where
  "table_error c cols cons =
     (case List.find (\<lambda>(_, t). \<not> known_type c t) cols of
        Some (_, t) \<Rightarrow> Some (Undefined_type t)
      | None \<Rightarrow> case List.map_filter (table_constraint_error c (map fst cols)) cons of e # _ \<Rightarrow> Some e | [] \<Rightarrow> None)"

text \<open>
  \<open>IF NOT EXISTS\<close> skips a relation whose name is taken by any relation; an index and a materialised
  view are skipped only after their relation and columns were found. The block around a \<open>CREATE TYPE\<close>
  swallows the duplicate. \<open>CREATE OR REPLACE VIEW\<close> accepts more columns at the end only, and
  \<open>CREATE OR REPLACE FUNCTION\<close> the same result type only.
\<close>

fun exec_ddl :: "schema_stmt \<Rightarrow> catalog \<Rightarrow> ddl_error + catalog" where
  "exec_ddl (Create_type n vs) c =
     (if types c n \<noteq> None then Inr c else Inr (c\<lparr>cat_types := alist_put n vs (cat_types c)\<rparr>))"
| "exec_ddl (Create_table n cols cons) c =
     (if relations c n \<noteq> None then Inr c
      else case table_error c cols cons of
        Some e \<Rightarrow> Inl e
      | None \<Rightarrow> Inr (c\<lparr>cat_relations := alist_put n (Table (map fst cols) (List.map_filter key_columns cons)) (cat_relations c)\<rparr>))"
| "exec_ddl (Create_view n star uses) c =
     (case read_errors c ((star, []) # uses) of
        Some e \<Rightarrow> Inl e
      | None \<Rightarrow>
          let cols = the (rel_columns (the (relations c star))); c' = c\<lparr>cat_relations := alist_put n (View cols) (cat_relations c)\<rparr> in
          (case relations c n of
             None \<Rightarrow> Inr c'
           | Some (View old) \<Rightarrow> if take (length old) cols = old then Inr c' else Inl (Invalid_definition n)
           | Some _ \<Rightarrow> Inl (Wrong_object n)))"
| "exec_ddl (Create_materialized_view n cols uses) c =
     (case read_errors c uses of
        Some e \<Rightarrow> Inl e
      | None \<Rightarrow> if relations c n \<noteq> None then Inr c else Inr (c\<lparr>cat_relations := alist_put n (Matview cols) (cat_relations c)\<rparr>))"
| "exec_ddl (Create_index n rel cols) c =
     (case read_error c (rel, cols) of
        Some e \<Rightarrow> Inl e
      | None \<Rightarrow>
          (case relations c rel of
             Some (View _) \<Rightarrow> Inl (Wrong_object rel)
           | _ \<Rightarrow> if relations c n \<noteq> None then Inr c else Inr (c\<lparr>cat_relations := alist_put n (Index_on rel) (cat_relations c)\<rparr>)))"
| "exec_ddl (Create_function n args ret) c =
     (case List.find (\<lambda>t. \<not> known_type c t) (ret # args) of
        Some t \<Rightarrow> Inl (Undefined_type t)
      | None \<Rightarrow>
          (case routines c (n, args) of
             None \<Rightarrow> Inr (c\<lparr>cat_routines := alist_put (n, args) ret (cat_routines c)\<rparr>)
           | Some old \<Rightarrow> if old = ret then Inr c else Inl (Invalid_definition n)))"

text \<open>Every statement commits on its own: what ran before a failing statement stays.\<close>

fun exec_schema :: "schema_stmt list \<Rightarrow> catalog \<Rightarrow> ddl_error option \<times> catalog" where
  "exec_schema [] c = (None, c)"
| "exec_schema (s # ss) c = (case exec_ddl s c of Inl e \<Rightarrow> (Some e, c) | Inr c' \<Rightarrow> exec_schema ss c')"

text \<open>
  The same loop over a connection that may fail: \<open>f k = Some (b, e)\<close> makes statement \<open>k\<close> return the error
  \<open>e\<close>, and \<open>b\<close> tells whether the server had committed it all the same.
\<close>

datatype schema_failure = Refused ddl_error | Connection_lost string

fun create_schema ::
  "(nat \<Rightarrow> (bool \<times> string) option) \<Rightarrow> nat \<Rightarrow> schema_stmt list \<Rightarrow> catalog \<Rightarrow> schema_failure option \<times> catalog" where
  "create_schema f k [] c = (None, c)"
| "create_schema f k (s # ss) c =
     (case f k of
        Some (committed, e) \<Rightarrow> (Some (Connection_lost e),
          if committed then (case exec_ddl s c of Inl _ \<Rightarrow> c | Inr c' \<Rightarrow> c') else c)
      | None \<Rightarrow>
          (case exec_ddl s c of Inl e \<Rightarrow> (Some (Refused e), c) | Inr c' \<Rightarrow> create_schema f (Suc k) ss c'))"

section \<open>The statements of the schema\<close>

definition schema_migrations :: schema_stmt where
  "schema_migrations =
     Create_table ''schema_migrations'' [(''version'', ''text''), (''applied_at'', ''timestamptz'')]
     [Key [''version'']]"

definition schema_job_state :: schema_stmt where
  "schema_job_state =
     Create_type ''job_state'' [''queued'', ''running'', ''succeeded'', ''failed'', ''jobs_exhausted'', ''canceled'']"

definition schema_outbox_kind :: schema_stmt where
  "schema_outbox_kind = Create_type ''outbox_kind'' [''webhook'', ''event'', ''internal'']"

definition schema_effect_kind :: schema_stmt where
  "schema_effect_kind = Create_type ''effect_kind'' [''connector_call'']"

definition schema_effect_status :: schema_stmt where
  "schema_effect_status =
     Create_type ''effect_status'' [''pending'', ''reserved'', ''in_flight'', ''succeeded'', ''failed'', ''canceled'',
     ''unknown_outcome'', ''dlq'']"

definition schema_step_status :: schema_stmt where
  "schema_step_status = Create_type ''step_status'' [''ok'', ''error'', ''skipped'', ''waiting_approval'']"

definition schema_approval_decision :: schema_stmt where
  "schema_approval_decision = Create_type ''approval_decision'' [''approved'', ''rejected'', ''expired'']"

definition schema_jobs :: schema_stmt where
  "schema_jobs =
     Create_table ''jobs'' [(''id'', ''uuid''), (''tenant_id'', ''text''), (''path_key'', ''text''),
     (''idempotency_key'', ''text''), (''params_json'', ''jsonb''), (''schedule'', ''text''),
     (''state'', ''job_state''), (''attempt'', ''int''), (''max_attempts'', ''int''), (''backoff_policy'', ''jsonb''),
     (''owner_id'', ''text''), (''run_id'', ''uuid''), (''lease_expires_at'', ''timestamptz''),
     (''next_run_at'', ''timestamptz''), (''accepted_at'', ''timestamptz''),
     (''cancel_requested_at'', ''timestamptz''), (''cancel_reason'', ''text''), (''last_error_code'', ''text''),
     (''last_error_message'', ''text''), (''created_by'', ''text''), (''created_at'', ''timestamptz''),
     (''started_at'', ''timestamptz''), (''finished_at'', ''timestamptz''), (''updated_at'', ''timestamptz'')]
     [Key [''id''], Check [''attempt'', ''max_attempts''], Check [''idempotency_key'']]"

definition schema_jobs_idem_uidx :: schema_stmt where
  "schema_jobs_idem_uidx = Create_index ''jobs_tenant_idem_uidx'' ''jobs'' [''tenant_id'', ''idempotency_key'']"

definition schema_jobs_due_idx :: schema_stmt where
  "schema_jobs_due_idx = Create_index ''jobs_due_idx'' ''jobs'' [''tenant_id'', ''next_run_at'', ''state'']"

definition schema_jobs_expired_running_idx :: schema_stmt where
  "schema_jobs_expired_running_idx =
     Create_index ''jobs_expired_running_idx'' ''jobs'' [''tenant_id'', ''lease_expires_at'', ''state'']"

definition schema_jobs_tenant_id_idx :: schema_stmt where
  "schema_jobs_tenant_id_idx = Create_index ''jobs_tenant_id_idx'' ''jobs'' [''tenant_id'', ''id'']"

definition schema_jobs_read :: schema_stmt where
  "schema_jobs_read =
     Create_table ''jobs_read'' [(''id'', ''uuid''), (''tenant_id'', ''text''), (''path_key'', ''text''),
     (''state'', ''job_state''), (''attempt'', ''int''), (''max_attempts'', ''int''), (''schedule'', ''text''),
     (''owner_id'', ''text''), (''run_id'', ''uuid''), (''lease_expires_at'', ''timestamptz''),
     (''next_run_at'', ''timestamptz''), (''accepted_at'', ''timestamptz''), (''last_error_code'', ''text''),
     (''last_error_message'', ''text''), (''started_at'', ''timestamptz''), (''finished_at'', ''timestamptz''),
     (''created_at'', ''timestamptz''), (''updated_at'', ''timestamptz'')] [Key [''id'']]"

definition schema_jobs_read_tenant_idx :: schema_stmt where
  "schema_jobs_read_tenant_idx = Create_index ''jobs_read_tenant_idx'' ''jobs_read'' [''tenant_id'', ''id'']"

definition schema_outbox :: schema_stmt where
  "schema_outbox =
     Create_table ''outbox'' [(''id'', ''bigserial''), (''tenant_id'', ''text''), (''job_id'', ''uuid''),
     (''kind'', ''outbox_kind''), (''dedupe_key'', ''text''), (''payload_json'', ''jsonb''),
     (''delivery_state'', ''text''), (''attempt'', ''int''), (''max_attempts'', ''int''),
     (''next_run_at'', ''timestamptz''), (''last_error'', ''text''), (''created_at'', ''timestamptz''),
     (''updated_at'', ''timestamptz'')] [Key [''id'']]"

definition schema_outbox_due_idx :: schema_stmt where
  "schema_outbox_due_idx =
     Create_index ''outbox_due_idx'' ''outbox'' [''tenant_id'', ''next_run_at'', ''delivery_state'']"

definition schema_external_effects :: schema_stmt where
  "schema_external_effects =
     Create_table ''external_effects'' [(''effect_id'', ''uuid''), (''kind'', ''effect_kind''),
     (''job_id'', ''uuid''), (''run_id'', ''uuid''), (''step_key'', ''text''), (''connector_key'', ''text''),
     (''operation'', ''text''), (''input_digest'', ''bytea''), (''call_id'', ''text''),
     (''status'', ''effect_status''), (''attempt'', ''int''), (''max_attempts'', ''int''),
     (''reconcile_attempts'', ''int''), (''max_reconcile_attempts'', ''int''), (''owner_id'', ''text''),
     (''lease_expires_at'', ''timestamptz''), (''next_run_at'', ''timestamptz''), (''provider_ref'', ''text''),
     (''last_error_code'', ''text''), (''last_error_message'', ''text''), (''created_at'', ''timestamptz''),
     (''updated_at'', ''timestamptz'')] [Key [''effect_id''], Key [''job_id'', ''run_id'', ''step_key'',
     ''operation'', ''input_digest''], Key [''call_id'']]"

definition schema_external_effects_reserved_idx :: schema_stmt where
  "schema_external_effects_reserved_idx =
     Create_index ''external_effects_reserved_idx'' ''external_effects'' [''status'', ''next_run_at'']"

definition schema_external_effects_in_flight_idx :: schema_stmt where
  "schema_external_effects_in_flight_idx =
     Create_index ''external_effects_in_flight_idx'' ''external_effects'' [''status'', ''lease_expires_at'']"

definition schema_external_effects_dlq_idx :: schema_stmt where
  "schema_external_effects_dlq_idx = Create_index ''external_effects_dlq_idx'' ''external_effects'' [''status'']"

definition schema_steps :: schema_stmt where
  "schema_steps =
     Create_table ''steps'' [(''id'', ''bigserial''), (''job_id'', ''uuid''), (''run_id'', ''uuid''),
     (''attempt'', ''int''), (''step_key'', ''text''), (''status'', ''step_status''), (''output_json'', ''jsonb''),
     (''error_code'', ''text''), (''error_message'', ''text''), (''started_at'', ''timestamptz''),
     (''finished_at'', ''timestamptz''), (''duration_ms'', ''int''), (''approval_request'', ''jsonb''),
     (''approval_ttl'', ''interval''), (''approval_expires_at'', ''timestamptz'')] [Key [''id''], Key [''job_id'',
     ''attempt'', ''step_key'']]"

definition schema_steps_job_attempt_idx :: schema_stmt where
  "schema_steps_job_attempt_idx = Create_index ''steps_job_attempt_idx'' ''steps'' [''job_id'', ''attempt'']"

definition schema_approval_decisions :: schema_stmt where
  "schema_approval_decisions =
     Create_table ''approval_decisions'' [(''id'', ''uuid''), (''job_id'', ''uuid''), (''step_id'', ''bigint''),
     (''run_id'', ''uuid''), (''decision'', ''approval_decision''), (''approver'', ''text''),
     (''justification'', ''text''), (''policy_snapshot'', ''jsonb''), (''idempotency_key'', ''text''),
     (''created_at'', ''timestamptz'')] [Key [''id''], Refers ''job_id'' ''jobs'' ''id'',
     Refers ''step_id'' ''steps'' ''id'', Key [''step_id'', ''approver''], Key [''idempotency_key'']]"

definition schema_approval_decisions_step_idx :: schema_stmt where
  "schema_approval_decisions_step_idx =
     Create_index ''idx_approval_decisions_step'' ''approval_decisions'' [''step_id'']"

definition schema_approval_decisions_job_idx :: schema_stmt where
  "schema_approval_decisions_job_idx =
     Create_index ''idx_approval_decisions_job'' ''approval_decisions'' [''job_id'']"

definition schema_jobs_with_pending_approvals :: schema_stmt where
  "schema_jobs_with_pending_approvals =
     Create_view ''jobs_with_pending_approvals'' ''jobs'' [(''jobs'', [''id'']), (''steps'', [''job_id'',
     ''status''])]"

definition schema_job_context :: schema_stmt where
  "schema_job_context =
     Create_table ''job_context'' [(''job_id'', ''uuid''), (''key'', ''text''), (''value_json'', ''jsonb''),
     (''run_id'', ''uuid''), (''updated_at'', ''timestamptz'')] [Key [''job_id'', ''key'']]"

definition schema_job_context_job_idx :: schema_stmt where
  "schema_job_context_job_idx = Create_index ''job_context_job_idx'' ''job_context'' [''job_id'']"

definition schema_connector_call_log :: schema_stmt where
  "schema_connector_call_log =
     Create_table ''connector_call_log'' [(''id'', ''bigserial''), (''ts'', ''timestamptz''),
     (''effect_id'', ''uuid''), (''call_id'', ''text''), (''provider'', ''text''), (''operation'', ''text''),
     (''request_ms'', ''int''), (''outcome'', ''text''), (''http_status'', ''int''), (''provider_ref'', ''text''),
     (''error_code'', ''text''), (''error_message'', ''text'')] []"

definition schema_connector_call_log_call_id_idx :: schema_stmt where
  "schema_connector_call_log_call_id_idx =
     Create_index ''connector_call_log_call_id_idx'' ''connector_call_log'' [''call_id'', ''ts'']"

definition schema_connector_call_log_effect_id_idx :: schema_stmt where
  "schema_connector_call_log_effect_id_idx =
     Create_index ''connector_call_log_effect_id_idx'' ''connector_call_log'' [''effect_id'', ''ts'']"

definition schema_idempotency_keys :: schema_stmt where
  "schema_idempotency_keys =
     Create_table ''idempotency_keys'' [(''id'', ''bigserial''), (''tenant_id'', ''text''), (''path_key'', ''text''),
     (''idempotency_key'', ''text''), (''payload_fingerprint'', ''bytea''), (''status_code'', ''int''),
     (''response_body_json'', ''jsonb''), (''job_id'', ''uuid''), (''accepted_at'', ''timestamptz''),
     (''expires_at'', ''timestamptz''), (''created_at'', ''timestamptz''), (''updated_at'', ''timestamptz'')]
     [Key [''id''], Key [''tenant_id'', ''path_key'', ''idempotency_key''], Check [''idempotency_key'']]"

definition schema_idempotency_keys_expires_at_idx :: schema_stmt where
  "schema_idempotency_keys_expires_at_idx =
     Create_index ''idempotency_keys_expires_at_idx'' ''idempotency_keys'' [''expires_at'']"

definition schema_metrics_job_events :: schema_stmt where
  "schema_metrics_job_events =
     Create_table ''metrics_job_events'' [(''ts'', ''timestamptz''), (''tenant_id'', ''text''),
     (''job_id'', ''uuid''), (''path_key'', ''text''), (''event'', ''text''), (''attempt'', ''int''),
     (''run_id'', ''uuid''), (''code'', ''text''), (''duration_ms'', ''int''), (''labels'', ''jsonb'')] []"

definition schema_dora_events :: schema_stmt where
  "schema_dora_events =
     Create_table ''dora_events'' [(''id'', ''uuid''), (''tenant_id'', ''text''), (''event_type'', ''text''),
     (''event_source'', ''text''), (''service_ref'', ''text''), (''environment'', ''text''),
     (''correlation_key'', ''text''), (''source_event_id'', ''text''), (''event_timestamp'', ''timestamptz''),
     (''ingested_at'', ''timestamptz''), (''payload'', ''jsonb'')] [Key [''id''], Check [''event_type'']]"

definition schema_dora_events_tenant_service_idx :: schema_stmt where
  "schema_dora_events_tenant_service_idx =
     Create_index ''idx_dora_events_tenant_service'' ''dora_events'' [''tenant_id'', ''service_ref'',
     ''event_timestamp'']"

definition schema_dora_events_correlation_idx :: schema_stmt where
  "schema_dora_events_correlation_idx =
     Create_index ''idx_dora_events_correlation'' ''dora_events'' [''tenant_id'', ''correlation_key'']"

definition schema_dora_events_source_event_uidx :: schema_stmt where
  "schema_dora_events_source_event_uidx =
     Create_index ''uq_dora_events_source_event'' ''dora_events'' [''tenant_id'', ''event_source'',
     ''source_event_id'']"

definition schema_dora_events_deploy_dedupe_uidx :: schema_stmt where
  "schema_dora_events_deploy_dedupe_uidx =
     Create_index ''uq_dora_events_deploy_dedupe'' ''dora_events'' [''tenant_id'', ''service_ref'', ''environment'',
     ''event_type'', ''correlation_key'']"

definition schema_dora_commit_deployment_links :: schema_stmt where
  "schema_dora_commit_deployment_links =
     Create_table ''dora_commit_deployment_links'' [(''tenant_id'', ''text''), (''service_ref'', ''text''),
     (''commit_sha'', ''text''), (''deployment_id'', ''uuid''), (''deployment_outcome'', ''text''),
     (''deployment_time'', ''timestamptz''), (''created_at'', ''timestamptz'')] [Check [''deployment_outcome''],
     Refers ''deployment_id'' ''dora_events'' ''id'', Key [''tenant_id'', ''service_ref'', ''commit_sha'',
     ''deployment_id'']]"

definition schema_dora_commit_deployment_links_deployment_time_idx :: schema_stmt where
  "schema_dora_commit_deployment_links_deployment_time_idx =
     Create_index ''idx_dora_links_deployment_time'' ''dora_commit_deployment_links'' [''tenant_id'', ''service_ref'',
     ''deployment_time'', ''deployment_outcome'']"

definition schema_dora_deployment_frequency_daily_mv :: schema_stmt where
  "schema_dora_deployment_frequency_daily_mv =
     Create_materialized_view ''dora_deployment_frequency_daily'' [''tenant_id'', ''service_ref'', ''environment'',
     ''bucket'', ''success_count'', ''failure_count''] [(''dora_events'', [''tenant_id'', ''event_type'',
     ''service_ref'', ''environment'', ''event_timestamp''])]"

definition schema_dora_deployment_frequency_daily_mv_key_idx :: schema_stmt where
  "schema_dora_deployment_frequency_daily_mv_key_idx =
     Create_index ''idx_dora_deploy_freq_daily_key'' ''dora_deployment_frequency_daily'' [''tenant_id'',
     ''service_ref'', ''environment'', ''bucket'']"

definition schema_dora_incident_opened_daily_mv :: schema_stmt where
  "schema_dora_incident_opened_daily_mv =
     Create_materialized_view ''dora_incident_opened_daily'' [''tenant_id'', ''service_ref'', ''bucket'',
     ''opened_incident_count''] [(''dora_events'', [''tenant_id'', ''event_type'', ''service_ref'',
     ''event_timestamp''])]"

definition schema_dora_incident_opened_daily_mv_key_idx :: schema_stmt where
  "schema_dora_incident_opened_daily_mv_key_idx =
     Create_index ''idx_dora_incident_opened_daily_key'' ''dora_incident_opened_daily'' [''tenant_id'',
     ''service_ref'', ''bucket'']"

definition schema_dora_incidents_daily_mv :: schema_stmt where
  "schema_dora_incidents_daily_mv =
     Create_materialized_view ''dora_incidents_daily'' [''tenant_id'', ''service_ref'', ''bucket'',
     ''resolved_incident_count'', ''avg_restore_seconds'', ''p50_restore_seconds''] [(''dora_events'', [''tenant_id'',
     ''event_type'', ''service_ref'', ''correlation_key'', ''event_timestamp''])]"

definition schema_dora_incidents_daily_mv_key_idx :: schema_stmt where
  "schema_dora_incidents_daily_mv_key_idx =
     Create_index ''idx_dora_incidents_daily_key'' ''dora_incidents_daily'' [''tenant_id'', ''service_ref'',
     ''bucket'']"

definition schema_dora_webhook_dead_letter :: schema_stmt where
  "schema_dora_webhook_dead_letter =
     Create_table ''dora_webhook_dead_letter'' [(''id'', ''uuid''), (''tenant_id'', ''text''),
     (''provider'', ''text''), (''source_event_id'', ''text''), (''headers'', ''jsonb''), (''body'', ''bytea''),
     (''failure_reason'', ''text''), (''created_at'', ''timestamptz''), (''replayed_at'', ''timestamptz''),
     (''replay_job_id'', ''uuid'')] [Key [''id'']]"

definition schema_dora_webhook_dead_letter_tenant_created_idx :: schema_stmt where
  "schema_dora_webhook_dead_letter_tenant_created_idx =
     Create_index ''idx_dora_webhook_dlq_tenant_created'' ''dora_webhook_dead_letter'' [''tenant_id'',
     ''created_at'']"

definition schema_dora_group_brand_map :: schema_stmt where
  "schema_dora_group_brand_map =
     Create_table ''dora_group_brand_map'' [(''group_id'', ''text''), (''brand_id'', ''text''),
     (''tenant_id'', ''text''), (''classification_version'', ''text''), (''last_synced_at'', ''timestamptz'')]
     [Key [''group_id'', ''brand_id'', ''tenant_id'']]"

definition schema_dora_group_brand_map_group_idx :: schema_stmt where
  "schema_dora_group_brand_map_group_idx =
     Create_index ''idx_dora_group_brand_map_group'' ''dora_group_brand_map'' [''tenant_id'', ''group_id'',
     ''last_synced_at'']"

definition schema_audit_log :: schema_stmt where
  "schema_audit_log =
     Create_table ''audit_log'' [(''id'', ''bigserial''), (''ts'', ''timestamptz''), (''tenant_id'', ''text''),
     (''principal'', ''text''), (''action'', ''text''), (''target'', ''text''), (''result'', ''text''),
     (''details'', ''jsonb''), (''ip_address'', ''text''), (''user_agent'', ''text''),
     (''created_at'', ''timestamptz'')] [Key [''id'']]"

definition schema_backoff_interval :: schema_stmt where
  "schema_backoff_interval = Create_function ''backoff_interval'' [''int'', ''jsonb''] ''interval''"

definition schema_effect_lease :: schema_stmt where
  "schema_effect_lease = Create_function ''effect_lease'' [''uuid'', ''text'', ''int''] ''boolean''"

definition schema_effect_backoff :: schema_stmt where
  "schema_effect_backoff = Create_function ''effect_backoff'' [''uuid'', ''jsonb'', ''text'', ''text''] ''void''"

definition schema_effect_escalate_dlq :: schema_stmt where
  "schema_effect_escalate_dlq = Create_function ''effect_escalate_dlq'' [''uuid''] ''void''"

definition schema_all :: "schema_stmt list" where
  "schema_all = [schema_job_state, schema_outbox_kind, schema_effect_kind, schema_effect_status, schema_step_status,
     schema_approval_decision, schema_migrations, schema_jobs, schema_jobs_read, schema_outbox,
     schema_external_effects, schema_steps, schema_approval_decisions, schema_jobs_with_pending_approvals,
     schema_job_context, schema_connector_call_log, schema_idempotency_keys, schema_metrics_job_events,
     schema_dora_events, schema_dora_commit_deployment_links, schema_dora_webhook_dead_letter,
     schema_dora_group_brand_map, schema_dora_deployment_frequency_daily_mv, schema_dora_incident_opened_daily_mv,
     schema_dora_incidents_daily_mv, schema_audit_log, schema_jobs_idem_uidx, schema_jobs_due_idx,
     schema_jobs_expired_running_idx, schema_jobs_tenant_id_idx, schema_jobs_read_tenant_idx, schema_outbox_due_idx,
     schema_external_effects_reserved_idx, schema_external_effects_in_flight_idx, schema_external_effects_dlq_idx,
     schema_steps_job_attempt_idx, schema_approval_decisions_step_idx, schema_approval_decisions_job_idx,
     schema_job_context_job_idx, schema_connector_call_log_call_id_idx, schema_connector_call_log_effect_id_idx,
     schema_idempotency_keys_expires_at_idx, schema_dora_events_tenant_service_idx,
     schema_dora_events_correlation_idx, schema_dora_events_source_event_uidx, schema_dora_events_deploy_dedupe_uidx,
     schema_dora_commit_deployment_links_deployment_time_idx, schema_dora_webhook_dead_letter_tenant_created_idx,
     schema_dora_group_brand_map_group_idx, schema_dora_deployment_frequency_daily_mv_key_idx,
     schema_dora_incident_opened_daily_mv_key_idx, schema_dora_incidents_daily_mv_key_idx, schema_backoff_interval,
     schema_effect_lease, schema_effect_backoff, schema_effect_escalate_dlq]"

section \<open>Statements that have taken effect\<close>

text \<open>
  A statement is in effect in a catalog when what it creates is there and what it reads is still
  found. Executing it again then changes nothing. A statement that succeeds is in effect, and no other
  statement ends that, as long as two different statements do not both define a view.
\<close>

fun in_effect :: "schema_stmt \<Rightarrow> catalog \<Rightarrow> bool" where
  "in_effect (Create_type n vs) c \<longleftrightarrow> types c n \<noteq> None"
| "in_effect (Create_table n cols cons) c \<longleftrightarrow> relations c n \<noteq> None"
| "in_effect (Create_view n star uses) c \<longleftrightarrow> star \<noteq> n \<and> read_errors c ((star, []) # uses) = None
     \<and> relations c n = Some (View (the (rel_columns (the (relations c star)))))"
| "in_effect (Create_materialized_view n cols uses) c \<longleftrightarrow> read_errors c uses = None \<and> relations c n \<noteq> None"
| "in_effect (Create_index n rel cols) c \<longleftrightarrow> read_error c (rel, cols) = None \<and> relations c n \<noteq> None
     \<and> (\<forall>vs. relations c rel \<noteq> Some (View vs))"
| "in_effect (Create_function n args ret) c \<longleftrightarrow> (\<forall>t \<in> set (ret # args). known_type c t) \<and> routines c (n, args) = Some ret"

fun view_ok :: "schema_stmt \<Rightarrow> bool" where
  "view_ok (Create_view n star _) \<longleftrightarrow> star \<noteq> n"
| "view_ok _ \<longleftrightarrow> True"

fun is_view :: "schema_stmt \<Rightarrow> bool" where
  "is_view (Create_view _ _ _) \<longleftrightarrow> True"
| "is_view _ \<longleftrightarrow> False"

lemma alist_put_same: "map_of m k = Some v \<Longrightarrow> alist_put k v m = m"
  by (induction k v m rule: alist_put.induct) (auto split: if_splits)

lemma settled_exec: "in_effect s c \<Longrightarrow> exec_ddl s c = Inr c"
proof (cases s)
  case (Create_view n star uses)
  assume "in_effect s c"
  then have "read_errors c ((star, []) # uses) = None"
    and n: "relations c n = Some (View (the (rel_columns (the (relations c star)))))"
    using Create_view by auto
  then show ?thesis using Create_view by (simp add: Let_def alist_put_same del: read_errors.simps)
next
  case (Create_function n args ret)
  assume s: "in_effect s c"
  have "List.find (\<lambda>t. \<not> known_type c t) (ret # args) = None"
    unfolding find_None_iff using s Create_function by auto
  then show ?thesis using s Create_function by simp
next
  case (Create_index n rel cols)
  assume "in_effect s c"
  then show ?thesis using Create_index by (auto split: option.splits relation.splits)
qed auto

text \<open>A catalog cat_grows: nothing is dropped, and only views get more columns.\<close>

definition cat_grows :: "catalog \<Rightarrow> catalog \<Rightarrow> bool" where
  "cat_grows c c' \<longleftrightarrow> types c \<subseteq>\<^sub>m types c' \<and> routines c \<subseteq>\<^sub>m routines c'
     \<and> (\<forall>n r. relations c n = Some r \<longrightarrow> relations c' n = Some r
          \<or> (\<exists>old cols. r = View old \<and> relations c' n = Some (View cols) \<and> set old \<subseteq> set cols))"

lemma cat_grows_refl [simp]: "cat_grows c c"
  by (simp add: cat_grows_def)

lemma upd_fresh: "m k = None \<Longrightarrow> m \<subseteq>\<^sub>m m(k \<mapsto> v)"
  by (auto simp: map_le_def)

lemma map_le_get: "m \<subseteq>\<^sub>m m' \<Longrightarrow> m k = Some v \<Longrightarrow> m' k = Some v"
  by (metis domI map_le_def)

lemma grows_relation: "relations c n = None \<Longrightarrow> cat_grows c (c\<lparr>cat_relations := alist_put n r (cat_relations c)\<rparr>)"
  by (auto simp: cat_grows_def)

lemma exec_relations:
  assumes "exec_ddl s c = Inr c'" "\<not> is_view s" "relations c n = Some r"
  shows "relations c' n = Some r"
  using assms by (cases s) (auto split: if_splits option.splits relation.splits)

lemma exec_grows: "exec_ddl s c = Inr c' \<Longrightarrow> cat_grows c c'"
proof (cases s)
  case (Create_view n star uses)
  assume "exec_ddl s c = Inr c'"
  then obtain cols where "c' = c\<lparr>cat_relations := alist_put n (View cols) (cat_relations c)\<rparr>"
    and "relations c n = None \<or> (\<exists>old. relations c n = Some (View old) \<and> take (length old) cols = old)"
    using Create_view by (auto simp: Let_def split: option.splits relation.splits if_splits)
  moreover have "set old \<subseteq> set cols" if "take (length old) cols = old" for old :: "string list"
    using set_take_subset [of "length old" cols] that by simp
  ultimately show ?thesis by (auto simp: cat_grows_def)
qed (auto simp: grows_relation upd_fresh cat_grows_def [of c "_\<lparr>cat_types := _\<rparr>"] cat_grows_def [of c "_\<lparr>cat_routines := _\<rparr>"]
      split: if_splits option.splits relation.splits)

lemma grows_known: "cat_grows c c' \<Longrightarrow> known_type c t \<Longrightarrow> known_type c' t"
  by (auto simp: cat_grows_def known_type_def dest: map_le_get)

lemma grows_read: "cat_grows c c' \<Longrightarrow> read_error c u = None \<Longrightarrow> read_error c' u = None"
proof -
  assume g: "cat_grows c c'" and "read_error c u = None"
  then obtain r cols where r: "relations c (fst u) = Some r" "rel_columns r = Some cols" "set (snd u) \<subseteq> set cols"
    by (auto simp: read_error_def find_None_iff split: option.splits)
  then obtain r' cols' where "relations c' (fst u) = Some r'" "rel_columns r' = Some cols'" "set cols \<subseteq> set cols'"
    using g unfolding cat_grows_def by fastforce
  then show ?thesis using r(3) by (auto simp: read_error_def find_None_iff)
qed

lemma grows_reads: "cat_grows c c' \<Longrightarrow> read_errors c us = None \<Longrightarrow> read_errors c' us = None"
  by (induction us) (auto simp: grows_read split: option.splits)

lemma grows_named: "cat_grows c c' \<Longrightarrow> relations c n \<noteq> None \<Longrightarrow> relations c' n \<noteq> None"
  unfolding cat_grows_def by fastforce

lemma grows_not_view:
  "cat_grows c c' \<Longrightarrow> relations c n = Some r \<Longrightarrow> (\<forall>vs. r \<noteq> View vs) \<Longrightarrow> relations c' n = Some r"
  unfolding cat_grows_def by blast

lemma settled_grows: "cat_grows c c' \<Longrightarrow> \<not> is_view s \<Longrightarrow> in_effect s c \<Longrightarrow> in_effect s c'"
proof (cases s)
  case (Create_index n rel cols)
  assume g: "cat_grows c c'" and s: "in_effect s c"
  then obtain r where "relations c rel = Some r" "\<forall>vs. r \<noteq> View vs"
    using Create_index by (auto simp: read_error_def split: option.splits)
  then have "relations c' rel = Some r" by (rule grows_not_view [OF g])
  then show ?thesis using g s Create_index \<open>\<forall>vs. r \<noteq> View vs\<close> grows_read grows_named by simp
next
  case (Create_function n args ret)
  assume g: "cat_grows c c'" and s: "in_effect s c"
  then show ?thesis using Create_function grows_known by (auto simp: cat_grows_def dest: map_le_get)
next
  case (Create_type n vs)
  assume "cat_grows c c'" "in_effect s c"
  then show ?thesis using Create_type by (auto simp: cat_grows_def dest: map_le_get)
qed (auto simp: grows_reads dest: grows_named)

lemma exec_settles: "exec_ddl s c = Inr c' \<Longrightarrow> view_ok s \<Longrightarrow> in_effect s c'"
proof (cases s)
  case (Create_view n star uses)
  assume x: "exec_ddl s c = Inr c'" and ok: "view_ok s"
  have "c' = c\<lparr>cat_relations := alist_put n (View (the (rel_columns (the (relations c star))))) (cat_relations c)\<rparr>"
    and r: "read_errors c ((star, []) # uses) = None"
    using x Create_view by (auto simp: Let_def simp del: read_errors.simps split: option.splits relation.splits if_splits)
  then show ?thesis
    using ok Create_view grows_reads [OF exec_grows [OF x] r] by (simp del: read_errors.simps)
next
  case (Create_index n rel cols)
  assume x: "exec_ddl s c = Inr c'"
  then have r: "read_error c (rel, cols) = None" and v: "\<forall>vs. relations c rel \<noteq> Some (View vs)"
    and n: "relations c' n \<noteq> None"
    using Create_index by (auto split: if_splits option.splits relation.splits)
  then obtain t where t: "relations c rel = Some t" by (auto simp: read_error_def split: option.splits)
  then have "relations c' rel = Some t" using exec_relations [OF x] Create_index by simp
  then show ?thesis using Create_index n v t grows_read [OF exec_grows [OF x] r] by simp
next
  case (Create_materialized_view n cols uses)
  assume x: "exec_ddl s c = Inr c'"
  then have "read_errors c uses = None" "relations c' n \<noteq> None"
    using Create_materialized_view by (auto split: if_splits option.splits)
  then show ?thesis using Create_materialized_view grows_reads [OF exec_grows [OF x]] by simp
next
  case (Create_function n args ret)
  assume x: "exec_ddl s c = Inr c'"
  then have "List.find (\<lambda>t. \<not> known_type c t) (ret # args) = None" and f: "routines c' (n, args) = Some ret"
    using Create_function by (auto simp del: find.simps split: if_splits option.splits)
  then have "\<forall>t \<in> set (ret # args). known_type c t" unfolding find_None_iff by blast
  then show ?thesis using Create_function f grows_known [OF exec_grows [OF x]] by simp
qed (auto split: if_splits option.splits)

lemma settled_stays:
  assumes "in_effect s c" "exec_ddl t c = Inr c'" "is_view s \<and> is_view t \<longrightarrow> s = t"
  shows "in_effect s c'"
proof (cases "is_view s")
  case False
  then show ?thesis using settled_grows [OF exec_grows] assms by blast
next
  case True
  then obtain n star uses where s: "s = Create_view n star uses" by (cases s) auto
  show ?thesis
  proof (cases "is_view t")
    case True
    then have "t = s" using assms(3) \<open>is_view s\<close> by simp
    then show ?thesis using assms(1,2) settled_exec by fastforce
  next
    case False
    have star: "relations c star \<noteq> None" using assms(1) s by (auto simp: read_error_def split: option.splits)
    then have "relations c' star = relations c star" "relations c' n = relations c n"
      using exec_relations [OF assms(2) False] assms(1) s by auto
    then show ?thesis using assms(1) s grows_reads [OF exec_grows [OF assms(2)]] by (simp del: read_errors.simps)
  qed
qed

definition one_view :: "schema_stmt list \<Rightarrow> bool" where
  "one_view ss \<longleftrightarrow> list_all view_ok ss \<and> (\<exists>v. \<forall>s \<in> set ss. is_view s \<longrightarrow> s = v)"

lemma one_view_same: "one_view ss \<Longrightarrow> s \<in> set ss \<Longrightarrow> t \<in> set ss \<Longrightarrow> is_view s \<and> is_view t \<longrightarrow> s = t"
  unfolding one_view_def by metis

lemma exec_schema_append:
  "exec_schema (ss @ ts) c = (case exec_schema ss c of (Some e, c') \<Rightarrow> (Some e, c') | (None, c') \<Rightarrow> exec_schema ts c')"
  by (induction ss arbitrary: c) (auto split: sum.splits)

lemma settled_run: "\<forall>s \<in> set ss. in_effect s c \<Longrightarrow> exec_schema ss c = (None, c)"
  by (induction ss) (simp_all add: settled_exec)

lemma exec_schema_settles:
  "exec_schema ss c = (None, c') \<Longrightarrow> one_view (done @ ss) \<Longrightarrow> \<forall>s \<in> set done. in_effect s c
   \<Longrightarrow> \<forall>s \<in> set (done @ ss). in_effect s c'"
proof (induction ss arbitrary: c "done")
  case (Cons t ss)
  obtain c1 where c1: "exec_ddl t c = Inr c1" "exec_schema ss c1 = (None, c')"
    using Cons.prems(1) by (auto split: sum.splits)
  have "in_effect t c1" using Cons.prems(2) by (intro exec_settles [OF c1(1)]) (simp add: one_view_def)
  moreover have "in_effect s c1" if "s \<in> set done" for s
    using Cons.prems(3) that one_view_same [OF Cons.prems(2), of s t] by (intro settled_stays [OF _ c1(1)]) auto
  ultimately show ?case using Cons.IH [of c1 "done @ [t]"] c1(2) Cons.prems(2) by simp
qed simp

lemma one_view_schema: "one_view (take k schema_all)"
proof -
  have f: "filter is_view schema_all = [schema_jobs_with_pending_approvals]"
    by (subst schema_jobs_with_pending_approvals_def) code_simp
  have "list_all view_ok schema_all" by code_simp
  moreover have "s = schema_jobs_with_pending_approvals" if "s \<in> set schema_all" "is_view s" for s
  proof -
    have "s \<in> set (filter is_view schema_all)" using that by simp
    then show ?thesis unfolding f by simp
  qed
  ultimately show ?thesis unfolding one_view_def list_all_iff by (blast dest: in_set_takeD)
qed

lemma exec_schema_keeps:
  "relations c n = Some r \<Longrightarrow> (\<forall>vs. r \<noteq> View vs) \<Longrightarrow> relations (snd (exec_schema ss c)) n = Some r"
proof (induction ss arbitrary: c)
  case (Cons s ss)
  then show ?case using grows_not_view [OF exec_grows] by (cases "exec_ddl s c") simp_all
qed simp

lemma schema_created: "fst (exec_schema schema_all empty_catalog) = None"
  by code_simp

lemma create_schema_prefix:
  "create_schema f k ss c = (res, c1) \<Longrightarrow> \<exists>n. exec_schema (take n ss) c = (None, c1)"
proof (induction ss arbitrary: k c)
  case (Cons s ss)
  have stop: ?case if "c1 = c" using that by (intro exI [of _ 0]) simp
  have one: ?case if "exec_ddl s c = Inr c1" using that by (intro exI [of _ 1]) simp
  show ?case
  proof (cases "exec_ddl s c")
    case (Inl e)
    then show ?thesis using Cons.prems stop by (auto split: option.splits if_splits)
  next
    case (Inr c')
    show ?thesis
    proof (cases "f k")
      case None
      then obtain n where "exec_schema (take n ss) c' = (None, c1)" using Cons.prems Cons.IH Inr by auto
      then show ?thesis using Inr by (intro exI [of _ "Suc n"]) simp
    next
      case (Some x)
      then show ?thesis using Cons.prems Inr stop one by (cases x) (auto split: if_splits)
    qed
  qed
qed (auto intro: exI [of _ 0])

lemma create_schema_quiet:
  "create_schema (\<lambda>_. None) k ss c = (map_option Refused (fst (exec_schema ss c)), snd (exec_schema ss c))"
  by (induction ss arbitrary: k c) (auto split: sum.splits)

lemma create_schema_again:
  assumes "create_schema f k schema_all c = (res, c1)"
  shows "exec_schema schema_all c1 = exec_schema schema_all c"
proof -
  obtain n where n: "exec_schema (take n schema_all) c = (None, c1)" using create_schema_prefix [OF assms] by blast
  have "\<forall>s \<in> set (take n schema_all). in_effect s c1"
    using exec_schema_settles [OF n, of "[]"] one_view_schema by simp
  then have "exec_schema (take n schema_all) c1 = (None, c1)" by (rule settled_run)
  then have "exec_schema (take n schema_all @ drop n schema_all) c1 = exec_schema (take n schema_all @ drop n schema_all) c"
    unfolding exec_schema_append n by simp
  then show ?thesis by (simp only: append_take_drop_id)
qed


text \<open>A start whose connection is lost at the tenth statement, after it was committed.\<close>

definition ex_fault :: "nat \<Rightarrow> (bool \<times> string) option" where
  "ex_fault k = (if k = 9 then Some (True, ''conn closed'') else None)"

definition ex_catalog :: catalog where
  "ex_catalog = snd (create_schema ex_fault 0 schema_all empty_catalog)"


end
