(* ===== verification/External_Effects.thy ===== *)
theory External_Effects
  imports Db_Schema
begin

text \<open>
  The table \<open>external_effects\<close> of \<open>src/internal/db/schema.go\<close> and the SQL functions that move its rows:
  \<open>effect_lease\<close>, \<open>effect_backoff\<close> and \<open>effect_escalate_dlq\<close>, called with arguments that are not
  \<open>NULL\<close>. No Go code calls them; any client of the database may. A function that raises an
  error leaves the table as it was. The lemmas show who holds the lease of an effect, and which
  states the functions never reach.
\<close>

section \<open>Rows\<close>

datatype effect_kind = Connector_call

datatype effect_status =
    Eff_pending | Eff_reserved | Eff_in_flight | Eff_succeeded | Eff_failed | Eff_canceled | Eff_unknown_outcome | Eff_dlq

record effect_row =
  ef_id :: string
  ef_kind :: effect_kind
  ef_job_id :: string
  ef_run_id :: string
  ef_step_key :: string
  ef_connector_key :: "string option"
  ef_operation :: string
  ef_input_digest :: string
  ef_call_id :: string
  ef_status :: effect_status
  ef_attempt :: int
  ef_max_attempts :: int
  ef_reconcile_attempts :: int
  ef_max_reconcile_attempts :: int
  ef_owner_id :: "string option"
  ef_lease_expires_at :: "time option"
  ef_next_run_at :: "time option"
  ef_provider_ref :: "string option"
  ef_last_error_code :: "string option"
  ef_last_error_message :: "string option"
  ef_created_at :: time
  ef_updated_at :: time

definition effect_natural_key :: "effect_row \<Rightarrow> string \<times> string \<times> string \<times> string \<times> string" where
  "effect_natural_key r = (ef_job_id r, ef_run_id r, ef_step_key r, ef_operation r, ef_input_digest r)"

text \<open>The primary key and the two unique constraints of the table.\<close>

definition insert_effect :: "effect_row \<Rightarrow> effect_row list \<Rightarrow> string + effect_row list" where
  "insert_effect r t =
     (if ef_id r \<in> ef_id ` set t then Inl ''external_effects_pkey''
      else if effect_natural_key r \<in> effect_natural_key ` set t then
        Inl ''external_effects_job_id_run_id_step_key_operation_input_digest_key''
      else if ef_call_id r \<in> ef_call_id ` set t then Inl ''external_effects_call_id_key''
      else Inr (t @ [r]))"

section \<open>The functions\<close>

text \<open>The boolean is \<open>_updated = 1\<close>, the row count of the update.\<close>

definition effect_lease :: "time \<Rightarrow> string \<Rightarrow> string \<Rightarrow> int \<Rightarrow> effect_row list \<Rightarrow> bool \<times> effect_row list" where
  "effect_lease now i owner ttl_secs t =
     (let due = (\<lambda>r. ef_id r = i \<and> ef_status r = Eff_reserved) in
      (rows_affected due t = 1,
       update_rows due (\<lambda>r. r\<lparr>ef_status := Eff_in_flight, ef_owner_id := Some owner,
         ef_lease_expires_at := Some (now + ttl_secs * second), ef_updated_at := now\<rparr>) t))"

definition int4_max :: int where
  "int4_max = 2 ^ 31 - 1"

text \<open>
  The columns on the right of an update are those of the old row: the interval is that of the
  attempt before it is counted. The error of \<open>backoff_interval\<close> or of the counter stops the update.
\<close>

definition effect_backoff ::
  "time \<Rightarrow> string \<Rightarrow> backoff_policy \<Rightarrow> string \<Rightarrow> string \<Rightarrow> effect_row list \<Rightarrow> string + effect_row list" where
  "effect_backoff now i policy code msg t =
     (let held = (\<lambda>r. ef_id r = i \<and> ef_status r = Eff_in_flight) in
      if \<exists>r \<in> set t. held r \<and> (ef_attempt r = int4_max \<or> backoff_interval (ef_attempt r) policy = None)
      then Inl ''value out of range''
      else Inr (update_rows held (\<lambda>r. r\<lparr>ef_status := Eff_reserved, ef_attempt := ef_attempt r + 1, ef_owner_id := None,
         ef_lease_expires_at := None, ef_next_run_at := Some (now + the (backoff_interval (ef_attempt r) policy)),
         ef_last_error_code := Some code, ef_last_error_message := Some msg, ef_updated_at := now\<rparr>) t))"

text \<open>
  The branches of \<open>CASE WHEN ... THEN 'dlq' ELSE 'unknown_outcome' END\<close> are literals without a type, so
  its type is text, and \<open>text_to_enum\<close> tells whether the server assigns a text to a column of an
  enumeration: PostgreSQL does not, unless such a cast has been created. The statement is then refused
  when it is planned, before any row is looked at.
\<close>

definition effect_escalate_dlq :: "bool \<Rightarrow> time \<Rightarrow> string \<Rightarrow> effect_row list \<Rightarrow> string + effect_row list" where
  "effect_escalate_dlq text_to_enum now i t =
     (if \<not> text_to_enum then
        Inl ''column \"status\" is of type effect_status but expression is of type text''
      else
        let unsettled = (\<lambda>r. ef_id r = i \<and> ef_status r = Eff_unknown_outcome);
            last = (\<lambda>r. ef_max_reconcile_attempts r \<le> ef_reconcile_attempts r + 1)
        in if \<exists>r \<in> set t. unsettled r \<and> ef_reconcile_attempts r = int4_max then Inl ''integer out of range''
           else Inr (update_rows unsettled (\<lambda>r. r\<lparr>ef_reconcile_attempts := ef_reconcile_attempts r + 1,
             ef_status := (if last r then Eff_dlq else Eff_unknown_outcome),
             ef_next_run_at := (if last r then None else Some (now + 300 * second)),
             ef_updated_at := now\<rparr>) t))"

section \<open>Sequences of calls\<close>

datatype effect_op =
    Op_insert effect_row
  | Op_lease string string int
  | Op_backoff string backoff_policy string string
  | Op_escalate string

fun apply_effect_op :: "bool \<Rightarrow> time \<times> effect_op \<Rightarrow> effect_row list \<Rightarrow> effect_row list" where
  "apply_effect_op conv (now, Op_insert r) t = (case insert_effect r t of Inl _ \<Rightarrow> t | Inr t' \<Rightarrow> t')"
| "apply_effect_op conv (now, Op_lease i owner ttl) t = snd (effect_lease now i owner ttl t)"
| "apply_effect_op conv (now, Op_backoff i policy code msg) t =
     (case effect_backoff now i policy code msg t of Inl _ \<Rightarrow> t | Inr t' \<Rightarrow> t')"
| "apply_effect_op conv (now, Op_escalate i) t = (case effect_escalate_dlq conv now i t of Inl _ \<Rightarrow> t | Inr t' \<Rightarrow> t')"

definition run_effects :: "bool \<Rightarrow> (time \<times> effect_op) list \<Rightarrow> effect_row list \<Rightarrow> effect_row list" where
  "run_effects conv ops t = fold (apply_effect_op conv) ops t"

lemma run_effects_simps [simp]:
  "run_effects conv [] t = t"
  "run_effects conv (x # ops) t = run_effects conv ops (apply_effect_op conv x t)"
  by (simp_all add: run_effects_def)

lemmas effect_function_defs = effect_lease_def effect_backoff_def effect_escalate_dlq_def insert_effect_def Let_def

section \<open>Rows keep their keys\<close>

definition effect_keys :: "effect_row \<Rightarrow> string \<times> (string \<times> string \<times> string \<times> string \<times> string) \<times> string" where
  "effect_keys r = (ef_id r, effect_natural_key r, ef_call_id r)"

definition effects_keyed :: "effect_row list \<Rightarrow> bool" where
  "effects_keyed t \<longleftrightarrow> distinct (map ef_id t) \<and> distinct (map effect_natural_key t) \<and> distinct (map ef_call_id t)"

lemma keys_upd: "(\<And>r. effect_keys (f r) = effect_keys r) \<Longrightarrow> effects_keyed (update_rows P f t) = effects_keyed t"
  by (simp add: effects_keyed_def effect_keys_def)

lemma op_keyed: "effects_keyed t \<Longrightarrow> effects_keyed (apply_effect_op conv x t)"
proof (induction conv x t rule: apply_effect_op.induct)
  case (1 conv now r t)
  then show ?case by (auto simp: insert_effect_def effects_keyed_def)
qed (auto simp: effect_function_defs effect_keys_def effect_natural_key_def keys_upd)

lemma run_keyed: "effects_keyed t \<Longrightarrow> effects_keyed (run_effects conv ops t)"
  by (induction ops arbitrary: t) (simp_all add: op_keyed)

section \<open>The lease\<close>

lemma distinct_row: "distinct (map ef_id t) \<Longrightarrow> r \<in> set t \<Longrightarrow> r' \<in> set t \<Longrightarrow> ef_id r = ef_id r' \<Longrightarrow> r = r'"
  by (metis distinct_map inj_onD)

lemma lease_true:
  assumes "effect_lease now i owner ttl t = (True, t1)"
  shows "\<exists>r \<in> set t. ef_id r = i \<and> ef_status r = Eff_reserved \<and> r\<lparr>ef_status := Eff_in_flight, ef_owner_id := Some owner,
     ef_lease_expires_at := Some (now + ttl * second), ef_updated_at := now\<rparr> \<in> set t1"
proof -
  have "filter (\<lambda>r. ef_id r = i \<and> ef_status r = Eff_reserved) t \<noteq> []"
    using assms by (auto simp: effect_lease_def rows_affected_def)
  then obtain r where r: "r \<in> set t" "ef_id r = i" "ef_status r = Eff_reserved"
    by (auto simp: filter_empty_conv)
  moreover have "r\<lparr>ef_status := Eff_in_flight, ef_owner_id := Some owner,
     ef_lease_expires_at := Some (now + ttl * second), ef_updated_at := now\<rparr> \<in> set t1"
    using assms r by (simp add: effect_lease_def Let_def in_update_rows) (metis (mono_tags, lifting) in_update_rows r)
  ultimately show ?thesis by blast
qed

text \<open>An operation that could take a lease back: the only one is \<open>effect_backoff\<close> of that effect.\<close>

fun backs_off :: "string \<Rightarrow> effect_op \<Rightarrow> bool" where
  "backs_off i (Op_backoff j _ _ _) \<longleftrightarrow> i = j"
| "backs_off i _ \<longleftrightarrow> False"

lemma op_holds:
  assumes "r \<in> set t" "ef_status r = Eff_in_flight" "\<not> backs_off (ef_id r) (snd x)"
  shows "r \<in> set (apply_effect_op conv x t)"
proof -
  obtain now f where x: "x = (now, f)" by (cases x)
  have "r \<in> set (update_rows P g t)" if "\<not> P r" for P and g :: "effect_row \<Rightarrow> effect_row"
    using assms(1) that by (auto simp: in_update_rows)
  then show ?thesis using assms x by (cases f) (auto simp: effect_function_defs)
qed

lemma run_holds:
  "r \<in> set t \<Longrightarrow> ef_status r = Eff_in_flight \<Longrightarrow> \<forall>x \<in> set ops. \<not> backs_off (ef_id r) (snd x)
   \<Longrightarrow> r \<in> set (run_effects conv ops t)"
  by (induction ops arbitrary: t) (simp_all add: op_holds)

lemma lease_refused:
  assumes "effects_keyed t" "r \<in> set t" "ef_status r \<noteq> Eff_reserved"
  shows "effect_lease now (ef_id r) owner ttl t = (False, t)"
proof -
  have none: "\<not> (ef_id r' = ef_id r \<and> ef_status r' = Eff_reserved)" if "r' \<in> set t" for r'
    using assms distinct_row [of t r' r] that by (auto simp: effects_keyed_def)
  then show ?thesis
    by (simp add: effect_lease_def Let_def rows_affected_def update_rows_noop filter_False)
qed

text \<open>Once \<open>effect_lease\<close> has granted an effect to an owner, the row with that owner and lease stays
  under every sequence of calls and inserts without a backoff of that effect, and every further
  \<open>effect_lease\<close> of it is refused and changes nothing: by anybody, at any time, hence also long after
  the lease has expired.\<close>

theorem effect_lease_exclusive:
  assumes "effects_keyed t" "effect_lease now i owner ttl t = (True, t1)"
    and "\<forall>x \<in> set ops. \<not> backs_off i (snd x)"
  shows "(\<exists>r \<in> set (run_effects conv ops t1). ef_id r = i \<and> ef_status r = Eff_in_flight \<and> ef_owner_id r = Some owner
           \<and> ef_lease_expires_at r = Some (now + ttl * second))
    \<and> (\<forall>now' owner' ttl'. effect_lease now' i owner' ttl' (run_effects conv ops t1) = (False, run_effects conv ops t1))"
proof -
  obtain r where r: "r \<in> set t1" "ef_id r = i" "ef_status r = Eff_in_flight" "ef_owner_id r = Some owner"
      "ef_lease_expires_at r = Some (now + ttl * second)"
    using lease_true [OF assms(2)] by fastforce
  have "effects_keyed t1" using op_keyed [OF assms(1), of conv "(now, Op_lease i owner ttl)"] assms(2) by simp
  then have "effects_keyed (run_effects conv ops t1)" by (rule run_keyed)
  moreover have "r \<in> set (run_effects conv ops t1)" using run_holds r assms(3) by blast
  ultimately show ?thesis using lease_refused [of _ r] r by auto
qed

section \<open>Retries and states\<close>

text \<open>The functions of the schema leave an effect only in these states, when none is in another one.\<close>

definition effect_live :: "effect_row \<Rightarrow> bool" where
  "effect_live r \<longleftrightarrow> ef_status r \<in> {Eff_pending, Eff_reserved, Eff_in_flight} \<and> ef_reconcile_attempts r = 0"

fun inserts_live :: "effect_op \<Rightarrow> bool" where
  "inserts_live (Op_insert r) \<longleftrightarrow> effect_live r"
| "inserts_live _ \<longleftrightarrow> True"

lemma op_live:
  "\<forall>r \<in> set t. effect_live r \<Longrightarrow> inserts_live (snd x) \<Longrightarrow> \<forall>r \<in> set (apply_effect_op conv x t). effect_live r"
proof (induction conv x t rule: apply_effect_op.induct)
  case (4 conv now i t)
  then have "\<not> (ef_id r = i \<and> ef_status r = Eff_unknown_outcome)" if "r \<in> set t" for r
    using that by (auto simp: effect_live_def)
  then show ?case using 4 by (auto simp: effect_escalate_dlq_def Let_def update_rows_noop)
qed (auto simp: effect_function_defs effect_live_def in_update_rows split: if_splits)

text \<open>
  No sequence of calls brings an effect that starts with the defaults of the table to success, to
  failure, to an unknown outcome or to the dead letter queue, and none moves an effect that is
  pending, the default state of a new row.
\<close>

lemma effects_never_end:
  "\<forall>r \<in> set t. effect_live r \<Longrightarrow> \<forall>x \<in> set ops. inserts_live (snd x)
   \<Longrightarrow> \<forall>r \<in> set (run_effects conv ops t). effect_live r"
proof (induction ops arbitrary: t)
  case (Cons x ops)
  then have "\<forall>r \<in> set (apply_effect_op conv x t). effect_live r" by (intro op_live) simp_all
  then show ?case using Cons by simp
qed simp

lemma op_pending: "r \<in> set t \<Longrightarrow> ef_status r = Eff_pending \<Longrightarrow> r \<in> set (apply_effect_op conv x t)"
proof -
  assume r: "r \<in> set t" "ef_status r = Eff_pending"
  have "r \<in> set (update_rows P g t)" if "\<not> P r" for P and g :: "effect_row \<Rightarrow> effect_row"
    using r(1) that by (auto simp: in_update_rows)
  moreover obtain now f where x: "x = (now, f)" by (cases x)
  ultimately show ?thesis using r x by (cases f) (auto simp: effect_function_defs)
qed

lemma pending_stays: "r \<in> set t \<Longrightarrow> ef_status r = Eff_pending \<Longrightarrow> r \<in> set (run_effects conv ops t)"
  by (induction ops arbitrary: t) (simp_all add: op_pending)

text \<open>Without such a cast the escalation is an error for every effect and on every table.\<close>

lemma escalate_refused: "\<exists>e. effect_escalate_dlq False now i t = Inl e"
  by (simp add: effect_escalate_dlq_def)

text \<open>
  A lease and its backoff count an attempt and return the effect to the reserved state, whatever the
  maximum of attempts of the row is: nothing compares the two.
\<close>

definition effect_cycles :: "nat \<Rightarrow> string \<Rightarrow> (time \<times> effect_op) list" where
  "effect_cycles n i = concat (replicate n [(0, Op_lease i ''w'' 30), (0, Op_backoff i default_policy ''E'' ''m'')])"

lemma one_cycle:
  assumes "ef_status r = Eff_reserved" "ef_id r = i" "backoff_interval (ef_attempt r) default_policy \<noteq> None"
    "ef_attempt r < int4_max"
  shows "\<exists>r'. run_effects conv [(0, Op_lease i ''w'' 30), (0, Op_backoff i default_policy ''E'' ''m'')] [r] = [r']
    \<and> ef_status r' = Eff_reserved \<and> ef_id r' = i \<and> ef_attempt r' = ef_attempt r + 1 \<and> ef_max_attempts r' = ef_max_attempts r"
  using assms by (auto simp: effect_function_defs update_rows_def)

lemma default_backoff:
  assumes "a \<le> 1000"
  shows "backoff_interval a default_policy \<noteq> None"
proof -
  let ?e = "nat (max (a - 1) 0)"
  have e: "?e < 1000" using assms by auto
  then have "2 * 2 ^ ?e < (2::int) ^ 1024" using power_strict_increasing [of "Suc ?e" 1024 "2::int"] by simp
  then show ?thesis using e by (simp add: backoff_interval_def default_policy_def Let_def min_def)
qed

text \<open>The first attempts wait two, two, four and eight seconds: the attempt is read before it is counted.\<close>

lemma first_delays:
  "map (\<lambda>a. backoff_interval a default_policy) [0, 1, 2, 3] = map (\<lambda>s. Some (s * second)) [2, 2, 4, 8]"
  by (simp add: backoff_interval_def default_policy_def Let_def)

lemma retries_unbounded:
  assumes "ef_status r = Eff_reserved" "ef_id r = i" "0 \<le> ef_attempt r" "ef_attempt r + int n \<le> 1000"
  shows "\<exists>r'. run_effects conv (effect_cycles n i) [r] = [r'] \<and> ef_status r' = Eff_reserved \<and> ef_id r' = i
    \<and> ef_attempt r' = ef_attempt r + int n \<and> ef_max_attempts r' = ef_max_attempts r"
  using assms
proof (induction n arbitrary: r)
  case 0
  then show ?case by (simp add: effect_cycles_def)
next
  case (Suc n)
  have a: "backoff_interval (ef_attempt r) default_policy \<noteq> None" "ef_attempt r < int4_max"
    using Suc.prems default_backoff by (simp_all add: int4_max_def)
  obtain r1 where r1: "run_effects conv [(0, Op_lease i ''w'' 30), (0, Op_backoff i default_policy ''E'' ''m'')] [r] = [r1]"
    "ef_status r1 = Eff_reserved" "ef_id r1 = i" "ef_attempt r1 = ef_attempt r + 1" "ef_max_attempts r1 = ef_max_attempts r"
    using one_cycle [OF Suc.prems(1,2) a] by blast
  have "run_effects conv (effect_cycles (Suc n) i) [r] = run_effects conv (effect_cycles n i) [r1]"
    using r1(1) by (simp add: effect_cycles_def run_effects_def)
  then show ?case using Suc.IH [OF r1(2,3)] r1(4,5) Suc.prems by (simp add: add.assoc)
qed

section \<open>Concrete effects\<close>

definition ex_effect :: effect_row where
  "ex_effect = \<lparr>ef_id = ''e1'', ef_kind = Connector_call, ef_job_id = ''j1'', ef_run_id = ''r1'', ef_step_key = ''s'',
     ef_connector_key = None, ef_operation = ''commit_files'', ef_input_digest = ''d'', ef_call_id = ''c1'',
     ef_status = Eff_reserved, ef_attempt = 0, ef_max_attempts = 3, ef_reconcile_attempts = 0,
     ef_max_reconcile_attempts = 5, ef_owner_id = None, ef_lease_expires_at = None, ef_next_run_at = None,
     ef_provider_ref = None, ef_last_error_code = None, ef_last_error_message = None, ef_created_at = 0, ef_updated_at = 0\<rparr>"

text \<open>The lease of thirty seconds is not given again after an hour.\<close>

theorem effect_lease_exclusive_witness:
  "effect_lease 0 ''e1'' ''w1'' 30 [ex_effect] = (True, snd (effect_lease 0 ''e1'' ''w1'' 30 [ex_effect]))
   \<and> fst (effect_lease (3600 * second) ''e1'' ''w2'' 30
       (run_effects False [(40 * second, Op_lease ''e1'' ''w3'' 30), (50 * second, Op_escalate ''e1'')]
         (snd (effect_lease 0 ''e1'' ''w1'' 30 [ex_effect])))) = False"
proof -
  have "effect_lease 0 ''e1'' ''w1'' 30 [ex_effect] = (True, snd (effect_lease 0 ''e1'' ''w1'' 30 [ex_effect]))"
    by (simp add: effect_lease_def ex_effect_def rows_affected_def)
  moreover have "effects_keyed [ex_effect]" by (simp add: effects_keyed_def)
  ultimately show ?thesis
    using effect_lease_exclusive [where conv = False and ops = "[(40 * second, Op_lease ''e1'' ''w3'' 30), (50 * second, Op_escalate ''e1'')]"]
    by fastforce
qed

end
