(* ===== verification/Family_Config.thy ===== *)
theory Family_Config
  imports Module_Config
begin

text \<open>
  The bindings of connector families, \<open>src/internal/connector/config.go\<close>: the reader that confines a path to
  the directory the process was started in, the bindings from a YAML file and those from variables
  of the environment. Nothing in the engine reads these bindings: implementations are selected in the
  configuration of each module.
\<close>

section \<open>Reading inside the allowed root\<close>

text \<open>The working directory when the package was initialised and at the call (\<open>None\<close> when \<open>os.Getwd\<close> fails),
  the file system, the YAML package and \<open>os.Environ\<close>.\<close>

record family_env =
  fe_wd_init :: "string option"
  fe_wd :: "string option"
  fe_read :: "string \<Rightarrow> read_result"
  fe_yaml :: "string \<Rightarrow> string + (string \<times> string) list option"
  fe_environ :: "string list"

text \<open>\<open>filepath.Abs\<close>.\<close>

definition path_abs :: "string option \<Rightarrow> string \<Rightarrow> string option" where
  "path_abs wd p = (if is_rooted p then Some (path_clean p) else map_option (\<lambda>w. path_join w p) wd)"

definition allowed_config_root :: "family_env \<Rightarrow> string" where
  "allowed_config_root e = (case path_abs (fe_wd_init e) ''.'' of None \<Rightarrow> ''.'' | Some r \<Rightarrow> r)"

definition safe_read_file :: "family_env \<Rightarrow> string \<Rightarrow> string + read_result" where
  "safe_read_file e path =
     (case path_abs (fe_wd e) (path_clean path) of
        None \<Rightarrow> Inl ''failed to resolve config path''
      | Some p \<Rightarrow>
          let root = allowed_config_root e in
          if p \<noteq> root \<and> \<not> has_prefix p (root @ ''/'')
          then Inl (''config path '' @ go_quote p @ '' is outside the allowed directory '' @ go_quote root)
          else Inr (fe_read e p))"

definition load_family_config :: "family_env \<Rightarrow> string \<Rightarrow> string + (string \<times> string) list option" where
  "load_family_config e path0 =
     (let path = (if path0 = [] then ''connectors.yaml'' else path0);
          failed = (\<lambda>er. Inl (''failed to read config file '' @ path @ '': '' @ er)) in
      case safe_read_file e path of
        Inl er \<Rightarrow> failed er
      | Inr Read_missing \<Rightarrow> Inr (Some [])
      | Inr (Read_failed er) \<Rightarrow> failed er
      | Inr (Read_data d) \<Rightarrow>
          (case fe_yaml e d of
             Inl er \<Rightarrow> Inl (''failed to parse YAML config '' @ path @ '': '' @ er)
           | Inr fams \<Rightarrow> Inr fams))"

section \<open>Bindings from the environment\<close>

text \<open>One entry of \<open>os.Environ\<close>: the name up to the first \<open>=\<close>, the value after it.\<close>

definition family_binding :: "string \<Rightarrow> (string \<times> string) option" where
  "family_binding entry =
     (let key = takeWhile (\<lambda>c. c \<noteq> CHR ''='') entry; rest = dropWhile (\<lambda>c. c \<noteq> CHR ''='') entry in
      if rest = [] then None
      else if has_prefix key ''CONNECTOR_FAMILY_'' then Some (to_lower (trim_prefix key ''CONNECTOR_FAMILY_''), tl rest)
      else None)"

definition load_family_config_from_env :: "family_env \<Rightarrow> (string \<times> string) list" where
  "load_family_config_from_env e =
     fold (\<lambda>entry m. case family_binding entry of None \<Rightarrow> m | Some (f, k) \<Rightarrow> alist_put f k m) (fe_environ e) []"

definition apply_bindings :: "(string \<times> string) list \<Rightarrow> family_registry \<Rightarrow> string option \<times> family_registry" where
  "apply_bindings c r = (None, r)"

section \<open>Lemmas\<close>

lemma rooted_no_parent: "''..'' \<notin> set (clean_comps True ws)"
proof (induction ws rule: rev_induct)
  case Nil
  then show ?case by (simp add: clean_comps_def)
next
  case (snoc w ws)
  then show ?case by (auto simp: clean_comps_def push_comp_def dest: in_set_butlastD)
qed

lemma rooted_clean: "is_rooted p \<Longrightarrow> is_rooted (path_clean p)"
  using path_clean_render [of p] is_rooted_render [OF plain_comps_of, of "is_rooted p" p]
  by (cases "p = []") (auto simp: is_rooted_def has_prefix_def)

lemma rooted_clean_comps: "is_rooted p \<Longrightarrow> ''..'' \<notin> set (comps_of (path_clean p))"
  using rooted_clean [of p] rooted_no_parent by (simp add: comps_of_def)

lemma path_abs_clean:
  assumes "path_abs wd p = Some q" "\<forall>w. wd = Some w \<longrightarrow> is_rooted w"
  shows "\<exists>x. is_rooted x \<and> q = path_clean x"
proof (cases "is_rooted p")
  case True
  then show ?thesis using assms(1) by (auto simp: path_abs_def)
next
  case False
  then obtain w where w: "wd = Some w" "q = path_join w p" using assms(1) by (auto simp: path_abs_def)
  moreover have "is_rooted w" using assms(2) w(1) by simp
  ultimately show ?thesis
    by (intro exI [of _ "w @ ''/'' @ p"]) (cases w, auto simp: path_join_def is_rooted_def has_prefix_def)
qed

text \<open>
  A file is read only at the root itself or below it: the path read is absolute and clean, without a
  parent component, so that no component of the path that was asked for leads out of the root.
\<close>

lemma family_read_confined:
  assumes "safe_read_file e path = Inr res" "\<forall>w. fe_wd e = Some w \<longrightarrow> is_rooted w"
  shows "\<exists>p. res = fe_read e p \<and> path_clean p = p \<and> ''..'' \<notin> set (comps_of p)
     \<and> (p = allowed_config_root e \<or> has_prefix p (allowed_config_root e @ ''/''))"
proof -
  obtain p where p: "path_abs (fe_wd e) (path_clean path) = Some p" "res = fe_read e p"
      "p = allowed_config_root e \<or> has_prefix p (allowed_config_root e @ ''/'')"
    using assms(1) by (auto simp: safe_read_file_def Let_def split: option.splits if_splits)
  obtain x where "is_rooted x" "p = path_clean x" using path_abs_clean [OF p(1) assms(2)] by blast
  then show ?thesis using p rooted_clean_comps path_clean_idem by metis
qed

text \<open>
  A process started in the root directory reads no file at all: the root with a separator is \<open>//\<close>,
  which no clean path begins with.
\<close>

lemma root_directory_reads_nothing:
  assumes "fe_wd_init e = Some ''/''" "fe_wd e = Some ''/''" "path_abs (Some ''/'') (path_clean path) \<noteq> Some ''/''"
  shows "\<exists>er. safe_read_file e path = Inl er"
proof -
  have root: "allowed_config_root e = ''/''"
    using assms(1) by (simp add: allowed_config_root_def path_abs_def path_join_def path_clean_def is_rooted_def has_prefix_def
        clean_comps_def push_comp_def render_path_def)
  have "\<not> has_prefix p ''//''" if ab: "path_abs (Some ''/'') (path_clean path) = Some p" for p
  proof -
    have "\<forall>w. Some ''/'' = Some w \<longrightarrow> is_rooted w" by (simp add: is_rooted_def has_prefix_def)
    then obtain x where x: "is_rooted x" "p = path_clean x" using path_abs_clean [OF ab] by blast
    then have "p = CHR ''/'' # join_with ''/'' (comps_of x)"
      by (cases "x = []") (auto simp: path_clean_render render_path_def is_rooted_def has_prefix_def)
    then show ?thesis using join_not_rooted [OF plain_comps_of, of x] by (auto simp: is_rooted_def has_prefix_def)
  qed
  then show ?thesis using assms(2,3) root
    by (auto simp: safe_read_file_def Let_def split: option.splits)
qed

text \<open>Of several variables for one family, which may differ in case, the last one holds.\<close>

lemma env_bindings_last:
  "map_of (load_family_config_from_env e) f = map_of (rev (List.map_filter family_binding (fe_environ e))) f"
proof -
  have "map_of (fold (\<lambda>entry m. case family_binding entry of None \<Rightarrow> m | Some (f, k) \<Rightarrow> alist_put f k m) xs m) f
      = (case map_of (rev (List.map_filter family_binding xs)) f of None \<Rightarrow> map_of m f | Some k \<Rightarrow> Some k)" for xs m
    by (induction xs arbitrary: m) (auto simp: map_filter_simps map_add_def split: option.splits)
  from this [of "fe_environ e" "[]"] show ?thesis
    by (simp add: load_family_config_from_env_def split: option.split)
qed

end
