(* ===== verification/Startup.thy ===== *)
theory Startup
  imports Service_Connectors Secrets Infra_Job Db_Schema
begin

text \<open>
  The program \<open>src/cmd/release-engine/main.go\<close>: its commands, the creation of the schema and the chain of
  steps by which \<open>serve\<close> puts the components together, with the in-memory Crossplane connector of
  \<open>src/internal/connector/testing/crossplane_mock.go\<close>, which \<open>serve\<close> registers. A start is a function
  of the environment, of the files and of what the libraries answer; it returns the engine or the
  error of the first step that fails, and the catalog of the database in both cases. The lemmas at
  the end say which modules the engine that \<open>serve\<close> starts can assemble.
\<close>

section \<open>The in-memory Crossplane connector\<close>

record crossplane_mock =
  xm_base :: base_connector
  xm_closed :: bool
  xm_resources :: "(string \<times> go_map) list"

definition new_crossplane_mock :: "string + crossplane_mock" where
  "new_crossplane_mock =
     (case new_base_connector Type_infra ''crossplaneMock'' of
        Inl e \<Rightarrow> Inl e | Inr b \<Rightarrow> Inr \<lparr>xm_base = b, xm_closed = False, xm_resources = []\<rparr>)"

definition mock_validate :: "crossplane_mock \<Rightarrow> string \<Rightarrow> go_map \<Rightarrow> string option" where
  "mock_validate c operation input = validate_operation (xm_closed c)
     [(''create_composite_resource'', [''kind'', ''name'', ''manifest'']), (''get_resource_status'', [''kind'', ''name'']),
      (''delete_resource'', [''kind'', ''name''])] operation input"

definition mock_required_secrets :: "string \<Rightarrow> string list" where
  "mock_required_secrets operation = []"

text \<open>A text is not read: the object is made of the kind, the name and the whole input. \<open>named\<close> is
  \<open>Unstructured.SetName\<close>.\<close>

definition mock_object :: "(string \<Rightarrow> go_map \<Rightarrow> go_map) \<Rightarrow> string \<Rightarrow> string \<Rightarrow> go_map \<Rightarrow> go_any \<Rightarrow> string + go_map" where
  "mock_object named kind name input v =
     (case v of
        GStr _ \<Rightarrow> Inr (named name [(''apiVersion'', GStr ''pkg.crossplane.io/v1''), (''kind'', GStr kind),
          (''metadata'', GMap [(''name'', GStr name)]), (''spec'', GMap [(''parameters'', GMap input)])])
      | GMap m \<Rightarrow> Inr (named name m)
      | _ \<Rightarrow> Inl ''manifest must be a string or map[string]interface{}'')"

definition mock_key :: "string \<Rightarrow> string \<Rightarrow> string" where
  "mock_key kind name = kind @ ''/'' @ name"

definition mock_create ::
  "(string \<Rightarrow> go_map \<Rightarrow> go_map) \<Rightarrow> go_map \<Rightarrow> crossplane_mock \<Rightarrow> connector_result outcome \<times> crossplane_mock" where
  "mock_create named input =
     need_string input ''kind'' (\<lambda>kind. need_string input ''name'' (\<lambda>name c.
       case mock_object named kind name input (go_get input ''manifest'') of
         Inl e \<Rightarrow> (Fail e, c)
       | Inr obj \<Rightarrow> (Ret (success_result (Some [(''name'', GStr name), (''uid'', GStr (''mock-uid-'' @ name))])),
           c\<lparr>xm_resources := alist_put (mock_key kind name) obj (xm_resources c)\<rparr>)))"

definition mock_health :: "bool \<Rightarrow> go_map" where
  "mock_health found = [(''status'', GMap
     (if found then [(''health'', GStr ''healthy''), (''conditions'', GList [GMap [(''type'', GStr ''Ready''),
        (''status'', GStr ''True''), (''reason'', GStr ''ResourceAvailable'')]])]
      else [(''health'', GStr ''not-found'')]))]"

definition mock_status ::
  "go_map \<Rightarrow> crossplane_mock \<Rightarrow> connector_result outcome \<times> crossplane_mock" where
  "mock_status input =
     need_string input ''kind'' (\<lambda>kind. need_string input ''name'' (\<lambda>name c.
       (Ret (success_result (Some (mock_health (map_of (xm_resources c) (mock_key kind name) \<noteq> None)))), c)))"

definition mock_delete ::
  "go_map \<Rightarrow> crossplane_mock \<Rightarrow> connector_result outcome \<times> crossplane_mock" where
  "mock_delete input =
     need_string input ''kind'' (\<lambda>kind. need_string input ''name'' (\<lambda>name c.
       (Ret (success_result None), c\<lparr>xm_resources := filter (\<lambda>x. fst x \<noteq> mock_key kind name) (xm_resources c)\<rparr>)))"

definition mock_execute ::
  "(string \<Rightarrow> go_map \<Rightarrow> go_map) \<Rightarrow> string option \<Rightarrow> string \<Rightarrow> go_map \<Rightarrow> crossplane_mock
     \<Rightarrow> connector_result outcome \<times> crossplane_mock" where
  "mock_execute named ctx_err operation input c =
     (case ctx_err of
        Some e \<Rightarrow> (Fail e, c)
      | None \<Rightarrow>
          if xm_closed c then (Fail ''connector is closed'', c)
          else if operation = ''create_composite_resource'' then mock_create named input c
          else if operation = ''get_resource_status'' then mock_status input c
          else if operation = ''delete_resource'' then mock_delete input c
          else (Fail (''operation not implemented: '' @ operation), c))"

definition mock_close :: "crossplane_mock \<Rightarrow> string option \<times> crossplane_mock" where
  "mock_close c = (None, c\<lparr>xm_closed := True, xm_resources := []\<rparr>)"

section \<open>Connectors as the registry holds them\<close>

text \<open>
  The policy connector answers from its input alone. What the four connectors with a state or a
  client answer at a call is an argument. A \<open>nil\<close> map reads like an empty one; the policy connector
  never panics.
\<close>

type_synonym live_exec =
  "string \<Rightarrow> go_map option \<Rightarrow> (string \<times> string) list option \<Rightarrow> connector_result option \<times> string option"

record live_execs =
  lv_github :: live_exec
  lv_gitea :: live_exec
  lv_mock :: live_exec
  lv_webhook :: live_exec

definition or_empty :: "'a list option \<Rightarrow> 'a list" where
  "or_empty x = (case x of None \<Rightarrow> [] | Some m \<Rightarrow> m)"

fun result_pair :: "connector_result outcome \<Rightarrow> connector_result option \<times> string option" where
  "result_pair (Ret r) = (Some r, None)"
| "result_pair (Fail e) = (None, Some e)"
| "result_pair (Panics e) = (None, Some e)"

definition connector_view ::
  "base_connector \<Rightarrow> (string \<Rightarrow> go_map \<Rightarrow> string option) \<Rightarrow> (string \<Rightarrow> string list) \<Rightarrow> live_exec \<Rightarrow> string option \<Rightarrow> connector" where
  "connector_view b valid keys exec cls = \<lparr>c_key = base_key b, c_type = Some (b_type b),
     c_validate = \<lambda>operation input. valid operation (or_empty input), c_required_secrets = Some keys,
     c_execute = exec, c_close = cls\<rparr>"

definition policy_view :: "policy_connector \<Rightarrow> connector" where
  "policy_view c = connector_view (pc_base c) (policy_validate c) (\<lambda>_. [])
     (\<lambda>operation input secrets. result_pair (fst (policy_execute c None operation (or_empty input) (or_empty secrets) ())))
     (fst (policy_close c))"

definition github_view :: "live_execs \<Rightarrow> 'w github_connector \<Rightarrow> connector" where
  "github_view lv c = connector_view (gc_base c) (github_validate c) github_required_secrets (lv_github lv) (fst (github_close c))"

definition gitea_view :: "live_execs \<Rightarrow> 'w gitea_connector \<Rightarrow> connector" where
  "gitea_view lv c = connector_view (gt_base c) (gitea_validate c) gitea_required_secrets (lv_gitea lv) (fst (gitea_close c))"

definition mock_view :: "live_execs \<Rightarrow> crossplane_mock \<Rightarrow> connector" where
  "mock_view lv c = connector_view (xm_base c) (mock_validate c) mock_required_secrets (lv_mock lv) (fst (mock_close c))"

definition webhook_view :: "live_execs \<Rightarrow> 'w webhook_connector \<Rightarrow> connector" where
  "webhook_view lv c = connector_view (wh_base c) (webhook_validate c) (\<lambda>_. []) (lv_webhook lv) (fst (webhook_close c))"

section \<open>Registering the connectors\<close>

record ('g, 't, 'k) connector_env =
  ke_environ :: environ
  ke_github :: "'g gh_library"
  ke_gitea :: "http_request \<Rightarrow> 't \<Rightarrow> (string + http_reply) \<times> 't"
  ke_webhook :: "'k webhook_client"
  ke_live :: live_execs

text \<open>The connectors in the order they are made and registered; each is made only when those before it
  are registered, and the first error ends the start.\<close>

definition runtime_connectors :: "('g, 't, 'k) connector_env \<Rightarrow> (string + connector) list" where
  "runtime_connectors e = (let lv = ke_live e in
     [map_sum id (github_view lv) (new_github_connector (ke_github e) [(''base_url'', ke_environ e ''GIT_CONNECTOR_BASE_URL'')]),
      map_sum id (gitea_view lv) (new_gitea_connector (ke_gitea e) [(''base_url'', ke_environ e ''GITEA_CONNECTOR_BASE_URL'')]),
      map_sum id (mock_view lv) new_crossplane_mock,
      map_sum id policy_view new_policy_connector,
      map_sum id (webhook_view lv) (new_webhook_connector (ke_webhook e))])"

fun register_made :: "(string + connector) list \<Rightarrow> conn_registry \<Rightarrow> string + conn_registry" where
  "register_made [] r = Inr r"
| "register_made (made # ms) r =
     (case made of
        Inl e \<Rightarrow> Inl e
      | Inr c \<Rightarrow> (case conn_register c r of Inl e \<Rightarrow> Inl e | Inr r' \<Rightarrow> register_made ms r'))"

definition register_runtime_connectors :: "('g, 't, 'k) connector_env \<Rightarrow> conn_registry \<Rightarrow> string + conn_registry" where
  "register_runtime_connectors e r = register_made (runtime_connectors e) r"

section \<open>Commands on the database\<close>

text \<open>The configuration is read from the environment, every command makes a pool of its own.\<close>

datatype db_failure =
    Db_config load_error | Db_pool string | Db_acquire string | Db_schema schema_failure | Db_ping_failed string

record db_server =
  ds_pool :: "string \<Rightarrow> string option"
  ds_acquire :: "string option"
  ds_fault :: "nat \<Rightarrow> (bool \<times> string) option"
  ds_ping :: "string option"

definition with_pool ::
  "environ \<Rightarrow> db_server \<Rightarrow> (catalog \<Rightarrow> db_failure option \<times> catalog) \<Rightarrow> catalog \<Rightarrow> db_failure option \<times> catalog" where
  "with_pool env d f c =
     (case load_process_config env of
        Inl e \<Rightarrow> (Some (Db_config e), c)
      | Inr cfg \<Rightarrow> (case ds_pool d (pc_database_url cfg) of Some e \<Rightarrow> (Some (Db_pool e), c) | None \<Rightarrow> f c))"

definition db_create :: "environ \<Rightarrow> db_server \<Rightarrow> catalog \<Rightarrow> db_failure option \<times> catalog" where
  "db_create env d = with_pool env d (\<lambda>c.
     case ds_acquire d of
       Some e \<Rightarrow> (Some (Db_acquire e), c)
     | None \<Rightarrow> apfst (map_option Db_schema) (create_schema (ds_fault d) 0 schema_all c))"

definition db_ping :: "environ \<Rightarrow> db_server \<Rightarrow> catalog \<Rightarrow> db_failure option \<times> catalog" where
  "db_ping env d = with_pool env d (\<lambda>c. (map_option Db_ping_failed (ds_ping d), c))"

definition db_init :: "environ \<Rightarrow> db_server \<Rightarrow> db_server \<Rightarrow> catalog \<Rightarrow> db_failure option \<times> catalog" where
  "db_init env d1 d2 c =
     (case db_create env d1 c of (Some e, c1) \<Rightarrow> (Some e, c1) | (None, c1) \<Rightarrow> db_ping env d2 c1)"

text \<open>The command line, \<open>os.Args\<close> with the name of the program first.\<close>

datatype command = Cmd_create | Cmd_ping | Cmd_init | Cmd_serve

definition handle_db_command :: "string list \<Rightarrow> string + command" where
  "handle_db_command args =
     (if length args < 3 then Inl (''usage: release-engine db <subcommand>'' @ [CHR 0x0A] @ ''subcommands: create, ping, init'')
      else if args ! 2 = ''create'' then Inr Cmd_create
      else if args ! 2 = ''ping'' then Inr Cmd_ping
      else if args ! 2 = ''init'' then Inr Cmd_init
      else Inl (''unknown db subcommand: '' @ args ! 2))"

definition run_command :: "string list \<Rightarrow> string + command" where
  "run_command args =
     (if length args < 2 then Inl (''usage: release-engine <command> [args]'' @ [CHR 0x0A] @ ''commands: db create, db ping, db init, serve'')
      else if args ! 1 = ''db'' then handle_db_command args
      else if args ! 1 = ''serve'' then Inr Cmd_serve
      else Inl (''unknown command: '' @ args ! 1))"

section \<open>Serving\<close>

record ('g, 't, 'k, 'h, 'v) serve_env =
  se_logger :: "string option"
  se_pool :: "string \<Rightarrow> string option"
  se_server :: db_server
  se_connectors :: "('g, 't, 'k) connector_env"
  se_files :: config_env
  se_texts :: go_texts
  se_store :: "volta_store \<Rightarrow> string + 'v"
  se_volta :: "('h, 'v) volta_lib"

text \<open>The step that failed, with its error; each constructor stands for the text put before it.\<close>

datatype start_error =
    Load_configuration load_error | Create_logger string | Create_pool string | Initialize_schema db_failure
  | Register_connectors string | Register_family string string | Bootstrap_modules string
  | Create_vaults string | Initialize_vaults string

text \<open>The engine: the registries, the vaults, and what the two goroutines run on, the scheduler with its
  interval and the HTTP server with its port. Nothing else is started.\<close>

record ('h, 'v) serving =
  sv_config :: process_config
  sv_connectors :: conn_registry
  sv_families :: family_registry
  sv_modules :: dynamic_registry
  sv_vaults :: "('h, 'v) vault_state"
  sv_interval :: duration

fun register_all_families :: "connector_family list \<Rightarrow> family_registry \<Rightarrow> (string \<times> string) + family_registry" where
  "register_all_families [] r = Inr r"
| "register_all_families (f # fs) r =
     (case register_family f r of Inl e \<Rightarrow> Inl (f_name f, e) | Inr r' \<Rightarrow> register_all_families fs r')"

definition assemble_engine ::
  "('g, 't, 'k, 'h, 'v) serve_env \<Rightarrow> process_config \<Rightarrow> start_error + ('h, 'v) serving" where
  "assemble_engine e cfg =
     (let env = ke_environ (se_connectors e) in
      case register_runtime_connectors (se_connectors e) new_connector_registry of
        Inl er \<Rightarrow> Inl (Register_connectors er)
      | Inr conns \<Rightarrow>
     (case register_all_families default_families (new_family_registry conns) of
        Inl (f, er) \<Rightarrow> Inl (Register_family f er)
      | Inr fams \<Rightarrow>
     (case bootstrap_with_config ((se_files e)\<lparr>ce_getenv := env\<rparr>) (se_texts e) fams of
        Inl er \<Rightarrow> Inl (Bootstrap_modules er)
      | Inr mods \<Rightarrow>
     (case new_manager_with_deps (se_store e) env cfg of
        Inl er \<Rightarrow> Inl (Create_vaults er)
      | Inr v0 \<Rightarrow>
     (case manager_init (se_volta e) cfg v0 of
        (Some er, _) \<Rightarrow> Inl (Initialize_vaults er)
      | (None, v) \<Rightarrow> Inr \<lparr>sv_config = cfg, sv_connectors = conns, sv_families = fams, sv_modules = mods,
            sv_vaults = v, sv_interval = 25000000\<rparr>)))))"

definition serve_start ::
  "('g, 't, 'k, 'h, 'v) serve_env \<Rightarrow> catalog \<Rightarrow> (start_error + ('h, 'v) serving) \<times> catalog" where
  "serve_start e c =
     (let env = ke_environ (se_connectors e) in
      case load_process_config env of
        Inl er \<Rightarrow> (Inl (Load_configuration er), c)
      | Inr cfg \<Rightarrow>
     (case se_logger e of
        Some er \<Rightarrow> (Inl (Create_logger er), c)
      | None \<Rightarrow>
     (case se_pool e (pc_database_url cfg) of
        Some er \<Rightarrow> (Inl (Create_pool er), c)
      | None \<Rightarrow>
     (case db_create env (se_server e) c of
        (Some er, c1) \<Rightarrow> (Inl (Initialize_schema er), c1)
      | (None, c1) \<Rightarrow> (assemble_engine e cfg, c1)))))"

text \<open>
  The end of a start: a signal, or the HTTP server returned; an error of it skips the graceful shutdown.
  The deferred closings run in every case, the vaults before the registry, and what they return is
  only printed. Connectors that are closed are seen through \<open>c_close\<close>.
\<close>

datatype stop_event = Signalled | Http_ended "string option"

definition serve_stop ::
  "('h, 'v) volta_lib \<Rightarrow> stop_event \<Rightarrow> string option \<Rightarrow> ('h, 'v) serving \<Rightarrow> string option \<times> ('h, 'v) serving" where
  "serve_stop lib ev shutdown s =
     ((case ev of Http_ended (Some e) \<Rightarrow> Some e | _ \<Rightarrow> shutdown),
      s\<lparr>sv_vaults := snd (close_all lib (sv_vaults s)), sv_connectors := snd (conn_close (sv_connectors s))\<rparr>)"

section \<open>The registered connectors\<close>

lemma github_key: "new_github_connector lib x = Inr c \<Longrightarrow> base_key (gc_base c) = ''git-github''"
  by (auto simp: new_github_connector_def new_base_connector_def base_key_def Let_def split: sum.splits if_splits)

lemma gitea_key: "new_gitea_connector http x = Inr c \<Longrightarrow> base_key (gt_base c) = ''git-gitea''"
  by (auto simp: new_gitea_connector_def new_base_connector_def base_key_def Let_def split: if_splits)

lemma webhook_key: "new_webhook_connector cl = Inr c \<Longrightarrow> base_key (wh_base c) = ''webhook-webhook''"
  by (auto simp: new_webhook_connector_def new_base_connector_def base_key_def split: if_splits)

definition started_mock :: crossplane_mock where
  "started_mock = \<lparr>xm_base = \<lparr>b_type = Type_infra, b_tech = ''crossplaneMock''\<rparr>, xm_closed = False, xm_resources = []\<rparr>"

definition started_policy :: policy_connector where
  "started_policy = \<lparr>pc_base = \<lparr>b_type = Type_policy, b_tech = ''embedded''\<rparr>, pc_closed = False\<rparr>"

lemma new_crossplane_mock_eq: "new_crossplane_mock = Inr started_mock"
  by (simp add: new_crossplane_mock_def started_mock_def new_base_connector_def valid_type_def has_prefix_def)

lemma new_policy_connector_eq: "new_policy_connector = Inr started_policy"
  by (simp add: new_policy_connector_def started_policy_def new_base_connector_def valid_type_def has_prefix_def)

lemmas view_defs = connector_view_def policy_view_def github_view_def gitea_view_def mock_view_def webhook_view_def

lemma map_sum_Inr: "map_sum id f x = Inr y \<longleftrightarrow> (\<exists>z. x = Inr z \<and> y = f z)"
  by (cases x) auto

lemma new_webhook_connector_ok: "\<exists>wh. new_webhook_connector cl = Inr wh"
  by (simp add: new_webhook_connector_def new_base_connector_def valid_type_def has_prefix_def)

lemma register_five:
  assumes gh: "new_github_connector (ke_github e) [(''base_url'', ke_environ e ''GIT_CONNECTOR_BASE_URL'')] = Inr gh"
    and gt: "new_gitea_connector (ke_gitea e) [(''base_url'', ke_environ e ''GITEA_CONNECTOR_BASE_URL'')] = Inr gt"
    and wh: "new_webhook_connector (ke_webhook e) = Inr wh"
  shows "register_runtime_connectors e new_connector_registry = Inr \<lparr>connectors = [(''git-github'', github_view (ke_live e) gh),
      (''git-gitea'', gitea_view (ke_live e) gt), (''infra-crossplaneMock'', mock_view (ke_live e) started_mock),
      (''policy-embedded'', policy_view started_policy), (''webhook-webhook'', webhook_view (ke_live e) wh)], closed = False\<rparr>"
proof -
  have keys: "c_key (github_view lv gh) = ''git-github''" "c_key (gitea_view lv gt) = ''git-gitea''"
    "c_key (webhook_view lv wh) = ''webhook-webhook''" "c_key (mock_view lv started_mock) = ''infra-crossplaneMock''"
    "c_key (policy_view started_policy) = ''policy-embedded''" for lv
    using github_key [OF gh] gitea_key [OF gt] webhook_key [OF wh]
    by (simp_all add: view_defs started_mock_def started_policy_def base_key_def)
  show ?thesis
    by (simp add: register_runtime_connectors_def runtime_connectors_def Let_def gh gt wh new_crossplane_mock_eq
        new_policy_connector_eq conn_register_def new_connector_registry_def keys)
qed

text \<open>The five keys, in the order they are registered. The Gitea connector is made in every start, so there
  is none without its base URL.\<close>

lemma registered_connectors:
  fixes e :: "('g, 't, 'k) connector_env"
  assumes "register_runtime_connectors e new_connector_registry = Inr r"
  shows "\<exists>(gh :: 'g github_connector) (gt :: 't gitea_connector) (wh :: 'k webhook_connector). r = \<lparr>connectors = [
      (''git-github'', github_view (ke_live e) gh), (''git-gitea'', gitea_view (ke_live e) gt),
      (''infra-crossplaneMock'', mock_view (ke_live e) started_mock), (''policy-embedded'', policy_view started_policy),
      (''webhook-webhook'', webhook_view (ke_live e) wh)], closed = False\<rparr>"
    and "trim_slashes_right (trim_space (ke_environ e ''GITEA_CONNECTOR_BASE_URL'')) \<noteq> []"
proof -
  obtain gh where gh: "new_github_connector (ke_github e) [(''base_url'', ke_environ e ''GIT_CONNECTOR_BASE_URL'')] = Inr gh"
    using assms by (auto simp: register_runtime_connectors_def runtime_connectors_def Let_def map_sum_Inr split: sum.splits)
  obtain gt where gt: "new_gitea_connector (ke_gitea e) [(''base_url'', ke_environ e ''GITEA_CONNECTOR_BASE_URL'')] = Inr gt"
    using assms by (auto simp: register_runtime_connectors_def runtime_connectors_def Let_def map_sum_Inr split: sum.splits)
  obtain wh where wh: "new_webhook_connector (ke_webhook e) = Inr wh" using new_webhook_connector_ok by blast
  show "\<exists>(gh :: 'g github_connector) (gt :: 't gitea_connector) (wh :: 'k webhook_connector). r = \<lparr>connectors = [
      (''git-github'', github_view (ke_live e) gh), (''git-gitea'', gitea_view (ke_live e) gt),
      (''infra-crossplaneMock'', mock_view (ke_live e) started_mock), (''policy-embedded'', policy_view started_policy),
      (''webhook-webhook'', webhook_view (ke_live e) wh)], closed = False\<rparr>"
    using register_five [OF gh gt wh] assms by (intro exI) simp
  show "trim_slashes_right (trim_space (ke_environ e ''GITEA_CONNECTOR_BASE_URL'')) \<noteq> []"
    using gt by (auto simp: new_gitea_connector_def Let_def split: sum.splits if_splits)
qed


section \<open>What the started engine resolves\<close>

lemma register_all_families_eq:
  "register_all_families fs r = Inr r' \<longleftrightarrow> register_families fs r = Inr r'"
  by (induction fs arbitrary: r) (auto split: sum.splits)

lemma serve_start_engine:
  assumes "serve_start e c = (Inr s, c')"
  shows "register_runtime_connectors (se_connectors e) new_connector_registry = Inr (sv_connectors s)"
    and "setup_family_registry (sv_connectors s) = Inr (sv_families s)"
    and "bootstrap_with_config ((se_files e)\<lparr>ce_getenv := ke_environ (se_connectors e)\<rparr>) (se_texts e) (sv_families s)
      = Inr (sv_modules s)"
    and "db_create (ke_environ (se_connectors e)) (se_server e) c = (None, c')"
proof -
  obtain cfg where a: "assemble_engine e cfg = Inr s"
    and d: "db_create (ke_environ (se_connectors e)) (se_server e) c = (None, c')"
    using assms by (auto simp: serve_start_def Let_def split: sum.splits option.splits prod.splits)
  then show "register_runtime_connectors (se_connectors e) new_connector_registry = Inr (sv_connectors s)"
    and "bootstrap_with_config ((se_files e)\<lparr>ce_getenv := ke_environ (se_connectors e)\<rparr>) (se_texts e) (sv_families s)
      = Inr (sv_modules s)"
    and "db_create (ke_environ (se_connectors e)) (se_server e) c = (None, c')"
    by (auto simp: assemble_engine_def Let_def split: sum.splits option.splits prod.splits)
  show "setup_family_registry (sv_connectors s) = Inr (sv_families s)"
    using a by (auto simp: assemble_engine_def Let_def setup_family_registry_def register_all_families_eq
        split: sum.splits option.splits prod.splits)
qed

text \<open>The registry of a started engine, given by its five connectors.\<close>

definition started_families ::
  "(string \<times> connector) list \<Rightarrow> bool \<Rightarrow> family_registry" where
  "started_families cs b = \<lparr>fr_registry = \<lparr>connectors = cs, closed = b\<rparr>, families = map (\<lambda>f. (f_name f, f)) default_families\<rparr>"

lemma resolve_started:
  fixes gh gt mk po wh :: connector and b :: bool
  defines "fr \<equiv> started_families [(''git-github'', gh), (''git-gitea'', gt), (''infra-crossplaneMock'', mk),
    (''policy-embedded'', po), (''webhook-webhook'', wh)] b"
  shows "family_resolve fr ''git'' k = Inr c \<longleftrightarrow> k \<in> {''git-github'', ''github''} \<and> c = gh \<or> k \<in> {''git-gitea'', ''gitea''} \<and> c = gt"
    and "family_resolve fr ''policy'' k = Inr c \<longleftrightarrow> k \<in> {''policy-embedded'', ''embedded''} \<and> c = po"
    and "family_resolve fr ''webhook'' k = Inr c \<longleftrightarrow> k \<in> {''webhook-webhook'', ''webhook''} \<and> c = wh"
    and "family_resolve fr ''infra'' k = Inr c \<longleftrightarrow> k \<in> {''infra-crossplaneMock'', ''crossplaneMock''} \<and> c = mk"
    and "\<exists>er. family_resolve fr ''crossplane'' k = Inl er"
  unfolding fr_def started_families_def
  by (auto simp: family_resolve_def has_member_def conn_lookup_def default_families_def Let_def split: if_splits)


lemma started_engine:
  fixes e :: "('g, 't, 'k, 'h, 'v) serve_env"
  assumes "serve_start e c = (Inr s, c')"
  shows "\<exists>(gh :: 'g github_connector) (gt :: 't gitea_connector) (wh :: 'k webhook_connector). sv_families s = started_families
      [(''git-github'', github_view (ke_live (se_connectors e)) gh), (''git-gitea'', gitea_view (ke_live (se_connectors e)) gt),
       (''infra-crossplaneMock'', mock_view (ke_live (se_connectors e)) started_mock),
       (''policy-embedded'', policy_view started_policy), (''webhook-webhook'', webhook_view (ke_live (se_connectors e)) wh)] False"
proof -
  have "sv_families s = \<lparr>fr_registry = sv_connectors s, families = map (\<lambda>f. (f_name f, f)) default_families\<rparr>"
    using serve_start_engine(2) [OF assms] by (simp add: setup_family_registry_eq)
  moreover obtain gh :: "'g github_connector" and gt :: "'t gitea_connector" and wh :: "'k webhook_connector" where
    "sv_connectors s = \<lparr>connectors = [(''git-github'', github_view (ke_live (se_connectors e)) gh),
       (''git-gitea'', gitea_view (ke_live (se_connectors e)) gt),
       (''infra-crossplaneMock'', mock_view (ke_live (se_connectors e)) started_mock),
       (''policy-embedded'', policy_view started_policy), (''webhook-webhook'', webhook_view (ke_live (se_connectors e)) wh)],
       closed = False\<rparr>"
    using registered_connectors(1) [OF serve_start_engine(1) [OF assms]] by blast
  ultimately have "sv_families s = started_families
      [(''git-github'', github_view (ke_live (se_connectors e)) gh), (''git-gitea'', gitea_view (ke_live (se_connectors e)) gt),
       (''infra-crossplaneMock'', mock_view (ke_live (se_connectors e)) started_mock),
       (''policy-embedded'', policy_view started_policy), (''webhook-webhook'', webhook_view (ke_live (se_connectors e)) wh)] False"
    unfolding started_families_def by (simp only:)
  then show ?thesis by blast
qed

lemma started_factory:
  assumes "serve_start e c = (Inr s, c')"
  shows "fa_families (re_factory (dr_resolver (sv_modules s))) = sv_families s"
    and "fa_texts (re_factory (dr_resolver (sv_modules s))) = se_texts e"
  using serve_start_engine(3) [OF assms]
  by (auto simp: bootstrap_with_config_def new_config_aware_module_resolver_def Let_def dest!: sym [of _ "sv_modules s"] split: sum.splits)

lemma assemble_infra_iff:
  "assemble_infra_module f c = Inr m \<longleftrightarrow> (\<exists>ic git po wh cr. parse_config (fa_texts f) (Some c) = Inr ic
     \<and> family_resolve (fa_families f) ''git'' (cs_git (ic_connectors ic)) = Inr git
     \<and> family_resolve (fa_families f) ''policy'' (cs_policy (ic_connectors ic)) = Inr po
     \<and> family_resolve (fa_families f) ''webhook'' (cs_webhook (ic_connectors ic)) = Inr wh
     \<and> resolve_crossplane (fa_families f) (cs_crossplane (ic_connectors ic)) = Inr cr
     \<and> m = \<lparr>im_vars = Some (ic_vars ic), im_git = Some git, im_crossplane = Some cr, im_policy = Some po, im_webhook = Some wh\<rparr>)"
  by (auto simp: assemble_infra_module_def new_module_def Let_def split: sum.splits)

text \<open>The implementations a configuration may select for the engine to assemble the module.\<close>

definition selects_registered :: "connector_selection \<Rightarrow> bool" where
  "selects_registered sel \<longleftrightarrow> cs_git sel \<in> {''github'', ''git-github'', ''gitea'', ''git-gitea''}
     \<and> cs_crossplane sel \<in> {''crossplaneMock'', ''infra-crossplaneMock''}
     \<and> cs_policy sel \<in> {''embedded'', ''policy-embedded''} \<and> cs_webhook sel \<in> {''webhook'', ''webhook-webhook''}"

lemma resolve_crossplane_infra:
  assumes "\<And>k. \<exists>er. family_resolve fr ''crossplane'' k = Inl er"
  shows "resolve_crossplane fr k = Inr c \<longleftrightarrow> family_resolve fr ''infra'' k = Inr c"
  using assms [of "if is_prefixed_with_infra k then k else ''infra-'' @ k"]
  by (auto simp: resolve_crossplane_def split: sum.splits)

lemma started_engine_assembles:
  fixes e :: "('g, 't, 'k, 'h, 'v) serve_env"
  assumes "serve_start e c = (Inr s, c')"
  shows "(\<exists>m. assemble_infra_module (re_factory (dr_resolver (sv_modules s))) cfg = Inr m)
      \<longleftrightarrow> (\<exists>ic. parse_config (se_texts e) (Some cfg) = Inr ic \<and> selects_registered (ic_connectors ic))"
    and "assemble_infra_module (re_factory (dr_resolver (sv_modules s))) cfg = Inr m
      \<Longrightarrow> im_policy m = Some (policy_view started_policy)
        \<and> im_crossplane m = Some (mock_view (ke_live (se_connectors e)) started_mock)"
proof -
  obtain gh :: "'g github_connector" and gt :: "'t gitea_connector" and wh :: "'k webhook_connector" where f: "sv_families s = started_families
      [(''git-github'', github_view (ke_live (se_connectors e)) gh), (''git-gitea'', gitea_view (ke_live (se_connectors e)) gt),
       (''infra-crossplaneMock'', mock_view (ke_live (se_connectors e)) started_mock),
       (''policy-embedded'', policy_view started_policy), (''webhook-webhook'', webhook_view (ke_live (se_connectors e)) wh)] False"
    using started_engine [OF assms] by blast
  note res = resolve_started [of "github_view (ke_live (se_connectors e)) gh" "gitea_view (ke_live (se_connectors e)) gt"
      "mock_view (ke_live (se_connectors e)) started_mock" "policy_view started_policy"
      "webhook_view (ke_live (se_connectors e)) wh" False, folded f]
  note as = assemble_infra_iff [of "re_factory (dr_resolver (sv_modules s))" cfg, unfolded started_factory [OF assms]
      resolve_crossplane_infra [OF res(5)] res(1-4)]
  show "(\<exists>m. assemble_infra_module (re_factory (dr_resolver (sv_modules s))) cfg = Inr m)
      \<longleftrightarrow> (\<exists>ic. parse_config (se_texts e) (Some cfg) = Inr ic \<and> selects_registered (ic_connectors ic))"
    unfolding as selects_registered_def by auto
  show "assemble_infra_module (re_factory (dr_resolver (sv_modules s))) cfg = Inr m
      \<Longrightarrow> im_policy m = Some (policy_view started_policy)
        \<and> im_crossplane m = Some (mock_view (ke_live (se_connectors e)) started_mock)"
    unfolding as by auto
qed

section \<open>The shipped configurations\<close>

text \<open>\<open>config/dev\<close>, \<open>test\<close>, \<open>staging\<close> and \<open>prod\<close>, each \<open>cfg_infra.yaml\<close>, as the YAML package decodes them.\<close>

definition infra_config_file :: "go_map \<Rightarrow> string \<Rightarrow> string \<Rightarrow> string \<Rightarrow> string \<Rightarrow> module_config_file" where
  "infra_config_file vars git crossplane policy webhook = \<lparr>mc_api_version = ''module.config/v1'', mc_module = ''infra'',
     mc_vars = vars, mc_families = Some [(''git'', git), (''crossplane'', crossplane), (''policy'', policy), (''webhook'', webhook)]\<rparr>"

definition cfg_infra_dev :: module_config_file where
  "cfg_infra_dev = infra_config_file [(''health_timeout'', GStr ''30s''), (''poll_interval'', GStr ''2s'')]
     ''gitea'' ''crossplaneMock'' ''embedded'' ''webhook''"

definition cfg_infra_test :: module_config_file where
  "cfg_infra_test = infra_config_file [(''health_timeout'', GStr ''60s''), (''poll_interval'', GStr ''5s''),
     (''log_level'', GStr ''debug'')] ''file'' ''crossplaneMock'' ''embedded'' ''wmock''"

definition cfg_infra_staging :: module_config_file where
  "cfg_infra_staging = infra_config_file [(''health_timeout'', GStr ''300s''), (''poll_interval'', GStr ''30s'')]
     ''github'' ''crossplane'' ''embedded'' ''http''"

definition cfg_infra_prod :: module_config_file where
  "cfg_infra_prod = infra_config_file [(''health_timeout'', GStr ''600s''), (''poll_interval'', GStr ''60s'')]
     ''github'' ''crossplane'' ''embedded'' ''http''"

lemmas cfg_infra_defs = cfg_infra_dev_def cfg_infra_test_def cfg_infra_staging_def cfg_infra_prod_def infra_config_file_def

lemma parse_connectors_selection:
  "parse_connectors fams = Inr sel \<Longrightarrow> sel = \<lparr>cs_git = family_impl fams ''git'', cs_crossplane = family_impl fams ''crossplane'',
     cs_policy = family_impl fams ''policy'', cs_webhook = family_impl fams ''webhook''\<rparr>"
  by (cases "List.find (\<lambda>f. family_impl fams f = []) required_connector_families")
    (simp_all only: parse_connectors_def Let_def option.case connector_selection.select_convs sum.distinct sum.inject
      split: if_split_asm)

lemma parse_selection:
  assumes "parse_config t (Some (infra_config_file vars git crossplane policy webhook)) = Inr ic"
  shows "ic_connectors ic = \<lparr>cs_git = git, cs_crossplane = crossplane, cs_policy = policy, cs_webhook = webhook\<rparr>"
proof -
  obtain sel where sel: "parse_connectors (mc_families (infra_config_file vars git crossplane policy webhook)) = Inr sel"
    and ic: "ic_connectors ic = sel"
    using assms unfolding parse_config_def by (fastforce split: sum.split_asm)
  then show ?thesis using ic parse_connectors_selection [OF sel] by (simp add: family_impl_def infra_config_file_def)
qed

lemma dev_parses: "\<exists>ic. parse_config t (Some cfg_infra_dev) = Inr ic"
proof -
  have d: "parse_duration ''30s'' = Some 30000000000" "parse_duration ''2s'' = Some 2000000000"
    by (simp_all add: parse_duration_def parse_duration_part_def is_digit_def unit_ns_def digits_val_def Let_def)
  have "\<exists>v. parse_vars t (mc_vars cfg_infra_dev) = Inr v"
    by (simp add: parse_vars_def parse_duration_var_def parse_log_level_def cfg_infra_dev_def infra_config_file_def d)
  moreover have "\<exists>sel. parse_connectors (mc_families cfg_infra_dev) = Inr sel"
    by (simp add: parse_connectors_def family_impl_def required_connector_families_def cfg_infra_dev_def
        infra_config_file_def Let_def)
  ultimately show ?thesis by (auto simp: parse_config_def)
qed

text \<open>C18: Which configurations of the infrastructure module the engine that \<open>serve\<close> starts can assemble:
  exactly those that parse and select GitHub or Gitea, the in-memory Crossplane connector, the
  embedded policy connector and the webhook connector. Of the four configurations in the repository
  this is the one for development; those for test, staging and production are refused.\<close>

theorem started_engine_configurations:
  assumes "serve_start e c = (Inr s, c')"
  shows "(\<forall>cfg. (\<exists>m. assemble_infra_module (re_factory (dr_resolver (sv_modules s))) cfg = Inr m)
        \<longleftrightarrow> (\<exists>ic. parse_config (se_texts e) (Some cfg) = Inr ic \<and> selects_registered (ic_connectors ic)))
    \<and> (\<exists>m. assemble_infra_module (re_factory (dr_resolver (sv_modules s))) cfg_infra_dev = Inr m)
    \<and> (\<forall>cfg \<in> {cfg_infra_test, cfg_infra_staging, cfg_infra_prod}.
         \<exists>er. assemble_infra_module (re_factory (dr_resolver (sv_modules s))) cfg = Inl er)"
proof (intro conjI ballI allI)
  let ?f = "re_factory (dr_resolver (sv_modules s))"
  note iff = started_engine_assembles(1) [OF assms]
  show "(\<exists>m. assemble_infra_module ?f cfg = Inr m)
      \<longleftrightarrow> (\<exists>ic. parse_config (se_texts e) (Some cfg) = Inr ic \<and> selects_registered (ic_connectors ic))" for cfg
    by (rule iff)
  obtain ic where p: "parse_config (se_texts e) (Some cfg_infra_dev) = Inr ic" using dev_parses by blast
  then have "selects_registered (ic_connectors ic)"
    using parse_selection p by (simp add: cfg_infra_dev_def selects_registered_def)
  then show "\<exists>m. assemble_infra_module ?f cfg_infra_dev = Inr m" unfolding iff using p by blast
  fix cfg assume "cfg \<in> {cfg_infra_test, cfg_infra_staging, cfg_infra_prod}"
  then have "\<not> (\<exists>ic. parse_config (se_texts e) (Some cfg) = Inr ic \<and> selects_registered (ic_connectors ic))"
    by (auto simp: cfg_infra_test_def cfg_infra_staging_def cfg_infra_prod_def selects_registered_def dest!: parse_selection)
  then have "\<not> (\<exists>m. assemble_infra_module ?f cfg = Inr m)" unfolding iff .
  then show "\<exists>er. assemble_infra_module ?f cfg = Inl er" by (cases "assemble_infra_module ?f cfg") auto
qed

section \<open>The policy gate of the started engine\<close>

lemma policy_view_allows:
  assumes "map_of input ''policy_bundle'' \<noteq> None" "map_of input ''resource'' \<noteq> None"
  shows "c_validate (policy_view started_policy) ''evaluate'' (Some input) = None"
    and "c_execute (policy_view started_policy) ''evaluate'' (Some input) sec = (Some policy_evaluate, None)"
    and "c_required_secrets (policy_view started_policy) = Some (\<lambda>_. [])"
  using assms
  by (simp_all add: policy_view_def connector_view_def policy_validate_def policy_execute_def started_policy_def
      or_empty_def check_fields_def)

lemma policy_evaluate_allows: "policy_allows policy_evaluate" "cr_error policy_evaluate = None"
  by (simp_all add: policy_allows_def policy_evaluate_def success_result_def go_get_def)

lemma policy_request_call:
  "\<exists>req input. map_to_connector_request (policy_request p out) = Inr req \<and> cq_connector req = ''policy''
     \<and> cq_operation req = ''evaluate'' \<and> cq_input req = Some input \<and> map_of input ''policy_bundle'' \<noteq> None
     \<and> map_of input ''resource'' \<noteq> None"
  by (simp add: map_to_connector_request_def policy_request_def go_get_def string_or_empty_def as_map.simps Let_def)

lemma job_adapter_policy:
  assumes "im_policy m = Some x"
  shows "\<exists>cs. a_resolved (job_adapter rs (infra_impl n me env envs m) j i r) = Some cs \<and> map_of cs ''policy'' = Some x"
  using assms
  by (auto simp: job_adapter_def infra_impl_def get_connectors_def Let_def split: option.splits)

text \<open>C19: In the engine that \<open>serve\<close> starts the policy gate lets every run pass. Whatever configuration the
  infrastructure module is assembled from, and whatever the request and the rendered manifest are,
  the policy phase of a run with the runner's adapter asks the policy connector once, is told that
  the manifest is allowed, and goes on.\<close>

theorem started_policy_gate_open:
  assumes "serve_start e c = (Inr s, c')"
    and "assemble_infra_module (re_factory (dr_resolver (sv_modules s))) cfg = Inr m"
  shows "\<exists>req. policy_phase me (adapter_env (\<lambda>_. job_adapter rs (infra_impl n me env envs m) j i r) w t cx sl) p out h
    = Next () (h @ [Began ''infra.policy_evaluate'', Called req (Ret policy_evaluate),
        Ended_ok ''infra.policy_evaluate'' [(''allowed'', GBool True)]])"
proof -
  let ?a = "job_adapter rs (infra_impl n me env envs m) j i r"
  obtain cs where cs: "a_resolved ?a = Some cs" "map_of cs ''policy'' = Some (policy_view started_policy)"
    using job_adapter_policy started_engine_assembles(2) [OF assms] by blast
  obtain req input where req: "map_to_connector_request (policy_request p out) = Inr req" "cq_connector req = ''policy''"
      "cq_operation req = ''evaluate''" "cq_input req = Some input" "map_of input ''policy_bundle'' \<noteq> None"
      "map_of input ''resource'' \<noteq> None"
    using policy_request_call by blast
  have "fst (call_connector ?a req) = Call_result policy_evaluate"
    using cs req policy_view_allows [OF req(5,6)]
    by (simp add: call_connector_def resolve_connector_def call_plain_def convert_result_def)
  then show ?thesis
    using req(1) policy_evaluate_allows by (simp add: policy_phase_def api_call_def adapter_env_def Let_def)
qed

section \<open>A start that succeeds\<close>

definition ex_environ :: environ where
  "ex_environ k = (if k \<in> set required_vars \<or> k = ''VOLTA_MASTER_PASSPHRASE'' then ''x''
     else if k = ''GITEA_CONNECTOR_BASE_URL'' then ''http://gitea'' else if k = ''VOLTA_STORAGE'' then ''file'' else [])"

definition ex_connector_env :: "(mem_server, unit, unit) connector_env" where
  "ex_connector_env = \<lparr>ke_environ = ex_environ,
     ke_github = \<lparr>gl_new = mem_client, gl_enterprise = Inl, gl_token = \<lambda>_ cl. cl, gl_http_get = \<lambda>_ w. (Inl ''refused'', w)\<rparr>,
     ke_gitea = \<lambda>_ w. (Inl ''refused'', w),
     ke_webhook = \<lparr>wc_marshal = \<lambda>_. Inr [], wc_sprint = \<lambda>_. [], wc_create = \<lambda>_. None, wc_post = \<lambda>_ _ _ w. (Inl ''refused'', w)\<rparr>,
     ke_live = \<lparr>lv_github = \<lambda>_ _ _. (None, None), lv_gitea = \<lambda>_ _ _. (None, None), lv_mock = \<lambda>_ _ _. (None, None),
       lv_webhook = \<lambda>_ _ _. (None, None)\<rparr>\<rparr>"

definition ex_serve_env :: "(mem_server, unit, unit, string, (string \<times> string \<times> string) list) serve_env" where
  "ex_serve_env = \<lparr>se_logger = None, se_pool = \<lambda>_. None,
     se_server = \<lparr>ds_pool = \<lambda>_. None, ds_acquire = None, ds_fault = \<lambda>_. None, ds_ping = None\<rparr>,
     se_connectors = ex_connector_env, se_files = ex_config_env, se_texts = ex_texts, se_store = \<lambda>_. Inr [], se_volta = ex_lib\<rparr>"

lemma ex_config:
  "\<exists>cfg. load_process_config ex_environ = Inr cfg \<and> pc_volta_storage cfg = ''file''
     \<and> pc_volta_passphrase_env_var cfg = ''VOLTA_MASTER_PASSPHRASE''"
proof -
  have port: "go_atoi ''8080'' = Some 8080" by (simp add: go_atoi_def is_digit_def digits_val_def Let_def)
  have "List.find (\<lambda>k. ex_environ k = []) required_vars = None" by (simp add: find_None_iff ex_environ_def)
  then show ?thesis
    unfolding load_process_config_def by (simp add: env_or_def ex_environ_def required_vars_def port)
qed

lemma ex_start: "\<exists>s c'. serve_start ex_serve_env empty_catalog = (Inr s, c')"
proof -
  obtain cfg where cfg: "load_process_config ex_environ = Inr cfg" "pc_volta_storage cfg = ''file''"
      "pc_volta_passphrase_env_var cfg = ''VOLTA_MASTER_PASSPHRASE''"
    using ex_config by blast
  have env: "ke_environ (se_connectors ex_serve_env) = ex_environ" by (simp add: ex_serve_env_def ex_connector_env_def)
  have "fst (db_create ex_environ (se_server ex_serve_env) empty_catalog) = None"
    using cfg(1) by (simp add: db_create_def with_pool_def ex_serve_env_def create_schema_quiet schema_created)
  then obtain c' where db: "db_create ex_environ (se_server ex_serve_env) empty_catalog = (None, c')"
    by (metis prod.collapse)
  have "\<exists>gh. new_github_connector (ke_github ex_connector_env) [(''base_url'', ex_environ ''GIT_CONNECTOR_BASE_URL'')] = Inr gh"
    "\<exists>gt. new_gitea_connector (ke_gitea ex_connector_env) [(''base_url'', ex_environ ''GITEA_CONNECTOR_BASE_URL'')] = Inr gt"
    by (simp_all add: new_github_connector_def new_gitea_connector_def new_base_connector_def valid_type_def has_prefix_def
        ex_connector_env_def ex_environ_def required_vars_def trim_space_def trim_slashes_right_def is_space_def Let_def)
  then obtain conns where conns: "register_runtime_connectors ex_connector_env new_connector_registry = Inr conns"
    using register_five [of ex_connector_env] new_webhook_connector_ok [of "ke_webhook ex_connector_env"]
    by (auto simp: ex_connector_env_def)
  obtain fams where fams: "register_all_families default_families (new_family_registry conns) = Inr fams"
    using setup_family_registry_eq [of conns] by (simp add: register_all_families_eq setup_family_registry_def)
  obtain mods where mods: "bootstrap_with_config (ex_config_env\<lparr>ce_getenv := ex_environ\<rparr>) ex_texts fams = Inr mods"
    by (simp add: bootstrap_with_config_def new_config_aware_module_resolver_def new_default_module_registry_def
        module_register_def Let_def)
  have v: "\<exists>v. new_manager_with_deps (\<lambda>_. Inr []) ex_environ cfg = Inr v \<and> fst (manager_init ex_lib cfg v) = None"
    by (simp add: new_manager_with_deps_def cfg(2,3) manager_init_def passphrase_var_def ex_environ_def Let_def)
  then obtain v v' where "new_manager_with_deps (\<lambda>_. Inr []) ex_environ cfg = Inr v" "manager_init ex_lib cfg v = (None, v')"
    by (metis prod.collapse)
  then have "\<exists>s. assemble_engine ex_serve_env cfg = Inr s"
    unfolding assemble_engine_def env using conns fams mods by (simp add: ex_serve_env_def Let_def)
  then show ?thesis
    using cfg(1) db unfolding serve_start_def env by (auto simp: ex_serve_env_def Let_def)
qed

theorem started_engine_configurations_witness:
  "\<exists>s c'. serve_start ex_serve_env empty_catalog = (Inr s, c')
     \<and> (\<exists>m. assemble_infra_module (re_factory (dr_resolver (sv_modules s))) cfg_infra_dev = Inr m)
     \<and> (\<exists>er. assemble_infra_module (re_factory (dr_resolver (sv_modules s))) cfg_infra_prod = Inl er)"
proof -
  obtain s c' where "serve_start ex_serve_env empty_catalog = (Inr s, c')" using ex_start by blast
  then show ?thesis using started_engine_configurations [of ex_serve_env empty_catalog s c'] by blast
qed

theorem started_policy_gate_open_witness:
  "\<exists>s c' m. serve_start ex_serve_env empty_catalog = (Inr s, c')
     \<and> assemble_infra_module (re_factory (dr_resolver (sv_modules s))) cfg_infra_dev = Inr m
     \<and> (\<forall>me rs n envs env j p. \<exists>req. policy_phase me (adapter_env (\<lambda>_. job_adapter rs (infra_impl n me env envs m) j ''j1'' ''r1'')
          (\<lambda>_ _. Inl ''timeout'') (\<lambda>_. 0) (\<lambda>_. None) (\<lambda>_. None)) p ''kind: X'' []
        = Next () [Began ''infra.policy_evaluate'', Called req (Ret policy_evaluate),
            Ended_ok ''infra.policy_evaluate'' [(''allowed'', GBool True)]])"
proof -
  obtain s c' where s: "serve_start ex_serve_env empty_catalog = (Inr s, c')" using ex_start by blast
  obtain ic where p: "parse_config (se_texts ex_serve_env) (Some cfg_infra_dev) = Inr ic" using dev_parses by blast
  then have "selects_registered (ic_connectors ic)"
    using parse_selection by (simp add: cfg_infra_dev_def selects_registered_def)
  then obtain m where m: "assemble_infra_module (re_factory (dr_resolver (sv_modules s))) cfg_infra_dev = Inr m"
    using started_engine_assembles(1) [OF s] p by blast
  show ?thesis using s m started_policy_gate_open [OF s m, where h = "[]"] by fastforce
qed

section \<open>Starting again\<close>

text \<open>The Gitea connector is part of every engine: without its URL nothing starts.\<close>

lemma start_needs_gitea_url:
  assumes "trim_slashes_right (trim_space (ke_environ (se_connectors e) ''GITEA_CONNECTOR_BASE_URL'')) = []"
  shows "\<nexists>s. fst (serve_start e c) = Inr s"
proof
  assume "\<exists>s. fst (serve_start e c) = Inr s"
  then obtain s c' where "serve_start e c = (Inr s, c')" by (metis prod.collapse)
  from registered_connectors(2) [OF serve_start_engine(1) [OF this]] assms show False by simp
qed

text \<open>However a start ended, it leaves a database on which the schema is created as on the one before.\<close>

lemma start_again:
  assumes "serve_start e c = (res, c1)"
  shows "exec_schema schema_all c1 = exec_schema schema_all c"
proof (cases "c1 = c")
  case False
  then obtain er where "db_create (ke_environ (se_connectors e)) (se_server e) c = (er, c1)"
    using assms by (auto simp: serve_start_def Let_def split: sum.splits option.splits prod.splits)
  then obtain res' where "create_schema (ds_fault (se_server e)) 0 schema_all c = (res', c1)"
    using False by (auto simp: db_create_def with_pool_def apfst_def map_prod_def split: sum.splits option.splits prod.splits)
  then show ?thesis by (rule create_schema_again)
qed simp

section \<open>The in-memory Crossplane connector\<close>

text \<open>After a creation the resource is healthy, after a deletion it is not found; others are as before. What a
  commit to Git creates elsewhere is never found.\<close>

definition mock_query :: "(string \<Rightarrow> go_map \<Rightarrow> go_map) \<Rightarrow> string \<Rightarrow> string \<Rightarrow> crossplane_mock \<Rightarrow> connector_result outcome" where
  "mock_query named kind name c = fst (mock_execute named None ''get_resource_status'' [(''kind'', GStr kind), (''name'', GStr name)] c)"

lemma mock_query_open:
  "xm_closed c = False \<Longrightarrow> mock_query named kind name c
    = Ret (success_result (Some (mock_health (map_of (xm_resources c) (mock_key kind name) \<noteq> None))))"
  by (simp add: mock_query_def mock_execute_def mock_status_def need_string_def go_get_def)

lemma map_of_filter_key: "map_of (filter (\<lambda>x. fst x \<noteq> k) xs) k = None"
  by (auto simp: map_of_eq_None_iff)

lemma mock_lifecycle:
  assumes "xm_closed c = False" "input = [(''kind'', GStr kind), (''name'', GStr name), (''manifest'', GStr text)]"
  shows "mock_query named kind name (snd (mock_execute named None ''create_composite_resource'' input c))
        = Ret (success_result (Some (mock_health True)))"
    and "mock_query named kind name (snd (mock_execute named None ''delete_resource'' input c))
        = Ret (success_result (Some (mock_health False)))"
    and "mock_key k n \<noteq> mock_key kind name \<Longrightarrow>
      mock_query named k n (snd (mock_execute named None ''create_composite_resource'' input c)) = mock_query named k n c"
  using assms
  by (simp_all add: mock_query_open mock_execute_def mock_create_def mock_delete_def need_string_def mock_object_def go_get_def
      map_of_filter_key)

end
