(* ===== verification/Http_Routes.thy ===== *)
theory Http_Routes
  imports Middleware
begin

text \<open>
  The routes of \<open>src/internal/transport/http/server.go\<close> and the way of a request through them: \<open>RegisterRoutes\<close>
  as the list of the routes it adds, and a request that finds its route, passes the middleware of the
  group \<open>/v1\<close> where the route belongs to it, and reaches a handler. No two routes match the same
  request, so that the priorities of the framework's router play no part.
\<close>

section \<open>Routes\<close>

datatype http_handler =
    H_healthz | H_readyz | H_create_job | H_list_jobs | H_get_job | H_cancel_job | H_submit_decision | H_approval_context
  | H_dora_summary | H_group_summary | H_deployments | H_list_dead_letter | H_get_dead_letter | H_replay_dead_letter
  | H_set_secret | H_list_secrets | H_delete_secret | H_platform_secret | H_list_modules | H_describe_module | H_execute_query
  | H_ingest_webhook

datatype segment = Lit string | Param string

record route =
  rt_method :: string
  rt_path :: "segment list"
  rt_api :: bool
  rt_handler :: http_handler

text \<open>A path of the framework: \<open>:name\<close> stands for any one segment.\<close>

definition path_segments :: "string \<Rightarrow> segment list" where
  "path_segments p = map (\<lambda>w. if has_prefix w '':'' then Param (tl w) else Lit w) (tl (split_on (CHR ''/'') p))"

definition root_route :: "string \<Rightarrow> string \<Rightarrow> http_handler \<Rightarrow> route" where
  "root_route m p h = \<lparr>rt_method = m, rt_path = path_segments p, rt_api = False, rt_handler = h\<rparr>"

definition api_route :: "string \<Rightarrow> string \<Rightarrow> http_handler \<Rightarrow> route" where
  "api_route m p h = \<lparr>rt_method = m, rt_path = path_segments (''/v1'' @ p), rt_api = True, rt_handler = h\<rparr>"

record http_config =
  hc_admin_token :: string
  hc_registry :: bool
  hc_issuer :: string
  hc_audience :: string

definition register_routes :: "http_config \<Rightarrow> route list" where
  "register_routes cfg =
     [root_route ''GET'' ''/healthz'' H_healthz, root_route ''GET'' ''/readyz'' H_readyz,
      api_route ''POST'' ''/jobs'' H_create_job, api_route ''GET'' ''/jobs'' H_list_jobs,
      api_route ''GET'' ''/jobs/:id'' H_get_job, api_route ''POST'' ''/jobs/:id/cancel'' H_cancel_job,
      api_route ''POST'' ''/jobs/:job_id/steps/:step_id/decisions'' H_submit_decision,
      api_route ''GET'' ''/jobs/:job_id/steps/:step_id/approval-context'' H_approval_context,
      api_route ''GET'' ''/dora/summary'' H_dora_summary, api_route ''GET'' ''/dora/group/summary'' H_group_summary,
      api_route ''GET'' ''/dora/deployments'' H_deployments,
      api_route ''GET'' ''/internal/dora/dead-letter'' H_list_dead_letter,
      api_route ''GET'' ''/internal/dora/dead-letter/:id'' H_get_dead_letter,
      api_route ''POST'' ''/internal/dora/dead-letter/:id/replay'' H_replay_dead_letter,
      api_route ''PUT'' ''/tenants/:tenant/secrets/:key'' H_set_secret,
      api_route ''GET'' ''/tenants/:tenant/secrets'' H_list_secrets,
      api_route ''DELETE'' ''/tenants/:tenant/secrets/:key'' H_delete_secret]
     @ (if hc_admin_token cfg \<noteq> [] then [root_route ''PUT'' ''/internal/v1/platform/secrets/:key'' H_platform_secret] else [])
     @ (if hc_registry cfg then
          [api_route ''GET'' ''/modules'' H_list_modules, api_route ''GET'' ''/modules/:module/describe'' H_describe_module,
           api_route ''GET'' ''/query/:module/:query'' H_execute_query] else [])
     @ [root_route ''POST'' ''/v1/webhooks/dora/:provider'' H_ingest_webhook]"

fun matches :: "segment list \<Rightarrow> string list \<Rightarrow> bool" where
  "matches [] ws \<longleftrightarrow> ws = []"
| "matches (Lit s # p) ws \<longleftrightarrow> (case ws of [] \<Rightarrow> False | w # ws' \<Rightarrow> w = s \<and> matches p ws')"
| "matches (Param x # p) ws \<longleftrightarrow> (case ws of [] \<Rightarrow> False | w # ws' \<Rightarrow> matches p ws')"

definition route_matches :: "string \<Rightarrow> string list \<Rightarrow> route \<Rightarrow> bool" where
  "route_matches m ws r \<longleftrightarrow> rt_method r = m \<and> matches (rt_path r) ws"

section \<open>The way of a request\<close>

record http_state =
  ht_limiter :: rate_limiter_store
  ht_jwks :: jwks_cache

definition new_http_state :: "string \<Rightarrow> time \<Rightarrow> http_state" where
  "new_http_state issuer zero = \<lparr>ht_limiter = new_rate_limiter_store 100 100, ht_jwks = new_jwks_cache issuer zero\<rparr>"

record http_call =
  hr_method :: string
  hr_path :: "string list"
  hr_authorization :: string
  hr_times :: "time \<times> time \<times> time \<times> time"

datatype served = No_route | Rejected int string | Handled http_handler "(claims \<times> string option) option"

text \<open>The middleware of the group runs in the order it was given: the token first, then the limiter. What the
  framework answers to a request that has no route is its own and stays without detail here.\<close>

definition handle_call :: "jwt_lib \<Rightarrow> jwks_net \<Rightarrow> http_config \<Rightarrow> http_call \<Rightarrow> http_state \<Rightarrow> served \<times> http_state" where
  "handle_call lib net cfg q st =
     (case hr_times q of (now, now', t0, t1) \<Rightarrow>
      case List.find (route_matches (hr_method q) (hr_path q)) (register_routes cfg) of
        None \<Rightarrow> (No_route, st)
      | Some r \<Rightarrow>
          if \<not> rt_api r then (Handled (rt_handler r) None, st)
          else case auth_process lib net (hc_issuer cfg) (hc_audience cfg) now now' (hr_authorization q) (ht_jwks st) of
            (Auth_rejected code, c) \<Rightarrow> (Rejected 401 code, st\<lparr>ht_jwks := c\<rparr>)
          | (Auth_next cl tenant, c) \<Rightarrow>
              (case rate_limit t0 t1 (case tenant of None \<Rightarrow> GNil | Some t \<Rightarrow> GStr t) (ht_limiter st) of
                 (Limit_rejected n, l) \<Rightarrow> (Rejected 429 ''ERR_RATE_LIMITED'', st\<lparr>ht_jwks := c, ht_limiter := l\<rparr>)
               | (Limit_next, l) \<Rightarrow> (Handled (rt_handler r) (Some (cl, tenant)), st\<lparr>ht_jwks := c, ht_limiter := l\<rparr>)))"

section \<open>One route for a request\<close>

text \<open>Two paths overlap when some request matches both.\<close>

fun overlap :: "segment list \<Rightarrow> segment list \<Rightarrow> bool" where
  "overlap [] q \<longleftrightarrow> q = []"
| "overlap (Lit s # p) q \<longleftrightarrow> (case q of [] \<Rightarrow> False | Lit s' # q' \<Rightarrow> s = s' \<and> overlap p q' | Param _ # q' \<Rightarrow> overlap p q')"
| "overlap (Param x # p) q \<longleftrightarrow> (case q of [] \<Rightarrow> False | _ # q' \<Rightarrow> overlap p q')"

lemma matches_Nil [simp]: "matches q [] \<longleftrightarrow> q = []"
proof (cases q)
  case (Cons a p)
  then show ?thesis by (cases a) simp_all
qed simp

lemma matches_Cons: "matches q (w # ws) \<longleftrightarrow> (\<exists>a p. q = a # p \<and> (a = Lit w \<or> (\<exists>x. a = Param x)) \<and> matches p ws)"
proof (cases q)
  case (Cons a p)
  then show ?thesis by (cases a) auto
qed simp

lemma matches_overlap: "matches p ws \<Longrightarrow> matches q ws \<Longrightarrow> overlap p q"
proof (induction ws arbitrary: p q)
  case (Cons w ws)
  then show ?case by (auto simp: matches_Cons)
qed simp

fun clash_free :: "route list \<Rightarrow> bool" where
  "clash_free [] \<longleftrightarrow> True"
| "clash_free (r # rs) \<longleftrightarrow> list_all (\<lambda>q. rt_method r = rt_method q \<longrightarrow> \<not> overlap (rt_path r) (rt_path q)) rs \<and> clash_free rs"

lemma clash_free_unique:
  assumes "clash_free rs" "r \<in> set rs" "q \<in> set rs" "route_matches m ws r" "route_matches m ws q"
  shows "r = q"
  using assms
proof (induction rs)
  case (Cons x rs)
  have no: "\<not> route_matches m ws y" if "y \<in> set rs" "route_matches m ws x" for y
    using that Cons.prems(1) matches_overlap [of "rt_path x" ws "rt_path y"] by (auto simp: route_matches_def list_all_iff)
  then show ?case using Cons by auto
qed simp

text \<open>All routes a server may have.\<close>

lemma routes_clash_free: "clash_free (register_routes \<lparr>hc_admin_token = ''t'', hc_registry = True, hc_issuer = [], hc_audience = []\<rparr>)"
  by code_simp

lemma register_routes_subset:
  "set (register_routes cfg) \<subseteq> set (register_routes \<lparr>hc_admin_token = ''t'', hc_registry = True, hc_issuer = [], hc_audience = []\<rparr>)"
  unfolding register_routes_def by auto

lemma one_route:
  "r \<in> set (register_routes cfg) \<Longrightarrow> q \<in> set (register_routes cfg) \<Longrightarrow> route_matches m ws r \<Longrightarrow> route_matches m ws q \<Longrightarrow> r = q"
  using clash_free_unique [OF routes_clash_free] register_routes_subset by blast

definition open_handlers :: "http_handler set" where
  "open_handlers = {H_healthz, H_readyz, H_platform_secret, H_ingest_webhook}"

lemma open_route:
  "r \<in> set (register_routes cfg) \<Longrightarrow> rt_api r \<longleftrightarrow> rt_handler r \<notin> open_handlers"
  "r \<in> set (register_routes cfg) \<Longrightarrow> rt_handler r = H_platform_secret \<Longrightarrow> hc_admin_token cfg \<noteq> []"
  unfolding register_routes_def by (auto simp: root_route_def api_route_def open_handlers_def split: if_splits)


definition ex_jwt :: jwt_lib where
  "ex_jwt = \<lparr>jl_header = \<lambda>_. Some [(''kid'', GStr ''k'')], jl_verify = \<lambda>_ _ _ _. Inr ([(''tenant_id'', GStr ''t1'')], True)\<rparr>"

definition ex_net :: jwks_net where
  "ex_net = \<lparr>jn_ok_url = \<lambda>_. True, jn_discovery = \<lambda>_. Http_failed ''down'', jn_jwks = \<lambda>_. Http_failed ''down''\<rparr>"

definition ex_http_config :: http_config where
  "ex_http_config = \<lparr>hc_admin_token = [], hc_registry = True, hc_issuer = ''iss'', hc_audience = ''aud''\<rparr>"

definition ex_http_state :: http_state where
  "ex_http_state = \<lparr>ht_limiter = new_rate_limiter_store 100 100,
     ht_jwks = \<lparr>jc_keys = [(''k'', (1, 1))], jc_issuer = ''iss'', jc_refresh_after = 10\<rparr>\<rparr>"

definition ex_call :: http_call where
  "ex_call = \<lparr>hr_method = ''POST'', hr_path = [''v1'', ''jobs''], hr_authorization = ''Bearer abc'', hr_times = (0, 0, 0, 0)\<rparr>"


end
