(* ===== verification/Spec2Isabelle.thy ===== *)
theory Spec2Isabelle
  imports Job_Ledger Infra_Job Approval_Handler Middleware Infra_Yaml Module_Config Dora_Summary Metrics_Writer Secrets
    Module_Queries Audit_Trail External_Effects Family_Config Startup Http_Routes
begin

text \<open>
  \<^bold>\<open>Verification of the Release Engine\<close>, the Go program under \<open>src/\<close>.

  The engine accepts jobs over HTTP, keeps them in PostgreSQL, and runs each with a module. A
  scheduler claims due jobs under a lease and hands them to a runner; the runner looks the module up,
  gives it a step API (steps, connector calls with secrets, approval gates) and finalises the job
  by the outcome. The one module in production provisions infrastructure: it renders composite
  resources from a request, asks a policy, waits for an approval, commits the manifests to git,
  polls for health and calls back.

  \<^bold>\<open>Conventions.\<close> A struct is a record, an enumeration a datatype, a Go map an association list whose
  first entry for a key counts (\<open>alist_put\<close> replaces), \<open>any\<close> the datatype \<open>go_any\<close>, an error a
  string in the left summand, a nil pointer \<open>None\<close>, a panic a value of its own (\<open>Panics\<close>,
  \<open>Exec_panic\<close>, \<open>Run_panic\<close>). Times and durations are nanoseconds in \<open>int\<close>. A handler takes the
  state and returns it updated. A SQL statement is a function of the server's time and the
  database; \<open>exec_stmt\<close> runs it in an environment that may make the statement fail and may let
  other sessions change the database just before it, so that every sequence of statements is
  considered under all faults and interleavings. Log output, metrics and traces have no effect on
  the state and are left out.

  \<^bold>\<open>Theories and what they model.\<close>

  \<^item> \<open>RE_Prelude\<close>: strings, numbers, durations and dynamic values of Go as the source uses them, and
    the lemmas on rows and association lists that all theories share.
  \<^item> \<open>Job_Store\<close> (\<open>internal/db/schema.go\<close>): tables, enumerations, constraints, projections, and the
    environment of a connection.
  \<^item> \<open>Connectors\<close> (\<open>internal/connector\<close>): base connector, typed registry, families. Registries
    share the interface \<open>keyed_registry\<close>, which every registry interprets.
  \<^item> \<open>Step_Api\<close> (\<open>internal/runner/step_api.go\<close>): steps, connector calls with validation and secrets,
    the wait for approval.
  \<^item> \<open>Runner\<close> (\<open>internal/runner/service.go\<close>): \<open>RunJob\<close> and the finalisations. The four finalising
    updates interpret the interface \<open>fenced_finaliser\<close>: they touch only the running row of the
    run that asks.
  \<^item> \<open>Scheduler\<close> (\<open>internal/scheduler\<close>): the claim statement, dispatch, the loop, the lease manager.
  \<^item> \<open>Job_Intake\<close> (\<open>internal/transport/http/job_handler.go\<close>): submission with its idempotency record in
    memory and in the database, both interpreting \<open>idempotency_store\<close>; reading, listing, cancelling.
  \<^item> \<open>Lifecycle\<close>: the transition system of the database, one rule per statement that changes jobs; the
    handlers, the runner and the scheduler are shown to be sequences of these transitions.
  \<^item> \<open>Job_Ledger\<close>: the abstract specification, a ledger of job entries, and the refinement.
  \<^item> \<open>Outbox\<close> (\<open>internal/outbox\<close>): dispatcher and signer.
  \<^item> \<open>Approval\<close>, \<open>Approval_Handler\<close> (\<open>services.go\<close>, \<open>approval_worker.go\<close>, the decision handler of
    \<open>job_handler.go\<close>): policy engine, approval service with quorum, escalation and expiry, decisions
    in the database.
  \<^item> \<open>Middleware\<close> (\<open>middleware.go\<close>): token buckets, signing keys, tokens; \<open>Http_Routes\<close>
    (\<open>RegisterRoutes\<close> of \<open>server.go\<close>): the routes, and the way of a request through the middleware to a handler.
  \<^item> \<open>Infra_Params\<close>, \<open>Infra_Resolve\<close>, \<open>Infra_Catalog\<close>, \<open>Infra_Fragments\<close>, \<open>Infra_Xr\<close>, \<open>Infra_Engine\<close>
    (\<open>internal/module/infra/template\<close>): parameters, resolution tables, provisioning templates, the
    seventeen fragments, composite resources, the template engine; \<open>Infra_Rendering\<close> and
    \<open>Infra_Yaml\<close> hold their properties.
  \<^item> \<open>Infra_Health\<close>, \<open>Infra_Module\<close> (\<open>internal/module/infra\<close>): health polling, remediation, and
    \<open>Execute\<close> in phases over a history of calls and answers; \<open>Infra_Runs\<close> has the properties of all
    runs and the interface \<open>module_api\<close> that the runner's adapter interprets; \<open>Infra_Job\<close> runs the
    module inside the runner.
  \<^item> \<open>Module_Config\<close> (\<open>internal/module/config\<close>, \<open>factory.go\<close>, \<open>internal/registry\<close>, the resolver and the
    bootstrap of the runner): path confinement, typed configuration, assembly.
  \<^item> \<open>Dora\<close> (\<open>internal/dora\<close>): the normalisers of provider webhooks; \<open>Dora_Store\<close>: the DORA tables and
    their statements; \<open>Dora_Handler\<close> (\<open>dora_handler.go\<close>): ingestion, dead letters, listings and
    authorisation; \<open>Dora_Delivery\<close> and \<open>Dora_Redelivery\<close>: what holds of a webhook and of its repetition;
    \<open>Dora_Stats\<close>, \<open>Dora_Summary\<close>: the four measures, their queries and views, and the summaries.
  \<^item> \<open>Metrics_Writer\<close> (\<open>internal/observability/metrics_sql_writer.go\<close>): the queue and workers that record
    deployments, as a step relation.
  \<^item> \<open>Process_Config\<close> (\<open>internal/config\<close>) and \<open>Secrets\<close> (\<open>internal/secrets\<close>, \<open>secrets_handler.go\<close>, the
    platform route of \<open>server.go\<close>): the loader, the vault manager and the secret handlers.
  \<^item> \<open>Git_Github\<close>, \<open>Git_Gitea\<close> (\<open>internal/connector/github\<close>, \<open>gitea\<close>): the two Git connectors over recorded
    calls; \<open>Git_Server\<close>: the order of the calls, an abstract view of repositories with the promises of
    the server, and what a commit leaves on a branch; \<open>Git_Writes\<close>: base64, and the requests of a commit to Gitea.
  \<^item> \<open>Service_Connectors\<close> (\<open>internal/connector/policy\<close>, \<open>webhook\<close>, \<open>crossplane\<close>, \<open>aws\<close>,
    \<open>internal/runner/step_executor.go\<close>): the other connectors, and the interface \<open>closable\<close> that all six interpret.
  \<^item> \<open>Module_Queries\<close> (\<open>query_handler.go\<close>, \<open>internal/registry/module.go\<close>, \<open>internal/module/scaffold\<close>): the query API
    over the registry of the bootstrap, the descriptors, and the scaffold module.
  \<^item> \<open>Audit_Trail\<close> (\<open>internal/audit\<close>): the recording of events against the table of the schema, and the race of
    the goroutine that records the access to secrets.
  \<^item> \<open>Db_Schema\<close> (all statements of \<open>internal/db/schema.go\<close>): what creates a table, type, view, index or
    function, the effect of each statement on the catalog of the database, and the loop that runs them;
    \<open>External_Effects\<close>: the table of external effects and the SQL functions on it.
  \<^item> \<open>Family_Config\<close> (\<open>internal/connector/config.go\<close>): family bindings from a file and the environment.
  \<^item> \<open>Startup\<close> (\<open>cmd/release-engine/main.go\<close>, \<open>internal/connector/testing/crossplane_mock.go\<close>): the commands, the
    connectors that \<open>serve\<close> registers, the chain of steps that puts the components together, and what the
    engine it starts can run.

  \<^bold>\<open>What the theorems show.\<close> Fencing and leases: a run that lost its lease writes nothing, a running
  job is not taken before its lease ends, claims are fair by priority, finalisation happens once.
  Invariants: every row keeps its shape under all interleavings, finished jobs stay finished, the
  engine refines the ledger. Intake: resubmission is idempotent and changes nothing. Approvals:
  quorum, the exact condition of the policy, expiry, and what a decision stores. Middleware: the
  admission bound, and that a tenant who waits is admitted; every handler of
  the API is reached with a verified token only, by exactly one route.
  Rendering: only conforming requests are rendered, one document per capability, independent of
  map order. Module runs: nothing is committed before policy and approval, at most two commits,
  every run returns, success means delivery. Configuration: files are read only from their roots,
  configurations are well formed, connectors belong to their families. DORA: no webhook is dropped, a
  dead letter gives its webhook back, deliveries, replays and deployments count once, rates are
  percentages. Git: a branch is moved once, last and to a commit on the head that was read, and has then
  the files of the input over its own; Gitea is only written the files of the input. Secrets: each one stored or deleted was so by an authorised request in
  its tenant's vault. Startup: the schema can be created again after any start; the engine assembles the
  infrastructure module only from some configurations, and its policy gate is open. The error properties state
  behaviour the code has and does not mean to have; they are the findings of the manifest.

  \<^bold>\<open>Bounds and fuel.\<close> The health loop takes the number of its turns: 62 suffice, since the loop gives up
  after 30 s at 500 ms per turn and the clock runs (\<open>infra_execute_returns\<close>); with less fuel the
  model answers \<open>Pending\<close>, which no property takes for an end. The wait for approval and the
  scheduler's loop are driven by the list of their events, which may be of any length. All other
  functions are total.

  \<^bold>\<open>Parameters.\<close> Third-party code is an argument with named assumptions where a property needs one:
  the YAML package and title casing (\<open>yaml_env\<close>, \<open>status_env\<close>), the cron parser, the vault, digests
  and signatures, the GitHub, Kubernetes and AWS clients and the HTTP client, URL and IP parsing, the file system and environment variables (\<open>config_env\<close>), texts
  made by the standard library's formatting (\<open>go_texts\<close>), and the connectors, records of functions.

  \<^bold>\<open>Not modelled.\<close> The step API meets the connectors through the connector interface, about which its
  properties assume nothing; the models of the concrete connectors stand beside it. \<open>Startup\<close> joins the two
  for the policy connector, whose answers depend on its input alone; the answers of the connectors with a
  client stay an argument. Prometheus metrics, tracing, log output, the end-to-end bootstrap and the test
  doubles that \<open>serve\<close> does not register have no effect on the state. Two processes that create the schema at
  the same moment are not modelled, nor are rows in \<open>Db_Schema\<close>. The router that finds
  the route of a request is the HTTP framework's; \<open>Http_Routes\<close> states what it matches.
\<close>

section \<open>Properties of the whole engine\<close>

text \<open>C4: the engine implements its specification, the ledger of jobs. The engine runs the
  infrastructure module; its database satisfies the invariant. Whatever submissions and scheduler
  activity reach it, whatever the connectors answer, with statements failing and other sessions
  acting between any two of them, the ledger read from the database afterwards is one the
  specification allows: jobs appear queued with no attempt, start only while attempts are left or
  by schedule, each start counts one, and a job ends exhausted or succeeded only from running.\<close>

theorem engine_refines_ledger:
  assumes "db_ok d" "list_all engine_op_ok ops" "\<forall>k. env_ok (envs k)"
    "\<forall>p v m. rs_lookup s p v = Some m \<longrightarrow> (\<exists>im. m = infra_impl n me envf envs im)"
  shows "ledger_steps (ledger_of d) (ledger_of (snd (run_engine (Some s) ops (h, d))))"
  by (rule run_engine_refines [OF assms(1,2)])
    (use assms(3,4) infra_runner_ok [of envs s n me envf] in blast)

theorem engine_refines_ledger_witness:
  "ledger_steps (ledger_of ex_claim_db) (ledger_of (snd (run_engine (Some ex_infra_runner)
     [Submit (Job_Intake.ex_env ''j9'') (Body 10 (Some (ex_req ''a''))), Schedule [Sched_tick ex_tick, Sched_stop]]
     (new_job_handler True False, ex_claim_db))))"
  by (rule engine_refines_ledger [of ex_claim_db _ "\<lambda>_. quiet_env 21 True" ex_infra_runner 62 ex_module_env
        "\<lambda>_. Infra_Runs.ex_env ''healthy''"])
    (auto simp: ex_claim_db_ok ex_tick_ok Job_Intake.ex_env_def quiet_env_ok ex_infra_runner_def)

end
